(* ===== verification/Prelude.thy ===== *)
theory Prelude
  imports Main "HOL-Library.Word"
begin

text \<open>
  Shared vocabulary of the development: the error monad that renders Go's
  \<open>(value, error)\<close> returns, the part of Go's string library the components use, decimal
  printing, and the request and response of an HTTP handler.

  Strings are lists of bytes, as Go strings are. \<open>strings.ToLower\<close> and
  \<open>strings.TrimSpace\<close> are modelled on their ASCII range; a byte above 127 is left alone
  and is never white space.
\<close>

named_theorems err_simps \<open>rewrite rules of the error monad\<close>
named_theorems str_simps \<open>unfoldings of the string library, for evaluation\<close>

section \<open>The error monad\<close>

type_synonym ('e, 'a) result = "'e + 'a"

definition bindE :: "'e + 'a \<Rightarrow> ('a \<Rightarrow> 'e + 'b) \<Rightarrow> 'e + 'b" where
  "bindE m f = (case m of Inl e \<Rightarrow> Inl e | Inr a \<Rightarrow> f a)"

definition guardE :: "bool \<Rightarrow> 'e \<Rightarrow> 'e + unit" where
  "guardE b e = (if b then Inr () else Inl e)"

lemma bindE_Inl [simp, err_simps]: "bindE (Inl e) f = Inl e"
  by (simp add: bindE_def)

lemma bindE_Inr [simp, err_simps]: "bindE (Inr a) f = f a"
  by (simp add: bindE_def)

lemma bindE_eq_Inr [err_simps]: "bindE m f = Inr b \<longleftrightarrow> (\<exists>a. m = Inr a \<and> f a = Inr b)"
  by (cases m) auto

lemma bindE_eq_Inl [err_simps]:
  "bindE m f = Inl e \<longleftrightarrow> m = Inl e \<or> (\<exists>a. m = Inr a \<and> f a = Inl e)"
  by (cases m) auto

lemma bindE_assoc: "bindE (bindE m f) g = bindE m (\<lambda>a. bindE (f a) g)"
  by (cases m) auto

lemma bindE_cong [fundef_cong]:
  "m = m' \<Longrightarrow> (\<And>a. m' = Inr a \<Longrightarrow> f a = f' a) \<Longrightarrow> bindE m f = bindE m' f'"
  by (cases m') auto

lemma guardE_eq [err_simps]:
  "guardE b e = Inr u \<longleftrightarrow> b" "guardE b e = Inl e' \<longleftrightarrow> \<not> b \<and> e' = e"
  by (auto simp: guardE_def)

lemma guardE_True [simp]: "guardE True e = Inr ()"
  by (simp add: guardE_def)

lemma guardE_False [simp]: "guardE False e = Inl e"
  by (simp add: guardE_def)

definition is_ok :: "'e + 'a \<Rightarrow> bool" where
  "is_ok m = (case m of Inl _ \<Rightarrow> False | Inr _ \<Rightarrow> True)"

lemma is_ok_simps [simp]: "is_ok (Inr a)" "\<not> is_ok (Inl e)"
  by (simp_all add: is_ok_def)

lemma is_okE: "is_ok m \<Longrightarrow> (\<And>a. m = Inr a \<Longrightarrow> P) \<Longrightarrow> P"
  by (cases m) auto

text \<open>
  A step that changes a state and may report an error, followed by the rest of a function that
  returns a state and a result.
\<close>

definition andThen ::
    "'s \<times> 'e option \<Rightarrow> ('s \<Rightarrow> 's \<times> ('e, 'a) result) \<Rightarrow> 's \<times> ('e, 'a) result" where
  "andThen m k = (case m of (s, Some e) \<Rightarrow> (s, Inl e) | (s, None) \<Rightarrow> k s)"

lemma andThen_None [simp]: "andThen (s, None) k = k s"
  by (simp add: andThen_def)

lemma andThen_Some [simp]: "andThen (s, Some e) k = (s, Inl e)"
  by (simp add: andThen_def)

section \<open>Strings\<close>

definition lower_char :: "char \<Rightarrow> char" where
  "lower_char c =
     (let n = (of_char c :: nat) in if 65 \<le> n \<and> n \<le> 90 then char_of (n + 32) else c)"

definition upper_char :: "char \<Rightarrow> char" where
  "upper_char c =
     (let n = (of_char c :: nat) in if 97 \<le> n \<and> n \<le> 122 then char_of (n - 32) else c)"

definition to_lower :: "string \<Rightarrow> string" where
  "to_lower s = map lower_char s"

definition is_space :: "char \<Rightarrow> bool" where
  "is_space c = (let n = (of_char c :: nat) in n = 32 \<or> (9 \<le> n \<and> n \<le> 13))"

definition trim_space :: "string \<Rightarrow> string" where
  "trim_space s = rev (dropWhile is_space (rev (dropWhile is_space s)))"

definition has_prefix :: "string \<Rightarrow> string \<Rightarrow> bool" where
  "has_prefix s p = (take (length p) s = p)"

definition trim_prefix :: "string \<Rightarrow> string \<Rightarrow> string" where
  "trim_prefix s p = (if has_prefix s p then drop (length p) s else s)"

definition trim_suffix :: "string \<Rightarrow> string \<Rightarrow> string" where
  "trim_suffix s t =
     (if length t \<le> length s \<and> drop (length s - length t) s = t then take (length s - length t) s else s)"

definition has_suffix :: "string \<Rightarrow> string \<Rightarrow> bool" where
  "has_suffix s t \<longleftrightarrow> length t \<le> length s \<and> drop (length s - length t) s = t"

lemma has_suffix_append [simp]: "has_suffix (s @ t) t"
  by (simp add: has_suffix_def)

lemma has_suffix_single [simp]: "has_suffix s [c] \<longleftrightarrow> s \<noteq> [] \<and> last s = c"
  by (cases s rule: rev_cases) (auto simp: has_suffix_def)

lemma trim_suffix_append [simp]: "trim_suffix (s @ t) t = s"
  by (simp add: trim_suffix_def)

lemma trim_suffix_last: "s = [] \<or> last s \<noteq> c \<Longrightarrow> trim_suffix s [c] = s"
  by (cases s rule: rev_cases) (auto simp: trim_suffix_def)

fun split_on :: "char \<Rightarrow> string \<Rightarrow> string list" where
  "split_on c [] = [[]]"
| "split_on c (x # xs) =
     (if x = c then [] # split_on c xs
      else (case split_on c xs of [] \<Rightarrow> [[x]] | w # ws \<Rightarrow> (x # w) # ws))"

fun join_with :: "string \<Rightarrow> string list \<Rightarrow> string" where
  "join_with sep [] = []"
| "join_with sep [w] = w"
| "join_with sep (w # v # ws) = w @ sep @ join_with sep (v # ws)"

definition replace_char :: "char \<Rightarrow> string \<Rightarrow> string \<Rightarrow> string" where
  "replace_char c new s = concat (map (\<lambda>x. if x = c then new else [x]) s)"

lemma lower_char_idem: "lower_char (lower_char c) = lower_char c"
proof (cases "65 \<le> (of_char c :: nat) \<and> (of_char c :: nat) \<le> 90")
  case True
  then have "of_char (lower_char c) = (of_char c :: nat) + 32"
    by (simp add: lower_char_def Let_def of_char_of)
  with True show ?thesis by (simp add: lower_char_def[of "lower_char c"] Let_def)
next
  case False
  then show ?thesis by (auto simp: lower_char_def Let_def)
qed

lemma to_lower_idem: "to_lower (to_lower s) = to_lower s"
  by (simp add: to_lower_def lower_char_idem)

lemma split_on_nonempty [simp]: "split_on c s \<noteq> []"
  by (induction s) (auto split: list.splits)

lemma join_split [simp]: "join_with [c] (split_on c s) = s"
proof (induction s)
  case Nil
  then show ?case by simp
next
  case (Cons x xs)
  then show ?case
    by (cases "split_on c xs"; cases "tl (split_on c xs)") (auto split: list.splits)
qed

lemma split_on_single: "c \<notin> set s \<Longrightarrow> split_on c s = [s]"
  by (induction s) auto

lemma split_on_append: "c \<notin> set u \<Longrightarrow> split_on c (u @ c # v) = u # split_on c v"
  by (induction u) auto

lemma replace_char_none: "c \<notin> set s \<Longrightarrow> replace_char c new s = s"
  by (induction s) (auto simp: replace_char_def)

lemma replace_char_removed: "c \<notin> set new \<Longrightarrow> c \<notin> set (replace_char c new s)"
  by (auto simp: replace_char_def split: if_splits)

lemmas string_defs [str_simps] =
  to_lower_def lower_char_def upper_char_def trim_space_def is_space_def has_prefix_def
  trim_prefix_def replace_char_def

section \<open>Decimal printing: strconv.Itoa and the verb d of fmt\<close>

fun nat_digits :: "nat \<Rightarrow> string" where
  "nat_digits n =
     (if n < 10 then [char_of (48 + n)] else nat_digits (n div 10) @ [char_of (48 + n mod 10)])"

declare nat_digits.simps [simp del]

definition itoa :: "int \<Rightarrow> string" where
  "itoa i = (if i < 0 then ''-'' @ nat_digits (nat (- i)) else nat_digits (nat i))"

definition digit_val :: "char \<Rightarrow> nat" where
  "digit_val c = of_char c - 48"

definition undigits :: "string \<Rightarrow> nat" where
  "undigits s = foldl (\<lambda>a c. 10 * a + digit_val c) 0 s"

lemma digit_val_char_of: "d < 10 \<Longrightarrow> digit_val (char_of (48 + d)) = d"
  by (simp add: digit_val_def of_char_of)

lemma undigits_snoc: "undigits (s @ [c]) = 10 * undigits s + digit_val c"
  by (simp add: undigits_def)

lemma undigits_nat_digits: "undigits (nat_digits n) = n"
proof (induction n rule: nat_digits.induct)
  case (1 n)
  show ?case
  proof (cases "n < 10")
    case True
    then show ?thesis
      by (subst nat_digits.simps) (simp add: undigits_def digit_val_char_of)
  next
    case False
    with "1.IH" have "undigits (nat_digits (n div 10)) = n div 10" by simp
    with False show ?thesis
      by (subst nat_digits.simps) (simp add: undigits_snoc digit_val_char_of)
  qed
qed

lemma nat_digits_inj: "nat_digits m = nat_digits n \<longleftrightarrow> m = n"
  by (metis undigits_nat_digits)

lemma nat_digits_set: "c \<in> set (nat_digits n) \<Longrightarrow> \<exists>d::nat. d < 10 \<and> c = char_of (48 + d)"
proof (induction n rule: nat_digits.induct)
  case (1 n)
  show ?case
  proof (cases "n < 10")
    case True
    with "1.prems" show ?thesis by (subst (asm) nat_digits.simps) auto
  next
    case False
    with "1.prems" consider "c \<in> set (nat_digits (n div 10))" | "c = char_of (48 + n mod 10)"
      by (subst (asm) nat_digits.simps) auto
    then show ?thesis
    proof cases
      case 1
      with False "1.IH" show ?thesis by simp
    next
      case 2
      then show ?thesis by (intro exI[of _ "n mod 10"]) simp
    qed
  qed
qed

lemma nat_digits_no_minus: "CHR ''-'' \<notin> set (nat_digits n)"
proof
  assume "CHR ''-'' \<in> set (nat_digits n)"
  then obtain d :: nat where "d < 10" and "CHR ''-'' = char_of (48 + d)"
    using nat_digits_set by blast
  then have "(of_char (CHR ''-'') :: nat) = 48 + d" by (simp add: of_char_of)
  then show False by simp
qed

lemma nat_digits_no_colon: "CHR '':'' \<notin> set (nat_digits n)"
proof
  assume "CHR '':'' \<in> set (nat_digits n)"
  then obtain d :: nat where "d < 10" and "CHR '':'' = char_of (48 + d)"
    using nat_digits_set by blast
  then have "(of_char (CHR '':'') :: nat) = 48 + d" by (simp add: of_char_of)
  with \<open>d < 10\<close> show False by simp
qed

lemma nat_digits_not_Nil [simp]: "nat_digits n \<noteq> []"
  by (subst nat_digits.simps) simp

lemma itoa_inj: "itoa i = itoa j \<longleftrightarrow> i = j"
proof
  assume eq: "itoa i = itoa j"
  have no: "nat_digits k \<noteq> CHR ''-'' # xs" for k xs
    using nat_digits_no_minus[of k] by auto
  show "i = j"
  proof (cases "i < 0"; cases "j < 0")
    assume "i < 0" "j < 0"
    with eq have "nat (- i) = nat (- j)" by (simp add: itoa_def nat_digits_inj)
    with \<open>i < 0\<close> \<open>j < 0\<close> show ?thesis by simp
  next
    assume "\<not> i < 0" "\<not> j < 0"
    with eq have "nat i = nat j" by (simp add: itoa_def nat_digits_inj)
    with \<open>\<not> i < 0\<close> \<open>\<not> j < 0\<close> show ?thesis by simp
  next
    assume "i < 0" "\<not> j < 0"
    with eq no[of "nat j" "nat_digits (nat (- i))"] show ?thesis by (auto simp: itoa_def)
  next
    assume "\<not> i < 0" "j < 0"
    with eq no[of "nat i" "nat_digits (nat (- j))"] show ?thesis by (auto simp: itoa_def)
  qed
qed simp

section \<open>Requests and responses\<close>

text \<open>
  What the handlers read of an \<open>*http.Request\<close>. Header, form and query maps hold a list of
  values per (canonical) key; \<open>Get\<close>, \<open>FormValue\<close> and \<open>PostFormValue\<close> return the first value
  or the empty string. \<open>Vars\<close> are the path variables of the router, \<open>formErr\<close> is the error
  \<open>ParseForm\<close> reports. A handler that decodes a JSON body takes the outcome of the decoding,
  an error or a value, as an argument of its own.
\<close>

record request =
  Method :: string
  Header :: "string \<Rightarrow> string list"
  Vars :: "string \<rightharpoonup> string"
  Query :: "string \<Rightarrow> string list"
  Form :: "string \<rightharpoonup> string list"
  PostForm :: "string \<rightharpoonup> string list"
  formErr :: "string option"

definition first_value :: "string list \<Rightarrow> string" where
  "first_value vs = (case vs of [] \<Rightarrow> [] | v # _ \<Rightarrow> v)"

definition header_get :: "request \<Rightarrow> string \<Rightarrow> string" where
  "header_get r k = first_value (Header r k)"

definition query_get :: "request \<Rightarrow> string \<Rightarrow> string" where
  "query_get r k = first_value (Query r k)"

definition values_get :: "(string \<rightharpoonup> string list) \<Rightarrow> string \<Rightarrow> string" where
  "values_get m k = (case m k of None \<Rightarrow> [] | Some vs \<Rightarrow> first_value vs)"

definition FormValue :: "request \<Rightarrow> string \<Rightarrow> string" where
  "FormValue r k = values_get (Form r) k"

definition PostFormValue :: "request \<Rightarrow> string \<Rightarrow> string" where
  "PostFormValue r k = values_get (PostForm r) k"

definition path_var :: "request \<Rightarrow> string \<Rightarrow> string" where
  "path_var r k = (case Vars r k of None \<Rightarrow> [] | Some v \<Rightarrow> v)"

definition empty_request :: request where
  "empty_request = \<lparr>Method = ''GET'', Header = (\<lambda>_. []), Vars = Map.empty, Query = (\<lambda>_. []),
     Form = Map.empty, PostForm = Map.empty, formErr = None\<rparr>"

text \<open>
  What a handler writes: \<open>http.Error\<close>, \<open>http.Redirect\<close>, a page or JSON document, or nothing
  (net/http then answers 200 with an empty body). A handler that panics is recovered by
  net/http, which drops the connection: \<open>Aborted\<close>.
\<close>

datatype 'p response =
    HttpError nat string
  | Redirect nat string
  | Page 'p
  | NoContent
  | Aborted

type_synonym http_answer = "nat \<times> string"

definition StatusOK :: nat where "StatusOK = 200"
definition StatusFound :: nat where "StatusFound = 302"
definition StatusSeeOther :: nat where "StatusSeeOther = 303"
definition StatusBadRequest :: nat where "StatusBadRequest = 400"
definition StatusUnauthorized :: nat where "StatusUnauthorized = 401"
definition StatusNotFound :: nat where "StatusNotFound = 404"
definition StatusMethodNotAllowed :: nat where "StatusMethodNotAllowed = 405"
definition StatusConflict :: nat where "StatusConflict = 409"
definition StatusInternalServerError :: nat where "StatusInternalServerError = 500"

section \<open>Query escaping: url.QueryEscape\<close>

definition hex_digit :: "nat \<Rightarrow> char" where
  "hex_digit n = (if n < 10 then char_of (48 + n) else char_of (55 + n))"

definition unreserved :: "char \<Rightarrow> bool" where
  "unreserved c =
     (let n = (of_char c :: nat) in
      (48 \<le> n \<and> n \<le> 57) \<or> (65 \<le> n \<and> n \<le> 90) \<or> (97 \<le> n \<and> n \<le> 122) \<or> c \<in> set ''-_.~'')"

definition escape_char :: "char \<Rightarrow> string" where
  "escape_char c =
     (if unreserved c then [c]
      else if c = CHR '' '' then ''+''
      else [CHR ''%'', hex_digit (of_char c div 16), hex_digit (of_char c mod 16)])"

definition query_escape :: "string \<Rightarrow> string" where
  "query_escape s = concat (map escape_char s)"

section \<open>Services: a request handler over a state\<close>

text \<open>
  Every server of the repository is a handler \<open>request \<Rightarrow> state \<Rightarrow> state \<times> response\<close>.
  The contract \<open>service\<close> asks that one request keeps an invariant; its lemmas carry the
  invariant to every sequence of requests. Each server theory interprets it on its own
  handler.
\<close>

fun run_service :: "('r \<Rightarrow> 's \<Rightarrow> 's \<times> 'w) \<Rightarrow> 'r list \<Rightarrow> 's \<Rightarrow> 's" where
  "run_service step [] s = s"
| "run_service step (r # rs) s = run_service step rs (fst (step r s))"

lemma run_service_append:
  "run_service step (rs @ rs') s = run_service step rs' (run_service step rs s)"
  by (induction rs arbitrary: s) auto

locale service =
  fixes step :: "'r \<Rightarrow> 's \<Rightarrow> 's \<times> 'w"
    and inv :: "'s \<Rightarrow> bool"
  assumes step_inv: "inv s \<Longrightarrow> inv (fst (step r s))"
begin

lemma run_inv: "inv s \<Longrightarrow> inv (run_service step rs s)"
  by (induction rs arbitrary: s) (auto intro: step_inv)

lemma run_frame:
  assumes "inv s" and "\<And>r s. inv s \<Longrightarrow> f (fst (step r s)) = f s"
  shows "f (run_service step rs s) = f s"
  using assms(1)
proof (induction rs arbitrary: s)
  case Nil
  then show ?case by simp
next
  case (Cons r rs)
  then have "f (run_service step rs (fst (step r s))) = f (fst (step r s))"
    by (blast intro: step_inv)
  with Cons.prems show ?case by (simp add: assms(2))
qed

end

section \<open>Lists and relations\<close>

lemma distinct_filter_eq_single:
  assumes "distinct xs" and "x \<in> set xs"
  shows "filter (\<lambda>y. y = x) xs = [x]"
  using assms by (induction xs) (auto simp: filter_empty_conv)

lemma length_filter_eq_1:
  assumes "distinct xs" and "x \<in> set xs"
  shows "length (filter (\<lambda>y. y = x) xs) = 1"
  using distinct_filter_eq_single[OF assms] by simp

lemma rtrancl_closed:
  assumes "(a, b) \<in> r\<^sup>*" and "a \<in> X" and "\<And>x y. x \<in> X \<Longrightarrow> (x, y) \<in> r \<Longrightarrow> y \<in> X"
  shows "b \<in> X"
  using assms by (induction rule: rtrancl_induct) auto

lemma acyclic_insert_iff: "acyclic (insert (a, b) r) \<longleftrightarrow> acyclic r \<and> (b, a) \<notin> r\<^sup>*"
  by (rule acyclic_insert)

end
