(* ===== verification/Memberships.thy ===== *)
theory Memberships
  imports Prelude
begin

text \<open>
  The membership store of \<open>src/core/auth/memberships/main.go\<close>: the five SQLite tables as lists
  of rows in insertion order, one definition per method of \<open>SQLiteStore\<close>, and the recursive
  walk \<open>getAllParentGroupsRecursive\<close> with its shared \<open>visited\<close> map.

  SQLite itself is outside the repository. What a statement does to the tables follows the
  schema (primary key, unique pairs); whether the foreign keys are enforced is a setting of the
  driver, so it is a parameter. Any statement may also fail: \<open>sqlFault\<close> says which statements
  the database refuses, and with which message. A failed statement changes nothing, and a
  failed transaction is rolled back. The order of rows of a SELECT is not specified by SQL; the
  theorems speak of sets and of the absence of duplicates only.
\<close>

section \<open>Tables and statements\<close>

record Group =
  gName :: string
  gDescription :: string

record db =
  groups :: "Group list"
  owners :: "(string \<times> string) list"  \<comment> \<open>username, group name\<close>
  owner_groups :: "(string \<times> string) list"  \<comment> \<open>owner group, owned group\<close>
  group_to_group :: "(string \<times> string) list"  \<comment> \<open>parent group, child group\<close>
  user_to_group :: "(string \<times> string) list"  \<comment> \<open>username, group name\<close>

datatype sql =
    Begin | Commit | CountGroups
  | InsertGroup string | InsertOwner string string | InsertMember string string
  | InsertOwnerGroup string string | InsertGroupToGroup string string
  | SelectOwnedBy string | SelectBelongsTo string | SelectParents string
  | SelectChildren string | SelectIsOwner string string | SelectUsers string string
  | SelectDescription string | SelectExists string | SelectOwnerGroups string
  | SelectMemberOfOwner string string | SelectAllGroups
  | DeleteGroupToGroup string string | DeleteUser string string string

datatype sqlerr = Constraint nat | Failure string

record sqlenv =
  sqlFault :: "sql \<Rightarrow> string option"
  foreignKeys :: bool
  sqlText :: "nat \<Rightarrow> string"  \<comment> \<open>the driver's message for an extended error code\<close>

definition ErrorUniqueConstraintViolation :: nat where
  "ErrorUniqueConstraintViolation = 2067"

definition ErrorConstraintPrimaryKeyViolation :: nat where
  "ErrorConstraintPrimaryKeyViolation = 1555"

definition no_faults :: "sqlenv \<Rightarrow> bool" where
  "no_faults E \<longleftrightarrow> (\<forall>q. sqlFault E q = None)"

definition healthy :: sqlenv where
  "healthy = \<lparr>sqlFault = (\<lambda>_. None), foreignKeys = False, sqlText = (\<lambda>_. ''sqlite3'')\<rparr>"

definition run :: "sqlenv \<Rightarrow> sql \<Rightarrow> (sqlerr, 'a) result \<Rightarrow> (sqlerr, 'a) result" where
  "run E q r = (case sqlFault E q of Some m \<Rightarrow> Inl (Failure m) | None \<Rightarrow> r)"

fun sql_message :: "sqlenv \<Rightarrow> sqlerr \<Rightarrow> string" where
  "sql_message E (Constraint c) = sqlText E c"
| "sql_message E (Failure m) = m"

definition plain :: "sqlenv \<Rightarrow> (sqlerr, 'a) result \<Rightarrow> (string, 'a) result" where
  "plain E m = (case m of Inl e \<Rightarrow> Inl (sql_message E e) | Inr a \<Rightarrow> Inr a)"

definition translate :: "sqlenv \<Rightarrow> nat \<Rightarrow> string \<Rightarrow> (sqlerr, 'a) result \<Rightarrow> (string, 'a) result" where
  "translate E code msg m =
     (case m of Inl e \<Rightarrow> if e = Constraint code then Inl msg else Inl (sql_message E e)
      | Inr a \<Rightarrow> Inr a)"

definition wrap_error :: "string \<Rightarrow> (string, 'a) result \<Rightarrow> (string, 'a) result" where
  "wrap_error pre m = (case m of Inl e \<Rightarrow> Inl (pre @ e) | Inr a \<Rightarrow> Inr a)"

definition has_group :: "db \<Rightarrow> string \<Rightarrow> bool" where
  "has_group d n = (n \<in> set (map gName (groups d)))"

definition references_ok :: "sqlenv \<Rightarrow> db \<Rightarrow> string list \<Rightarrow> bool" where
  "references_ok E d ns = (\<not> foreignKeys E \<or> list_all (has_group d) ns)"

definition insert_pair ::
    "sqlenv \<Rightarrow> db \<Rightarrow> sql \<Rightarrow> (string \<times> string) list \<Rightarrow> string \<times> string \<Rightarrow> string list
     \<Rightarrow> (sqlerr, (string \<times> string) list) result" where
  "insert_pair E d q rows row refs =
     run E q
       (if row \<in> set rows then Inl (Constraint ErrorUniqueConstraintViolation)
        else if \<not> references_ok E d refs then Inl (Constraint 787)
        else Inr (rows @ [row]))"

definition insert_group :: "sqlenv \<Rightarrow> Group \<Rightarrow> db \<Rightarrow> (sqlerr, db) result" where
  "insert_group E g d =
     run E (InsertGroup (gName g))
       (if has_group d (gName g) then Inl (Constraint ErrorConstraintPrimaryKeyViolation)
        else Inr (d\<lparr>groups := groups d @ [g]\<rparr>))"

definition insert_owner :: "sqlenv \<Rightarrow> string \<Rightarrow> string \<Rightarrow> db \<Rightarrow> (sqlerr, db) result" where
  "insert_owner E u g d =
     bindE (insert_pair E d (InsertOwner u g) (owners d) (u, g) [g])
       (\<lambda>rows. Inr (d\<lparr>owners := rows\<rparr>))"

definition insert_member :: "sqlenv \<Rightarrow> string \<Rightarrow> string \<Rightarrow> db \<Rightarrow> (sqlerr, db) result" where
  "insert_member E u g d =
     bindE (insert_pair E d (InsertMember u g) (user_to_group d) (u, g) [g])
       (\<lambda>rows. Inr (d\<lparr>user_to_group := rows\<rparr>))"

section \<open>SQLiteStore\<close>

definition NewSQLiteStore :: db where
  "NewSQLiteStore =
     \<lparr>groups = [], owners = [], owner_groups = [], group_to_group = [], user_to_group = []\<rparr>"

fun init_groups :: "sqlenv \<Rightarrow> string \<Rightarrow> string list \<Rightarrow> db \<Rightarrow> (sqlerr, db) result" where
  "init_groups E owner [] d = Inr d"
| "init_groups E owner (g # gs) d =
     bindE (insert_group E \<lparr>gName = g, gDescription = []\<rparr> d)
       (\<lambda>d. bindE (insert_owner E owner g d)
         (\<lambda>d. bindE (insert_member E owner g d)
           (\<lambda>d. init_groups E owner gs d)))"

definition Init :: "sqlenv \<Rightarrow> string \<Rightarrow> string list \<Rightarrow> db \<Rightarrow> (string, db) result" where
  "Init E owner gs d =
     bindE (plain E (run E Begin (Inr ())))
       (\<lambda>_. bindE (plain E (run E CountGroups (Inr (length (groups d)))))
         (\<lambda>count. if count \<noteq> 0 then Inl ''store already initialised''
           else bindE (plain E (init_groups E owner gs d))
             (\<lambda>d'. plain E (run E Commit (Inr d')))))"

definition GetGroupsOwnedBy :: "sqlenv \<Rightarrow> string \<Rightarrow> db \<Rightarrow> (string, Group list) result" where
  "GetGroupsOwnedBy E user d =
     plain E (run E (SelectOwnedBy user)
       (Inr [g. g \<leftarrow> groups d, (u, n) \<leftarrow> owners d, gName g = n \<and> u = user]))"

definition GetGroupsUserBelongsTo :: "sqlenv \<Rightarrow> string \<Rightarrow> db \<Rightarrow> (string, Group list) result" where
  "GetGroupsUserBelongsTo E user d =
     plain E (run E (SelectBelongsTo user)
       (Inr [g. g \<leftarrow> groups d, (u, n) \<leftarrow> user_to_group d, gName g = n \<and> u = user]))"

definition CreateGroup :: "sqlenv \<Rightarrow> string \<Rightarrow> Group \<Rightarrow> db \<Rightarrow> (string, db) result" where
  "CreateGroup E owner grp d =
     bindE (plain E (run E Begin (Inr ())))
       (\<lambda>_. bindE (translate E ErrorConstraintPrimaryKeyViolation
               (''Group with the name '' @ gName grp @ '' already exists'')
               (insert_group E grp d))
         (\<lambda>d'. bindE (plain E (insert_owner E owner (gName grp) d'))
           (\<lambda>d''. plain E (run E Commit (Inr d'')))))"

definition IsGroupOwner :: "sqlenv \<Rightarrow> string \<Rightarrow> string \<Rightarrow> db \<Rightarrow> (string, bool) result" where
  "IsGroupOwner E user grp d =
     plain E (run E (SelectIsOwner user grp) (Inr ((user, grp) \<in> set (owners d))))"

definition AddGroupMember :: "sqlenv \<Rightarrow> string \<Rightarrow> string \<Rightarrow> db \<Rightarrow> (string, db) result" where
  "AddGroupMember E user grp d =
     translate E ErrorUniqueConstraintViolation
       (user @ '' is already a member of group '' @ grp) (insert_member E user grp d)"

definition AddGroupOwner :: "sqlenv \<Rightarrow> string \<Rightarrow> string \<Rightarrow> db \<Rightarrow> (string, db) result" where
  "AddGroupOwner E user grp d =
     translate E ErrorUniqueConstraintViolation
       (user @ '' is already an owner of group '' @ grp) (insert_owner E user grp d)"

definition users_of :: "string \<Rightarrow> (string \<times> string) list \<Rightarrow> string list" where
  "users_of grp rows = map fst (filter (\<lambda>(u, g). g = grp) rows)"

definition getUsersByGroup ::
    "sqlenv \<Rightarrow> string \<Rightarrow> (db \<Rightarrow> (string \<times> string) list) \<Rightarrow> string \<Rightarrow> db
     \<Rightarrow> (string, string list) result" where
  "getUsersByGroup E table rows grp d =
     plain E (run E (SelectUsers table grp) (Inr (users_of grp (rows d))))"

definition GetGroupOwners :: "sqlenv \<Rightarrow> string \<Rightarrow> db \<Rightarrow> (string, string list) result" where
  "GetGroupOwners E grp d = getUsersByGroup E ''owners'' owners grp d"

definition GetGroupMembers :: "sqlenv \<Rightarrow> string \<Rightarrow> db \<Rightarrow> (string, string list) result" where
  "GetGroupMembers E grp d = getUsersByGroup E ''user_to_group'' user_to_group grp d"

definition GetGroupDescription :: "sqlenv \<Rightarrow> string \<Rightarrow> db \<Rightarrow> (string, string) result" where
  "GetGroupDescription E grp d =
     plain E (run E (SelectDescription grp)
       (case filter (\<lambda>g. gName g = grp) (groups d) of
          [] \<Rightarrow> Inl (Failure ''sql: no rows in result set'')
        | g # _ \<Rightarrow> Inr (gDescription g)))"

definition DoesGroupExist :: "sqlenv \<Rightarrow> string \<Rightarrow> db \<Rightarrow> (string, bool) result" where
  "DoesGroupExist E grp d = plain E (run E (SelectExists grp) (Inr (has_group d grp)))"

definition parents_of :: "db \<Rightarrow> string \<Rightarrow> Group list" where
  "parents_of d grp =
     [g. g \<leftarrow> groups d, (p, c) \<leftarrow> group_to_group d, gName g = p \<and> c = grp]"

definition GetGroupsGroupBelongsTo :: "sqlenv \<Rightarrow> string \<Rightarrow> db \<Rightarrow> (string, Group list) result" where
  "GetGroupsGroupBelongsTo E grp d =
     plain E (run E (SelectParents grp) (Inr (parents_of d grp)))"

definition GetDirectChildrenGroups :: "sqlenv \<Rightarrow> string \<Rightarrow> db \<Rightarrow> (string, Group list) result" where
  "GetDirectChildrenGroups E grp d =
     plain E (run E (SelectChildren grp)
       (Inr [g. g \<leftarrow> groups d, (p, c) \<leftarrow> group_to_group d, gName g = c \<and> p = grp]))"

text \<open>
  The nodes a walk may visit and expand: every group, and every child of an edge. The measure
  of the walk counts those not yet visited.
\<close>

definition walk_nodes :: "db \<Rightarrow> string set" where
  "walk_nodes d = set (map gName (groups d)) \<union> set (map snd (group_to_group d))"

lemma finite_walk_nodes [simp]: "finite (walk_nodes d)"
  by (simp add: walk_nodes_def)

lemma parents_of_outside: "n \<notin> walk_nodes d \<Longrightarrow> parents_of d n = []"
  by (force simp: parents_of_def walk_nodes_def)

lemma GetGroupsGroupBelongsTo_Inr:
  "GetGroupsGroupBelongsTo E n d = Inr ps \<Longrightarrow> ps = parents_of d n"
  by (auto simp: GetGroupsGroupBelongsTo_def plain_def run_def split: sum.splits option.splits)

text \<open>
  \<open>visited\<close> is one Go map shared by all the recursive calls, so the model threads it: a call
  returns the groups it found and the map as it leaves it.
\<close>

function (sequential) getAllParentGroupsRecursive ::
    "sqlenv \<Rightarrow> db \<Rightarrow> Group list \<Rightarrow> string set \<Rightarrow> (string, Group list \<times> string set) result" where
  "getAllParentGroupsRecursive E d [] visited = Inr ([], visited)"
| "getAllParentGroupsRecursive E d (g # gs) visited =
     (if gName g \<in> visited then getAllParentGroupsRecursive E d gs visited
      else
        (case GetGroupsGroupBelongsTo E (gName g) d of
           Inl e \<Rightarrow> Inl e
         | Inr p \<Rightarrow>
             (case getAllParentGroupsRecursive E d p (insert (gName g) visited) of
                Inl e \<Rightarrow> Inl e
              | Inr (res, visited') \<Rightarrow>
                  (case getAllParentGroupsRecursive E d gs visited' of
                     Inl e \<Rightarrow> Inl e
                   | Inr (ret, visited'') \<Rightarrow> Inr (g # res @ ret, visited'')))))"
  by pat_completeness auto

lemma walk_visited_mono:
  "getAllParentGroupsRecursive_dom (E, d, gs, visited) \<Longrightarrow>
   getAllParentGroupsRecursive E d gs visited = Inr (ret, visited') \<Longrightarrow> visited \<subseteq> visited'"
  by (induction E d gs visited arbitrary: ret visited' rule: getAllParentGroupsRecursive.pinduct)
    (fastforce simp: getAllParentGroupsRecursive.psimps split: if_splits sum.splits prod.splits)+

lemma card_walk_less:
  "gName g \<in> walk_nodes d \<Longrightarrow> gName g \<notin> v \<Longrightarrow> insert (gName g) v \<subseteq> v' \<Longrightarrow>
   card (walk_nodes d - v') < card (walk_nodes d - v)"
  by (rule psubset_card_mono) auto

lemma card_walk_le: "v \<subseteq> v' \<Longrightarrow> card (walk_nodes d - v') \<le> card (walk_nodes d - v)"
  by (rule card_mono) auto

termination getAllParentGroupsRecursive
proof (relation "inv_image (less_than <*lex*> less_than)
    (\<lambda>(E, d, gs, v). (card (walk_nodes d - v), length gs))", goal_cases)
  case 1
  then show ?case by auto
next
  case (2 E d g gs v)
  then show ?case by simp
next
  case (3 E d g gs v p)
  then have p: "p = parents_of d (gName g)" by (simp add: GetGroupsGroupBelongsTo_Inr)
  show ?case
  proof (cases "gName g \<in> walk_nodes d")
    case True
    with 3 card_walk_less[of g d v "insert (gName g) v"] show ?thesis by simp
  next
    case False
    then have "p = []" using p by (simp add: parents_of_outside)
    moreover have "card (walk_nodes d - insert (gName g) v) \<le> card (walk_nodes d - v)"
      by (rule card_walk_le) auto
    ultimately show ?thesis by auto
  qed
next
  case (4 E d g gs v p q res v')
  then have "insert (gName g) v \<subseteq> v'" using walk_visited_mono by blast
  then have "card (walk_nodes d - v') \<le> card (walk_nodes d - v)" by (intro card_walk_le) auto
  then show ?case by auto
qed

definition walk_result :: "(string, Group list \<times> string set) result \<Rightarrow> (string, Group list) result" where
  "walk_result m = (case m of Inl e \<Rightarrow> Inl e | Inr (ret, _) \<Rightarrow> Inr ret)"

definition GetAllTransitiveGroupsForUser :: "sqlenv \<Rightarrow> string \<Rightarrow> db \<Rightarrow> (string, Group list) result" where
  "GetAllTransitiveGroupsForUser E user d =
     bindE (GetGroupsUserBelongsTo E user d)
       (\<lambda>gs. walk_result (getAllParentGroupsRecursive E d gs {}))"

definition GetAllTransitiveGroupsForGroup :: "sqlenv \<Rightarrow> string \<Rightarrow> db \<Rightarrow> (string, Group list) result" where
  "GetAllTransitiveGroupsForGroup E grp d =
     bindE (GetGroupsGroupBelongsTo E grp d)
       (\<lambda>p. walk_result (getAllParentGroupsRecursive E d p {grp}))"

definition AddChildGroup :: "sqlenv \<Rightarrow> string \<Rightarrow> string \<Rightarrow> db \<Rightarrow> (string, db) result" where
  "AddChildGroup E parent child d =
     bindE (guardE (parent \<noteq> child) ''parent and child groups can not have same name'')
       (\<lambda>_. bindE (wrap_error ''error checking parent group existence: '' (DoesGroupExist E parent d))
         (\<lambda>ex. bindE (guardE ex (''parent group with name '' @ parent @ '' does not exist''))
           (\<lambda>_. bindE (wrap_error ''error checking child group existence: '' (DoesGroupExist E child d))
             (\<lambda>ex. bindE (guardE ex (''child group with name '' @ child @ '' does not exist''))
               (\<lambda>_. bindE (GetAllTransitiveGroupsForGroup E parent d)
                 (\<lambda>parentGroups.
                   bindE (guardE (child \<notin> gName ` set parentGroups)
                     (''circular reference detected: group '' @ child
                       @ '' is already a parent of group '' @ parent))
                   (\<lambda>_. translate E ErrorUniqueConstraintViolation
                     (''child group name '' @ child @ '' already exists in group '' @ parent)
                     (bindE (insert_pair E d (InsertGroupToGroup parent child) (group_to_group d)
                               (parent, child) [parent, child])
                        (\<lambda>rows. Inr (d\<lparr>group_to_group := rows\<rparr>))))))))))"

definition RemoveFromGroupToGroup :: "sqlenv \<Rightarrow> string \<Rightarrow> string \<Rightarrow> db \<Rightarrow> (string, db) result" where
  "RemoveFromGroupToGroup E parent child d =
     bindE (plain E (run E (DeleteGroupToGroup parent child)
              (Inr (filter (\<lambda>r. r = (parent, child)) (group_to_group d),
                    filter (\<lambda>r. r \<noteq> (parent, child)) (group_to_group d)))))
       (\<lambda>(deleted, rest).
          if length deleted = 0
          then Inl (''pair of parent '' @ [CHR 0x27] @ parent @ [CHR 0x27] @ '' and child ''
                 @ [CHR 0x27] @ child @ [CHR 0x27] @ '' groups not found'')
          else Inr (d\<lparr>group_to_group := rest\<rparr>))"

definition delete_user ::
    "sqlenv \<Rightarrow> string \<Rightarrow> string \<Rightarrow> string \<Rightarrow> db \<Rightarrow> (sqlerr, nat \<times> db) result" where
  "delete_user E username groupName tableName d =
     run E (DeleteUser username groupName tableName)
       (if tableName = ''owners'' then
          Inr (length (filter (\<lambda>r. r = (username, groupName)) (owners d)),
               d\<lparr>owners := filter (\<lambda>r. r \<noteq> (username, groupName)) (owners d)\<rparr>)
        else if tableName = ''user_to_group'' then
          Inr (length (filter (\<lambda>r. r = (username, groupName)) (user_to_group d)),
               d\<lparr>user_to_group := filter (\<lambda>r. r \<noteq> (username, groupName)) (user_to_group d)\<rparr>)
        else Inl (Constraint 1))"

definition RemoveUserFromTable ::
    "sqlenv \<Rightarrow> string \<Rightarrow> string \<Rightarrow> string \<Rightarrow> db \<Rightarrow> (string, db) result" where
  "RemoveUserFromTable E username groupName tableName d =
     bindE (if tableName = ''owners''
            then bindE (GetGroupOwners E groupName d)
              (\<lambda>os. guardE (length os \<noteq> 1) ''cannot remove the last owner of the group'')
            else Inr ())
       (\<lambda>_. bindE (plain E (delete_user E username groupName tableName d))
         (\<lambda>(n, d').
            if n = 0
            then Inl (''pair of group '' @ [CHR 0x27] @ groupName @ [CHR 0x27] @ '' and user ''
                   @ [CHR 0x27] @ username @ [CHR 0x27] @ '' not found'')
            else Inr d'))"

definition AddOwnerGroup :: "sqlenv \<Rightarrow> string \<Rightarrow> string \<Rightarrow> db \<Rightarrow> (string, db) result" where
  "AddOwnerGroup E owner_group owned_group d =
     bindE (guardE (owned_group \<noteq> owner_group) ''group can not own itself'')
       (\<lambda>_. bindE (wrap_error ''error checking owned group existence: '' (DoesGroupExist E owned_group d))
         (\<lambda>ex. bindE (guardE ex (''owned group with name '' @ owned_group @ '' does not exist''))
           (\<lambda>_. bindE (wrap_error ''error checking owner group existence: '' (DoesGroupExist E owner_group d))
             (\<lambda>ex. bindE (guardE ex (''owner group with name '' @ owner_group @ '' does not exist''))
               (\<lambda>_. translate E ErrorUniqueConstraintViolation
                 (''group named '' @ owner_group @ '' is already owner of a group '' @ owned_group)
                 (bindE (insert_pair E d (InsertOwnerGroup owner_group owned_group) (owner_groups d)
                           (owner_group, owned_group) [owner_group, owned_group])
                    (\<lambda>rows. Inr (d\<lparr>owner_groups := rows\<rparr>))))))))"

definition GetGroupOwnerGroups :: "sqlenv \<Rightarrow> string \<Rightarrow> db \<Rightarrow> (string, Group list) result" where
  "GetGroupOwnerGroups E grp d =
     plain E (run E (SelectOwnerGroups grp)
       (Inr [g. g \<leftarrow> groups d, (a, b) \<leftarrow> owner_groups d, gName g = a \<and> b = grp]))"

definition member_of_owner_group :: "db \<Rightarrow> string \<Rightarrow> string \<Rightarrow> bool" where
  "member_of_owner_group d user grp =
     list_ex (\<lambda>(a, b). b = grp \<and> list_ex (\<lambda>(u, g). g = a \<and> u = user) (user_to_group d))
       (owner_groups d)"

definition IsMemberOfOwnerGroup :: "sqlenv \<Rightarrow> string \<Rightarrow> string \<Rightarrow> db \<Rightarrow> (string, bool) result" where
  "IsMemberOfOwnerGroup E user grp d =
     plain E (run E (SelectMemberOfOwner user grp) (Inr (member_of_owner_group d user grp)))"

definition GetAllGroups :: "sqlenv \<Rightarrow> db \<Rightarrow> (string, Group list) result" where
  "GetAllGroups E d = plain E (run E SelectAllGroups (Inr (groups d)))"

section \<open>Basic facts of the statements\<close>

lemma run_Inr: "run E q r = Inr a \<Longrightarrow> r = Inr a"
  by (auto simp: run_def split: option.splits)

lemma plain_Inr [simp]: "plain E m = Inr a \<longleftrightarrow> m = Inr a"
  by (auto simp: plain_def split: sum.splits)

lemma translate_Inr [simp]: "translate E c msg m = Inr a \<longleftrightarrow> m = Inr a"
  by (auto simp: translate_def split: sum.splits if_splits)

lemma wrap_error_Inr [simp]: "wrap_error pre m = Inr a \<longleftrightarrow> m = Inr a"
  by (auto simp: wrap_error_def split: sum.splits)

lemma run_no_faults [simp]: "no_faults E \<Longrightarrow> run E q r = r"
  by (simp add: run_def no_faults_def)

lemma plain_of_Inr [simp]: "plain E (Inr a) = Inr a"
  by (simp add: plain_def)

lemma wrap_error_of_Inr [simp]: "wrap_error pre (Inr a) = Inr a"
  by (simp add: wrap_error_def)

lemma translate_of_Inr [simp]: "translate E c msg (Inr a) = Inr a"
  by (simp add: translate_def)

lemma no_faults_healthy [simp]: "no_faults healthy"
  by (simp add: no_faults_def healthy_def)

lemma insert_pair_Inr:
  "insert_pair E d q rows row refs = Inr rows' \<Longrightarrow>
   rows' = rows @ [row] \<and> row \<notin> set rows \<and> references_ok E d refs"
  by (auto simp: insert_pair_def dest!: run_Inr split: if_splits)

lemma insert_group_Inr:
  "insert_group E g d = Inr d' \<Longrightarrow>
   d' = d\<lparr>groups := groups d @ [g]\<rparr> \<and> \<not> has_group d (gName g)"
  by (auto simp: insert_group_def dest!: run_Inr split: if_splits)

lemma insert_owner_Inr:
  "insert_owner E u g d = Inr d' \<Longrightarrow>
   d' = d\<lparr>owners := owners d @ [(u, g)]\<rparr> \<and> (u, g) \<notin> set (owners d)"
  by (auto simp: insert_owner_def bindE_eq_Inr dest!: insert_pair_Inr)

lemma insert_member_Inr:
  "insert_member E u g d = Inr d' \<Longrightarrow>
   d' = d\<lparr>user_to_group := user_to_group d @ [(u, g)]\<rparr> \<and> (u, g) \<notin> set (user_to_group d)"
  by (auto simp: insert_member_def bindE_eq_Inr dest!: insert_pair_Inr)

lemmas insert_Inr = insert_pair_Inr insert_group_Inr insert_owner_Inr insert_member_Inr

section \<open>The walk over the parent groups\<close>

definition parent_rel :: "db \<Rightarrow> (string \<times> string) set" where
  "parent_rel d = {(c, p). (p, c) \<in> set (group_to_group d) \<and> has_group d p}"

lemma names_parents_of: "gName ` set (parents_of d n) = {p. (n, p) \<in> parent_rel d}"
  by (force simp: parents_of_def parent_rel_def has_group_def)

lemma walk_ConsE:
  assumes "getAllParentGroupsRecursive E d (g # gs) visited = Inr (ret, visited')"
    and "gName g \<notin> visited"
  obtains p res v1 ret2 where
    "GetGroupsGroupBelongsTo E (gName g) d = Inr p"
    "getAllParentGroupsRecursive E d p (insert (gName g) visited) = Inr (res, v1)"
    "getAllParentGroupsRecursive E d gs v1 = Inr (ret2, visited')"
    "ret = g # res @ ret2"
  using assms by (simp split: sum.splits prod.splits)

lemma walk_visited:
  "getAllParentGroupsRecursive E d gs visited = Inr (ret, visited') \<Longrightarrow>
   visited' = visited \<union> gName ` set ret \<and> distinct (map gName ret)
   \<and> gName ` set ret \<inter> visited = {}"
proof (induction E d gs visited arbitrary: ret visited' rule: getAllParentGroupsRecursive.induct)
  case (1 E d visited)
  then show ?case by simp
next
  case (2 E d g gs visited)
  show ?case
  proof (cases "gName g \<in> visited")
    case True
    with 2 show ?thesis by simp
  next
    case False
    from walk_ConsE[OF "2.prems" False] obtain p res v1 ret2 where
      p: "GetGroupsGroupBelongsTo E (gName g) d = Inr p" and
      r1: "getAllParentGroupsRecursive E d p (insert (gName g) visited) = Inr (res, v1)" and
      r2: "getAllParentGroupsRecursive E d gs v1 = Inr (ret2, visited')" and
      ret: "ret = g # res @ ret2" .
    from "2.IH"(2)[OF False p r1] "2.IH"(3)[OF False p r1 refl r2] ret False
    show ?thesis by auto
  qed
qed

lemma walk_covers_closed:
  "getAllParentGroupsRecursive E d gs visited = Inr (ret, visited') \<Longrightarrow>
   gName ` set gs \<subseteq> visited'
   \<and> (\<forall>y \<in> visited' - visited. \<forall>p. (y, p) \<in> parent_rel d \<longrightarrow> p \<in> visited')"
proof (induction E d gs visited arbitrary: ret visited' rule: getAllParentGroupsRecursive.induct)
  case (1 E d visited)
  then show ?case by simp
next
  case (2 E d g gs visited)
  show ?case
  proof (cases "gName g \<in> visited")
    case True
    with "2.prems" have r: "getAllParentGroupsRecursive E d gs visited = Inr (ret, visited')" by simp
    from "2.IH"(1)[OF True r] walk_visited[OF r] True show ?thesis by auto
  next
    case False
    from walk_ConsE[OF "2.prems" False] obtain p res v1 ret2 where
      p: "GetGroupsGroupBelongsTo E (gName g) d = Inr p" and
      r1: "getAllParentGroupsRecursive E d p (insert (gName g) visited) = Inr (res, v1)" and
      r2: "getAllParentGroupsRecursive E d gs v1 = Inr (ret2, visited')" and
      "ret = g # res @ ret2" .
    have pars: "gName ` set p = {q. (gName g, q) \<in> parent_rel d}"
      using GetGroupsGroupBelongsTo_Inr[OF p] by (simp add: names_parents_of)
    note ih1 = "2.IH"(2)[OF False p r1] and ih2 = "2.IH"(3)[OF False p r1 refl r2]
    from walk_visited[OF r1] walk_visited[OF r2]
    have v: "insert (gName g) visited \<subseteq> v1" "v1 \<subseteq> visited'" by auto
    show ?thesis
    proof (intro conjI ballI allI impI)
      show "gName ` set (g # gs) \<subseteq> visited'" using ih2 v by auto
    next
      fix y q
      assume y: "y \<in> visited' - visited" and e: "(y, q) \<in> parent_rel d"
      consider "y = gName g" | "y \<in> v1 - insert (gName g) visited" | "y \<in> visited' - v1"
        using y by auto
      then show "q \<in> visited'"
      proof cases
        case 1
        with pars e have "q \<in> gName ` set p" by simp
        with ih1 v show ?thesis by blast
      next
        case 2
        with ih1 e v show ?thesis by blast
      next
        case 3
        with ih2 e show ?thesis by blast
      qed
    qed
  qed
qed

lemma walk_sound:
  "getAllParentGroupsRecursive E d gs visited = Inr (ret, visited') \<Longrightarrow>
   x \<in> visited' - visited \<Longrightarrow> \<exists>g \<in> set gs. (gName g, x) \<in> (parent_rel d)\<^sup>*"
proof (induction E d gs visited arbitrary: ret visited' rule: getAllParentGroupsRecursive.induct)
  case (1 E d visited)
  then show ?case by simp
next
  case (2 E d g gs visited)
  show ?case
  proof (cases "gName g \<in> visited")
    case True
    with 2 show ?thesis by auto
  next
    case False
    from walk_ConsE[OF "2.prems"(1) False] obtain p res v1 ret2 where
      p: "GetGroupsGroupBelongsTo E (gName g) d = Inr p" and
      r1: "getAllParentGroupsRecursive E d p (insert (gName g) visited) = Inr (res, v1)" and
      r2: "getAllParentGroupsRecursive E d gs v1 = Inr (ret2, visited')" and
      "ret = g # res @ ret2" .
    have pars: "gName ` set p = {q. (gName g, q) \<in> parent_rel d}"
      using GetGroupsGroupBelongsTo_Inr[OF p] by (simp add: names_parents_of)
    consider "x = gName g" | "x \<in> v1 - insert (gName g) visited" | "x \<in> visited' - v1"
      using "2.prems"(2) by auto
    then show ?thesis
    proof cases
      case 1
      then show ?thesis by auto
    next
      case 2
      then obtain h where "h \<in> set p" and "(gName h, x) \<in> (parent_rel d)\<^sup>*"
        using "2.IH"(2)[OF False p r1] by blast
      moreover from \<open>h \<in> set p\<close> pars have "(gName g, gName h) \<in> parent_rel d" by blast
      ultimately show ?thesis by (meson converse_rtrancl_into_rtrancl list.set_intros(1))
    next
      case 3
      then show ?thesis using "2.IH"(3)[OF False p r1 refl r2] by auto
    qed
  qed
qed

lemma walk_total:
  "no_faults E \<Longrightarrow> \<exists>ret v'. getAllParentGroupsRecursive E d gs visited = Inr (ret, v')"
proof (induction E d gs visited rule: getAllParentGroupsRecursive.induct)
  case (1 E d visited)
  then show ?case by simp
next
  case (2 E d g gs visited)
  have p: "GetGroupsGroupBelongsTo E (gName g) d = Inr (parents_of d (gName g))"
    using "2.prems" by (simp add: GetGroupsGroupBelongsTo_def)
  show ?case
  proof (cases "gName g \<in> visited")
    case True
    with 2 show ?thesis by simp
  next
    case False
    obtain r1 v1 where
      r1: "getAllParentGroupsRecursive E d (parents_of d (gName g)) (insert (gName g) visited) = Inr (r1, v1)"
      using "2.IH"(2)[OF False p "2.prems"] by blast
    moreover obtain r2 v2 where "getAllParentGroupsRecursive E d gs v1 = Inr (r2, v2)"
      using "2.IH"(3)[OF False p r1 refl "2.prems"] by blast
    ultimately show ?thesis using False p by simp
  qed
qed

lemma walk_result_Inr [simp]:
  "walk_result m = Inr ret \<longleftrightarrow> (\<exists>v. m = Inr (ret, v))"
  by (auto simp: walk_result_def split: sum.splits prod.splits)

text \<open>The two entry points, as reachability along the parent edges.\<close>

definition direct_groups :: "db \<Rightarrow> string \<Rightarrow> string set" where
  "direct_groups d user = {g. (user, g) \<in> set (user_to_group d) \<and> has_group d g}"

lemma names_user_groups:
  "GetGroupsUserBelongsTo E user d = Inr gs \<Longrightarrow> gName ` set gs = direct_groups d user"
  by (force simp: GetGroupsUserBelongsTo_def direct_groups_def has_group_def dest!: run_Inr)

lemma transitive_user_names:
  assumes "GetAllTransitiveGroupsForUser E user d = Inr gs"
  shows "distinct (map gName gs) \<and> gName ` set gs = (parent_rel d)\<^sup>* `` direct_groups d user"
proof -
  from assms obtain start v where st: "GetGroupsUserBelongsTo E user d = Inr start"
    and w: "getAllParentGroupsRecursive E d start {} = Inr (gs, v)"
    by (auto simp: GetAllTransitiveGroupsForUser_def bindE_eq_Inr)
  have v: "v = gName ` set gs" and dist: "distinct (map gName gs)"
    using walk_visited[OF w] by auto
  have start: "gName ` set start = direct_groups d user" by (rule names_user_groups[OF st])
  have "(parent_rel d)\<^sup>* `` direct_groups d user \<subseteq> v"
  proof
    fix b
    assume "b \<in> (parent_rel d)\<^sup>* `` direct_groups d user"
    then obtain a where "a \<in> direct_groups d user" and ab: "(a, b) \<in> (parent_rel d)\<^sup>*" by auto
    with start walk_covers_closed[OF w] have "a \<in> v" by auto
    with ab show "b \<in> v"
      by (rule rtrancl_closed) (use walk_covers_closed[OF w] in blast)
  qed
  moreover have "v \<subseteq> (parent_rel d)\<^sup>* `` direct_groups d user"
    using walk_sound[OF w] start by blast
  ultimately show ?thesis using v dist by auto
qed

lemma transitive_group_names:
  assumes "GetAllTransitiveGroupsForGroup E grp d = Inr gs"
  shows "distinct (map gName gs) \<and> gName ` set gs = (parent_rel d)\<^sup>* `` {grp} - {grp}"
proof -
  from assms obtain start v where st: "GetGroupsGroupBelongsTo E grp d = Inr start"
    and w: "getAllParentGroupsRecursive E d start {grp} = Inr (gs, v)"
    by (auto simp: GetAllTransitiveGroupsForGroup_def bindE_eq_Inr)
  have v: "v = insert grp (gName ` set gs)" "grp \<notin> gName ` set gs" "distinct (map gName gs)"
    using walk_visited[OF w] by auto
  have start: "gName ` set start = {q. (grp, q) \<in> parent_rel d}"
    using GetGroupsGroupBelongsTo_Inr[OF st] by (simp add: names_parents_of)
  have closed: "\<And>x y. x \<in> v \<Longrightarrow> (x, y) \<in> parent_rel d \<Longrightarrow> y \<in> v"
    using walk_covers_closed[OF w] start by blast
  have "(parent_rel d)\<^sup>* `` {grp} \<subseteq> v"
  proof
    fix b
    assume "b \<in> (parent_rel d)\<^sup>* `` {grp}"
    then have "(grp, b) \<in> (parent_rel d)\<^sup>*" by simp
    then show "b \<in> v" by (rule rtrancl_closed) (use v(1) closed in auto)
  qed
  moreover have "gName ` set gs \<subseteq> (parent_rel d)\<^sup>* `` {grp}"
  proof
    fix x
    assume "x \<in> gName ` set gs"
    with v have "x \<in> v - {grp}" by auto
    then obtain h where "h \<in> set start" and hx: "(gName h, x) \<in> (parent_rel d)\<^sup>*"
      using walk_sound[OF w] by blast
    with start have "(grp, gName h) \<in> parent_rel d" by blast
    with hx show "x \<in> (parent_rel d)\<^sup>* `` {grp}" by (auto intro: converse_rtrancl_into_rtrancl)
  qed
  ultimately show ?thesis using v by auto
qed

lemma transitive_group_total: "no_faults E \<Longrightarrow> \<exists>gs. GetAllTransitiveGroupsForGroup E grp d = Inr gs"
  using walk_total[of E d "parents_of d grp" "{grp}"]
  by (auto simp: GetAllTransitiveGroupsForGroup_def GetGroupsGroupBelongsTo_def)

lemma transitive_user_total: "no_faults E \<Longrightarrow> \<exists>gs. GetAllTransitiveGroupsForUser E user d = Inr gs"
proof -
  assume nf: "no_faults E"
  then obtain gs where g: "GetGroupsUserBelongsTo E user d = Inr gs"
    by (simp add: GetGroupsUserBelongsTo_def)
  obtain r v where "getAllParentGroupsRecursive E d gs {} = Inr (r, v)"
    using walk_total[OF nf] by blast
  with g show ?thesis by (simp add: GetAllTransitiveGroupsForUser_def)
qed

section \<open>The invariant of the store\<close>

text \<open>
  Keys are unique, edges join existing groups, the parent graph has no cycle, and every group
  has an owner. No operation deletes a group.
\<close>

definition keys_ok :: "db \<Rightarrow> bool" where
  "keys_ok d \<longleftrightarrow> distinct (map gName (groups d)) \<and> distinct (owners d) \<and> distinct (owner_groups d)
     \<and> distinct (group_to_group d) \<and> distinct (user_to_group d)"

definition edges_ok :: "db \<Rightarrow> bool" where
  "edges_ok d \<longleftrightarrow> list_all (\<lambda>(p, c). has_group d p \<and> has_group d c) (group_to_group d)
     \<and> list_all (\<lambda>(a, b). has_group d a \<and> has_group d b) (owner_groups d)"

definition owned_ok :: "db \<Rightarrow> bool" where
  "owned_ok d \<longleftrightarrow> list_all (\<lambda>g. users_of (gName g) (owners d) \<noteq> []) (groups d)"

definition store_inv :: "db \<Rightarrow> bool" where
  "store_inv d \<longleftrightarrow> keys_ok d \<and> edges_ok d \<and> acyclic (parent_rel d) \<and> owned_ok d"

lemmas inv_defs = store_inv_def keys_ok_def edges_ok_def owned_ok_def list_all_iff

lemma users_of_nonempty: "users_of n rows \<noteq> [] \<longleftrightarrow> (\<exists>u. (u, n) \<in> set rows)"
  by (force simp: users_of_def filter_empty_conv)

lemma store_inv_new [simp]: "store_inv NewSQLiteStore"
  by (simp add: inv_defs NewSQLiteStore_def parent_rel_def acyclic_def)

lemma parent_rel_more_groups:
  "edges_ok d \<Longrightarrow> parent_rel (d\<lparr>groups := groups d @ [g]\<rparr>) = parent_rel d"
  by (auto simp: parent_rel_def edges_ok_def has_group_def list_all_iff)

lemma parent_rel_frame [simp]:
  "parent_rel (d\<lparr>owners := x\<rparr>) = parent_rel d"
  "parent_rel (d\<lparr>user_to_group := x\<rparr>) = parent_rel d"
  "parent_rel (d\<lparr>owner_groups := x\<rparr>) = parent_rel d"
  by (auto simp: parent_rel_def has_group_def)

text \<open>Adding a group together with its first owner.\<close>

lemma store_inv_new_group:
  assumes "store_inv d" and "\<not> has_group d (gName g)" and "(u, gName g) \<notin> set (owners d)"
  shows "store_inv (d\<lparr>groups := groups d @ [g], owners := owners d @ [(u, gName g)]\<rparr>)"
proof -
  have "parent_rel (d\<lparr>groups := groups d @ [g]\<rparr>) = parent_rel d"
    using assms(1) by (simp add: parent_rel_more_groups store_inv_def)
  then have "acyclic (parent_rel (d\<lparr>groups := groups d @ [g], owners := owners d @ [(u, gName g)]\<rparr>))"
    using assms(1) by (simp add: parent_rel_def has_group_def store_inv_def)
  with assms show ?thesis
    by (auto simp: inv_defs has_group_def users_of_nonempty)
qed

lemma store_inv_member:
  assumes "store_inv d" and "(u, g) \<notin> set (user_to_group d)"
  shows "store_inv (d\<lparr>user_to_group := user_to_group d @ [(u, g)]\<rparr>)"
  using assms by (auto simp: inv_defs has_group_def)

lemma store_inv_owner:
  assumes "store_inv d" and "(u, g) \<notin> set (owners d)"
  shows "store_inv (d\<lparr>owners := owners d @ [(u, g)]\<rparr>)"
  using assms by (auto simp: inv_defs has_group_def users_of_nonempty)

section \<open>Every operation keeps the invariant\<close>

lemma init_groups_inv:
  "store_inv d \<Longrightarrow> init_groups E owner gs d = Inr d' \<Longrightarrow> store_inv d'"
proof (induction E owner gs d arbitrary: d' rule: init_groups.induct)
  case (1 E owner d)
  then show ?case by simp
next
  case (2 E owner g gs d)
  then obtain d1 d2 d3 where
    s1: "insert_group E \<lparr>gName = g, gDescription = []\<rparr> d = Inr d1" and
    s2: "insert_owner E owner g d1 = Inr d2" and
    s3: "insert_member E owner g d2 = Inr d3" and
    s4: "init_groups E owner gs d3 = Inr d'"
    by (auto simp: bindE_eq_Inr)
  have "store_inv d2"
    using insert_group_Inr[OF s1] insert_owner_Inr[OF s2] "2.prems"(1)
      store_inv_new_group[of d "\<lparr>gName = g, gDescription = []\<rparr>" owner]
    by (simp add: has_group_def)
  then have "store_inv d3" using insert_member_Inr[OF s3] store_inv_member by blast
  with "2.IH"[OF s1 s2 s3] s4 show ?case by blast
qed

lemma Init_Inr:
  "Init E owner gs d = Inr d' \<Longrightarrow> groups d = [] \<and> init_groups E owner gs d = Inr d'"
  by (auto simp: Init_def bindE_eq_Inr split: if_splits dest!: run_Inr)

lemma Init_inv: "store_inv d \<Longrightarrow> Init E owner gs d = Inr d' \<Longrightarrow> store_inv d'"
  using Init_Inr init_groups_inv by blast

lemma CreateGroup_Inr:
  "CreateGroup E owner g d = Inr d' \<Longrightarrow>
   d' = d\<lparr>groups := groups d @ [g], owners := owners d @ [(owner, gName g)]\<rparr>
   \<and> \<not> has_group d (gName g) \<and> (owner, gName g) \<notin> set (owners d)"
  by (auto simp: CreateGroup_def bindE_eq_Inr dest!: run_Inr insert_group_Inr insert_owner_Inr)

lemma CreateGroup_inv: "store_inv d \<Longrightarrow> CreateGroup E owner g d = Inr d' \<Longrightarrow> store_inv d'"
  using CreateGroup_Inr store_inv_new_group by blast

lemma AddGroupMember_Inr:
  "AddGroupMember E u g d = Inr d' \<Longrightarrow>
   d' = d\<lparr>user_to_group := user_to_group d @ [(u, g)]\<rparr> \<and> (u, g) \<notin> set (user_to_group d)"
  by (auto simp: AddGroupMember_def dest!: insert_member_Inr)

lemma AddGroupOwner_Inr:
  "AddGroupOwner E u g d = Inr d' \<Longrightarrow>
   d' = d\<lparr>owners := owners d @ [(u, g)]\<rparr> \<and> (u, g) \<notin> set (owners d)"
  by (auto simp: AddGroupOwner_def dest!: insert_owner_Inr)

lemma AddGroupMember_inv: "store_inv d \<Longrightarrow> AddGroupMember E u g d = Inr d' \<Longrightarrow> store_inv d'"
  using AddGroupMember_Inr store_inv_member by blast

lemma AddGroupOwner_inv: "store_inv d \<Longrightarrow> AddGroupOwner E u g d = Inr d' \<Longrightarrow> store_inv d'"
  using AddGroupOwner_Inr store_inv_owner by blast

lemma DoesGroupExist_Inr: "DoesGroupExist E g d = Inr b \<Longrightarrow> b = has_group d g"
  by (auto simp: DoesGroupExist_def dest!: run_Inr)

lemma AddChildGroup_Inr:
  assumes "AddChildGroup E parent child d = Inr d'"
  shows "d' = d\<lparr>group_to_group := group_to_group d @ [(parent, child)]\<rparr>
    \<and> (parent, child) \<notin> set (group_to_group d) \<and> parent \<noteq> child
    \<and> has_group d parent \<and> has_group d child \<and> (parent, child) \<notin> (parent_rel d)\<^sup>*"
proof -
  from assms obtain gs rows where
    ne: "parent \<noteq> child" and ex: "DoesGroupExist E parent d = Inr True" "DoesGroupExist E child d = Inr True"
    and gs: "GetAllTransitiveGroupsForGroup E parent d = Inr gs" and ni: "child \<notin> gName ` set gs"
    and ins: "insert_pair E d (InsertGroupToGroup parent child) (group_to_group d) (parent, child)
        [parent, child] = Inr rows"
    and d': "d' = d\<lparr>group_to_group := rows\<rparr>"
    unfolding AddChildGroup_def by (auto simp: err_simps)
  have "(parent, child) \<notin> (parent_rel d)\<^sup>*"
    using transitive_group_names[OF gs] ni ne by auto
  with ne DoesGroupExist_Inr[OF ex(1)] DoesGroupExist_Inr[OF ex(2)] insert_pair_Inr[OF ins] d'
  show ?thesis by simp
qed

lemma parent_rel_add_edge:
  "has_group d p \<Longrightarrow>
   parent_rel (d\<lparr>group_to_group := group_to_group d @ [(p, c)]\<rparr>) = insert (c, p) (parent_rel d)"
  by (auto simp: parent_rel_def has_group_def)

lemma AddChildGroup_inv: "store_inv d \<Longrightarrow> AddChildGroup E p c d = Inr d' \<Longrightarrow> store_inv d'"
proof -
  assume inv: "store_inv d" and ok: "AddChildGroup E p c d = Inr d'"
  note f = AddChildGroup_Inr[OF ok]
  have "acyclic (parent_rel d')"
    using f inv by (simp add: parent_rel_add_edge acyclic_insert store_inv_def)
  with f inv show "store_inv d'" by (auto simp: inv_defs has_group_def)
qed

lemma AddOwnerGroup_Inr:
  "AddOwnerGroup E a b d = Inr d' \<Longrightarrow>
   d' = d\<lparr>owner_groups := owner_groups d @ [(a, b)]\<rparr> \<and> (a, b) \<notin> set (owner_groups d)
   \<and> a \<noteq> b \<and> has_group d a \<and> has_group d b"
  by (auto simp: AddOwnerGroup_def err_simps dest!: DoesGroupExist_Inr insert_pair_Inr)

lemma AddOwnerGroup_inv: "store_inv d \<Longrightarrow> AddOwnerGroup E a b d = Inr d' \<Longrightarrow> store_inv d'"
  by (drule AddOwnerGroup_Inr) (auto simp: inv_defs has_group_def)

lemma RemoveFromGroupToGroup_Inr:
  "RemoveFromGroupToGroup E p c d = Inr d' \<Longrightarrow>
   d' = d\<lparr>group_to_group := filter (\<lambda>r. r \<noteq> (p, c)) (group_to_group d)\<rparr>
   \<and> (p, c) \<in> set (group_to_group d)"
  by (auto simp: RemoveFromGroupToGroup_def bindE_eq_Inr filter_empty_conv split: if_splits
      dest!: run_Inr)

lemma RemoveFromGroupToGroup_inv:
  "store_inv d \<Longrightarrow> RemoveFromGroupToGroup E p c d = Inr d' \<Longrightarrow> store_inv d'"
proof -
  assume inv: "store_inv d" and ok: "RemoveFromGroupToGroup E p c d = Inr d'"
  note f = RemoveFromGroupToGroup_Inr[OF ok]
  have "parent_rel d' \<subseteq> parent_rel d" using f by (auto simp: parent_rel_def has_group_def)
  then have "acyclic (parent_rel d')" using inv by (meson acyclic_subset store_inv_def)
  with f inv show "store_inv d'" by (auto simp: inv_defs has_group_def)
qed

lemma delete_user_Inr:
  "delete_user E u g t d = Inr (n, d') \<Longrightarrow> n \<noteq> 0 \<Longrightarrow>
   (t = ''owners'' \<and> (u, g) \<in> set (owners d)
      \<and> d' = d\<lparr>owners := filter (\<lambda>r. r \<noteq> (u, g)) (owners d)\<rparr>)
   \<or> (t = ''user_to_group'' \<and> (u, g) \<in> set (user_to_group d)
      \<and> d' = d\<lparr>user_to_group := filter (\<lambda>r. r \<noteq> (u, g)) (user_to_group d)\<rparr>)"
  by (auto simp: delete_user_def filter_empty_conv split: if_splits dest!: run_Inr)

lemma RemoveUserFromTable_Inr:
  assumes "RemoveUserFromTable E u g t d = Inr d'"
  shows "(t = ''owners'' \<and> (u, g) \<in> set (owners d) \<and> length (users_of g (owners d)) \<noteq> 1
      \<and> d' = d\<lparr>owners := filter (\<lambda>r. r \<noteq> (u, g)) (owners d)\<rparr>)
   \<or> (t = ''user_to_group'' \<and> (u, g) \<in> set (user_to_group d)
      \<and> d' = d\<lparr>user_to_group := filter (\<lambda>r. r \<noteq> (u, g)) (user_to_group d)\<rparr>)"
proof -
  from assms obtain n where
    o: "t = ''owners'' \<Longrightarrow> length (users_of g (owners d)) \<noteq> 1" and
    del: "delete_user E u g t d = Inr (n, d')" and n: "n \<noteq> 0"
    by (auto simp: RemoveUserFromTable_def GetGroupOwners_def getUsersByGroup_def err_simps
        split: if_splits dest!: run_Inr)
  from delete_user_Inr[OF del n] o show ?thesis by auto
qed

lemma other_owner:
  assumes "distinct rows" and "(u, g) \<in> set rows" and "length (users_of g rows) \<noteq> 1"
  shows "\<exists>v. v \<noteq> u \<and> (v, g) \<in> set rows"
proof (rule ccontr)
  assume "\<not> ?thesis"
  then have "set (filter (\<lambda>(v, h). h = g) rows) = {(u, g)}" using assms(2) by auto
  moreover have "distinct (filter (\<lambda>(v, h). h = g) rows)" using assms(1) by simp
  ultimately have "length (filter (\<lambda>(v, h). h = g) rows) = 1"
    by (metis distinct_card card.empty card_insert_disjoint finite.emptyI empty_iff One_nat_def)
  with assms(3) show False by (simp add: users_of_def)
qed

lemma RemoveUserFromTable_inv:
  "store_inv d \<Longrightarrow> RemoveUserFromTable E u g t d = Inr d' \<Longrightarrow> store_inv d'"
proof -
  assume inv: "store_inv d" and ok: "RemoveUserFromTable E u g t d = Inr d'"
  from RemoveUserFromTable_Inr[OF ok] show "store_inv d'"
  proof
    assume r: "t = ''owners'' \<and> (u, g) \<in> set (owners d) \<and> length (users_of g (owners d)) \<noteq> 1
      \<and> d' = d\<lparr>owners := filter (\<lambda>r. r \<noteq> (u, g)) (owners d)\<rparr>"
    moreover have "distinct (owners d)" using inv by (simp add: inv_defs)
    ultimately obtain v where v: "v \<noteq> u" "(v, g) \<in> set (owners d)" using other_owner by blast
    have "\<exists>w. (w, n) \<in> set (owners d) \<and> (w, n) \<noteq> (u, g)" if "has_group d n" for n
    proof (cases "n = g")
      case True
      with v show ?thesis by blast
    next
      case False
      with that inv show ?thesis by (auto simp: inv_defs has_group_def users_of_nonempty)
    qed
    with r inv show ?thesis by (auto simp: inv_defs has_group_def users_of_nonempty)
  next
    assume "t = ''user_to_group'' \<and> (u, g) \<in> set (user_to_group d)
      \<and> d' = d\<lparr>user_to_group := filter (\<lambda>r. r \<noteq> (u, g)) (user_to_group d)\<rparr>"
    with inv show ?thesis by (auto simp: inv_defs has_group_def)
  qed
qed

section \<open>Store operations as transactions\<close>

text \<open>
  What the server relies on: an operation either fails, and then the tables are as before, or
  returns tables that again satisfy the invariant.
\<close>

definition commit :: "(string, 's) result \<Rightarrow> 's \<Rightarrow> 's" where
  "commit m s = (case m of Inl _ \<Rightarrow> s | Inr s' \<Rightarrow> s')"

lemma commit_simps [simp]: "commit (Inl e) s = s" "commit (Inr s') s = s'"
  by (simp_all add: commit_def)

locale store_operation =
  fixes oper :: "'a \<Rightarrow> 's \<Rightarrow> (string, 's) result"
    and inv :: "'s \<Rightarrow> bool"
  assumes oper_inv: "inv s \<Longrightarrow> oper a s = Inr s' \<Longrightarrow> inv s'"
begin

lemma commit_inv: "inv s \<Longrightarrow> inv (commit (oper a s) s)"
  by (cases "oper a s") (auto intro: oper_inv)

end

interpretation init: store_operation "\<lambda>(E, u, gs). Init E u gs" store_inv
  by unfold_locales (auto intro: Init_inv)

interpretation create: store_operation "\<lambda>(E, u, g). CreateGroup E u g" store_inv
  by unfold_locales (auto intro: CreateGroup_inv)

interpretation add_member: store_operation "\<lambda>(E, u, g). AddGroupMember E u g" store_inv
  by unfold_locales (auto intro: AddGroupMember_inv)

interpretation add_owner: store_operation "\<lambda>(E, u, g). AddGroupOwner E u g" store_inv
  by unfold_locales (auto intro: AddGroupOwner_inv)

interpretation add_child: store_operation "\<lambda>(E, p, c). AddChildGroup E p c" store_inv
  by unfold_locales (auto intro: AddChildGroup_inv)

interpretation add_owner_group: store_operation "\<lambda>(E, a, b). AddOwnerGroup E a b" store_inv
  by unfold_locales (auto intro: AddOwnerGroup_inv)

interpretation remove_edge: store_operation "\<lambda>(E, p, c). RemoveFromGroupToGroup E p c" store_inv
  by unfold_locales (auto intro: RemoveFromGroupToGroup_inv)

interpretation remove_user: store_operation "\<lambda>(E, u, g, t). RemoveUserFromTable E u g t" store_inv
  by unfold_locales (auto intro: RemoveUserFromTable_inv)

end
