(* ===== verification/MembershipsServer.thy ===== *)
theory MembershipsServer
  imports Memberships
begin

text \<open>
  The HTTP server in front of the membership store (\<open>src/core/auth/memberships/main.go\<close>): one
  definition per handler, from the authentication check to the redirect, and the properties of
  the store as the server uses it: the reachable states, the walk over parent groups, and who
  may change what.

  Template parsing and execution and JSON decoding are outcomes given by the environment. Path
  matching is the router's; \<open>endpoint\<close> names the routes \<open>Start\<close> registers.
\<close>

section \<open>Validation\<close>

definition getLoggedInUser :: "request \<Rightarrow> (string, string) result" where
  "getLoggedInUser r =
     (let user = header_get r ''X-User'' in
      if user \<noteq> [] then Inr user else Inl ''unauthenticated'')"

datatype Status = Owner | Member

definition convertStatus :: "string \<Rightarrow> (string, Status) result" where
  "convertStatus status =
     (if status = ''Owner'' then Inr Owner
      else if status = ''Member'' then Inr Member
      else Inl (''invalid status: '' @ status))"

text \<open>The character class of the regular expression \<open>^[a-z0-9\-_:.\/ ]+$\<close>.\<close>

definition group_name_char :: "char \<Rightarrow> bool" where
  "group_name_char c =
     (let n = (of_char c :: nat) in
      (97 \<le> n \<and> n \<le> 122) \<or> (48 \<le> n \<and> n \<le> 57) \<or> c \<in> set ''-_:./ '')"

definition isValidGroupName :: "string \<Rightarrow> (string, unit) result" where
  "isValidGroupName grp =
     (if trim_space grp = []
      then Inl ''group name can't be empty or contain only whitespaces''
      else if \<not> (grp \<noteq> [] \<and> list_all group_name_char grp)
      then Inl ''group name should contain only lowercase letters, digits, -, _, :, ., /''
      else Inr ())"

section \<open>Handlers\<close>

record user_page =
  OwnerGroups :: "Group list"
  MembershipGroups :: "Group list"
  TransitiveGroups :: "Group list"
  LoggedInUserPage :: bool
  CurrentUser :: string
  userErrorMessage :: string

record group_page =
  GroupName :: string
  GroupDescription :: string
  GroupOwners :: "string list"
  GroupMembers :: "string list"
  AllGroups :: "Group list"
  GroupTransitiveGroups :: "Group list"
  ChildGroups :: "Group list"
  GroupOwnerGroups :: "Group list"
  groupErrorMessage :: string

datatype page = UserPage user_page | GroupPage group_page | MemberOf "string list"

record webenv =
  sqlOf :: sqlenv
  parseTemplatesErr :: "string option"
  executeErr :: "string option"
  encodeErr :: "string option"

definition notLoggedIn :: "page response" where
  "notLoggedIn = HttpError StatusUnauthorized ''User Not Logged In''"

definition methodNotAllowed :: "page response" where
  "methodNotAllowed = HttpError StatusMethodNotAllowed ''Method not allowed''"

definition userRedirect :: "string \<Rightarrow> string \<Rightarrow> page response" where
  "userRedirect user err =
     Redirect StatusFound (''/user/'' @ user @ ''?errorMessage='' @ query_escape err)"

definition groupRedirect :: "nat \<Rightarrow> string \<Rightarrow> string \<Rightarrow> page response" where
  "groupRedirect code grp err =
     Redirect code (''/group/'' @ grp @ ''?errorMessage='' @ query_escape err)"

definition render :: "webenv \<Rightarrow> page \<Rightarrow> page response" where
  "render W p =
     (case parseTemplatesErr W of
        Some e \<Rightarrow> HttpError StatusInternalServerError e
      | None \<Rightarrow>
          (case executeErr W of
             Some e \<Rightarrow> HttpError StatusInternalServerError e
           | None \<Rightarrow> Page p))"

definition internal :: "(string, 'a) result \<Rightarrow> (page response, 'a) result" where
  "internal m = (case m of Inl e \<Rightarrow> Inl (HttpError StatusInternalServerError e) | Inr a \<Rightarrow> Inr a)"

definition badRequest :: "(string, 'a) result \<Rightarrow> (page response, 'a) result" where
  "badRequest m = (case m of Inl e \<Rightarrow> Inl (HttpError StatusBadRequest e) | Inr a \<Rightarrow> Inr a)"

definition answer :: "(page response, page response) result \<Rightarrow> page response" where
  "answer m = (case m of Inl w \<Rightarrow> w | Inr w \<Rightarrow> w)"

definition checkIsOwner :: "sqlenv \<Rightarrow> string \<Rightarrow> string \<Rightarrow> db \<Rightarrow> (string, unit) result" where
  "checkIsOwner E user grp d =
     bindE (IsGroupOwner E user grp d)
       (\<lambda>isOwner. if isOwner then Inr ()
         else bindE (IsMemberOfOwnerGroup E user grp d)
           (\<lambda>isMember. guardE isMember
             (''you are not the owner or a member of any owner group of the group '' @ grp)))"

definition homePageHandler :: "request \<Rightarrow> page response" where
  "homePageHandler r =
     (case getLoggedInUser r of
        Inl _ \<Rightarrow> notLoggedIn
      | Inr user \<Rightarrow> Redirect StatusSeeOther (''/user/'' @ user))"

definition userHandler :: "webenv \<Rightarrow> request \<Rightarrow> db \<Rightarrow> page response" where
  "userHandler W r d =
     (case getLoggedInUser r of
        Inl _ \<Rightarrow> notLoggedIn
      | Inr loggedInUser \<Rightarrow>
          (let errorMsg = query_get r ''errorMessage'';
               user = to_lower (path_var r ''username'')
           in answer
             (bindE (internal (GetGroupsOwnedBy (sqlOf W) user d))
               (\<lambda>ownerGroups. bindE (internal (GetGroupsUserBelongsTo (sqlOf W) user d))
                 (\<lambda>membershipGroups. bindE (internal (GetAllTransitiveGroupsForUser (sqlOf W) user d))
                   (\<lambda>transitiveGroups.
                     Inr (render W (UserPage
                       \<lparr>OwnerGroups = ownerGroups, MembershipGroups = membershipGroups,
                        TransitiveGroups = transitiveGroups,
                        LoggedInUserPage = (loggedInUser = user), CurrentUser = user,
                        userErrorMessage = errorMsg\<rparr>))))))))"

definition createGroupHandler :: "webenv \<Rightarrow> request \<Rightarrow> db \<Rightarrow> db \<times> page response" where
  "createGroupHandler W r d =
     (case getLoggedInUser r of
        Inl _ \<Rightarrow> (d, notLoggedIn)
      | Inr user \<Rightarrow>
          if Method r \<noteq> ''POST'' then (d, methodNotAllowed)
          else
            (case formErr r of
               Some e \<Rightarrow> (d, HttpError StatusInternalServerError e)
             | None \<Rightarrow>
                 (let name = PostFormValue r ''group-name'' in
                  case isValidGroupName name of
                    Inl e \<Rightarrow> (d, userRedirect user e)
                  | Inr _ \<Rightarrow>
                      (case CreateGroup (sqlOf W) user
                              \<lparr>gName = name, gDescription = PostFormValue r ''description''\<rparr> d of
                         Inl e \<Rightarrow> (d, userRedirect user e)
                       | Inr d' \<Rightarrow> (d', Redirect StatusSeeOther ''/'')))))"

definition groupHandler :: "webenv \<Rightarrow> request \<Rightarrow> db \<Rightarrow> page response" where
  "groupHandler W r d =
     (case getLoggedInUser r of
        Inl _ \<Rightarrow> notLoggedIn
      | Inr _ \<Rightarrow>
          (let errorMsg = query_get r ''errorMessage'';
               groupName = path_var r ''group-name'';
               E = sqlOf W
           in answer
             (bindE (internal (DoesGroupExist E groupName d))
               (\<lambda>ex. if \<not> ex
                 then Inl (HttpError StatusNotFound
                   (''group with the name '' @ [CHR 0x27] @ groupName @ [CHR 0x27] @ '' not found''))
                 else bindE (internal (GetGroupOwners E groupName d))
                 (\<lambda>os. bindE (internal (GetGroupMembers E groupName d))
                 (\<lambda>ms. bindE (internal (GetGroupDescription E groupName d))
                 (\<lambda>desc. bindE (internal (GetAllGroups E d))
                 (\<lambda>allGroups. bindE (internal (GetAllTransitiveGroupsForGroup E groupName d))
                 (\<lambda>transitive. bindE (internal (GetDirectChildrenGroups E groupName d))
                 (\<lambda>children. bindE (internal (GetGroupOwnerGroups E groupName d))
                 (\<lambda>ownerGroups.
                   Inr (render W (GroupPage
                     \<lparr>GroupName = groupName, GroupDescription = desc, GroupOwners = os,
                      GroupMembers = ms, AllGroups = allGroups, GroupTransitiveGroups = transitive,
                      ChildGroups = children, GroupOwnerGroups = ownerGroups,
                      groupErrorMessage = errorMsg\<rparr>)))))))))))))"

text \<open>
  The three removal handlers check the login first and do nothing, with status 200, for a
  method other than POST.
\<close>

definition removeChildGroupHandler :: "webenv \<Rightarrow> request \<Rightarrow> db \<Rightarrow> db \<times> page response" where
  "removeChildGroupHandler W r d =
     (case getLoggedInUser r of
        Inl _ \<Rightarrow> (d, notLoggedIn)
      | Inr user \<Rightarrow>
          if Method r \<noteq> ''POST'' then (d, NoContent)
          else
            (let parentGroup = path_var r ''parent-group''; childGroup = path_var r ''child-group'' in
             case bindE (isValidGroupName parentGroup) (\<lambda>_. isValidGroupName childGroup) of
               Inl e \<Rightarrow> (d, HttpError StatusBadRequest e)
             | Inr _ \<Rightarrow>
                 (case checkIsOwner (sqlOf W) user parentGroup d of
                    Inl e \<Rightarrow> (d, groupRedirect StatusSeeOther parentGroup e)
                  | Inr _ \<Rightarrow>
                      (case RemoveFromGroupToGroup (sqlOf W) parentGroup childGroup d of
                         Inl e \<Rightarrow> (d, groupRedirect StatusFound parentGroup e)
                       | Inr d' \<Rightarrow> (d', Redirect StatusSeeOther (''/group/'' @ parentGroup))))))"

definition removeUserHandler :: "string \<Rightarrow> webenv \<Rightarrow> request \<Rightarrow> db \<Rightarrow> db \<times> page response" where
  "removeUserHandler tableName W r d =
     (case getLoggedInUser r of
        Inl _ \<Rightarrow> (d, notLoggedIn)
      | Inr user \<Rightarrow>
          if Method r \<noteq> ''POST'' then (d, NoContent)
          else
            (let username = path_var r ''username''; groupName = path_var r ''group-name'' in
             case isValidGroupName groupName of
               Inl e \<Rightarrow> (d, HttpError StatusBadRequest e)
             | Inr _ \<Rightarrow>
                 (case checkIsOwner (sqlOf W) user groupName d of
                    Inl e \<Rightarrow> (d, groupRedirect StatusSeeOther groupName e)
                  | Inr _ \<Rightarrow>
                      (case RemoveUserFromTable (sqlOf W) username groupName tableName d of
                         Inl e \<Rightarrow> (d, groupRedirect StatusFound groupName e)
                       | Inr d' \<Rightarrow> (d', Redirect StatusSeeOther (''/group/'' @ groupName))))))"

definition removeOwnerFromGroupHandler :: "webenv \<Rightarrow> request \<Rightarrow> db \<Rightarrow> db \<times> page response" where
  "removeOwnerFromGroupHandler = removeUserHandler ''owners''"

definition removeMemberFromGroupHandler :: "webenv \<Rightarrow> request \<Rightarrow> db \<Rightarrow> db \<times> page response" where
  "removeMemberFromGroupHandler = removeUserHandler ''user_to_group''"

definition addUserToGroupHandler :: "webenv \<Rightarrow> request \<Rightarrow> db \<Rightarrow> db \<times> page response" where
  "addUserToGroupHandler W r d =
     (if Method r \<noteq> ''POST'' then (d, methodNotAllowed)
      else
        (case getLoggedInUser r of
           Inl _ \<Rightarrow> (d, notLoggedIn)
         | Inr user \<Rightarrow>
             (let groupName = path_var r ''group-name'';
                  username = to_lower (FormValue r ''username'')
              in
              case isValidGroupName groupName of
                Inl e \<Rightarrow> (d, HttpError StatusBadRequest e)
              | Inr _ \<Rightarrow>
                  if username = []
                  then (d, HttpError StatusBadRequest ''Username parameter is required'')
                  else
                    (case convertStatus (FormValue r ''status'') of
                       Inl e \<Rightarrow> (d, HttpError StatusBadRequest e)
                     | Inr status \<Rightarrow>
                         (case checkIsOwner (sqlOf W) user groupName d of
                            Inl e \<Rightarrow> (d, groupRedirect StatusSeeOther groupName e)
                          | Inr _ \<Rightarrow>
                              (case (case status of
                                       Owner \<Rightarrow> AddGroupOwner (sqlOf W) username groupName d
                                     | Member \<Rightarrow> AddGroupMember (sqlOf W) username groupName d) of
                                 Inl e \<Rightarrow> (d, groupRedirect StatusFound groupName e)
                               | Inr d' \<Rightarrow> (d', Redirect StatusSeeOther (''/group/'' @ groupName))))))))"

definition addChildGroupHandler :: "webenv \<Rightarrow> request \<Rightarrow> db \<Rightarrow> db \<times> page response" where
  "addChildGroupHandler W r d =
     (if Method r \<noteq> ''POST'' then (d, methodNotAllowed)
      else
        (case getLoggedInUser r of
           Inl _ \<Rightarrow> (d, notLoggedIn)
         | Inr user \<Rightarrow>
             (let parentGroup = path_var r ''parent-group''; childGroup = FormValue r ''child-group'' in
              case bindE (isValidGroupName parentGroup) (\<lambda>_. isValidGroupName childGroup) of
                Inl e \<Rightarrow> (d, HttpError StatusBadRequest e)
              | Inr _ \<Rightarrow>
                  (case checkIsOwner (sqlOf W) user parentGroup d of
                     Inl e \<Rightarrow> (d, groupRedirect StatusSeeOther parentGroup e)
                   | Inr _ \<Rightarrow>
                       (case AddChildGroup (sqlOf W) parentGroup childGroup d of
                          Inl e \<Rightarrow> (d, groupRedirect StatusFound parentGroup e)
                        | Inr d' \<Rightarrow> (d', Redirect StatusSeeOther (''/group/'' @ parentGroup)))))))"

definition addOwnerGroupHandler :: "webenv \<Rightarrow> request \<Rightarrow> db \<Rightarrow> db \<times> page response" where
  "addOwnerGroupHandler W r d =
     (if Method r \<noteq> ''POST'' then (d, methodNotAllowed)
      else
        (case getLoggedInUser r of
           Inl _ \<Rightarrow> (d, notLoggedIn)
         | Inr user \<Rightarrow>
             (let ownedGroup = path_var r ''owned-group''; ownerGroup = FormValue r ''owner-group'' in
              case bindE (isValidGroupName ownedGroup) (\<lambda>_. isValidGroupName ownerGroup) of
                Inl e \<Rightarrow> (d, HttpError StatusBadRequest e)
              | Inr _ \<Rightarrow>
                  (case checkIsOwner (sqlOf W) user ownedGroup d of
                     Inl e \<Rightarrow> (d, groupRedirect StatusSeeOther ownedGroup e)
                   | Inr _ \<Rightarrow>
                       (case AddOwnerGroup (sqlOf W) ownerGroup ownedGroup d of
                          Inl e \<Rightarrow> (d, groupRedirect StatusFound ownedGroup e)
                        | Inr d' \<Rightarrow> (d', Redirect StatusSeeOther (''/group/'' @ ownedGroup)))))))"

record initRequest =
  reqOwner :: string
  reqGroups :: "string list"

definition apiInitHandler ::
    "webenv \<Rightarrow> (string, initRequest) result \<Rightarrow> db \<Rightarrow> db \<times> page response" where
  "apiInitHandler W body d =
     (case body of
        Inl e \<Rightarrow> (d, HttpError StatusBadRequest e)
      | Inr req \<Rightarrow>
          (case Init (sqlOf W) (reqOwner req) (reqGroups req) d of
             Inl e \<Rightarrow> (d, HttpError StatusInternalServerError e)
           | Inr d' \<Rightarrow> (d', NoContent)))"

definition apiMemberOfHandler :: "webenv \<Rightarrow> request \<Rightarrow> db \<Rightarrow> page response" where
  "apiMemberOfHandler W r d =
     (case Vars r ''username'' of
        None \<Rightarrow> HttpError StatusBadRequest ''Username parameter is required''
      | Some user \<Rightarrow>
          if user = [] then HttpError StatusBadRequest ''Username parameter is required''
          else
            (case GetAllTransitiveGroupsForUser (sqlOf W) (to_lower user) d of
               Inl e \<Rightarrow> HttpError StatusInternalServerError e
             | Inr gs \<Rightarrow>
                 (case encodeErr W of
                    Some e \<Rightarrow> HttpError StatusInternalServerError e
                  | None \<Rightarrow> Page (MemberOf (map gName gs)))))"

section \<open>Routing\<close>

datatype endpoint =
    AddUser | AddChild | AddOwnerGrp | RemoveChild | RemoveOwner | RemoveMember
  | ShowGroup | ShowUser | Create | Home

fun serve :: "webenv \<Rightarrow> endpoint \<Rightarrow> request \<Rightarrow> db \<Rightarrow> db \<times> page response" where
  "serve W AddUser r d = addUserToGroupHandler W r d"
| "serve W AddChild r d = addChildGroupHandler W r d"
| "serve W AddOwnerGrp r d = addOwnerGroupHandler W r d"
| "serve W RemoveChild r d = removeChildGroupHandler W r d"
| "serve W RemoveOwner r d = removeOwnerFromGroupHandler W r d"
| "serve W RemoveMember r d = removeMemberFromGroupHandler W r d"
| "serve W ShowGroup r d = (d, groupHandler W r d)"
| "serve W ShowUser r d = (d, userHandler W r d)"
| "serve W Create r d = createGroupHandler W r d"
| "serve W Home r d = (d, homePageHandler r)"

datatype call =
    Web webenv endpoint request
  | ApiInit webenv "(string, initRequest) result"
  | ApiMemberOf webenv request

fun serve_call :: "call \<Rightarrow> db \<Rightarrow> db \<times> page response" where
  "serve_call (Web W ep r) d = serve W ep r d"
| "serve_call (ApiInit W body) d = apiInitHandler W body d"
| "serve_call (ApiMemberOf W r) d = (d, apiMemberOfHandler W r d)"

lemmas handler_defs =
  addUserToGroupHandler_def addChildGroupHandler_def addOwnerGroupHandler_def
  removeChildGroupHandler_def removeOwnerFromGroupHandler_def removeMemberFromGroupHandler_def
  removeUserHandler_def createGroupHandler_def

section \<open>The abstract specification of a change\<close>

text \<open>
  \<open>authorized d u g\<close>: user \<open>u\<close> owns group \<open>g\<close> or is a direct member of a group that owns it.
  \<open>change u g d d'\<close> lists what \<open>u\<close> may do to \<open>g\<close>, with no mention of statements, error messages
  or requests.
\<close>

definition authorized :: "db \<Rightarrow> string \<Rightarrow> string \<Rightarrow> bool" where
  "authorized d u g \<longleftrightarrow> (u, g) \<in> set (owners d) \<or> member_of_owner_group d u g"

inductive change :: "string \<Rightarrow> string \<Rightarrow> db \<Rightarrow> db \<Rightarrow> bool" where
  create: "\<not> has_group d (gName g) \<Longrightarrow> (u, gName g) \<notin> set (owners d) \<Longrightarrow>
    change u (gName g) d (d\<lparr>groups := groups d @ [g], owners := owners d @ [(u, gName g)]\<rparr>)"
| add_owner: "authorized d u g \<Longrightarrow> (v, g) \<notin> set (owners d) \<Longrightarrow>
    change u g d (d\<lparr>owners := owners d @ [(v, g)]\<rparr>)"
| add_member: "authorized d u g \<Longrightarrow> (v, g) \<notin> set (user_to_group d) \<Longrightarrow>
    change u g d (d\<lparr>user_to_group := user_to_group d @ [(v, g)]\<rparr>)"
| add_child: "authorized d u g \<Longrightarrow> has_group d g \<Longrightarrow> has_group d c \<Longrightarrow> g \<noteq> c \<Longrightarrow>
    (g, c) \<notin> set (group_to_group d) \<Longrightarrow> (g, c) \<notin> (parent_rel d)\<^sup>* \<Longrightarrow>
    change u g d (d\<lparr>group_to_group := group_to_group d @ [(g, c)]\<rparr>)"
| add_owner_group: "authorized d u g \<Longrightarrow> has_group d g \<Longrightarrow> has_group d a \<Longrightarrow> a \<noteq> g \<Longrightarrow>
    (a, g) \<notin> set (owner_groups d) \<Longrightarrow>
    change u g d (d\<lparr>owner_groups := owner_groups d @ [(a, g)]\<rparr>)"
| remove_child: "authorized d u g \<Longrightarrow> (g, c) \<in> set (group_to_group d) \<Longrightarrow>
    change u g d (d\<lparr>group_to_group := filter (\<lambda>r. r \<noteq> (g, c)) (group_to_group d)\<rparr>)"
| remove_owner: "authorized d u g \<Longrightarrow> (v, g) \<in> set (owners d) \<Longrightarrow>
    length (users_of g (owners d)) \<noteq> 1 \<Longrightarrow>
    change u g d (d\<lparr>owners := filter (\<lambda>r. r \<noteq> (v, g)) (owners d)\<rparr>)"
| remove_member: "authorized d u g \<Longrightarrow> (v, g) \<in> set (user_to_group d) \<Longrightarrow>
    change u g d (d\<lparr>user_to_group := filter (\<lambda>r. r \<noteq> (v, g)) (user_to_group d)\<rparr>)"

lemma checkIsOwner_Inr: "checkIsOwner E u g d = Inr x \<Longrightarrow> authorized d u g"
  by (auto simp: checkIsOwner_def authorized_def IsGroupOwner_def IsMemberOfOwnerGroup_def
      err_simps split: if_splits dest!: run_Inr)

text \<open>The group a request is about.\<close>

fun target :: "endpoint \<Rightarrow> request \<Rightarrow> string" where
  "target AddUser r = path_var r ''group-name''"
| "target AddChild r = path_var r ''parent-group''"
| "target AddOwnerGrp r = path_var r ''owned-group''"
| "target RemoveChild r = path_var r ''parent-group''"
| "target RemoveOwner r = path_var r ''group-name''"
| "target RemoveMember r = path_var r ''group-name''"
| "target ShowGroup r = path_var r ''group-name''"
| "target ShowUser r = []"
| "target Create r = PostFormValue r ''group-name''"
| "target Home r = []"

definition simulates :: "request \<Rightarrow> string \<Rightarrow> db \<Rightarrow> db \<Rightarrow> bool" where
  "simulates r g d d' \<longleftrightarrow>
     d' = d \<or> (\<exists>u. getLoggedInUser r = Inr u \<and> Method r = ''POST'' \<and> change u g d d')"

lemma simulates_refl [simp]: "simulates r g d d"
  by (simp add: simulates_def)

lemma simulatesI:
  "getLoggedInUser r = Inr u \<Longrightarrow> Method r = ''POST'' \<Longrightarrow> change u g d d' \<Longrightarrow> simulates r g d d'"
  by (auto simp: simulates_def)

lemma create_sim: "simulates r (target Create r) d (fst (createGroupHandler W r d))"
proof -
  have "change u n d d'" if "CreateGroup E u \<lparr>gName = n, gDescription = t\<rparr> d = Inr d'" for E u n t d'
    using CreateGroup_Inr[OF that] change.create[of d "\<lparr>gName = n, gDescription = t\<rparr>" u] by simp
  then show ?thesis
    by (auto simp: createGroupHandler_def Let_def intro: simulatesI split: sum.split option.split)
qed

lemma remove_user_sim:
  "simulates r (path_var r ''group-name'') d (fst (removeUserHandler t W r d))"
proof -
  have "change u g d d'" if "checkIsOwner E u g d = Inr x" "RemoveUserFromTable E v g t d = Inr d'"
    for E u v g x d'
    using RemoveUserFromTable_Inr[OF that(2)] checkIsOwner_Inr[OF that(1)]
    by (auto intro: change.remove_owner change.remove_member)
  then show ?thesis
    by (auto simp: removeUserHandler_def Let_def intro: simulatesI split: sum.split)
qed

lemma remove_child_sim: "simulates r (target RemoveChild r) d (fst (removeChildGroupHandler W r d))"
proof -
  have "change u g d d'" if "checkIsOwner E u g d = Inr x" "RemoveFromGroupToGroup E g c d = Inr d'"
    for E u g c x d'
    using RemoveFromGroupToGroup_Inr[OF that(2)] checkIsOwner_Inr[OF that(1)]
    by (auto intro: change.remove_child)
  then show ?thesis
    by (auto simp: removeChildGroupHandler_def Let_def intro: simulatesI split: sum.split)
qed

lemma add_user_sim: "simulates r (target AddUser r) d (fst (addUserToGroupHandler W r d))"
proof -
  have "change u g d d'" if "checkIsOwner E u g d = Inr x" "AddGroupOwner E v g d = Inr d'"
    for E u v g x d'
    using AddGroupOwner_Inr[OF that(2)] checkIsOwner_Inr[OF that(1)] by (auto intro: change.add_owner)
  moreover have "change u g d d'" if "checkIsOwner E u g d = Inr x" "AddGroupMember E v g d = Inr d'"
    for E u v g x d'
    using AddGroupMember_Inr[OF that(2)] checkIsOwner_Inr[OF that(1)] by (auto intro: change.add_member)
  ultimately show ?thesis
    by (auto simp: addUserToGroupHandler_def Let_def intro: simulatesI
        split: sum.split Status.split)
qed

lemma add_child_sim: "simulates r (target AddChild r) d (fst (addChildGroupHandler W r d))"
proof -
  have "change u g d d'" if "checkIsOwner E u g d = Inr x" "AddChildGroup E g c d = Inr d'"
    for E u g c x d'
    using AddChildGroup_Inr[OF that(2)] checkIsOwner_Inr[OF that(1)] by (auto intro: change.add_child)
  then show ?thesis
    by (auto simp: addChildGroupHandler_def Let_def intro: simulatesI split: sum.split)
qed

lemma add_owner_group_sim: "simulates r (target AddOwnerGrp r) d (fst (addOwnerGroupHandler W r d))"
proof -
  have "change u g d d'" if "checkIsOwner E u g d = Inr x" "AddOwnerGroup E a g d = Inr d'"
    for E u a g x d'
    using AddOwnerGroup_Inr[OF that(2)] checkIsOwner_Inr[OF that(1)]
    by (auto intro: change.add_owner_group)
  then show ?thesis
    by (auto simp: addOwnerGroupHandler_def Let_def intro: simulatesI split: sum.split)
qed

lemma serve_simulates: "simulates r (target ep r) d (fst (serve W ep r d))"
  using create_sim[of r d W] remove_user_sim[of r d _ W] remove_child_sim[of r d W]
    add_user_sim[of r d W] add_child_sim[of r d W] add_owner_group_sim[of r d W]
  by (cases ep) (simp_all add: removeOwnerFromGroupHandler_def removeMemberFromGroupHandler_def)

section \<open>The invariant of the served store\<close>

definition server_inv :: "db \<Rightarrow> bool" where
  "server_inv d \<longleftrightarrow> store_inv d \<and> list_all (\<lambda>(u, g). has_group d g) (owners d)
     \<and> list_all (\<lambda>(u, g). has_group d g) (user_to_group d)"

lemma authorized_has_group: "server_inv d \<Longrightarrow> authorized d u g \<Longrightarrow> has_group d g"
  by (fastforce simp: server_inv_def authorized_def member_of_owner_group_def inv_defs list_ex_iff)

lemma has_group_frame [simp]:
  "has_group (d\<lparr>owners := x\<rparr>) = has_group d"
  "has_group (d\<lparr>user_to_group := x\<rparr>) = has_group d"
  "has_group (d\<lparr>owner_groups := x\<rparr>) = has_group d"
  "has_group (d\<lparr>group_to_group := x\<rparr>) = has_group d"
  by (auto simp: has_group_def)

lemma has_group_append [simp]:
  "has_group (d\<lparr>groups := groups d @ [g]\<rparr>) n \<longleftrightarrow> has_group d n \<or> n = gName g"
  by (auto simp: has_group_def)

lemma store_inv_edge:
  assumes "store_inv d" "has_group d p" "has_group d c" "(p, c) \<notin> set (group_to_group d)"
    "(p, c) \<notin> (parent_rel d)\<^sup>*"
  shows "store_inv (d\<lparr>group_to_group := group_to_group d @ [(p, c)]\<rparr>)"
  using assms by (auto simp: inv_defs parent_rel_add_edge acyclic_insert)

lemma store_inv_less_edges:
  assumes "store_inv d"
  shows "store_inv (d\<lparr>group_to_group := filter P (group_to_group d)\<rparr>)"
proof -
  have "parent_rel (d\<lparr>group_to_group := filter P (group_to_group d)\<rparr>) \<subseteq> parent_rel d"
    by (auto simp: parent_rel_def)
  with assms show ?thesis by (auto simp: inv_defs intro: acyclic_subset)
qed

lemma store_inv_less_owners:
  assumes "store_inv d" "(v, g) \<in> set (owners d)" "length (users_of g (owners d)) \<noteq> 1"
  shows "store_inv (d\<lparr>owners := filter (\<lambda>r. r \<noteq> (v, g)) (owners d)\<rparr>)"
proof -
  have "RemoveUserFromTable healthy v g ''owners'' d
      = Inr (d\<lparr>owners := filter (\<lambda>r. r \<noteq> (v, g)) (owners d)\<rparr>)"
    using assms by (auto simp: RemoveUserFromTable_def GetGroupOwners_def getUsersByGroup_def
        delete_user_def filter_empty_conv)
  with assms(1) show ?thesis by (rule RemoveUserFromTable_inv)
qed

lemma change_inv: "change u g d d' \<Longrightarrow> server_inv d \<Longrightarrow> server_inv d'"
proof (induction rule: change.induct)
  case (create d g u)
  then show ?case
    using store_inv_new_group[of d g u] by (auto simp: server_inv_def list_all_iff has_group_def)
next
  case (add_owner d u g v)
  then show ?case
    using store_inv_owner[of d v g] authorized_has_group[of d u g]
    by (auto simp: server_inv_def list_all_iff)
next
  case (add_member d u g v)
  then show ?case
    using store_inv_member[of d v g] authorized_has_group[of d u g]
    by (auto simp: server_inv_def list_all_iff)
next
  case (add_child d u g c)
  then show ?case using store_inv_edge[of d g c] by (auto simp: server_inv_def list_all_iff)
next
  case (add_owner_group d u g a)
  then show ?case by (auto simp: server_inv_def inv_defs)
next
  case (remove_child d u g c)
  then show ?case
    using store_inv_less_edges[of d] by (auto simp: server_inv_def list_all_iff)
next
  case (remove_owner d u g v)
  then show ?case
    using store_inv_less_owners[of d v g] by (auto simp: server_inv_def list_all_iff)
next
  case (remove_member d u g v)
  then show ?case by (auto simp: server_inv_def inv_defs)
qed

lemma init_groups_refs:
  "server_inv d \<Longrightarrow> init_groups E owner gs d = Inr d' \<Longrightarrow> server_inv d'"
proof (induction E owner gs d arbitrary: d' rule: init_groups.induct)
  case (1 E owner d)
  then show ?case by simp
next
  case (2 E owner g gs d)
  let ?g = "\<lparr>gName = g, gDescription = []\<rparr>"
  from "2.prems" obtain d1 d2 d3 where
    s1: "insert_group E ?g d = Inr d1" and
    s2: "insert_owner E owner g d1 = Inr d2" and
    s3: "insert_member E owner g d2 = Inr d3" and
    s4: "init_groups E owner gs d3 = Inr d'"
    by (auto simp: bindE_eq_Inr)
  have d2: "d2 = d\<lparr>groups := groups d @ [?g], owners := owners d @ [(owner, g)]\<rparr>"
    and fresh: "\<not> has_group d g" "(owner, g) \<notin> set (owners d)"
    using insert_group_Inr[OF s1] insert_owner_Inr[OF s2] by auto
  have "server_inv d2"
    using change.create[of d ?g owner] fresh d2 "2.prems"(1) change_inv by fastforce
  moreover have "has_group d2 g" using d2 by simp
  ultimately have "server_inv d3"
    using insert_member_Inr[OF s3] store_inv_member[of d2 owner g]
    by (auto simp: server_inv_def list_all_iff)
  with "2.IH"[OF s1 s2 s3] s4 show ?case by blast
qed

lemma serve_call_inv: "server_inv d \<Longrightarrow> server_inv (fst (serve_call c d))"
proof (cases c)
  case (Web W ep r)
  assume "server_inv d"
  with Web serve_simulates[of r ep d W] show ?thesis
    by (auto simp: simulates_def intro: change_inv)
next
  case (ApiInit W body)
  assume "server_inv d"
  with ApiInit show ?thesis
    by (auto simp: apiInitHandler_def split: sum.splits dest!: Init_Inr intro: init_groups_refs)
qed simp

interpretation ms: service serve_call server_inv
  by unfold_locales (rule serve_call_inv)

lemma server_inv_new [simp]: "server_inv NewSQLiteStore"
  using store_inv_new by (simp add: server_inv_def NewSQLiteStore_def)

section \<open>Properties\<close>

text \<open>The tables of the store's own test \<open>TestGetAllTransitiveGroupsForUser\<close>.\<close>

definition example_db :: db where
  "example_db =
     \<lparr>groups = [\<lparr>gName = ''a'', gDescription = ''xxx''\<rparr>, \<lparr>gName = ''b'', gDescription = ''yyy''\<rparr>,
               \<lparr>gName = ''c'', gDescription = ''zzz''\<rparr>],
      owners = [(''u'', ''a''), (''u'', ''b''), (''v'', ''c'')], owner_groups = [],
      group_to_group = [(''c'', ''a''), (''c'', ''b'')],
      user_to_group = [(''u'', ''a''), (''u'', ''b'')]\<rparr>"

definition example_env :: webenv where
  "example_env =
     \<lparr>sqlOf = healthy, parseTemplatesErr = None, executeErr = None, encodeErr = None\<rparr>"

definition example_create :: request where
  "example_create = empty_request\<lparr>Method := ''POST'', Header := (\<lambda>_. [])(''X-User'' := [''u'']),
     PostForm := [''group-name'' \<mapsto> [''admins''], ''description'' \<mapsto> [''x'']]\<rparr>"

text \<open>
  C1: Starting from the empty database, whatever web and API requests are served, and whichever
  statements the database refuses: group names and the rows of each table are unique, every
  edge, owner and member row refers to an existing group, the parent graph has no cycle and
  every group keeps at least one owner.
\<close>
theorem membership_store_invariant: "server_inv (run_service serve_call cs NewSQLiteStore)"
  by (rule ms.run_inv) (rule server_inv_new)

text \<open>
  C2: A web request that changes the tables carries an authenticated user, uses POST, and makes
  one change of the abstract specification on the group it names: the creation of a new group by
  its first owner, or a change by a user who owns that group or is a member of a group owning it.
\<close>
theorem served_changes_are_authorized:
  assumes "serve W ep r d = (d', w)" and "d' \<noteq> d"
  shows "\<exists>u. getLoggedInUser r = Inr u \<and> Method r = ''POST'' \<and> change u (target ep r) d d'"
  using serve_simulates[of r ep d W] assms by (simp add: simulates_def)

lemma example_create_serves:
  "serve example_env Create example_create NewSQLiteStore =
     (NewSQLiteStore\<lparr>groups := [\<lparr>gName = ''admins'', gDescription = ''x''\<rparr>],
        owners := [(''u'', ''admins'')]\<rparr>, Redirect StatusSeeOther ''/'')"
  by (simp add: createGroupHandler_def getLoggedInUser_def example_create_def example_env_def
      empty_request_def header_get_def first_value_def PostFormValue_def values_get_def
      isValidGroupName_def group_name_char_def trim_space_def is_space_def CreateGroup_def
      insert_group_def insert_owner_def insert_pair_def has_group_def references_ok_def
      NewSQLiteStore_def healthy_def run_def plain_def translate_def Let_def)

theorem served_changes_are_authorized_witness:
  "\<exists>u. getLoggedInUser example_create = Inr u \<and> Method example_create = ''POST''
     \<and> change u (target Create example_create) NewSQLiteStore
         (NewSQLiteStore\<lparr>groups := [\<lparr>gName = ''admins'', gDescription = ''x''\<rparr>],
            owners := [(''u'', ''admins'')]\<rparr>)"
  by (rule served_changes_are_authorized[OF example_create_serves]) (simp add: NewSQLiteStore_def)

text \<open>When no statement fails, the groups of a user are computed without duplicates, and they
  are exactly the groups reachable along parent edges from the groups the user is a member of,
  on every graph, cyclic ones included.
\<close>
theorem transitive_groups_of_user:
  assumes "no_faults E"
  shows "\<exists>gs. GetAllTransitiveGroupsForUser E user d = Inr gs \<and> distinct (map gName gs)
    \<and> gName ` set gs = (parent_rel d)\<^sup>* `` direct_groups d user"
  using transitive_user_total[OF assms, of user d] transitive_user_names by blast

theorem transitive_groups_of_user_witness:
  "\<exists>gs. GetAllTransitiveGroupsForUser healthy ''u'' example_db = Inr gs \<and> distinct (map gName gs)
    \<and> gName ` set gs = (parent_rel example_db)\<^sup>* `` direct_groups example_db ''u''"
  by (rule transitive_groups_of_user) simp

text \<open>When no statement fails, adding a child group succeeds exactly when the two groups differ,
  both exist, the pair is new and the child is not already an ancestor of the parent.
\<close>
theorem add_child_group_accepts:
  assumes "no_faults E"
  shows "is_ok (AddChildGroup E p c d) \<longleftrightarrow>
    p \<noteq> c \<and> has_group d p \<and> has_group d c \<and> (p, c) \<notin> set (group_to_group d)
    \<and> (p, c) \<notin> (parent_rel d)\<^sup>*"
proof
  assume "is_ok (AddChildGroup E p c d)"
  then obtain d' where "AddChildGroup E p c d = Inr d'" by (rule is_okE)
  from AddChildGroup_Inr[OF this] show "p \<noteq> c \<and> has_group d p \<and> has_group d c
    \<and> (p, c) \<notin> set (group_to_group d) \<and> (p, c) \<notin> (parent_rel d)\<^sup>*" by simp
next
  assume h: "p \<noteq> c \<and> has_group d p \<and> has_group d c \<and> (p, c) \<notin> set (group_to_group d)
    \<and> (p, c) \<notin> (parent_rel d)\<^sup>*"
  obtain gs where gs: "GetAllTransitiveGroupsForGroup E p d = Inr gs"
    using transitive_group_total[OF assms] by blast
  then have "c \<notin> gName ` set gs" using transitive_group_names h by auto
  with h gs assms show "is_ok (AddChildGroup E p c d)"
    by (simp add: AddChildGroup_def DoesGroupExist_def insert_pair_def references_ok_def)
qed

theorem add_child_group_accepts_witness:
  "is_ok (AddChildGroup healthy ''a'' ''c'' example_db) \<longleftrightarrow>
    ''a'' \<noteq> ''c'' \<and> has_group example_db ''a'' \<and> has_group example_db ''c''
    \<and> (''a'', ''c'') \<notin> set (group_to_group example_db) \<and> (''a'', ''c'') \<notin> (parent_rel example_db)\<^sup>*"
  by (rule add_child_group_accepts) simp

lemma Init_empty:
  assumes "no_faults E" and "distinct gs"
  shows "Init E u gs NewSQLiteStore =
    Inr (NewSQLiteStore\<lparr>groups := map (\<lambda>g. \<lparr>gName = g, gDescription = []\<rparr>) gs,
      owners := map (Pair u) gs, user_to_group := map (Pair u) gs\<rparr>)"
proof -
  have "init_groups E u gs (NewSQLiteStore\<lparr>groups := map (\<lambda>g. \<lparr>gName = g, gDescription = []\<rparr>) hs,
        owners := map (Pair u) hs, user_to_group := map (Pair u) hs\<rparr>)
      = Inr (NewSQLiteStore\<lparr>groups := map (\<lambda>g. \<lparr>gName = g, gDescription = []\<rparr>) (hs @ gs),
        owners := map (Pair u) (hs @ gs), user_to_group := map (Pair u) (hs @ gs)\<rparr>)"
    if "distinct (hs @ gs)" for hs
    using that
  proof (induction gs arbitrary: hs)
    case Nil
    then show ?case by simp
  next
    case (Cons g gs)
    then have "g \<notin> set hs" "distinct ((hs @ [g]) @ gs)" by auto
    with Cons.IH[of "hs @ [g]"] assms(1) show ?case
      by (auto simp: insert_group_def insert_owner_def insert_member_def insert_pair_def
          references_ok_def has_group_def NewSQLiteStore_def)
  qed
  from this[of "[]"] assms show ?thesis
    by (simp add: Init_def NewSQLiteStore_def)
qed

end
