(* ===== verification/Json.thy ===== *)
theory Json
  imports Prelude "HOL-Library.List_Lexorder" "HOL-Library.Char_ord"
begin

text \<open>
  JSON documents and the part of \<open>encoding/json\<close> the components use: decoding a document into a
  Go struct. A struct decoder visits the keys of an object in order; a key selects a field when
  the two agree up to ASCII case, unknown keys are skipped, \<open>null\<close> leaves the target alone and a
  value of another kind is an error. Decoders take the current content of their target, so that
  an absent field keeps its zero value. Documents are given parsed; reading bytes as a document
  is the library's.
\<close>

datatype json =
    JNull
  | JBool bool
  | JNum int
  | JReal string
  | JStr string
  | JArr "json list"
  | JObj "(string \<times> json) list"

type_synonym 'a decoder = "json \<Rightarrow> 'a \<Rightarrow> (string, 'a) result"

definition typeMismatch :: string where
  "typeMismatch = ''json: cannot unmarshal value''"

fun decode_string :: "string decoder" where
  "decode_string (JStr s) a = Inr s"
| "decode_string JNull a = Inr a"
| "decode_string _ a = Inl typeMismatch"

fun decode_int :: "int decoder" where
  "decode_int (JNum i) a =
     (if - (2 ^ 63) \<le> i \<and> i < 2 ^ 63 then Inr i else Inl typeMismatch)"
| "decode_int JNull a = Inr a"
| "decode_int _ a = Inl typeMismatch"

fun decode_bool :: "bool decoder" where
  "decode_bool (JBool b) a = Inr b"
| "decode_bool JNull a = Inr a"
| "decode_bool _ a = Inl typeMismatch"

fun decode_elems :: "'a decoder \<Rightarrow> 'a \<Rightarrow> json list \<Rightarrow> 'a list \<Rightarrow> (string, 'a list) result" where
  "decode_elems dec z [] olds = Inr []"
| "decode_elems dec z (v # vs) olds =
     bindE (dec v (case olds of [] \<Rightarrow> z | x # _ \<Rightarrow> x))
       (\<lambda>x. bindE (decode_elems dec z vs (tl olds)) (\<lambda>xs. Inr (x # xs)))"

fun decode_list :: "'a decoder \<Rightarrow> 'a \<Rightarrow> 'a list decoder" where
  "decode_list dec z (JArr vs) a = decode_elems dec z vs a"
| "decode_list dec z JNull a = Inr []"
| "decode_list dec z _ a = Inl typeMismatch"

fun decode_fields :: "(string \<rightharpoonup> 'a decoder) \<Rightarrow> (string \<times> json) list \<Rightarrow> 'a \<Rightarrow> (string, 'a) result" where
  "decode_fields fs [] a = Inr a"
| "decode_fields fs ((k, v) # kvs) a =
     (case fs (to_lower k) of
        None \<Rightarrow> decode_fields fs kvs a
      | Some dec \<Rightarrow> bindE (dec v a) (decode_fields fs kvs))"

fun decode_struct :: "(string \<rightharpoonup> 'a decoder) \<Rightarrow> 'a decoder" where
  "decode_struct fs (JObj kvs) a = decode_fields fs kvs a"
| "decode_struct fs JNull a = Inr a"
| "decode_struct fs _ a = Inl typeMismatch"

text \<open>A field of a record as a decoder of the record.\<close>

definition on_field ::
    "('r \<Rightarrow> 'a) \<Rightarrow> (('a \<Rightarrow> 'a) \<Rightarrow> 'r \<Rightarrow> 'r) \<Rightarrow> 'a decoder \<Rightarrow> 'r decoder" where
  "on_field get upd dec v r = bindE (dec v (get r)) (\<lambda>x. Inr (upd (\<lambda>_. x) r))"

text \<open>A string field with the option \<open>omitempty\<close>.\<close>

definition omitempty :: "string \<Rightarrow> string \<Rightarrow> (string \<times> json) list" where
  "omitempty k v = (if v = [] then [] else [(k, JStr v)])"

text \<open>Decoding into \<open>map[string]any\<close> accepts an object or \<open>null\<close>.\<close>

fun decode_map_any :: "json \<Rightarrow> (string, json) result" where
  "decode_map_any (JObj kvs) = Inr (JObj kvs)"
| "decode_map_any JNull = Inr JNull"
| "decode_map_any _ = Inl typeMismatch"

lemma decode_elems_strings [simp]:
  "decode_elems decode_string [] (map JStr xs) olds = Inr xs"
  by (induction xs arbitrary: olds) auto

lemma decode_list_strings [simp]:
  "decode_list decode_string [] (JArr (map JStr xs)) a = Inr xs"
  by simp

text \<open>\<open>strconv.Atoi\<close>: an optional sign and digits, within 64 bits.\<close>

definition Atoi :: "string \<Rightarrow> int option" where
  "Atoi s =
     (let neg = has_prefix s ''-''; t = (if neg \<or> has_prefix s ''+'' then tl s else s);
          n = (if neg then - int (undigits t) else int (undigits t)) in
      if t = [] \<or> \<not> list_all (\<lambda>c. CHR ''0'' \<le> c \<and> c \<le> CHR ''9'') t \<or> n < - (2 ^ 63) \<or> 2 ^ 63 \<le> n then None else Some n)"

section \<open>Objects as maps\<close>

text \<open>
  A Go \<open>map[string]any\<close> has no order; its document lists the keys in increasing order, as the
  printers do. \<open>wf_json\<close> says so at every level, and bounds integers to those a \<open>float64\<close>
  represents exactly.
\<close>

fun wf_json :: "json \<Rightarrow> bool" where
  "wf_json (JArr vs) = list_all wf_json vs"
| "wf_json (JObj kvs) =
     (sorted_wrt (<) (map fst kvs) \<and> list_all (\<lambda>(k, v). wf_json v) kvs)"
| "wf_json (JNum i) = (\<bar>i\<bar> \<le> 2 ^ 53)"
| "wf_json _ = True"

fun fields_put :: "string \<Rightarrow> 'v \<Rightarrow> (string \<times> 'v) list \<Rightarrow> (string \<times> 'v) list" where
  "fields_put k v [] = [(k, v)]"
| "fields_put k v ((k', v') # kvs) =
     (if k = k' then (k, v) # kvs
      else if k < k' then (k, v) # (k', v') # kvs
      else (k', v') # fields_put k v kvs)"

fun obj_get :: "string \<Rightarrow> json \<Rightarrow> json option" where
  "obj_get k (JObj kvs) = map_of kvs k"
| "obj_get k _ = None"

fun obj_put :: "string \<Rightarrow> json \<Rightarrow> json \<Rightarrow> json" where
  "obj_put k v (JObj kvs) = JObj (fields_put k v kvs)"
| "obj_put k v d = d"

fun is_obj :: "json \<Rightarrow> bool" where
  "is_obj (JObj _) = True"
| "is_obj _ = False"

lemma is_objE: "is_obj d \<Longrightarrow> (\<And>kvs. d = JObj kvs \<Longrightarrow> P) \<Longrightarrow> P"
  by (cases d) auto

lemma map_of_fields_put: "map_of (fields_put k v kvs) = (map_of kvs)(k \<mapsto> v)"
  by (induction kvs) (auto simp: fun_eq_iff)

lemma obj_get_put: "is_obj d \<Longrightarrow> obj_get k' (obj_put k v d) = (if k' = k then Some v else obj_get k' d)"
  by (cases d) (auto simp: map_of_fields_put)

lemma is_obj_put [simp]: "is_obj (obj_put k v d) = is_obj d"
  by (cases d) auto

lemma fields_put_keys: "fst ` set (fields_put k v kvs) = insert k (fst ` set kvs)"
  by (induction k v kvs rule: fields_put.induct) auto

lemma sorted_fields_put:
  "sorted_wrt (<) (map fst kvs) \<Longrightarrow> sorted_wrt (<) (map fst (fields_put k v kvs))"
proof (induction k v kvs rule: fields_put.induct)
  case (1 k v)
  then show ?case by simp
next
  case (2 k v k' v' kvs)
  have "\<forall>x \<in> fst ` set (fields_put k v kvs). k' < x" if "k' < k"
    unfolding fields_put_keys using "2.prems" that by auto
  with 2 show ?case by (auto simp: not_less order.order_iff_strict)
qed

lemma wf_fields_put:
  "list_all (\<lambda>(k, v). wf_json v) kvs \<Longrightarrow> wf_json v
    \<Longrightarrow> list_all (\<lambda>(k, v). wf_json v) (fields_put k v kvs)"
  by (induction k v kvs rule: fields_put.induct) auto

lemma wf_obj_put: "wf_json d \<Longrightarrow> wf_json v \<Longrightarrow> wf_json (obj_put k v d)"
  by (cases d) (auto simp: sorted_fields_put wf_fields_put)

lemma wf_obj_get: "wf_json d \<Longrightarrow> obj_get k d = Some v \<Longrightarrow> wf_json v"
  by (cases d) (auto simp: list_all_iff dest!: map_of_SomeD)

section \<open>A concrete codec\<close>

text \<open>
  A prefix code for documents, used to show that the laws assumed of the YAML and JSON printers can
  hold: strings and numbers carry their length in unary, arrays and objects end with a bracket.
\<close>

definition unary_nat :: "nat \<Rightarrow> string" where
  "unary_nat n = replicate n (CHR ''1'') @ ''0''"

definition code_string :: "string \<Rightarrow> string" where
  "code_string s = unary_nat (length s) @ s"

fun code_json :: "json \<Rightarrow> string" where
  "code_json JNull = ''n''"
| "code_json (JBool b) = (if b then ''t'' else ''f'')"
| "code_json (JNum i) = (if 0 \<le> i then ''+'' @ unary_nat (nat i) else ''-'' @ unary_nat (nat (- i)))"
| "code_json (JReal s) = ''r'' @ code_string s"
| "code_json (JStr s) = ''s'' @ code_string s"
| "code_json (JArr vs) = ''a'' @ concat (map code_json vs) @ '']''"
| "code_json (JObj kvs) = ''o'' @ concat (map (\<lambda>(k, v). ''.'' @ code_string k @ code_json v) kvs) @ '']''"

definition read_unary :: "string \<Rightarrow> nat \<times> string" where
  "read_unary s = (length (takeWhile (\<lambda>c. c = CHR ''1'') s), tl (dropWhile (\<lambda>c. c = CHR ''1'') s))"

definition read_string :: "string \<Rightarrow> string \<times> string" where
  "read_string s = (let (n, t) = read_unary s in (take n t, drop n t))"

fun read_json :: "nat \<Rightarrow> string \<Rightarrow> (json \<times> string) option"
  and read_elems :: "nat \<Rightarrow> string \<Rightarrow> (json list \<times> string) option"
  and read_fields :: "nat \<Rightarrow> string \<Rightarrow> ((string \<times> json) list \<times> string) option" where
  "read_json 0 s = None"
| "read_json (Suc n) [] = None"
| "read_json (Suc n) (c # cs) =
     (if c = CHR ''n'' then Some (JNull, cs)
      else if c = CHR ''t'' then Some (JBool True, cs)
      else if c = CHR ''f'' then Some (JBool False, cs)
      else if c = CHR ''+'' then (let (m, r) = read_unary cs in Some (JNum (int m), r))
      else if c = CHR ''-'' then (let (m, r) = read_unary cs in Some (JNum (- int m), r))
      else if c = CHR ''r'' then (let (x, r) = read_string cs in Some (JReal x, r))
      else if c = CHR ''s'' then (let (x, r) = read_string cs in Some (JStr x, r))
      else if c = CHR ''a'' then
        (case read_elems n cs of None \<Rightarrow> None | Some (vs, r) \<Rightarrow> Some (JArr vs, r))
      else if c = CHR ''o'' then
        (case read_fields n cs of None \<Rightarrow> None | Some (kvs, r) \<Rightarrow> Some (JObj kvs, r))
      else None)"
| "read_elems 0 s = None"
| "read_elems (Suc n) s =
     (if has_prefix s '']'' then Some ([], tl s)
      else (case read_json n s of
              None \<Rightarrow> None
            | Some (v, r) \<Rightarrow>
                (case read_elems n r of None \<Rightarrow> None | Some (vs, r') \<Rightarrow> Some (v # vs, r'))))"
| "read_fields 0 s = None"
| "read_fields (Suc n) s =
     (if has_prefix s '']'' then Some ([], tl s)
      else (let (k, r) = read_string (tl s) in
            case read_json n r of
              None \<Rightarrow> None
            | Some (v, r') \<Rightarrow>
                (case read_fields n r' of None \<Rightarrow> None | Some (kvs, r'') \<Rightarrow> Some ((k, v) # kvs, r''))))"

lemma read_unary_nat [simp]: "read_unary (unary_nat n @ t) = (n, t)"
  by (simp add: read_unary_def unary_nat_def takeWhile_append dropWhile_append)

lemma read_code_string [simp]: "read_string (code_string s @ t) = (s, t)"
  by (simp add: read_string_def code_string_def)

lemma code_json_start: "\<not> has_prefix (code_json v @ t) '']''" "code_json v \<noteq> []"
  by (cases v; simp add: has_prefix_def)+

lemma read_elems_code:
  assumes "\<And>v n t. v \<in> set vs \<Longrightarrow> length (code_json v) \<le> n \<Longrightarrow> read_json n (code_json v @ t) = Some (v, t)"
  shows "length (concat (map code_json vs)) < n
    \<Longrightarrow> read_elems n (concat (map code_json vs) @ '']'' @ t) = Some (vs, t)"
  using assms
proof (induction vs arbitrary: n)
  case Nil
  then show ?case by (cases n) (auto simp: has_prefix_def)
next
  case (Cons v vs)
  then obtain m where m: "n = Suc m" by (cases n) auto
  have "0 < length (code_json v)" using code_json_start(2) by (rule length_greater_0_conv[THEN iffD2])
  with Cons.prems(1) have "length (code_json v) + length (concat (map code_json vs)) < Suc m"
    "0 < length (code_json v)" unfolding m by simp_all
  then have len: "length (code_json v) \<le> m" "length (concat (map code_json vs)) < m" by linarith+
  have "read_json m (code_json v @ concat (map code_json vs) @ '']'' @ t) =
      Some (v, concat (map code_json vs) @ '']'' @ t)"
    using Cons.prems(2)[of v m] len by simp
  moreover have "read_elems m (concat (map code_json vs) @ '']'' @ t) = Some (vs, t)"
    using Cons.IH[of m] len Cons.prems(2) by simp
  ultimately show ?case using m by (simp add: code_json_start(1))
qed

lemma read_fields_code:
  assumes "\<And>k v n t. (k, v) \<in> set kvs \<Longrightarrow> length (code_json v) \<le> n
      \<Longrightarrow> read_json n (code_json v @ t) = Some (v, t)"
  defines "code \<equiv> \<lambda>kvs. concat (map (\<lambda>(k, v). ''.'' @ code_string k @ code_json v) kvs)"
  shows "length (code kvs) < n \<Longrightarrow> read_fields n (code kvs @ '']'' @ t) = Some (kvs, t)"
  using assms(1)
proof (induction kvs arbitrary: n)
  case Nil
  then show ?case by (cases n) (auto simp: has_prefix_def code_def)
next
  case (Cons kv kvs)
  obtain k v where kv: "kv = (k, v)" by (cases kv)
  from Cons.prems obtain m where m: "n = Suc m" by (cases n) auto
  have c: "code (kv # kvs) = ''.'' @ code_string k @ code_json v @ code kvs" by (simp add: code_def kv)
  with Cons.prems(1) m have len: "length (code_json v) \<le> m" "length (code kvs) < m" by auto
  have "read_json m (code_json v @ code kvs @ '']'' @ t) = Some (v, code kvs @ '']'' @ t)"
    using Cons.prems(2)[of k v m] len kv by simp
  moreover have "read_fields m (code kvs @ '']'' @ t) = Some (kvs, t)"
    by (rule Cons.IH) (use len Cons.prems(2) in auto)
  ultimately show ?case unfolding c m by (simp add: has_prefix_def kv)
qed

lemma read_code_json:
  "length (code_json v) \<le> n \<Longrightarrow> read_json n (code_json v @ t) = Some (v, t)"
proof (induction v arbitrary: n t)
  case (JArr vs)
  then obtain m where "n = Suc m" by (cases n) auto
  with JArr show ?case using read_elems_code[of vs m t] by simp
next
  case (JObj kvs)
  then obtain m where m: "n = Suc m" by (cases n) auto
  have "read_json n' (code_json v @ t') = Some (v, t')"
    if "(k, v) \<in> set kvs" "length (code_json v) \<le> n'" for k v n' t'
    using that by (intro JObj.IH[of "(k, v)" v]) auto
  with JObj.prems m show ?case using read_fields_code[of kvs m t] by simp
next
  case (JNum i)
  then obtain m where "n = Suc m" by (cases n) (auto split: if_splits)
  then show ?case by simp
qed (case_tac n; auto split: if_splits)+

definition decode_json :: "string \<Rightarrow> (string, json) result" where
  "decode_json s =
     (case read_json (length s) s of
        Some (v, []) \<Rightarrow> if wf_json v then Inr v else Inl ''invalid document''
      | _ \<Rightarrow> Inl ''invalid document'')"

lemma decode_code_json: "wf_json v \<Longrightarrow> decode_json (code_json v) = Inr v"
  using read_code_json[of v "length (code_json v)" "[]"] by (simp add: decode_json_def)

lemma decode_json_wf: "decode_json s = Inr v \<Longrightarrow> wf_json v"
  by (auto simp: decode_json_def split: option.splits list.splits if_splits)

text \<open>The laws assumed of a printer and a parser of documents.\<close>

definition codec_ok :: "(json \<Rightarrow> string) \<Rightarrow> (string \<Rightarrow> (string, json) result) \<Rightarrow> bool" where
  "codec_ok pr rd \<longleftrightarrow> (\<forall>d. wf_json d \<longrightarrow> rd (pr d) = Inr d) \<and> (\<forall>s d. rd s = Inr d \<longrightarrow> wf_json d)"

lemma codec_ok_example: "codec_ok code_json decode_json"
  by (simp add: codec_ok_def decode_code_json decode_json_wf)

end
