(* ===== verification/AuthProxy.thy ===== *)
theory AuthProxy
  imports MembershipsServer Json
begin

text \<open>
  The authenticating reverse proxy in front of an application
  (\<open>src/core/auth/proxy/main.go\<close>): who is asked for the identity, when a request is forwarded, and
  with which headers. It relies on the membership server only through the list of groups a user
  belongs to; the locale \<open>group_source\<close> states that contract and is interpreted on the API
  handler of \<open>MembershipsServer\<close>.

  The identity service (Kratos), \<open>url.Parse\<close> and the network are functions of the environment.
\<close>

section \<open>Configuration, requests and the environment\<close>

record flags =
  whoAmIAddr :: string
  loginAddr :: string
  membershipAddr :: string
  groupsFlag :: string
  upstream :: string

definition flags_ok :: "flags \<Rightarrow> bool" where
  "flags_ok F \<longleftrightarrow> \<not> (groupsFlag F \<noteq> [] \<and> membershipAddr F = [])"

record proxy_request = request +
  Cookies :: "(string \<times> string) list"
  RequestURI :: string

record user =
  Username :: string

record outgoing =
  outMethod :: string
  outHeader :: "string \<Rightarrow> string list"
  outURL :: string

record relayed =
  relStatus :: nat
  relHeader :: "string \<Rightarrow> string list"
  relBody :: string

record upstream_answer =
  upStatus :: nat
  upHeader :: "string \<Rightarrow> string list"
  upBody :: string
  upReadErr :: "string option"

text \<open>
  \<open>whoami\<close> is the answer to \<open>client.Get\<close> with the caller's cookies: an error, or a status code
  and what decoding the body as JSON yields; \<open>getJson\<close> is a plain \<open>http.Get\<close> followed by parsing
  the body. \<open>urlParse\<close> is \<open>url.Parse\<close> followed by \<open>String\<close>; \<open>jsonText\<close> prints a document.
\<close>

record netenv =
  urlParse :: "string \<Rightarrow> (string, string) result"
  whoami :: "string \<Rightarrow> (string \<times> string) list \<Rightarrow> (string, nat \<times> (string, json) result) result"
  getJson :: "string \<Rightarrow> (string, (string, json) result) result"
  upstreamDo :: "outgoing \<Rightarrow> (string, upstream_answer) result"
  jsonText :: "json \<Rightarrow> string"

section \<open>The identity of the caller\<close>

definition decode_user :: "user decoder" where
  "decode_user = decode_struct [''identity'' \<mapsto> decode_struct [''traits'' \<mapsto> decode_struct
     [''username'' \<mapsto> on_field Username Username_update decode_string]]]"

definition decode_authError :: "string decoder" where
  "decode_authError = decode_struct [''error'' \<mapsto> decode_struct [''status'' \<mapsto> decode_string]]"

definition queryWhoAmI ::
    "netenv \<Rightarrow> flags \<Rightarrow> (string \<times> string) list \<Rightarrow> (string, user option) result" where
  "queryWhoAmI N F cookies =
     bindE (urlParse N (whoAmIAddr F)) (\<lambda>_.
     bindE (whoami N (whoAmIAddr F) cookies) (\<lambda>(code, body).
     bindE body (\<lambda>doc.
     bindE (decode_map_any doc) (\<lambda>data.
       if code = StatusOK
       then bindE (decode_user data \<lparr>Username = []\<rparr>) (\<lambda>u. Inr (Some u))
       else bindE (decode_authError data []) (\<lambda>status.
         if status = ''Unauthorized'' then Inr None
         else Inl (''Unknown error: '' @ jsonText N data))))))"

definition getTransitiveGroups :: "netenv \<Rightarrow> flags \<Rightarrow> string \<Rightarrow> (string, string list) result" where
  "getTransitiveGroups N F u =
     bindE (getJson N (membershipAddr F @ ''/'' @ u)) (\<lambda>body.
     bindE body (\<lambda>doc.
       decode_struct [''memberof'' \<mapsto> decode_list decode_string []] doc []))"

section \<open>The handler\<close>

text \<open>
  \<open>getAddr\<close> indexes the first value of two headers; a request without them makes the handler
  panic, which is \<open>None\<close>.
\<close>

definition getAddr :: "netenv \<Rightarrow> proxy_request \<Rightarrow> (string, string) result option" where
  "getAddr N r =
     (case (Header r ''X-Forwarded-Scheme'', Header r ''X-Forwarded-Host'') of
        (scheme # _, host # _) \<Rightarrow>
          Some (urlParse N (scheme @ ''://'' @ host @ RequestURI r))
      | _ \<Rightarrow> None)"

definition hasPermission :: "string \<Rightarrow> string list \<Rightarrow> bool" where
  "hasPermission allowed tg =
     list_ex (\<lambda>i. trim_space i \<in> set tg) (split_on (CHR '','') allowed)"

definition add_header :: "string \<Rightarrow> string \<Rightarrow> (string \<Rightarrow> string list) \<Rightarrow> string \<Rightarrow> string list" where
  "add_header k v h = h(k := h k @ [v])"

definition unauthenticated :: "netenv \<Rightarrow> flags \<Rightarrow> proxy_request \<Rightarrow> relayed response" where
  "unauthenticated N F r =
     (if Method r \<noteq> ''GET'' then HttpError StatusUnauthorized ''Unauthorized''
      else
        (case getAddr N r of
           None \<Rightarrow> Aborted
         | Some (Inl e) \<Rightarrow> HttpError StatusInternalServerError e
         | Some (Inr addr) \<Rightarrow> Redirect StatusSeeOther (loginAddr F @ ''?return_to='' @ addr)))"

definition authorize :: "netenv \<Rightarrow> flags \<Rightarrow> string \<Rightarrow> (relayed response, unit) result" where
  "authorize N F u =
     (if groupsFlag F \<noteq> []
      then
        (case getTransitiveGroups N F u of
           Inl e \<Rightarrow> Inl (HttpError StatusInternalServerError e)
         | Inr tg \<Rightarrow>
             guardE (hasPermission (groupsFlag F) tg)
               (HttpError StatusUnauthorized ''not authorized''))
      else Inr ())"

definition relay :: "upstream_answer \<Rightarrow> relayed response" where
  "relay a = Page \<lparr>relStatus = upStatus a, relHeader = upHeader a,
     relBody = upBody a @ (case upReadErr a of None \<Rightarrow> [] | Some e \<Rightarrow> e @ [CHR 0x0A])\<rparr>"

definition forward ::
    "netenv \<Rightarrow> flags \<Rightarrow> string \<Rightarrow> proxy_request \<Rightarrow> outgoing list \<times> relayed response" where
  "forward N F u r =
     (case urlParse N (''http://'' @ upstream F @ RequestURI r) of
        Inl e \<Rightarrow> ([], HttpError StatusInternalServerError e)
      | Inr ru \<Rightarrow>
          (let rc = \<lparr>outMethod = Method r, outHeader = add_header ''X-User'' u (Header r),
                    outURL = ru\<rparr>
           in ([rc], (case upstreamDo N rc of
                        Inl e \<Rightarrow> HttpError StatusInternalServerError e
                      | Inr a \<Rightarrow> relay a))))"

text \<open>The handler returns the requests it sends upstream and what it answers.\<close>

definition handle ::
    "netenv \<Rightarrow> flags \<Rightarrow> proxy_request \<Rightarrow> outgoing list \<times> relayed response" where
  "handle N F r =
     (case queryWhoAmI N F (Cookies r) of
        Inl e \<Rightarrow> ([], HttpError StatusInternalServerError e)
      | Inr None \<Rightarrow> ([], unauthenticated N F r)
      | Inr (Some u) \<Rightarrow>
          (case authorize N F (Username u) of
             Inl w \<Rightarrow> ([], w)
           | Inr _ \<Rightarrow> forward N F (Username u) r))"

section \<open>Lemmas\<close>

lemma handle_sends:
  "fst (handle N F r) \<noteq> [] \<longleftrightarrow>
     (\<exists>u ru. queryWhoAmI N F (Cookies r) = Inr (Some u) \<and> authorize N F (Username u) = Inr ()
       \<and> urlParse N (''http://'' @ upstream F @ RequestURI r) = Inr ru)"
  by (auto simp: handle_def forward_def Let_def split: sum.splits option.splits)

lemma handle_sent:
  assumes "rc \<in> set (fst (handle N F r))"
  obtains u where "queryWhoAmI N F (Cookies r) = Inr (Some u)" "authorize N F (Username u) = Inr ()"
    "outHeader rc = add_header ''X-User'' (Username u) (Header r)" "outMethod rc = Method r"
    "fst (handle N F r) = [rc]"
proof -
  from assms have "fst (handle N F r) \<noteq> []" by auto
  then obtain u ru where u: "queryWhoAmI N F (Cookies r) = Inr (Some u)"
    "authorize N F (Username u) = Inr ()"
    "urlParse N (''http://'' @ upstream F @ RequestURI r) = Inr ru"
    by (auto simp: handle_sends)
  then have h: "handle N F r = forward N F (Username u) r" by (simp add: handle_def)
  with assms u(3) have "rc = \<lparr>outMethod = Method r,
      outHeader = add_header ''X-User'' (Username u) (Header r), outURL = ru\<rparr>"
    by (simp add: forward_def Let_def)
  with h u that show ?thesis by (simp add: forward_def Let_def)
qed

lemma authorize_Inr:
  "authorize N F u = Inr x \<longleftrightarrow>
     groupsFlag F = [] \<or>
     (\<exists>tg. getTransitiveGroups N F u = Inr tg \<and> hasPermission (groupsFlag F) tg)"
  by (auto simp: authorize_def guardE_def split: sum.splits)

lemma hasPermission_iff:
  "hasPermission allowed tg \<longleftrightarrow>
     (\<exists>i \<in> set (split_on (CHR '','') allowed). trim_space i \<in> set tg)"
  by (simp add: hasPermission_def list_ex_iff)

section \<open>The contract with the membership server\<close>

text \<open>
  All the proxy needs of a group service: the list it returns for a user holds exactly the
  groups the user is in.
\<close>

locale group_source =
  fixes lookup :: "string \<Rightarrow> (string, string list) result"
    and member :: "string \<Rightarrow> string \<Rightarrow> bool"
  assumes lookup_exact: "lookup u = Inr gs \<Longrightarrow> g \<in> set gs \<longleftrightarrow> member u g"
begin

definition allowed_by :: "string \<Rightarrow> string \<Rightarrow> bool" where
  "allowed_by fl u \<longleftrightarrow> (\<exists>i \<in> set (split_on (CHR '','') fl). member u (trim_space i))"

lemma permission_exact:
  "lookup u = Inr gs \<Longrightarrow> hasPermission fl gs \<longleftrightarrow> allowed_by fl u"
  by (simp add: hasPermission_iff allowed_by_def lookup_exact)

lemma authorize_exact:
  assumes "\<And>u. getTransitiveGroups N F u = lookup u" and "groupsFlag F \<noteq> []"
  shows "authorize N F u = Inr () \<longleftrightarrow> is_ok (lookup u) \<and> allowed_by (groupsFlag F) u"
  using assms permission_exact by (auto simp: authorize_Inr elim!: is_okE)

end

text \<open>
  The membership API as the proxy reaches it: the handler's answer encoded as JSON; an
  \<open>http.Error\<close> body is not a JSON document.
\<close>

fun wire :: "page response \<Rightarrow> (string, json) result" where
  "wire (Page (MemberOf gs)) = Inr (JObj [(''memberOf'', JArr (map JStr gs))])"
| "wire w = Inl ''invalid character''"

definition user_request :: "string \<Rightarrow> request" where
  "user_request u = empty_request\<lparr>Vars := [''username'' \<mapsto> u]\<rparr>"

definition membership_api :: "webenv \<Rightarrow> db \<Rightarrow> string \<Rightarrow> (string, json) result" where
  "membership_api W d u = wire (apiMemberOfHandler W (user_request u) d)"

definition api_lookup :: "webenv \<Rightarrow> db \<Rightarrow> string \<Rightarrow> (string, string list) result" where
  "api_lookup W d u = bindE (membership_api W d u)
     (\<lambda>doc. decode_struct [''memberof'' \<mapsto> decode_list decode_string []] doc [])"

definition member_transitively :: "db \<Rightarrow> string \<Rightarrow> string \<Rightarrow> bool" where
  "member_transitively d u g \<longleftrightarrow> g \<in> (parent_rel d)\<^sup>* `` direct_groups d (to_lower u)"

lemma lower_memberOf [simp]: "to_lower ''memberOf'' = ''memberof''"
  by code_simp

lemma api_lookup_Inr:
  "api_lookup W d u = Inr gs \<longleftrightarrow>
     u \<noteq> [] \<and> encodeErr W = None \<and>
     (\<exists>hs. GetAllTransitiveGroupsForUser (sqlOf W) (to_lower u) d = Inr hs \<and> gs = map gName hs)"
  by (auto simp: api_lookup_def membership_api_def apiMemberOfHandler_def user_request_def
      simp del: map_map split: sum.splits option.splits)

interpretation api: group_source "api_lookup W d" "member_transitively d" for W d
proof
  fix u gs g
  assume "api_lookup W d u = Inr gs"
  then obtain hs where "GetAllTransitiveGroupsForUser (sqlOf W) (to_lower u) d = Inr hs"
    and "gs = map gName hs" by (auto simp: api_lookup_Inr)
  with transitive_user_names show "g \<in> set gs \<longleftrightarrow> member_transitively d u g"
    by (metis member_transitively_def set_map)
qed


section \<open>Properties\<close>

text \<open>A request reaches the application only when the identity service named a user for the
  caller's cookies and, if groups are configured, the group service listed one of them for that
  user; it is sent at most once, with the caller's method.
\<close>
theorem forwarded_only_if_authorized:
  assumes "rc \<in> set (fst (handle N F r))"
  shows "\<exists>u. queryWhoAmI N F (Cookies r) = Inr (Some u)
    \<and> (groupsFlag F = [] \<or>
       (\<exists>tg. getTransitiveGroups N F (Username u) = Inr tg \<and> hasPermission (groupsFlag F) tg))
    \<and> fst (handle N F r) = [rc] \<and> outMethod rc = Method r"
proof -
  from handle_sent[OF assms] obtain u where "queryWhoAmI N F (Cookies r) = Inr (Some u)"
    "authorize N F (Username u) = Inr ()" "outMethod rc = Method r" "fst (handle N F r) = [rc]"
    by metis
  then show ?thesis by (auto simp: authorize_Inr)
qed

text \<open>
  C3: The proxy and the membership server together. When the group service is the membership API
  on the tables \<open>d\<close> and no statement fails, an authenticated user's request is forwarded exactly
  when a group of the flag is reachable along parent edges from a group the user is a member of;
  otherwise the answer is 401 and nothing is sent.
\<close>
theorem access_iff_transitive_member:
  assumes api: "getJson N (membershipAddr F @ ''/'' @ Username u) = Inr (membership_api W d (Username u))"
    and healthy: "no_faults (sqlOf W)" "encodeErr W = None" "Username u \<noteq> []"
    and who: "queryWhoAmI N F (Cookies r) = Inr (Some u)"
    and url: "urlParse N (''http://'' @ upstream F @ RequestURI r) = Inr ru"
    and flag: "groupsFlag F \<noteq> []"
  shows "if \<exists>i \<in> set (split_on (CHR '','') (groupsFlag F)).
             trim_space i \<in> (parent_rel d)\<^sup>* `` direct_groups d (to_lower (Username u))
         then fst (handle N F r) \<noteq> []
         else handle N F r = ([], HttpError StatusUnauthorized ''not authorized'')"
proof -
  obtain gs where gs: "api_lookup W d (Username u) = Inr gs"
    using transitive_user_total[OF healthy(1)] healthy by (metis api_lookup_Inr)
  then have "getTransitiveGroups N F (Username u) = Inr gs"
    using api by (simp add: getTransitiveGroups_def api_lookup_def)
  moreover have "hasPermission (groupsFlag F) gs \<longleftrightarrow> api.allowed_by d (groupsFlag F) (Username u)"
    by (rule api.permission_exact[OF gs])
  ultimately show ?thesis
    using who url flag
    by (auto simp: handle_def authorize_def forward_def Let_def api.allowed_by_def
        member_transitively_def)
qed

text \<open>What the application reads as the user. The proxy appends the authenticated name to the
  header \<open>X-User\<close> of the caller, and the application reads the first value: it sees the
  authenticated name exactly when the caller sent no such header, or sent that name first.
\<close>
theorem forwarded_identity:
  assumes "rc \<in> set (fst (handle N F r))" and "queryWhoAmI N F (Cookies r) = Inr (Some u)"
  shows "first_value (outHeader rc ''X-User'') =
    (case Header r ''X-User'' of [] \<Rightarrow> Username u | v # _ \<Rightarrow> v)"
proof -
  from handle_sent[OF assms(1)] assms(2)
  have "outHeader rc = add_header ''X-User'' (Username u) (Header r)" by force
  then show ?thesis by (auto simp: add_header_def first_value_def split: list.split)
qed

subsection \<open>A concrete deployment\<close>

definition example_flags :: flags where
  "example_flags = \<lparr>whoAmIAddr = ''http://whoami'', loginAddr = ''http://login'',
     membershipAddr = ''http://m'', groupsFlag = ''x, c'', upstream = ''app''\<rparr>"

definition example_net :: netenv where
  "example_net = \<lparr>urlParse = (\<lambda>u. Inr u),
     whoami = (\<lambda>_ _. Inr (200, Inr (JObj [(''identity'', JObj [(''traits'',
        JObj [(''username'', JStr ''u'')])])]))),
     getJson = (\<lambda>a. Inr (membership_api example_env example_db (drop (length ''http://m/'') a))),
     upstreamDo = (\<lambda>_. Inr \<lparr>upStatus = 200, upHeader = (\<lambda>_. []), upBody = ''ok'', upReadErr = None\<rparr>),
     jsonText = (\<lambda>_. ''{}'')\<rparr>"

definition example_call :: proxy_request where
  "example_call = \<lparr>Method = ''GET'', Header = (\<lambda>_. [])(''X-User'' := [''root'']), Vars = Map.empty,
     Query = (\<lambda>_. []), Form = Map.empty, PostForm = Map.empty, formErr = None,
     Cookies = [], RequestURI = ''/''\<rparr>"

definition example_outgoing :: outgoing where
  "example_outgoing = \<lparr>outMethod = ''GET'', outHeader = (\<lambda>_. [])(''X-User'' := [''root'', ''u'']),
     outURL = ''http://app/''\<rparr>"

lemma example_whoami: "queryWhoAmI example_net example_flags [] = Inr (Some \<lparr>Username = ''u''\<rparr>)"
  by (simp add: queryWhoAmI_def example_net_def example_flags_def decode_user_def on_field_def
      to_lower_def lower_char_def StatusOK_def)


definition open_flags :: flags where
  "open_flags = example_flags\<lparr>groupsFlag := []\<rparr>"

lemma open_whoami: "queryWhoAmI example_net open_flags [] = Inr (Some \<lparr>Username = ''u''\<rparr>)"
  using example_whoami by (simp add: queryWhoAmI_def open_flags_def)

lemma open_handle: "fst (handle example_net open_flags example_call) = [example_outgoing]"
  by (simp add: handle_def open_whoami example_call_def authorize_def forward_def Let_def
      add_header_def example_outgoing_def)
     (simp add: open_flags_def example_net_def example_flags_def add_header_def)

lemma example_call_fields [simp]:
  "Cookies example_call = []" "Header example_call ''X-User'' = [''root'']"
  by (simp_all add: example_call_def)

theorem forwarded_only_if_authorized_witness:
  "\<exists>u. queryWhoAmI example_net open_flags (Cookies example_call) = Inr (Some u)
    \<and> (groupsFlag open_flags = [] \<or>
       (\<exists>tg. getTransitiveGroups example_net open_flags (Username u) = Inr tg
         \<and> hasPermission (groupsFlag open_flags) tg))
    \<and> fst (handle example_net open_flags example_call) = [example_outgoing]
    \<and> outMethod example_outgoing = Method example_call"
  by (rule forwarded_only_if_authorized) (simp add: open_handle)

theorem forwarded_identity_witness:
  "first_value (outHeader example_outgoing ''X-User'') = ''root''"
  using forwarded_identity[of example_outgoing example_net open_flags example_call "\<lparr>Username = ''u''\<rparr>"]
  by (simp add: open_handle open_whoami)

theorem access_iff_transitive_member_witness:
  "if \<exists>i \<in> set (split_on (CHR '','') (groupsFlag example_flags)).
        trim_space i \<in> (parent_rel example_db)\<^sup>* `` direct_groups example_db (to_lower ''u'')
   then fst (handle example_net example_flags example_call) \<noteq> []
   else handle example_net example_flags example_call =
     ([], HttpError StatusUnauthorized ''not authorized'')"
proof -
  let ?u = "\<lparr>Username = ''u''\<rparr>"
  have "getJson example_net (membershipAddr example_flags @ ''/'' @ Username ?u)
      = Inr (membership_api example_env example_db (Username ?u))"
    by (simp add: example_net_def example_flags_def)
  moreover have "urlParse example_net (''http://'' @ upstream example_flags @ RequestURI example_call)
      = Inr (''http://'' @ upstream example_flags @ RequestURI example_call)"
    by (simp add: example_net_def)
  moreover have "queryWhoAmI example_net example_flags (Cookies example_call) = Inr (Some ?u)"
    by (simp add: example_whoami example_call_def)
  ultimately show ?thesis
    using access_iff_transitive_member[of example_net example_flags ?u example_env example_db
        example_call "''http://'' @ upstream example_flags @ RequestURI example_call"]
    by (simp add: example_env_def example_flags_def)
qed

end
