(* ===== verification/Accounts.thy ===== *)
theory Accounts
  imports Json
begin

text \<open>
  The accounts API (\<open>src/core/auth/ui/api.go\<close>): it checks a user name and a password and creates an
  identity in Kratos, which is a function of the text of the request it is sent.
\<close>

section \<open>Requests and replies\<close>

record identityCreateReq =
  icUsername :: string
  icPassword :: string

record ValidationError =
  veField :: string
  veMessage :: string

text \<open>
  What the handler writes: nothing (status 200), the errors as JSON with status 400, or a text with
  the given status.
\<close>

datatype api_reply = IdentityCreated | CombinedErrors "ValidationError list" | ApiFailure nat string

text \<open>Kratos answers with a status and a body, of which the handler decodes \<open>error.status\<close>.\<close>

type_synonym kratos = "string \<Rightarrow> (string, nat \<times> (string, string) result) result"

definition StatusCreated :: nat where "StatusCreated = 201"

definition decode_identityCreateReq :: "identityCreateReq decoder" where
  "decode_identityCreateReq = decode_struct
     [''username'' \<mapsto> on_field icUsername icUsername_update decode_string,
      ''password'' \<mapsto> on_field icPassword icPassword_update decode_string]"

section \<open>The handler\<close>

definition extractKratosErrorMessage :: "string \<Rightarrow> ValidationError list" where
  "extractKratosErrorMessage st =
     [\<lparr>veField = ''username'',
       veMessage =
         (if st = ''Conflict'' then ''Username is not available.''
          else if st = ''Bad Request'' then ''Username is less than 3 characters.''
          else ''Unexpexted Error.'')\<rparr>]"

definition validateUsername :: "string \<Rightarrow> ValidationError list" where
  "validateUsername username =
     (if length username < 3
      then [\<lparr>veField = ''username'', veMessage = ''Username must be at least 3 characters long.''\<rparr>] else [])"

definition validatePassword :: "string \<Rightarrow> ValidationError list" where
  "validatePassword password =
     (if length password < 6
      then [\<lparr>veField = ''password'', veMessage = ''Password must be at least 6 characters long.''\<rparr>] else [])"

definition nl :: string where
  "nl = [CHR 0x0A]"

definition quoted :: "string \<Rightarrow> string" where
  "quoted s = CHR 0x22 # s @ [CHR 0x22]"

text \<open>\<open>identityCreateTmpl\<close>; the values are pasted between the quotes as they are.\<close>

definition identityText :: "string \<Rightarrow> string \<Rightarrow> string" where
  "identityText password username =
     nl @ ''{'' @ nl @
     ''  '' @ quoted ''credentials'' @ '': {'' @ nl @
     ''    '' @ quoted ''password'' @ '': {'' @ nl @
     ''      '' @ quoted ''config'' @ '': {'' @ nl @
     ''        '' @ quoted ''password'' @ '': '' @ quoted password @ nl @
     ''      }'' @ nl @
     ''    }'' @ nl @
     ''  },'' @ nl @
     ''  '' @ quoted ''schema_id'' @ '': '' @ quoted ''user'' @ '','' @ nl @
     ''  '' @ quoted ''state'' @ '': '' @ quoted ''active'' @ '','' @ nl @
     ''  '' @ quoted ''traits'' @ '': {'' @ nl @
     ''    '' @ quoted ''username'' @ '': '' @ quoted username @ nl @
     ''  }'' @ nl @ ''}'' @ nl"

definition identityCreate :: "kratos \<Rightarrow> (string, json) result \<Rightarrow> api_reply" where
  "identityCreate K body =
     (case bindE body (\<lambda>doc. decode_identityCreateReq doc \<lparr>icUsername = [], icPassword = []\<rparr>) of
        Inl _ \<Rightarrow> ApiFailure StatusBadRequest ''request can not be parsed''
      | Inr req \<Rightarrow>
          (let allErrors = validateUsername (icUsername req) @ validatePassword (icPassword req) in
           if allErrors \<noteq> [] then CombinedErrors allErrors
           else
             (case K (identityText (icPassword req) (icUsername req)) of
                Inl _ \<Rightarrow> ApiFailure StatusInternalServerError ''failed''
              | Inr (code, e) \<Rightarrow>
                  if code = StatusCreated then IdentityCreated
                  else
                    (case e of
                       Inl _ \<Rightarrow> ApiFailure StatusInternalServerError ''failed to decode''
                     | Inr st \<Rightarrow> CombinedErrors (extractKratosErrorMessage st)))))"

section \<open>Who gets an identity\<close>

lemma identityCreate_created:
  "identityCreate K body = IdentityCreated \<longleftrightarrow>
    (\<exists>req e. bindE body (\<lambda>doc. decode_identityCreateReq doc \<lparr>icUsername = [], icPassword = []\<rparr>) = Inr req
      \<and> 3 \<le> length (icUsername req) \<and> 6 \<le> length (icPassword req)
      \<and> K (identityText (icPassword req) (icUsername req)) = Inr (StatusCreated, e))"
  by (auto simp: identityCreate_def Let_def validateUsername_def validatePassword_def
      split: sum.splits prod.splits if_splits)

end
