(* ===== verification/AuthUi.thy ===== *)
theory AuthUi
  imports Accounts
begin

text \<open>
  The login service (\<open>src/core/auth/ui/main.go\<close>, \<open>hydra.go\<close>): pages for registration and login in front
  of Kratos, which keeps the accounts and sessions, and the answers to the login and consent challenges of
  Hydra, the OpenID provider.

  Both services are functions of the environment. What a handler sends to them to change something is
  recorded in the order of sending: a handler returns these messages and its reply.
\<close>

section \<open>Messages and replies\<close>

type_synonym cookies = "(string \<times> string) list"

record regReq =
  rrCSRFToken :: string
  rrMethod :: string
  rrPassword :: string
  rrUsername :: string

record loginForm =
  lfCSRFToken :: string
  lfMethod :: string
  lfPassword :: string
  lfIdentifier :: string

record consentAcceptReq =
  GrantScope :: "string list"
  IDToken :: "(string \<times> string) list"

datatype message =
    PostToKratos string cookies regReq
  | PostFormToKratos string cookies loginForm
  | AcceptLogin string string
  | RejectLogin string string
  | AcceptConsent string consentAcceptReq

record authreq =
  aqRequest :: request
  aqCookies :: cookies

datatype auth_page = RegisterPage string | LoginPage string bool | WhoAmIPage string

record authreply =
  SetCookies :: cookies
  Reply :: "auth_page response"

record kratos_answer =
  kaStatus :: nat
  kaCookies :: cookies
  kaLocation :: string

record loginResp =
  lrRedirectTo :: string
  lrError :: string

record RequestedConsent =
  rcChallenge :: string
  rcSubject :: string
  rcScopes :: "string list"

text \<open>
  \<open>kratosGet\<close> is the text a GET with cookies returns, or an error; \<open>rego\<close> evaluates a path of package
  regogo on such a text. Hydra answers with a JSON document.
\<close>

record authenv =
  kratosAddr :: string
  hydraHost :: string
  emailDomain :: string
  enableRegistration :: bool
  urlErr :: "string \<Rightarrow> string option"
  kratosGet :: "string \<Rightarrow> cookies \<Rightarrow> (string, string) result"
  rego :: "string \<Rightarrow> string \<Rightarrow> (string, string) result"
  kratosPost :: "message \<Rightarrow> (string, kratos_answer) result"
  parseJSON :: "string \<Rightarrow> (string, json) result"
  hydraGet :: "string \<Rightarrow> (string, json) result"
  hydraPut :: "message \<Rightarrow> (string, json) result"
  pageErr :: "string option"

type_synonym ('e, 'a) sending = "message list \<times> ('e, 'a) result"

definition bindS :: "('e, 'a) sending \<Rightarrow> ('a \<Rightarrow> ('e, 'b) sending) \<Rightarrow> ('e, 'b) sending" where
  "bindS m f = (case m of (ms, Inl e) \<Rightarrow> (ms, Inl e) | (ms, Inr a) \<Rightarrow> (ms @ fst (f a), snd (f a)))"

definition silently :: "('e, 'a) result \<Rightarrow> ('e, 'a) sending" where
  "silently x = ([], x)"

section \<open>The client of Hydra\<close>

definition decode_loginResp :: "loginResp decoder" where
  "decode_loginResp = decode_struct
     [''redirect_to'' \<mapsto> on_field lrRedirectTo lrRedirectTo_update decode_string,
      ''error'' \<mapsto> on_field lrError lrError_update decode_string]"

definition decode_RequestedConsent :: "RequestedConsent decoder" where
  "decode_RequestedConsent = decode_struct
     [''challenge'' \<mapsto> on_field rcChallenge rcChallenge_update decode_string,
      ''subject'' \<mapsto> on_field rcSubject rcSubject_update decode_string,
      ''requested_scope'' \<mapsto> on_field rcScopes rcScopes_update (decode_list decode_string [])]"

definition login_result :: "authenv \<Rightarrow> message \<Rightarrow> (string, string) result" where
  "login_result V m =
     bindE (hydraPut V m) (\<lambda>doc.
     bindE (decode_loginResp doc \<lparr>lrRedirectTo = [], lrError = []\<rparr>) (\<lambda>r.
     bindE (guardE (lrError r = []) (lrError r)) (\<lambda>_. Inr (lrRedirectTo r))))"

text \<open>The user name is pasted into the document.\<close>

definition accept_text :: "string \<Rightarrow> string" where
  "accept_text subject =
     nl @ ''{'' @ nl @
     ''    '' @ quoted ''subject'' @ '': '' @ quoted subject @ '','' @ nl @
     ''    '' @ quoted ''remember'' @ '': true,'' @ nl @
     ''    '' @ quoted ''remember_for'' @ '': 3600'' @ nl @ ''}''"

definition reject_text :: "string \<Rightarrow> string" where
  "reject_text msg = nl @ ''{'' @ nl @ ''    '' @ quoted ''error'' @ '': '' @ quoted (''login_required '' @ msg) @ nl @ ''}''"

definition LoginAcceptChallenge :: "authenv \<Rightarrow> string \<Rightarrow> string \<Rightarrow> (string, string) sending" where
  "LoginAcceptChallenge V challenge subject =
     (let m = AcceptLogin challenge (accept_text subject) in ([m], login_result V m))"

definition LoginRejectChallenge :: "authenv \<Rightarrow> string \<Rightarrow> string \<Rightarrow> (string, string) sending" where
  "LoginRejectChallenge V challenge msg =
     (let m = RejectLogin challenge (reject_text msg) in ([m], login_result V m))"

definition GetConsentChallenge :: "authenv \<Rightarrow> string \<Rightarrow> (string, RequestedConsent) result" where
  "GetConsentChallenge V challenge =
     bindE (hydraGet V (''http://'' @ hydraHost V @ ''/admin/oauth2/auth/requests/consent?consent_challenge='' @ challenge))
       (\<lambda>doc. decode_RequestedConsent doc \<lparr>rcChallenge = [], rcSubject = [], rcScopes = []\<rparr>)"

text \<open>Of the answer only the field \<open>redirect_to\<close> is read; an error document has none.\<close>

definition decode_consentAcceptResp :: "string decoder" where
  "decode_consentAcceptResp = decode_struct [''redirect_to'' \<mapsto> decode_string]"

definition ConsentAccept ::
    "authenv \<Rightarrow> string \<Rightarrow> string list \<Rightarrow> (string \<times> string) list \<Rightarrow> (string, string) sending" where
  "ConsentAccept V challenge scopes idToken =
     (let m = AcceptConsent challenge \<lparr>GrantScope = scopes, IDToken = idToken\<rparr> in
      ([m], bindE (hydraPut V m) (\<lambda>doc. decode_consentAcceptResp doc [])))"

section \<open>Requests to Kratos\<close>

definition flow_url :: "authenv \<Rightarrow> string \<Rightarrow> string" where
  "flow_url V flowType = kratosAddr V @ ''/self-service/'' @ flowType @ ''/browser''"

definition parsed :: "authenv \<Rightarrow> string \<Rightarrow> (string, unit) result" where
  "parsed V addr = (case urlErr V addr of Some e \<Rightarrow> Inl e | None \<Rightarrow> Inr ())"

definition getCSRFToken :: "authenv \<Rightarrow> string \<Rightarrow> string \<Rightarrow> cookies \<Rightarrow> (string, string) result" where
  "getCSRFToken V flowType flow cs =
     bindE (parsed V (flow_url V flowType)) (\<lambda>_.
     bindE (kratosGet V (kratosAddr V @ ''/self-service/'' @ flowType @ ''/flows?id='' @ flow) cs) (\<lambda>respBody.
       rego V respBody ''input.ui.nodes[0].attributes.value''))"

definition postToKratos :: "authenv \<Rightarrow> string \<Rightarrow> string \<Rightarrow> cookies \<Rightarrow> regReq \<Rightarrow> (string, kratos_answer) sending" where
  "postToKratos V flowType flow cs req =
     bindS (silently (parsed V (flow_url V flowType))) (\<lambda>_.
       let m = PostToKratos (kratosAddr V @ ''/self-service/'' @ flowType @ ''?flow='' @ flow) cs req in
       ([m], kratosPost V m))"

definition postFormToKratos :: "authenv \<Rightarrow> string \<Rightarrow> string \<Rightarrow> cookies \<Rightarrow> loginForm \<Rightarrow> (string, kratos_answer) sending" where
  "postFormToKratos V flowType flow cs form =
     bindS (silently (parsed V (flow_url V flowType))) (\<lambda>_.
       let m = PostFormToKratos (kratosAddr V @ ''/self-service/'' @ flowType @ ''?flow='' @ flow) cs form in
       ([m], kratosPost V m))"

definition getLogoutURLFromKratos :: "authenv \<Rightarrow> cookies \<Rightarrow> (string, string) result" where
  "getLogoutURLFromKratos V cs =
     bindE (parsed V (flow_url V ''logout'')) (\<lambda>_.
     bindE (kratosGet V (flow_url V ''logout'') cs) (\<lambda>respBody.
     bindE (parseJSON V respBody) (\<lambda>doc. decode_struct [''logout_url'' \<mapsto> decode_string] doc [])))"

datatype whoami_error = ErrNotLoggedIn | WhoAmIError string

fun error_text :: "whoami_error \<Rightarrow> string" where
  "error_text ErrNotLoggedIn = ''Not logged in''"
| "error_text (WhoAmIError e) = e"

definition getWhoAmIFromKratos :: "authenv \<Rightarrow> cookies \<Rightarrow> (whoami_error, string) result" where
  "getWhoAmIFromKratos V cs =
     (case bindE (parsed V (kratosAddr V @ ''/sessions/whoami'')) (\<lambda>_.
           bindE (kratosGet V (kratosAddr V @ ''/sessions/whoami'') cs) (\<lambda>respBody.
             rego V respBody ''input.identity.traits.username'')) of
        Inl e \<Rightarrow> Inl (WhoAmIError e)
      | Inr username \<Rightarrow> if username = [] then Inl ErrNotLoggedIn else Inr username)"

section \<open>Handlers\<close>

definition failing :: "nat \<Rightarrow> string \<Rightarrow> authreply" where
  "failing code e = \<lparr>SetCookies = [], Reply = HttpError code e\<rparr>"

definition redirecting :: "string \<Rightarrow> authreply" where
  "redirecting addr = \<lparr>SetCookies = [], Reply = Redirect StatusSeeOther addr\<rparr>"

definition showing :: "authenv \<Rightarrow> auth_page \<Rightarrow> authreply" where
  "showing V p = \<lparr>SetCookies = [],
     Reply = (case pageErr V of Some e \<Rightarrow> HttpError StatusInternalServerError e | None \<Rightarrow> Page p)\<rparr>"

definition crashing :: authreply where
  "crashing = \<lparr>SetCookies = [], Reply = Aborted\<rparr>"

text \<open>A handler ends where it writes an error or a redirection.\<close>

definition or500 :: "('a, 'b) result \<Rightarrow> ('a \<Rightarrow> string) \<Rightarrow> (authreply, 'b) result" where
  "or500 x f = (case x of Inl e \<Rightarrow> Inl (failing StatusInternalServerError (f e)) | Inr a \<Rightarrow> Inr a)"

definition sending500 :: "(string, 'b) sending \<Rightarrow> (authreply, 'b) sending" where
  "sending500 m = (fst m, or500 (snd m) id)"

definition ended :: "(authreply, authreply) sending \<Rightarrow> message list \<times> authreply" where
  "ended m = (fst m, case snd m of Inl w \<Rightarrow> w | Inr w \<Rightarrow> w)"

definition ParseForm :: "nat \<Rightarrow> authreq \<Rightarrow> (authreply, unit) result" where
  "ParseForm code r = (case formErr (aqRequest r) of Some e \<Rightarrow> Inl (failing code e) | None \<Rightarrow> Inr ())"

text \<open>The first value of a key of the form: the handlers index the list of values without looking at its length.\<close>

definition form_first :: "authreq \<Rightarrow> string \<Rightarrow> authreply \<Rightarrow> (authreply, string) result" where
  "form_first r key missing =
     (case Form (aqRequest r) key of
        None \<Rightarrow> Inl missing
      | Some [] \<Rightarrow> Inl crashing
      | Some (v # _) \<Rightarrow> Inr v)"

definition cookie_named :: "string \<Rightarrow> cookies \<Rightarrow> string option" where
  "cookie_named n cs = map_of cs n"

definition registerInitiate :: "authenv \<Rightarrow> authreq \<Rightarrow> message list \<times> authreply" where
  "registerInitiate V r = ended (silently
     (bindE (ParseForm StatusInternalServerError r) (\<lambda>_.
      bindE (form_first r ''flow'' (redirecting (flow_url V ''registration''))) (\<lambda>flow.
      bindE (or500 (getCSRFToken V ''registration'' flow (aqCookies r)) id) (\<lambda>csrfToken.
        Inr (showing V (RegisterPage csrfToken)))))))"

definition register :: "authenv \<Rightarrow> authreq \<Rightarrow> message list \<times> authreply" where
  "register V r = ended
     (bindS (silently (ParseForm StatusInternalServerError r)) (\<lambda>_.
      bindS (silently (form_first r ''flow'' (redirecting (flow_url V ''registration'')))) (\<lambda>flow.
      bindS (sending500 (postToKratos V ''registration'' flow (aqCookies r)
          \<lparr>rrCSRFToken = FormValue (aqRequest r) ''csrf_token'', rrMethod = ''password'',
           rrPassword = FormValue (aqRequest r) ''password'', rrUsername = FormValue (aqRequest r) ''username''\<rparr>)) (\<lambda>resp.
        silently (Inr \<lparr>SetCookies = kaCookies resp, Reply = Redirect StatusSeeOther ''/''\<rparr>)))))"

text \<open>The part of \<open>loginInitiate\<close> that follows the login challenge.\<close>

definition login_page :: "authenv \<Rightarrow> authreq \<Rightarrow> (authreply, authreply) result" where
  "login_page V r =
     (let returnTo = FormValue (aqRequest r) ''return_to'' in
      bindE (form_first r ''flow''
          (redirecting (flow_url V ''login'' @ (if returnTo \<noteq> [] then ''?return_to='' @ returnTo else [])))) (\<lambda>flow.
      bindE (or500 (getCSRFToken V ''login'' flow (aqCookies r)) id) (\<lambda>csrfToken.
        Inr (showing V (LoginPage csrfToken (enableRegistration V))))))"

definition with_cookie :: "string \<times> string \<Rightarrow> (authreply, authreply) result \<Rightarrow> (authreply, authreply) result" where
  "with_cookie c x =
     (let put = (\<lambda>w. w\<lparr>SetCookies := c # SetCookies w\<rparr>) in case x of Inl w \<Rightarrow> Inl (put w) | Inr w \<Rightarrow> Inr (put w))"

definition loginInitiate :: "authenv \<Rightarrow> authreq \<Rightarrow> message list \<times> authreply" where
  "loginInitiate V r = ended
     (bindS (silently (ParseForm StatusInternalServerError r)) (\<lambda>_.
        case Form (aqRequest r) ''login_challenge'' of
          None \<Rightarrow> silently (login_page V r)
        | Some challenges \<Rightarrow>
            (case getWhoAmIFromKratos V (aqCookies r) of
               Inl (WhoAmIError e) \<Rightarrow> silently (Inl (failing StatusInternalServerError e))
             | Inl ErrNotLoggedIn \<Rightarrow>
                 silently (case challenges of
                    [] \<Rightarrow> Inl crashing
                  | c # _ \<Rightarrow> with_cookie (''login_challenge'', c) (login_page V r))
             | Inr username \<Rightarrow>
                 (case challenges of
                    [] \<Rightarrow> silently (Inl crashing)
                  | c # _ \<Rightarrow>
                      bindS (sending500 (LoginAcceptChallenge V c username)) (\<lambda>redirectTo.
                        silently (Inr (redirecting redirectTo)))))))"

text \<open>
  When Kratos can not be reached \<open>login\<close> reads the status of a response that is nil, before it looks at
  the error: it panics, and the block that would reject the challenge is never reached.
\<close>

definition login_form :: "authreq \<Rightarrow> loginForm" where
  "login_form r = \<lparr>lfCSRFToken = FormValue (aqRequest r) ''csrf_token'', lfMethod = ''password'',
     lfPassword = FormValue (aqRequest r) ''password'', lfIdentifier = FormValue (aqRequest r) ''username''\<rparr>"

definition login_accept :: "authenv \<Rightarrow> string \<Rightarrow> kratos_answer \<Rightarrow> (authreply, authreply) sending" where
  "login_accept V challenge resp =
     bindS (silently (or500 (getWhoAmIFromKratos V (kaCookies resp)) error_text)) (\<lambda>username.
     bindS (sending500 (LoginAcceptChallenge V challenge username)) (\<lambda>redirectTo.
       silently (Inr (redirecting redirectTo))))"

definition login_posted :: "authenv \<Rightarrow> authreq \<Rightarrow> string \<Rightarrow> (authreply, authreply) sending" where
  "login_posted V r flow =
     (case postFormToKratos V ''login'' flow (aqCookies r) (login_form r) of
        (ms, Inl _) \<Rightarrow> (ms, Inl crashing)
      | (ms, Inr resp) \<Rightarrow>
          (let put = (\<lambda>w. w\<lparr>SetCookies := kaCookies resp @ SetCookies w\<rparr>);
               rest = (case cookie_named ''login_challenge'' (aqCookies r) of
                  Some c \<Rightarrow> login_accept V c resp
                | None \<Rightarrow>
                    silently (Inr (redirecting (if kaStatus resp = StatusSeeOther then kaLocation resp else ''/''))))
           in (ms @ fst rest, map_sum put put (snd rest))))"

definition login :: "authenv \<Rightarrow> authreq \<Rightarrow> message list \<times> authreply" where
  "login V r = ended
     (bindS (silently (ParseForm StatusInternalServerError r)) (\<lambda>_.
      bindS (silently (form_first r ''flow'' (redirecting (flow_url V ''login'')))) (login_posted V r)))"

definition logout :: "authenv \<Rightarrow> authreq \<Rightarrow> message list \<times> authreply" where
  "logout V r = ended (silently
     (bindE (or500 (getLogoutURLFromKratos V (aqCookies r)) id) (\<lambda>addr. Inr (redirecting addr))))"

definition whoami :: "authenv \<Rightarrow> authreq \<Rightarrow> message list \<times> authreply" where
  "whoami V r = ([],
     case getWhoAmIFromKratos V (aqCookies r) of
       Inl ErrNotLoggedIn \<Rightarrow> redirecting ''/login''
     | Inl (WhoAmIError e) \<Rightarrow> failing StatusInternalServerError e
     | Inr username \<Rightarrow> showing V (WhoAmIPage username))"

definition id_token :: "authenv \<Rightarrow> string \<Rightarrow> (string \<times> string) list" where
  "id_token V username = [(''email'', username @ ''@'' @ emailDomain V), (''username'', username)]"

definition consent :: "authenv \<Rightarrow> authreq \<Rightarrow> message list \<times> authreply" where
  "consent V r = ended
     (bindS (silently (ParseForm StatusBadRequest r)) (\<lambda>_.
      bindS (silently (form_first r ''consent_challenge'' (failing StatusBadRequest ''Consent challenge not provided''))) (\<lambda>c.
      bindS (silently (or500 (GetConsentChallenge V c) id)) (\<lambda>rc.
      bindS (silently (or500 (getWhoAmIFromKratos V (aqCookies r)) error_text)) (\<lambda>username.
      bindS (sending500 (ConsentAccept V (FormValue (aqRequest r) ''consent_challenge'') (rcScopes rc)
          (id_token V username))) (\<lambda>redirectTo.
        silently (Inr (redirecting redirectTo))))))))"

definition processConsent :: "authenv \<Rightarrow> authreq \<Rightarrow> message list \<times> authreply" where
  "processConsent V r = ended
     (bindS (silently (ParseForm StatusBadRequest r)) (\<lambda>_.
      bindS (silently (or500 (getWhoAmIFromKratos V (aqCookies r)) error_text)) (\<lambda>username.
        if Form (aqRequest r) ''allow'' = None then silently (Inr \<lparr>SetCookies = [], Reply = NoContent\<rparr>)
        else
          bindS (sending500 (ConsentAccept V (FormValue (aqRequest r) ''consent_challenge'')
              (case Form (aqRequest r) ''scope'' of None \<Rightarrow> [] | Some ss \<Rightarrow> ss) (id_token V username))) (\<lambda>redirectTo.
            silently (Inr (redirecting redirectTo))))))"

text \<open>The routes of \<open>Start\<close>; those for registration exist only when it is enabled.\<close>

definition auth_serve :: "authenv \<Rightarrow> string \<Rightarrow> authreq \<Rightarrow> message list \<times> authreply" where
  "auth_serve V path r =
     (let m = Method (aqRequest r);
          notFound = ([], failing StatusNotFound ''404 page not found'');
          notAllowed = ([], \<lparr>SetCookies = [], Reply = HttpError StatusMethodNotAllowed []\<rparr>)
      in if path = ''/register'' \<and> enableRegistration V then
           (if m = ''GET'' then registerInitiate V r else if m = ''POST'' then register V r else notAllowed)
         else if path = ''/login'' then
           (if m = ''GET'' then loginInitiate V r else if m = ''POST'' then login V r else notAllowed)
         else if path = ''/consent'' then
           (if m = ''GET'' then consent V r else if m = ''POST'' then processConsent V r else notAllowed)
         else if path = ''/logout'' then (if m = ''GET'' then logout V r else notAllowed)
         else if path = ''/'' then whoami V r
         else notFound)"

section \<open>What is sent\<close>

lemma in_bindS:
  "m \<in> set (fst (bindS x f)) \<longleftrightarrow> m \<in> set (fst x) \<or> (\<exists>a. snd x = Inr a \<and> m \<in> set (fst (f a)))"
  by (auto simp: bindS_def split: prod.splits sum.splits)

lemma sending_simps [simp]:
  "fst (silently x) = []" "snd (silently x) = x" "fst (ended y) = fst y"
  "fst (sending500 z) = fst z" "snd (sending500 z) = or500 (snd z) id"
  by (simp_all add: silently_def ended_def sending500_def)

lemma or500_Inr [simp]: "or500 x f = Inr a \<longleftrightarrow> x = Inr a"
  by (cases x) (simp_all add: or500_def)

lemma fst_hydra [simp]:
  "fst (LoginAcceptChallenge V c u) = [AcceptLogin c (accept_text u)]"
  "fst (ConsentAccept V c ss t) = [AcceptConsent c \<lparr>GrantScope = ss, IDToken = t\<rparr>]"
  by (simp_all add: LoginAcceptChallenge_def ConsentAccept_def Let_def)

lemma form_first_Inr: "form_first r k w = Inr v \<longleftrightarrow> (\<exists>vs. Form (aqRequest r) k = Some (v # vs))"
  by (auto simp: form_first_def split: option.splits list.splits)

lemma FormValue_first: "Form q k = Some (v # vs) \<Longrightarrow> FormValue q k = v"
  by (simp add: FormValue_def values_get_def first_value_def)

lemma register_sends: "m \<in> set (fst (register V r)) \<Longrightarrow> \<exists>a q. m = PostToKratos a (aqCookies r) q"
  by (auto simp: register_def in_bindS postToKratos_def Let_def)

lemma loginInitiate_sends:
  assumes "m \<in> set (fst (loginInitiate V r))"
  shows "\<exists>c vs u. m = AcceptLogin c (accept_text u) \<and> getWhoAmIFromKratos V (aqCookies r) = Inr u
    \<and> Form (aqRequest r) ''login_challenge'' = Some (c # vs)"
  using assms
  by (auto simp: loginInitiate_def in_bindS split: option.splits sum.splits list.splits whoami_error.splits)

lemma postForm_sends:
  assumes "postFormToKratos V t flow cs form = (ms, x)"
  shows "(\<forall>m \<in> set ms. m = PostFormToKratos (kratosAddr V @ ''/self-service/'' @ t @ ''?flow='' @ flow) cs form)
    \<and> (\<forall>resp. x = Inr resp \<longrightarrow>
        kratosPost V (PostFormToKratos (kratosAddr V @ ''/self-service/'' @ t @ ''?flow='' @ flow) cs form) = Inr resp)"
  using assms by (auto simp: postFormToKratos_def bindS_def silently_def Let_def split: sum.splits)

text \<open>The login of a request: Kratos took the form and named the session in the cookies of its answer.\<close>

definition logged_in_by :: "authenv \<Rightarrow> authreq \<Rightarrow> cookies \<Rightarrow> bool" where
  "logged_in_by V r cs \<longleftrightarrow> (\<exists>flow resp.
     kratosPost V (PostFormToKratos (kratosAddr V @ ''/self-service/login?flow='' @ flow) (aqCookies r) (login_form r)) = Inr resp
     \<and> cs = kaCookies resp)"

lemma login_sends:
  assumes "m \<in> set (fst (login V r))"
  shows "(\<exists>a. m = PostFormToKratos a (aqCookies r) (login_form r)) \<or>
    (\<exists>c u cs. m = AcceptLogin c (accept_text u) \<and> getWhoAmIFromKratos V cs = Inr u \<and> logged_in_by V r cs
      \<and> cookie_named ''login_challenge'' (aqCookies r) = Some c)"
proof -
  from assms obtain flow where "m \<in> set (fst (login_posted V r flow))"
    by (auto simp: login_def in_bindS)
  moreover obtain ms x where p: "postFormToKratos V ''login'' flow (aqCookies r) (login_form r) = (ms, x)"
    by (rule prod.exhaust)
  ultimately have m: "m \<in> set ms \<or> (\<exists>resp c. x = Inr resp \<and> cookie_named ''login_challenge'' (aqCookies r) = Some c
        \<and> m \<in> set (fst (login_accept V c resp)))"
    by (auto simp: login_posted_def Let_def split: sum.splits option.splits)
  from m show ?thesis
  proof
    assume "m \<in> set ms"
    then show ?thesis using postForm_sends[OF p] by blast
  next
    assume "\<exists>resp c. x = Inr resp \<and> cookie_named ''login_challenge'' (aqCookies r) = Some c
        \<and> m \<in> set (fst (login_accept V c resp))"
    then show ?thesis using postForm_sends[OF p]
      by (fastforce simp: login_accept_def in_bindS logged_in_by_def)
  qed
qed

lemma consent_sends:
  assumes "m \<in> set (fst (consent V r))"
  shows "\<exists>c q u rc. m = AcceptConsent c q \<and> getWhoAmIFromKratos V (aqCookies r) = Inr u \<and> IDToken q = id_token V u
    \<and> c = FormValue (aqRequest r) ''consent_challenge'' \<and> GetConsentChallenge V c = Inr rc \<and> GrantScope q = rcScopes rc"
  using assms by (auto simp: consent_def in_bindS form_first_Inr FormValue_first)

lemma processConsent_sends:
  assumes "m \<in> set (fst (processConsent V r))"
  shows "\<exists>c q u. m = AcceptConsent c q \<and> getWhoAmIFromKratos V (aqCookies r) = Inr u \<and> IDToken q = id_token V u
    \<and> c = FormValue (aqRequest r) ''consent_challenge''"
  using assms by (auto simp: processConsent_def in_bindS split: if_splits)

lemma silent_handlers: "fst (registerInitiate V r) = []" "fst (logout V r) = []" "fst (whoami V r) = []"
  by (simp_all add: registerInitiate_def logout_def whoami_def)


text \<open>When Kratos can not be reached, a login that carries a challenge of Hydra crashes and is not rejected.\<close>
theorem unreachable_login_crashes:
  assumes "formErr (aqRequest r) = None" and "Form (aqRequest r) ''flow'' = Some (flow # vs)"
    and "snd (postFormToKratos V ''login'' flow (aqCookies r) (login_form r)) = Inl e"
  shows "snd (login V r) = crashing \<and> (\<forall>c t. RejectLogin c t \<notin> set (fst (login V r)))"
proof
  obtain ms where "postFormToKratos V ''login'' flow (aqCookies r) (login_form r) = (ms, Inl e)"
    using assms(3) by (cases "postFormToKratos V ''login'' flow (aqCookies r) (login_form r)") auto
  with assms(1,2) show "snd (login V r) = crashing"
    by (simp add: login_def login_posted_def ended_def bindS_def silently_def ParseForm_def form_first_def)
  show "\<forall>c t. RejectLogin c t \<notin> set (fst (login V r))" using login_sends by blast
qed

subsection \<open>A concrete environment\<close>

text \<open>Kratos knows one session, that of the cookie \<open>s\<close>, and Hydra accepts everything.\<close>

definition example_auth :: authenv where
  "example_auth = \<lparr>kratosAddr = ''k'', hydraHost = ''h'', emailDomain = ''e.com'', enableRegistration = False,
     urlErr = (\<lambda>_. None), kratosGet = (\<lambda>_ cs. Inr (if map_of cs ''s'' = None then [] else ''gio'')),
     rego = (\<lambda>body _. Inr body), kratosPost = (\<lambda>_. Inl ''unreachable''), parseJSON = (\<lambda>_. Inl []),
     hydraGet = (\<lambda>_. Inr (JObj [(''requested_scope'', JArr [JStr ''openid''])])),
     hydraPut = (\<lambda>_. Inr (JObj [(''redirect_to'', JStr ''/cb'')])), pageErr = None\<rparr>"

definition example_login :: authreq where
  "example_login = \<lparr>aqRequest = empty_request\<lparr>Form := [''login_challenge'' \<mapsto> [''c1'']]\<rparr>, aqCookies = [(''s'', ''1'')]\<rparr>"


definition example_post :: authreq where
  "example_post = \<lparr>aqRequest = empty_request\<lparr>Method := ''POST'', Form := [''flow'' \<mapsto> [''f'']]\<rparr>,
     aqCookies = [(''login_challenge'', ''c1'')]\<rparr>"

theorem unreachable_login_crashes_witness: "snd (login example_auth example_post) = crashing"
proof -
  have "snd (postFormToKratos example_auth ''login'' ''f'' (aqCookies example_post) (login_form example_post))
      = Inl ''unreachable''"
    by (simp add: postFormToKratos_def bindS_def silently_def parsed_def example_auth_def Let_def)
  then show ?thesis
    using unreachable_login_crashes[of example_post "''f''" "[]" example_auth "''unreachable''"]
    by (simp add: example_post_def empty_request_def)
qed

end
