(* ===== verification/FileSystem.thy ===== *)
theory FileSystem
  imports Prelude
begin

text \<open>
  The file system interface of the DNS service (\<open>src/core/dns-api/fs.go\<close>) and its implementation
  \<open>osFS\<close> on the operating system's files, with \<open>filepath.Join\<close>. Every system call may be refused
  by the environment; a write may stop after a prefix of its data, and a file that is opened for
  writing is truncated first.
\<close>

section \<open>Paths: filepath.Clean and filepath.Join\<close>

text \<open>
  \<open>clean_parts\<close> keeps the stack of components read so far, innermost first; \<open>..\<close> removes the last
  one, is dropped at the root and kept at the start of a relative path.
\<close>

fun clean_parts :: "bool \<Rightarrow> string list \<Rightarrow> string list \<Rightarrow> string list" where
  "clean_parts rooted acc [] = rev acc"
| "clean_parts rooted acc (c # cs) =
     (if c = [] \<or> c = ''.'' then clean_parts rooted acc cs
      else if c = ''..'' then
        (case acc of
           [] \<Rightarrow> clean_parts rooted (if rooted then [] else [''..'']) cs
         | a # acc' \<Rightarrow> clean_parts rooted (if a = ''..'' then ''..'' # acc else acc') cs)
      else clean_parts rooted (c # acc) cs)"

definition path_clean :: "string \<Rightarrow> string" where
  "path_clean p =
     (let rooted = has_prefix p ''/'';
          body = join_with ''/'' (clean_parts rooted [] (split_on (CHR ''/'') p))
      in if rooted then ''/'' @ body else if body = [] then ''.'' else body)"

definition path_join :: "string list \<Rightarrow> string" where
  "path_join es =
     (let ne = filter (\<lambda>e. e \<noteq> []) es in
      if ne = [] then [] else path_clean (join_with ''/'' ne))"

section \<open>The contract\<close>

text \<open>
  What a client of \<open>FS\<close> relies on: a successful write is read back, and other files are left
  alone, whether it succeeds or not. The lemma about several writes is proved once here.
\<close>

locale file_system =
  fixes key_of :: "string \<Rightarrow> 'k"
    and content :: "'s \<Rightarrow> 'k \<Rightarrow> string option"
    and write_op :: "string \<Rightarrow> string \<Rightarrow> 's \<Rightarrow> 's \<times> string option"
  assumes write_read: "write_op p x s = (s', None) \<Longrightarrow> content s' (key_of p) = Some x"
    and write_frame: "write_op p x s = (s', r) \<Longrightarrow> k \<noteq> key_of p \<Longrightarrow> content s' k = content s k"
begin

fun write_seq :: "(string \<times> string) list \<Rightarrow> 's \<Rightarrow> 's \<times> string option" where
  "write_seq [] s = (s, None)"
| "write_seq ((p, x) # ws) s =
     (case write_op p x s of (s', None) \<Rightarrow> write_seq ws s' | (s', Some e) \<Rightarrow> (s', Some e))"

lemma write_seq_frame:
  "write_seq ws s = (s', r) \<Longrightarrow> k \<notin> key_of ` fst ` set ws \<Longrightarrow> content s' k = content s k"
proof (induction ws s rule: write_seq.induct)
  case (1 s)
  then show ?case by simp
next
  case (2 p x ws s)
  then show ?case by (auto split: prod.splits option.splits dest: write_frame)
qed

lemma write_seq_read:
  "write_seq ws s = (s', None) \<Longrightarrow> distinct (map (key_of \<circ> fst) ws) \<Longrightarrow> (p, x) \<in> set ws
    \<Longrightarrow> content s' (key_of p) = Some x"
proof (induction ws s rule: write_seq.induct)
  case (1 s)
  then show ?case by simp
next
  case (2 q y ws s)
  from "2.prems"(1) obtain s1 where s1: "write_op q y s = (s1, None)" "write_seq ws s1 = (s', None)"
    by (auto split: prod.splits option.splits)
  show ?case
  proof (cases "(p, x) = (q, y)")
    case True
    then have "key_of p \<notin> key_of ` fst ` set ws" using "2.prems"(2) by (auto simp: image_image)
    with s1 True show ?thesis using write_seq_frame write_read by fastforce
  next
    case False
    with "2.prems" "2.IH" s1 show ?thesis by (auto split: prod.splits option.splits)
  qed
qed

end

section \<open>osFS\<close>

type_synonym files = "string \<rightharpoonup> string"

datatype syscall = Stat | Open | ReadAll | Create

text \<open>
  \<open>ioFault c p\<close> is the error the operating system returns for a call on a path; \<open>writeFault p k\<close>
  stops the \<open>k\<close>-th write to a file after some bytes.
\<close>

record ioenv =
  ioFault :: "syscall \<Rightarrow> string \<Rightarrow> string option"
  writeFault :: "string \<Rightarrow> nat \<Rightarrow> (nat \<times> string) option"

record osFS =
  root :: string

definition AbsolutePath :: "osFS \<Rightarrow> string \<Rightarrow> string" where
  "AbsolutePath f path = path_join [root f, path]"

text \<open>\<open>Exists\<close> answers false for every error of \<open>os.Stat\<close>, not only for a missing file.\<close>

definition Exists :: "osFS \<Rightarrow> ioenv \<Rightarrow> string \<Rightarrow> files \<Rightarrow> (string, bool) result" where
  "Exists f E path fs =
     (case ioFault E Stat (AbsolutePath f path) of
        Some _ \<Rightarrow> Inr False
      | None \<Rightarrow> Inr (fs (AbsolutePath f path) \<noteq> None))"

definition Reader :: "osFS \<Rightarrow> ioenv \<Rightarrow> string \<Rightarrow> files \<Rightarrow> (string, string) result" where
  "Reader f E path fs =
     (case ioFault E Open (AbsolutePath f path) of
        Some e \<Rightarrow> Inl e
      | None \<Rightarrow>
          (case fs (AbsolutePath f path) of
             None \<Rightarrow> Inl (''open '' @ AbsolutePath f path @ '': no such file or directory'')
           | Some x \<Rightarrow> Inr x))"

definition Read :: "osFS \<Rightarrow> ioenv \<Rightarrow> string \<Rightarrow> files \<Rightarrow> (string, string) result" where
  "Read f E path fs =
     bindE (Reader f E path fs)
       (\<lambda>x. case ioFault E ReadAll (AbsolutePath f path) of Some e \<Rightarrow> Inl e | None \<Rightarrow> Inr x)"

definition Writer :: "osFS \<Rightarrow> ioenv \<Rightarrow> string \<Rightarrow> files \<Rightarrow> (string, files) result" where
  "Writer f E path fs =
     (case ioFault E Create (AbsolutePath f path) of
        Some e \<Rightarrow> Inl e
      | None \<Rightarrow> Inr (fs(AbsolutePath f path \<mapsto> [])))"

definition append_file :: "string \<Rightarrow> string \<Rightarrow> files \<Rightarrow> files" where
  "append_file a x fs = fs(a \<mapsto> (case fs a of None \<Rightarrow> [] | Some old \<Rightarrow> old) @ x)"

text \<open>Successive writes to one open file, the \<open>k\<close>-th first.\<close>

fun write_chunks :: "ioenv \<Rightarrow> string \<Rightarrow> nat \<Rightarrow> string list \<Rightarrow> files \<Rightarrow> files \<times> string option" where
  "write_chunks E a k [] fs = (fs, None)"
| "write_chunks E a k (c # cs) fs =
     (case writeFault E a k of
        Some (n, e) \<Rightarrow> (append_file a (take n c) fs, Some e)
      | None \<Rightarrow> write_chunks E a (Suc k) cs (append_file a c fs))"

definition write_file :: "osFS \<Rightarrow> ioenv \<Rightarrow> string \<Rightarrow> string list \<Rightarrow> files \<Rightarrow> files \<times> string option" where
  "write_file f E path cs fs =
     (case Writer f E path fs of
        Inl e \<Rightarrow> (fs, Some e)
      | Inr fs' \<Rightarrow> write_chunks E (AbsolutePath f path) 0 cs fs')"

definition Write :: "osFS \<Rightarrow> ioenv \<Rightarrow> string \<Rightarrow> string \<Rightarrow> files \<Rightarrow> files \<times> string option" where
  "Write f E path data fs = write_file f E path [data] fs"

definition no_io_faults :: "ioenv \<Rightarrow> bool" where
  "no_io_faults E \<longleftrightarrow> (\<forall>c p. ioFault E c p = None) \<and> (\<forall>p k. writeFault E p k = None)"

definition quiet_io :: ioenv where
  "quiet_io = \<lparr>ioFault = (\<lambda>_ _. None), writeFault = (\<lambda>_ _. None)\<rparr>"

lemma no_io_faultsD [simp]:
  "no_io_faults E \<Longrightarrow> ioFault E c p = None" "no_io_faults E \<Longrightarrow> writeFault E p k = None"
  by (simp_all add: no_io_faults_def)

lemma quiet_io_ok [simp]: "no_io_faults quiet_io"
  by (simp add: no_io_faults_def quiet_io_def)

lemma write_chunks_frame:
  "write_chunks E a k cs fs = (fs', r) \<Longrightarrow> b \<noteq> a \<Longrightarrow> fs' b = fs b"
  by (induction E a k cs fs rule: write_chunks.induct)
    (auto simp: append_file_def split: option.splits)

lemma write_chunks_total:
  "no_io_faults E \<Longrightarrow> fs a = Some x \<Longrightarrow>
     write_chunks E a k cs fs = (fs(a \<mapsto> x @ concat cs), None)"
proof (induction cs arbitrary: k fs x)
  case Nil
  then show ?case by (simp add: fun_upd_idem)
next
  case (Cons c cs)
  then show ?case by (simp add: append_file_def fun_eq_iff)
qed

lemma write_chunks_ok:
  "write_chunks E a k cs fs = (fs', None) \<Longrightarrow> fs a = Some x \<Longrightarrow> fs' a = Some (x @ concat cs)"
proof (induction E a k cs fs arbitrary: x rule: write_chunks.induct)
  case (1 E a k fs)
  then show ?case by simp
next
  case (2 E a k c cs fs)
  then show ?case by (fastforce simp: append_file_def split: option.splits prod.splits)
qed

lemma write_file_ok:
  "write_file f E p cs fs = (fs', None) \<Longrightarrow> fs' (AbsolutePath f p) = Some (concat cs)"
  using write_chunks_ok[of E "AbsolutePath f p" 0 cs "fs(AbsolutePath f p \<mapsto> [])" fs' "[]"]
  by (auto simp: write_file_def Writer_def split: option.splits)

lemma write_file_frame:
  "write_file f E p cs fs = (fs', r) \<Longrightarrow> b \<noteq> AbsolutePath f p \<Longrightarrow> fs' b = fs b"
  by (auto simp: write_file_def Writer_def split: option.splits dest: write_chunks_frame)

lemma write_file_total:
  "no_io_faults E \<Longrightarrow> write_file f E p cs fs = (fs(AbsolutePath f p \<mapsto> concat cs), None)"
  by (simp add: write_file_def Writer_def write_chunks_total)

interpretation os: file_system "AbsolutePath f" "\<lambda>fs k. fs k" "Write f E" for f E
  by unfold_locales (auto simp: Write_def dest: write_file_ok write_file_frame)

end
