(* ===== verification/RecordsFile.thy ===== *)
theory RecordsFile
  imports FileSystem
begin

text \<open>
  The zone file of the DNS service in memory (\<open>src/core/dns-api/records_file.go\<close>). The records are
  a Go slice; \<open>DeleteTxtRecord\<close> shifts it while ranging over it, so its model works on the backing
  array and the current length. Resource records print and parse by the DNS library; here they
  are its record types.
\<close>

section \<open>Records\<close>

record RR_Header =
  hdrName :: string
  hdrClass :: "16 word"
  hdrTtl :: "32 word"

datatype RR =
    TXT RR_Header "string list"
  | A RR_Header string
  | SOA RR_Header string string "32 word" "32 word list"
  | OtherRR RR_Header string

type_synonym RecordsFile = "RR list"

text \<open>\<open>ClassINET\<close> is 1. \<open>net.ParseIP\<close> is the environment's; its result is kept as text.\<close>

definition newTxt :: "string \<Rightarrow> string \<Rightarrow> RR" where
  "newTxt name val = TXT \<lparr>hdrName = name, hdrClass = 1, hdrTtl = 300\<rparr> [val]"

fun is_txt :: "string \<Rightarrow> string \<Rightarrow> RR \<Rightarrow> bool" where
  "is_txt name val (TXT h txt) = (hdrName h = name \<and> concat txt = val)"
| "is_txt name val _ = False"

fun set_txt :: "string list \<Rightarrow> RR \<Rightarrow> RR" where
  "set_txt t (TXT h txt) = TXT h t"
| "set_txt t rr = rr"

section \<open>Operations\<close>

text \<open>
  The loop of \<open>DeleteTxtRecord\<close> runs over the \<open>n\<close> cells the slice had when the loop started: \<open>a\<close>
  is the backing array, \<open>l\<close> the current length of \<open>z.rrs\<close>. Deleting cell \<open>i\<close> copies the cells
  \<open>i+1..<l\<close> one place down, leaving the last one stale; \<open>z.rrs[i+1:]\<close> panics when \<open>i+1\<close> exceeds the
  current length: \<open>None\<close>.
\<close>

definition shift_out :: "nat \<Rightarrow> nat \<Rightarrow> 'a list \<Rightarrow> 'a list" where
  "shift_out i l a = take i a @ drop (i + 1) (take l a) @ drop (l - 1) a"

fun delete_loop :: "(RR \<Rightarrow> bool) \<Rightarrow> nat list \<Rightarrow> RR list \<Rightarrow> nat \<Rightarrow> (RR list \<times> nat) option" where
  "delete_loop P [] a l = Some (a, l)"
| "delete_loop P (i # is) a l =
     (if P (a ! i)
      then (if i + 1 \<le> l then delete_loop P is (shift_out i l a) (l - 1) else None)
      else delete_loop P is a l)"

definition DeleteTxtRecord :: "string \<Rightarrow> string \<Rightarrow> RecordsFile \<Rightarrow> RecordsFile option" where
  "DeleteTxtRecord name val rrs =
     (case delete_loop (is_txt name val) [0..<length rrs] rrs (length rrs) of
        None \<Rightarrow> None
      | Some (a, l) \<Rightarrow> Some (take l a))"

fun replace_loop :: "string \<Rightarrow> string \<Rightarrow> RR list \<Rightarrow> RR list \<Rightarrow> RR list option" where
  "replace_loop name val seen [] = None"
| "replace_loop name val seen (rr # rrs) =
     (if is_txt name val rr then Some (seen @ rrs @ [set_txt [val] rr])
      else replace_loop name val (seen @ [rr]) rrs)"

definition CreateOrReplaceTxtRecord :: "string \<Rightarrow> string \<Rightarrow> RecordsFile \<Rightarrow> RecordsFile" where
  "CreateOrReplaceTxtRecord name val rrs =
     (case replace_loop name val [] rrs of
        Some rrs' \<Rightarrow> rrs'
      | None \<Rightarrow> rrs @ [newTxt name val])"

definition CreateARecord :: "(string \<Rightarrow> string) \<Rightarrow> string \<Rightarrow> string \<Rightarrow> RecordsFile \<Rightarrow> RecordsFile" where
  "CreateARecord parseIP name val rrs =
     rrs @ [A \<lparr>hdrName = name, hdrClass = 1, hdrTtl = 300\<rparr> (parseIP val)]"

text \<open>\<open>NowUnix\<close>: the conversion to \<open>uint32\<close> and the multiplication both wrap.\<close>

definition NowUnix :: "int \<Rightarrow> 32 word" where
  "NowUnix now = 10 * word_of_int now"

fun stamp :: "int \<Rightarrow> RR \<Rightarrow> RR" where
  "stamp now (SOA h ns mbox serial ts) = SOA h ns mbox (NowUnix now) ts"
| "stamp now rr = rr"

definition record_lines :: "(RR \<Rightarrow> string) \<Rightarrow> int \<Rightarrow> RecordsFile \<Rightarrow> string list" where
  "record_lines rrString now rrs = map (\<lambda>rr. rrString (stamp now rr) @ [CHR 0x0A]) rrs"

section \<open>The text records of a zone\<close>

definition txt_count :: "string \<Rightarrow> string \<Rightarrow> RecordsFile \<Rightarrow> nat" where
  "txt_count name val rrs = length (filter (is_txt name val) rrs)"

definition txts :: "RecordsFile \<Rightarrow> (string \<times> string) set" where
  "txts rrs = {(n, v). \<exists>rr \<in> set rrs. is_txt n v rr}"

definition txts_unique :: "RecordsFile \<Rightarrow> bool" where
  "txts_unique rrs \<longleftrightarrow> (\<forall>n v. txt_count n v rrs \<le> 1)"

definition others :: "RecordsFile \<Rightarrow> RR list" where
  "others rrs = filter (\<lambda>rr. case rr of TXT _ _ \<Rightarrow> False | _ \<Rightarrow> True) rrs"

lemma delete_loop_skip:
  "(\<And>i. i \<in> set is \<Longrightarrow> \<not> P (a ! i)) \<Longrightarrow> delete_loop P is a l = Some (a, l)"
  by (induction "is") auto

lemma delete_loop_append:
  "delete_loop P (is @ js) a l =
     (case delete_loop P is a l of None \<Rightarrow> None | Some (a', l') \<Rightarrow> delete_loop P js a' l')"
  by (induction "is" arbitrary: a l) auto

text \<open>No record, or exactly one, matches: the loop removes exactly it.\<close>

lemma delete_none:
  assumes "filter P rrs = []"
  shows "delete_loop P [0..<length rrs] rrs (length rrs) = Some (rrs, length rrs)"
  using assms by (intro delete_loop_skip) (auto simp: filter_empty_conv)

lemma delete_one:
  assumes "\<not> list_ex P u" "P x" "\<not> list_ex P w"
  defines "rrs \<equiv> u @ x # w"
  shows "\<exists>a. delete_loop P [0..<length rrs] rrs (length rrs) = Some (a, length rrs - 1)
    \<and> take (length rrs - 1) a = u @ w"
proof -
  let ?n = "length rrs" and ?i = "length u"
  have split: "[0..<?n] = [0..<?i] @ ?i # [Suc ?i..<?n]"
    using upt_add_eq_append[of 0 ?i "Suc (length w)"] upt_conv_Cons[of ?i "?i + Suc (length w)"]
    by (simp add: rrs_def del: upt_Suc)
  let ?a = "shift_out ?i ?n rrs"
  have a: "?a = u @ w @ drop (?n - 1) rrs" by (simp add: shift_out_def rrs_def)
  have tail: "drop (?n - 1) rrs = (if w = [] then [x] else [last w])"
    by (cases w rule: rev_cases) (auto simp: rrs_def)
  have "\<not> P (?a ! j)" if "j \<in> set [Suc ?i..<?n]" for j
  proof (cases "j - ?i < length w")
    case True
    with that assms(3) show ?thesis by (auto simp: a nth_append list_ex_iff)
  next
    case False
    with that have "w \<noteq> []" "j = ?n - 1" by (auto simp: rrs_def)
    then have "?a ! j = last w" unfolding a tail by (simp add: rrs_def nth_append)
    with \<open>w \<noteq> []\<close> assms(3) show ?thesis by (simp add: list_ex_iff)
  qed
  then have rest: "delete_loop P [Suc ?i..<?n] ?a (?n - 1) = Some (?a, ?n - 1)"
    by (rule delete_loop_skip)
  have "\<not> P (rrs ! j)" if "j \<in> set [0..<?i]" for j
    using that assms(1) by (auto simp: rrs_def nth_append list_ex_iff)
  then have "delete_loop P [0..<?i] rrs ?n = Some (rrs, ?n)" by (rule delete_loop_skip)
  moreover have "rrs ! ?i = x" "?i + 1 \<le> ?n" by (simp_all add: rrs_def)
  ultimately have "delete_loop P [0..<?n] rrs ?n = Some (?a, ?n - 1)"
    unfolding split delete_loop_append using rest assms(2) by simp
  then show ?thesis using a by (simp add: rrs_def)
qed

lemma delete_at_most_one:
  assumes "length (filter P rrs) \<le> 1"
  shows "\<exists>a l. delete_loop P [0..<length rrs] rrs (length rrs) = Some (a, l)
    \<and> take l a = filter (\<lambda>rr. \<not> P rr) rrs"
proof (cases "filter P rrs")
  case Nil
  then show ?thesis by (simp add: delete_none filter_empty_conv)
next
  case (Cons x xs)
  with assms have "xs = []" by simp
  with Cons obtain u w where rrs: "rrs = u @ x # w" and P: "\<forall>y\<in>set u. \<not> P y" "P x" "filter P w = []"
    by (auto simp: filter_eq_Cons_iff)
  then have "filter (\<lambda>rr. \<not> P rr) rrs = u @ w" by (auto simp: filter_empty_conv)
  moreover have "\<not> list_ex P u" "\<not> list_ex P w"
    using P by (auto simp: list_ex_iff filter_empty_conv)
  ultimately show ?thesis using delete_one[of P u x w] P(2) rrs by auto
qed

lemma delete_exact:
  assumes "txt_count name val rrs \<le> 1"
  shows "DeleteTxtRecord name val rrs = Some (filter (\<lambda>rr. \<not> is_txt name val rr) rrs)"
  using delete_at_most_one[of "is_txt name val" rrs] assms
  by (auto simp: DeleteTxtRecord_def txt_count_def)

lemma replace_loop_None: "replace_loop n v seen rrs = None \<longleftrightarrow> filter (is_txt n v) rrs = []"
  by (induction n v seen rrs rule: replace_loop.induct) auto

lemma replace_loop_Some:
  "replace_loop n v seen rrs = Some rrs' \<Longrightarrow>
     \<exists>u rr w. rrs = u @ rr # w \<and> is_txt n v rr \<and> (\<forall>y\<in>set u. \<not> is_txt n v y)
       \<and> rrs' = seen @ u @ w @ [set_txt [v] rr]"
proof (induction n v seen rrs rule: replace_loop.induct)
  case (1 n v seen)
  then show ?case by simp
next
  case (2 n v seen rr rrs)
  show ?case
  proof (cases "is_txt n v rr")
    case True
    with "2.prems" have "rr # rrs = [] @ rr # rrs \<and> is_txt n v rr \<and> (\<forall>y\<in>set []. \<not> is_txt n v y)
      \<and> rrs' = seen @ [] @ rrs @ [set_txt [v] rr]" by simp
    then show ?thesis by blast
  next
    case False
    with "2.prems" "2.IH" obtain u r w where h: "rrs = u @ r # w" "is_txt n v r"
      "\<forall>y\<in>set u. \<not> is_txt n v y" "rrs' = (seen @ [rr]) @ u @ w @ [set_txt [v] r]"
      by auto
    with False have "rr # rrs = (rr # u) @ r # w \<and> is_txt n v r \<and> (\<forall>y\<in>set (rr # u). \<not> is_txt n v y)
      \<and> rrs' = seen @ (rr # u) @ w @ [set_txt [v] r]" by simp
    then show ?thesis by blast
  qed
qed

lemma is_txt_inj: "is_txt n v rr \<Longrightarrow> is_txt n' v' rr \<longleftrightarrow> n' = n \<and> v' = v"
  by (cases rr) auto

lemma is_txt_set [simp]: "is_txt n v rr \<Longrightarrow> is_txt n' v' (set_txt [v] rr) \<longleftrightarrow> n' = n \<and> v' = v"
  by (cases rr) auto

lemma is_txt_new [simp]: "is_txt n' v' (newTxt n v) \<longleftrightarrow> n' = n \<and> v' = v"
  by (auto simp: newTxt_def)

lemma others_set [simp]: "is_txt n v rr \<Longrightarrow> others [set_txt [v] rr] = others [rr]"
  by (cases rr) (auto simp: others_def)

lemma others_append: "others (xs @ ys) = others xs @ others ys"
  by (simp add: others_def)

text \<open>Creating keeps all other records and leaves one record for the pair, in either branch.\<close>

lemma create_cases:
  obtains (new) "filter (is_txt n v) rrs = []" "CreateOrReplaceTxtRecord n v rrs = rrs @ [newTxt n v]"
  | (old) u rr w where "rrs = u @ rr # w" "is_txt n v rr"
      "CreateOrReplaceTxtRecord n v rrs = u @ w @ [set_txt [v] rr]"
proof (cases "replace_loop n v [] rrs")
  case None
  then have "CreateOrReplaceTxtRecord n v rrs = rrs @ [newTxt n v]"
    by (simp add: CreateOrReplaceTxtRecord_def)
  with new None show ?thesis by (simp add: replace_loop_None)
next
  case (Some rrs')
  from replace_loop_Some[OF this] old Some show ?thesis
    by (auto simp: CreateOrReplaceTxtRecord_def)
qed

lemma create_count:
  "txt_count n' v' (CreateOrReplaceTxtRecord n v rrs) =
     (if n' = n \<and> v' = v then max 1 (txt_count n v rrs) else txt_count n' v' rrs)"
proof (cases rule: create_cases[of n v rrs])
  case new
  then show ?thesis by (auto simp: txt_count_def)
next
  case (old u rr w)
  then show ?thesis by (auto simp: txt_count_def is_txt_inj)
qed

lemma create_others: "others (CreateOrReplaceTxtRecord n v rrs) = others rrs"
proof (cases rule: create_cases[of n v rrs])
  case new
  then show ?thesis by (simp add: others_def newTxt_def)
next
  case (old u rr w)
  then have "others [rr] = []" by (cases rr) (auto simp: others_def)
  then have "others (rr # w) = others w" by (metis append_Cons append_Nil others_append)
  with old \<open>others [rr] = []\<close> show ?thesis by (simp add: others_append)
qed

lemma mem_txts: "(n, v) \<in> txts rrs \<longleftrightarrow> txt_count n v rrs \<noteq> 0"
  by (auto simp: txts_def txt_count_def filter_empty_conv)

lemma create_txts: "txts (CreateOrReplaceTxtRecord n v rrs) = insert (n, v) (txts rrs)"
  by (auto simp: mem_txts create_count split: if_splits)

lemma create_unique: "txts_unique rrs \<Longrightarrow> txts_unique (CreateOrReplaceTxtRecord n v rrs)"
  by (auto simp: txts_unique_def create_count)

lemma txt_count_filter:
  "txt_count n' v' (filter (\<lambda>rr. \<not> is_txt n v rr) rrs) =
     (if n' = n \<and> v' = v then 0 else txt_count n' v' rrs)"
proof (cases "n' = n \<and> v' = v")
  case True
  then show ?thesis by (simp add: txt_count_def)
next
  case False
  have "filter (is_txt n' v') (filter (\<lambda>rr. \<not> is_txt n v rr) rrs) = filter (is_txt n' v') rrs"
    unfolding filter_filter by (rule filter_cong) (use False is_txt_inj in auto)
  with False show ?thesis by (simp add: txt_count_def) blast
qed

lemma others_filter: "others (filter (\<lambda>rr. \<not> is_txt n v rr) rrs) = others rrs"
  unfolding others_def filter_filter by (rule filter_cong) (auto split: RR.splits)

section \<open>The contract of a record store\<close>

text \<open>
  \<open>RecordStore\<close> promises to keep a set of (name, value) pairs: \<open>Add\<close> inserts, \<open>Delete\<close> removes,
  neither fails. Its lemma lifts the contract to sequences of operations.
\<close>

datatype record_op = AddOp string string | DeleteOp string string

fun spec_op :: "record_op \<Rightarrow> (string \<times> string) set \<Rightarrow> (string \<times> string) set" where
  "spec_op (AddOp n v) S = insert (n, v) S"
| "spec_op (DeleteOp n v) S = S - {(n, v)}"

locale record_store =
  fixes add :: "string \<Rightarrow> string \<Rightarrow> 's \<Rightarrow> 's option"
    and delete :: "string \<Rightarrow> string \<Rightarrow> 's \<Rightarrow> 's option"
    and entries :: "'s \<Rightarrow> (string \<times> string) set"
    and inv :: "'s \<Rightarrow> bool"
  assumes add_spec: "inv s \<Longrightarrow> \<exists>s'. add n v s = Some s' \<and> inv s' \<and> entries s' = insert (n, v) (entries s)"
    and delete_spec: "inv s \<Longrightarrow> \<exists>s'. delete n v s = Some s' \<and> inv s' \<and> entries s' = entries s - {(n, v)}"
begin

fun do_op :: "record_op \<Rightarrow> 's \<Rightarrow> 's option" where
  "do_op (AddOp n v) s = add n v s"
| "do_op (DeleteOp n v) s = delete n v s"

fun do_ops :: "record_op list \<Rightarrow> 's \<Rightarrow> 's option" where
  "do_ops [] s = Some s"
| "do_ops (x # xs) s = (case do_op x s of None \<Rightarrow> None | Some s' \<Rightarrow> do_ops xs s')"

lemma do_op_spec: "inv s \<Longrightarrow> \<exists>s'. do_op x s = Some s' \<and> inv s' \<and> entries s' = spec_op x (entries s)"
  by (cases x) (simp_all add: add_spec delete_spec)

lemma do_ops_spec:
  "inv s \<Longrightarrow> \<exists>s'. do_ops xs s = Some s' \<and> inv s' \<and> entries s' = fold spec_op xs (entries s)"
proof (induction xs arbitrary: s)
  case Nil
  then show ?case by simp
next
  case (Cons x xs)
  from do_op_spec[OF Cons.prems, of x] obtain s1
    where "do_op x s = Some s1" "inv s1" "entries s1 = spec_op x (entries s)" by blast
  with Cons.IH[of s1] show ?case by auto
qed

end

interpretation rf: record_store "\<lambda>n v rrs. Some (CreateOrReplaceTxtRecord n v rrs)" DeleteTxtRecord
    txts txts_unique
proof
  fix rrs n v
  assume u: "txts_unique rrs"
  show "\<exists>s'. Some (CreateOrReplaceTxtRecord n v rrs) = Some s' \<and> txts_unique s'
      \<and> txts s' = insert (n, v) (txts rrs)"
    using u by (auto simp: create_unique create_txts)
  let ?r = "filter (\<lambda>rr. \<not> is_txt n v rr) rrs"
  have "DeleteTxtRecord n v rrs = Some ?r" using u by (intro delete_exact) (simp add: txts_unique_def)
  moreover have "txts_unique ?r" "txts ?r = txts rrs - {(n, v)}"
    using u by (auto simp: txts_unique_def txt_count_filter mem_txts split: if_splits)
  ultimately show "\<exists>s'. DeleteTxtRecord n v rrs = Some s' \<and> txts_unique s'
      \<and> txts s' = txts rrs - {(n, v)}"
    by blast
qed

end
