(* ===== verification/DnsStore.thy ===== *)
theory DnsStore
  imports RecordsFile
begin

text \<open>
  The DNS service (\<open>src/core/dns-api/store.go\<close>, \<open>init.go\<close>, \<open>server.go\<close>, \<open>main.go\<close>): the record store
  on a zone file, the creation of the zone and its signing key at start-up, and the HTTP
  handlers.

  Parsing and printing of resource records and the generation of the key belong to the DNS
  library and are the fields of \<open>dnslib\<close>; the JSON text of the key file is the pair
  \<open>keyText\<close>, \<open>keyParse\<close>.
\<close>

section \<open>The environment\<close>

record DNSSecKey =
  Basename :: string
  Key :: string
  Private :: string
  DS :: string

record generated_key =
  genTag :: nat
  genKeyText :: string
  genPrivateText :: string
  genDSText :: string

record dnslib =
  rrString :: "RR \<Rightarrow> string"
  parseZone :: "string \<Rightarrow> (string, RR list) result"
  fqdnOf :: "string \<Rightarrow> string"
  generate :: "string \<Rightarrow> (string, generated_key) result"
  keyText :: "DNSSecKey \<Rightarrow> string"
  keyParse :: "string \<Rightarrow> (string, DNSSecKey) result"

record fsRecordStore =
  storeZone :: string
  storePublicIP :: "string list"
  storeFS :: osFS
  storeDB :: string

datatype outcome = Done | Failed string | Panicked

definition outcome_of :: "string option \<Rightarrow> outcome" where
  "outcome_of e = (case e of None \<Rightarrow> Done | Some m \<Rightarrow> Failed m)"

section \<open>The record store\<close>

definition store_read :: "dnslib \<Rightarrow> ioenv \<Rightarrow> fsRecordStore \<Rightarrow> files \<Rightarrow> (string, RecordsFile) result" where
  "store_read L E s fs = bindE (Reader (storeFS s) E (storeDB s) fs) (parseZone L)"

definition store_write ::
    "dnslib \<Rightarrow> ioenv \<Rightarrow> fsRecordStore \<Rightarrow> int \<Rightarrow> RecordsFile \<Rightarrow> files \<Rightarrow> files \<times> outcome" where
  "store_write L E s now z fs =
     (let (fs', e) = write_file (storeFS s) E (storeDB s) (record_lines (rrString L) now z) fs
      in (fs', outcome_of e))"

definition fqdn :: "fsRecordStore \<Rightarrow> string \<Rightarrow> string" where
  "fqdn s entry = entry @ ''.'' @ storeZone s @ ''.''"

definition Add ::
    "dnslib \<Rightarrow> ioenv \<Rightarrow> fsRecordStore \<Rightarrow> int \<Rightarrow> string \<Rightarrow> string \<Rightarrow> files \<Rightarrow> files \<times> outcome" where
  "Add L E s now entry txt fs =
     (case store_read L E s fs of
        Inl e \<Rightarrow> (fs, Failed e)
      | Inr z \<Rightarrow> store_write L E s now (CreateOrReplaceTxtRecord (fqdn s entry) txt z) fs)"

definition Delete ::
    "dnslib \<Rightarrow> ioenv \<Rightarrow> fsRecordStore \<Rightarrow> int \<Rightarrow> string \<Rightarrow> string \<Rightarrow> files \<Rightarrow> files \<times> outcome" where
  "Delete L E s now entry txt fs =
     (case store_read L E s fs of
        Inl e \<Rightarrow> (fs, Failed e)
      | Inr z \<Rightarrow>
          (case DeleteTxtRecord (fqdn s entry) txt z of
             None \<Rightarrow> (fs, Panicked)
           | Some z' \<Rightarrow> store_write L E s now z' fs))"

section \<open>Start-up\<close>

definition zero_pad :: "nat \<Rightarrow> string \<Rightarrow> string" where
  "zero_pad w s = replicate (w - length s) (CHR ''0'') @ s"

text \<open>The algorithm \<open>ECDSAP256SHA256\<close> is number 13.\<close>

definition newDNSSecKey :: "dnslib \<Rightarrow> string \<Rightarrow> (string, DNSSecKey) result" where
  "newDNSSecKey L zone =
     bindE (generate L zone) (\<lambda>g. Inr
       \<lparr>Basename = ''K'' @ fqdnOf L zone @ ''+'' @ zero_pad 3 (nat_digits 13) @ ''+'' @
           zero_pad 5 (nat_digits (genTag g)),
        Key = genKeyText g, Private = genPrivateText g, DS = genDSText g\<rparr>)"

definition keyFile :: string where
  "keyFile = ''dns-sec-key.json''"

definition getDNSSecKey ::
    "dnslib \<Rightarrow> osFS \<Rightarrow> ioenv \<Rightarrow> string \<Rightarrow> files \<Rightarrow> files \<times> (string, DNSSecKey) result" where
  "getDNSSecKey L f E zone fs =
     (case Exists f E keyFile fs of
        Inl e \<Rightarrow> (fs, Inl e)
      | Inr True \<Rightarrow> (fs, bindE (Read f E keyFile fs) (keyParse L))
      | Inr False \<Rightarrow>
          (case newDNSSecKey L zone of
             Inl e \<Rightarrow> (fs, Inl e)
           | Inr k \<Rightarrow>
               (case Write f E keyFile (keyText L k) fs of
                  (fs', Some e) \<Rightarrow> (fs', Inl e)
                | (fs', None) \<Rightarrow> (fs', Inr k))))"

definition nl :: string where "nl = [CHR 0x0A]"
definition tab :: string where "tab = [CHR 0x09]"

definition coreDNSConfigTmpl :: "string \<Rightarrow> string \<Rightarrow> string \<Rightarrow> string" where
  "coreDNSConfigTmpl zone dbFile dnsSecBasename =
     nl @ zone @ '':53 {'' @ nl @ tab @ ''file '' @ dbFile @ '' {'' @ nl @
     tab @ tab @ ''reload 1s'' @ nl @ tab @ ''}'' @ nl @ tab @ ''errors'' @
     (if dnsSecBasename \<noteq> []
      then nl @ tab @ ''dnssec {'' @ nl @ tab @ tab @ ''key file '' @ dnsSecBasename @ nl @ tab @ ''}''
      else []) @
     nl @ tab @ ''log'' @ nl @ tab @ ''health {'' @ nl @ tab @ tab @ ''lameduck 5s'' @ nl @
     tab @ ''}'' @ nl @ tab @ ''ready'' @ nl @ tab @ ''cache 30'' @ nl @ tab @ ''loop'' @ nl @
     tab @ ''reload'' @ nl @ tab @ ''loadbalance'' @ nl @ ''}'' @ nl"

definition recordsDBTmpl :: "string \<Rightarrow> string list \<Rightarrow> string \<Rightarrow> string list \<Rightarrow> 32 word \<Rightarrow> string" where
  "recordsDBTmpl zone publicIP privateIP nameserverIP nowUnix =
     nl @ zone @ ''.   IN SOA ns1.'' @ zone @ ''. hostmaster.'' @ zone @ ''. '' @
     nat_digits (unat nowUnix) @ '' 7200 3600 1209600 3600'' @
     concat (map (\<lambda>(i, ns). nl @ ''ns'' @ nat_digits (i + 1) @ ''.'' @ zone @ ''. 10800 IN A '' @ ns)
       (List.enumerate 0 nameserverIP)) @
     concat (map (\<lambda>ip. nl @ zone @ ''. 10800 IN A '' @ ip @ nl @ ''*.'' @ zone @ ''. 10800 IN A '' @ ip @
       nl @ ''*.*.'' @ zone @ ''. 10800 IN A '' @ ip) publicIP) @
     nl @ ''*.p.'' @ zone @ ''. 10800 IN A '' @ privateIP @ nl"

text \<open>\<open>executeTemplate\<close> with the text the template expands to; both templates parse and execute.\<close>

definition executeTemplate :: "osFS \<Rightarrow> ioenv \<Rightarrow> string \<Rightarrow> string \<Rightarrow> files \<Rightarrow> files \<times> string option" where
  "executeTemplate f E path expanded fs = Write f E path (trim_space expanded @ nl) fs"

record zone_config =
  confFile :: string
  dbFile :: string
  zoneName :: string
  publicIPs :: "string list"
  privateIPAddr :: string
  nameserverIPs :: "string list"

definition NewStore ::
    "dnslib \<Rightarrow> osFS \<Rightarrow> ioenv \<Rightarrow> int \<Rightarrow> zone_config \<Rightarrow> files \<Rightarrow>
     files \<times> (string, fsRecordStore \<times> string) result" where
  "NewStore L f E now c fs =
     (case getDNSSecKey L f E (zoneName c) fs of
        (fs1, Inl e) \<Rightarrow> (fs1, Inl e)
      | (fs1, Inr k) \<Rightarrow>
          andThen (Write f E (Basename k @ ''.key'') (Key k) fs1) (\<lambda>fs2.
          andThen (Write f E (Basename k @ ''.private'') (Private k) fs2) (\<lambda>fs3.
          andThen (executeTemplate f E (confFile c)
              (coreDNSConfigTmpl (zoneName c) (AbsolutePath f (dbFile c))
                (AbsolutePath f (Basename k))) fs3) (\<lambda>fs4.
            (case Exists f E (dbFile c) fs4 of
               Inl e \<Rightarrow> (fs4, Inl e)
             | Inr ex \<Rightarrow>
                 andThen (if ex then (fs4, None)
                     else executeTemplate f E (dbFile c)
                       (recordsDBTmpl (zoneName c) (publicIPs c) (privateIPAddr c)
                         (nameserverIPs c) (NowUnix now)) fs4)
                   (\<lambda>fs5. (fs5, Inr (\<lparr>storeZone = zoneName c, storePublicIP = publicIPs c,
                      storeFS = f, storeDB = dbFile c\<rparr>, DS k))))))))"

section \<open>The server\<close>

record dns_record =
  Domain :: string
  Entry :: string
  Text :: string

definition createTxtRecord ::
    "dnslib \<Rightarrow> ioenv \<Rightarrow> fsRecordStore \<Rightarrow> int \<Rightarrow> (string, dns_record) result \<Rightarrow> files \<Rightarrow>
     files \<times> unit response" where
  "createTxtRecord L E s now body fs =
     (case body of
        Inl e \<Rightarrow> (fs, HttpError StatusBadRequest e)
      | Inr req \<Rightarrow>
          (case Add L E s now (Entry req) (Text req) fs of
             (fs', Done) \<Rightarrow> (fs', NoContent)
           | (fs', Failed e) \<Rightarrow> (fs', HttpError StatusInternalServerError e)
           | (fs', Panicked) \<Rightarrow> (fs', Aborted)))"

definition deleteTxtRecord ::
    "dnslib \<Rightarrow> ioenv \<Rightarrow> fsRecordStore \<Rightarrow> int \<Rightarrow> (string, dns_record) result \<Rightarrow> files \<Rightarrow>
     files \<times> unit response" where
  "deleteTxtRecord L E s now body fs =
     (case body of
        Inl e \<Rightarrow> (fs, HttpError StatusBadRequest e)
      | Inr req \<Rightarrow>
          (case Delete L E s now (Entry req) (Text req) fs of
             (fs', Done) \<Rightarrow> (fs', NoContent)
           | (fs', Failed e) \<Rightarrow> (fs', HttpError StatusInternalServerError e)
           | (fs', Panicked) \<Rightarrow> (fs', Aborted)))"

text \<open>
  \<open>recordsToPublish\<close> writes the DS record and two lines per nameserver; \<open>wfail k\<close> is the error of
  the \<open>k\<close>-th write to the connection, after which only the error text follows.
\<close>

fun emit :: "(nat \<Rightarrow> string option) \<Rightarrow> nat \<Rightarrow> string list \<Rightarrow> string" where
  "emit wfail k [] = []"
| "emit wfail k (c # cs) =
     (case wfail k of Some e \<Rightarrow> e @ nl | None \<Rightarrow> c @ emit wfail (Suc k) cs)"

definition publish_lines :: "string \<Rightarrow> string \<Rightarrow> string list \<Rightarrow> string list" where
  "publish_lines zone ds nameserver =
     (let subdomain = hd (split_on (CHR ''.'') zone) in
      (ds @ nl) # concat (map (\<lambda>(i, ip).
        [''ns'' @ nat_digits (i + 1) @ ''.'' @ zone @ ''. 10800 IN A '' @ ip @ nl,
         subdomain @ '' 10800 IN NS ns'' @ nat_digits (i + 1) @ ''.'' @ zone @ ''.'' @ nl])
        (List.enumerate 0 nameserver)))"

definition recordsToPublish :: "(nat \<Rightarrow> string option) \<Rightarrow> string \<Rightarrow> string \<Rightarrow> string list \<Rightarrow> string" where
  "recordsToPublish wfail zone ds nameserver = emit wfail 0 (publish_lines zone ds nameserver)"

text \<open>A request to the server, at a time.\<close>

datatype dns_call = CreateTxt int "(string, dns_record) result" | DeleteTxt int "(string, dns_record) result"

fun serve_dns :: "dnslib \<Rightarrow> ioenv \<Rightarrow> fsRecordStore \<Rightarrow> dns_call \<Rightarrow> files \<Rightarrow> files \<times> unit response" where
  "serve_dns L E s (CreateTxt now body) fs = createTxtRecord L E s now body fs"
| "serve_dns L E s (DeleteTxt now body) fs = deleteTxtRecord L E s now body fs"

section \<open>The zone file as a set of text records\<close>

text \<open>
  What is relied on of the DNS library: records in \<open>ok\<close>, a set closed under a new serial number,
  are read back from what is printed for them, one per line.
\<close>

definition faithful :: "dnslib \<Rightarrow> (RR \<Rightarrow> bool) \<Rightarrow> bool" where
  "faithful L ok \<longleftrightarrow>
     (\<forall>rrs. list_all ok rrs \<longrightarrow> parseZone L (concat (map (\<lambda>rr. rrString L rr @ [CHR 0x0A]) rrs)) = Inr rrs)
     \<and> (\<forall>rr now. ok rr \<longrightarrow> ok (stamp now rr))"

definition zone_of :: "dnslib \<Rightarrow> fsRecordStore \<Rightarrow> files \<Rightarrow> RecordsFile option" where
  "zone_of L s fs =
     (case fs (AbsolutePath (storeFS s) (storeDB s)) of
        None \<Rightarrow> None
      | Some x \<Rightarrow> (case parseZone L x of Inl _ \<Rightarrow> None | Inr z \<Rightarrow> Some z))"

definition zone_inv :: "dnslib \<Rightarrow> (RR \<Rightarrow> bool) \<Rightarrow> fsRecordStore \<Rightarrow> files \<Rightarrow> bool" where
  "zone_inv L ok s fs \<longleftrightarrow>
     (case zone_of L s fs of None \<Rightarrow> False | Some z \<Rightarrow> txts_unique z \<and> list_all ok z)"

definition zone_txts :: "dnslib \<Rightarrow> fsRecordStore \<Rightarrow> files \<Rightarrow> (string \<times> string) set" where
  "zone_txts L s fs = (case zone_of L s fs of None \<Rightarrow> {} | Some z \<Rightarrow> txts z)"

text \<open>The abstract effect of a request on the set.\<close>

fun spec_call :: "fsRecordStore \<Rightarrow> dns_call \<Rightarrow> (string \<times> string) set \<Rightarrow> (string \<times> string) set" where
  "spec_call s (CreateTxt now (Inr q)) S = spec_op (AddOp (fqdn s (Entry q)) (Text q)) S"
| "spec_call s (DeleteTxt now (Inr q)) S = spec_op (DeleteOp (fqdn s (Entry q)) (Text q)) S"
| "spec_call s _ S = S"

text \<open>The requests whose text survives printing.\<close>

fun call_ok :: "(RR \<Rightarrow> bool) \<Rightarrow> fsRecordStore \<Rightarrow> dns_call \<Rightarrow> bool" where
  "call_ok ok s (CreateTxt now (Inr q)) \<longleftrightarrow>
     ok (newTxt (fqdn s (Entry q)) (Text q)) \<and>
     (\<forall>rr. ok rr \<longrightarrow> is_txt (fqdn s (Entry q)) (Text q) rr \<longrightarrow> ok (set_txt [Text q] rr))"
| "call_ok ok s _ \<longleftrightarrow> True"

lemma is_txt_stamp [simp]: "is_txt n v (stamp now rr) = is_txt n v rr"
  by (cases rr) auto

lemma txt_count_stamp [simp]: "txt_count n v (map (stamp now) z) = txt_count n v z"
  by (simp add: txt_count_def filter_map comp_def)

lemma txts_stamp [simp]: "txts (map (stamp now) z) = txts z"
  by (auto simp: txts_def)

lemma txts_unique_stamp [simp]: "txts_unique (map (stamp now) z) = txts_unique z"
  by (simp add: txts_unique_def)

lemma zone_of_read:
  "no_io_faults E \<Longrightarrow> zone_of L s fs = Some z \<longleftrightarrow> store_read L E s fs = Inr z"
  by (auto simp: zone_of_def store_read_def Reader_def split: option.splits sum.splits)

lemma store_write_zone:
  assumes "no_io_faults E" "faithful L ok" "list_all ok z"
  shows "\<exists>fs'. store_write L E s now z fs = (fs', Done) \<and> zone_of L s fs' = Some (map (stamp now) z)"
proof -
  have "list_all ok (map (stamp now) z)" using assms by (simp add: faithful_def list_all_iff)
  then have "parseZone L (concat (map (\<lambda>rr. rrString L rr @ [CHR 0x0A]) (map (stamp now) z)))
      = Inr (map (stamp now) z)" using assms(2) by (simp add: faithful_def del: map_map)
  then show ?thesis
    using assms(1)
    by (simp add: store_write_def write_file_total outcome_of_def zone_of_def record_lines_def comp_def)
qed

lemma create_list_all:
  "list_all ok z \<Longrightarrow> ok (newTxt n v) \<Longrightarrow> (\<forall>rr. ok rr \<longrightarrow> is_txt n v rr \<longrightarrow> ok (set_txt [v] rr))
    \<Longrightarrow> list_all ok (CreateOrReplaceTxtRecord n v z)"
  by (cases rule: create_cases[of n v z]) auto

fun dns_reply :: "dns_call \<Rightarrow> unit response" where
  "dns_reply (CreateTxt now (Inl e)) = HttpError StatusBadRequest e"
| "dns_reply (DeleteTxt now (Inl e)) = HttpError StatusBadRequest e"
| "dns_reply _ = NoContent"

lemma serve_dns_step:
  assumes E: "no_io_faults E" and L: "faithful L ok" and inv: "zone_inv L ok s fs"
    and ok: "call_ok ok s c"
  shows "\<exists>fs' w. serve_dns L E s c fs = (fs', w) \<and> zone_inv L ok s fs'
    \<and> zone_txts L s fs' = spec_call s c (zone_txts L s fs) \<and> w = dns_reply c"
proof -
  from inv obtain z where z: "zone_of L s fs = Some z" "txts_unique z" "list_all ok z"
    by (auto simp: zone_inv_def split: option.splits)
  then have rd: "store_read L E s fs = Inr z" using E by (simp add: zone_of_read)
  show ?thesis
  proof (cases c)
    case (CreateTxt now body)
    show ?thesis
    proof (cases body)
      case (Inl e)
      with CreateTxt inv show ?thesis by (simp add: createTxtRecord_def)
    next
      case (Inr q)
      let ?z = "CreateOrReplaceTxtRecord (fqdn s (Entry q)) (Text q) z"
      have "list_all ok ?z" using z(3) ok CreateTxt Inr by (intro create_list_all) auto
      then obtain fs' where "store_write L E s now ?z fs = (fs', Done)"
        "zone_of L s fs' = Some (map (stamp now) ?z)" "list_all ok (map (stamp now) ?z)"
        using store_write_zone[OF E L, of ?z s now fs] L by (auto simp: faithful_def list_all_iff)
      with CreateTxt Inr rd z show ?thesis
        by (simp add: createTxtRecord_def Add_def zone_inv_def zone_txts_def create_unique create_txts)
    qed
  next
    case (DeleteTxt now body)
    show ?thesis
    proof (cases body)
      case (Inl e)
      with DeleteTxt inv show ?thesis by (simp add: deleteTxtRecord_def)
    next
      case (Inr q)
      from rf.delete_spec[OF z(2), of "fqdn s (Entry q)" "Text q"] obtain z' where
        d: "DeleteTxtRecord (fqdn s (Entry q)) (Text q) z = Some z'" and
        z': "txts_unique z'" "txts z' = txts z - {(fqdn s (Entry q), Text q)}" by blast
      have "z' = filter (\<lambda>rr. \<not> is_txt (fqdn s (Entry q)) (Text q) rr) z"
        using d delete_exact[of "fqdn s (Entry q)" "Text q" z] z(2) by (simp add: txts_unique_def)
      then have "list_all ok z'" using z(3) by (simp add: list_all_iff)
      then obtain fs' where "store_write L E s now z' fs = (fs', Done)"
        "zone_of L s fs' = Some (map (stamp now) z')" "list_all ok (map (stamp now) z')"
        using store_write_zone[OF E L, of z' s now fs] L by (auto simp: faithful_def list_all_iff)
      with DeleteTxt Inr rd z d z' show ?thesis
        by (simp add: deleteTxtRecord_def Delete_def zone_inv_def zone_txts_def)
    qed
  qed
qed

section \<open>Start-up is idempotent\<close>

definition startup_paths :: "osFS \<Rightarrow> zone_config \<Rightarrow> DNSSecKey \<Rightarrow> string list" where
  "startup_paths f c k = map (AbsolutePath f)
     [keyFile, Basename k @ ''.key'', Basename k @ ''.private'', confFile c, dbFile c]"

definition config_text :: "osFS \<Rightarrow> zone_config \<Rightarrow> DNSSecKey \<Rightarrow> string" where
  "config_text f c k = trim_space (coreDNSConfigTmpl (zoneName c) (AbsolutePath f (dbFile c))
     (AbsolutePath f (Basename k))) @ nl"

text \<open>The files a completed start-up leaves behind, the zone file with any content.\<close>

definition started :: "dnslib \<Rightarrow> osFS \<Rightarrow> zone_config \<Rightarrow> DNSSecKey \<Rightarrow> files \<Rightarrow> bool" where
  "started L f c k fs \<longleftrightarrow>
     (\<exists>x. fs (AbsolutePath f keyFile) = Some x \<and> keyParse L x = Inr k)
     \<and> fs (AbsolutePath f (Basename k @ ''.key'')) = Some (Key k)
     \<and> fs (AbsolutePath f (Basename k @ ''.private'')) = Some (Private k)
     \<and> fs (AbsolutePath f (confFile c)) = Some (config_text f c k)
     \<and> fs (AbsolutePath f (dbFile c)) \<noteq> None"

lemma Write_total: "no_io_faults E \<Longrightarrow> Write f E p x fs = (fs(AbsolutePath f p \<mapsto> x), None)"
  by (simp add: Write_def write_file_total)

lemma Exists_total: "no_io_faults E \<Longrightarrow> Exists f E p fs = Inr (fs (AbsolutePath f p) \<noteq> None)"
  by (simp add: Exists_def)

lemma Read_total: "no_io_faults E \<Longrightarrow> fs (AbsolutePath f p) = Some x \<Longrightarrow> Read f E p fs = Inr x"
  by (simp add: Read_def Reader_def)

lemma getDNSSecKey_kept:
  assumes "no_io_faults E" "\<And>k. keyParse L (keyText L k) = Inr k"
    "getDNSSecKey L f E zone fs = (fs1, Inr k)"
  shows "\<exists>x. fs1 (AbsolutePath f keyFile) = Some x \<and> keyParse L x = Inr k"
proof (cases "fs (AbsolutePath f keyFile)")
  case None
  with assms show ?thesis
    by (auto simp: getDNSSecKey_def Exists_total Write_total split: sum.splits)
next
  case (Some x)
  with assms show ?thesis by (auto simp: getDNSSecKey_def Exists_total Read_total)
qed

lemma NewStore_total:
  assumes "no_io_faults E" "getDNSSecKey L f E (zoneName c) fs = (fs1, Inr k)"
  defines "fs4 \<equiv> fs1(AbsolutePath f (Basename k @ ''.key'') \<mapsto> Key k,
    AbsolutePath f (Basename k @ ''.private'') \<mapsto> Private k,
    AbsolutePath f (confFile c) \<mapsto> config_text f c k)"
  shows "NewStore L f E now c fs =
    ((if fs4 (AbsolutePath f (dbFile c)) \<noteq> None then fs4
      else fs4(AbsolutePath f (dbFile c) \<mapsto> trim_space (recordsDBTmpl (zoneName c) (publicIPs c)
        (privateIPAddr c) (nameserverIPs c) (NowUnix now)) @ nl)),
     Inr (\<lparr>storeZone = zoneName c, storePublicIP = publicIPs c, storeFS = f, storeDB = dbFile c\<rparr>, DS k))"
  using assms(1,2)
  by (simp add: NewStore_def andThen_def Write_total Exists_total executeTemplate_def fs4_def
      config_text_def)

lemma NewStore_started:
  assumes "no_io_faults E" "\<And>k. keyParse L (keyText L k) = Inr k"
    "getDNSSecKey L f E (zoneName c) fs = (fs1, Inr k)" "distinct (startup_paths f c k)"
  shows "started L f c k (fst (NewStore L f E now c fs))"
  using getDNSSecKey_kept[OF assms(1-3)] assms(4)
  by (auto simp: NewStore_total[OF assms(1,3)] started_def startup_paths_def)

lemma started_restart:
  assumes "no_io_faults E" "started L f c k fs"
  shows "NewStore L f E now c fs =
    (fs, Inr (\<lparr>storeZone = zoneName c, storePublicIP = publicIPs c, storeFS = f, storeDB = dbFile c\<rparr>, DS k))"
proof -
  have g: "getDNSSecKey L f E (zoneName c) fs = (fs, Inr k)"
    using assms by (auto simp: getDNSSecKey_def Exists_total Read_total started_def)
  have "fs(AbsolutePath f (Basename k @ ''.key'') \<mapsto> Key k,
    AbsolutePath f (Basename k @ ''.private'') \<mapsto> Private k,
    AbsolutePath f (confFile c) \<mapsto> config_text f c k) = fs"
    using assms(2) by (simp add: started_def fun_upd_idem)
  then show ?thesis using assms(2) by (simp add: NewStore_total[OF assms(1) g] started_def)
qed

section \<open>Properties\<close>

text \<open>
  C4: The DNS service keeps the set of text records its requests describe. From a zone file with
  no duplicate text record, any sequence of requests whose records survive printing leaves a file
  that parses to a zone without duplicates whose text records are exactly those the requests
  create and delete, in order; malformed requests change nothing.
\<close>
theorem dns_requests_refine_set:
  assumes "no_io_faults E" and "faithful L ok" and "zone_inv L ok s fs"
    and "list_all (call_ok ok s) cs"
  shows "zone_inv L ok s (run_service (serve_dns L E s) cs fs)
    \<and> zone_txts L s (run_service (serve_dns L E s) cs fs) = fold (spec_call s) cs (zone_txts L s fs)"
  using assms(3,4)
proof (induction cs arbitrary: fs)
  case Nil
  then show ?case by simp
next
  case (Cons c cs)
  from serve_dns_step[OF assms(1,2) Cons.prems(1), of c] Cons.prems(2)
  obtain fs' w where "serve_dns L E s c fs = (fs', w)" "zone_inv L ok s fs'"
    "zone_txts L s fs' = spec_call s c (zone_txts L s fs)" by auto
  with Cons.IH[of fs'] Cons.prems(2) show ?case by simp
qed

text \<open>Deleting a text record. When at most one record of the zone carries the name and value,
  the loop over the slice it is shortening removes exactly that record and keeps all others in
  order.
\<close>
theorem delete_txt_record_exact:
  assumes "txt_count name val rrs \<le> 1"
  shows "DeleteTxtRecord name val rrs = Some (filter (\<lambda>rr. \<not> is_txt name val rr) rrs)"
  by (rule delete_exact) (rule assms)

lemma delete_stale:
  fixes u :: "RR list"
  assumes "\<not> list_ex P w" "P y"
  defines "n \<equiv> length u + length w + 2"
  shows "delete_loop P [Suc (length u)..<n] (u @ w @ [y, y]) (n - 1) = None"
proof (cases "w = []")
  case True
  with assms(2) show ?thesis by (simp add: n_def nth_append)
next
  case False
  define b where "b = u @ w @ [y, y]"
  have split: "[Suc (length u)..<n] = [Suc (length u)..<n - 2] @ [n - 2, n - 1]"
    using False upt_add_eq_append[of "Suc (length u)" "n - 2" 2]
    by (cases w) (simp_all add: n_def upt_rec numeral_2_eq_2)
  have "delete_loop P [Suc (length u)..<n - 2] b (n - 1) = Some (b, n - 1)"
    by (rule delete_loop_skip)
      (use assms(1) in \<open>auto simp: b_def n_def nth_append list_ex_iff\<close>)
  moreover have "b ! (n - 2) = y" "b ! (n - 1) = y" "shift_out (n - 2) (n - 1) b = b" "2 \<le> n"
    by (simp_all add: b_def n_def nth_append shift_out_def)
  ultimately show ?thesis
    unfolding split delete_loop_append b_def[symmetric] using assms(2) by simp
qed

text \<open>Deleting a duplicated text record. When a second copy is the last record of the zone, the
  loop meets the stale last cell after the first deletion and the slice expression panics:
  nothing is written.
\<close>
theorem delete_duplicate_panics:
  assumes "\<not> list_ex (is_txt name val) u" "is_txt name val x" "\<not> list_ex (is_txt name val) w"
    "is_txt name val y"
  shows "DeleteTxtRecord name val (u @ x # w @ [y]) = None"
proof -
  let ?P = "is_txt name val" and ?i = "length u"
  define rrs b n where "rrs = u @ x # w @ [y]" and "b = u @ w @ [y, y]" and "n = length rrs"
  have n: "n = ?i + length w + 2" by (simp add: n_def rrs_def)
  have split: "[0..<n] = [0..<?i] @ ?i # [Suc ?i..<n]"
    using upt_add_eq_append[of 0 ?i "length w + 2"] upt_conv_Cons[of ?i n] by (simp add: n)
  have a: "shift_out ?i n rrs = b" by (simp add: shift_out_def rrs_def b_def n)
  have "delete_loop ?P [0..<?i] rrs n = Some (rrs, n)"
    by (rule delete_loop_skip) (use assms(1) in \<open>auto simp: rrs_def nth_append list_ex_iff\<close>)
  moreover have "rrs ! ?i = x" "?i + 1 \<le> n" by (simp_all add: rrs_def n)
  moreover have "delete_loop ?P [Suc ?i..<n] b (n - 1) = None"
    unfolding b_def n by (rule delete_stale[OF assms(3,4)])
  ultimately have "delete_loop ?P [0..<n] rrs n = None"
    unfolding split delete_loop_append using assms(2) a by simp
  then show ?thesis by (simp add: DeleteTxtRecord_def rrs_def n_def)
qed

text \<open>
  C37: Restarting the service keeps its zone. After a start-up with no I/O failure on distinct
  file names, and whatever the zone file contains by then, starting again with any clock and key
  generator returns the same store and DS record and changes no file.
\<close>
theorem restart_keeps_zone:
  fixes now :: int and zone :: string
  assumes "no_io_faults E" and "\<And>k. keyParse L (keyText L k) = Inr k"
    and "getDNSSecKey L f E (zoneName c) fs = (fs1, Inr k)" and "distinct (startup_paths f c k)"
  defines "fs' \<equiv> (fst (NewStore L f E now c fs))(AbsolutePath f (dbFile c) \<mapsto> zone)"
  shows "NewStore (L\<lparr>generate := gen\<rparr>) f E later c fs' = (fs', snd (NewStore L f E now c fs))"
proof -
  have "started L f c k (fst (NewStore L f E now c fs))" by (rule NewStore_started[OF assms(1-4)])
  then have "started L f c k fs'"
    using assms(4) by (auto simp: started_def fs'_def startup_paths_def)
  then have "started (L\<lparr>generate := gen\<rparr>) f c k fs'" by (simp add: started_def)
  from started_restart[OF assms(1) this] show ?thesis by (simp add: NewStore_total[OF assms(1,3)])
qed


text \<open>Two requests that read the zone before either writes it: the lock belongs to the parsed
  copy, not to the store, so the second write replaces the first and its record is lost.
\<close>
theorem concurrent_add_lost:
  fixes t1 t2 :: int
  assumes "no_io_faults E" and "faithful L ok" and "store_read L E s fs = Inr z"
    and "list_all ok (CreateOrReplaceTxtRecord n2 v2 z)"
    and "(n1, v1) \<notin> txts z" and "(n1, v1) \<noteq> (n2, v2)"
  defines "fs1 \<equiv> fst (store_write L E s t1 (CreateOrReplaceTxtRecord n1 v1 z) fs)"
  defines "fs2 \<equiv> fst (store_write L E s t2 (CreateOrReplaceTxtRecord n2 v2 z) fs1)"
  shows "zone_txts L s fs2 = insert (n2, v2) (txts z) \<and> (n1, v1) \<notin> zone_txts L s fs2"
proof -
  from store_write_zone[OF assms(1,2,4), of s t2 fs1]
  have "zone_of L s fs2 = Some (map (stamp t2) (CreateOrReplaceTxtRecord n2 v2 z))"
    by (auto simp: fs2_def)
  with assms(5,6) show ?thesis by (simp add: zone_txts_def create_txts)
qed

subsection \<open>A concrete library and zone\<close>

text \<open>
  A codec that knows two text records, written \<open>a\<close> and \<open>b\<close>, and a key that is printed as its base
  name. It shows that what is assumed of the DNS library can hold.
\<close>

definition rr_a :: RR where "rr_a = newTxt ''a.z.'' ''1''"
definition rr_b :: RR where "rr_b = newTxt ''b.z.'' ''2''"

fun example_parse :: "string \<Rightarrow> RR list" where
  "example_parse (c # n # cs) = (if c = CHR ''a'' then rr_a else rr_b) # example_parse cs"
| "example_parse _ = []"

definition example_key :: DNSSecKey where
  "example_key = \<lparr>Basename = ''Kz.+013+00042'', Key = ''k'', Private = ''p'', DS = ''d''\<rparr>"

text \<open>Separating the four texts of a key by their lengths in unary.\<close>

definition unary :: "string \<Rightarrow> string" where
  "unary s = replicate (length s) (CHR ''1'') @ ''0''"

definition ununary :: "string \<Rightarrow> nat \<times> string" where
  "ununary s = (length (takeWhile (\<lambda>c. c = CHR ''1'') s), tl (dropWhile (\<lambda>c. c = CHR ''1'') s))"

lemma ununary_unary [simp]: "ununary (unary s @ t) = (length s, t)"
  by (simp add: ununary_def unary_def takeWhile_append dropWhile_append)

definition example_keyText :: "DNSSecKey \<Rightarrow> string" where
  "example_keyText k = unary (Basename k) @ unary (Key k) @ unary (Private k) @
     Basename k @ Key k @ Private k @ DS k"

definition example_keyParse :: "string \<Rightarrow> (string, DNSSecKey) result" where
  "example_keyParse s =
     (let (n, s1) = ununary s; (m, s2) = ununary s1; (l, s3) = ununary s2
      in Inr \<lparr>Basename = take n s3, Key = take m (drop n s3), Private = take l (drop (n + m) s3),
          DS = drop (n + m + l) s3\<rparr>)"

lemma example_key_roundtrip: "example_keyParse (example_keyText k) = Inr k"
  by (simp add: example_keyParse_def example_keyText_def)

definition example_lib :: dnslib where
  "example_lib = \<lparr>rrString = (\<lambda>rr. if rr = rr_a then ''a'' else ''b''),
     parseZone = (\<lambda>x. Inr (example_parse x)), fqdnOf = (\<lambda>z. z @ ''.''),
     generate = (\<lambda>_. Inr \<lparr>genTag = 42, genKeyText = ''k'', genPrivateText = ''p'', genDSText = ''d''\<rparr>),
     keyText = example_keyText, keyParse = example_keyParse\<rparr>"

definition example_rr_ok :: "RR \<Rightarrow> bool" where
  "example_rr_ok rr \<longleftrightarrow> rr = rr_a \<or> rr = rr_b"

definition example_store :: fsRecordStore where
  "example_store = \<lparr>storeZone = ''z'', storePublicIP = [], storeFS = \<lparr>root = ''/d''\<rparr>, storeDB = ''db''\<rparr>"

definition example_zone_files :: files where
  "example_zone_files = [AbsolutePath \<lparr>root = ''/d''\<rparr> ''db'' \<mapsto> ''b'' @ [CHR 0x0A]]"

definition example_txt :: "string \<Rightarrow> string \<Rightarrow> dns_record" where
  "example_txt e t = \<lparr>Domain = [], Entry = e, Text = t\<rparr>"

lemma rr_a_b [simp]: "rr_a \<noteq> rr_b" "rr_b \<noteq> rr_a"
  by (simp_all add: rr_a_def rr_b_def newTxt_def)

lemma example_faithful: "faithful example_lib example_rr_ok"
proof -
  have "parseZone example_lib (concat (map (\<lambda>rr. rrString example_lib rr @ [CHR 0x0A]) rrs)) = Inr rrs"
    if "list_all example_rr_ok rrs" for rrs
    using that
  proof (induction rrs)
    case Nil
    then show ?case by (simp add: example_lib_def)
  next
    case (Cons r rrs)
    then show ?case by (auto simp: example_rr_ok_def example_lib_def)
  qed
  moreover have "example_rr_ok (stamp now rr)" if "example_rr_ok rr" for rr now
    using that by (auto simp: example_rr_ok_def rr_a_def rr_b_def newTxt_def)
  ultimately show ?thesis by (simp add: faithful_def)
qed

lemma example_zone: "zone_of example_lib example_store example_zone_files = Some [rr_b]"
  by (simp add: zone_of_def example_store_def example_zone_files_def example_lib_def)

lemma example_zone_inv: "zone_inv example_lib example_rr_ok example_store example_zone_files"
  by (simp add: zone_inv_def example_zone example_rr_ok_def txts_unique_def txt_count_def)

lemma example_txts: "txts [rr_b] = {(''b.z.'', ''2'')}"
  by (auto simp: txts_def rr_b_def)

lemma example_zone_txts: "zone_txts example_lib example_store example_zone_files = {(''b.z.'', ''2'')}"
  by (simp add: zone_txts_def example_zone example_txts)

lemma example_fqdn: "fqdn example_store e = e @ ''.z.''"
  by (simp add: fqdn_def example_store_def)

theorem dns_requests_refine_set_witness:
  "zone_txts example_lib example_store
     (run_service (serve_dns example_lib quiet_io example_store)
       [CreateTxt 1 (Inr (example_txt ''a'' ''1'')), DeleteTxt 2 (Inr (example_txt ''b'' ''2''))]
       example_zone_files) = {(''a.z.'', ''1'')}"
proof -
  have ok: "example_rr_ok (newTxt ''a.z.'' ''1'')" "example_rr_ok (set_txt [''1''] rr_a)"
    by (simp_all add: example_rr_ok_def rr_a_def newTxt_def)
  have "list_all (call_ok example_rr_ok example_store)
      [CreateTxt 1 (Inr (example_txt ''a'' ''1'')), DeleteTxt 2 (Inr (example_txt ''b'' ''2''))]"
    using ok by (simp add: example_fqdn example_txt_def) (simp add: example_rr_ok_def rr_b_def)
  from dns_requests_refine_set[OF quiet_io_ok example_faithful example_zone_inv this]
  show ?thesis
    by (simp add: example_zone_txts example_fqdn) (simp add: example_txt_def insert_commute)
qed

theorem delete_txt_record_exact_witness:
  "DeleteTxtRecord ''a.z.'' ''1'' [rr_b, rr_a, rr_b] = Some [rr_b, rr_b]"
  using delete_txt_record_exact[of "''a.z.''" "''1''" "[rr_b, rr_a, rr_b]"]
  by (simp add: txt_count_def rr_a_def rr_b_def)

theorem delete_duplicate_panics_witness: "DeleteTxtRecord ''a.z.'' ''1'' [rr_a, rr_b, rr_a] = None"
  using delete_duplicate_panics[of "''a.z.''" "''1''" "[]" rr_a "[rr_b]" rr_a]
  by (simp add: rr_a_def rr_b_def)


theorem concurrent_add_lost_witness:
  "zone_txts example_lib example_store
     (fst (store_write example_lib quiet_io example_store 2 (CreateOrReplaceTxtRecord ''a.z.'' ''1'' [rr_b])
       (fst (store_write example_lib quiet_io example_store 1 (CreateOrReplaceTxtRecord ''c.z.'' ''3'' [rr_b])
         example_zone_files)))) = {(''a.z.'', ''1''), (''b.z.'', ''2'')}"
proof -
  have rd: "store_read example_lib quiet_io example_store example_zone_files = Inr [rr_b]"
    using example_zone zone_of_read[OF quiet_io_ok] by blast
  have create: "CreateOrReplaceTxtRecord ''a.z.'' ''1'' [rr_b] = [rr_b, rr_a]"
    by (simp add: CreateOrReplaceTxtRecord_def rr_b_def rr_a_def)
  have "(''c.z.'', ''3'') \<notin> txts [rr_b]" by (simp add: example_txts)
  with concurrent_add_lost[OF quiet_io_ok example_faithful rd, of "''a.z.''" "''1''" "''c.z.''" "''3''" 2 1]
  show ?thesis by (simp add: create example_rr_ok_def example_txts)
qed

definition example_conf :: zone_config where
  "example_conf = \<lparr>confFile = ''conf'', dbFile = ''db'', zoneName = ''z'', publicIPs = [''1.1.1.1''],
     privateIPAddr = ''10.1.0.1'', nameserverIPs = [''1.1.1.1'']\<rparr>"

lemma example_basename: "zero_pad 3 (nat_digits 13) = ''013''" "zero_pad 5 (nat_digits 42) = ''00042''"
  by code_simp+

lemma example_getKey:
  "getDNSSecKey example_lib \<lparr>root = ''/d''\<rparr> quiet_io ''z'' Map.empty =
     ([AbsolutePath \<lparr>root = ''/d''\<rparr> keyFile \<mapsto> example_keyText example_key], Inr example_key)"
  by (simp add: getDNSSecKey_def Exists_total Write_total newDNSSecKey_def example_lib_def
      example_key_def example_basename)

lemma example_paths: "distinct (startup_paths \<lparr>root = ''/d''\<rparr> example_conf example_key)"
  by code_simp

theorem restart_keeps_zone_witness:
  "let fs' = (fst (NewStore example_lib \<lparr>root = ''/d''\<rparr> quiet_io 1 example_conf Map.empty))
       (AbsolutePath \<lparr>root = ''/d''\<rparr> (dbFile example_conf) \<mapsto> ''changed'')
   in NewStore (example_lib\<lparr>generate := (\<lambda>_. Inl ''no entropy'')\<rparr>) \<lparr>root = ''/d''\<rparr> quiet_io 2 example_conf fs' =
     (fs', snd (NewStore example_lib \<lparr>root = ''/d''\<rparr> quiet_io 1 example_conf Map.empty))"
proof -
  have k: "keyParse example_lib (keyText example_lib k) = Inr k" for k
    by (simp add: example_lib_def example_key_roundtrip)
  have "getDNSSecKey example_lib \<lparr>root = ''/d''\<rparr> quiet_io (zoneName example_conf) Map.empty =
     ([AbsolutePath \<lparr>root = ''/d''\<rparr> keyFile \<mapsto> example_keyText example_key], Inr example_key)"
    using example_getKey by (simp add: example_conf_def)
  from restart_keeps_zone[OF quiet_io_ok k this example_paths]
  show ?thesis by (simp only: Let_def)
qed

end
