(* ===== verification/ChallengeSolver.thy ===== *)
theory ChallengeSolver
  imports DnsStore Json
begin

text \<open>
  The solver of DNS challenges (\<open>src/core/dns-challenge-solver/main.go\<close>): cert-manager asks it to
  present a key under a name and to clean it up again, and it turns both into requests to the DNS
  service of \<open>DnsStore\<close>. The address of that service comes with each challenge. The requests
  travel as JSON, so the theory also has the decoding of \<open>record\<close> in \<open>src/core/dns-api/server.go\<close>
  and the routes of that server.
\<close>

section \<open>The client of the zone\<close>

text \<open>\<open>postTo\<close> is \<open>http.Post\<close> with the state \<open>'w\<close> of the services behind it: an error, or the status
  and the body. \<open>jsonText\<close> and \<open>jsonRead\<close> are the encoder and the parser of documents.\<close>

record 'w solverenv =
  postTo :: "string \<Rightarrow> string \<Rightarrow> 'w \<Rightarrow> 'w \<times> (string, nat \<times> string) result"
  jsonText :: "json \<Rightarrow> string"
  jsonRead :: "string \<Rightarrow> (string, json) result"

record zoneControllerManager =
  CreateAddr :: string
  DeleteAddr :: string

record createTextRecordReq =
  reqDomain :: string
  reqEntry :: string
  reqText :: string

text \<open>Encoding leaves empty fields out, and a structure of strings is always encoded.\<close>

definition encode_req :: "createTextRecordReq \<Rightarrow> json" where
  "encode_req r = JObj (omitempty ''domain'' (reqDomain r) @ omitempty ''entry'' (reqEntry r) @
     omitempty ''text'' (reqText r))"

definition CreateTextRecord ::
    "'w solverenv \<Rightarrow> zoneControllerManager \<Rightarrow> string \<Rightarrow> string \<Rightarrow> string \<Rightarrow> 'w \<Rightarrow> 'w \<times> string option" where
  "CreateTextRecord V m domain entry txt w =
     (let buf = jsonText V (encode_req \<lparr>reqDomain = domain, reqEntry = entry, reqText = txt\<rparr>) in
      case postTo V (CreateAddr m) buf w of
        (w', Inl e) \<Rightarrow> (w', Some e)
      | (w', Inr (code, body)) \<Rightarrow>
          (w', if code \<noteq> StatusOK
               then Some (''Create text record failed: '' @ nat_digits code @ '' '' @ body) else None))"

definition DeleteTextRecord ::
    "'w solverenv \<Rightarrow> zoneControllerManager \<Rightarrow> string \<Rightarrow> string \<Rightarrow> string \<Rightarrow> 'w \<Rightarrow> 'w \<times> string option" where
  "DeleteTextRecord V m domain entry txt w =
     (let buf = jsonText V (encode_req \<lparr>reqDomain = domain, reqEntry = entry, reqText = txt\<rparr>) in
      case postTo V (DeleteAddr m) buf w of
        (w', Inl e) \<Rightarrow> (w', Some e)
      | (w', Inr (code, body)) \<Rightarrow>
          (w', if code \<noteq> StatusOK
               then Some (''Delete text record failed: '' @ nat_digits code @ '' '' @ body) else None))"

section \<open>The solver\<close>

text \<open>What is read of a challenge; \<open>chConfig\<close> is the raw JSON, \<open>None\<close> for a nil pointer.\<close>

record ChallengeRequest =
  chConfig :: "string option"
  DNSName :: string
  ResolvedFQDN :: string
  chKey :: string

record pcloudDNSProviderConfig =
  CreateAddress :: string
  DeleteAddress :: string

definition config_fields_table :: "string \<rightharpoonup> pcloudDNSProviderConfig decoder" where
  "config_fields_table =
     [''createtxtaddr'' \<mapsto> on_field CreateAddress CreateAddress_update decode_string,
      ''deletetxtaddr'' \<mapsto> on_field DeleteAddress DeleteAddress_update decode_string]"

definition loadConfig :: "'w solverenv \<Rightarrow> string option \<Rightarrow> (string, pcloudDNSProviderConfig) result" where
  "loadConfig V cfgJSON =
     (let cfg = \<lparr>CreateAddress = [], DeleteAddress = []\<rparr> in
      case cfgJSON of
        None \<Rightarrow> Inr cfg
      | Some raw \<Rightarrow>
          (case bindE (jsonRead V raw) (\<lambda>d. decode_struct config_fields_table d cfg) of
             Inl e \<Rightarrow> Inl (''error decoding solver config: '' @ e)
           | Inr c \<Rightarrow> Inr c))"

definition getDomainAndEntry :: "ChallengeRequest \<Rightarrow> string \<times> string" where
  "getDomainAndEntry ch =
     (let resolved = trim_suffix (ResolvedFQDN ch) ''.'';
          domain = join_with ''.'' (tl (split_on (CHR ''.'') (trim_suffix (DNSName ch) ''.'')));
          entry = trim_suffix resolved domain
      in (trim_suffix domain ''.'', trim_suffix entry ''.''))"

definition zm_of :: "pcloudDNSProviderConfig \<Rightarrow> zoneControllerManager" where
  "zm_of cfg = \<lparr>CreateAddr = CreateAddress cfg, DeleteAddr = DeleteAddress cfg\<rparr>"

definition Present :: "'w solverenv \<Rightarrow> ChallengeRequest \<Rightarrow> 'w \<Rightarrow> 'w \<times> string option" where
  "Present V ch w =
     (case loadConfig V (chConfig ch) of
        Inl e \<Rightarrow> (w, Some e)
      | Inr cfg \<Rightarrow>
          (let (domain, entry) = getDomainAndEntry ch
           in CreateTextRecord V (zm_of cfg) domain entry (chKey ch) w))"

definition CleanUp :: "'w solverenv \<Rightarrow> ChallengeRequest \<Rightarrow> 'w \<Rightarrow> 'w \<times> string option" where
  "CleanUp V ch w =
     (case loadConfig V (chConfig ch) of
        Inl e \<Rightarrow> (w, Some e)
      | Inr cfg \<Rightarrow>
          (let (domain, entry) = getDomainAndEntry ch
           in DeleteTextRecord V (zm_of cfg) domain entry (chKey ch) w))"

section \<open>The DNS service over HTTP\<close>

definition dns_record_table :: "string \<rightharpoonup> dns_record decoder" where
  "dns_record_table =
     [''domain'' \<mapsto> on_field Domain Domain_update decode_string,
      ''entry'' \<mapsto> on_field Entry Entry_update decode_string,
      ''text'' \<mapsto> on_field Text Text_update decode_string]"

definition decode_record :: "(string \<Rightarrow> (string, json) result) \<Rightarrow> string \<Rightarrow> (string, dns_record) result" where
  "decode_record rd body =
     bindE (rd body) (\<lambda>d. decode_struct dns_record_table d \<lparr>Domain = [], Entry = [], Text = []\<rparr>)"

text \<open>What a client sees of an answer: a handler that panics closes the connection.\<close>

fun http_reply :: "'s \<times> unit response \<Rightarrow> 's \<times> (string, nat \<times> string) result" where
  "http_reply (s, NoContent) = (s, Inr (StatusOK, []))"
| "http_reply (s, Page p) = (s, Inr (StatusOK, []))"
| "http_reply (s, HttpError c e) = (s, Inr (c, e @ [CHR 0x0A]))"
| "http_reply (s, Redirect c l) = (s, Inr (c, []))"
| "http_reply (s, Aborted) = (s, Inl ''EOF'')"

text \<open>The routes of \<open>NewServer\<close>, for a server with the address \<open>base\<close>, the DS record \<open>ds\<close> and the
  addresses \<open>ns\<close> of its name servers.\<close>

record dns_site =
  siteBase :: string
  siteDS :: string
  siteNS :: "string list"

definition dns_http ::
    "dnslib \<Rightarrow> ioenv \<Rightarrow> fsRecordStore \<Rightarrow> dns_site \<Rightarrow> (string \<Rightarrow> (string, json) result) \<Rightarrow> int \<Rightarrow>
     string \<Rightarrow> string \<Rightarrow> files \<Rightarrow> files \<times> (string, nat \<times> string) result" where
  "dns_http L E s H rd now addr body fs =
     (if addr = siteBase H @ ''/records-to-publish''
      then (fs, Inr (StatusOK, recordsToPublish (\<lambda>_. None) (storeZone s) (siteDS H) (siteNS H)))
      else if addr = siteBase H @ ''/create-txt-record''
      then http_reply (serve_dns L E s (CreateTxt now (decode_record rd body)) fs)
      else if addr = siteBase H @ ''/delete-txt-record''
      then http_reply (serve_dns L E s (DeleteTxt now (decode_record rd body)) fs)
      else (fs, Inr (StatusNotFound, ''404 page not found'' @ [CHR 0x0A])))"

text \<open>The solver with this server at the other end.\<close>

definition solver_env ::
    "dnslib \<Rightarrow> ioenv \<Rightarrow> fsRecordStore \<Rightarrow> dns_site \<Rightarrow> (json \<Rightarrow> string) \<Rightarrow>
     (string \<Rightarrow> (string, json) result) \<Rightarrow> int \<Rightarrow> files solverenv" where
  "solver_env L E s H pr rd now = \<lparr>postTo = dns_http L E s H rd now, jsonText = pr, jsonRead = rd\<rparr>"

section \<open>A challenge reaches the zone\<close>

lemma wf_encode_req [simp]: "wf_json (encode_req r)"
  by (simp add: encode_req_def omitempty_def)

lemma decode_encode_req:
  assumes "codec_ok pr rd"
  shows "decode_record rd (pr (encode_req r))
    = Inr \<lparr>Domain = reqDomain r, Entry = reqEntry r, Text = reqText r\<rparr>"
proof -
  have "rd (pr (encode_req r)) = Inr (encode_req r)" using assms by (simp add: codec_ok_def)
  moreover have "decode_struct dns_record_table (encode_req r) \<lparr>Domain = [], Entry = [], Text = []\<rparr>
    = Inr \<lparr>Domain = reqDomain r, Entry = reqEntry r, Text = reqText r\<rparr>"
    by (simp add: encode_req_def omitempty_def dns_record_table_def on_field_def to_lower_def lower_char_def)
  ultimately show ?thesis by (simp add: decode_record_def)
qed

text \<open>A name directly below the zone of the store, with the name of its challenge.\<close>

definition first_label :: "string \<Rightarrow> string" where
  "first_label n = takeWhile (\<lambda>c. c \<noteq> CHR ''.'') n"

definition below_zone :: "fsRecordStore \<Rightarrow> ChallengeRequest \<Rightarrow> bool" where
  "below_zone s ch \<longleftrightarrow>
     DNSName ch = first_label (DNSName ch) @ ''.'' @ storeZone s
     \<and> storeZone s \<noteq> [] \<and> last (storeZone s) \<noteq> CHR ''.''
     \<and> ResolvedFQDN ch = ''_acme-challenge.'' @ DNSName ch @ ''.''"

definition challenge_entry :: "ChallengeRequest \<Rightarrow> string" where
  "challenge_entry ch = ''_acme-challenge.'' @ first_label (DNSName ch)"

lemma first_label_no_dot: "CHR ''.'' \<notin> set (first_label n)"
  by (auto simp: first_label_def dest: set_takeWhileD)

lemma split_name:
  assumes "n = l @ ''.'' @ z" "CHR ''.'' \<notin> set l" "z \<noteq> []" "last z \<noteq> CHR ''.''"
  shows "join_with ''.'' (tl (split_on (CHR ''.'') (trim_suffix n ''.''))) = z"
proof -
  have "trim_suffix n ''.'' = n" using assms by (intro trim_suffix_last) auto
  then show ?thesis using assms(1,2) by (simp add: split_on_append)
qed

lemma split_challenge:
  assumes n: "DNSName ch = l @ ''.'' @ z" "CHR ''.'' \<notin> set l" and z: "z \<noteq> []" "last z \<noteq> CHR ''.''"
    and f: "ResolvedFQDN ch = ''_acme-challenge.'' @ DNSName ch @ ''.''"
  shows "getDomainAndEntry ch = (z, ''_acme-challenge.'' @ l)"
proof -
  have d: "join_with ''.'' (tl (split_on (CHR ''.'') (trim_suffix (DNSName ch) ''.''))) = z"
    using split_name[OF n z] .
  have "trim_suffix (ResolvedFQDN ch) ''.'' = ''_acme-challenge.'' @ l @ ''.'' @ z"
    using f n(1) trim_suffix_append[of "''_acme-challenge.'' @ DNSName ch" "''.''"] by simp
  then have e: "trim_suffix (trim_suffix (ResolvedFQDN ch) ''.'') z = ''_acme-challenge.'' @ l @ ''.''"
    using trim_suffix_append[of "''_acme-challenge.'' @ l @ ''.''" z] by simp
  have "trim_suffix (''_acme-challenge.'' @ l @ ''.'') ''.'' = ''_acme-challenge.'' @ l"
    using trim_suffix_append[of "''_acme-challenge.'' @ l" "''.''"] by simp
  moreover have "trim_suffix z ''.'' = z" using z by (intro trim_suffix_last) simp
  ultimately show ?thesis by (simp only: getDomainAndEntry_def Let_def d e)
qed

lemma domain_and_entry:
  "below_zone s ch \<Longrightarrow> getDomainAndEntry ch = (storeZone s, challenge_entry ch)"
  unfolding below_zone_def challenge_entry_def
  by (intro split_challenge first_label_no_dot) auto

lemma entry_fqdn:
  "below_zone s ch \<Longrightarrow> fqdn s (challenge_entry ch) = ResolvedFQDN ch"
  by (auto simp: below_zone_def fqdn_def challenge_entry_def)

text \<open>The configuration of the challenge names the two routes of the server.\<close>

definition routed :: "(string \<Rightarrow> (string, json) result) \<Rightarrow> dns_site \<Rightarrow> ChallengeRequest \<Rightarrow> bool" where
  "routed rd H ch \<longleftrightarrow>
     (case loadConfig (\<lparr>postTo = (\<lambda>_ _ w. (w, Inl [])), jsonText = (\<lambda>_. []), jsonRead = rd\<rparr> :: unit solverenv)
        (chConfig ch) of
        Inl _ \<Rightarrow> False
      | Inr cfg \<Rightarrow> CreateAddress cfg = siteBase H @ ''/create-txt-record''
          \<and> DeleteAddress cfg = siteBase H @ ''/delete-txt-record'')"

text \<open>The text of a record survives the printing of the zone.\<close>

definition printable :: "(RR \<Rightarrow> bool) \<Rightarrow> string \<Rightarrow> string \<Rightarrow> bool" where
  "printable ok n v \<longleftrightarrow> ok (newTxt n v) \<and> (\<forall>rr. ok rr \<longrightarrow> is_txt n v rr \<longrightarrow> ok (set_txt [v] rr))"

definition good_challenge ::
    "fsRecordStore \<Rightarrow> dns_site \<Rightarrow> (string \<Rightarrow> (string, json) result) \<Rightarrow> (RR \<Rightarrow> bool) \<Rightarrow> ChallengeRequest \<Rightarrow> bool" where
  "good_challenge s H rd ok ch \<longleftrightarrow> below_zone s ch \<and> routed rd H ch \<and> printable ok (ResolvedFQDN ch) (chKey ch)"

lemma routed_config:
  assumes "routed rd H ch"
  shows "\<exists>cfg. loadConfig (solver_env L E s H pr rd now) (chConfig ch) = Inr cfg
    \<and> CreateAddress cfg = siteBase H @ ''/create-txt-record''
    \<and> DeleteAddress cfg = siteBase H @ ''/delete-txt-record''"
  using assms by (auto simp: routed_def loadConfig_def solver_env_def Let_def split: option.splits sum.splits)

lemma Present_entry:
  assumes "no_io_faults E" "faithful L ok" "codec_ok pr rd" "routed rd H ch" "zone_inv L ok s fs"
    and de: "getDomainAndEntry ch = (d, e)" and p: "printable ok (fqdn s e) (chKey ch)"
  shows "\<exists>fs'. Present (solver_env L E s H pr rd now) ch fs = (fs', None) \<and> zone_inv L ok s fs'
    \<and> zone_txts L s fs' = insert (fqdn s e, chKey ch) (zone_txts L s fs)"
proof -
  let ?q = "\<lparr>Domain = d, Entry = e, Text = chKey ch\<rparr>"
  from routed_config[OF assms(4)] obtain cfg where c:
    "loadConfig (solver_env L E s H pr rd now) (chConfig ch) = Inr cfg"
    "CreateAddress cfg = siteBase H @ ''/create-txt-record''" by blast
  have "call_ok ok s (CreateTxt now (Inr ?q))" using p by (simp add: printable_def)
  from serve_dns_step[OF assms(1,2,5) this] obtain fs' where
    "serve_dns L E s (CreateTxt now (Inr ?q)) fs = (fs', NoContent)" "zone_inv L ok s fs'"
    "zone_txts L s fs' = insert (fqdn s e, chKey ch) (zone_txts L s fs)" by auto
  with c show ?thesis
    by (simp add: Present_def de CreateTextRecord_def solver_env_def zm_of_def
        dns_http_def decode_encode_req[OF assms(3)] del: serve_dns.simps)
qed

lemma CleanUp_entry:
  assumes "no_io_faults E" "faithful L ok" "codec_ok pr rd" "routed rd H ch" "zone_inv L ok s fs"
    and de: "getDomainAndEntry ch = (d, e)"
  shows "\<exists>fs'. CleanUp (solver_env L E s H pr rd now) ch fs = (fs', None) \<and> zone_inv L ok s fs'
    \<and> zone_txts L s fs' = zone_txts L s fs - {(fqdn s e, chKey ch)}"
proof -
  let ?q = "\<lparr>Domain = d, Entry = e, Text = chKey ch\<rparr>"
  from routed_config[OF assms(4)] obtain cfg where c:
    "loadConfig (solver_env L E s H pr rd now) (chConfig ch) = Inr cfg"
    "DeleteAddress cfg = siteBase H @ ''/delete-txt-record''" by blast
  have "call_ok ok s (DeleteTxt now (Inr ?q))" by simp
  from serve_dns_step[OF assms(1,2,5) this] obtain fs' where
    "serve_dns L E s (DeleteTxt now (Inr ?q)) fs = (fs', NoContent)" "zone_inv L ok s fs'"
    "zone_txts L s fs' = zone_txts L s fs - {(fqdn s e, chKey ch)}" by auto
  with c show ?thesis
    by (simp add: CleanUp_def de DeleteTextRecord_def solver_env_def zm_of_def
        dns_http_def decode_encode_req[OF assms(3)] del: serve_dns.simps)
qed

section \<open>The contract of a solver\<close>

text \<open>
  What cert-manager relies on, in the words of the comments of \<open>Present\<close> and \<open>CleanUp\<close>: presenting
  publishes the key and tolerates being repeated, cleaning up removes the key of the challenge and
  no other. A client may then validate several names, and one name several times, at once.
\<close>

datatype 'c challenge_op = Presents 'c | Cleans 'c

fun op_challenge :: "'c challenge_op \<Rightarrow> 'c" where
  "op_challenge (Presents c) = c"
| "op_challenge (Cleans c) = c"

fun perform ::
    "(int \<Rightarrow> 'c \<Rightarrow> 'w \<Rightarrow> 'w \<times> string option) \<Rightarrow> (int \<Rightarrow> 'c \<Rightarrow> 'w \<Rightarrow> 'w \<times> string option) \<Rightarrow>
     int \<times> 'c challenge_op \<Rightarrow> 'w \<Rightarrow> 'w" where
  "perform present cleanup (t, Presents c) w = fst (present t c w)"
| "perform present cleanup (t, Cleans c) w = fst (cleanup t c w)"

text \<open>A record is published when the last operation on it presented it; \<open>b\<close> is its state before.\<close>

fun last_presented :: "('c \<Rightarrow> 'r) \<Rightarrow> 'r \<Rightarrow> bool \<Rightarrow> (int \<times> 'c challenge_op) list \<Rightarrow> bool" where
  "last_presented rec r b [] = b"
| "last_presented rec r b ((t, Presents c) # xs) = last_presented rec r (r = rec c \<or> b) xs"
| "last_presented rec r b ((t, Cleans c) # xs) = last_presented rec r (b \<and> r \<noteq> rec c) xs"

locale dns01_solver =
  fixes present :: "int \<Rightarrow> 'c \<Rightarrow> 'w \<Rightarrow> 'w \<times> string option"
    and cleanup :: "int \<Rightarrow> 'c \<Rightarrow> 'w \<Rightarrow> 'w \<times> string option"
    and published :: "'w \<Rightarrow> 'r set"
    and record_of :: "'c \<Rightarrow> 'r"
    and good :: "'c \<Rightarrow> bool"
    and inv :: "'w \<Rightarrow> bool"
  assumes present_adds: "inv w \<Longrightarrow> good c \<Longrightarrow>
      \<exists>w'. present t c w = (w', None) \<and> inv w' \<and> published w' = insert (record_of c) (published w)"
    and cleanup_removes: "inv w \<Longrightarrow> good c \<Longrightarrow>
      \<exists>w'. cleanup t c w = (w', None) \<and> inv w' \<and> published w' = published w - {record_of c}"
begin

lemma perform_inv: "inv w \<Longrightarrow> good (op_challenge x) \<Longrightarrow> inv (perform present cleanup (t, x) w)"
  using present_adds[of w "op_challenge x" t] cleanup_removes[of w "op_challenge x" t] by (cases x) auto

lemma perform_published:
  assumes "inv w" "good (op_challenge x)"
  shows "last_presented record_of r (r \<in> published (perform present cleanup (t, x) w)) xs
    = last_presented record_of r (r \<in> published w) ((t, x) # xs)"
  using present_adds[OF assms(1), of "op_challenge x" t] cleanup_removes[OF assms(1), of "op_challenge x" t] assms(2)
  by (cases x) (auto intro: arg_cong[where f = "\<lambda>b. last_presented record_of r b xs"])

lemma history_published:
  assumes "inv w" "list_all (\<lambda>(t, x). good (op_challenge x)) xs"
  shows "inv (fold (perform present cleanup) xs w)
    \<and> (r \<in> published (fold (perform present cleanup) xs w) \<longleftrightarrow> last_presented record_of r (r \<in> published w) xs)"
  using assms
proof (induction xs arbitrary: w)
  case Nil
  then show ?case by simp
next
  case (Cons y xs)
  obtain t x where y: "y = (t, x)" by (cases y)
  have g: "good (op_challenge x)" using Cons.prems(2) y by simp
  from Cons.IH[OF perform_inv[OF Cons.prems(1) g, of t]] Cons.prems(2)
  show ?case by (simp add: y perform_published[OF Cons.prems(1) g] del: perform.simps last_presented.simps)
qed

end

interpretation cs: dns01_solver
  "\<lambda>now. Present (solver_env L E s H pr rd now)"
  "\<lambda>now. CleanUp (solver_env L E s H pr rd now)"
  "zone_txts L s" "\<lambda>ch. (ResolvedFQDN ch, chKey ch)"
  "\<lambda>ch. no_io_faults E \<and> faithful L ok \<and> codec_ok pr rd \<and> good_challenge s H rd ok ch"
  "zone_inv L ok s" for L E s H pr rd ok
proof
  fix w c t
  assume w: "zone_inv L ok s w"
    and "no_io_faults E \<and> faithful L ok \<and> codec_ok pr rd \<and> good_challenge s H rd ok c"
  then have E: "no_io_faults E" "faithful L ok" "codec_ok pr rd" "routed rd H c" and b: "below_zone s c"
    and p: "printable ok (fqdn s (challenge_entry c)) (chKey c)"
    by (auto simp: good_challenge_def entry_fqdn)
  show "\<exists>w'. Present (solver_env L E s H pr rd t) c w = (w', None) \<and> zone_inv L ok s w'
      \<and> zone_txts L s w' = insert (ResolvedFQDN c, chKey c) (zone_txts L s w)"
    using Present_entry[OF E w domain_and_entry[OF b] p] by (simp add: entry_fqdn[OF b])
  show "\<exists>w'. CleanUp (solver_env L E s H pr rd t) c w = (w', None) \<and> zone_inv L ok s w'
      \<and> zone_txts L s w' = zone_txts L s w - {(ResolvedFQDN c, chKey c)}"
    using CleanUp_entry[OF E w domain_and_entry[OF b]] by (simp add: entry_fqdn[OF b])
qed

section \<open>Properties\<close>


text \<open>Names further down are misfiled. The solver takes all but the first label of the name for
  the zone, and the DNS service ignores the domain it is sent, so that for a name two labels below
  the zone the key is stored under another name than the one that is looked up, and \<open>Present\<close>
  reports success.
\<close>
theorem deep_names_are_misfiled:
  assumes "no_io_faults E" and "faithful L ok" and "codec_ok pr rd" and "zone_inv L ok s fs"
    and "routed rd H ch" and "DNSName ch = l @ ''.'' @ m @ ''.'' @ storeZone s"
    and "CHR ''.'' \<notin> set l" and "storeZone s \<noteq> []" and "last (storeZone s) \<noteq> CHR ''.''"
    and "ResolvedFQDN ch = ''_acme-challenge.'' @ DNSName ch @ ''.''"
    and "printable ok (fqdn s (''_acme-challenge.'' @ l)) (chKey ch)"
  shows "\<exists>fs'. Present (solver_env L E s H pr rd now) ch fs = (fs', None)
    \<and> zone_txts L s fs' = insert (fqdn s (''_acme-challenge.'' @ l), chKey ch) (zone_txts L s fs)
    \<and> fqdn s (''_acme-challenge.'' @ l) \<noteq> ResolvedFQDN ch"
proof -
  have "getDomainAndEntry ch = (m @ ''.'' @ storeZone s, ''_acme-challenge.'' @ l)"
    using assms(6-10) by (intro split_challenge) auto
  from Present_entry[OF assms(1-3,5,4) this assms(11)] show ?thesis
    using assms(6,10) by (auto simp: fqdn_def)
qed

section \<open>Witnesses\<close>

text \<open>A library of the two records of a name under validation, one character per record.\<close>

definition rr_key :: "string \<Rightarrow> RR" where
  "rr_key k = newTxt ''_acme-challenge.a.z.'' k"

fun solver_parse :: "string \<Rightarrow> RR list" where
  "solver_parse (c # n # cs) = (if c = CHR ''1'' then rr_key ''1'' else rr_key ''2'') # solver_parse cs"
| "solver_parse _ = []"

definition solver_lib :: dnslib where
  "solver_lib = example_lib\<lparr>rrString := (\<lambda>rr. if rr = rr_key ''1'' then ''1'' else ''2''),
     parseZone := (\<lambda>x. Inr (solver_parse x))\<rparr>"

definition solver_rr_ok :: "RR \<Rightarrow> bool" where
  "solver_rr_ok rr \<longleftrightarrow> rr = rr_key ''1'' \<or> rr = rr_key ''2''"

lemma rr_key_inj [simp]: "rr_key j = rr_key k \<longleftrightarrow> j = k"
  by (simp add: rr_key_def newTxt_def)

lemma solver_faithful: "faithful solver_lib solver_rr_ok"
proof -
  have "parseZone solver_lib (concat (map (\<lambda>rr. rrString solver_lib rr @ [CHR 0x0A]) rrs)) = Inr rrs"
    if "list_all solver_rr_ok rrs" for rrs
    using that
  proof (induction rrs)
    case Nil
    then show ?case by (simp add: solver_lib_def)
  next
    case (Cons r rrs)
    then show ?case by (auto simp: solver_rr_ok_def solver_lib_def)
  qed
  moreover have "solver_rr_ok (stamp now rr)" if "solver_rr_ok rr" for rr now
    using that by (auto simp: solver_rr_ok_def rr_key_def newTxt_def)
  ultimately show ?thesis by (simp add: faithful_def)
qed

definition solver_files :: files where
  "solver_files = [AbsolutePath \<lparr>root = ''/d''\<rparr> ''db'' \<mapsto> []]"

lemma solver_zone: "zone_of solver_lib example_store solver_files = Some []"
  by (simp add: zone_of_def example_store_def solver_files_def solver_lib_def)

lemma solver_zone_inv: "zone_inv solver_lib solver_rr_ok example_store solver_files"
  by (simp add: zone_inv_def solver_zone txts_unique_def txt_count_def)

lemma solver_zone_txts: "zone_txts solver_lib example_store solver_files = {}"
  by (simp add: zone_txts_def solver_zone txts_def)

definition example_site :: dns_site where
  "example_site = \<lparr>siteBase = ''http://d'', siteDS = [], siteNS = []\<rparr>"

definition example_config :: string where
  "example_config = code_json (JObj [(''createTXTAddr'', JStr ''http://d/create-txt-record''),
     (''deleteTXTAddr'', JStr ''http://d/delete-txt-record'')])"

definition example_challenge :: "string \<Rightarrow> string \<Rightarrow> ChallengeRequest" where
  "example_challenge n k = \<lparr>chConfig = Some example_config, DNSName = n,
     ResolvedFQDN = ''_acme-challenge.'' @ n @ ''.'', chKey = k\<rparr>"

lemma example_routed: "routed decode_json example_site (example_challenge n k)"
proof -
  have "decode_json example_config = Inr (JObj [(''createTXTAddr'', JStr ''http://d/create-txt-record''),
     (''deleteTXTAddr'', JStr ''http://d/delete-txt-record'')])"
    unfolding example_config_def by (rule decode_code_json) simp
  moreover have "to_lower ''createTXTAddr'' = ''createtxtaddr''" "to_lower ''deleteTXTAddr'' = ''deletetxtaddr''"
    by code_simp+
  ultimately show ?thesis
    by (simp add: routed_def loadConfig_def example_challenge_def config_fields_table_def on_field_def
        example_site_def)
qed

lemma example_printable: "k = ''1'' \<or> k = ''2'' \<Longrightarrow> printable solver_rr_ok ''_acme-challenge.a.z.'' k"
  by (auto simp: printable_def solver_rr_ok_def rr_key_def newTxt_def)

lemma example_good:
  assumes "k = ''1'' \<or> k = ''2''"
  shows "good_challenge example_store example_site decode_json solver_rr_ok (example_challenge ''a.z'' k)"
  using example_printable[OF assms] example_routed[of "''a.z''" k]
  by (simp add: good_challenge_def below_zone_def first_label_def example_store_def)
    (simp add: example_challenge_def)


theorem deep_names_are_misfiled_witness:
  "\<exists>fs'. Present (solver_env solver_lib quiet_io example_store example_site code_json decode_json 1)
      (example_challenge ''a.m.z'' ''1'') solver_files = (fs', None)
    \<and> zone_txts solver_lib example_store fs' = {(''_acme-challenge.a.z.'', ''1'')}"
proof -
  have p: "printable solver_rr_ok (fqdn example_store (''_acme-challenge.'' @ ''a''))
      (chKey (example_challenge ''a.m.z'' ''1''))"
    using example_printable[of "''1''"] by (simp add: example_fqdn) (simp add: example_challenge_def)
  have f: "fqdn example_store (''_acme-challenge.'' @ ''a'') = ''_acme-challenge.a.z.''"
    by (simp add: example_fqdn)
  show ?thesis
    using deep_names_are_misfiled[OF quiet_io_ok solver_faithful codec_ok_example solver_zone_inv
        example_routed _ _ _ _ _ p, of "''m''" 1]
    by (simp only: f solver_zone_txts) (auto simp: example_challenge_def example_store_def)
qed

end
