(* ===== verification/Repo.thy ===== *)
theory Repo
  imports FileSystem Json
begin

text \<open>
  Git repositories as the installer uses them: \<open>src/core/installer/soft/repoio.go\<close> (files of a
  worktree, pull, commit and push, the transaction \<open>Do\<close>), \<open>soft/client.go\<close> (repository addresses,
  the commands sent to the git server) and \<open>io/kustomization.go\<close> (the resource lists of Flux).

  The git library, the in-memory file system and the YAML and JSON printers are third-party code:
  which calls fail, what a pull makes of the worktree, and the codecs are fields of the
  environment.
\<close>

section \<open>Kustomization\<close>

record Kustomization =
  ApiVersion :: string
  Kind :: string
  Resources :: "string list"

definition NewKustomization :: Kustomization where
  "NewKustomization = \<lparr>ApiVersion = ''kustomize.config.k8s.io/v1beta1'', Kind = ''Kustomization'',
     Resources = []\<rparr>"

fun add_resources :: "string list \<Rightarrow> string list \<Rightarrow> string list" where
  "add_resources [] rs = rs"
| "add_resources (name # names) rs =
     add_resources names (if name \<in> set rs then rs else rs @ [name])"

definition AddResources :: "string list \<Rightarrow> Kustomization \<Rightarrow> Kustomization" where
  "AddResources names k = k\<lparr>Resources := add_resources names (Resources k)\<rparr>"

text \<open>For each name, the first resource equal to it is deleted.\<close>

fun delete_first :: "string \<Rightarrow> string list \<Rightarrow> string list" where
  "delete_first name [] = []"
| "delete_first name (r # rs) = (if r = name then rs else r # delete_first name rs)"

fun remove_resources :: "string list \<Rightarrow> string list \<Rightarrow> string list" where
  "remove_resources [] rs = rs"
| "remove_resources (name # names) rs = remove_resources names (delete_first name rs)"

definition RemoveResources :: "string list \<Rightarrow> Kustomization \<Rightarrow> Kustomization" where
  "RemoveResources names k = k\<lparr>Resources := remove_resources names (Resources k)\<rparr>"

lemma set_add_resources [simp]: "set (add_resources names rs) = set names \<union> set rs"
  by (induction names rs rule: add_resources.induct) auto

lemma distinct_add_resources: "distinct rs \<Longrightarrow> distinct (add_resources names rs)"
  by (induction names rs rule: add_resources.induct) auto

lemma add_resources_present: "set names \<subseteq> set rs \<Longrightarrow> add_resources names rs = rs"
  by (induction names) auto

lemma delete_first_remove1: "delete_first name rs = remove1 name rs"
  by (induction rs) auto

lemma distinct_remove_resources:
  "distinct rs \<Longrightarrow> distinct (remove_resources names rs) \<and> set (remove_resources names rs) = set rs - set names"
proof (induction names rs rule: remove_resources.induct)
  case (1 rs)
  then show ?case by simp
next
  case (2 name names rs)
  then show ?case by (auto simp: delete_first_remove1)
qed

text \<open>
  The contract of a resource list: a duplicate-free list that \<open>add\<close> extends and \<open>remove\<close> reduces as
  a set. Interpreted on the two methods.
\<close>

locale resource_list =
  fixes add :: "string list \<Rightarrow> 'k \<Rightarrow> 'k"
    and remove :: "string list \<Rightarrow> 'k \<Rightarrow> 'k"
    and names_of :: "'k \<Rightarrow> string list"
  assumes add_set: "set (names_of (add xs k)) = set (names_of k) \<union> set xs"
    and add_distinct: "distinct (names_of k) \<Longrightarrow> distinct (names_of (add xs k))"
    and remove_set: "distinct (names_of k) \<Longrightarrow> set (names_of (remove xs k)) = set (names_of k) - set xs"
    and remove_distinct: "distinct (names_of k) \<Longrightarrow> distinct (names_of (remove xs k))"
    and add_same: "set xs \<subseteq> set (names_of k) \<Longrightarrow> add xs k = k"
begin

lemma add_idem: "add xs (add xs k) = add xs k"
  by (rule add_same) (simp add: add_set)

lemma remove_add:
  "distinct (names_of k) \<Longrightarrow> set (names_of (remove xs (add xs k))) = set (names_of k) - set xs"
  by (simp add: remove_set add_distinct add_set Un_Diff)

end

interpretation kz: resource_list AddResources RemoveResources Resources
  by unfold_locales
    (auto simp: AddResources_def RemoveResources_def distinct_add_resources distinct_remove_resources
      add_resources_present)

section \<open>Repository addresses\<close>

record RepositoryAddress =
  Addr :: string
  RepoName :: string

definition FullAddress :: "RepositoryAddress \<Rightarrow> string" where
  "FullAddress a = ''ssh://'' @ Addr a @ ''/'' @ RepoName a"

text \<open>
  The expression \<open>ssh://(.*)/(.*)\<close>: the leftmost \<open>ssh://\<close> with a slash later on its line, the first
  group as long as possible; a dot matches no newline.
\<close>

fun last_slash :: "string \<Rightarrow> (string \<times> string) option" where
  "last_slash [] = None"
| "last_slash (c # cs) =
     (case last_slash cs of
        Some (u, v) \<Rightarrow> Some (c # u, v)
      | None \<Rightarrow> if c = CHR ''/'' then Some ([], cs) else None)"

fun match_address :: "string \<Rightarrow> (string \<times> string) option" where
  "match_address [] = None"
| "match_address (c # cs) =
     (case (if has_prefix (c # cs) ''ssh://''
            then last_slash (takeWhile (\<lambda>x. x \<noteq> CHR 0x0A) (drop 6 (c # cs))) else None) of
        Some m \<Rightarrow> Some m
      | None \<Rightarrow> match_address cs)"

definition ParseRepositoryAddress :: "string \<Rightarrow> (string, RepositoryAddress) result" where
  "ParseRepositoryAddress addr =
     (case match_address addr of
        None \<Rightarrow> Inl ''Invalid address''
      | Some (a, n) \<Rightarrow> Inr \<lparr>Addr = a, RepoName = n\<rparr>)"

lemma last_slash_none: "CHR ''/'' \<notin> set v \<Longrightarrow> last_slash v = None"
  by (induction v) auto

lemma last_slash_append: "CHR ''/'' \<notin> set v \<Longrightarrow> last_slash (u @ ''/'' @ v) = Some (u, v)"
  by (induction u) (auto simp: last_slash_none)

lemma parse_full:
  assumes "CHR ''/'' \<notin> set (RepoName a)" "CHR 0x0A \<notin> set (Addr a @ RepoName a)"
  shows "ParseRepositoryAddress (FullAddress a) = Inr a"
proof -
  have t: "takeWhile (\<lambda>x. x \<noteq> CHR 0x0A) (RepoName a) = RepoName a"
    using assms(2) by (intro takeWhile_eq_all_conv[THEN iffD2]) auto
  have "match_address (FullAddress a) = Some (Addr a, RepoName a)"
    unfolding FullAddress_def using last_slash_append[OF assms(1), of "Addr a"] assms(2)
    by (auto simp: has_prefix_def takeWhile_append t)
  then show ?thesis by (simp add: ParseRepositoryAddress_def)
qed

lemma last_slash_Some: "last_slash s = Some (u, v) \<Longrightarrow> s = u @ ''/'' @ v \<and> CHR ''/'' \<notin> set v"
proof (induction s arbitrary: u)
  case Nil
  then show ?case by simp
next
  case (Cons c cs)
  have none: "last_slash xs = None \<Longrightarrow> CHR ''/'' \<notin> set xs" for xs
    by (induction xs) (auto split: option.splits if_splits)
  from Cons show ?case by (auto split: option.splits if_splits dest: none)
qed

lemma has_prefix_iff: "has_prefix s p \<longleftrightarrow> (\<exists>r. s = p @ r)"
  by (auto simp: has_prefix_def) (metis append_take_drop_id)

lemma match_address_Some:
  "match_address s = Some (u, v) \<Longrightarrow>
     \<exists>pre post. s = pre @ ''ssh://'' @ u @ ''/'' @ v @ post \<and> CHR ''/'' \<notin> set v
       \<and> (post = [] \<or> hd post = CHR 0x0A)"
proof (induction s)
  case Nil
  then show ?case by simp
next
  case (Cons c cs)
  let ?line = "takeWhile (\<lambda>x. x \<noteq> CHR 0x0A) (drop 6 (c # cs))"
  let ?post = "dropWhile (\<lambda>x. x \<noteq> CHR 0x0A) (drop 6 (c # cs))"
  show ?case
  proof (cases "has_prefix (c # cs) ''ssh://'' \<and> last_slash ?line \<noteq> None")
    case True
    with Cons.prems have "last_slash ?line = Some (u, v)" by (auto split: option.splits)
    from last_slash_Some[OF this] have l: "?line = u @ ''/'' @ v" "CHR ''/'' \<notin> set v" by auto
    have "drop 6 (c # cs) = ?line @ ?post" by simp
    moreover have "c # cs = ''ssh://'' @ drop 6 (c # cs)"
      using True by (auto simp: has_prefix_iff)
    moreover have "?post = [] \<or> hd ?post = CHR 0x0A" using hd_dropWhile by blast
    ultimately have "c # cs = [] @ ''ssh://'' @ u @ ''/'' @ v @ ?post \<and> CHR ''/'' \<notin> set v
        \<and> (?post = [] \<or> hd ?post = CHR 0x0A)"
      using l by (metis append.assoc append_Nil)
    then show ?thesis by blast
  next
    case False
    with Cons.prems have "match_address cs = Some (u, v)" by (auto split: if_splits option.splits)
    from Cons.IH[OF this] show ?thesis by (metis append_Cons)
  qed
qed

section \<open>Worktrees\<close>

datatype billy_call = BOpen | BReadAll | BMkdirAll | BCreate | BWrite | BRemoveAll

record repo =
  tree :: files
  localCommits :: "(string \<times> files) list"
  remoteCommits :: "(string \<times> files) list"

text \<open>
  The environment of one call: which file operations and git operations fail, what a pull makes of
  the worktree, and the codecs of the documents stored.
\<close>

record repoenv =
  billyFault :: "billy_call \<Rightarrow> string \<Rightarrow> string option"
  worktreeErr :: "string option"
  pullTree :: "files \<Rightarrow> files"
  pullErr :: "string option"
  addErr :: "string option"
  commitErr :: "string option"
  pushErr :: "string option"
  yamlOfK :: "Kustomization \<Rightarrow> string"
  kOfYaml :: "string \<Rightarrow> (string, Kustomization) result"
  yamlOf :: "json \<Rightarrow> string"
  yamlTo :: "string \<Rightarrow> (string, json) result"
  jsonOf :: "json \<Rightarrow> string"
  jsonTo :: "string \<Rightarrow> (string, json) result"

text \<open>The worktree is rooted, so a path is read from the root whether or not it starts with a slash.\<close>

definition tree_key :: "string \<Rightarrow> string" where
  "tree_key p = path_clean (''/'' @ p)"

definition repo_Reader :: "repoenv \<Rightarrow> string \<Rightarrow> repo \<Rightarrow> (string, string) result" where
  "repo_Reader E path r =
     (case billyFault E BOpen (tree_key path) of
        Some e \<Rightarrow> Inl e
      | None \<Rightarrow> (case tree r (tree_key path) of None \<Rightarrow> Inl ''file does not exist'' | Some x \<Rightarrow> Inr x))"

text \<open>\<open>Writer\<close> creates the directories above the file and truncates it.\<close>

definition repo_Writer :: "repoenv \<Rightarrow> string \<Rightarrow> repo \<Rightarrow> repo \<times> string option" where
  "repo_Writer E path r =
     (case billyFault E BMkdirAll (tree_key path) of
        Some e \<Rightarrow> (r, Some e)
      | None \<Rightarrow>
          (case billyFault E BCreate (tree_key path) of
             Some e \<Rightarrow> (r, Some e)
           | None \<Rightarrow> (r\<lparr>tree := (tree r)(tree_key path \<mapsto> [])\<rparr>, None)))"

definition repo_write :: "repoenv \<Rightarrow> string \<Rightarrow> string \<Rightarrow> repo \<Rightarrow> repo \<times> string option" where
  "repo_write E path x r =
     (case repo_Writer E path r of
        (r', Some e) \<Rightarrow> (r', Some e)
      | (r', None) \<Rightarrow>
          (case billyFault E BWrite (tree_key path) of
             Some e \<Rightarrow> (r', Some e)
           | None \<Rightarrow> (r'\<lparr>tree := (tree r')(tree_key path \<mapsto> x)\<rparr>, None)))"

definition CreateDir :: "repoenv \<Rightarrow> string \<Rightarrow> repo \<Rightarrow> repo \<times> string option" where
  "CreateDir E path r = (r, billyFault E BMkdirAll (tree_key path))"

definition under :: "string \<Rightarrow> string \<Rightarrow> bool" where
  "under dir p \<longleftrightarrow> p = dir \<or> has_prefix p (dir @ ''/'') \<or> dir = ''/''"

definition RemoveDir :: "repoenv \<Rightarrow> string \<Rightarrow> repo \<Rightarrow> repo \<times> string option" where
  "RemoveDir E path r =
     (case billyFault E BRemoveAll (tree_key path) of
        Some e \<Rightarrow> (r, Some e)
      | None \<Rightarrow> (r\<lparr>tree := (\<lambda>p. if under (tree_key path) p then None else tree r p)\<rparr>, None))"

section \<open>Documents\<close>

definition ReadYaml :: "repoenv \<Rightarrow> string \<Rightarrow> repo \<Rightarrow> (string, json) result" where
  "ReadYaml E path r =
     bindE (repo_Reader E path r) (\<lambda>x.
     case billyFault E BReadAll (tree_key path) of Some e \<Rightarrow> Inl e | None \<Rightarrow> yamlTo E x)"

definition ReadKustomization :: "repoenv \<Rightarrow> string \<Rightarrow> repo \<Rightarrow> (string, Kustomization) result" where
  "ReadKustomization E path r =
     bindE (repo_Reader E path r) (\<lambda>x.
     case billyFault E BReadAll (tree_key path) of Some e \<Rightarrow> Inl e | None \<Rightarrow> kOfYaml E x)"

definition WriteYaml :: "repoenv \<Rightarrow> string \<Rightarrow> json \<Rightarrow> repo \<Rightarrow> repo \<times> string option" where
  "WriteYaml E path data r = repo_write E path (yamlOf E data) r"

definition WriteKustomization :: "repoenv \<Rightarrow> string \<Rightarrow> Kustomization \<Rightarrow> repo \<Rightarrow> repo \<times> string option" where
  "WriteKustomization E path k r = repo_write E path (yamlOfK E k) r"

definition ReadJson :: "repoenv \<Rightarrow> string \<Rightarrow> repo \<Rightarrow> (string, json) result" where
  "ReadJson E path r = bindE (repo_Reader E path r) (jsonTo E)"

definition WriteJson :: "repoenv \<Rightarrow> string \<Rightarrow> json \<Rightarrow> repo \<Rightarrow> repo \<times> string option" where
  "WriteJson E path data r = repo_write E path (jsonOf E data) r"

section \<open>Pull, commit and push\<close>

text \<open>\<open>pullWithoutLock\<close> returns nil on every path: a failing pull leaves the worktree as it was.\<close>

definition Pull :: "repoenv \<Rightarrow> repo \<Rightarrow> repo \<times> string option" where
  "Pull E r =
     (case worktreeErr E of
        Some _ \<Rightarrow> (r, None)
      | None \<Rightarrow>
          (case pullErr E of
             None \<Rightarrow> (r\<lparr>tree := pullTree E (tree r)\<rparr>, None)
           | Some _ \<Rightarrow> (r, None)))"

definition CommitAndPush :: "repoenv \<Rightarrow> string \<Rightarrow> repo \<Rightarrow> repo \<times> string option" where
  "CommitAndPush E message r =
     (case worktreeErr E of
        Some e \<Rightarrow> (r, Some e)
      | None \<Rightarrow>
          (case addErr E of
             Some e \<Rightarrow> (r, Some e)
           | None \<Rightarrow>
               (case commitErr E of
                  Some e \<Rightarrow> (r, Some e)
                | None \<Rightarrow>
                    (let r' = r\<lparr>localCommits := (message, tree r) # localCommits r\<rparr> in
                     case pushErr E of
                       Some e \<Rightarrow> (r', Some e)
                     | None \<Rightarrow> (r'\<lparr>remoteCommits := localCommits r' @ remoteCommits r',
                                  localCommits := []\<rparr>, None)))))"

text \<open>
  \<open>Do\<close>: an operation maps the worktree to a new one and a commit message or an error. The lock it
  holds makes calls on one repository run one after the other.
\<close>

type_synonym 'm op = "repo \<Rightarrow> repo \<times> (string, 'm) result"

definition Do :: "repoenv \<Rightarrow> bool \<Rightarrow> string op \<Rightarrow> repo \<Rightarrow> repo \<times> string option" where
  "Do E noCommit f r =
     (case Pull E r of
        (r1, Some e) \<Rightarrow> (r1, Some e)
      | (r1, None) \<Rightarrow>
          (case f r1 of
             (r2, Inl e) \<Rightarrow> (r2, Some e)
           | (r2, Inr msg) \<Rightarrow> if noCommit then (r2, None) else CommitAndPush E msg r2))"

section \<open>Healthy environments\<close>

definition repo_healthy :: "repoenv \<Rightarrow> bool" where
  "repo_healthy E \<longleftrightarrow> (\<forall>c p. billyFault E c p = None) \<and> worktreeErr E = None \<and> pullErr E = None
     \<and> addErr E = None \<and> commitErr E = None \<and> pushErr E = None"

lemma repo_healthyD [simp]:
  "repo_healthy E \<Longrightarrow> billyFault E c p = None" "repo_healthy E \<Longrightarrow> worktreeErr E = None"
  "repo_healthy E \<Longrightarrow> pullErr E = None" "repo_healthy E \<Longrightarrow> addErr E = None"
  "repo_healthy E \<Longrightarrow> commitErr E = None" "repo_healthy E \<Longrightarrow> pushErr E = None"
  by (simp_all add: repo_healthy_def)

lemma repo_write_healthy [simp]:
  "repo_healthy E \<Longrightarrow> repo_write E p x r = (r\<lparr>tree := (tree r)(tree_key p \<mapsto> x)\<rparr>, None)"
  by (simp add: repo_write_def repo_Writer_def)

lemma repo_Reader_healthy [simp]:
  "repo_healthy E \<Longrightarrow> tree r (tree_key p) = Some x \<Longrightarrow> repo_Reader E p r = Inr x"
  by (simp add: repo_Reader_def)

lemma repo_write_ok:
  "repo_write E p x r = (r', None) \<Longrightarrow> r' = r\<lparr>tree := (tree r)(tree_key p \<mapsto> x)\<rparr>"
  by (auto simp: repo_write_def repo_Writer_def split: option.splits)

lemma repo_write_frame:
  "repo_write E p x r = (r', e) \<Longrightarrow> k \<noteq> tree_key p \<Longrightarrow> tree r' k = tree r k"
  by (auto simp: repo_write_def repo_Writer_def split: option.splits)

text \<open>The worktree is a file system in the sense of the contract of \<open>FileSystem\<close>.\<close>

interpretation wt: file_system tree_key tree "repo_write E" for E
  by unfold_locales (auto dest: repo_write_ok repo_write_frame)

lemma Do_ok:
  assumes "Do E False f r = (r', None)"
  shows "\<exists>r2 msg. f (fst (Pull E r)) = (r2, Inr msg) \<and> tree r' = tree r2
    \<and> remoteCommits r' = (msg, tree r2) # localCommits r2 @ remoteCommits r2 \<and> localCommits r' = []"
  using assms
  by (auto simp: Do_def Pull_def CommitAndPush_def Let_def split: prod.splits option.splits sum.splits)

section \<open>The git server\<close>

text \<open>
  \<open>realClient\<close> sends one command line per connection; \<open>sent\<close> records the lines that were run and
  \<open>sshErr\<close> is the outcome the server gives them.
\<close>

record soft_client =
  softAddr :: string

definition RunCommand ::
    "(string \<Rightarrow> string option) \<Rightarrow> string list \<Rightarrow> string list \<Rightarrow> string list \<times> string option" where
  "RunCommand sshErr args sent =
     (let cmd = join_with '' '' args in (sent @ [cmd], sshErr cmd))"

definition AddPublicKey ::
    "(string \<Rightarrow> string option) \<Rightarrow> string \<Rightarrow> string \<Rightarrow> string list \<Rightarrow> string list \<times> string option" where
  "AddPublicKey sshErr user pubKey sent = RunCommand sshErr [''user'', ''add-pubkey'', user, pubKey] sent"

definition RemovePublicKey ::
    "(string \<Rightarrow> string option) \<Rightarrow> string \<Rightarrow> string \<Rightarrow> string list \<Rightarrow> string list \<times> string option" where
  "RemovePublicKey sshErr user pubKey sent =
     RunCommand sshErr [''user'', ''remove-pubkey'', user, pubKey] sent"

definition SoftAddUser ::
    "(string \<Rightarrow> string option) \<Rightarrow> string \<Rightarrow> string \<Rightarrow> string list \<Rightarrow> string list \<times> string option" where
  "SoftAddUser sshErr name pubKey sent =
     (case RunCommand sshErr [''user'', ''create'', name] sent of
        (sent', Some e) \<Rightarrow> (sent', Some e)
      | (sent', None) \<Rightarrow> AddPublicKey sshErr name pubKey sent')"

definition MakeUserAdmin ::
    "(string \<Rightarrow> string option) \<Rightarrow> string \<Rightarrow> string list \<Rightarrow> string list \<times> string option" where
  "MakeUserAdmin sshErr name sent = RunCommand sshErr [''user'', ''set-admin'', name, ''true''] sent"

definition AddRepository ::
    "(string \<Rightarrow> string option) \<Rightarrow> string \<Rightarrow> string list \<Rightarrow> string list \<times> string option" where
  "AddRepository sshErr name sent = RunCommand sshErr [''repo'', ''create'', name] sent"

definition AddReadWriteCollaborator ::
    "(string \<Rightarrow> string option) \<Rightarrow> string \<Rightarrow> string \<Rightarrow> string list \<Rightarrow> string list \<times> string option" where
  "AddReadWriteCollaborator sshErr rp user sent =
     RunCommand sshErr [''repo'', ''collab'', ''add'', rp, user, ''read-write''] sent"

definition AddReadOnlyCollaborator ::
    "(string \<Rightarrow> string option) \<Rightarrow> string \<Rightarrow> string \<Rightarrow> string list \<Rightarrow> string list \<times> string option" where
  "AddReadOnlyCollaborator sshErr rp user sent =
     RunCommand sshErr [''repo'', ''collab'', ''add'', rp, user, ''read-only''] sent"

definition addressGit :: "soft_client \<Rightarrow> string" where
  "addressGit c = ''ssh://'' @ softAddr c"

definition GetRepoAddress :: "soft_client \<Rightarrow> string \<Rightarrow> string" where
  "GetRepoAddress c name = addressGit c @ ''/'' @ name"

section \<open>Properties\<close>

text \<open>Repository addresses. Parsing the full address of a repository returns its server and
  name; conversely an address that parses contains the full address of the result, whose name
  has no slash, with at most a prefix before it and other lines after it.
\<close>
theorem repository_address_roundtrip:
  "(CHR ''/'' \<notin> set (RepoName a) \<longrightarrow> CHR 0x0A \<notin> set (Addr a @ RepoName a)
      \<longrightarrow> ParseRepositoryAddress (FullAddress a) = Inr a)
   \<and> (ParseRepositoryAddress x = Inr b \<longrightarrow>
      (\<exists>pre post. x = pre @ FullAddress b @ post \<and> CHR ''/'' \<notin> set (RepoName b)
        \<and> (post = [] \<or> hd post = CHR 0x0A)))"
proof (intro conjI impI)
  assume "CHR ''/'' \<notin> set (RepoName a)" "CHR 0x0A \<notin> set (Addr a @ RepoName a)"
  then show "ParseRepositoryAddress (FullAddress a) = Inr a" by (rule parse_full)
next
  assume "ParseRepositoryAddress x = Inr b"
  then have "match_address x = Some (Addr b, RepoName b)"
    by (auto simp: ParseRepositoryAddress_def split: option.splits prod.splits)
  from match_address_Some[OF this] show "\<exists>pre post. x = pre @ FullAddress b @ post
      \<and> CHR ''/'' \<notin> set (RepoName b) \<and> (post = [] \<or> hd post = CHR 0x0A)"
    by (simp add: FullAddress_def)
qed

theorem repository_address_roundtrip_witness:
  "ParseRepositoryAddress (FullAddress \<lparr>Addr = ''h:22'', RepoName = ''env''\<rparr>)
     = Inr \<lparr>Addr = ''h:22'', RepoName = ''env''\<rparr>"
  using repository_address_roundtrip[of "\<lparr>Addr = ''h:22'', RepoName = ''env''\<rparr>"] by simp

datatype resource_op = AddRes "string list" | RemoveRes "string list"

fun apply_res :: "resource_op \<Rightarrow> Kustomization \<Rightarrow> Kustomization" where
  "apply_res (AddRes xs) k = AddResources xs k"
| "apply_res (RemoveRes xs) k = RemoveResources xs k"

fun spec_res :: "resource_op \<Rightarrow> string set \<Rightarrow> string set" where
  "spec_res (AddRes xs) S = S \<union> set xs"
| "spec_res (RemoveRes xs) S = S - set xs"

lemma apply_res_step:
  "distinct (Resources k) \<Longrightarrow> distinct (Resources (apply_res x k))
    \<and> set (Resources (apply_res x k)) = spec_res x (set (Resources k))"
  by (cases x) (simp_all add: kz.add_set kz.add_distinct kz.remove_set kz.remove_distinct)

lemma apply_res_steps:
  "distinct (Resources k) \<Longrightarrow> distinct (Resources (fold apply_res xs k))
    \<and> set (Resources (fold apply_res xs k)) = fold spec_res xs (set (Resources k))"
  by (induction xs arbitrary: k) (auto simp: apply_res_step)

text \<open>A sequence of additions and removals on a new kustomization keeps its resources free of
  duplicates, and they are the set the sequence describes.
\<close>
theorem kustomization_resources_are_a_set:
  "distinct (Resources (fold apply_res xs NewKustomization))
    \<and> set (Resources (fold apply_res xs NewKustomization)) = fold spec_res xs {}"
  using apply_res_steps[of NewKustomization xs] by (simp add: NewKustomization_def)


text \<open>A failed transaction is not undone. Its partial writes stay in the worktree, and the next
  successful transaction on the same repository commits them, if the pull keeps them.
\<close>
theorem failed_transaction_leaks:
  assumes "repo_healthy E" and "pullTree E = id"
    and fails: "f r = (r1, Inl e)" and succeeds: "g r1 = (r2, Inr msg)"
    and part: "tree r1 p = Some x" and untouched: "tree r2 p = tree r1 p"
  shows "\<exists>r'. Do E False f r = (r1, Some e) \<and> Do E False g r1 = (r', None)
    \<and> snd (hd (remoteCommits r')) p = Some x"
  using assms by (simp add: Do_def Pull_def CommitAndPush_def Let_def)


subsection \<open>A concrete repository\<close>

text \<open>
  A codec of kustomizations by way of the prefix code of documents; other texts are read as a new
  kustomization.
\<close>

definition example_kust_text :: "Kustomization \<Rightarrow> string" where
  "example_kust_text k = code_json (JArr [JStr (ApiVersion k), JStr (Kind k), JArr (map JStr (Resources k))])"

definition example_kust_parse :: "string \<Rightarrow> Kustomization" where
  "example_kust_parse s =
     (case decode_json s of
        Inr (JArr [JStr a, JStr t, JArr vs]) \<Rightarrow>
          \<lparr>ApiVersion = a, Kind = t, Resources = map (\<lambda>v. case v of JStr x \<Rightarrow> x | _ \<Rightarrow> []) vs\<rparr>
      | _ \<Rightarrow> NewKustomization)"

lemma example_kust_roundtrip [simp]: "example_kust_parse (example_kust_text k) = k"
proof -
  have "wf_json (JArr [JStr (ApiVersion k), JStr (Kind k), JArr (map JStr (Resources k))])"
    by (simp add: list_all_iff)
  then show ?thesis
    by (simp add: example_kust_parse_def example_kust_text_def decode_code_json comp_def
        del: code_json.simps)
qed

definition example_repoenv :: repoenv where
  "example_repoenv = \<lparr>billyFault = (\<lambda>_ _. None), worktreeErr = None, pullTree = id, pullErr = None,
     addErr = None, commitErr = None, pushErr = None,
     yamlOfK = example_kust_text, kOfYaml = (\<lambda>s. Inr (example_kust_parse s)),
     yamlOf = code_json, yamlTo = decode_json, jsonOf = code_json, jsonTo = decode_json\<rparr>"

lemma example_repoenv_healthy [simp]: "repo_healthy example_repoenv"
  by (simp add: repo_healthy_def example_repoenv_def)

definition empty_repo :: repo where
  "empty_repo = \<lparr>tree = Map.empty, localCommits = [], remoteCommits = []\<rparr>"

definition write_op :: "string \<Rightarrow> string \<Rightarrow> (string, string) result \<Rightarrow> string op" where
  "write_op p x res r = (r\<lparr>tree := (tree r)(p \<mapsto> x)\<rparr>, res)"


theorem failed_transaction_leaks_witness:
  "\<exists>r'. Do example_repoenv False (write_op ''/a'' ''1'' (Inl ''failed'')) empty_repo =
       (empty_repo\<lparr>tree := [''/a'' \<mapsto> ''1'']\<rparr>, Some ''failed'')
    \<and> Do example_repoenv False (write_op ''/b'' ''2'' (Inr ''next'')) (empty_repo\<lparr>tree := [''/a'' \<mapsto> ''1'']\<rparr>) = (r', None)
    \<and> snd (hd (remoteCommits r')) ''/a'' = Some ''1''"
  by (rule failed_transaction_leaks[where ?r2.0 = "empty_repo\<lparr>tree := [''/a'' \<mapsto> ''1'', ''/b'' \<mapsto> ''2'']\<rparr>"
        and msg = "''next''"])
    (simp_all add: write_op_def empty_repo_def example_repoenv_def repo_healthy_def)

end
