(* ===== verification/PortAllocator.thy ===== *)
theory PortAllocator
  imports Repo
begin

text \<open>
  The port allocator (\<open>src/core/port-allocator/main.go\<close>): a service that maps external ports to
  services by editing the Helm release of the ingress controller in a git repository. The release
  is a document; the two port maps are the objects \<open>spec.values.tcp\<close> and \<open>spec.values.udp\<close>.
\<close>

section \<open>Requests\<close>

record allocateReq =
  Protocol :: string
  SourcePort :: int
  TargetService :: string
  TargetPort :: int

definition decode_allocateReq :: "allocateReq decoder" where
  "decode_allocateReq = decode_struct
     [''protocol'' \<mapsto> on_field Protocol Protocol_update decode_string,
      ''sourceport'' \<mapsto> on_field SourcePort SourcePort_update decode_int,
      ''targetservice'' \<mapsto> on_field TargetService TargetService_update decode_string,
      ''targetport'' \<mapsto> on_field TargetPort TargetPort_update decode_int]"

definition extractAllocateReq :: "(string, json) result \<Rightarrow> (string, allocateReq) result" where
  "extractAllocateReq body =
     bindE body (\<lambda>doc.
     bindE (decode_allocateReq doc
         \<lparr>Protocol = [], SourcePort = 0, TargetService = [], TargetPort = 0\<rparr>) (\<lambda>req.
       let req' = req\<lparr>Protocol := to_lower (Protocol req)\<rparr> in
       if Protocol req' \<noteq> ''tcp'' \<and> Protocol req' \<noteq> ''udp''
       then Inl (''Unexpected protocol '' @ Protocol req')
       else Inr req'))"

section \<open>The release\<close>

text \<open>
  \<open>extractPorts\<close> returns the two maps and creates those that are missing inside the release; the
  model returns the release with them. The maps are then read and updated through \<open>port_map\<close> and
  \<open>put_port_map\<close>.
\<close>

definition get_obj :: "string \<Rightarrow> string \<Rightarrow> json \<Rightarrow> (string, json) result" where
  "get_obj name k d =
     (case obj_get k d of
        None \<Rightarrow> Inl (name @ '' not found'')
      | Some v \<Rightarrow> if is_obj v then Inr v else Inl (name @ '' is not a map''))"

definition ensure :: "string \<Rightarrow> json \<Rightarrow> json" where
  "ensure k d = (case obj_get k d of None \<Rightarrow> obj_put k (JObj []) d | Some _ \<Rightarrow> d)"

definition extractPorts :: "json \<Rightarrow> (string, json) result" where
  "extractPorts rel =
     bindE (get_obj ''spec'' ''spec'' rel) (\<lambda>spec.
     bindE (get_obj ''spec.values'' ''values'' spec) (\<lambda>vals.
       let vals' = ensure ''udp'' (ensure ''tcp'' vals) in
       bindE (get_obj ''spec.values.tcp'' ''tcp'' vals') (\<lambda>_.
       bindE (get_obj ''spec.values.udp'' ''udp'' vals') (\<lambda>_.
         Inr (obj_put ''spec'' (obj_put ''values'' vals' spec) rel)))))"

definition values_of :: "json \<Rightarrow> json option" where
  "values_of rel = (case obj_get ''spec'' rel of None \<Rightarrow> None | Some spec \<Rightarrow> obj_get ''values'' spec)"

definition port_map :: "string \<Rightarrow> json \<Rightarrow> json option" where
  "port_map proto rel = (case values_of rel of None \<Rightarrow> None | Some vals \<Rightarrow> obj_get proto vals)"

definition put_port_map :: "string \<Rightarrow> json \<Rightarrow> json \<Rightarrow> json" where
  "put_port_map proto pm rel =
     (case obj_get ''spec'' rel of
        None \<Rightarrow> rel
      | Some spec \<Rightarrow>
          (case obj_get ''values'' spec of
             None \<Rightarrow> rel
           | Some vals \<Rightarrow> obj_put ''spec'' (obj_put ''values'' (obj_put proto pm vals) spec) rel))"

definition addPort :: "json \<Rightarrow> allocateReq \<Rightarrow> (string, json) result" where
  "addPort pm req =
     (let sourcePortStr = itoa (SourcePort req) in
      if obj_get sourcePortStr pm \<noteq> None \<or> SourcePort req = 80 \<or> SourcePort req = 443 \<or> SourcePort req = 22
      then Inl (''port '' @ itoa (SourcePort req) @ '' is already taken'')
      else Inr (obj_put sourcePortStr (JStr (TargetService req @ '':'' @ itoa (TargetPort req))) pm))"

section \<open>The client and the handler\<close>

record repoClient =
  clientPath :: string

definition ReadRelease :: "repoenv \<Rightarrow> repoClient \<Rightarrow> repo \<Rightarrow> repo \<times> (string, json) result" where
  "ReadRelease E c r =
     (case Pull E r of
        (r1, Some e) \<Rightarrow> (r1, Inl e)
      | (r1, None) \<Rightarrow> (r1, bindE (ReadYaml E (clientPath c) r1) decode_map_any))"

definition WriteRelease :: "repoenv \<Rightarrow> repoClient \<Rightarrow> json \<Rightarrow> string \<Rightarrow> repo \<Rightarrow> repo \<times> string option" where
  "WriteRelease E c rel meta r =
     (case WriteYaml E (clientPath c) rel r of
        (r1, Some e) \<Rightarrow> (r1, Some e)
      | (r1, None) \<Rightarrow> CommitAndPush E meta r1)"

definition handleAllocate ::
    "repoenv \<Rightarrow> repoClient \<Rightarrow> string \<Rightarrow> (string, json) result \<Rightarrow> repo \<Rightarrow> repo \<times> unit response" where
  "handleAllocate E c meth body r =
     (if meth \<noteq> ''POST'' then (r, HttpError StatusBadRequest ''only post method is supported'')
      else
        (case extractAllocateReq body of
           Inl e \<Rightarrow> (r, HttpError StatusBadRequest e)
         | Inr req \<Rightarrow>
             (case ReadRelease E c r of
                (r1, Inl e) \<Rightarrow> (r1, HttpError StatusInternalServerError e)
              | (r1, Inr ingressRel) \<Rightarrow>
                  (case extractPorts ingressRel of
                     Inl e \<Rightarrow> (r1, HttpError StatusInternalServerError e)
                   | Inr rel \<Rightarrow>
                       (case port_map (Protocol req) rel of
                          None \<Rightarrow> (r1, Aborted)
                        | Some pm \<Rightarrow>
                            (case addPort pm req of
                               Inl e \<Rightarrow> (r1, HttpError StatusConflict e)
                             | Inr pm' \<Rightarrow>
                                 (case WriteRelease E c (put_port_map (Protocol req) pm' rel)
                                     (''ingress: port map '' @ itoa (SourcePort req) @ '' '' @ Protocol req) r1 of
                                    (r2, Some e) \<Rightarrow> (r2, HttpError StatusInternalServerError e)
                                  | (r2, None) \<Rightarrow> (r2, NoContent))))))))"

section \<open>Lemmas on releases\<close>

lemma get_obj_Inr: "get_obj n k d = Inr v \<longleftrightarrow> obj_get k d = Some v \<and> is_obj v"
  by (auto simp: get_obj_def split: option.splits)

lemma obj_get_Some_is_obj: "obj_get k d = Some v \<Longrightarrow> is_obj d"
  by (cases d) auto

lemma is_obj_ensure [simp]: "is_obj (ensure k d) = is_obj d"
  by (simp add: ensure_def split: option.splits)

lemma obj_get_ensure:
  "is_obj d \<Longrightarrow> obj_get k' (ensure k d) =
     (if k' = k \<and> obj_get k d = None then Some (JObj []) else obj_get k' d)"
  by (auto simp: ensure_def obj_get_put split: option.splits)

lemma wf_ensure: "wf_json d \<Longrightarrow> wf_json (ensure k d)"
  by (auto simp: ensure_def intro: wf_obj_put split: option.splits)

lemma extractPorts_Inr:
  assumes "extractPorts rel = Inr rel'"
  obtains spec vals where
    "obj_get ''spec'' rel = Some spec" "is_obj spec" "obj_get ''values'' spec = Some vals" "is_obj vals"
    "rel' = obj_put ''spec'' (obj_put ''values'' (ensure ''udp'' (ensure ''tcp'' vals)) spec) rel"
    "\<And>p. p \<in> {''tcp'', ''udp''} \<Longrightarrow> \<exists>pm. obj_get p (ensure ''udp'' (ensure ''tcp'' vals)) = Some pm \<and> is_obj pm"
  using assms by (auto simp: extractPorts_def Let_def bindE_eq_Inr get_obj_Inr)

text \<open>The entry of a port in the map of a protocol, empty when the map is missing.\<close>

definition port_target :: "json \<Rightarrow> string \<Rightarrow> string \<Rightarrow> json option" where
  "port_target rel proto p =
     (case port_map proto rel of None \<Rightarrow> None | Some pm \<Rightarrow> obj_get p pm)"

lemma extractPorts_spec:
  assumes "extractPorts rel = Inr rel'"
  shows "port_target rel' proto p = port_target rel proto p"
    and "proto \<in> {''tcp'', ''udp''} \<Longrightarrow> \<exists>pm. port_map proto rel' = Some pm \<and> is_obj pm"
    and "k \<noteq> ''spec'' \<Longrightarrow> obj_get k rel' = obj_get k rel"
    and "wf_json rel \<Longrightarrow> wf_json rel'"
proof -
  from extractPorts_Inr[OF assms] obtain spec vals where
    h: "obj_get ''spec'' rel = Some spec" "is_obj spec" "obj_get ''values'' spec = Some vals" "is_obj vals"
    and rel': "rel' = obj_put ''spec'' (obj_put ''values'' (ensure ''udp'' (ensure ''tcp'' vals)) spec) rel"
    and maps: "\<And>p. p \<in> {''tcp'', ''udp''} \<Longrightarrow>
      \<exists>pm. obj_get p (ensure ''udp'' (ensure ''tcp'' vals)) = Some pm \<and> is_obj pm" by metis
  have rel: "is_obj rel" using h(1) by (rule obj_get_Some_is_obj)
  have pm': "port_map q rel' = obj_get q (ensure ''udp'' (ensure ''tcp'' vals))" for q
    using h rel by (simp add: rel' port_map_def values_of_def obj_get_put)
  have pm: "port_map q rel = obj_get q vals" for q using h by (simp add: port_map_def values_of_def)
  show "port_target rel' proto p = port_target rel proto p"
    using h(4) by (simp add: port_target_def pm' pm obj_get_ensure)
  show "\<exists>pm. port_map proto rel' = Some pm \<and> is_obj pm" if "proto \<in> {''tcp'', ''udp''}"
    using maps[OF that] pm' by simp
  show "obj_get k rel' = obj_get k rel" if "k \<noteq> ''spec''"
    using that rel by (simp add: rel' obj_get_put)
  show "wf_json rel'" if "wf_json rel"
  proof -
    have "wf_json spec" by (rule wf_obj_get[OF that h(1)])
    moreover from this have "wf_json vals" by (rule wf_obj_get[OF _ h(3)])
    ultimately show ?thesis unfolding rel' using that by (simp add: wf_obj_put wf_ensure)
  qed
qed

lemma port_map_path:
  assumes "port_map proto rel = Some pm"
  obtains spec vals where "obj_get ''spec'' rel = Some spec" "obj_get ''values'' spec = Some vals"
    "obj_get proto vals = Some pm" "is_obj rel" "is_obj spec" "is_obj vals"
  using assms
  by (auto simp: port_map_def values_of_def split: option.splits dest: obj_get_Some_is_obj)

lemma put_port_map_spec:
  assumes "port_map proto rel = Some pm" "is_obj pm" "is_obj pm'"
  shows "port_map q (put_port_map proto pm' rel) = (if q = proto then Some pm' else port_map q rel)"
    and "wf_json rel \<Longrightarrow> wf_json pm' \<Longrightarrow> wf_json (put_port_map proto pm' rel)"
proof -
  from port_map_path[OF assms(1)] obtain spec vals where h: "obj_get ''spec'' rel = Some spec"
    "obj_get ''values'' spec = Some vals" "obj_get proto vals = Some pm" "is_obj rel" "is_obj spec"
    "is_obj vals" by metis
  show "port_map q (put_port_map proto pm' rel) = (if q = proto then Some pm' else port_map q rel)"
    using h by (simp add: put_port_map_def port_map_def values_of_def obj_get_put)
  show "wf_json (put_port_map proto pm' rel)" if "wf_json rel" "wf_json pm'"
  proof -
    have "wf_json spec" by (rule wf_obj_get[OF that(1) h(1)])
    moreover from this have "wf_json vals" by (rule wf_obj_get[OF _ h(2)])
    ultimately show ?thesis using that h by (simp add: put_port_map_def wf_obj_put)
  qed
qed

lemma wf_port_map: "wf_json rel \<Longrightarrow> port_map proto rel = Some pm \<Longrightarrow> wf_json pm"
  by (erule port_map_path) (metis wf_obj_get)

lemma addPort_Inr:
  "addPort pm req = Inr pm' \<longleftrightarrow>
     obj_get (itoa (SourcePort req)) pm = None \<and> SourcePort req \<notin> {80, 443, 22}
     \<and> pm' = obj_put (itoa (SourcePort req)) (JStr (TargetService req @ '':'' @ itoa (TargetPort req))) pm"
  by (auto simp: addPort_def Let_def)

section \<open>The state of the allocation\<close>

text \<open>The release as a client of the repository would read it now.\<close>

definition release :: "repoenv \<Rightarrow> repoClient \<Rightarrow> repo \<Rightarrow> json option" where
  "release E c r =
     (case tree r (tree_key (clientPath c)) of
        None \<Rightarrow> None
      | Some x \<Rightarrow> (case yamlTo E x of Inl _ \<Rightarrow> None | Inr d \<Rightarrow> Some d))"

definition allocated :: "repoenv \<Rightarrow> repoClient \<Rightarrow> repo \<Rightarrow> string \<Rightarrow> string \<Rightarrow> json option" where
  "allocated E c r proto p =
     (case release E c r of None \<Rightarrow> None | Some rel \<Rightarrow> port_target rel proto p)"

text \<open>An environment whose pull brings nothing new and whose YAML codec satisfies its laws.\<close>

definition alloc_env :: "repoenv \<Rightarrow> bool" where
  "alloc_env E \<longleftrightarrow> repo_healthy E \<and> pullTree E = id \<and> codec_ok (yamlOf E) (yamlTo E)"

lemma extractAllocateReq_proto: "extractAllocateReq body = Inr req \<Longrightarrow> Protocol req \<in> {''tcp'', ''udp''}"
  by (auto simp: extractAllocateReq_def Let_def bindE_eq_Inr split: if_splits)

lemma ReadRelease_env:
  assumes "alloc_env E"
  shows "fst (ReadRelease E c r) = r"
    and "snd (ReadRelease E c r) = Inr rel \<Longrightarrow> release E c r = Some rel"
  using assms
  by (auto simp: ReadRelease_def alloc_env_def Pull_def ReadYaml_def repo_Reader_def release_def
      bindE_eq_Inr split: option.splits sum.splits elim: decode_map_any.elims)

lemma WriteRelease_env:
  assumes "alloc_env E" "wf_json rel"
  shows "\<exists>r'. WriteRelease E c rel meta r = (r', None) \<and> release E c r' = Some rel
    \<and> (\<forall>p. p \<noteq> tree_key (clientPath c) \<longrightarrow> tree r' p = tree r p)"
  using assms
  by (simp add: alloc_env_def WriteRelease_def WriteYaml_def CommitAndPush_def Let_def release_def codec_ok_def)

lemma port_target_put:
  assumes "port_map q rel = Some pm" "is_obj pm" "addPort pm req = Inr pm'"
  shows "port_target (put_port_map q pm' rel) proto p =
    (if proto = q \<and> p = itoa (SourcePort req)
     then Some (JStr (TargetService req @ '':'' @ itoa (TargetPort req)))
     else port_target rel proto p)"
proof -
  from assms(2,3) have "is_obj pm'" by (auto simp: addPort_Inr)
  with put_port_map_spec(1)[OF assms(1,2)] assms show ?thesis
    by (auto simp: port_target_def addPort_Inr obj_get_put)
qed

lemma handleAllocate_cases:
  assumes E: "alloc_env E" and h: "handleAllocate E c meth body r = (r', w)"
  obtains (rejected) "r' = r" "w \<noteq> NoContent"
  | (added) req rel rel' pm pm' where "meth = ''POST''" "extractAllocateReq body = Inr req"
      "ReadRelease E c r = (r, Inr rel)" "extractPorts rel = Inr rel'"
      "port_map (Protocol req) rel' = Some pm" "addPort pm req = Inr pm'"
      "(r', w) = (case WriteRelease E c (put_port_map (Protocol req) pm' rel')
          (''ingress: port map '' @ itoa (SourcePort req) @ '' '' @ Protocol req) r of
          (r2, Some e) \<Rightarrow> (r2, HttpError StatusInternalServerError e) | (r2, None) \<Rightarrow> (r2, NoContent))"
proof -
  obtain x where rd: "ReadRelease E c r = (r, x)"
    using ReadRelease_env(1)[OF E, of c r] by (metis prod.collapse)
  from h rd that show thesis
    by (auto simp: handleAllocate_def split: if_splits sum.splits option.splits)
qed

text \<open>One request either leaves the repository alone or adds exactly one free port.\<close>

lemma handleAllocate_step:
  assumes E: "alloc_env E" and h: "handleAllocate E c meth body r = (r', w)"
  shows "(r' = r \<and> w \<noteq> NoContent) \<or>
    (\<exists>req. extractAllocateReq body = Inr req \<and> meth = ''POST'' \<and> w = NoContent
      \<and> SourcePort req \<notin> {80, 443, 22}
      \<and> allocated E c r (Protocol req) (itoa (SourcePort req)) = None
      \<and> allocated E c r' = (allocated E c r)(Protocol req := (allocated E c r (Protocol req))
          (itoa (SourcePort req) \<mapsto> JStr (TargetService req @ '':'' @ itoa (TargetPort req))))
      \<and> (\<forall>p. p \<noteq> tree_key (clientPath c) \<longrightarrow> tree r' p = tree r p))"
using E h
proof (cases rule: handleAllocate_cases)
  case rejected
  then show ?thesis by simp
next
  case (added req rel rel' pm pm')
  have rel: "release E c r = Some rel" using ReadRelease_env(2)[OF E] added(3) by simp
  have wf: "wf_json rel"
    using E rel by (auto simp: release_def alloc_env_def codec_ok_def split: option.splits sum.splits)
  have proto: "Protocol req \<in> {''tcp'', ''udp''}" using added(2) by (rule extractAllocateReq_proto)
  note ex = extractPorts_spec[OF added(4)]
  from ex(2)[OF proto] added(5) have obj: "is_obj pm" by simp
  have wfpm: "wf_json pm"
    using ex(4)[OF wf] added(5) by (rule wf_port_map)
  from added(6) have obj': "is_obj pm'" "wf_json pm'"
    using obj wfpm by (auto simp: addPort_Inr intro!: wf_obj_put)
  let ?rel = "put_port_map (Protocol req) pm' rel'"
  have "wf_json ?rel" by (rule put_port_map_spec(2)[OF added(5) obj obj'(1) ex(4)[OF wf] obj'(2)])
  then obtain r2 where wr: "WriteRelease E c ?rel
      (''ingress: port map '' @ itoa (SourcePort req) @ '' '' @ Protocol req) r = (r2, None)"
    and r2: "release E c r2 = Some ?rel" "\<forall>p. p \<noteq> tree_key (clientPath c) \<longrightarrow> tree r2 p = tree r p"
    using WriteRelease_env[OF E] by meson
  have r': "w = NoContent" "release E c r' = Some ?rel"
    "\<forall>p. p \<noteq> tree_key (clientPath c) \<longrightarrow> tree r' p = tree r p"
    using added(7) r2 unfolding wr by simp_all
  have "allocated E c r (Protocol req) (itoa (SourcePort req)) = None"
    using ex(1)[of "Protocol req" "itoa (SourcePort req)"] added(5,6)
    by (simp add: allocated_def rel port_target_def addPort_Inr)
  moreover have "allocated E c r' = (allocated E c r)(Protocol req := (allocated E c r (Protocol req))
        (itoa (SourcePort req) \<mapsto> JStr (TargetService req @ '':'' @ itoa (TargetPort req))))"
    by (intro ext) (simp add: allocated_def r'(2) rel port_target_put[OF added(5) obj added(6)] ex(1))
  moreover have "SourcePort req \<notin> {80, 443, 22}" using added(6) by (simp add: addPort_Inr)
  ultimately show ?thesis using added r' by blast
qed

section \<open>Sequences of requests\<close>

type_synonym alloc_call = "string \<times> (string, json) result"

definition alloc_step :: "repoenv \<Rightarrow> repoClient \<Rightarrow> alloc_call \<Rightarrow> repo \<Rightarrow> repo \<times> unit response" where
  "alloc_step E c x r = handleAllocate E c (fst x) (snd x) r"

definition keeps :: "repoenv \<Rightarrow> repoClient \<Rightarrow> repo \<Rightarrow> repo \<Rightarrow> bool" where
  "keeps E c r0 r \<longleftrightarrow>
     (\<forall>proto p t. allocated E c r0 proto p = Some t \<longrightarrow> allocated E c r proto p = Some t)
     \<and> (\<forall>proto. \<forall>n \<in> {80, 443, 22}. allocated E c r proto (itoa n) = allocated E c r0 proto (itoa n))"

lemma keeps_step:
  assumes "alloc_env E" "keeps E c r0 r"
  shows "keeps E c r0 (fst (alloc_step E c x r))"
proof -
  obtain r' w where h: "handleAllocate E c (fst x) (snd x) r = (r', w)"
    by (cases "handleAllocate E c (fst x) (snd x) r")
  from handleAllocate_step[OF assms(1) h] show ?thesis
  proof (elim disjE exE conjE)
    assume "r' = r"
    with assms(2) h show ?thesis by (simp add: alloc_step_def)
  next
    fix req
    assume "SourcePort req \<notin> {80, 443, 22}"
      "allocated E c r (Protocol req) (itoa (SourcePort req)) = None"
      "allocated E c r' = (allocated E c r)(Protocol req := (allocated E c r (Protocol req))
          (itoa (SourcePort req) \<mapsto> JStr (TargetService req @ '':'' @ itoa (TargetPort req))))"
    then have "keeps E c r r'" by (auto simp: keeps_def itoa_inj)
    with assms(2) have "keeps E c r0 r'" by (simp add: keeps_def)
    with h show ?thesis by (simp add: alloc_step_def)
  qed
qed

interpretation alloc: service "alloc_step E c" "\<lambda>r. alloc_env E \<longrightarrow> keeps E c r0 r" for E c r0
  by unfold_locales (simp add: keeps_step)

section \<open>Properties\<close>

text \<open>One request to the allocator. Either the repository is unchanged and the answer is an error,
  or the request was a well-formed POST for a free port other than 80, 443 and 22, and the release
  then maps this port, and only it in addition, to the requested target, with no other file
  changed.
\<close>
theorem allocate_adds_one_free_port:
  assumes "alloc_env E" and "handleAllocate E c meth body r = (r', w)"
  shows "(r' = r \<and> w \<noteq> NoContent) \<or>
    (\<exists>req. extractAllocateReq body = Inr req \<and> meth = ''POST'' \<and> w = NoContent
      \<and> SourcePort req \<notin> {80, 443, 22}
      \<and> allocated E c r (Protocol req) (itoa (SourcePort req)) = None
      \<and> allocated E c r' = (allocated E c r)(Protocol req := (allocated E c r (Protocol req))
          (itoa (SourcePort req) \<mapsto> JStr (TargetService req @ '':'' @ itoa (TargetPort req))))
      \<and> (\<forall>p. p \<noteq> tree_key (clientPath c) \<longrightarrow> tree r' p = tree r p))"
  using assms by (rule handleAllocate_step)


subsection \<open>A concrete release\<close>

definition example_release :: json where
  "example_release = JObj [(''spec'', JObj [(''values'', JObj [(''tcp'', JObj [(''53'', JStr ''dns:53'')])])])]"

definition example_client :: repoClient where
  "example_client = \<lparr>clientPath = ''ingress.yaml''\<rparr>"

definition example_alloc_repo :: repo where
  "example_alloc_repo = empty_repo\<lparr>tree := [tree_key ''ingress.yaml'' \<mapsto> code_json example_release]\<rparr>"

definition example_body :: "int \<Rightarrow> (string, json) result" where
  "example_body p = Inr (JObj [(''protocol'', JStr ''TCP''), (''sourcePort'', JNum p),
     (''targetPort'', JNum 22), (''targetService'', JStr ''git'')])"

lemma example_alloc_env: "alloc_env example_repoenv"
  by (simp add: alloc_env_def) (simp add: example_repoenv_def codec_ok_example)

lemma example_allocated: "allocated example_repoenv example_client example_alloc_repo ''tcp'' ''53'' = Some (JStr ''dns:53'')"
proof -
  have "wf_json example_release" by (simp add: example_release_def)
  then have "release example_repoenv example_client example_alloc_repo = Some example_release"
    by (simp add: release_def example_alloc_repo_def example_client_def empty_repo_def
        example_repoenv_def decode_code_json)
  then show ?thesis
    by (simp add: allocated_def port_target_def port_map_def values_of_def example_release_def)
qed

theorem allocate_adds_one_free_port_witness:
  "let (r', w) = handleAllocate example_repoenv example_client ''POST'' (example_body 2022) example_alloc_repo in
   (r' = example_alloc_repo \<and> w \<noteq> NoContent) \<or>
    (\<exists>req. extractAllocateReq (example_body 2022) = Inr req \<and> w = NoContent
      \<and> SourcePort req \<notin> {80, 443, 22}
      \<and> allocated example_repoenv example_client r' (Protocol req) (itoa (SourcePort req)) =
          Some (JStr (TargetService req @ '':'' @ itoa (TargetPort req))))"
proof -
  obtain r' w where h: "handleAllocate example_repoenv example_client ''POST'' (example_body 2022)
      example_alloc_repo = (r', w)" by (metis prod.exhaust)
  from allocate_adds_one_free_port[OF example_alloc_env h] h show ?thesis by auto
qed


end
