(* ===== verification/Paths.thy ===== *)
theory Paths
  imports FileSystem
begin

text \<open>
  Rooted paths as lists of components: how \<open>filepath.Clean\<close>, \<open>filepath.Join\<close> and
  \<open>filepath.Split\<close> act on them. The installer walks such paths upwards when it links
  kustomizations.
\<close>

definition path_split :: "string \<Rightarrow> string \<times> string" where
  "path_split p =
     (let c = rev (takeWhile (\<lambda>x. x \<noteq> CHR ''/'') (rev p)) in (take (length p - length c) p, c))"

definition comp_ok :: "string \<Rightarrow> bool" where
  "comp_ok c \<longleftrightarrow> c \<noteq> [] \<and> CHR ''/'' \<notin> set c \<and> c \<noteq> ''.'' \<and> c \<noteq> ''..''"

text \<open>\<open>dirs\<close> writes a slash before every component; \<open>path_of\<close> is the clean rooted path.\<close>

definition dirs :: "string list \<Rightarrow> string" where
  "dirs cs = concat (map (\<lambda>c. CHR ''/'' # c) cs)"

definition path_of :: "string list \<Rightarrow> string" where
  "path_of cs = (if cs = [] then ''/'' else dirs cs)"

lemma dirs_simps [simp]: "dirs [] = []" "dirs (c # cs) = CHR ''/'' # c @ dirs cs"
  "dirs (cs @ ds) = dirs cs @ dirs ds"
  by (simp_all add: dirs_def)

lemma split_dirs: "\<forall>c \<in> set cs. CHR ''/'' \<notin> set c \<Longrightarrow> split_on (CHR ''/'') (dirs cs) = [] # cs"
proof (induction cs)
  case Nil
  then show ?case by simp
next
  case (Cons c cs)
  then have "split_on (CHR ''/'') (c @ dirs cs) = c # cs"
    by (cases cs) (simp_all add: split_on_single split_on_append)
  then show ?case by simp
qed

lemma clean_parts_ok:
  "\<forall>c \<in> set cs. c = [] \<or> comp_ok c \<Longrightarrow> clean_parts b acc cs = rev acc @ filter (\<lambda>c. c \<noteq> []) cs"
  by (induction cs arbitrary: acc) (auto simp: comp_ok_def)

lemma join_dirs: "cs \<noteq> [] \<Longrightarrow> CHR ''/'' # join_with ''/'' cs = dirs cs"
proof (induction cs)
  case Nil
  then show ?case by simp
next
  case (Cons c cs)
  then show ?case by (cases cs) auto
qed

lemma comp_okD: "comp_ok c \<Longrightarrow> CHR ''/'' \<notin> set c" "comp_ok c \<Longrightarrow> c \<noteq> []"
  by (simp_all add: comp_ok_def)

lemma filter_comps: "\<forall>c \<in> set cs. comp_ok c \<Longrightarrow> filter (\<lambda>c. c \<noteq> []) cs = cs"
  by (simp add: filter_id_conv comp_okD)

lemma clean_dirs:
  assumes "cs \<noteq> []" "\<forall>c \<in> set cs. c = [] \<or> comp_ok c"
  shows "path_clean (dirs cs) = path_of (filter (\<lambda>c. c \<noteq> []) cs)"
proof -
  have sl: "\<forall>c \<in> set cs. CHR ''/'' \<notin> set c" using assms(2) comp_okD(1) by (metis empty_iff empty_set)
  have rooted: "has_prefix (dirs cs) ''/''" using assms(1) by (cases cs) (auto simp: has_prefix_def)
  have parts: "clean_parts True [] ([] # cs) = filter (\<lambda>c. c \<noteq> []) cs"
    using clean_parts_ok[of cs True "[]"] assms(2) by simp
  then have "path_clean (dirs cs) = ''/'' @ join_with ''/'' (filter (\<lambda>c. c \<noteq> []) cs)"
    using rooted by (simp add: path_clean_def split_dirs[OF sl])
  then show ?thesis by (auto simp: path_of_def join_dirs)
qed

lemma clean_path_of: "\<forall>c \<in> set cs. comp_ok c \<Longrightarrow> path_clean (path_of cs) = path_of cs"
proof (cases "cs = []")
  case True
  then show ?thesis using clean_dirs[of "[[]]"] by (simp add: path_of_def)
next
  case False
  moreover assume ok: "\<forall>c \<in> set cs. comp_ok c"
  moreover have "filter (\<lambda>c. c \<noteq> []) cs = cs" using ok by (rule filter_comps)
  ultimately show ?thesis using clean_dirs[of cs] by (simp add: path_of_def)
qed

lemma split_path_of:
  assumes "CHR ''/'' \<notin> set c"
  shows "path_split (path_of (cs @ [c])) = (dirs (cs @ [[]]), c)"
proof -
  have "takeWhile (\<lambda>x. x \<noteq> CHR ''/'') (rev (dirs cs @ CHR ''/'' # c)) = rev c"
    using assms by (simp, subst takeWhile_append2) auto
  then show ?thesis by (simp add: path_split_def path_of_def Let_def)
qed

lemma clean_parent: "\<forall>c \<in> set cs. comp_ok c \<Longrightarrow> path_clean (dirs (cs @ [[]])) = path_of cs"
proof -
  assume ok: "\<forall>c \<in> set cs. comp_ok c"
  then have "filter (\<lambda>c. c \<noteq> []) (cs @ [[]]) = cs" by (simp add: filter_comps)
  with ok clean_dirs[of "cs @ [[]]"] show ?thesis by auto
qed

lemma join_parent:
  assumes "\<forall>c \<in> set cs. comp_ok c" "comp_ok f"
  shows "path_join [dirs (cs @ [[]]), f] = path_of (cs @ [f])"
proof -
  have "filter (\<lambda>c. c \<noteq> []) (cs @ [[], f]) = cs @ [f]"
    using assms by (simp add: filter_comps comp_okD)
  moreover have "dirs (cs @ [[]]) @ ''/'' @ f = dirs (cs @ [[], f])" by simp
  ultimately show ?thesis
    using assms clean_dirs[of "cs @ [[], f]"] by (simp add: path_join_def comp_okD)
qed

lemma join_path_of:
  assumes "\<forall>c \<in> set cs. comp_ok c" "comp_ok f"
  shows "path_join [path_of cs, f] = path_of (cs @ [f])"
proof (cases "cs = []")
  case True
  with join_parent[of "[]" f] assms show ?thesis by (simp add: path_of_def)
next
  case False
  have "filter (\<lambda>c. c \<noteq> []) (cs @ [f]) = cs @ [f]"
    using assms by (simp add: filter_comps comp_okD)
  moreover have "dirs cs @ ''/'' @ f = dirs (cs @ [f])" by simp
  moreover have "dirs cs \<noteq> []" using False by (cases cs) auto
  ultimately show ?thesis
    using assms False clean_dirs[of "cs @ [f]"] by (simp add: path_join_def path_of_def comp_okD)
qed

lemma join_path_of2:
  assumes "\<forall>c \<in> set cs. comp_ok c" "comp_ok d" "comp_ok f"
  shows "path_join [path_of cs, d, f] = path_of (cs @ [d, f])"
proof -
  have ne: "d \<noteq> []" "f \<noteq> []" "path_of cs \<noteq> []"
    using assms comp_okD(2) by (auto simp: path_of_def) (cases cs; simp)
  have eq: "path_of cs @ ''/'' @ d @ ''/'' @ f = dirs (if cs = [] then [[], d, f] else cs @ [d, f])"
    by (simp add: path_of_def)
  have ok: "\<forall>c \<in> set (if cs = [] then [[], d, f] else cs @ [d, f]). c = [] \<or> comp_ok c" using assms by auto
  have fl: "filter (\<lambda>c. c \<noteq> []) (if cs = [] then [[], d, f] else cs @ [d, f]) = cs @ [d, f]"
    using assms ne by (simp add: filter_comps)
  have "path_join [path_of cs, d, f] = path_clean (path_of cs @ ''/'' @ d @ ''/'' @ f)"
    using ne by (simp add: path_join_def)
  also have "\<dots> = path_of (cs @ [d, f])"
    unfolding eq by (subst clean_dirs[OF _ ok]) (simp_all add: fl)
  finally show ?thesis .
qed

lemma path_of_inj:
  assumes "\<forall>c \<in> set cs. comp_ok c" "\<forall>c \<in> set ds. comp_ok c" "path_of cs = path_of ds"
  shows "cs = ds"
proof -
  have sp: "split_on (CHR ''/'') (path_of xs) = (if xs = [] then [[], []] else [] # xs)"
    if "\<forall>c \<in> set xs. comp_ok c" for xs
    using that split_dirs[of xs] by (simp add: path_of_def comp_okD)
  have "[] \<notin> set cs" "[] \<notin> set ds" using assms(1,2) comp_okD(2) by blast+
  moreover have "(if cs = [] then [[], []] else [] # cs) = (if ds = [] then [[], []] else [] # ds)"
    using sp[OF assms(1)] sp[OF assms(2)] assms(3) by metis
  ultimately show ?thesis by (auto split: if_splits)
qed

lemma path_of_eq_root: "\<forall>c \<in> set cs. comp_ok c \<Longrightarrow> path_of cs = ''/'' \<longleftrightarrow> cs = []"
proof
  assume "\<forall>c \<in> set cs. comp_ok c" "path_of cs = ''/''"
  then show "cs = []" using path_of_inj[of cs "[]"] by (metis path_of_def empty_iff empty_set)
qed (simp add: path_of_def)

text \<open>A path below another, as texts and as components.\<close>

lemma split_dirs_append:
  "\<forall>c \<in> set cs. CHR ''/'' \<notin> set c \<Longrightarrow>
     split_on (CHR ''/'') (dirs cs @ CHR ''/'' # rest) = [] # cs @ split_on (CHR ''/'') rest"
proof (induction cs)
  case Nil
  then show ?case by simp
next
  case (Cons c cs)
  then have "split_on (CHR ''/'') (dirs (cs) @ CHR ''/'' # rest) = [] # cs @ split_on (CHR ''/'') rest"
    by simp
  moreover have "split_on (CHR ''/'') (c @ CHR ''/'' # t) = c # split_on (CHR ''/'') t" for t
    using Cons.prems by (simp add: split_on_append)
  ultimately show ?case by (cases cs) auto
qed

lemma has_prefix_dirs:
  assumes "\<forall>c \<in> set cs. comp_ok c" "\<forall>c \<in> set es. comp_ok c" "has_prefix (dirs es) (dirs cs @ ''/'')"
  shows "\<exists>t. es = cs @ t \<and> t \<noteq> []"
proof -
  from assms(3) obtain rest where eq: "dirs es = dirs cs @ CHR ''/'' # rest"
    by (metis append.assoc append_Cons append_Nil append_take_drop_id has_prefix_def)
  have "[] # es = [] # cs @ split_on (CHR ''/'') rest"
    using split_dirs[of es] split_dirs_append[of cs rest] assms(1,2) comp_okD(1) eq by metis
  then show ?thesis by auto
qed

section \<open>Relative paths\<close>

lemma split_on_no_sep: "w \<in> set (split_on c s) \<Longrightarrow> c \<notin> set w"
  by (induction s arbitrary: w) (auto split: if_splits list.splits)

lemma clean_parts_set: "set (clean_parts b acc cs) \<subseteq> set acc \<union> {''..''} \<union> (set cs - {[]})"
  by (induction b acc cs rule: clean_parts.induct) (auto split: list.splits if_splits)

lemma join_with_start:
  "\<forall>w \<in> set ws. w \<noteq> [] \<and> CHR ''/'' \<notin> set w \<Longrightarrow> \<not> has_prefix (join_with ''/'' ws) ''/''"
proof (induction "''/''" ws rule: join_with.induct)
  case 1
  then show ?case by (simp add: has_prefix_def)
next
  case (2 w)
  then show ?case by (cases w) (auto simp: has_prefix_def)
next
  case (3 w v ws)
  then show ?case by (cases w) (auto simp: has_prefix_def)
qed

lemma clean_rooted: "has_prefix (path_clean p) ''/'' \<Longrightarrow> has_prefix p ''/''"
proof (rule ccontr)
  assume h: "has_prefix (path_clean p) ''/''" and n: "\<not> has_prefix p ''/''"
  let ?ws = "clean_parts False [] (split_on (CHR ''/'') p)"
  have "\<forall>w \<in> set ?ws. w \<noteq> [] \<and> CHR ''/'' \<notin> set w"
    using clean_parts_set[of False "[]" "split_on (CHR ''/'') p"] split_on_no_sep by fastforce
  from join_with_start[OF this] h n show False
    by (auto simp: path_clean_def Let_def has_prefix_def split: if_splits)
qed

lemma split_rooted: "has_prefix (fst (path_split p)) ''/'' \<Longrightarrow> has_prefix p ''/''"
  by (cases p) (auto simp: path_split_def has_prefix_def Let_def take_Cons' split: if_splits)

end
