(* ===== verification/Derive.thy ===== *)
theory Derive
  imports Json
begin

text \<open>
  Configuration values of applications (\<open>src/core/installer/schema.go\<close>, \<open>derived.go\<close>, and
  \<open>CreateNetworks\<close> of \<open>app_manager.go\<close>): the schema of an application's input, how the values a
  user gives become the input of the application, and how they are recovered from a stored input.

  Go's dynamic types matter here (a \<open>[]any\<close> is not a \<open>[]string\<close>, a \<open>Network\<close> is not a map), so
  values are a datatype with one constructor per dynamic type. How a CUE value is classified is
  the CUE library's; schemas are given.
\<close>

section \<open>Schemas\<close>

datatype Kind =
    KindBoolean | KindInt | KindString | KindStruct | KindNetwork | KindAuth | KindSSHKey
  | KindNumber | KindArrayString

datatype Schema =
    basicSchema string Kind bool
  | structSchema string "(string \<times> Schema) list" bool

fun schemaKind :: "Schema \<Rightarrow> Kind" where
  "schemaKind (basicSchema n k a) = k"
| "schemaKind (structSchema n fs a) = KindStruct"

fun schemaFields :: "Schema \<Rightarrow> (string \<times> Schema) list" where
  "schemaFields (basicSchema n k a) = []"
| "schemaFields (structSchema n fs a) = fs"

definition AuthSchema :: Schema where
  "AuthSchema = structSchema ''Auth''
     [(''enabled'', basicSchema ''Enabled'' KindBoolean False),
      (''groups'', basicSchema ''Groups'' KindString False)] False"

definition SSHKeySchema :: Schema where
  "SSHKeySchema = structSchema ''SSH Key''
     [(''public'', basicSchema ''Public Key'' KindString False),
      (''private'', basicSchema ''Private Key'' KindString False)] True"

text \<open>
  \<open>NewCueSchema\<close> on what it reads of a CUE value: the \<open>name\<close> attribute, the kind, whether the value
  is subsumed by one of the three known structures, and its fields.
\<close>

datatype cue_kind = StringKind | BoolKind | NumberKind | IntKind | ListKind | StructKind | OtherKind

datatype cue_value = Cue "string option" cue_kind bool bool bool "(string \<times> cue_value) list"

fun NewCueSchema :: "string \<Rightarrow> cue_value \<Rightarrow> (string, Schema) result"
  and new_fields :: "(string \<times> cue_value) list \<Rightarrow> (string, (string \<times> Schema) list) result" where
  "NewCueSchema name (Cue attr kind isNetwork isAuth isSSHKey fs) =
     (let name' = (case attr of None \<Rightarrow> name | Some a \<Rightarrow> a) in
      case kind of
        StringKind \<Rightarrow> Inr (basicSchema name' KindString False)
      | BoolKind \<Rightarrow> Inr (basicSchema name' KindBoolean False)
      | NumberKind \<Rightarrow> Inr (basicSchema name' KindNumber False)
      | IntKind \<Rightarrow> Inr (basicSchema name' KindInt False)
      | ListKind \<Rightarrow> Inr (basicSchema name' KindArrayString False)
      | StructKind \<Rightarrow>
          if isNetwork then Inr (basicSchema name' KindNetwork False)
          else if isAuth then Inr (basicSchema name' KindAuth False)
          else if isSSHKey then Inr (basicSchema name' KindSSHKey True)
          else bindE (new_fields fs) (\<lambda>sfs. Inr (structSchema name' sfs False))
      | OtherKind \<Rightarrow> Inl ''SHOULD NOT REACH!'')"
| "new_fields [] = Inr []"
| "new_fields ((sel, v) # fs) =
     bindE (NewCueSchema sel v) (\<lambda>s. bindE (new_fields fs) (\<lambda>r. Inr ((sel, s) # r)))"

section \<open>Networks and values\<close>

record Network =
  Name :: string
  IngressClass :: string
  CertificateIssuer :: string
  netDomain :: string
  AllocatePortAddr :: string

definition findNetwork :: "Network list \<Rightarrow> string \<Rightarrow> (string, Network) result" where
  "findNetwork networks name =
     (case find (\<lambda>n. Name n = name) networks of
        None \<Rightarrow> Inl (''Network not found: '' @ name)
      | Some n \<Rightarrow> Inr n)"

definition CreateNetworks :: "string \<Rightarrow> string \<Rightarrow> string \<Rightarrow> string \<Rightarrow> Network list" where
  "CreateNetworks envId infraName domain privateDomain =
     [\<lparr>Name = ''Public'', IngressClass = infraName @ ''-ingress-public'',
       CertificateIssuer = envId @ ''-public'', netDomain = domain,
       AllocatePortAddr = ''http://port-allocator.'' @ infraName @ ''-ingress-public.svc.cluster.local/api/allocate''\<rparr>,
      \<lparr>Name = ''Private'', IngressClass = envId @ ''-ingress-private'', CertificateIssuer = [],
       netDomain = privateDomain,
       AllocatePortAddr = ''http://port-allocator.'' @ envId @ ''-ingress-private.svc.cluster.local/api/allocate''\<rparr>]"

datatype goval =
    GNil
  | GBool bool
  | GNum int
  | GReal string
  | GStr string
  | GAnys "goval list"
  | GStrings "string list"
  | GMap "(string \<times> goval) list"
  | GStrMap "(string \<times> string) list"
  | GNetwork Network

text \<open>Printing a value as JSON and reading it back into \<open>any\<close>.\<close>

definition network_json :: "Network \<Rightarrow> json" where
  "network_json n = JObj (omitempty ''allocatePortAddr'' (AllocatePortAddr n)
     @ omitempty ''certificateIssuer'' (CertificateIssuer n) @ omitempty ''domain'' (netDomain n)
     @ omitempty ''ingressClass'' (IngressClass n) @ omitempty ''name'' (Name n))"

fun to_json :: "goval \<Rightarrow> json" where
  "to_json GNil = JNull"
| "to_json (GBool b) = JBool b"
| "to_json (GNum i) = JNum i"
| "to_json (GReal s) = JReal s"
| "to_json (GStr s) = JStr s"
| "to_json (GAnys vs) = JArr (map to_json vs)"
| "to_json (GStrings ss) = JArr (map JStr ss)"
| "to_json (GMap kvs) = JObj (map (\<lambda>(k, v). (k, to_json v)) kvs)"
| "to_json (GStrMap kvs) = JObj (map (\<lambda>(k, v). (k, JStr v)) kvs)"
| "to_json (GNetwork n) = network_json n"

fun from_json :: "json \<Rightarrow> goval" where
  "from_json JNull = GNil"
| "from_json (JBool b) = GBool b"
| "from_json (JNum i) = GNum i"
| "from_json (JReal s) = GReal s"
| "from_json (JStr s) = GStr s"
| "from_json (JArr vs) = GAnys (map from_json vs)"
| "from_json (JObj kvs) = GMap (map (\<lambda>(k, v). (k, from_json v)) kvs)"

definition reload :: "goval \<Rightarrow> goval" where
  "reload v = from_json (to_json v)"

section \<open>deriveValues\<close>

text \<open>A failed type assertion without \<open>ok\<close> panics.\<close>

datatype derive_error = DError string | DPanic

type_synonym keygen = "(string, string \<times> string) result"

text \<open>
  The recursion ends because a structure contains its fields and the two fixed structures, of
  authentication and of keys, contain only texts and booleans.
\<close>

fun schema_weight :: "Schema \<Rightarrow> nat" where
  "schema_weight (basicSchema n k a) = (if k = KindAuth \<or> k = KindSSHKey then 9 else 1)"
| "schema_weight (structSchema n fs a) = Suc (sum_list (map (\<lambda>(k, s). Suc (schema_weight s)) fs))"

definition fields_weight :: "(string \<times> Schema) list \<Rightarrow> nat" where
  "fields_weight fs = sum_list (map (\<lambda>(k, s). Suc (schema_weight s)) fs)"

lemma fields_weight_simps [simp]:
  "fields_weight [] = 0" "fields_weight ((k, s) # fs) = Suc (schema_weight s) + fields_weight fs"
  by (simp_all add: fields_weight_def)

lemma fields_weight_kind:
  "schemaKind def = KindStruct \<Longrightarrow> fields_weight (schemaFields def) < schema_weight def"
  "schemaKind def = KindAuth \<Longrightarrow> fields_weight (schemaFields AuthSchema) < schema_weight def"
  "schemaKind def = KindSSHKey \<Longrightarrow> fields_weight (schemaFields SSHKeySchema) < schema_weight def"
  by (cases def; simp add: AuthSchema_def SSHKeySchema_def fields_weight_def)+

function derive_fields ::
    "keygen \<Rightarrow> Network list \<Rightarrow> goval \<Rightarrow> (string \<times> Schema) list \<Rightarrow> (string \<times> goval) list \<Rightarrow>
     (derive_error, (string \<times> goval) list) result"
  and derive_one :: "keygen \<Rightarrow> Network list \<Rightarrow> goval \<Rightarrow> Schema \<Rightarrow> (derive_error, goval) result" where
  "derive_fields K N vals [] ret = Inr ret"
| "derive_fields K N vals ((k, def) # fs) ret =
     (case vals of
        GMap m \<Rightarrow>
          (case map_of m k of
             None \<Rightarrow>
               if schemaKind def = KindSSHKey
               then (case K of
                       Inl e \<Rightarrow> Inl (DError e)
                     | Inr (pub, priv) \<Rightarrow>
                         derive_fields K N vals fs
                           (fields_put k (GStrMap [(''private'', priv), (''public'', pub)]) ret))
               else derive_fields K N vals fs ret
           | Some v \<Rightarrow>
               bindE (derive_one K N v def) (\<lambda>x. derive_fields K N vals fs (fields_put k x ret)))
      | _ \<Rightarrow> Inl DPanic)"
| "derive_one K N v def =
     (case schemaKind def of
        KindBoolean \<Rightarrow> Inr v
      | KindString \<Rightarrow> Inr v
      | KindInt \<Rightarrow> Inr v
      | KindArrayString \<Rightarrow>
          (case v of GStrings a \<Rightarrow> Inr (GStrings a) | _ \<Rightarrow> Inl (DError ''expected string array''))
      | KindNetwork \<Rightarrow>
          (case v of
             GStr name \<Rightarrow>
               (case findNetwork N name of Inl e \<Rightarrow> Inl (DError e) | Inr n \<Rightarrow> Inr (GNetwork n))
           | _ \<Rightarrow> Inl DPanic)
      | KindAuth \<Rightarrow> bindE (derive_fields K N v (schemaFields AuthSchema) []) (\<lambda>r. Inr (GMap r))
      | KindSSHKey \<Rightarrow> bindE (derive_fields K N v (schemaFields SSHKeySchema) []) (\<lambda>r. Inr (GMap r))
      | KindStruct \<Rightarrow> bindE (derive_fields K N v (schemaFields def) []) (\<lambda>r. Inr (GMap r))
      | KindNumber \<Rightarrow> Inl (DError ''Should not reach!''))"
  by pat_completeness auto
termination
  by (relation "measure (\<lambda>x. case x of Inl (K, N, v, fs, r) \<Rightarrow> fields_weight fs
      | Inr (K, N, v, def) \<Rightarrow> schema_weight def)")
    (auto simp: fields_weight_kind)

declare derive_one.simps [simp del]

definition deriveValues ::
    "keygen \<Rightarrow> goval \<Rightarrow> Schema \<Rightarrow> Network list \<Rightarrow> (derive_error, (string \<times> goval) list) result" where
  "deriveValues K vals schema networks = derive_fields K networks vals (schemaFields schema) []"

section \<open>derivedToConfig\<close>

function config_fields ::
    "(string \<times> goval) list \<Rightarrow> (string \<times> Schema) list \<Rightarrow> (string \<times> goval) list \<Rightarrow>
     (string, (string \<times> goval) list) result"
  and config_one :: "goval \<Rightarrow> Schema \<Rightarrow> (string, goval) result" where
  "config_fields derived [] ret = Inr ret"
| "config_fields derived ((k, def) # fs) ret =
     (case map_of derived k of
        None \<Rightarrow> config_fields derived fs ret
      | Some v \<Rightarrow> bindE (config_one v def) (\<lambda>x. config_fields derived fs (fields_put k x ret)))"
| "config_one v def =
     (case schemaKind def of
        KindBoolean \<Rightarrow> Inr v
      | KindString \<Rightarrow> Inr v
      | KindInt \<Rightarrow> Inr v
      | KindArrayString \<Rightarrow>
          (case v of GStrings a \<Rightarrow> Inr (GStrings a) | _ \<Rightarrow> Inl ''expected string array'')
      | KindNetwork \<Rightarrow>
          (case v of
             GMap vm \<Rightarrow>
               (case map_of vm ''name'' of None \<Rightarrow> Inl ''expected network name'' | Some name \<Rightarrow> Inr name)
           | _ \<Rightarrow> Inl ''expected map'')
      | KindAuth \<Rightarrow>
          (case v of
             GMap vm \<Rightarrow> bindE (config_fields vm (schemaFields AuthSchema) []) (\<lambda>r. Inr (GMap r))
           | _ \<Rightarrow> Inl ''expected map'')
      | KindSSHKey \<Rightarrow>
          (case v of
             GMap vm \<Rightarrow> bindE (config_fields vm (schemaFields SSHKeySchema) []) (\<lambda>r. Inr (GMap r))
           | _ \<Rightarrow> Inl ''expected map'')
      | KindStruct \<Rightarrow>
          (case v of
             GMap vm \<Rightarrow> bindE (config_fields vm (schemaFields def) []) (\<lambda>r. Inr (GMap r))
           | _ \<Rightarrow> Inl ''expected map'')
      | KindNumber \<Rightarrow> Inl ''Should not reach!'')"
  by pat_completeness auto
termination
  by (relation "measure (\<lambda>x. case x of Inl (d, fs, r) \<Rightarrow> fields_weight fs
      | Inr (v, def) \<Rightarrow> schema_weight def)")
    (auto simp: fields_weight_kind)

declare config_one.simps [simp del]

definition derivedToConfig :: "(string \<times> goval) list \<Rightarrow> Schema \<Rightarrow> (string, (string \<times> goval) list) result" where
  "derivedToConfig derived schema = config_fields derived (schemaFields schema) []"

text \<open>\<open>InputToValues\<close> panics on an error: \<open>None\<close>.\<close>

definition InputToValues :: "(string \<times> goval) list \<Rightarrow> Schema \<Rightarrow> (string \<times> goval) list option" where
  "InputToValues inp schema =
     (case derivedToConfig inp schema of Inl _ \<Rightarrow> None | Inr r \<Rightarrow> Some r)"

section \<open>Values that conform to a schema\<close>

text \<open>
  Complete values: of the kind each field asks for, with no field outside the schema and every key
  pair given. Numbers that are not integers and string lists have no conforming value.
\<close>

definition fields_of_kind :: "Schema \<Rightarrow> (string \<times> Schema) list" where
  "fields_of_kind def =
     (case schemaKind def of
        KindAuth \<Rightarrow> schemaFields AuthSchema
      | KindSSHKey \<Rightarrow> schemaFields SSHKeySchema
      | _ \<Rightarrow> schemaFields def)"

fun conforms :: "Network list \<Rightarrow> Schema \<Rightarrow> goval \<Rightarrow> bool" where
  "conforms N def (GBool b) = (schemaKind def = KindBoolean)"
| "conforms N def (GNum i) = (schemaKind def = KindInt)"
| "conforms N def (GStr s) =
     (schemaKind def = KindString \<or> schemaKind def = KindNetwork \<and> s \<noteq> [] \<and> s \<in> Name ` set N)"
| "conforms N def (GMap kvs) =
     (schemaKind def \<in> {KindAuth, KindSSHKey, KindStruct}
      \<and> distinct (map fst (fields_of_kind def)) \<and> sorted_wrt (<) (map fst kvs)
      \<and> list_all (\<lambda>(k, v). case map_of (fields_of_kind def) k of
           None \<Rightarrow> False | Some d \<Rightarrow> conforms N d v) kvs
      \<and> list_all (\<lambda>(k, d). schemaKind d = KindSSHKey \<longrightarrow> k \<in> fst ` set kvs) (fields_of_kind def))"
| "conforms N def _ = False"

section \<open>Sorted association lists\<close>

lemma sorted_assoc_unique:
  fixes xs ys :: "('a::linorder \<times> 'b) list"
  assumes "sorted_wrt (<) (map fst xs)" "sorted_wrt (<) (map fst ys)" "map_of xs = map_of ys"
  shows "xs = ys"
proof -
  have d: "distinct (map fst xs)" "distinct (map fst ys)"
    using assms(1,2) strict_sorted_iff by blast+
  have "set xs = set ys" using d assms(3) by (metis map_of_inject_set)
  moreover have "sorted (map fst xs)" "sorted (map fst ys)"
    using assms(1,2) strict_sorted_iff by blast+
  ultimately show ?thesis using d by (intro map_sorted_distinct_set_unique) (auto simp: distinct_map)
qed

definition put_all :: "(string \<rightharpoonup> 'v) \<Rightarrow> (string \<times> 'd) list \<Rightarrow> (string \<times> 'v) list \<Rightarrow> (string \<times> 'v) list" where
  "put_all h fs acc =
     fold (\<lambda>(k, def) a. case h k of None \<Rightarrow> a | Some x \<Rightarrow> fields_put k x a) fs acc"

lemma map_of_put_all:
  "map_of (put_all h fs acc) k = (if k \<in> fst ` set fs \<and> h k \<noteq> None then h k else map_of acc k)"
proof (induction fs arbitrary: acc)
  case Nil
  then show ?case by (simp add: put_all_def)
next
  case (Cons f fs)
  obtain k' d where f: "f = (k', d)" by (cases f)
  have "put_all h (f # fs) acc = put_all h fs (case h k' of None \<Rightarrow> acc | Some x \<Rightarrow> fields_put k' x acc)"
    by (simp add: put_all_def f)
  with Cons.IH show ?case by (auto simp: f map_of_fields_put split: option.splits)
qed

lemma sorted_put_all:
  "sorted_wrt (<) (map fst acc) \<Longrightarrow> sorted_wrt (<) (map fst (put_all h fs acc))"
proof (induction fs arbitrary: acc)
  case Nil
  then show ?case by (simp add: put_all_def)
next
  case (Cons f fs)
  obtain k' d where f: "f = (k', d)" by (cases f)
  have "put_all h (f # fs) acc = put_all h fs (case h k' of None \<Rightarrow> acc | Some x \<Rightarrow> fields_put k' x acc)"
    by (simp add: put_all_def f)
  with Cons.IH Cons.prems show ?case by (simp add: sorted_fields_put split: option.split)
qed

section \<open>Both translations field by field\<close>

lemma derive_fields_put_all:
  assumes "\<And>k def. (k, def) \<in> set fs \<Longrightarrow>
    (case map_of m k of None \<Rightarrow> h k = None \<and> schemaKind def \<noteq> KindSSHKey
     | Some v \<Rightarrow> \<exists>x. h k = Some x \<and> derive_one K N v def = Inr x)"
  shows "derive_fields K N (GMap m) fs ret = Inr (put_all h fs ret)"
  using assms
proof (induction fs arbitrary: ret)
  case Nil
  then show ?case by (simp add: put_all_def)
next
  case (Cons f fs)
  obtain k d where f: "f = (k, d)" by (cases f)
  show ?case
  proof (cases "map_of m k")
    case None
    with Cons.prems[of k d] f have "h k = None" "schemaKind d \<noteq> KindSSHKey" by auto
    with Cons None f show ?thesis by (simp add: put_all_def)
  next
    case (Some v)
    with Cons.prems[of k d] f obtain x where "h k = Some x" "derive_one K N v d = Inr x" by auto
    with Cons Some f show ?thesis by (simp add: put_all_def)
  qed
qed

lemma config_fields_put_all:
  assumes "\<And>k def. (k, def) \<in> set fs \<Longrightarrow>
    (case map_of m k of None \<Rightarrow> h k = None | Some v \<Rightarrow> \<exists>x. h k = Some x \<and> config_one v def = Inr x)"
  shows "config_fields m fs ret = Inr (put_all h fs ret)"
  using assms
proof (induction fs arbitrary: ret)
  case Nil
  then show ?case by (simp add: put_all_def)
next
  case (Cons f fs)
  obtain k d where f: "f = (k, d)" by (cases f)
  show ?case
  proof (cases "map_of m k")
    case None
    with Cons.prems[of k d] f have "h k = None" by auto
    with Cons None f show ?thesis by (simp add: put_all_def)
  next
    case (Some v)
    with Cons.prems[of k d] f obtain x where "h k = Some x" "config_one v d = Inr x" by auto
    with Cons Some f show ?thesis by (simp add: put_all_def)
  qed
qed

lemma struct_kinds:
  assumes "schemaKind def \<in> {KindAuth, KindSSHKey, KindStruct}"
  shows "derive_one K N v def = bindE (derive_fields K N v (fields_of_kind def) []) (\<lambda>r. Inr (GMap r))"
    and "config_one (GMap vm) def = bindE (config_fields vm (fields_of_kind def) []) (\<lambda>r. Inr (GMap r))"
  using assms by (auto simp: derive_one.simps config_one.simps fields_of_kind_def)

lemma reload_map: "reload (GMap d) = GMap (map (\<lambda>(k, v). (k, reload v)) d)"
  by (simp add: reload_def comp_def case_prod_beta)

lemma map_of_reload: "map_of (map (\<lambda>(k, v). (k, reload v)) d) k = map_option reload (map_of d k)"
  by (simp add: map_of_map)

lemma findNetwork_name: "s \<in> Name ` set N \<Longrightarrow> \<exists>n. findNetwork N s = Inr n \<and> Name n = s"
proof -
  assume "s \<in> Name ` set N"
  then obtain n where "find (\<lambda>n. Name n = s) N = Some n"
    by (cases "find (\<lambda>n. Name n = s) N") (auto simp: find_None_iff)
  moreover from this have "Name n = s" by (auto simp: find_Some_iff)
  ultimately have "findNetwork N s = Inr n" "Name n = s" by (simp_all add: findNetwork_def)
  then show ?thesis by blast
qed

lemma network_name_reload:
  "Name n \<noteq> [] \<Longrightarrow> \<exists>vm. reload (GNetwork n) = GMap vm \<and> map_of vm ''name'' = Some (GStr (Name n))"
  by (simp add: reload_def network_json_def omitempty_def)

lemma derive_config_inverse:
  "conforms N def v \<Longrightarrow> \<exists>x. derive_one K N v def = Inr x \<and> config_one (reload x) def = Inr v"
proof (induction v arbitrary: def)
  case (GStr s)
  then show ?case
  proof (cases "schemaKind def = KindString")
    case True
    then show ?thesis by (simp add: derive_one.simps config_one.simps reload_def)
  next
    case False
    with GStr obtain n where "findNetwork N s = Inr n" "Name n = s" "s \<noteq> []" "schemaKind def = KindNetwork"
      using findNetwork_name by auto
    with network_name_reload[of n] show ?thesis by (auto simp: derive_one.simps config_one.simps)
  qed
next
  case (GMap kvs)
  let ?fs = "fields_of_kind def"
  define h where "h k = (case map_of kvs k of None \<Rightarrow> None
    | Some v \<Rightarrow> (case derive_one K N v (the (map_of ?fs k)) of Inl _ \<Rightarrow> None | Inr x \<Rightarrow> Some x))" for k
  define d where "d = put_all h ?fs []"
  from GMap.prems have kind: "schemaKind def \<in> {KindAuth, KindSSHKey, KindStruct}"
    and dist: "distinct (map fst ?fs)" and srt: "sorted_wrt (<) (map fst kvs)" by auto
  have each: "\<exists>def' x. map_of ?fs k = Some def' \<and> derive_one K N v def' = Inr x \<and> h k = Some x
      \<and> config_one (reload x) def' = Inr v" if "map_of kvs k = Some v" for k v
  proof -
    from that have m: "(k, v) \<in> set kvs" by (rule map_of_SomeD)
    with GMap.prems obtain def' where "map_of ?fs k = Some def'" "conforms N def' v"
      by (auto simp: list_all_iff split: option.splits)
    with GMap.IH[of "(k, v)" v def'] m that show ?thesis by (auto simp: h_def)
  qed
  have ssh: "map_of kvs k \<noteq> None" if "(k, def') \<in> set ?fs" "schemaKind def' = KindSSHKey" for k def'
    using GMap.prems that by (auto simp: list_all_iff map_of_eq_None_iff)
  have mo: "map_of ?fs k = Some def'" if "(k, def') \<in> set ?fs" for k def'
    using that dist by simp
  have "derive_fields K N (GMap kvs) ?fs [] = Inr d"
    unfolding d_def by (rule derive_fields_put_all)
      (use each ssh mo in \<open>fastforce simp: h_def split: option.splits\<close>)
  moreover have dk: "map_of d k = (if k \<in> fst ` set ?fs then h k else None)" for k
    by (auto simp: d_def map_of_put_all)
  have "config_fields (map (\<lambda>(k, v). (k, reload v)) d) ?fs [] = Inr (put_all (map_of kvs) ?fs [])"
  proof (rule config_fields_put_all)
    fix k def'
    assume m: "(k, def') \<in> set ?fs"
    then have "k \<in> fst ` set ?fs" by force
    then show "case map_of (map (\<lambda>(k, v). (k, reload v)) d) k of None \<Rightarrow> map_of kvs k = None
      | Some v \<Rightarrow> \<exists>x. map_of kvs k = Some x \<and> config_one v def' = Inr x"
      using each[of k] mo[OF m]
      by (cases "map_of kvs k") (auto simp: map_of_reload dk h_def)
  qed
  moreover have "put_all (map_of kvs) ?fs [] = kvs"
  proof (rule sorted_assoc_unique)
    have "map_of kvs k = None" if "k \<notin> fst ` set ?fs" for k
      using each[of k] that by (cases "map_of kvs k") (force dest: map_of_SomeD)+
    then show "map_of (put_all (map_of kvs) ?fs []) = map_of kvs"
      by (auto simp: map_of_put_all fun_eq_iff)
  qed (simp_all add: sorted_put_all srt)
  ultimately show ?case using kind by (simp add: struct_kinds reload_map)
qed (auto simp: derive_one.simps config_one.simps reload_def)

lemma derive_fields_present:
  "derive_fields K N (GMap m) fs ret = Inr d \<Longrightarrow> (k, def) \<in> set fs \<Longrightarrow> map_of m k = Some v
    \<Longrightarrow> \<exists>x. derive_one K N v def = Inr x"
proof (induction fs arbitrary: ret)
  case Nil
  then show ?case by simp
next
  case (Cons f fs)
  obtain k' d' where f: "f = (k', d')" by (cases f)
  show ?case
  proof (cases "f = (k, def)")
    case True
    with Cons.prems show ?thesis by (auto simp: bindE_eq_Inr)
  next
    case False
    with Cons.prems(2) have m: "(k, def) \<in> set fs" by auto
    from Cons.prems(1) f obtain ret' where "derive_fields K N (GMap m) fs ret' = Inr d"
      by (auto simp: bindE_eq_Inr split: option.splits if_splits sum.splits)
    with Cons.IH m Cons.prems(3) show ?thesis by blast
  qed
qed

lemma reload_not_strings: "reload v \<noteq> GStrings ss"
proof -
  have "from_json d \<noteq> GStrings ss" for d by (cases d) auto
  then show ?thesis by (simp add: reload_def)
qed

section \<open>Properties\<close>

text \<open>The values of an installed application can be recovered. Complete values that conform to the
  schema are accepted, and the input derived from them, stored as JSON and read back, yields
  exactly the same values.
\<close>
theorem stored_input_recovers_values:
  assumes "schemaKind schema = KindStruct" and "conforms N schema (GMap vals)"
  shows "\<exists>d. deriveValues K (GMap vals) schema N = Inr d
    \<and> InputToValues (map (\<lambda>(k, v). (k, reload v)) d) schema = Some vals"
proof -
  from derive_config_inverse[OF assms(2), of K] obtain x
    where x: "derive_one K N (GMap vals) schema = Inr x" "config_one (reload x) schema = Inr (GMap vals)"
    by blast
  have fs: "fields_of_kind schema = schemaFields schema" using assms(1) by (simp add: fields_of_kind_def)
  from x(1) obtain d where d: "derive_fields K N (GMap vals) (schemaFields schema) [] = Inr d" "x = GMap d"
    using assms(1) by (auto simp: struct_kinds fs bindE_eq_Inr)
  with x(2) show ?thesis
    using assms(1)
    by (auto simp: struct_kinds reload_map fs bindE_eq_Inr deriveValues_def InputToValues_def
        derivedToConfig_def)
qed

text \<open>A string list that went through JSON is never accepted. Values read from a request or a
  stored file hold \<open>[]any\<close>, so deriving any values with such a field present fails, whatever else
  they contain.
\<close>
theorem json_string_lists_are_rejected:
  assumes "(k, def) \<in> set (schemaFields schema)" and "schemaKind def = KindArrayString"
    and "reload values = GMap m" and "map_of m k = Some v"
  shows "\<not> is_ok (deriveValues K (reload values) schema N)"
proof
  assume "is_ok (deriveValues K (reload values) schema N)"
  then obtain d where "derive_fields K N (GMap m) (schemaFields schema) [] = Inr d"
    using assms(3) by (auto simp: deriveValues_def elim: is_okE)
  from derive_fields_present[OF this assms(1,4)] obtain x where x: "derive_one K N v def = Inr x" by blast
  from assms(3) obtain kvs where "to_json values = JObj kvs"
    unfolding reload_def by (cases "to_json values") auto
  with assms(3,4) obtain j where "v = from_json j"
    by (auto simp: reload_def map_of_map dest!: map_of_SomeD)
  then have "v \<noteq> GStrings ss" for ss by (cases j) auto
  moreover obtain ss where "v = GStrings ss"
    using x assms(2) by (auto simp: derive_one.simps split: goval.splits)
  ultimately show False by blast
qed

subsection \<open>A concrete schema\<close>

definition example_schema :: Schema where
  "example_schema = structSchema ''input''
     [(''network'', basicSchema ''network'' KindNetwork False),
      (''auth'', basicSchema ''auth'' KindAuth False),
      (''hosts'', basicSchema ''hosts'' KindArrayString False)] False"

definition example_values :: "(string \<times> goval) list" where
  "example_values = [(''auth'', GMap [(''enabled'', GBool True), (''groups'', GStr ''admin'')]),
     (''network'', GStr ''Public'')]"

theorem stored_input_recovers_values_witness:
  "\<exists>d. deriveValues (Inl []) (GMap example_values) example_schema
        (CreateNetworks ''e'' ''infra'' ''e.com'' ''p.e.com'') = Inr d
    \<and> InputToValues (map (\<lambda>(k, v). (k, reload v)) d) example_schema = Some example_values"
  by (rule stored_input_recovers_values)
    (simp_all add: example_schema_def example_values_def fields_of_kind_def AuthSchema_def
      CreateNetworks_def)

theorem json_string_lists_are_rejected_witness:
  "\<not> is_ok (deriveValues (Inl []) (reload (GMap [(''hosts'', GStrings [''a''])])) example_schema [])"
  by (rule json_string_lists_are_rejected[where k = "''hosts''"
        and def = "basicSchema ''hosts'' KindArrayString False"
        and m = "[(''hosts'', GAnys [GStr ''a''])]" and v = "GAnys [GStr ''a'']"])
    (simp_all add: example_schema_def reload_def)

end
