(* ===== verification/EnvNetwork.thy ===== *)
theory EnvNetwork
  imports Prelude
begin

text \<open>
  Subnets of environments: \<open>findNextStartIP\<close> of \<open>src/core/installer/welcome/env.go\<close> picks the next
  \<open>/24\<close> subnet after the largest one in use, and \<open>NewEnvNetwork\<close> of
  \<open>src/core/installer/app.go\<close> derives an environment's addresses from its subnet. Addresses are lists
  of bytes, four or sixteen, and the bytes are machine words that wrap.
\<close>

type_synonym byte = "8 word"
type_synonym IP = "byte list"

section \<open>Parsing and comparing addresses\<close>

text \<open>
  \<open>netip.ParseAddr(ip.String())\<close>: an IPv4 address may be held in its sixteen-byte form; a slice of
  another length prints as a text that does not parse.
\<close>

definition v4_prefix :: IP where
  "v4_prefix = replicate 10 0 @ [255, 255]"

definition parse_ip :: "IP \<Rightarrow> (string, IP) result" where
  "parse_ip ip =
     (if length ip = 4 then Inr ip
      else if length ip = 16 then Inr (if take 12 ip = v4_prefix then drop 12 ip else ip)
      else Inl ''unable to parse IP'')"

fun bytes_less :: "IP \<Rightarrow> IP \<Rightarrow> bool" where
  "bytes_less (a # as) (b # bs) = (a < b \<or> a = b \<and> bytes_less as bs)"
| "bytes_less _ _ = False"

text \<open>\<open>Addr.Compare\<close> orders by length and then as a number.\<close>

definition addr_less :: "IP \<Rightarrow> IP \<Rightarrow> bool" where
  "addr_less a b \<longleftrightarrow> length a < length b \<or> length a = length b \<and> bytes_less a b"

section \<open>findNextStartIP\<close>

record EnvCIDR =
  cidrName :: string
  cidrIP :: IP

fun max_addr :: "EnvCIDR list \<Rightarrow> IP \<Rightarrow> (string, IP) result" where
  "max_addr [] m = Inr m"
| "max_addr (cidr # cidrs) m =
     bindE (parse_ip (cidrIP cidr)) (\<lambda>i. max_addr cidrs (if addr_less m i then i else m))"

text \<open>
  An IPv4 result is given by its four bytes. \<open>net.ParseIP\<close> returns the sixteen-byte form of the same
  address, which every reader (\<open>String\<close>, \<open>Equal\<close>, \<open>parse_ip\<close> above) treats alike.
\<close>

definition findNextStartIP :: "EnvCIDR list \<Rightarrow> (string, IP) result" where
  "findNextStartIP cidrs =
     bindE (max_addr cidrs [10, 0, 0, 0]) (\<lambda>m.
       let sl = m[2 := m ! 2 + 1];
           sl' = (if sl ! 2 = 255 then sl[2 := 0, 1 := sl ! 1 + 1] else sl)
       in if sl' ! 1 = 255 then Inl ''Can not allocate'' else Inr sl')"

section \<open>NewEnvNetwork\<close>

record EnvNetwork =
  netDNS :: IP
  netDNSInClusterIP :: IP
  netIngress :: IP
  netHeadscale :: IP
  netServicesFrom :: IP
  netServicesTo :: IP

text \<open>\<open>Addr.Next\<close>: the following address; the address after the last one is the zero value.\<close>

fun inc_bytes :: "IP \<Rightarrow> IP \<times> bool" where
  "inc_bytes [] = ([], True)"
| "inc_bytes (b # bs) =
     (let (bs', carry) = inc_bytes bs in if carry then ((b + 1) # bs', b = 255) else (b # bs', False))"

definition addr_next :: "IP \<Rightarrow> IP" where
  "addr_next a = (let (a', overflow) = inc_bytes a in if overflow then [] else a')"

definition NewEnvNetwork :: "IP \<Rightarrow> (string, EnvNetwork) result" where
  "NewEnvNetwork subnet =
     bindE (parse_ip subnet) (\<lambda>addr.
       if length addr \<noteq> 4 then Inl ''Expected IPv4''
       else
         (let dns = addr_next addr; ingress = addr_next dns; headscale = addr_next ingress in
          if addr ! 3 \<noteq> 0 then Inl ''Expected last byte to be zero''
          else
            (let servicesFrom = addr[3 := 10]; servicesTo = addr[3 := 254];
                 dnsInClusterIP = [10, 44, addr ! 1, addr ! 2]
             in Inr \<lparr>netDNS = dns, netDNSInClusterIP = dnsInClusterIP, netIngress = ingress,
                  netHeadscale = headscale, netServicesFrom = servicesFrom,
                  netServicesTo = servicesTo\<rparr>)))"

section \<open>Well-formed subnets\<close>

text \<open>The subnets the allocator hands out: \<open>10.b.c.0\<close> with \<open>b\<close> and \<open>c\<close> below 255.\<close>

fun subnet_ok :: "IP \<Rightarrow> bool" where
  "subnet_ok [a, b, c, d] = (a = 10 \<and> d = 0 \<and> b \<noteq> 255 \<and> c \<noteq> 255)"
| "subnet_ok _ = False"

definition cidrs_ok :: "EnvCIDR list \<Rightarrow> bool" where
  "cidrs_ok cidrs \<longleftrightarrow> list_all subnet_ok (map cidrIP cidrs) \<and> sorted_wrt addr_less (map cidrIP cidrs)"

lemma subnet_okE: "subnet_ok ip \<Longrightarrow> (\<And>b c. ip = [10, b, c, 0] \<Longrightarrow> b \<noteq> 255 \<Longrightarrow> c \<noteq> 255 \<Longrightarrow> P) \<Longrightarrow> P"
  by (cases ip rule: subnet_ok.cases) auto

lemma addr_less_irrefl: "\<not> addr_less a a"
proof -
  have "\<not> bytes_less a a" by (induction a) auto
  then show ?thesis by (simp add: addr_less_def)
qed

lemma addr_less_trans: "addr_less a b \<Longrightarrow> addr_less b c \<Longrightarrow> addr_less a c"
proof -
  have "bytes_less a b \<Longrightarrow> bytes_less b c \<Longrightarrow> bytes_less a c"
  proof (induction a b arbitrary: c rule: bytes_less.induct)
    case (1 a as b bs)
    then show ?case by (cases c) auto
  qed auto
  moreover assume "addr_less a b" "addr_less b c"
  ultimately show ?thesis by (auto simp: addr_less_def)
qed

lemma parse_subnet [simp]: "subnet_ok ip \<Longrightarrow> parse_ip ip = Inr ip"
  by (erule subnet_okE) (simp add: parse_ip_def)

lemma max_addr_spec:
  "list_all subnet_ok (map cidrIP cidrs) \<Longrightarrow> subnet_ok m \<Longrightarrow>
     \<exists>m'. max_addr cidrs m = Inr m' \<and> subnet_ok m' \<and> (m' = m \<or> addr_less m m' \<and> m' \<in> cidrIP ` set cidrs)
       \<and> (\<forall>c \<in> set cidrs. cidrIP c = m' \<or> addr_less (cidrIP c) m')"
proof (induction cidrs arbitrary: m)
  case Nil
  then show ?case by simp
next
  case (Cons c cidrs)
  let ?m = "if addr_less m (cidrIP c) then cidrIP c else m"
  have total: "addr_less a b \<or> a = b \<or> addr_less b a" if "subnet_ok a" "subnet_ok b" for a b
    using that by (auto elim!: subnet_okE simp: addr_less_def)
  from Cons.prems have c: "subnet_ok (cidrIP c)" by simp
  with Cons.prems have "subnet_ok ?m" by simp
  with Cons.IH[of ?m] Cons.prems obtain m' where m': "max_addr cidrs ?m = Inr m'" "subnet_ok m'"
    "m' = ?m \<or> addr_less ?m m' \<and> m' \<in> cidrIP ` set cidrs" "\<forall>c \<in> set cidrs. cidrIP c = m' \<or> addr_less (cidrIP c) m'" by auto
  have "cidrIP c = m' \<or> addr_less (cidrIP c) m'"
    "m' = m \<or> addr_less m m' \<and> m' \<in> cidrIP ` set (c # cidrs)"
    using m'(3) total[OF c Cons.prems(2)] addr_less_trans by (auto split: if_splits)
  with m' c show ?case by auto
qed

lemma byte_inc: "b \<noteq> 255 \<Longrightarrow> b < b + 1" for b :: byte
proof -
  assume "b \<noteq> 255"
  moreover have "unat b = unat (255 :: byte) \<longleftrightarrow> b = 255" by (simp add: word_unat_eq_iff)
  ultimately have "unat b \<noteq> 255" by simp
  moreover have "unat b < 256" using unsigned_less[of b] by simp
  ultimately show ?thesis by (simp add: word_less_nat_alt unat_word_ariths)
qed

text \<open>A free subnet after the largest one, unless that is \<open>10.254.254.0\<close>.\<close>

lemma next_subnet:
  assumes "cidrs_ok cidrs"
  shows "case findNextStartIP cidrs of
      Inr ip \<Rightarrow> subnet_ok ip \<and> (\<forall>c \<in> set cidrs. addr_less (cidrIP c) ip)
    | Inl e \<Rightarrow> e = ''Can not allocate'' \<and> [10, 254, 254, 0] \<in> cidrIP ` set cidrs"
proof -
  from assms have "list_all subnet_ok (map cidrIP cidrs)" by (simp add: cidrs_ok_def)
  then obtain m where m: "max_addr cidrs [10, 0, 0, 0] = Inr m" "subnet_ok m"
    "\<forall>c \<in> set cidrs. cidrIP c = m \<or> addr_less (cidrIP c) m"
    "m = [10, 0, 0, 0] \<or> m \<in> cidrIP ` set cidrs"
    using max_addr_spec[of cidrs "[10, 0, 0, 0]"] by auto
  from m(2) obtain b c where bc: "m = [10, b, c, 0]" "b \<noteq> 255" "c \<noteq> 255" by (rule subnet_okE)
  have after: "\<forall>x \<in> set cidrs. addr_less (cidrIP x) ip" if "addr_less m ip" for ip
    using m(3) that addr_less_trans by metis
  consider (full) "c + 1 = 255" "b + 1 = 255" | (carry) "c + 1 = 255" "b + 1 \<noteq> 255" | (plain) "c + 1 \<noteq> 255"
    by blast
  then show ?thesis
  proof cases
    case full
    then have "b = 255 - 1" "c = 255 - 1" by (simp_all only: eq_diff_eq)
    then have "b = 254" "c = 254" by simp_all
    with m full bc show ?thesis by (simp add: findNextStartIP_def Let_def)
  next
    case carry
    have "addr_less m [10, b + 1, 0, 0]" using bc byte_inc[OF bc(2)] by (simp add: addr_less_def)
    with m carry bc after show ?thesis by (simp add: findNextStartIP_def Let_def)
  next
    case plain
    have "addr_less m [10, b, c + 1, 0]" using bc byte_inc[OF bc(3)] by (simp add: addr_less_def)
    with m plain bc after show ?thesis by (simp add: findNextStartIP_def Let_def)
  qed
qed

lemma network_of_subnet:
  assumes "subnet_ok [10, b, c, 0]"
  shows "NewEnvNetwork [10, b, c, 0] = Inr \<lparr>netDNS = [10, b, c, 1], netDNSInClusterIP = [10, 44, b, c],
     netIngress = [10, b, c, 2], netHeadscale = [10, b, c, 3], netServicesFrom = [10, b, c, 10],
     netServicesTo = [10, b, c, 254]\<rparr>"
  using assms by (simp add: NewEnvNetwork_def addr_next_def Let_def)

section \<open>Properties\<close>

text \<open>Every address of an environment's network.\<close>

definition addresses :: "EnvNetwork \<Rightarrow> IP set" where
  "addresses n = {netDNS n, netIngress n, netHeadscale n, netServicesFrom n, netServicesTo n}"

lemma allocate_step:
  assumes "cidrs_ok cidrs" "findNextStartIP cidrs = Inr ip"
  shows "cidrs_ok (cidrs @ [\<lparr>cidrName = name, cidrIP = ip\<rparr>])"
  using next_subnet[OF assms(1)] assms by (auto simp: cidrs_ok_def sorted_wrt_append)

lemma cidrs_ok_distinct: "cidrs_ok cidrs \<Longrightarrow> distinct (map cidrIP cidrs)"
proof -
  have "sorted_wrt addr_less xs \<Longrightarrow> distinct xs" for xs
    by (induction xs) (auto simp: addr_less_irrefl)
  then show "cidrs_ok cidrs \<Longrightarrow> distinct (map cidrIP cidrs)" by (simp add: cidrs_ok_def)
qed

text \<open>When an allocation can fail. With a registry of allocated subnets the search succeeds and
  returns a subnet after all of them, or the last subnet \<open>10.254.254.0\<close> is already taken.
\<close>
theorem next_subnet_is_free:
  assumes "cidrs_ok cidrs"
  shows "(\<exists>ip. findNextStartIP cidrs = Inr ip \<and> subnet_ok ip \<and> ip \<notin> cidrIP ` set cidrs
      \<and> cidrs_ok (cidrs @ [\<lparr>cidrName = name, cidrIP = ip\<rparr>]))
    \<or> findNextStartIP cidrs = Inl ''Can not allocate'' \<and> [10, 254, 254, 0] \<in> cidrIP ` set cidrs"
proof (cases "findNextStartIP cidrs")
  case (Inl e)
  with next_subnet[OF assms] show ?thesis by simp
next
  case (Inr ip)
  with next_subnet[OF assms] have "subnet_ok ip" "\<forall>c \<in> set cidrs. addr_less (cidrIP c) ip" by simp_all
  moreover from this have "ip \<notin> cidrIP ` set cidrs" using addr_less_irrefl by auto
  ultimately show ?thesis using Inr allocate_step[OF assms Inr] by blast
qed

text \<open>Networks of environments. Every allocated subnet yields a network whose addresses lie in that
  subnet, and two different subnets share no address and have different in-cluster DNS addresses.
\<close>
theorem env_networks_are_disjoint:
  assumes "subnet_ok s" and "subnet_ok s'" and "s \<noteq> s'"
  shows "\<exists>n n'. NewEnvNetwork s = Inr n \<and> NewEnvNetwork s' = Inr n'
    \<and> (\<forall>a \<in> addresses n. take 3 a = take 3 s) \<and> addresses n \<inter> addresses n' = {}
    \<and> netDNSInClusterIP n \<noteq> netDNSInClusterIP n'"
proof -
  from assms(1) obtain b c where s: "s = [10, b, c, 0]" by (rule subnet_okE)
  from assms(2) obtain b' c' where s': "s' = [10, b', c', 0]" by (rule subnet_okE)
  from assms s s' have ne: "b \<noteq> b' \<or> c \<noteq> c'" by auto
  show ?thesis
    using network_of_subnet[of b c] network_of_subnet[of b' c'] assms(1,2) ne
    by (auto simp: s s' addresses_def)
qed

theorem next_subnet_is_free_witness:
  "findNextStartIP [\<lparr>cidrName = ''a'', cidrIP = [10, 0, 254, 0]\<rparr>] = Inr [10, 1, 0, 0]
    \<and> [10, 1, 0, 0] \<notin> cidrIP ` set [\<lparr>cidrName = ''a'', cidrIP = [10, 0, 254, 0]\<rparr>]"
proof -
  have "cidrs_ok [\<lparr>cidrName = ''a'', cidrIP = [10, 0, 254, 0]\<rparr>]" by (simp add: cidrs_ok_def)
  from next_subnet_is_free[OF this, of "[]"] show ?thesis
    by (simp add: findNextStartIP_def parse_ip_def addr_less_def Let_def)
qed

theorem env_networks_are_disjoint_witness:
  "\<exists>n n'. NewEnvNetwork [10, 0, 1, 0] = Inr n \<and> NewEnvNetwork [10, 0, 2, 0] = Inr n'
    \<and> (\<forall>a \<in> addresses n. take 3 a = take 3 [10, 0, 1, 0]) \<and> addresses n \<inter> addresses n' = {}
    \<and> netDNSInClusterIP n \<noteq> netDNSInClusterIP n'"
  by (rule env_networks_are_disjoint) simp_all

end
