(* ===== verification/AppManager.thy ===== *)
theory AppManager
  imports Repo Paths Derive EnvNetwork
begin

text \<open>
  Applications of an environment (\<open>src/core/installer/app.go\<close>, \<open>app_manager.go\<close>): rendering an
  application with its values, writing the result to the configuration repository, linking it into
  the chain of kustomizations Flux follows, and finding, updating and removing installed
  instances.

  Evaluation of CUE is third-party code: an application carries the function that evaluates its
  definition. A Go map that the code ranges over is a list here, in the order of the iteration.
\<close>

section \<open>Rendering\<close>

record PortForward =
  Allocator :: string
  pfProtocol :: string
  pfSourcePort :: int
  pfTargetService :: string
  pfTargetPort :: int

datatype HelpDocument = HelpDocument string string "HelpDocument list"

type_synonym CueAppData = "(string \<times> string) list"

record rendered =
  renName :: string
  renReadme :: string
  renResources :: CueAppData
  renPorts :: "PortForward list"
  renData :: CueAppData
  renURL :: string
  renHelp :: "HelpDocument list"
  renIcon :: string

definition empty_rendered :: rendered where
  "empty_rendered = \<lparr>renName = [], renReadme = [], renResources = [], renPorts = [], renData = [],
     renURL = [], renHelp = [], renIcon = []\<rparr>"

text \<open>
  What \<open>render\<close> looks up in the evaluated CUE value: texts, the ports, the fields of the output with
  their YAML, and the help documents if there are any; each lookup may fail.
\<close>

record cue_result =
  resErr :: "string option"
  resValidateErr :: "string option"
  resFull :: "(string, string) result"
  resReadme :: "(string, string) result"
  resPorts :: "(string, PortForward list) result"
  resOutput :: "(string, (string \<times> (string, string) result) list) result"
  resHelp :: "(string, HelpDocument list) result option"
  resUrl :: "(string, string) result"
  resIcon :: "(string, string) result"

record cueApp =
  appName :: string
  appDescription :: string
  appIcon :: string
  appNamespace :: string
  appSchema :: Schema
  appData :: CueAppData
  cueEval :: "(string \<times> goval) list \<Rightarrow> cue_result"

definition cleanName :: "string \<Rightarrow> string" where
  "cleanName s = replace_char (CHR 0x27) [] (replace_char (CHR 0x22) [] s)"

definition Slug :: "cueApp \<Rightarrow> string" where
  "Slug a = replace_char (CHR '' '') ''-'' (to_lower (appName a))"

text \<open>Assignment to a Go map that is later ranged over: the entry is replaced or new.\<close>

definition data_put :: "string \<Rightarrow> string \<Rightarrow> CueAppData \<Rightarrow> CueAppData" where
  "data_put k v m = (k, v) # filter (\<lambda>e. fst e \<noteq> k) m"

fun encode_output :: "(string \<times> (string, string) result) list \<Rightarrow> CueAppData \<Rightarrow> (string, CueAppData) result" where
  "encode_output [] m = Inr m"
| "encode_output ((sel, y) # fs) m =
     bindE y (\<lambda>contents. encode_output fs (data_put (cleanName sel @ ''.yaml'') contents m))"

definition render :: "cueApp \<Rightarrow> (string \<times> goval) list \<Rightarrow> (string, rendered) result" where
  "render a vals =
     (let res = cueEval a vals in
      case resErr res of
        Some e \<Rightarrow> Inl e
      | None \<Rightarrow>
          (case resValidateErr res of
             Some e \<Rightarrow> Inl e
           | None \<Rightarrow>
               bindE (resFull res) (\<lambda>full.
               bindE (resReadme res) (\<lambda>readme.
               bindE (resPorts res) (\<lambda>ports.
               bindE (resOutput res) (\<lambda>fields.
               bindE (encode_output fields []) (\<lambda>resources.
               bindE (case resHelp res of None \<Rightarrow> Inr [] | Some h \<Rightarrow> h) (\<lambda>help.
               bindE (resUrl res) (\<lambda>url.
               bindE (resIcon res) (\<lambda>icon.
                 Inr \<lparr>renName = Slug a, renReadme = readme, renResources = resources,
                   renPorts = ports, renData = data_put ''rendered.json'' full (appData a),
                   renURL = url, renHelp = help, renIcon = icon\<rparr>))))))))))"

section \<open>Environments, releases and instances\<close>

record EnvConfig =
  EnvId :: string
  InfraName :: string
  EnvDomain :: string
  PrivateDomain :: string
  ContactEmail :: string
  AdminPublicKey :: string
  PublicIP :: "IP list"
  NameserverIP :: "IP list"
  NamespacePrefix :: string
  EnvNet :: EnvNetwork

record Release =
  AppInstanceId :: string
  relNamespace :: string
  RepoAddr :: string
  AppDir :: string

record AppInstanceConfig =
  cfgId :: string
  cfgAppId :: string
  cfgEnv :: EnvConfig
  cfgRelease :: Release
  cfgValues :: "(string \<times> goval) list"
  cfgInput :: "(string \<times> goval) list"
  cfgURL :: string
  cfgHelp :: "HelpDocument list"
  cfgIcon :: string

definition zero_env :: EnvConfig where
  "zero_env = \<lparr>EnvId = [], InfraName = [], EnvDomain = [], PrivateDomain = [], ContactEmail = [],
     AdminPublicKey = [], PublicIP = [], NameserverIP = [], NamespacePrefix = [],
     EnvNet = \<lparr>netDNS = [], netDNSInClusterIP = [], netIngress = [], netHeadscale = [],
       netServicesFrom = [], netServicesTo = []\<rparr>\<rparr>"

definition zero_release :: Release where
  "zero_release = \<lparr>AppInstanceId = [], relNamespace = [], RepoAddr = [], AppDir = []\<rparr>"

definition zero_config :: AppInstanceConfig where
  "zero_config = \<lparr>cfgId = [], cfgAppId = [], cfgEnv = zero_env, cfgRelease = zero_release,
     cfgValues = [], cfgInput = [], cfgURL = [], cfgHelp = [], cfgIcon = []\<rparr>"

text \<open>
  \<open>Render\<close> of an environment application. The values passed to CUE are the environment, the release
  and the derived input; how the first two are printed is part of \<open>env_values\<close>. An error of
  \<open>deriveValues\<close> is answered with an empty result and no error.
\<close>

datatype 'e render_outcome = Rendered 'e | RenderError string | RenderPanic

definition Render ::
    "keygen \<Rightarrow> (EnvConfig \<Rightarrow> goval) \<Rightarrow> (Release \<Rightarrow> goval) \<Rightarrow> cueApp \<Rightarrow> Release \<Rightarrow> EnvConfig \<Rightarrow>
     (string \<times> goval) list \<Rightarrow> (rendered \<times> AppInstanceConfig) render_outcome" where
  "Render K envVal relVal a rel env vals =
     (let networks = CreateNetworks (EnvId env) (InfraName env) (EnvDomain env) (PrivateDomain env) in
      case deriveValues K (GMap vals) (appSchema a) networks of
        Inl DPanic \<Rightarrow> RenderPanic
      | Inl (DError e) \<Rightarrow> Rendered (empty_rendered, zero_config)
      | Inr derived \<Rightarrow>
          (case render a [(''global'', envVal env), (''input'', GMap derived), (''release'', relVal rel)] of
             Inl e \<Rightarrow> RenderError e
           | Inr ret \<Rightarrow>
               Rendered (ret, \<lparr>cfgId = [], cfgAppId = Slug a, cfgEnv = env, cfgRelease = rel,
                 cfgValues = vals, cfgInput = derived, cfgURL = renURL ret, cfgHelp = renHelp ret,
                 cfgIcon = renIcon ret\<rparr>)))"

section \<open>Writing an application\<close>

text \<open>
  \<open>createKustomizationChain\<close> walks from a directory up to the root; on a path that does not start
  with a slash it never reaches the root. Not returning is \<open>None\<close>.
\<close>

definition notExist :: string where
  "notExist = ''file does not exist''"

definition read_or_new :: "repoenv \<Rightarrow> string \<Rightarrow> repo \<Rightarrow> (string, Kustomization) result" where
  "read_or_new E kustPath r =
     (case ReadKustomization E kustPath r of
        Inr k \<Rightarrow> Inr k
      | Inl e \<Rightarrow> if e = notExist then Inr NewKustomization else Inl e)"

partial_function (option) kust_chain :: "repoenv \<Rightarrow> string \<Rightarrow> repo \<Rightarrow> (repo \<times> string option) option" where
  "kust_chain E p r =
     (if p = ''/'' then Some (r, None)
      else
        (let (parent, child) = path_split p; kustPath = path_join [parent, ''kustomization.yaml''] in
         case read_or_new E kustPath r of
           Inl e \<Rightarrow> Some (r, Some e)
         | Inr kust \<Rightarrow>
             (case WriteKustomization E kustPath (AddResources [child] kust) r of
                (r', Some e) \<Rightarrow> Some (r', Some e)
              | (r', None) \<Rightarrow> kust_chain E (path_clean parent) r')))"

definition createKustomizationChain :: "repoenv \<Rightarrow> string \<Rightarrow> repo \<Rightarrow> (repo \<times> string option) option" where
  "createKustomizationChain E path r = kust_chain E (path_clean path) r"

fun write_data :: "repoenv \<Rightarrow> string \<Rightarrow> CueAppData \<Rightarrow> repo \<Rightarrow> repo \<times> string option" where
  "write_data E dir [] r = (r, None)"
| "write_data E dir ((name, contents) # ds) r =
     (if name = ''config.json'' \<or> name = ''kustomization.yaml'' \<or> name = ''resources''
      then (r, Some (name @ '' is forbidden''))
      else (case repo_write E (path_join [dir, name]) contents r of
              (r', Some e) \<Rightarrow> (r', Some e)
            | (r', None) \<Rightarrow> write_data E dir ds r'))"

fun write_resources ::
    "repoenv \<Rightarrow> string \<Rightarrow> CueAppData \<Rightarrow> Kustomization \<Rightarrow> repo \<Rightarrow> repo \<times> (string, Kustomization) result" where
  "write_resources E dir [] k r = (r, Inr k)"
| "write_resources E dir ((name, contents) # rs) k r =
     andThen (repo_write E (path_join [dir, name]) contents r)
       (write_resources E dir rs (AddResources [name] k))"

text \<open>
  The function \<open>InstallApp\<close> passes to \<open>Do\<close>, with its last block, which links the resources, apart;
  the configuration is given as its two texts.
\<close>

definition link_resources ::
    "repoenv \<Rightarrow> string \<Rightarrow> CueAppData \<Rightarrow> repo \<Rightarrow> (repo \<times> (string, unit) result) option" where
  "link_resources E resourcesDir resources r5 =
     (case createKustomizationChain E resourcesDir r5 of
        None \<Rightarrow> None
      | Some (r6, Some e) \<Rightarrow> Some (r6, Inl e)
      | Some (r6, None) \<Rightarrow>
      Some (case write_resources E resourcesDir resources NewKustomization r6 of
        (r7, Inl e) \<Rightarrow> (r7, Inl e)
      | (r7, Inr appKust) \<Rightarrow>
          andThen (WriteKustomization E (path_join [resourcesDir, ''kustomization.yaml'']) appKust r7)
            (\<lambda>r8. (r8, Inr ()))))"

definition install_op ::
    "repoenv \<Rightarrow> string \<Rightarrow> string \<Rightarrow> string \<Rightarrow> string \<Rightarrow> CueAppData \<Rightarrow> CueAppData \<Rightarrow> repo \<Rightarrow>
     (repo \<times> (string, string) result) option" where
  "install_op E appDir name cfgYaml cfgJson resources data r =
     (let resourcesDir = path_join [appDir, ''resources''] in
      case RemoveDir E appDir r of
        (r1, Some e) \<Rightarrow> Some (r1, Inl e)
      | (r1, None) \<Rightarrow>
      (case CreateDir E resourcesDir r1 of
        (r2, Some e) \<Rightarrow> Some (r2, Inl e)
      | (r2, None) \<Rightarrow>
      (case repo_write E (path_join [appDir, ''config.yaml'']) cfgYaml r2 of
        (r3, Some e) \<Rightarrow> Some (r3, Inl e)
      | (r3, None) \<Rightarrow>
      (case repo_write E (path_join [appDir, ''config.json'']) cfgJson r3 of
        (r4, Some e) \<Rightarrow> Some (r4, Inl e)
      | (r4, None) \<Rightarrow>
      (case write_data E appDir data r4 of
        (r5, Some e) \<Rightarrow> Some (r5, Inl e)
      | (r5, None) \<Rightarrow>
      (case link_resources E resourcesDir resources r5 of
        None \<Rightarrow> None
      | Some (r8, Inl e) \<Rightarrow> Some (r8, Inl e)
      | Some (r8, Inr _) \<Rightarrow> Some (r8, Inr (''install: '' @ name))))))))"

text \<open>\<open>Do\<close> for an operation that may not return.\<close>

definition DoP ::
    "repoenv \<Rightarrow> bool \<Rightarrow> (repo \<Rightarrow> (repo \<times> (string, string) result) option) \<Rightarrow> repo \<Rightarrow>
     (repo \<times> string option) option" where
  "DoP E noCommit f r =
     (let r1 = fst (Pull E r) in
      case f r1 of
        None \<Rightarrow> None
      | Some res \<Rightarrow> Some (Do E noCommit (\<lambda>_. res) r))"

definition InstallApp ::
    "repoenv \<Rightarrow> bool \<Rightarrow> string \<Rightarrow> string \<Rightarrow> string \<Rightarrow> string \<Rightarrow> CueAppData \<Rightarrow> CueAppData \<Rightarrow> repo \<Rightarrow>
     (repo \<times> string option) option" where
  "InstallApp E noCommit appDir name cfgYaml cfgJson resources data r =
     DoP E noCommit (install_op E appDir name cfgYaml cfgJson resources data) r"

section \<open>The manager\<close>

record Resource =
  resName :: string
  resNamespace :: string

record world =
  wRepo :: repo
  wNamespaces :: "string list"
  wPortRequests :: "PortForward list"

record appenv =
  repoOf :: repoenv
  fullAddress :: string
  envParse :: "string \<Rightarrow> (string, EnvConfig) result"
  cfgYamlOf :: "AppInstanceConfig \<Rightarrow> string"
  cfgJsonOf :: "AppInstanceConfig \<Rightarrow> string"
  cfgParse :: "string \<Rightarrow> (string, AppInstanceConfig) result"
  envValue :: "EnvConfig \<Rightarrow> goval"
  relValue :: "Release \<Rightarrow> goval"
  keyGen :: keygen
  nsCreate :: "string \<Rightarrow> string option"
  postPort :: "PortForward \<Rightarrow> (string, nat) result"
  helmMeta :: "string \<Rightarrow> (string, Resource) result"

record AppManager =
  appDirRoot :: string

definition ErrorNotFound :: string where
  "ErrorNotFound = ''not found''"

definition mgr_Config :: "appenv \<Rightarrow> repo \<Rightarrow> (string, EnvConfig) result" where
  "mgr_Config A r = bindE (repo_Reader (repoOf A) ''config.yaml'' r)
     (\<lambda>x. case billyFault (repoOf A) BReadAll (tree_key ''config.yaml'') of
        Some e \<Rightarrow> Inl e | None \<Rightarrow> envParse A x)"

definition appConfig :: "appenv \<Rightarrow> string \<Rightarrow> repo \<Rightarrow> (string, AppInstanceConfig) result" where
  "appConfig A path r = bindE (repo_Reader (repoOf A) path r) (cfgParse A)"

definition mgr_AppConfig :: "appenv \<Rightarrow> AppManager \<Rightarrow> string \<Rightarrow> repo \<Rightarrow> (string, AppInstanceConfig) result" where
  "mgr_AppConfig A m name r =
     bindE (repo_Reader (repoOf A) (path_join [appDirRoot m, name, ''config.json'']) r) (cfgParse A)"

fun read_instances ::
    "appenv \<Rightarrow> AppManager \<Rightarrow> repo \<Rightarrow> string list \<Rightarrow> (string, AppInstanceConfig list) result" where
  "read_instances A m r [] = Inr []"
| "read_instances A m r (app # apps) =
     bindE (appConfig A (path_join [appDirRoot m, app, ''config.json'']) r) (\<lambda>cfg.
     bindE (read_instances A m r apps) (\<lambda>rest. Inr (cfg\<lparr>cfgId := app\<rparr> # rest)))"

definition FindAllInstances ::
    "appenv \<Rightarrow> AppManager \<Rightarrow> repo \<Rightarrow> repo \<times> (string, AppInstanceConfig list) result" where
  "FindAllInstances A m r =
     (let r1 = fst (Pull (repoOf A) r) in
      (r1, bindE (ReadKustomization (repoOf A) (path_join [appDirRoot m, ''kustomization.yaml'']) r1)
             (\<lambda>kust. read_instances A m r1 (Resources kust))))"

definition FindAllAppInstances ::
    "appenv \<Rightarrow> AppManager \<Rightarrow> string \<Rightarrow> repo \<Rightarrow> (string, AppInstanceConfig list) result" where
  "FindAllAppInstances A m name r =
     bindE (ReadKustomization (repoOf A) (path_join [appDirRoot m, ''kustomization.yaml'']) r) (\<lambda>kust.
     bindE (read_instances A m r (Resources kust)) (\<lambda>cfgs.
       Inr (filter (\<lambda>cfg. cfgAppId cfg = name) cfgs)))"

definition FindInstance :: "appenv \<Rightarrow> AppManager \<Rightarrow> string \<Rightarrow> repo \<Rightarrow> (string, AppInstanceConfig) result" where
  "FindInstance A m iid r =
     bindE (ReadKustomization (repoOf A) (path_join [appDirRoot m, ''kustomization.yaml'']) r) (\<lambda>kust.
       if iid \<in> set (Resources kust)
       then bindE (appConfig A (path_join [appDirRoot m, iid, ''config.json'']) r)
              (\<lambda>cfg. Inr (cfg\<lparr>cfgId := iid\<rparr>))
       else Inl ErrorNotFound)"

text \<open>Ports are requested one after the other until one fails; earlier ones stay open.\<close>

fun openPorts :: "appenv \<Rightarrow> PortForward list \<Rightarrow> PortForward list \<Rightarrow> PortForward list \<times> string option" where
  "openPorts A [] done = (done, None)"
| "openPorts A (p # ps) done =
     (case postPort A p of
        Inl e \<Rightarrow> (done @ [p], Some e)
      | Inr code \<Rightarrow>
          if code \<noteq> StatusOK
          then (done @ [p], Some (''Could not allocate port '' @ itoa (pfSourcePort p) @
                 '', status code: '' @ nat_digits code))
          else openPorts A ps (done @ [p]))"

fun extractHelm :: "appenv \<Rightarrow> CueAppData \<Rightarrow> Resource list option" where
  "extractHelm A [] = Some []"
| "extractHelm A ((n, contents) # rs) =
     (case helmMeta A contents of
        Inl _ \<Rightarrow> None
      | Inr h \<Rightarrow> (case extractHelm A rs of None \<Rightarrow> None | Some hs \<Rightarrow> Some (h # hs)))"

datatype install_result =
    Installed "Resource list"
  | InstallError string
  | InstallPanic
  | InstallDiverges

definition commit_app ::
    "appenv \<Rightarrow> bool \<Rightarrow> string \<Rightarrow> rendered \<Rightarrow> AppInstanceConfig \<Rightarrow> repo \<Rightarrow> (repo \<times> string option) option" where
  "commit_app A noCommit appDir ren cfg r =
     InstallApp (repoOf A) noCommit appDir (renName ren) (cfgYamlOf A cfg) (cfgJsonOf A cfg)
       (renResources ren) (renData ren) r"

definition Install ::
    "appenv \<Rightarrow> cueApp \<Rightarrow> string \<Rightarrow> string \<Rightarrow> string \<Rightarrow> (string \<times> goval) list \<Rightarrow> world \<Rightarrow> world \<times> install_result" where
  "Install A app instanceId appDir0 namespace vals w =
     (let appDir = path_clean appDir0; w1 = w\<lparr>wRepo := fst (Pull (repoOf A) (wRepo w))\<rparr> in
      case nsCreate A namespace of
        Some e \<Rightarrow> (w1, InstallError e)
      | None \<Rightarrow>
      (let w2 = w1\<lparr>wNamespaces := wNamespaces w1 @ [namespace]\<rparr> in
      case mgr_Config A (wRepo w2) of
        Inl e \<Rightarrow> (w2, InstallError e)
      | Inr env \<Rightarrow>
      (let rel = \<lparr>AppInstanceId = instanceId, relNamespace = namespace, RepoAddr = fullAddress A,
                  AppDir = appDir\<rparr> in
      case Render (keyGen A) (envValue A) (relValue A) app rel env vals of
        RenderPanic \<Rightarrow> (w2, InstallPanic)
      | RenderError e \<Rightarrow> (w2, InstallError e)
      | Rendered (ren, cfg) \<Rightarrow>
      (case commit_app A False appDir ren cfg (wRepo w2) of
        None \<Rightarrow> (w2, InstallDiverges)
      | Some (r', Some e) \<Rightarrow> (w2\<lparr>wRepo := r'\<rparr>, InstallError e)
      | Some (r', None) \<Rightarrow>
      (case openPorts A (renPorts ren) (wPortRequests w2) of
        (ps, Some e) \<Rightarrow> (w2\<lparr>wRepo := r', wPortRequests := ps\<rparr>, InstallError e)
      | (ps, None) \<Rightarrow>
          (w2\<lparr>wRepo := r', wPortRequests := ps\<rparr>,
           case extractHelm A (renResources ren) of None \<Rightarrow> InstallPanic | Some hs \<Rightarrow> Installed hs))))))"

definition Update ::
    "appenv \<Rightarrow> AppManager \<Rightarrow> cueApp \<Rightarrow> string \<Rightarrow> (string \<times> goval) list \<Rightarrow> bool \<Rightarrow> world \<Rightarrow> world \<times> install_result" where
  "Update A m app instanceId vals noCommit w =
     (let w1 = w\<lparr>wRepo := fst (Pull (repoOf A) (wRepo w))\<rparr>;
          instanceDir = path_join [appDirRoot m, instanceId] in
      case mgr_Config A (wRepo w1) of
        Inl e \<Rightarrow> (w1, InstallError e)
      | Inr env \<Rightarrow>
      (case appConfig A (path_join [instanceDir, ''config.json'']) (wRepo w1) of
        Inl e \<Rightarrow> (w1, InstallError e)
      | Inr config \<Rightarrow>
      (let rel = \<lparr>AppInstanceId = instanceId, relNamespace = relNamespace (cfgRelease config),
                  RepoAddr = fullAddress A, AppDir = instanceDir\<rparr> in
      case Render (keyGen A) (envValue A) (relValue A) app rel env vals of
        RenderPanic \<Rightarrow> (w1, InstallPanic)
      | RenderError e \<Rightarrow> (w1, InstallError e)
      | Rendered (ren, cfg) \<Rightarrow>
      (case commit_app A noCommit instanceDir ren cfg (wRepo w1) of
        None \<Rightarrow> (w1, InstallDiverges)
      | Some (r', Some e) \<Rightarrow> (w1\<lparr>wRepo := r'\<rparr>, InstallError e)
      | Some (r', None) \<Rightarrow> (w1\<lparr>wRepo := r'\<rparr>, Installed [])))))"

text \<open>\<open>Remove\<close> ignores the errors of removing the directory and of writing the kustomization.\<close>

definition remove_op :: "appenv \<Rightarrow> AppManager \<Rightarrow> string \<Rightarrow> string op" where
  "remove_op A m instanceId r =
     (let r1 = fst (RemoveDir (repoOf A) (path_join [appDirRoot m, instanceId]) r);
          kustPath = path_join [appDirRoot m, ''kustomization.yaml''] in
      case ReadKustomization (repoOf A) kustPath r1 of
        Inl e \<Rightarrow> (r1, Inl e)
      | Inr kust \<Rightarrow>
          (fst (WriteKustomization (repoOf A) kustPath (RemoveResources [instanceId] kust) r1),
           Inr (''uninstall: '' @ instanceId)))"

definition Remove :: "appenv \<Rightarrow> AppManager \<Rightarrow> string \<Rightarrow> repo \<Rightarrow> repo \<times> string option" where
  "Remove A m instanceId r = Do (repoOf A) False (remove_op A m instanceId) (fst (Pull (repoOf A) r))"

section \<open>The chain of kustomizations\<close>

definition kust_file :: "string list \<Rightarrow> string" where
  "kust_file cs = path_of (cs @ [''kustomization.yaml''])"

lemma comp_ok_kust [simp]: "comp_ok ''kustomization.yaml''"
  by (simp add: comp_ok_def)

lemma tree_key_path_of: "\<forall>c \<in> set cs. comp_ok c \<Longrightarrow> tree_key (path_of cs) = path_of cs"
proof -
  assume ok: "\<forall>c \<in> set cs. comp_ok c"
  show ?thesis
  proof (cases "cs = []")
    case True
    then show ?thesis using clean_dirs[of "[[], []]"] by (simp add: tree_key_def path_of_def)
  next
    case False
    then have "''/'' @ path_of cs = dirs ([] # cs)" by (simp add: path_of_def)
    then have "tree_key (path_of cs) = path_of (filter (\<lambda>c. c \<noteq> []) ([] # cs))"
      using clean_dirs[of "[] # cs"] ok by (simp add: tree_key_def)
    then show ?thesis using filter_comps[OF ok] by simp
  qed
qed

lemma tree_key_kust: "\<forall>c \<in> set cs. comp_ok c \<Longrightarrow> tree_key (kust_file cs) = kust_file cs"
  unfolding kust_file_def by (rule tree_key_path_of) simp

text \<open>The laws assumed of the YAML codec of kustomizations.\<close>

definition kust_codec :: "repoenv \<Rightarrow> bool" where
  "kust_codec E \<longleftrightarrow> (\<forall>k. kOfYaml E (yamlOfK E k) = Inr k)"

text \<open>The kustomization of a directory: what is stored, or a new one where there is none.\<close>

definition kust_at :: "repoenv \<Rightarrow> string list \<Rightarrow> repo \<Rightarrow> Kustomization option" where
  "kust_at E cs r =
     (case tree r (kust_file cs) of
        None \<Rightarrow> Some NewKustomization
      | Some x \<Rightarrow> (case kOfYaml E x of Inl _ \<Rightarrow> None | Inr k \<Rightarrow> Some k))"

lemma read_or_new_healthy:
  assumes "repo_healthy E" "\<forall>c \<in> set cs. comp_ok c" "kust_at E cs r = Some k"
  shows "read_or_new E (kust_file cs) r = Inr k"
  using assms
  by (auto simp: read_or_new_def ReadKustomization_def repo_Reader_def kust_at_def tree_key_kust
      notExist_def split: option.splits sum.splits)

lemma kust_chain_root: "kust_chain E ''/'' r = Some (r, None)"
  by (subst kust_chain.simps) simp

lemma kust_chain_step:
  assumes "repo_healthy E" "\<forall>c \<in> set cs. comp_ok c" "comp_ok c" "kust_at E cs r = Some k"
  shows "kust_chain E (path_of (cs @ [c])) r =
    kust_chain E (path_of cs)
      (r\<lparr>tree := (tree r)(kust_file cs \<mapsto> yamlOfK E (AddResources [c] k))\<rparr>)"
proof -
  have "path_of (cs @ [c]) \<noteq> ''/''" using assms path_of_eq_root[of "cs @ [c]"] by auto
  moreover have "path_split (path_of (cs @ [c])) = (dirs (cs @ [[]]), c)"
    by (rule split_path_of) (rule comp_okD(1)[OF assms(3)])
  moreover have "path_join [dirs (cs @ [[]]), ''kustomization.yaml''] = kust_file cs"
    unfolding kust_file_def by (rule join_parent[OF assms(2) comp_ok_kust])
  moreover have "path_clean (dirs (cs @ [[]])) = path_of cs" by (rule clean_parent[OF assms(2)])
  ultimately show ?thesis
    using read_or_new_healthy[OF assms(1,2,4)] assms(1)
    by (subst kust_chain.simps)
      (simp add: WriteKustomization_def tree_key_kust[OF assms(2)] del: dirs_simps(3))
qed

text \<open>
  The whole walk: it returns, every directory on the way lists the next component in addition to
  what it listed before, and no other file changes.
\<close>

lemma kust_file_inj:
  "\<forall>c \<in> set cs. comp_ok c \<Longrightarrow> \<forall>c \<in> set ds. comp_ok c \<Longrightarrow> kust_file cs = kust_file ds \<Longrightarrow> cs = ds"
  using path_of_inj[of "cs @ [''kustomization.yaml'']" "ds @ [''kustomization.yaml'']"]
  by (simp add: kust_file_def)

lemma chain_links:
  assumes E: "repo_healthy E" "kust_codec E" and ok: "\<forall>c \<in> set cs. comp_ok c"
    and parse: "\<forall>i < length cs. kust_at E (take i cs) r \<noteq> None"
  shows "\<exists>r'. kust_chain E (path_of cs) r = Some (r', None)
    \<and> (\<forall>i < length cs. \<exists>k. kust_at E (take i cs) r = Some k
         \<and> tree r' (kust_file (take i cs)) = Some (yamlOfK E (AddResources [cs ! i] k)))
    \<and> (\<forall>p. p \<notin> {kust_file (take i cs) | i. i < length cs} \<longrightarrow> tree r' p = tree r p)
    \<and> localCommits r' = localCommits r \<and> remoteCommits r' = remoteCommits r"
  using ok parse
proof (induction cs arbitrary: r rule: rev_induct)
  case Nil
  then show ?case by (simp add: path_of_def kust_chain_root)
next
  case (snoc c cs)
  then have oks: "\<forall>c \<in> set cs. comp_ok c" "comp_ok c" by auto
  from snoc.prems(2)[rule_format, of "length cs"] obtain k where k: "kust_at E cs r = Some k" by auto
  define r1 where "r1 = r\<lparr>tree := (tree r)(kust_file cs \<mapsto> yamlOfK E (AddResources [c] k))\<rparr>"
  have ne: "kust_file (take i cs) \<noteq> kust_file cs" if "i < length cs" for i
    using kust_file_inj[of "take i cs" cs] oks that by (metis in_set_takeD less_le_not_le length_take min_def nat_le_linear)
  have same: "kust_at E (take i cs) r1 = kust_at E (take i cs) r" if "i < length cs" for i
    using ne[OF that] by (simp add: kust_at_def r1_def)
  have "\<forall>i < length cs. kust_at E (take i cs) r1 \<noteq> None"
    using snoc.prems(2) same by (metis butlast_snoc less_Suc_eq length_append_singleton take_butlast)
  from snoc.IH[OF oks(1) this] obtain r' where
    r': "kust_chain E (path_of cs) r1 = Some (r', None)"
    "\<forall>i < length cs. \<exists>k. kust_at E (take i cs) r1 = Some k
         \<and> tree r' (kust_file (take i cs)) = Some (yamlOfK E (AddResources [cs ! i] k))"
    "\<forall>p. p \<notin> {kust_file (take i cs) | i. i < length cs} \<longrightarrow> tree r' p = tree r1 p"
    "localCommits r' = localCommits r1" "remoteCommits r' = remoteCommits r1" by blast
  have last: "tree r' (kust_file cs) = Some (yamlOfK E (AddResources [c] k))"
  proof -
    have "kust_file cs \<notin> {kust_file (take i cs) | i. i < length cs}" using ne by force
    with r'(3) show ?thesis by (simp add: r1_def)
  qed
  have "kust_chain E (path_of (cs @ [c])) r = Some (r', None)"
    using kust_chain_step[OF E(1) oks k] r'(1) by (simp add: r1_def)
  moreover have "\<exists>k. kust_at E (take i (cs @ [c])) r = Some k
      \<and> tree r' (kust_file (take i (cs @ [c]))) = Some (yamlOfK E (AddResources [(cs @ [c]) ! i] k))"
    if "i < length (cs @ [c])" for i
  proof (cases "i < length cs")
    case True
    with r'(2) same show ?thesis by (simp add: nth_append)
  next
    case False
    with that have "i = length cs" by simp
    with k last show ?thesis by simp
  qed
  moreover have "tree r' p = tree r p"
    if "p \<notin> {kust_file (take i (cs @ [c])) | i. i < length (cs @ [c])}" for p
  proof -
    have "kust_file cs \<in> {kust_file (take i (cs @ [c])) | i. i < length (cs @ [c])}"
      by (rule CollectI, rule exI[of _ "length cs"]) simp
    with that have "p \<noteq> kust_file cs" by blast
    moreover have "p \<notin> {kust_file (take i cs) | i. i < length cs}" using that by (force simp: less_Suc_eq)
    ultimately show ?thesis using r'(3) by (simp add: r1_def)
  qed
  ultimately show ?case using r'(4,5) by (auto simp: r1_def)
qed

lemma chain_rooted:
  assumes "kust_chain E p r = Some y" "repo_healthy E" "\<forall>x. is_ok (kOfYaml E x)"
  shows "has_prefix p ''/''"
proof -
  have "repo_healthy E \<and> (\<forall>x. is_ok (kOfYaml E x)) \<longrightarrow> has_prefix p ''/''"
  proof (rule kust_chain.raw_induct[OF _ assms(1)], intro impI)
    fix f E p r y
    assume IH: "\<And>E p r y. f E p r = Some y \<Longrightarrow>
        repo_healthy E \<and> (\<forall>x. is_ok (kOfYaml E x)) \<longrightarrow> has_prefix p ''/''"
      and body: "(if p = ''/'' then Some (r, None)
        else let (parent, child) = path_split p; kustPath = path_join [parent, ''kustomization.yaml'']
          in case read_or_new E kustPath r of Inl e \<Rightarrow> Some (r, Some e)
            | Inr kust \<Rightarrow> (case WriteKustomization E kustPath (AddResources [child] kust) r of
                (r', None) \<Rightarrow> f E (path_clean parent) r' | (r', Some e) \<Rightarrow> Some (r', Some e))) = Some y"
      and E: "repo_healthy E \<and> (\<forall>x. is_ok (kOfYaml E x))"
    obtain parent child where sp: "path_split p = (parent, child)" by (cases "path_split p")
    have "\<exists>k. read_or_new E q r = Inr k" for q
      using E by (auto simp: read_or_new_def ReadKustomization_def repo_Reader_def notExist_def
          is_ok_def split: option.splits sum.splits)
    then obtain k where "read_or_new E (path_join [parent, ''kustomization.yaml'']) r = Inr k" by blast
    with body sp E have "p = ''/'' \<or> (\<exists>r'. f E (path_clean parent) r' = Some y)"
      by (auto simp: WriteKustomization_def split: if_splits)
    then show "has_prefix p ''/''"
    proof
      assume "p = ''/''"
      then show ?thesis by (simp add: has_prefix_def)
    next
      assume "\<exists>r'. f E (path_clean parent) r' = Some y"
      with IH E have "has_prefix (path_clean parent) ''/''" by blast
      then have "has_prefix (fst (path_split p)) ''/''" using sp by (simp add: clean_rooted)
      then show ?thesis by (rule split_rooted)
    qed
  qed
  with assms(2,3) show ?thesis by blast
qed

section \<open>Installing\<close>

lemma under_path_of:
  assumes "\<forall>c \<in> set cs. comp_ok c" "\<forall>c \<in> set es. comp_ok c" "cs \<noteq> []"
    "under (path_of cs) (path_of es)"
  shows "\<exists>t. es = cs @ t"
proof -
  have "path_of cs \<noteq> ''/''" using assms(1,3) path_of_eq_root by blast
  with assms(4) consider "path_of es = path_of cs" | "has_prefix (path_of es) (path_of cs @ ''/'')"
    by (auto simp: under_def)
  then show ?thesis
  proof cases
    case 1
    then show ?thesis using path_of_inj[OF assms(2,1)] by simp
  next
    case 2
    then have "es \<noteq> []" using assms(3) by (cases cs) (auto simp: path_of_def has_prefix_def)
    with 2 assms(3) have "has_prefix (dirs es) (dirs cs @ ''/'')" by (simp add: path_of_def)
    with has_prefix_dirs[OF assms(1,2)] show ?thesis by blast
  qed
qed

text \<open>Only files with the given names directly below a directory changed.\<close>

definition changed_in :: "string list \<Rightarrow> string set \<Rightarrow> repo \<Rightarrow> repo \<Rightarrow> bool" where
  "changed_in cs names r r' \<longleftrightarrow>
     (\<forall>p. p \<notin> (\<lambda>n. path_of (cs @ [n])) ` names \<longrightarrow> tree r' p = tree r p)
     \<and> localCommits r' = localCommits r \<and> remoteCommits r' = remoteCommits r"

lemma changed_in_trans: "changed_in cs X r r1 \<Longrightarrow> changed_in cs X r1 r2 \<Longrightarrow> changed_in cs X r r2"
  by (simp add: changed_in_def)

lemma write_at:
  assumes "repo_healthy E" "\<forall>c \<in> set cs. comp_ok c" "comp_ok n"
  shows "repo_write E (path_join [path_of cs, n]) x r = (r\<lparr>tree := (tree r)(path_of (cs @ [n]) \<mapsto> x)\<rparr>, None)"
proof -
  have "\<forall>c \<in> set (cs @ [n]). comp_ok c" using assms by simp
  then show ?thesis using assms by (simp add: join_path_of tree_key_path_of)
qed

definition data_name_ok :: "string \<Rightarrow> bool" where
  "data_name_ok n \<longleftrightarrow> comp_ok n \<and> n \<notin> {''config.json'', ''kustomization.yaml'', ''resources''}"

lemma write_data_ok:
  assumes "repo_healthy E" "\<forall>c \<in> set cs. comp_ok c" "\<forall>n \<in> fst ` set data. data_name_ok n"
  shows "\<exists>r'. write_data E (path_of cs) data r = (r', None) \<and> changed_in cs (fst ` set data) r r'"
  using assms(3)
proof (induction data arbitrary: r)
  case Nil
  then show ?case by (simp add: changed_in_def)
next
  case (Cons nx data)
  obtain n x where nx: "nx = (n, x)" by (cases nx)
  with Cons.prems have n: "comp_ok n" "n \<notin> {''config.json'', ''kustomization.yaml'', ''resources''}"
    by (auto simp: data_name_ok_def)
  let ?r1 = "r\<lparr>tree := (tree r)(path_of (cs @ [n]) \<mapsto> x)\<rparr>"
  from Cons.IH[of ?r1] Cons.prems obtain r' where
    "write_data E (path_of cs) data ?r1 = (r', None)" "changed_in cs (fst ` set data) ?r1 r'" by auto
  with nx n write_at[OF assms(1,2) n(1)] show ?case by (auto simp: changed_in_def)
qed

lemma write_resources_ok:
  assumes "repo_healthy E" "\<forall>c \<in> set cs. comp_ok c" "\<forall>n \<in> fst ` set res. comp_ok n"
  shows "\<exists>r'. write_resources E (path_of cs) res k r = (r', Inr (fold (\<lambda>n. AddResources [n]) (map fst res) k))
    \<and> changed_in cs (fst ` set res) r r'"
  using assms(3)
proof (induction res arbitrary: r k)
  case Nil
  then show ?case by (simp add: changed_in_def)
next
  case (Cons nx res)
  obtain n x where nx: "nx = (n, x)" by (cases nx)
  with Cons.prems have n: "comp_ok n" by simp
  let ?r1 = "r\<lparr>tree := (tree r)(path_of (cs @ [n]) \<mapsto> x)\<rparr>"
  from Cons.IH[of "AddResources [n] k" ?r1] Cons.prems obtain r' where
    "write_resources E (path_of cs) res (AddResources [n] k) ?r1 =
       (r', Inr (fold (\<lambda>n. AddResources [n]) (map fst res) (AddResources [n] k)))"
    "changed_in cs (fst ` set res) ?r1 r'" by auto
  with nx n write_at[OF assms(1,2) n] show ?case by (auto simp: changed_in_def)
qed

lemma comp_ok_names [simp]:
  "comp_ok ''resources''" "comp_ok ''config.yaml''" "comp_ok ''config.json''"
  by (simp_all add: comp_ok_def)

text \<open>First half: up to the application's own files.\<close>

lemma RemoveDir_healthy:
  assumes "repo_healthy E" "\<forall>c \<in> set cs. comp_ok c"
  shows "RemoveDir E (path_of cs) r =
    (r\<lparr>tree := (\<lambda>p. if under (path_of cs) p then None else tree r p)\<rparr>, None)"
  using assms by (simp add: RemoveDir_def tree_key_path_of)

lemma under_below: "cs \<noteq> [] \<Longrightarrow> t \<noteq> [] \<Longrightarrow> under (path_of cs) (path_of (cs @ t))"
  by (cases t) (simp_all add: under_def path_of_def has_prefix_def)

lemma app_files_ok:
  fixes r :: repo and cy cj :: string
  assumes E: "repo_healthy E" and app: "\<forall>c \<in> set app. comp_ok c" "app \<noteq> []"
    and data: "\<forall>n \<in> fst ` set data. data_name_ok n"
  defines "r1 \<equiv> r\<lparr>tree := (\<lambda>p. if under (path_of app) p then None else tree r p)\<rparr>"
  defines "r4 \<equiv> r1\<lparr>tree := (tree r1)(path_of (app @ [''config.yaml'']) \<mapsto> cy,
    path_of (app @ [''config.json'']) \<mapsto> cj)\<rparr>"
  shows "\<exists>r5. write_data E (path_of app) data r4 = (r5, None)
    \<and> tree r5 (path_of (app @ [''config.json''])) = Some cj
    \<and> tree r5 (kust_file app) = None
    \<and> (\<forall>es. (\<forall>c \<in> set es. comp_ok c) \<longrightarrow> (\<nexists>t. es = app @ t) \<longrightarrow> tree r5 (path_of es) = tree r (path_of es))
    \<and> localCommits r5 = localCommits r \<and> remoteCommits r5 = remoteCommits r"
proof -
  obtain r5 where r5: "write_data E (path_of app) data r4 = (r5, None)"
    and ch: "changed_in app (fst ` set data) r4 r5" using write_data_ok[OF E app(1) data] by blast
  have data_ok: "comp_ok n" if "n \<in> fst ` set data" for n
    using data that by (auto simp: data_name_ok_def)
  have inj: "path_of (app @ [m]) = path_of (app @ [n]) \<longleftrightarrow> m = n" if "comp_ok m" "comp_ok n" for m n
    using path_of_inj[of "app @ [m]" "app @ [n]"] that app(1) by auto
  have keep: "tree r5 (path_of (app @ [m])) = tree r4 (path_of (app @ [m]))"
    if m: "comp_ok m" "m \<notin> fst ` set data" for m
  proof -
    have "path_of (app @ [m]) \<noteq> path_of (app @ [n])" if "n \<in> fst ` set data" for n
      using inj[OF m(1), of n] data_ok[OF that] that m(2) by auto
    then have "path_of (app @ [m]) \<notin> (\<lambda>n. path_of (app @ [n])) ` fst ` set data" by blast
    with ch show ?thesis by (simp add: changed_in_def)
  qed
  have "''config.json'' \<notin> fst ` set data" "''kustomization.yaml'' \<notin> fst ` set data"
    using data by (auto simp: data_name_ok_def)
  then have "tree r5 (path_of (app @ [''config.json''])) = Some cj" "tree r5 (kust_file app) = None"
    using keep[of "''config.json''"] keep[of "''kustomization.yaml''"] inj under_below[OF app(2)]
    by (simp_all add: kust_file_def r4_def r1_def)
  moreover have "tree r5 (path_of es) = tree r (path_of es)"
    if es: "\<forall>c \<in> set es. comp_ok c" "\<nexists>t. es = app @ t" for es
  proof -
    have ne: "path_of es \<noteq> path_of (app @ [m])" if "comp_ok m" for m
      using path_of_inj[of es "app @ [m]"] es app(1) that by auto
    have "path_of es \<notin> (\<lambda>n. path_of (app @ [n])) ` fst ` set data" using ne data_ok by blast
    then have "tree r5 (path_of es) = tree r4 (path_of es)" using ch by (simp add: changed_in_def)
    moreover have "\<not> under (path_of app) (path_of es)" using under_path_of[OF app(1) es(1) app(2)] es(2) by blast
    ultimately show ?thesis using ne[of "''config.yaml''"] ne[of "''config.json''"] by (simp add: r4_def r1_def)
  qed
  ultimately show ?thesis using r5 ch by (simp add: changed_in_def r4_def r1_def)
qed

text \<open>Second half: linking, the resources and their kustomization.\<close>

lemma path_ne:
  assumes "\<forall>c \<in> set es. comp_ok c" "\<forall>c \<in> set fs. comp_ok c" "es \<noteq> fs"
  shows "path_of es \<noteq> path_of fs"
  using assms path_of_inj by blast

lemma link_ok:
  assumes E: "repo_healthy E" "kust_codec E" and okcs: "\<forall>c \<in> set cs. comp_ok c"
    and parse: "\<forall>j < length cs. kust_at E (take j cs) r5 \<noteq> None" and res: "\<forall>n \<in> fst ` set resources. comp_ok n"
  shows "\<exists>r8. link_resources E (path_of cs) resources r5 = Some (r8, Inr ())
    \<and> (\<forall>j < length cs. \<exists>k. kust_at E (take j cs) r5 = Some k
         \<and> tree r8 (kust_file (take j cs)) = Some (yamlOfK E (AddResources [cs ! j] k)))
    \<and> (\<forall>es. (\<forall>c \<in> set es. comp_ok c) \<longrightarrow> (\<nexists>n. es = cs @ [n])
         \<longrightarrow> (\<forall>j < length cs. es \<noteq> take j cs @ [''kustomization.yaml''])
         \<longrightarrow> tree r8 (path_of es) = tree r5 (path_of es))
    \<and> localCommits r8 = localCommits r5 \<and> remoteCommits r8 = remoteCommits r5"
proof -
  from chain_links[OF E okcs parse] obtain r6 where
    r6: "kust_chain E (path_of cs) r5 = Some (r6, None)"
    and links: "\<forall>j < length cs. \<exists>k. kust_at E (take j cs) r5 = Some k
         \<and> tree r6 (kust_file (take j cs)) = Some (yamlOfK E (AddResources [cs ! j] k))"
    and frame6: "\<forall>p. p \<notin> {kust_file (take j cs) | j. j < length cs} \<longrightarrow> tree r6 p = tree r5 p"
    and com6: "localCommits r6 = localCommits r5" "remoteCommits r6 = remoteCommits r5" by blast
  obtain r7 k7 where r7: "write_resources E (path_of cs) resources NewKustomization r6 = (r7, Inr k7)"
    and ch7: "changed_in cs (fst ` set resources) r6 r7"
    using write_resources_ok[OF E(1) okcs res] by blast
  define r8 where "r8 = r7\<lparr>tree := (tree r7)(path_of (cs @ [''kustomization.yaml'']) \<mapsto> yamlOfK E k7)\<rparr>"
  have eq: "link_resources E (path_of cs) resources r5 = Some (r8, Inr ())"
    using r6 r7 write_at[OF E(1) okcs comp_ok_kust]
    by (simp add: link_resources_def createKustomizationChain_def clean_path_of[OF okcs]
        WriteKustomization_def r8_def)
  have late: "tree r8 (path_of es) = tree r6 (path_of es)"
    if "\<forall>c \<in> set es. comp_ok c" "\<nexists>n. es = cs @ [n]" for es
  proof -
    have ne: "path_of es \<noteq> path_of (cs @ [n])" if "comp_ok n" for n
      by (rule path_ne) (use \<open>\<forall>c \<in> set es. comp_ok c\<close> \<open>\<nexists>n. es = cs @ [n]\<close> okcs that in auto)
    have "path_of es \<notin> (\<lambda>n. path_of (cs @ [n])) ` fst ` set resources" using ne res by blast
    with ne[OF comp_ok_kust] ch7 show ?thesis by (simp add: changed_in_def r8_def)
  qed
  have okt: "\<forall>c \<in> set (take j cs @ [''kustomization.yaml'']). comp_ok c" for j
    using okcs by (auto dest: in_set_takeD)
  have "\<exists>k. kust_at E (take j cs) r5 = Some k
      \<and> tree r8 (kust_file (take j cs)) = Some (yamlOfK E (AddResources [cs ! j] k))"
    if j: "j < length cs" for j
  proof -
    have "tree r8 (kust_file (take j cs)) = tree r6 (kust_file (take j cs))"
      unfolding kust_file_def by (rule late[OF okt]) (use j in \<open>auto dest: arg_cong[of _ _ length]\<close>)
    with links j show ?thesis by simp
  qed
  moreover have "tree r8 (path_of es) = tree r5 (path_of es)"
    if es: "\<forall>c \<in> set es. comp_ok c" "\<nexists>n. es = cs @ [n]"
      "\<forall>j < length cs. es \<noteq> take j cs @ [''kustomization.yaml'']" for es
  proof -
    have "path_of es \<noteq> kust_file (take j cs)" if "j < length cs" for j
      unfolding kust_file_def by (rule path_ne[OF es(1) okt]) (use es(3) that in blast)
    then have "path_of es \<notin> {kust_file (take j cs) | j. j < length cs}" by auto
    with frame6 have "tree r6 (path_of es) = tree r5 (path_of es)" by simp
    then show ?thesis using late[OF es(1,2)] by simp
  qed
  moreover have "localCommits r8 = localCommits r5" "remoteCommits r8 = remoteCommits r5"
    using ch7 com6 by (simp_all add: changed_in_def r8_def)
  ultimately show ?thesis using eq by blast
qed

lemma install_op_ok:
  assumes E: "repo_healthy E" "kust_codec E" and app: "\<forall>c \<in> set app. comp_ok c" "app \<noteq> []"
    and nk: "''kustomization.yaml'' \<notin> set app"
    and parse: "\<forall>j < length app. kust_at E (take j app) r \<noteq> None"
    and data: "\<forall>n \<in> fst ` set data. data_name_ok n" and res: "\<forall>n \<in> fst ` set resources. comp_ok n"
  shows "\<exists>r'. install_op E (path_of app) name cy cj resources data r = Some (r', Inr (''install: '' @ name))
    \<and> tree r' (path_of (app @ [''config.json''])) = Some cj
    \<and> (\<forall>j < length app. \<exists>k. kust_at E (take j app) r = Some k
         \<and> tree r' (kust_file (take j app)) = Some (yamlOfK E (AddResources [app ! j] k)))
    \<and> (\<forall>es. (\<forall>c \<in> set es. comp_ok c) \<longrightarrow> (\<nexists>t. es = app @ t)
         \<longrightarrow> (\<forall>j < length app. es \<noteq> take j app @ [''kustomization.yaml''])
         \<longrightarrow> tree r' (path_of es) = tree r (path_of es))
    \<and> localCommits r' = localCommits r \<and> remoteCommits r' = remoteCommits r"
proof -
  define cs where "cs = app @ [''resources'']"
  have okcs: "\<forall>c \<in> set cs. comp_ok c" using app by (simp add: cs_def)
  from app_files_ok[OF E(1) app data, of r cy cj] obtain r5 where
    wd: "write_data E (path_of app) data (r\<lparr>tree := (\<lambda>p. if under (path_of app) p then None else tree r p)
      (path_of (app @ [''config.yaml'']) \<mapsto> cy, path_of (app @ [''config.json'']) \<mapsto> cj)\<rparr>) = (r5, None)"
    and f5: "tree r5 (path_of (app @ [''config.json''])) = Some cj" "tree r5 (kust_file app) = None"
      "\<And>es. \<forall>c \<in> set es. comp_ok c \<Longrightarrow> \<nexists>t. es = app @ t \<Longrightarrow> tree r5 (path_of es) = tree r (path_of es)"
      "localCommits r5 = localCommits r" "remoteCommits r5 = remoteCommits r" by auto
  have kust5: "kust_at E (take j app) r5 = kust_at E (take j app) r" if "j < length app" for j
  proof -
    have "take j app @ [''kustomization.yaml''] \<noteq> app @ t" for t
    proof
      assume t: "take j app @ [''kustomization.yaml''] = app @ t"
      from arg_cong[OF t, of length] that have "Suc j = length app + length t" by simp
      with that have "t = []" by (cases t) auto
      with t nk show False by (metis append_Nil2 in_set_conv_decomp)
    qed
    moreover have "\<forall>c \<in> set (take j app @ [''kustomization.yaml'']). comp_ok c"
      using app(1) by (auto dest: in_set_takeD)
    ultimately have "tree r5 (kust_file (take j app)) = tree r (kust_file (take j app))"
      using f5(3) unfolding kust_file_def by blast
    then show ?thesis by (simp add: kust_at_def)
  qed
  have "\<forall>j < length cs. kust_at E (take j cs) r5 \<noteq> None"
    using kust5 parse f5(2) by (auto simp: cs_def less_Suc_eq kust_at_def)
  from link_ok[OF E okcs this res] obtain r8 where
    l8: "link_resources E (path_of cs) resources r5 = Some (r8, Inr ())"
    and links: "\<forall>j < length cs. \<exists>k. kust_at E (take j cs) r5 = Some k
         \<and> tree r8 (kust_file (take j cs)) = Some (yamlOfK E (AddResources [cs ! j] k))"
    and frame: "\<forall>es. (\<forall>c \<in> set es. comp_ok c) \<longrightarrow> (\<nexists>n. es = cs @ [n])
         \<longrightarrow> (\<forall>j < length cs. es \<noteq> take j cs @ [''kustomization.yaml''])
         \<longrightarrow> tree r8 (path_of es) = tree r5 (path_of es)"
    and com: "localCommits r8 = localCommits r5" "remoteCommits r8 = remoteCommits r5" by blast
  have "install_op E (path_of app) name cy cj resources data r = Some (r8, Inr (''install: '' @ name))"
    using E(1) app wd l8
    by (simp add: install_op_def Let_def RemoveDir_healthy CreateDir_def join_path_of cs_def write_at
        tree_key_path_of)
  moreover have "tree r8 (path_of (app @ [''config.json''])) = Some cj"
  proof -
    have "\<forall>c \<in> set (app @ [''config.json'']). comp_ok c" using app by simp
    moreover have "\<nexists>n. app @ [''config.json''] = cs @ [n]" by (simp add: cs_def)
    moreover have "\<forall>j < length cs. app @ [''config.json''] \<noteq> take j cs @ [''kustomization.yaml'']" by simp
    ultimately have "tree r8 (path_of (app @ [''config.json''])) = tree r5 (path_of (app @ [''config.json'']))"
      using frame by blast
    with f5(1) show ?thesis by simp
  qed
  moreover have "\<exists>k. kust_at E (take j app) r = Some k
      \<and> tree r8 (kust_file (take j app)) = Some (yamlOfK E (AddResources [app ! j] k))"
    if j: "j < length app" for j
    using links[rule_format, of j] kust5[OF j] j by (auto simp: cs_def nth_append)
  moreover have "tree r8 (path_of es) = tree r (path_of es)"
    if es: "\<forall>c \<in> set es. comp_ok c" "\<nexists>t. es = app @ t"
      "\<forall>j < length app. es \<noteq> take j app @ [''kustomization.yaml'']" for es
  proof -
    have "\<nexists>n. es = cs @ [n]" using es(2) by (auto simp: cs_def)
    moreover have "\<forall>j < length cs. es \<noteq> take j cs @ [''kustomization.yaml'']"
      using es(2,3) by (auto simp: cs_def less_Suc_eq)
    ultimately show ?thesis using frame f5(3)[OF es(1,2)] es(1) by simp
  qed
  ultimately show ?thesis using com f5(4,5) by auto
qed

section \<open>Installing at the root\<close>

text \<open>Whatever the names, only the files they lead to are written.\<close>

definition writes :: "string \<Rightarrow> CueAppData \<Rightarrow> string set" where
  "writes dir ds = (\<lambda>n. tree_key (path_join [dir, n])) ` fst ` set ds"

lemma write_data_frame:
  assumes "repo_healthy E" and "\<forall>n \<in> fst ` set ds. n \<notin> {''config.json'', ''kustomization.yaml'', ''resources''}"
  shows "\<exists>r'. write_data E dir ds r = (r', None) \<and> (\<forall>k. k \<notin> writes dir ds \<longrightarrow> tree r' k = tree r k)"
  using assms(2)
proof (induction ds arbitrary: r)
  case (Cons d ds)
  obtain n x where d: "d = (n, x)" by (cases d)
  let ?r1 = "r\<lparr>tree := (tree r)(tree_key (path_join [dir, n]) \<mapsto> x)\<rparr>"
  from Cons.IH[of ?r1] Cons.prems obtain r' where
    "write_data E dir ds ?r1 = (r', None)" "\<forall>k. k \<notin> writes dir ds \<longrightarrow> tree r' k = tree ?r1 k" by auto
  with d Cons.prems assms(1) show ?case by (auto simp: writes_def)
qed simp

lemma write_resources_frame:
  assumes "repo_healthy E"
  shows "\<exists>r' k'. write_resources E dir rs k r = (r', Inr k') \<and> (\<forall>p. p \<notin> writes dir rs \<longrightarrow> tree r' p = tree r p)"
proof (induction rs arbitrary: r k)
  case (Cons d rs)
  obtain n x where d: "d = (n, x)" by (cases d)
  let ?r1 = "r\<lparr>tree := (tree r)(tree_key (path_join [dir, n]) \<mapsto> x)\<rparr>"
  from Cons.IH[of "AddResources [n] k" ?r1] obtain r' k' where
    "write_resources E dir rs (AddResources [n] k) ?r1 = (r', Inr k')"
    "\<forall>p. p \<notin> writes dir rs \<longrightarrow> tree r' p = tree ?r1 p" by auto
  with d assms show ?case by (auto simp: writes_def)
qed simp

text \<open>The files of an application whose directory is the root.\<close>

definition root_files :: "CueAppData \<Rightarrow> CueAppData \<Rightarrow> string set" where
  "root_files data resources = writes ''/'' data \<union> writes ''/resources'' resources
     \<union> {''/config.yaml'', ''/config.json'', ''/kustomization.yaml'', ''/resources/kustomization.yaml''}"

lemma root_paths:
  "path_join [''/'', ''resources''] = ''/resources''" "tree_key ''/'' = ''/''"
  "tree_key (path_join [''/'', ''config.yaml'']) = ''/config.yaml''"
  "tree_key (path_join [''/'', ''config.json'']) = ''/config.json''"
  "tree_key (path_join [''/resources'', ''kustomization.yaml'']) = ''/resources/kustomization.yaml''"
  "path_clean ''/resources'' = ''/resources''" "path_split ''/resources'' = (''/'', ''resources'')"
  "path_join [''/'', ''kustomization.yaml''] = ''/kustomization.yaml''" "path_clean ''/'' = ''/''"
  "tree_key ''/kustomization.yaml'' = ''/kustomization.yaml''"
  by code_simp+

lemma root_chain:
  assumes "repo_healthy E" and "tree r ''/kustomization.yaml'' = None"
  shows "createKustomizationChain E ''/resources'' r =
    Some (r\<lparr>tree := (tree r)(''/kustomization.yaml'' \<mapsto> yamlOfK E (AddResources [''resources''] NewKustomization))\<rparr>, None)"
proof -
  have "read_or_new E ''/kustomization.yaml'' r = Inr NewKustomization"
    using assms by (simp add: read_or_new_def ReadKustomization_def repo_Reader_def root_paths notExist_def)
  with assms(1) show ?thesis
    unfolding createKustomizationChain_def root_paths
    by (subst kust_chain.simps) (simp add: root_paths WriteKustomization_def kust_chain_root)
qed

lemma install_at_root:
  assumes "repo_healthy E" and "\<forall>n \<in> fst ` set data. n \<notin> {''config.json'', ''kustomization.yaml'', ''resources''}"
    and "''/kustomization.yaml'' \<notin> writes ''/'' data"
  shows "\<exists>r'. install_op E ''/'' name cy cj resources data r = Some (r', Inr (''install: '' @ name))
    \<and> (\<forall>p. p \<notin> root_files data resources \<longrightarrow> tree r' p = None)"
proof -
  let ?r4 = "r\<lparr>tree := Map.empty(''/config.yaml'' \<mapsto> cy, ''/config.json'' \<mapsto> cj)\<rparr>"
  obtain r5 where r5: "write_data E ''/'' data ?r4 = (r5, None)"
    and f5: "\<And>k. k \<notin> writes ''/'' data \<Longrightarrow> tree r5 k = tree ?r4 k"
    using write_data_frame[OF assms(1,2), of "''/''" ?r4] by blast
  have "tree r5 ''/kustomization.yaml'' = None" using f5 assms(3) by simp
  from root_chain[OF assms(1) this] obtain x where
    r6: "createKustomizationChain E ''/resources'' r5 =
      Some (r5\<lparr>tree := (tree r5)(''/kustomization.yaml'' \<mapsto> x)\<rparr>, None)" by blast
  let ?r6 = "r5\<lparr>tree := (tree r5)(''/kustomization.yaml'' \<mapsto> x)\<rparr>"
  obtain r7 k7 where r7: "write_resources E ''/resources'' resources NewKustomization ?r6 = (r7, Inr k7)"
    and f7: "\<And>p. p \<notin> writes ''/resources'' resources \<Longrightarrow> tree r7 p = tree ?r6 p"
    using write_resources_frame[OF assms(1), of "''/resources''" resources NewKustomization ?r6] by blast
  let ?r8 = "r7\<lparr>tree := (tree r7)(''/resources/kustomization.yaml'' \<mapsto> yamlOfK E k7)\<rparr>"
  have rm: "RemoveDir E ''/'' r = (r\<lparr>tree := Map.empty\<rparr>, None)"
    using assms(1) by (simp add: RemoveDir_def root_paths under_def)
  have "link_resources E ''/resources'' resources r5 = Some (?r8, Inr ())"
    using r6 r7 assms(1) by (simp add: link_resources_def WriteKustomization_def root_paths)
  then have "install_op E ''/'' name cy cj resources data r = Some (?r8, Inr (''install: '' @ name))"
    using rm r5 assms(1) by (simp add: install_op_def Let_def root_paths CreateDir_def)
  moreover have "tree ?r8 p = None" if "p \<notin> root_files data resources" for p
    using that f5[of p] f7[of p] by (auto simp: root_files_def)
  ultimately show ?thesis by blast
qed

section \<open>Properties\<close>

text \<open>
  C33: Linking a directory into the configuration. For a rooted path whose kustomizations parse,
  the walk up to the root ends without an error; afterwards the kustomization of every directory on
  the way lists the next component in addition to what it listed, and no other file has changed.
\<close>
theorem kustomization_chain_links:
  assumes "repo_healthy E" and "kust_codec E" and "\<forall>c \<in> set cs. comp_ok c"
    and "\<forall>i < length cs. kust_at E (take i cs) r \<noteq> None"
  shows "\<exists>r'. createKustomizationChain E (path_of cs) r = Some (r', None)
    \<and> (\<forall>i < length cs. \<exists>k. kust_at E (take i cs) r = Some k
         \<and> kust_at E (take i cs) r' = Some (AddResources [cs ! i] k))
    \<and> (\<forall>p. p \<notin> {kust_file (take i cs) | i. i < length cs} \<longrightarrow> tree r' p = tree r p)"
proof -
  from chain_links[OF assms] obtain r' where r': "kust_chain E (path_of cs) r = Some (r', None)"
    "\<forall>i < length cs. \<exists>k. kust_at E (take i cs) r = Some k
         \<and> tree r' (kust_file (take i cs)) = Some (yamlOfK E (AddResources [cs ! i] k))"
    "\<forall>p. p \<notin> {kust_file (take i cs) | i. i < length cs} \<longrightarrow> tree r' p = tree r p" by blast
  have "\<exists>k. kust_at E (take i cs) r = Some k \<and> kust_at E (take i cs) r' = Some (AddResources [cs ! i] k)"
    if i: "i < length cs" for i
  proof -
    from r'(2) i obtain k where "kust_at E (take i cs) r = Some k"
      "tree r' (kust_file (take i cs)) = Some (yamlOfK E (AddResources [cs ! i] k))" by blast
    with assms(2) show ?thesis by (auto simp: kust_at_def kust_codec_def)
  qed
  with r' show ?thesis
    by (auto simp: createKustomizationChain_def clean_path_of[OF assms(3)])
qed

text \<open>A path that does not start with a slash never reaches the root: when every kustomization
  parses and no file operation fails, the walk does not return.
\<close>
theorem relative_chain_never_returns:
  assumes "repo_healthy E" and "\<forall>x. is_ok (kOfYaml E x)" and "\<not> has_prefix path ''/''"
  shows "createKustomizationChain E path r = None"
proof (cases "createKustomizationChain E path r")
  case None
  then show ?thesis .
next
  case (Some y)
  then have "has_prefix (path_clean path) ''/''"
    using chain_rooted assms(1,2) unfolding createKustomizationChain_def by blast
  with assms(3) clean_rooted show ?thesis by blast
qed

lemma InstallApp_ok:
  assumes "repo_healthy E" "kust_codec E" "pullTree E = id"
    and "\<forall>c \<in> set (ds @ [i]). comp_ok c \<and> c \<noteq> ''kustomization.yaml''"
    and "\<forall>j \<le> length ds. kust_at E (take j ds) r \<noteq> None"
    and "\<forall>n \<in> fst ` set data. data_name_ok n" and "\<forall>n \<in> fst ` set resources. comp_ok n"
  shows "\<exists>r' k. InstallApp E False (path_of (ds @ [i])) name cy cj resources data r = Some (r', None)
    \<and> hd (remoteCommits r') = (''install: '' @ name, tree r')
    \<and> tree r' (path_of (ds @ [i, ''config.json''])) = Some cj
    \<and> tree r' (kust_file ds) = Some (yamlOfK E k) \<and> i \<in> set (Resources k)
    \<and> (\<forall>j \<le> length ds. \<exists>k. kust_at E (take j ds) r = Some k
         \<and> kust_at E (take j ds) r' = Some (AddResources [(ds @ [i]) ! j] k))
    \<and> (\<forall>es. (\<forall>c \<in> set es. comp_ok c) \<longrightarrow> (\<nexists>t. es = ds @ [i] @ t)
         \<longrightarrow> (\<forall>j \<le> length ds. es \<noteq> take j ds @ [''kustomization.yaml''])
         \<longrightarrow> tree r' (path_of es) = tree r (path_of es))
    \<and> remoteCommits r' \<noteq> []"
proof -
  let ?app = "ds @ [i]"
  have parse: "\<forall>j < length ?app. kust_at E (take j ?app) r \<noteq> None" using assms(5) by (simp add: less_Suc_eq_le)
  have ok: "\<forall>c \<in> set ?app. comp_ok c" "?app \<noteq> []" "''kustomization.yaml'' \<notin> set ?app"
    using assms(4) by auto
  from install_op_ok[OF assms(1,2) ok parse assms(6,7), of name cy cj]
  obtain r2 where op: "install_op E (path_of ?app) name cy cj resources data r = Some (r2, Inr (''install: '' @ name))"
    and cfg: "tree r2 (path_of (?app @ [''config.json''])) = Some cj"
    and links: "\<forall>j < length ?app. \<exists>k. kust_at E (take j ?app) r = Some k
         \<and> tree r2 (kust_file (take j ?app)) = Some (yamlOfK E (AddResources [?app ! j] k))"
    and frame: "\<forall>es. (\<forall>c \<in> set es. comp_ok c) \<longrightarrow> (\<nexists>t. es = ?app @ t)
         \<longrightarrow> (\<forall>j < length ?app. es \<noteq> take j ?app @ [''kustomization.yaml''])
         \<longrightarrow> tree r2 (path_of es) = tree r (path_of es)" by blast
  define r' where "r' = r2\<lparr>remoteCommits := (''install: '' @ name, tree r2) # localCommits r2 @ remoteCommits r2,
    localCommits := []\<rparr>"
  have "InstallApp E False (path_of ?app) name cy cj resources data r = Some (r', None)"
    using assms(1,3) op by (simp add: InstallApp_def DoP_def Do_def Pull_def CommitAndPush_def Let_def r'_def)
  moreover from links[rule_format, of "length ds"] obtain k where
    "tree r2 (kust_file ds) = Some (yamlOfK E (AddResources [i] k))" by auto
  moreover have "\<exists>k. kust_at E (take j ds) r = Some k
      \<and> kust_at E (take j ds) r' = Some (AddResources [?app ! j] k)" if "j \<le> length ds" for j
    using links[rule_format, of j] that assms(2) by (auto simp: kust_at_def r'_def kust_codec_def)
  moreover have "tree r' (path_of es) = tree r (path_of es)"
    if "\<forall>c \<in> set es. comp_ok c" "\<nexists>t. es = ds @ [i] @ t"
      "\<forall>j \<le> length ds. es \<noteq> take j ds @ [''kustomization.yaml'']" for es
    using frame[rule_format, of es] that by (auto simp: r'_def less_Suc_eq_le)
  ultimately show ?thesis using cfg
    by (intro exI[of _ r'] exI[of _ "AddResources [i] k"]) (simp add: r'_def kz.add_set)
qed

lemma find_after_install:
  assumes "repo_healthy E" "E = repoOf A" "kust_codec E" "\<forall>c \<in> set ds. comp_ok c" "comp_ok i"
    and "tree r (path_of (ds @ [i, ''config.json''])) = Some x" "cfgParse A x = Inr cfg"
    and "tree r (kust_file ds) = Some (yamlOfK E k)" "i \<in> set (Resources k)"
  shows "FindInstance A \<lparr>appDirRoot = path_of ds\<rparr> i r = Inr (cfg\<lparr>cfgId := i\<rparr>)"
proof -
  have p1: "path_join [path_of ds, ''kustomization.yaml''] = kust_file ds"
    using join_path_of[OF assms(4) comp_ok_kust] by (simp add: kust_file_def)
  have p2: "path_join [path_of ds, i, ''config.json''] = path_of (ds @ [i, ''config.json''])"
    by (rule join_path_of2) (simp_all add: assms(4,5))
  have "ReadKustomization E (kust_file ds) r = Inr k"
    using assms by (simp add: ReadKustomization_def repo_Reader_def tree_key_kust kust_codec_def)
  moreover have "appConfig A (path_of (ds @ [i, ''config.json''])) r = Inr cfg"
    using assms tree_key_path_of[of "ds @ [i, ''config.json'']"]
    by (simp add: appConfig_def repo_Reader_def)
  ultimately show ?thesis using assms(2,9) p1 p2 by (simp add: FindInstance_def)
qed

text \<open>
  C20: An installed application is found. Committing a rendered application in a directory below the
  manager's root, with file names that are single components, succeeds when no operation fails;
  the remote then has a commit of exactly the resulting files, and looking the instance up returns
  the stored configuration.
\<close>
theorem installed_app_is_found:
  assumes "repo_healthy (repoOf A)" and "kust_codec (repoOf A)" and "pullTree (repoOf A) = id"
    and "\<forall>c \<in> set (ds @ [i]). comp_ok c \<and> c \<noteq> ''kustomization.yaml''"
    and "\<forall>j \<le> length ds. kust_at (repoOf A) (take j ds) r \<noteq> None"
    and "\<forall>n \<in> fst ` set (renData ren). data_name_ok n"
    and "\<forall>n \<in> fst ` set (renResources ren). comp_ok n"
    and "cfgParse A (cfgJsonOf A cfg) = Inr cfg'"
  shows "\<exists>r'. commit_app A False (path_of (ds @ [i])) ren cfg r = Some (r', None)
    \<and> hd (remoteCommits r') = (''install: '' @ renName ren, tree r')
    \<and> FindInstance A \<lparr>appDirRoot = path_of ds\<rparr> i r' = Inr (cfg'\<lparr>cfgId := i\<rparr>)"
proof -
  from InstallApp_ok[OF assms(1-7), of "renName ren" "cfgYamlOf A cfg" "cfgJsonOf A cfg"] obtain r' k where
    r': "commit_app A False (path_of (ds @ [i])) ren cfg r = Some (r', None)"
      "hd (remoteCommits r') = (''install: '' @ renName ren, tree r')"
    and h: "tree r' (path_of (ds @ [i, ''config.json''])) = Some (cfgJsonOf A cfg)"
      "tree r' (kust_file ds) = Some (yamlOfK (repoOf A) k)" "i \<in> set (Resources k)"
    by (auto simp: commit_app_def)
  have "FindInstance A \<lparr>appDirRoot = path_of ds\<rparr> i r' = Inr (cfg'\<lparr>cfgId := i\<rparr>)"
    by (rule find_after_install[OF assms(1) refl assms(2) _ _ h(1) assms(8) h(2,3)]) (use assms(4) in auto)
  with r' show ?thesis by blast
qed

text \<open>
  C30: Removing an instance. When the kustomization lists each application once, a successful
  removal leaves no file of the instance, the instance is not found any more, and the other
  applications stay listed.
\<close>
theorem removed_app_is_gone:
  assumes "repo_healthy (repoOf A)" and "kust_codec (repoOf A)" and "pullTree (repoOf A) = id"
    and "\<forall>c \<in> set (ds @ [i]). comp_ok c \<and> c \<noteq> ''kustomization.yaml''"
    and "tree r (kust_file ds) = Some (yamlOfK (repoOf A) k)" and "distinct (Resources k)"
  shows "\<exists>r'. Remove A \<lparr>appDirRoot = path_of ds\<rparr> i r = (r', None)
    \<and> FindInstance A \<lparr>appDirRoot = path_of ds\<rparr> i r' = Inl ErrorNotFound
    \<and> (\<forall>t. t \<noteq> [] \<longrightarrow> tree r' (path_of (ds @ [i] @ t)) = None)
    \<and> (\<exists>k'. kust_at (repoOf A) ds r' = Some k' \<and> set (Resources k') = set (Resources k) - {i})"
proof -
  let ?E = "repoOf A" and ?app = "ds @ [i]"
  have ok: "\<forall>c \<in> set ?app. comp_ok c" "\<forall>c \<in> set ds. comp_ok c" "''kustomization.yaml'' \<noteq> i" "comp_ok i"
    using assms(4) by auto
  have p: "path_join [path_of ds, ''kustomization.yaml''] = kust_file ds"
    "path_join [path_of ds, i] = path_of ?app"
    using join_path_of ok by (simp_all add: kust_file_def)
  define r1 where "r1 = r\<lparr>tree := (\<lambda>p. if under (path_of ?app) p then None else tree r p)\<rparr>"
  have nu: "\<not> under (path_of ?app) (kust_file ds)"
    using under_path_of[OF ok(1), of "ds @ [''kustomization.yaml'']"] ok by (auto simp: kust_file_def)
  let ?k' = "RemoveResources [i] k"
  define r2 where "r2 = r1\<lparr>tree := (tree r1)(kust_file ds \<mapsto> yamlOfK ?E ?k')\<rparr>"
  have rd: "ReadKustomization ?E (kust_file ds) r1 = Inr k"
    using assms(1,2,5) nu ok(2)
    by (simp add: ReadKustomization_def repo_Reader_def tree_key_kust kust_codec_def r1_def)
  have "remove_op A \<lparr>appDirRoot = path_of ds\<rparr> i r = (r2, Inr (''uninstall: '' @ i))"
    using assms(1) rd ok
    by (simp add: remove_op_def Let_def p RemoveDir_healthy WriteKustomization_def tree_key_kust
        r2_def r1_def)
  then have rem: "\<exists>r'. Remove A \<lparr>appDirRoot = path_of ds\<rparr> i r = (r', None) \<and> tree r' = tree r2"
    using assms(1,3) by (simp add: Remove_def Do_def Pull_def CommitAndPush_def Let_def)
  then obtain r' where r': "Remove A \<lparr>appDirRoot = path_of ds\<rparr> i r = (r', None)" "tree r' = tree r2" by blast
  have res: "set (Resources ?k') = set (Resources k) - {i}" using kz.remove_set[OF assms(6)] by simp
  have rd': "ReadKustomization ?E (kust_file ds) r' = Inr ?k'"
    using assms(1,2) ok(2) r'(2)
    by (simp add: ReadKustomization_def repo_Reader_def tree_key_kust kust_codec_def r2_def)
  have "FindInstance A \<lparr>appDirRoot = path_of ds\<rparr> i r' = Inl ErrorNotFound"
    using rd' res by (simp add: FindInstance_def p)
  moreover have "tree r' (path_of (ds @ [i] @ t)) = None" if "t \<noteq> []" for t
  proof -
    have "under (path_of ?app) (path_of (?app @ t))" by (rule under_below) (use that in simp_all)
    with nu r'(2) show ?thesis by (auto simp: r2_def r1_def)
  qed
  moreover have "kust_at ?E ds r' = Some ?k'"
    using r'(2) assms(2) by (simp add: kust_at_def r2_def kust_codec_def)
  ultimately show ?thesis using r'(1) res by blast
qed

text \<open>
  C40: An error while deriving the input is lost. If the values of a request are rejected, \<open>Install\<close>
  reports success with no resources, and the application's directory has been replaced by an empty
  configuration: what was installed there is gone.
\<close>
theorem rejected_values_wipe_the_app:
  assumes "repo_healthy (repoOf A)" and "kust_codec (repoOf A)" and "pullTree (repoOf A) = id"
    and "\<forall>c \<in> set (ds @ [i]). comp_ok c \<and> c \<noteq> ''kustomization.yaml''"
    and "\<forall>j \<le> length ds. kust_at (repoOf A) (take j ds) (wRepo w) \<noteq> None"
    and "nsCreate A ns = None" and "mgr_Config A (wRepo w) = Inr env"
    and "deriveValues (keyGen A) (GMap vals) (appSchema app)
          (CreateNetworks (EnvId env) (InfraName env) (EnvDomain env) (PrivateDomain env)) = Inl (DError e)"
  shows "\<exists>w'. Install A app i (path_of (ds @ [i])) ns vals w = (w', Installed [])
    \<and> tree (wRepo w') (path_of (ds @ [i, ''config.json''])) = Some (cfgJsonOf A zero_config)
    \<and> fst (hd (remoteCommits (wRepo w'))) = ''install: ''"
proof -
  let ?E = "repoOf A" and ?app = "ds @ [i]"
  have parse: "\<forall>j < length ?app. kust_at ?E (take j ?app) (wRepo w) \<noteq> None"
    using assms(5) by (simp add: less_Suc_eq_le)
  have ok: "\<forall>c \<in> set ?app. comp_ok c" "?app \<noteq> []" "''kustomization.yaml'' \<notin> set ?app"
    using assms(4) by auto
  from install_op_ok[OF assms(1,2) ok parse, of "[]" "[]" "[]" "cfgYamlOf A zero_config" "cfgJsonOf A zero_config"]
  obtain r2 where op: "install_op ?E (path_of ?app) [] (cfgYamlOf A zero_config) (cfgJsonOf A zero_config)
        [] [] (wRepo w) = Some (r2, Inr ''install: '')"
    and cfg: "tree r2 (path_of (?app @ [''config.json''])) = Some (cfgJsonOf A zero_config)" by auto
  have "\<exists>r'. commit_app A False (path_of ?app) empty_rendered zero_config (wRepo w) = Some (r', None)
      \<and> tree r' = tree r2 \<and> fst (hd (remoteCommits r')) = ''install: ''"
    using assms(1,3) op
    by (simp add: commit_app_def InstallApp_def DoP_def Do_def Pull_def CommitAndPush_def Let_def
        empty_rendered_def)
  then obtain r' where "commit_app A False (path_of ?app) empty_rendered zero_config (wRepo w) = Some (r', None)"
    "tree r' = tree r2" "fst (hd (remoteCommits r')) = ''install: ''" by blast
  with assms cfg show ?thesis
    by (simp add: Install_def Let_def Pull_def Render_def clean_path_of[OF ok(1)]) (simp add: empty_rendered_def)
qed

subsection \<open>A concrete environment\<close>

definition example_app :: cueApp where
  "example_app = \<lparr>appName = ''Git'', appDescription = [], appIcon = [], appNamespace = ''app-git'',
     appSchema = example_schema, appData = [],
     cueEval = (\<lambda>_. \<lparr>resErr = None, resValidateErr = None, resFull = Inr ''{}'', resReadme = Inr [],
       resPorts = Inr [], resOutput = Inr [(''git'', Inr ''x'')], resHelp = None, resUrl = Inr [],
       resIcon = Inr []\<rparr>)\<rparr>"

definition example_appenv :: appenv where
  "example_appenv = \<lparr>repoOf = example_repoenv, fullAddress = ''ssh://h/r'',
     envParse = (\<lambda>_. Inr zero_env), cfgYamlOf = (\<lambda>_. ''yaml''), cfgJsonOf = (\<lambda>_. ''json''),
     cfgParse = (\<lambda>_. Inr zero_config), envValue = (\<lambda>_. GNil), relValue = (\<lambda>_. GNil), keyGen = Inl [],
     nsCreate = (\<lambda>_. None), postPort = (\<lambda>_. Inr 200),
     helmMeta = (\<lambda>_. Inr \<lparr>resName = [], resNamespace = []\<rparr>)\<rparr>"

definition example_world :: world where
  "example_world = \<lparr>wRepo = empty_repo\<lparr>tree := [tree_key ''config.yaml'' \<mapsto> ''env'']\<rparr>, wNamespaces = [],
     wPortRequests = []\<rparr>"

definition example_rendered :: rendered where
  "example_rendered = empty_rendered\<lparr>renName := ''git'', renResources := [(''git.yaml'', ''x'')],
     renData := [(''rendered.json'', ''{}'')]\<rparr>"

lemma example_appenv_simps [simp]:
  "repoOf example_appenv = example_repoenv" "kust_codec example_repoenv" "pullTree example_repoenv = id"
  "\<forall>x. is_ok (kOfYaml example_repoenv x)" "kust_at example_repoenv cs r \<noteq> None"
  by (auto simp: example_appenv_def example_repoenv_def kust_codec_def kust_at_def split: option.split)

lemma example_comps [simp]:
  "comp_ok ''apps''" "comp_ok ''git''" "comp_ok ''git.yaml''" "data_name_ok ''rendered.json''"
  by (simp_all add: comp_ok_def data_name_ok_def)

theorem kustomization_chain_links_witness:
  "\<exists>r'. createKustomizationChain example_repoenv (path_of [''apps'', ''git'']) empty_repo = Some (r', None)
    \<and> (\<forall>i < length [''apps'', ''git'']. \<exists>k. kust_at example_repoenv (take i [''apps'', ''git'']) empty_repo = Some k
         \<and> kust_at example_repoenv (take i [''apps'', ''git'']) r' = Some (AddResources [[''apps'', ''git''] ! i] k))
    \<and> (\<forall>p. p \<notin> {kust_file (take i [''apps'', ''git'']) | i. i < length [''apps'', ''git'']} \<longrightarrow> tree r' p = tree empty_repo p)"
  by (rule kustomization_chain_links) simp_all

theorem relative_chain_never_returns_witness:
  "createKustomizationChain example_repoenv ''apps/git'' empty_repo = None"
  by (rule relative_chain_never_returns) (simp_all add: has_prefix_def)

theorem installed_app_is_found_witness:
  "\<exists>r'. commit_app example_appenv False (path_of ([''apps''] @ [''git''])) example_rendered zero_config empty_repo = Some (r', None)
    \<and> hd (remoteCommits r') = (''install: '' @ renName example_rendered, tree r')
    \<and> FindInstance example_appenv \<lparr>appDirRoot = path_of [''apps'']\<rparr> ''git'' r' = Inr (zero_config\<lparr>cfgId := ''git''\<rparr>)"
  by (rule installed_app_is_found) (simp_all add: example_rendered_def empty_rendered_def example_appenv_def)

theorem removed_app_is_gone_witness:
  "\<exists>r'. Remove example_appenv \<lparr>appDirRoot = path_of [''apps'']\<rparr> ''git''
        (empty_repo\<lparr>tree := [kust_file [''apps''] \<mapsto> example_kust_text (AddResources [''git'', ''rss''] NewKustomization)]\<rparr>) = (r', None)
    \<and> FindInstance example_appenv \<lparr>appDirRoot = path_of [''apps'']\<rparr> ''git'' r' = Inl ErrorNotFound"
proof -
  let ?k = "AddResources [''git'', ''rss''] NewKustomization"
  let ?r = "empty_repo\<lparr>tree := [kust_file [''apps''] \<mapsto> example_kust_text ?k]\<rparr>"
  have "yamlOfK example_repoenv = example_kust_text" by (simp add: example_repoenv_def)
  then have "tree ?r (kust_file [''apps'']) = Some (yamlOfK (repoOf example_appenv) ?k)" by simp
  moreover have "distinct (Resources ?k)" by (simp add: AddResources_def NewKustomization_def)
  moreover have "\<forall>c \<in> set ([''apps''] @ [''git'']). comp_ok c \<and> c \<noteq> ''kustomization.yaml''" by simp
  ultimately show ?thesis
    using removed_app_is_gone[of example_appenv "[''apps'']" "''git''" ?r ?k] by auto
qed

theorem rejected_values_wipe_the_app_witness:
  "\<exists>w'. Install example_appenv example_app ''git'' (path_of ([''apps''] @ [''git''])) ''ns''
        [(''hosts'', GAnys [GStr ''a''])] example_world = (w', Installed [])
    \<and> tree (wRepo w') (path_of ([''apps''] @ [''git'', ''config.json''])) = Some (cfgJsonOf example_appenv zero_config)
    \<and> fst (hd (remoteCommits (wRepo w'))) = ''install: ''"
  by (rule rejected_values_wipe_the_app[where env = zero_env and e = "''expected string array''"])
    (simp_all add: example_world_def mgr_Config_def repo_Reader_def example_appenv_def example_app_def
      example_schema_def deriveValues_def derive_one.simps empty_repo_def)

end
