(* ===== verification/InfraManager.thy ===== *)
theory InfraManager
  imports AppManager
begin

text \<open>
  Applications of the infrastructure (\<open>cueInfraApp.Render\<close> of \<open>src/core/installer/app.go\<close>,
  \<open>InfraAppManager\<close> of \<open>app_manager.go\<close>): they live below \<open>/infrastructure\<close>, are rendered with the values
  as they are given and are committed by the same \<open>InstallApp\<close> as those of an environment.
\<close>

section \<open>Rendering\<close>

record InfraConfig =
  infraName :: string
  infraPublicIP :: "IP list"
  InfraNamespacePrefix :: string
  InfraAdminPublicKey :: string

record InfraAppInstanceConfig =
  iaId :: string
  iaAppId :: string
  iaInfra :: InfraConfig
  iaRelease :: Release
  iaValues :: "(string \<times> goval) list"
  iaInput :: "(string \<times> goval) list"
  iaURL :: string
  iaHelp :: "HelpDocument list"
  iaIcon :: string

definition zero_infra :: InfraConfig where
  "zero_infra = \<lparr>infraName = [], infraPublicIP = [], InfraNamespacePrefix = [], InfraAdminPublicKey = []\<rparr>"

definition zero_infra_config :: InfraAppInstanceConfig where
  "zero_infra_config = \<lparr>iaId = [], iaAppId = [], iaInfra = zero_infra, iaRelease = zero_release,
     iaValues = [], iaInput = [], iaURL = [], iaHelp = [], iaIcon = []\<rparr>"

text \<open>The icon is not copied to the configuration.\<close>

definition infra_Render ::
    "(InfraConfig \<Rightarrow> goval) \<Rightarrow> (Release \<Rightarrow> goval) \<Rightarrow> cueApp \<Rightarrow> Release \<Rightarrow> InfraConfig \<Rightarrow>
     (string \<times> goval) list \<Rightarrow> (string, rendered \<times> InfraAppInstanceConfig) result" where
  "infra_Render infraVal relVal a rel infra vals =
     bindE (render a [(''global'', infraVal infra), (''input'', GMap vals), (''release'', relVal rel)]) (\<lambda>ret.
       Inr (ret, \<lparr>iaId = [], iaAppId = Slug a, iaInfra = infra, iaRelease = rel, iaValues = vals,
         iaInput = vals, iaURL = renURL ret, iaHelp = renHelp ret, iaIcon = []\<rparr>))"

section \<open>The manager\<close>

record infraenv =
  iRepo :: repoenv
  iAddress :: string
  iParse :: "string \<Rightarrow> (string, InfraConfig) result"
  iYamlOf :: "InfraAppInstanceConfig \<Rightarrow> string"
  iJsonOf :: "InfraAppInstanceConfig \<Rightarrow> string"
  iCfgParse :: "string \<Rightarrow> (string, InfraAppInstanceConfig) result"
  iValue :: "InfraConfig \<Rightarrow> goval"
  iRelValue :: "Release \<Rightarrow> goval"
  iNsCreate :: "string \<Rightarrow> string option"

definition infra_Config :: "infraenv \<Rightarrow> repo \<Rightarrow> (string, InfraConfig) result" where
  "infra_Config J r = bindE (repo_Reader (iRepo J) ''config.yaml'' r)
     (\<lambda>x. case billyFault (iRepo J) BReadAll (tree_key ''config.yaml'') of
        Some e \<Rightarrow> Inl e | None \<Rightarrow> iParse J x)"

definition infra_appConfig :: "infraenv \<Rightarrow> string \<Rightarrow> repo \<Rightarrow> (string, InfraAppInstanceConfig) result" where
  "infra_appConfig J path r = bindE (repo_Reader (iRepo J) path r) (iCfgParse J)"

text \<open>A missing instance is a zero configuration without an error.\<close>

definition infra_FindInstance :: "infraenv \<Rightarrow> string \<Rightarrow> repo \<Rightarrow> (string, InfraAppInstanceConfig) result" where
  "infra_FindInstance J iid r =
     bindE (ReadKustomization (iRepo J) (path_join [''/infrastructure'', ''kustomization.yaml'']) r) (\<lambda>kust.
       if iid \<in> set (Resources kust)
       then bindE (infra_appConfig J (path_join [''/infrastructure'', iid, ''config.json'']) r)
              (\<lambda>cfg. Inr (cfg\<lparr>iaId := iid\<rparr>))
       else Inr zero_infra_config)"

definition infra_commit ::
    "infraenv \<Rightarrow> bool \<Rightarrow> string \<Rightarrow> rendered \<Rightarrow> InfraAppInstanceConfig \<Rightarrow> world \<Rightarrow> world \<times> install_result" where
  "infra_commit J noCommit appDir ren cfg w =
     (case InstallApp (iRepo J) noCommit appDir (renName ren) (iYamlOf J cfg) (iJsonOf J cfg)
             (renResources ren) (renData ren) (wRepo w) of
        None \<Rightarrow> (w, InstallDiverges)
      | Some (r', Some e) \<Rightarrow> (w\<lparr>wRepo := r'\<rparr>, InstallError e)
      | Some (r', None) \<Rightarrow> (w\<lparr>wRepo := r'\<rparr>, Installed []))"

definition infra_Install ::
    "infraenv \<Rightarrow> cueApp \<Rightarrow> string \<Rightarrow> string \<Rightarrow> (string \<times> goval) list \<Rightarrow> world \<Rightarrow> world \<times> install_result" where
  "infra_Install J app appDir0 namespace vals w =
     (let appDir = path_clean appDir0; w1 = w\<lparr>wRepo := fst (Pull (iRepo J) (wRepo w))\<rparr> in
      case iNsCreate J namespace of
        Some e \<Rightarrow> (w1, InstallError e)
      | None \<Rightarrow>
      (let w2 = w1\<lparr>wNamespaces := wNamespaces w1 @ [namespace]\<rparr> in
      case infra_Config J (wRepo w2) of
        Inl e \<Rightarrow> (w2, InstallError e)
      | Inr infra \<Rightarrow>
      (let rel = \<lparr>AppInstanceId = [], relNamespace = namespace, RepoAddr = iAddress J, AppDir = appDir\<rparr> in
      case infra_Render (iValue J) (iRelValue J) app rel infra vals of
        Inl e \<Rightarrow> (w2, InstallError e)
      | Inr (ren, cfg) \<Rightarrow> infra_commit J False appDir ren cfg w2)))"

definition infra_Update ::
    "infraenv \<Rightarrow> cueApp \<Rightarrow> string \<Rightarrow> (string \<times> goval) list \<Rightarrow> bool \<Rightarrow> world \<Rightarrow> world \<times> install_result" where
  "infra_Update J app instanceId vals noCommit w =
     (let w1 = w\<lparr>wRepo := fst (Pull (iRepo J) (wRepo w))\<rparr>;
          instanceDir = path_join [''/infrastructure'', instanceId] in
      case infra_Config J (wRepo w1) of
        Inl e \<Rightarrow> (w1, InstallError e)
      | Inr infra \<Rightarrow>
      (case infra_appConfig J (path_join [instanceDir, ''config.json'']) (wRepo w1) of
        Inl e \<Rightarrow> (w1, InstallError e)
      | Inr config \<Rightarrow>
      (let rel = \<lparr>AppInstanceId = instanceId, relNamespace = relNamespace (iaRelease config),
                  RepoAddr = iAddress J, AppDir = instanceDir\<rparr> in
      case infra_Render (iValue J) (iRelValue J) app rel infra vals of
        Inl e \<Rightarrow> (w1, InstallError e)
      | Inr (ren, cfg) \<Rightarrow> infra_commit J noCommit instanceDir ren cfg w1)))"

section \<open>Installing and updating\<close>

definition infra_ok :: "infraenv \<Rightarrow> repo \<Rightarrow> bool" where
  "infra_ok J r \<longleftrightarrow> repo_healthy (iRepo J) \<and> kust_codec (iRepo J) \<and> pullTree (iRepo J) = id
     \<and> kust_at (iRepo J) [] r \<noteq> None \<and> kust_at (iRepo J) [''infrastructure''] r \<noteq> None"

definition render_ok :: "rendered \<Rightarrow> bool" where
  "render_ok ren \<longleftrightarrow> (\<forall>n \<in> fst ` set (renData ren). data_name_ok n) \<and> (\<forall>n \<in> fst ` set (renResources ren). comp_ok n)"

lemma comp_ok_infrastructure [simp]: "comp_ok ''infrastructure''"
  by (simp add: comp_ok_def)

lemma infra_paths:
  assumes "comp_ok i"
  shows "path_join [''/infrastructure'', i] = path_of [''infrastructure'', i]"
    and "path_join [''/infrastructure'', i, ''config.json''] = path_of [''infrastructure'', i, ''config.json'']"
    and "path_join [path_of [''infrastructure'', i], ''config.json''] = path_of [''infrastructure'', i, ''config.json'']"
    and "path_join [''/infrastructure'', ''kustomization.yaml''] = kust_file [''infrastructure'']"
proof -
  have root: "''/infrastructure'' = path_of [''infrastructure'']" by (simp add: path_of_def)
  show "path_join [''/infrastructure'', i] = path_of [''infrastructure'', i]"
    unfolding root using join_path_of[of "[''infrastructure'']" i] assms by simp
  show "path_join [''/infrastructure'', i, ''config.json''] = path_of [''infrastructure'', i, ''config.json'']"
    unfolding root using join_path_of2[of "[''infrastructure'']" i "''config.json''"] assms by simp
  show "path_join [path_of [''infrastructure'', i], ''config.json''] = path_of [''infrastructure'', i, ''config.json'']"
    using join_path_of[of "[''infrastructure'', i]" "''config.json''"] assms by simp
  show "path_join [''/infrastructure'', ''kustomization.yaml''] = kust_file [''infrastructure'']"
    unfolding root kust_file_def using join_path_of[of "[''infrastructure'']" "''kustomization.yaml''"] by simp
qed

lemma infra_read_config:
  assumes "repo_healthy (iRepo J)" "comp_ok i"
    and "tree r (path_of [''infrastructure'', i, ''config.json'']) = Some x"
  shows "infra_appConfig J (path_of [''infrastructure'', i, ''config.json'']) r = iCfgParse J x"
  using assms tree_key_path_of[of "[''infrastructure'', i, ''config.json'']"]
  by (simp add: infra_appConfig_def repo_Reader_def)

text \<open>
  What a commit of the instance \<open>i\<close> leaves of the rest: it is listed in the kustomization of the
  infrastructure, only files of its directory and the kustomizations above it change, and the
  remote has the result.
\<close>

definition infra_frame :: "infraenv \<Rightarrow> string \<Rightarrow> repo \<Rightarrow> repo \<Rightarrow> bool" where
  "infra_frame J i r r' \<longleftrightarrow> infra_ok J r' \<and> remoteCommits r' \<noteq> [] \<and> snd (hd (remoteCommits r')) = tree r'
     \<and> (\<exists>k. kust_at (iRepo J) [''infrastructure''] r = Some k
          \<and> kust_at (iRepo J) [''infrastructure''] r' = Some (AddResources [i] k))
     \<and> (\<forall>es. (\<forall>c \<in> set es. comp_ok c) \<longrightarrow> (\<nexists>t. es = [''infrastructure'', i] @ t)
          \<longrightarrow> es \<noteq> [''kustomization.yaml''] \<longrightarrow> es \<noteq> [''infrastructure'', ''kustomization.yaml'']
          \<longrightarrow> tree r' (path_of es) = tree r (path_of es))"

lemma infra_find_after_commit:
  assumes "infra_ok J (wRepo w)" and "comp_ok i" "i \<noteq> ''kustomization.yaml''" and "render_ok ren"
    and "iCfgParse J (iJsonOf J cfg) = Inr cfg"
  shows "\<exists>r'. infra_commit J False (path_of [''infrastructure'', i]) ren cfg w = (w\<lparr>wRepo := r'\<rparr>, Installed [])
    \<and> infra_FindInstance J i r' = Inr (cfg\<lparr>iaId := i\<rparr>) \<and> infra_frame J i (wRepo w) r'"
proof -
  let ?ds = "[''infrastructure'']"
  have E: "repo_healthy (iRepo J)" "kust_codec (iRepo J)" "pullTree (iRepo J) = id"
    using assms(1) by (simp_all add: infra_ok_def)
  have ks: "\<forall>j \<le> length ?ds. kust_at (iRepo J) (take j ?ds) (wRepo w) \<noteq> None"
    using assms(1) by (auto simp: infra_ok_def le_Suc_eq)
  have names: "\<forall>c \<in> set (?ds @ [i]). comp_ok c \<and> c \<noteq> ''kustomization.yaml''" using assms(2,3) by simp
  have files: "\<forall>n \<in> fst ` set (renData ren). data_name_ok n" "\<forall>n \<in> fst ` set (renResources ren). comp_ok n"
    using assms(4) by (auto simp: render_ok_def)
  from InstallApp_ok[OF E names ks files, of "renName ren" "iYamlOf J cfg" "iJsonOf J cfg"]
  obtain r' k where r': "InstallApp (iRepo J) False (path_of [''infrastructure'', i]) (renName ren)
        (iYamlOf J cfg) (iJsonOf J cfg) (renResources ren) (renData ren) (wRepo w) = Some (r', None)"
      "tree r' (path_of [''infrastructure'', i, ''config.json'']) = Some (iJsonOf J cfg)"
    and k: "tree r' (kust_file [''infrastructure'']) = Some (yamlOfK (iRepo J) k)" "i \<in> set (Resources k)"
    and links: "\<forall>j \<le> length ?ds. \<exists>k. kust_at (iRepo J) (take j ?ds) (wRepo w) = Some k
         \<and> kust_at (iRepo J) (take j ?ds) r' = Some (AddResources [(?ds @ [i]) ! j] k)"
    and frame: "\<forall>es. (\<forall>c \<in> set es. comp_ok c) \<longrightarrow> (\<nexists>t. es = ?ds @ [i] @ t)
         \<longrightarrow> (\<forall>j \<le> length ?ds. es \<noteq> take j ?ds @ [''kustomization.yaml''])
         \<longrightarrow> tree r' (path_of es) = tree (wRepo w) (path_of es)"
    and rem: "remoteCommits r' \<noteq> []" "snd (hd (remoteCommits r')) = tree r'" by auto
  have "ReadKustomization (iRepo J) (kust_file [''infrastructure'']) r' = Inr k"
    using E k(1) by (simp add: ReadKustomization_def repo_Reader_def tree_key_kust kust_codec_def)
  then have "infra_FindInstance J i r' = Inr (cfg\<lparr>iaId := i\<rparr>)"
    using infra_read_config[OF E(1) assms(2) r'(2)] assms(5) k(2)
    by (simp add: infra_FindInstance_def infra_paths[OF assms(2)])
  moreover have "infra_frame J i (wRepo w) r'"
    using links[rule_format, of 0] links[rule_format, of 1] frame E rem
    by (auto simp: infra_frame_def infra_ok_def le_Suc_eq)
  ultimately show ?thesis using r'(1) by (intro exI[of _ r']) (simp add: infra_commit_def)
qed

lemma reader_cong: "tree r' (tree_key p) = tree r (tree_key p) \<Longrightarrow> repo_Reader E p r' = repo_Reader E p r"
  by (simp add: repo_Reader_def split: option.split)

lemma infra_find_other:
  assumes "infra_frame J i r r'" "repo_healthy (iRepo J)" "comp_ok i" "comp_ok m" "m \<noteq> i"
    and "infra_FindInstance J m r = Inr cfg"
  shows "infra_FindInstance J m r' = Inr cfg"
proof -
  let ?E = "iRepo J" and ?cfg = "[''infrastructure'', m, ''config.json'']"
  from assms(1) obtain k where k: "kust_at ?E [''infrastructure''] r = Some k"
    "kust_at ?E [''infrastructure''] r' = Some (AddResources [i] k)" by (auto simp: infra_frame_def)
  have rd: "ReadKustomization ?E (kust_file [''infrastructure'']) x
      = (case tree x (kust_file [''infrastructure'']) of None \<Rightarrow> Inl ''file does not exist'' | Some y \<Rightarrow> kOfYaml ?E y)" for x
    using assms(2) by (simp add: ReadKustomization_def repo_Reader_def tree_key_kust split: option.splits)
  from assms(6) obtain k' where k': "ReadKustomization ?E (kust_file [''infrastructure'']) r = Inr k'"
    by (auto simp: infra_FindInstance_def infra_paths[OF assms(4)] bindE_eq_Inr)
  then have "k' = k" using k(1) rd by (auto simp: kust_at_def split: option.splits)
  moreover have "ReadKustomization ?E (kust_file [''infrastructure'']) r' = Inr (AddResources [i] k)
      \<or> tree r' (kust_file [''infrastructure'']) = None"
    using k(2) rd by (auto simp: kust_at_def split: option.splits sum.splits)
  moreover have "tree r' (kust_file [''infrastructure'']) \<noteq> None"
  proof
    assume n: "tree r' (kust_file [''infrastructure'']) = None"
    then have "AddResources [i] k = NewKustomization" using k(2) by (simp add: kust_at_def)
    then have "i \<in> set (Resources NewKustomization)" using kz.add_set by (metis UnCI list.set_intros(1))
    then show False by (simp add: NewKustomization_def)
  qed
  moreover have "tree r' (path_of ?cfg) = tree r (path_of ?cfg)"
  proof -
    have "\<nexists>t. ?cfg = [''infrastructure'', i] @ t" using assms(5) by simp
    moreover have "\<forall>c \<in> set ?cfg. comp_ok c" using assms(4) by simp
    ultimately show ?thesis using assms(1) unfolding infra_frame_def by blast
  qed
  then have "infra_appConfig J (path_of ?cfg) r' = infra_appConfig J (path_of ?cfg) r"
    using tree_key_path_of[of ?cfg] assms(4) by (simp add: infra_appConfig_def reader_cong[of r' _ r])
  ultimately show ?thesis using assms(5,6) k'
    by (auto simp: infra_FindInstance_def infra_paths[OF assms(4)] kz.add_set split: if_splits)
qed

lemma infra_config_kept:
  assumes "infra_frame J i r r'" "comp_ok i"
  shows "infra_Config J r' = infra_Config J r"
proof -
  have "tree r' (path_of [''config.yaml'']) = tree r (path_of [''config.yaml''])"
    using assms(1) unfolding infra_frame_def by simp
  moreover have "tree_key ''config.yaml'' = path_of [''config.yaml'']" by code_simp
  ultimately show ?thesis by (simp add: infra_Config_def reader_cong[of r' _ r])
qed

lemma infra_install_ok:
  assumes "infra_ok J (wRepo w)" and "comp_ok i" "i \<noteq> ''kustomization.yaml''"
    and "infra_Config J (wRepo w) = Inr infra" and "iNsCreate J ns = None"
    and "infra_Render (iValue J) (iRelValue J) app
      \<lparr>AppInstanceId = [], relNamespace = ns, RepoAddr = iAddress J, AppDir = path_of [''infrastructure'', i]\<rparr>
      infra vals = Inr (ren, cfg)"
    and "render_ok ren" and "iCfgParse J (iJsonOf J cfg) = Inr cfg"
  shows "\<exists>r'. infra_Install J app (path_of [''infrastructure'', i]) ns vals w
      = (w\<lparr>wRepo := r', wNamespaces := wNamespaces w @ [ns]\<rparr>, Installed [])
    \<and> infra_FindInstance J i r' = Inr (cfg\<lparr>iaId := i\<rparr>) \<and> infra_frame J i (wRepo w) r'"
proof -
  let ?w = "w\<lparr>wNamespaces := wNamespaces w @ [ns]\<rparr>"
  have pull: "fst (Pull (iRepo J) (wRepo w)) = wRepo w" using assms(1) by (simp add: infra_ok_def Pull_def)
  have w: "infra_ok J (wRepo ?w)" using assms(1) by simp
  from infra_find_after_commit[OF w assms(2,3,7,8)] obtain r' where
    "infra_commit J False (path_of [''infrastructure'', i]) ren cfg ?w = (?w\<lparr>wRepo := r'\<rparr>, Installed [])"
    "infra_FindInstance J i r' = Inr (cfg\<lparr>iaId := i\<rparr>)" "infra_frame J i (wRepo w) r'" by auto
  then show ?thesis
    using assms(2,4-6)
    by (intro exI[of _ r']) (simp add: infra_Install_def pull clean_path_of Let_def)
qed

lemma infra_update_ok:
  assumes "infra_ok J (wRepo w)" and "comp_ok i" "i \<noteq> ''kustomization.yaml''"
    and "infra_Config J (wRepo w) = Inr infra"
    and "tree (wRepo w) (path_of [''infrastructure'', i, ''config.json'']) = Some (iJsonOf J old)"
    and "infra_Render (iValue J) (iRelValue J) app
      \<lparr>AppInstanceId = i, relNamespace = relNamespace (iaRelease old), RepoAddr = iAddress J,
       AppDir = path_of [''infrastructure'', i]\<rparr> infra vals = Inr (ren, cfg)"
    and "render_ok ren" and "\<forall>c \<in> {old, cfg}. iCfgParse J (iJsonOf J c) = Inr c"
  shows "\<exists>r'. infra_Update J app i vals False w = (w\<lparr>wRepo := r'\<rparr>, Installed [])
    \<and> infra_FindInstance J i r' = Inr (cfg\<lparr>iaId := i\<rparr>)"
proof -
  have E: "repo_healthy (iRepo J)" "pullTree (iRepo J) = id" "iCfgParse J (iJsonOf J old) = Inr old"
      "iCfgParse J (iJsonOf J cfg) = Inr cfg"
    using assms(1,8) by (auto simp: infra_ok_def)
  then have pull: "fst (Pull (iRepo J) (wRepo w)) = wRepo w" by (simp add: Pull_def)
  from infra_find_after_commit[OF assms(1,2,3,7) E(4)] obtain r' where
    r': "infra_commit J False (path_of [''infrastructure'', i]) ren cfg w = (w\<lparr>wRepo := r'\<rparr>, Installed [])"
      "infra_FindInstance J i r' = Inr (cfg\<lparr>iaId := i\<rparr>)" by blast
  have "infra_Update J app i vals False w = (w\<lparr>wRepo := r'\<rparr>, Installed [])"
    using assms(4,6) r'(1) infra_read_config[OF E(1) assms(2,5)] E(3)
    by (simp add: infra_Update_def pull Let_def infra_paths[OF assms(2)])
  with r'(2) show ?thesis by blast
qed

text \<open>Updating an application of the infrastructure. When rendering succeeds and no operation fails,
  the instance is found afterwards with the new values and in the namespace it was installed in, and
  no namespace is created.
\<close>
theorem infra_update_keeps_namespace:
  assumes "infra_ok J (wRepo w)" and "comp_ok i" "i \<noteq> ''kustomization.yaml''"
    and "infra_Config J (wRepo w) = Inr infra"
    and "tree (wRepo w) (path_of [''infrastructure'', i, ''config.json'']) = Some (iJsonOf J old)"
    and "infra_Render (iValue J) (iRelValue J) app
      \<lparr>AppInstanceId = i, relNamespace = relNamespace (iaRelease old), RepoAddr = iAddress J,
       AppDir = path_of [''infrastructure'', i]\<rparr> infra vals = Inr (ren, cfg)"
    and "render_ok ren" and "\<forall>c \<in> {old, cfg}. iCfgParse J (iJsonOf J c) = Inr c"
  shows "\<exists>w' cfg'. infra_Update J app i vals False w = (w', Installed [])
    \<and> infra_FindInstance J i (wRepo w') = Inr cfg'
    \<and> iaId cfg' = i \<and> iaAppId cfg' = Slug app \<and> iaValues cfg' = vals
    \<and> relNamespace (iaRelease cfg') = relNamespace (iaRelease old) \<and> wNamespaces w' = wNamespaces w"
proof -
  have "iaAppId cfg = Slug app \<and> iaValues cfg = vals \<and> relNamespace (iaRelease cfg) = relNamespace (iaRelease old)"
    using assms(6) by (auto simp: infra_Render_def bindE_eq_Inr)
  with infra_update_ok[OF assms] show ?thesis by auto
qed

subsection \<open>A concrete infrastructure\<close>

definition example_old :: InfraAppInstanceConfig where
  "example_old = zero_infra_config\<lparr>iaRelease := zero_release\<lparr>relNamespace := ''infra-git''\<rparr>\<rparr>"

definition example_updated :: InfraAppInstanceConfig where
  "example_updated = \<lparr>iaId = [], iaAppId = ''git'', iaInfra = zero_infra,
     iaRelease = \<lparr>AppInstanceId = ''git'', relNamespace = ''infra-git'', RepoAddr = [],
       AppDir = path_of [''infrastructure'', ''git'']\<rparr>,
     iaValues = [(''size'', GStr ''1'')], iaInput = [(''size'', GStr ''1'')], iaURL = [], iaHelp = [], iaIcon = []\<rparr>"

definition example_infra :: infraenv where
  "example_infra = \<lparr>iRepo = example_repoenv, iAddress = [], iParse = (\<lambda>_. Inr zero_infra), iYamlOf = (\<lambda>_. []),
     iJsonOf = iaAppId, iCfgParse = (\<lambda>x. Inr (if x = [] then example_old else example_updated)),
     iValue = (\<lambda>_. GNil), iRelValue = (\<lambda>_. GNil), iNsCreate = (\<lambda>_. None)\<rparr>"

definition example_infra_world :: world where
  "example_infra_world = \<lparr>wRepo = empty_repo\<lparr>tree := [tree_key ''config.yaml'' \<mapsto> [],
      path_of [''infrastructure'', ''git'', ''config.json''] \<mapsto> []]\<rparr>, wNamespaces = [], wPortRequests = []\<rparr>"

definition example_infra_rendered :: rendered where
  "example_infra_rendered = empty_rendered\<lparr>renName := ''git'', renResources := [(''git.yaml'', ''x'')],
     renData := [(''rendered.json'', ''{}'')]\<rparr>"

theorem infra_update_keeps_namespace_witness:
  "\<exists>w' cfg'. infra_Update example_infra example_app ''git'' [(''size'', GStr ''1'')] False example_infra_world = (w', Installed [])
    \<and> infra_FindInstance example_infra ''git'' (wRepo w') = Inr cfg'
    \<and> relNamespace (iaRelease cfg') = ''infra-git''"
proof -
  have slug: "Slug example_app = ''git''" by (simp add: example_app_def) code_simp
  have clean: "cleanName ''git'' = ''git''" by code_simp
  have "infra_ok example_infra (wRepo example_infra_world)"
    by (simp add: infra_ok_def example_infra_def)
  moreover have "infra_Config example_infra (wRepo example_infra_world) = Inr zero_infra"
    by (simp add: infra_Config_def example_infra_def repo_Reader_def example_infra_world_def)
  moreover have "infra_Render (iValue example_infra) (iRelValue example_infra) example_app
      \<lparr>AppInstanceId = ''git'', relNamespace = relNamespace (iaRelease example_old), RepoAddr = iAddress example_infra,
       AppDir = path_of [''infrastructure'', ''git'']\<rparr> zero_infra [(''size'', GStr ''1'')]
      = Inr (example_infra_rendered, example_updated)"
    unfolding infra_Render_def render_def slug
    by (simp add: example_app_def example_infra_def example_old_def example_infra_rendered_def empty_rendered_def
        example_updated_def data_put_def clean)
  moreover have "tree (wRepo example_infra_world) (path_of [''infrastructure'', ''git'', ''config.json''])
      = Some (iJsonOf example_infra example_old)"
    by (simp add: example_infra_world_def example_infra_def example_old_def zero_infra_config_def)
  ultimately show ?thesis
    using infra_update_keeps_namespace[of example_infra example_infra_world "''git''" zero_infra example_old example_app
        "[(''size'', GStr ''1'')]" example_infra_rendered example_updated]
    by (auto simp: render_ok_def example_infra_rendered_def example_infra_def example_old_def
        example_updated_def zero_infra_config_def empty_rendered_def)
qed

end
