(* ===== verification/AppRepository.thy ===== *)
theory AppRepository
  imports AppManager
begin

text \<open>
  The repositories of applications (\<open>src/core/installer/app_repository.go\<close>): the built-in
  applications, those of a directory, those fetched as archives, and looking one up by name and type.

  Reading an embedded or stored file and making an application of CUE sources are functions of the
  environment, since the files and the CUE evaluator are not code of the repository. A failure of
  the built-in applications panics, which is \<open>None\<close>.
\<close>

section \<open>Applications and their types\<close>

datatype AppType = AppTypeInfra | AppTypeEnv

datatype App = cueEnvApp cueApp | cueInfraApp cueApp

fun app_Type :: "App \<Rightarrow> AppType" where
  "app_Type (cueEnvApp a) = AppTypeEnv"
| "app_Type (cueInfraApp a) = AppTypeInfra"

fun app_cue :: "App \<Rightarrow> cueApp" where
  "app_cue (cueEnvApp a) = a"
| "app_cue (cueInfraApp a) = a"

definition app_Slug :: "App \<Rightarrow> string" where
  "app_Slug a = Slug (app_cue a)"

text \<open>\<open>ParseCueAppConfig\<close> and what \<open>newCueApp\<close> decodes and looks up of its result.\<close>

record cue_config =
  ccDecode :: "(string, string \<times> string \<times> string \<times> string) result"
  ccInput :: cue_value
  ccEval :: "(string \<times> goval) list \<Rightarrow> cue_result"

definition newCueApp :: "cue_config \<Rightarrow> CueAppData \<Rightarrow> (string, cueApp) result" where
  "newCueApp config data =
     bindE (ccDecode config) (\<lambda>(name, namespace, description, icon).
     bindE (NewCueSchema ''input'' (ccInput config)) (\<lambda>schema.
       Inr \<lparr>appName = name, appDescription = description, appIcon = icon, appNamespace = namespace,
         appSchema = schema, appData = data, cueEval = ccEval config\<rparr>))"

type_synonym cue_parser = "CueAppData \<Rightarrow> (string, cue_config) result"

definition ParseAndCreateNewCueApp :: "cue_parser \<Rightarrow> CueAppData \<Rightarrow> (string, cueApp) result" where
  "ParseAndCreateNewCueApp parse data = bindE (parse data) (\<lambda>config. newCueApp config data)"

definition NewCueEnvApp :: "cue_parser \<Rightarrow> CueAppData \<Rightarrow> (string, App) result" where
  "NewCueEnvApp parse data = bindE (ParseAndCreateNewCueApp parse data) (\<lambda>a. Inr (cueEnvApp a))"

definition NewCueInfraApp :: "cue_parser \<Rightarrow> CueAppData \<Rightarrow> (string, App) result" where
  "NewCueInfraApp parse data = bindE (ParseAndCreateNewCueApp parse data) (\<lambda>a. Inr (cueInfraApp a))"

section \<open>Looking up\<close>

type_synonym repository = "App list"

definition app_Find :: "repository \<Rightarrow> string \<Rightarrow> (string, App) result" where
  "app_Find r name =
     (case find (\<lambda>a. app_Slug a = name) r of
        Some a \<Rightarrow> Inr a
      | None \<Rightarrow> Inl (''Application not found: '' @ name))"

definition GetAll :: "repository \<Rightarrow> (string, App list) result" where
  "GetAll r = Inr r"

definition FindEnvApp :: "repository \<Rightarrow> string \<Rightarrow> (string, cueApp) result" where
  "FindEnvApp r name =
     bindE (app_Find r name) (\<lambda>app. case app of cueEnvApp a \<Rightarrow> Inr a | cueInfraApp _ \<Rightarrow> Inl ''not found'')"

definition FindInfraApp :: "repository \<Rightarrow> string \<Rightarrow> (string, cueApp) result" where
  "FindInfraApp r name =
     bindE (app_Find r name) (\<lambda>app. case app of cueInfraApp a \<Rightarrow> Inr a | cueEnvApp _ \<Rightarrow> Inl ''not found'')"

section \<open>The built-in applications\<close>

definition storeEnvAppConfigs :: "string list" where
  "storeEnvAppConfigs =
     [''values-tmpl/url-shortener.cue'', ''values-tmpl/matrix.cue'', ''values-tmpl/vaultwarden.cue'',
      ''values-tmpl/gerrit.cue'', ''values-tmpl/jenkins.cue'', ''values-tmpl/zot.cue'',
      ''values-tmpl/soft-serve.cue'', ''values-tmpl/pihole.cue'', ''values-tmpl/rpuppy.cue'']"

definition envAppConfigs :: "string list" where
  "envAppConfigs =
     [''values-tmpl/certificate-issuer-private.cue'', ''values-tmpl/certificate-issuer-public.cue'',
      ''values-tmpl/appmanager.cue'', ''values-tmpl/core-auth.cue'', ''values-tmpl/headscale-user.cue'',
      ''values-tmpl/metallb-ipaddresspool.cue'', ''values-tmpl/private-network.cue'',
      ''values-tmpl/welcome.cue'', ''values-tmpl/memberships.cue'', ''values-tmpl/headscale.cue'',
      ''values-tmpl/launcher.cue'', ''values-tmpl/env-dns.cue'', ''values-tmpl/launcher.cue'']"

definition infraAppConfigs :: "string list" where
  "infraAppConfigs =
     [''values-tmpl/cert-manager.cue'', ''values-tmpl/config-repo.cue'', ''values-tmpl/csi-driver-smb.cue'',
      ''values-tmpl/dns-gateway.cue'', ''values-tmpl/env-manager.cue'', ''values-tmpl/fluxcd-reconciler.cue'',
      ''values-tmpl/headscale-controller.cue'', ''values-tmpl/ingress-public.cue'',
      ''values-tmpl/resource-renderer-controller.cue'', ''values-tmpl/hydra-maester.cue'']"

record appsenv =
  readTmpl :: "string \<Rightarrow> (string, string) result"
  parseCue :: cue_parser
  baseCue :: string
  envGlobalCue :: string
  infraGlobalCue :: string

fun create_apps ::
    "(CueAppData \<Rightarrow> (string, App) result) \<Rightarrow> appsenv \<Rightarrow> string \<Rightarrow> string list \<Rightarrow> App list option" where
  "create_apps new P global [] = Some []"
| "create_apps new P global (cfgFile # cfgs) =
     (case readTmpl P cfgFile of
        Inl _ \<Rightarrow> None
      | Inr contents \<Rightarrow>
          (case new [(''base.cue'', baseCue P), (''global.cue'', global), (''app.cue'', contents)] of
             Inl _ \<Rightarrow> None
           | Inr app \<Rightarrow> map_option ((#) app) (create_apps new P global cfgs)))"

definition CreateEnvApps :: "appsenv \<Rightarrow> string list \<Rightarrow> App list option" where
  "CreateEnvApps P configs = create_apps (NewCueEnvApp (parseCue P)) P (envGlobalCue P) configs"

definition createInfraApps :: "appsenv \<Rightarrow> App list option" where
  "createInfraApps P = create_apps (NewCueInfraApp (parseCue P)) P (infraGlobalCue P) infraAppConfigs"

definition CreateStoreApps :: "appsenv \<Rightarrow> App list option" where
  "CreateStoreApps P = CreateEnvApps P storeEnvAppConfigs"

definition CreateAllApps :: "appsenv \<Rightarrow> App list option" where
  "CreateAllApps P =
     (case createInfraApps P of
        None \<Rightarrow> None
      | Some infra \<Rightarrow>
          (case CreateEnvApps P storeEnvAppConfigs of
             None \<Rightarrow> None
           | Some store \<Rightarrow> map_option (\<lambda>env. infra @ store @ env) (CreateEnvApps P envAppConfigs)))"

section \<open>Applications of a directory\<close>

text \<open>
  The directories of a file system with the applications in them: entries with a flag that says
  whether they are directories, and the errors of opening, copying and changing the root.
\<close>

record appfs =
  fsReadDir :: "string \<Rightarrow> (string, (string \<times> bool) list) result"
  fsChrootErr :: "string \<Rightarrow> string option"
  fsRead :: "string \<Rightarrow> string \<Rightarrow> (string, string) result"

fun read_all :: "(string \<Rightarrow> (string, string) result) \<Rightarrow> (string \<times> bool) list \<Rightarrow> string \<Rightarrow> (string, string) result" where
  "read_all rd [] acc = Inr acc"
| "read_all rd ((n, isDir) # is) acc =
     (if isDir then read_all rd is acc else bindE (rd n) (\<lambda>x. read_all rd is (acc @ x)))"

definition loadApp :: "appsenv \<Rightarrow> appfs \<Rightarrow> string \<Rightarrow> (string, App) result" where
  "loadApp P F dir =
     bindE (fsReadDir F dir) (\<lambda>items.
     bindE (read_all (fsRead F dir) items []) (\<lambda>contents.
       NewCueEnvApp (parseCue P) [(''base.cue'', baseCue P), (''app.cue'', contents)]))"

fun load_apps :: "appsenv \<Rightarrow> appfs \<Rightarrow> (string \<times> bool) list \<Rightarrow> (string, App list) result" where
  "load_apps P F [] = Inr []"
| "load_apps P F ((n, isDir) # es) =
     (if \<not> isDir then load_apps P F es
      else
        (case fsChrootErr F n of
           Some e \<Rightarrow> Inl e
         | None \<Rightarrow>
             (case loadApp P F n of
                Inl _ \<Rightarrow> load_apps P F es
              | Inr app \<Rightarrow> bindE (load_apps P F es) (\<lambda>apps. Inr (app # apps)))))"

definition NewFSAppRepository :: "appsenv \<Rightarrow> appfs \<Rightarrow> (string, repository) result" where
  "NewFSAppRepository P F = bindE (fsReadDir F ''.'') (load_apps P F)"

section \<open>Archives\<close>

datatype tar_entry = TypeDir string | TypeReg string string | TypeOther string

text \<open>The entries of an archive, and the error its reader ends with (\<open>None\<close> is the end of the file).\<close>

record archive =
  gzipErr :: "string option"
  tarEntries :: "tar_entry list"
  tarErr :: "string option"

record storage =
  fsDirs :: "string set"
  fsFiles :: "string \<rightharpoonup> string"

text \<open>
  \<open>mkdirErr\<close> and \<open>createErr\<close> are the failures of the file system, \<open>copyErr\<close> that of copying an entry: the
  text that was written before it, and the error.
\<close>

record storage_faults =
  mkdirErr :: "string \<Rightarrow> string option"
  createErr :: "string \<Rightarrow> string option"
  copyErr :: "string \<Rightarrow> (string \<times> string) option"

fun extract_entries ::
    "storage_faults \<Rightarrow> string option \<Rightarrow> tar_entry list \<Rightarrow> storage \<Rightarrow> storage \<times> string option" where
  "extract_entries F eof [] s = (s, eof)"
| "extract_entries F eof (TypeDir n # es) s =
     (case mkdirErr F n of
        Some e \<Rightarrow> (s, Some e)
      | None \<Rightarrow> extract_entries F eof es (s\<lparr>fsDirs := insert n (fsDirs s)\<rparr>))"
| "extract_entries F eof (TypeReg n x # es) s =
     (case createErr F n of
        Some e \<Rightarrow> (s, Some e)
      | None \<Rightarrow>
          (case copyErr F n of
             Some (part, e) \<Rightarrow> (s\<lparr>fsFiles := (fsFiles s)(n \<mapsto> part)\<rparr>, Some e)
           | None \<Rightarrow> extract_entries F eof es (s\<lparr>fsFiles := (fsFiles s)(n \<mapsto> x)\<rparr>)))"
| "extract_entries F eof (TypeOther n # es) s = (s, Some (''Uknown type: '' @ n))"

definition extractApp :: "storage_faults \<Rightarrow> archive \<Rightarrow> storage \<Rightarrow> storage \<times> string option" where
  "extractApp F a s =
     (case gzipErr a of
        Some e \<Rightarrow> (s, Some e)
      | None \<Rightarrow> extract_entries F (tarErr a) (tarEntries a) s)"

text \<open>
  The index of a repository of applications, its entries in the order the map is walked, and the
  archives behind the addresses. An application is unpacked in a directory of its own; a version
  without an address panics, which is the result \<open>FetchPanic\<close>.
\<close>

record appVersion =
  avVersion :: string
  avUrls :: "string list"

datatype fetch_result = Fetched | FetchError string | FetchPanic

type_synonym directories = "string \<rightharpoonup> storage"

record fetchenv =
  getIndex :: "string \<Rightarrow> (string, (string \<times> appVersion list) list) result"
  getArchive :: "string \<Rightarrow> (string, archive) result"
  dirErr :: "string \<Rightarrow> string option"
  chrootErr :: "string \<Rightarrow> string option"
  faultsIn :: "string \<Rightarrow> storage_faults"

definition empty_storage :: storage where
  "empty_storage = \<lparr>fsDirs = {}, fsFiles = Map.empty\<rparr>"

fun fetch_versions ::
    "fetchenv \<Rightarrow> (string \<times> appVersion) list \<Rightarrow> directories \<Rightarrow> directories \<times> fetch_result" where
  "fetch_versions H [] d = (d, Fetched)"
| "fetch_versions H ((name, v) # vs) d =
     (case avUrls v of
        [] \<Rightarrow> (d, FetchPanic)
      | url # _ \<Rightarrow>
      (case getArchive H url of
        Inl e \<Rightarrow> (d, FetchError e)
      | Inr a \<Rightarrow>
      (let nameVersion = name @ ''-'' @ avVersion v in
       case dirErr H nameVersion of
         Some e \<Rightarrow> (d, FetchError e)
       | None \<Rightarrow>
       (let old = (case d nameVersion of None \<Rightarrow> empty_storage | Some st \<Rightarrow> st);
            d1 = d(nameVersion \<mapsto> old)
        in case chrootErr H nameVersion of
             Some e \<Rightarrow> (d1, FetchError e)
           | None \<Rightarrow>
               (case extractApp (faultsIn H nameVersion) a old of
                  (st, Some e) \<Rightarrow> (d(nameVersion \<mapsto> st), FetchError e)
                | (st, None) \<Rightarrow> fetch_versions H vs (d(nameVersion \<mapsto> st)))))))"

definition FetchAppsFromHTTPRepository :: "fetchenv \<Rightarrow> string \<Rightarrow> directories \<Rightarrow> directories \<times> fetch_result" where
  "FetchAppsFromHTTPRepository H addr d =
     (case getIndex H addr of
        Inl e \<Rightarrow> (d, FetchError e)
      | Inr entries \<Rightarrow>
          fetch_versions H (concat (map (\<lambda>(name, conf). map (Pair name) conf) entries)) d)"

section \<open>Correctness of the lookup\<close>

lemma app_Find_Inr: "app_Find r name = Inr a \<Longrightarrow> a \<in> set r \<and> app_Slug a = name"
  by (auto simp: app_Find_def find_Some_iff split: option.splits)

lemma FindEnvApp_Inr:
  "FindEnvApp r name = Inr a \<longleftrightarrow> app_Find r name = Inr (cueEnvApp a)"
  by (cases "app_Find r name") (auto simp: FindEnvApp_def split: App.splits)

lemma FindInfraApp_Inr:
  "FindInfraApp r name = Inr a \<longleftrightarrow> app_Find r name = Inr (cueInfraApp a)"
  by (cases "app_Find r name") (auto simp: FindInfraApp_def split: App.splits)

lemma app_Find_unique:
  assumes "a \<in> set r" and "app_Slug a = name" and "\<And>b. b \<in> set r \<Longrightarrow> app_Slug b = name \<Longrightarrow> b = a"
  shows "app_Find r name = Inr a"
proof -
  have "\<exists>b. find (\<lambda>a. app_Slug a = name) r = Some b"
    using assms(1,2) by (metis (mono_tags, lifting) find_None_iff not_None_eq)
  then obtain b where b: "find (\<lambda>a. app_Slug a = name) r = Some b" ..
  then have "b \<in> set r" "app_Slug b = name" by (auto simp: find_Some_iff)
  with assms(3) b show ?thesis by (auto simp: app_Find_def)
qed

lemma create_apps_type:
  assumes "\<And>d a. new d = Inr a \<Longrightarrow> app_Type a = ty" and "create_apps new P g cfgs = Some as"
  shows "length as = length cfgs \<and> (\<forall>a \<in> set as. app_Type a = ty)"
  using assms(2)
proof (induction cfgs arbitrary: as)
  case (Cons c cfgs)
  then show ?case by (auto split: sum.splits dest: assms(1))
qed simp

lemma CreateAllApps_types:
  assumes "CreateAllApps P = Some as"
  shows "\<exists>infra env. as = infra @ env \<and> length infra = 10 \<and> length env = 22
    \<and> (\<forall>a \<in> set infra. app_Type a = AppTypeInfra) \<and> (\<forall>a \<in> set env. app_Type a = AppTypeEnv)"
proof -
  from assms obtain infra store env where h: "createInfraApps P = Some infra"
    "CreateEnvApps P storeEnvAppConfigs = Some store" "CreateEnvApps P envAppConfigs = Some env"
    "as = infra @ store @ env" by (auto simp: CreateAllApps_def split: option.splits)
  have n: "NewCueEnvApp p d = Inr a \<Longrightarrow> app_Type a = AppTypeEnv"
    "NewCueInfraApp p d = Inr a \<Longrightarrow> app_Type a = AppTypeInfra" for p d a
    by (auto simp: NewCueEnvApp_def NewCueInfraApp_def bindE_eq_Inr)
  have "length infra = 10 \<and> (\<forall>a \<in> set infra. app_Type a = AppTypeInfra)"
    using create_apps_type[OF n(2) h(1)[unfolded createInfraApps_def]] by (simp add: infraAppConfigs_def)
  moreover have "length store = 9 \<and> (\<forall>a \<in> set store. app_Type a = AppTypeEnv)"
    using create_apps_type[OF n(1) h(2)[unfolded CreateEnvApps_def]] by (simp add: storeEnvAppConfigs_def)
  moreover have "length env = 13 \<and> (\<forall>a \<in> set env. app_Type a = AppTypeEnv)"
    using create_apps_type[OF n(1) h(3)[unfolded CreateEnvApps_def]] by (simp add: envAppConfigs_def)
  ultimately show ?thesis using h(4) by (intro exI[of _ infra] exI[of _ "store @ env"]) auto
qed

text \<open>Built-in applications are found by name and type. There are ten infrastructure and twenty-two
  environment applications; one whose name no other has is found by the lookup for its type and by
  no other.
\<close>
theorem builtin_apps_by_type:
  assumes "CreateAllApps P = Some as" and "i < length as"
    and "\<And>b. b \<in> set as \<Longrightarrow> app_Slug b = app_Slug (as ! i) \<Longrightarrow> b = as ! i"
  shows "length as = 32 \<and>
    (if i < 10
     then FindInfraApp as (app_Slug (as ! i)) = Inr (app_cue (as ! i)) \<and> FindEnvApp as (app_Slug (as ! i)) = Inl ''not found''
     else FindEnvApp as (app_Slug (as ! i)) = Inr (app_cue (as ! i)) \<and> FindInfraApp as (app_Slug (as ! i)) = Inl ''not found'')"
proof -
  from CreateAllApps_types[OF assms(1)] obtain infra env where h: "as = infra @ env" "length infra = 10"
    "length env = 22" "\<forall>a \<in> set infra. app_Type a = AppTypeInfra" "\<forall>a \<in> set env. app_Type a = AppTypeEnv" by blast
  have f: "app_Find as (app_Slug (as ! i)) = Inr (as ! i)"
    by (rule app_Find_unique) (use assms(2,3) in auto)
  have ty: "app_Type (as ! i) = (if i < 10 then AppTypeInfra else AppTypeEnv)"
    using h assms(2) by (simp add: nth_append)
  show ?thesis
  proof (cases "as ! i")
    case (cueEnvApp a)
    with ty have "\<not> i < 10" by (auto split: if_splits)
    with f cueEnvApp h show ?thesis by (simp add: FindEnvApp_def FindInfraApp_def)
  next
    case (cueInfraApp a)
    with ty have "i < 10" by (auto split: if_splits)
    with f cueInfraApp h show ?thesis by (simp add: FindEnvApp_def FindInfraApp_def)
  qed
qed

text \<open>An evaluator that names every application after its file, and the names it gives.\<close>

definition base_name :: "string \<Rightarrow> string" where
  "base_name f = drop 12 (take (length f - 4) f)"

definition example_cue :: "string \<Rightarrow> CueAppData \<Rightarrow> cueApp" where
  "example_cue n d = \<lparr>appName = base_name n, appDescription = [], appIcon = [], appNamespace = [],
     appSchema = structSchema ''input'' [] False, appData = d, cueEval = cueEval example_app\<rparr>"

definition example_apps :: appsenv where
  "example_apps = \<lparr>readTmpl = (\<lambda>f. Inr f),
     parseCue = (\<lambda>d. Inr \<lparr>ccDecode = (case map_of d ''app.cue'' of None \<Rightarrow> Inl [] | Some n \<Rightarrow> Inr (base_name n, [], [], [])),
       ccInput = Cue None StructKind False False False [], ccEval = cueEval example_app\<rparr>),
     baseCue = [], envGlobalCue = [], infraGlobalCue = []\<rparr>"

definition example_data :: "string \<Rightarrow> CueAppData" where
  "example_data n = [(''base.cue'', []), (''global.cue'', []), (''app.cue'', n)]"

lemma example_CreateEnvApps:
  "CreateEnvApps example_apps cfgs = Some (map (\<lambda>n. cueEnvApp (example_cue n (example_data n))) cfgs)"
  by (induction cfgs) (simp_all add: CreateEnvApps_def NewCueEnvApp_def ParseAndCreateNewCueApp_def newCueApp_def
      example_apps_def example_cue_def example_data_def)

lemma example_createInfraApps:
  "createInfraApps example_apps = Some (map (\<lambda>n. cueInfraApp (example_cue n (example_data n))) infraAppConfigs)"
proof -
  have "create_apps (NewCueInfraApp (parseCue example_apps)) example_apps [] cfgs
      = Some (map (\<lambda>n. cueInfraApp (example_cue n (example_data n))) cfgs)" for cfgs
    by (induction cfgs) (simp_all add: NewCueInfraApp_def ParseAndCreateNewCueApp_def newCueApp_def
        example_apps_def example_cue_def example_data_def)
  then show ?thesis by (simp add: createInfraApps_def example_apps_def)
qed

lemma example_slugs:
  "list_all (\<lambda>n. Slug (example_cue n d) = ''dns-gateway'' \<longrightarrow> n = ''values-tmpl/dns-gateway.cue'') infraAppConfigs"
  "list_all (\<lambda>n. Slug (example_cue n d) \<noteq> ''dns-gateway'') (storeEnvAppConfigs @ envAppConfigs)"
  "Slug (example_cue ''values-tmpl/dns-gateway.cue'' d) = ''dns-gateway''"
  "list_all (\<lambda>n. Slug (example_cue n d) \<noteq> ''headscale-user'') infraAppConfigs"
  "list_all (\<lambda>n. Slug (example_cue n d) = ''headscale-user'' \<longrightarrow> n = ''values-tmpl/headscale-user.cue'')
     (storeEnvAppConfigs @ envAppConfigs)"
  "Slug (example_cue ''values-tmpl/headscale-user.cue'' d) = ''headscale-user''"
  by code_simp+

lemma example_slug_infra:
  "Slug (example_cue n d) = ''dns-gateway'' \<Longrightarrow> n \<in> set infraAppConfigs \<Longrightarrow> n = ''values-tmpl/dns-gateway.cue''"
  "Slug (example_cue n d) = ''headscale-user'' \<Longrightarrow> n \<notin> set infraAppConfigs"
  using example_slugs(1,4)[of d] unfolding list_all_iff by blast+

lemma example_slug_env:
  "Slug (example_cue n d) = ''dns-gateway'' \<Longrightarrow> n \<notin> set storeEnvAppConfigs \<and> n \<notin> set envAppConfigs"
  "Slug (example_cue n d) = ''headscale-user'' \<Longrightarrow> n \<in> set storeEnvAppConfigs \<union> set envAppConfigs
    \<Longrightarrow> n = ''values-tmpl/headscale-user.cue''"
  using example_slugs(2,5)[of d] unfolding list_all_iff by auto

lemma example_CreateAllApps:
  "CreateAllApps example_apps = Some (map (\<lambda>n. cueInfraApp (example_cue n (example_data n))) infraAppConfigs
     @ map (\<lambda>n. cueEnvApp (example_cue n (example_data n))) (storeEnvAppConfigs @ envAppConfigs))"
  by (simp add: CreateAllApps_def example_CreateEnvApps example_createInfraApps)

definition example_user_app :: cueApp where
  "example_user_app = example_cue ''values-tmpl/headscale-user.cue'' (example_data ''values-tmpl/headscale-user.cue'')"

lemma example_find_user:
  "\<exists>as. CreateAllApps example_apps = Some as \<and> FindEnvApp as ''headscale-user'' = Inr example_user_app"
proof -
  have mem: "''values-tmpl/headscale-user.cue'' \<in> set envAppConfigs" by (simp add: envAppConfigs_def)
  show ?thesis
    unfolding FindEnvApp_Inr example_CreateAllApps
    by (intro exI conjI, rule refl, rule app_Find_unique)
      (use mem in \<open>auto simp: app_Slug_def example_user_app_def example_slugs(6)
        dest: example_slug_infra example_slug_env\<close>)
qed

theorem builtin_apps_by_type_witness:
  "\<exists>as. CreateAllApps example_apps = Some as
    \<and> FindInfraApp as ''dns-gateway'' = Inr (app_cue (as ! 3))
    \<and> FindEnvApp as ''dns-gateway'' = Inl ''not found''"
proof -
  let ?infra = "map (\<lambda>n. cueInfraApp (example_cue n (example_data n))) infraAppConfigs"
  let ?env = "map (\<lambda>n. cueEnvApp (example_cue n (example_data n))) (storeEnvAppConfigs @ envAppConfigs)"
  have as: "CreateAllApps example_apps = Some (?infra @ ?env)"
    by (rule example_CreateAllApps)
  let ?dns = "''values-tmpl/dns-gateway.cue''"
  have third: "(?infra @ ?env) ! 3 = cueInfraApp (example_cue ?dns (example_data ?dns))"
    by (simp add: infraAppConfigs_def)
  have slug: "app_Slug ((?infra @ ?env) ! 3) = ''dns-gateway''"
    unfolding third by (simp add: app_Slug_def example_slugs(3))
  have uniq: "b = (?infra @ ?env) ! 3" if "b \<in> set (?infra @ ?env)" "app_Slug b = app_Slug ((?infra @ ?env) ! 3)" for b
  proof -
    have "app_Slug b = ''dns-gateway''" using that(2) slug by (rule trans)
    with that(1) show ?thesis
      unfolding third by (auto simp: app_Slug_def dest: example_slug_infra example_slug_env)
  qed
  have "3 < length (?infra @ ?env)" by (simp add: infraAppConfigs_def)
  from builtin_apps_by_type[OF as this uniq] as show ?thesis unfolding slug by auto
qed

end
