(* ===== verification/EnvServer.thy ===== *)
theory EnvServer
  imports InfraManager
begin

text \<open>
  The environment manager (\<open>src/core/installer/welcome/env.go\<close>, with the random names of
  \<open>name.go\<close> and \<open>namespace.go\<close>): creating an environment registers a subnet for it in the
  configuration repository and starts a task; invitations are a file of JSON documents.

  Rendering of pages, the zone fetcher and the DNS provider are functions of the environment. The
  task itself is in theory \<open>Tasks\<close>; here it is remembered by the environment it was made for.
\<close>

section \<open>Random names\<close>

definition letter :: "byte \<Rightarrow> char" where
  "letter v = char_of (97 + unat v mod 26)"

text \<open>\<open>Generate\<close> on the outcome of \<open>rand.Read\<close>; the suffix generator prepends a dash.\<close>

definition generateName :: "(string, byte list) result \<Rightarrow> (string, string) result" where
  "generateName rnd = bindE rnd (\<lambda>bs. Inr (map letter bs))"

definition generateSuffix :: "(string, byte list) result \<Rightarrow> (string, string) result" where
  "generateSuffix rnd = bindE rnd (\<lambda>bs. Inr (''-'' @ map letter bs))"

definition prefixGenerate :: "string \<Rightarrow> string \<Rightarrow> string" where
  "prefixGenerate prefix name = prefix @ name"

section \<open>The environment\<close>

record EnvDNS =
  Zone :: string
  Address :: string

type_synonym Status = string

definition StatusActive :: Status where
  "StatusActive = ''ACTIVE''"

definition StatusAccepted :: Status where
  "StatusAccepted = ''ACCEPTED''"

lemma Status_distinct [simp]: "StatusActive \<noteq> StatusAccepted" "StatusAccepted \<noteq> StatusActive"
  by (simp_all add: StatusActive_def StatusAccepted_def)

record invitation =
  Token :: string
  Status :: Status

text \<open>
  What a JSON decoder reads from the invitations file: documents, some of which fail to decode into
  an invitation (the decoder leaves what it has and goes on), and then the end of the file or a
  syntax error, which the decoder returns for ever.
\<close>

record inv_stream =
  invItems :: "invitation list"
  invBroken :: bool

record servenv =
  srvRepo :: repoenv
  infraParse :: "string \<Rightarrow> (string, InfraConfig) result"
  cidrsText :: "EnvCIDR list \<Rightarrow> string"
  cidrsParse :: "string \<Rightarrow> (string, EnvCIDR list) result"
  invText :: "invitation list \<Rightarrow> string"
  invParse :: "string \<Rightarrow> inv_stream"
  zoneFetch :: "string \<Rightarrow> (string, string) result"
  dnsUpdate :: "string \<Rightarrow> string \<Rightarrow> string list \<Rightarrow> string option"
  pageErr :: "string option"
  writeErr :: "string option"

record server =
  srepo :: repo
  Tasks :: "string \<rightharpoonup> EnvConfig"
  envInfo :: "string \<rightharpoonup> string"
  dnsOf :: "string \<rightharpoonup> EnvDNS"
  dnsPublished :: "string set"

datatype env_page = StatusPage EnvConfig string string | FormPage | OKPage

section \<open>Forms\<close>

definition getFormValue :: "(string \<rightharpoonup> string list) \<Rightarrow> string \<Rightarrow> (string, string) result" where
  "getFormValue v name =
     (case v name of
        Some [x] \<Rightarrow> Inr x
      | _ \<Rightarrow> Inl (name @ '' not found''))"

record createEnvReq =
  reqName :: string
  reqContactEmail :: string
  reqDomain :: string
  reqAdminPublicKey :: string
  reqSecretToken :: string

definition zero_req :: createEnvReq where
  "zero_req = \<lparr>reqName = [], reqContactEmail = [], reqDomain = [], reqAdminPublicKey = [], reqSecretToken = []\<rparr>"

text \<open>Fields are assigned in order until a value is missing; that field is then empty.\<close>

fun fill_form ::
    "(string \<rightharpoonup> string list) \<Rightarrow> (string \<times> ((string \<Rightarrow> string) \<Rightarrow> 'r \<Rightarrow> 'r)) list \<Rightarrow> 'r \<Rightarrow> 'r \<times> string option" where
  "fill_form form [] req = (req, None)"
| "fill_form form ((name, upd) # fs) req =
     (case getFormValue form name of
        Inl e \<Rightarrow> (upd (\<lambda>_. []) req, Some e)
      | Inr x \<Rightarrow> fill_form form fs (upd (\<lambda>_. x) req))"

definition decode_createEnvReq :: "createEnvReq decoder" where
  "decode_createEnvReq = decode_struct
     [''name'' \<mapsto> on_field reqName reqName_update decode_string,
      ''contactemail'' \<mapsto> on_field reqContactEmail reqContactEmail_update decode_string,
      ''domain'' \<mapsto> on_field reqDomain reqDomain_update decode_string,
      ''adminpublickey'' \<mapsto> on_field reqAdminPublicKey reqAdminPublicKey_update decode_string,
      ''secrettoken'' \<mapsto> on_field reqSecretToken reqSecretToken_update decode_string]"

definition extractRequest :: "request \<Rightarrow> (string, json) result \<Rightarrow> (string, createEnvReq) result" where
  "extractRequest r body =
     (let (req, err) =
        (case formErr r of
           Some e \<Rightarrow> (zero_req, Some e)
         | None \<Rightarrow>
             fill_form (PostForm r)
               [(''secret-token'', reqSecretToken_update), (''domain'', reqDomain_update),
                (''contact-email'', reqContactEmail_update),
                (''admin-public-key'', reqAdminPublicKey_update)] zero_req)
      in case err of
           None \<Rightarrow> Inr req
         | Some _ \<Rightarrow> bindE body (\<lambda>doc. decode_createEnvReq doc req))"

section \<open>Invitations\<close>

text \<open>The loop ends only at the end of the file: on a syntax error it appends for ever.\<close>

partial_function (option) read_loop :: "invitation list \<Rightarrow> bool \<Rightarrow> invitation list \<Rightarrow> invitation list option" where
  "read_loop rest broken acc =
     (case rest of
        i # rest' \<Rightarrow> read_loop rest' broken (acc @ [i])
      | [] \<Rightarrow>
          if broken then read_loop [] broken (acc @ [\<lparr>Token = [], Status = []\<rparr>])
          else Some acc)"

definition readInvitations :: "servenv \<Rightarrow> repo \<Rightarrow> (string, invitation list) result option" where
  "readInvitations V r =
     (case repo_Reader (srvRepo V) ''invitations'' r of
        Inl e \<Rightarrow> Some (if e = notExist then Inr [] else Inl e)
      | Inr x \<Rightarrow> map_option Inr (read_loop (invItems (invParse V x)) (invBroken (invParse V x)) []))"

definition writeInvitations :: "servenv \<Rightarrow> invitation list \<Rightarrow> repo \<Rightarrow> repo \<times> string option" where
  "writeInvitations V is r =
     (case repo_write (srvRepo V) ''invitations'' (invText V is) r of
        (r', Some e) \<Rightarrow> (r', Some e)
      | (r', None) \<Rightarrow> CommitAndPush (srvRepo V) ''Generated new invitation'' r')"

fun accept_first :: "string \<Rightarrow> invitation list \<Rightarrow> invitation list option" where
  "accept_first token [] = None"
| "accept_first token (i # is) =
     (if Token i = token \<and> Status i = StatusActive then Some (i\<lparr>Status := StatusAccepted\<rparr> # is)
      else map_option ((#) i) (accept_first token is))"

definition acceptInvitation :: "servenv \<Rightarrow> string \<Rightarrow> repo \<Rightarrow> (repo \<times> string option) option" where
  "acceptInvitation V token r =
     (case readInvitations V r of
        None \<Rightarrow> None
      | Some (Inl e) \<Rightarrow> Some (r, Some e)
      | Some (Inr is) \<Rightarrow>
          (case accept_first token is of
             None \<Rightarrow> Some (r, Some ''Invitation not found'')
           | Some is' \<Rightarrow> Some (writeInvitations V is' r)))"

text \<open>A handler that never answers has no response.\<close>

definition createInvitation ::
    "servenv \<Rightarrow> (string, byte list) result \<Rightarrow> server \<Rightarrow> server \<times> env_page response option" where
  "createInvitation V rnd s =
     (case readInvitations V (srepo s) of
        None \<Rightarrow> (s, None)
      | Some (Inl e) \<Rightarrow> (s, Some (HttpError StatusInternalServerError e))
      | Some (Inr is) \<Rightarrow>
          (case generateName rnd of
             Inl e \<Rightarrow> (s, Some (HttpError StatusInternalServerError e))
           | Inr token \<Rightarrow>
               (case writeInvitations V (is @ [\<lparr>Token = token, Status = StatusActive\<rparr>]) (srepo s) of
                  (r', Some e) \<Rightarrow> (s\<lparr>srepo := r'\<rparr>, Some (HttpError StatusInternalServerError e))
                | (r', None) \<Rightarrow>
                    (s\<lparr>srepo := r'\<rparr>, Some (case writeErr V of
                       Some e \<Rightarrow> HttpError StatusInternalServerError e
                     | None \<Rightarrow> Page OKPage)))))"

section \<open>Handlers\<close>

definition monitorTask :: "servenv \<Rightarrow> request \<Rightarrow> server \<Rightarrow> env_page response" where
  "monitorTask V r s =
     (case Vars r ''key'' of
        None \<Rightarrow> HttpError StatusBadRequest ''Task key not provided''
      | Some key \<Rightarrow>
          (case Tasks s key of
             None \<Rightarrow> HttpError StatusBadRequest ''Task not found''
           | Some t \<Rightarrow>
               (let show = (\<lambda>recs. case pageErr V of
                      Some e \<Rightarrow> HttpError StatusInternalServerError e
                    | None \<Rightarrow> Page (StatusPage t (case envInfo s key of None \<Rightarrow> [] | Some i \<Rightarrow> i) recs))
                in if key \<in> dnsPublished s then show []
                   else
                     (case dnsOf s key of
                        None \<Rightarrow> HttpError StatusInternalServerError ''Task dns configuration not found''
                      | Some ref \<Rightarrow> show (case zoneFetch V (Address ref) of Inl _ \<Rightarrow> [] | Inr x \<Rightarrow> x)))))"

definition publishDNSRecords :: "servenv \<Rightarrow> request \<Rightarrow> server \<Rightarrow> server \<times> env_page response" where
  "publishDNSRecords V r s =
     (case Vars r ''key'' of
        None \<Rightarrow> (s, HttpError StatusBadRequest ''Task key not provided'')
      | Some key \<Rightarrow>
          (case dnsOf s key of
             None \<Rightarrow> (s, HttpError StatusInternalServerError ''Task dns configuration not found'')
           | Some ref \<Rightarrow>
               (case zoneFetch V (Address ref) of
                  Inl _ \<Rightarrow> (s, HttpError StatusInternalServerError ''Task dns configuration not found'')
                | Inr recs \<Rightarrow>
                    (case getFormValue (PostForm r) ''api-token'' of
                       Inl e \<Rightarrow> (s, HttpError StatusBadRequest e)
                     | Inr apiToken \<Rightarrow>
                         (let zone = join_with ''.'' (tl (split_on (CHR ''.'') (Zone ref))) in
                          case dnsUpdate V apiToken zone (split_on (CHR 0x0A) recs) of
                            Some e \<Rightarrow> (s, HttpError StatusInternalServerError e)
                          | None \<Rightarrow>
                              (s\<lparr>envInfo := (envInfo s)(key \<mapsto>
                                   ''Successfully published DNS records, waiting to propagate.''),
                                 dnsPublished := insert key (dnsPublished s)\<rparr>,
                               Redirect StatusSeeOther (''/env/'' @ key)))))))"

definition createEnvForm :: "servenv \<Rightarrow> env_page response" where
  "createEnvForm V = (case pageErr V of Some e \<Rightarrow> HttpError StatusInternalServerError e | None \<Rightarrow> Page FormPage)"

text \<open>The DNS reference \<open>NewCreateEnvTask\<close> returns beside the task.\<close>

definition envDNS :: "EnvConfig \<Rightarrow> EnvDNS" where
  "envDNS env = \<lparr>Zone = EnvDomain env,
     Address = ''http://dns-api.'' @ NamespacePrefix env @ ''dns.svc.cluster.local/records-to-publish''\<rparr>"

text \<open>
  The key of a task: the generator is asked until it succeeds. Its outcomes are a list; \<open>None\<close> means
  that none of them is a success, so that the loop is still running.
\<close>

fun first_key :: "(string, byte list) result list \<Rightarrow> string option" where
  "first_key [] = None"
| "first_key (rnd # rnds) = (case generateName rnd of Inr k \<Rightarrow> Some k | Inl _ \<Rightarrow> first_key rnds)"

definition read_file :: "servenv \<Rightarrow> string \<Rightarrow> (string \<Rightarrow> (string, 'a) result) \<Rightarrow> repo \<Rightarrow> (string, 'a) result" where
  "read_file V path parse r =
     bindE (repo_Reader (srvRepo V) path r) (\<lambda>x.
     case billyFault (srvRepo V) BReadAll (tree_key path) of Some e \<Rightarrow> Inl e | None \<Rightarrow> parse x)"

definition new_env :: "createEnvReq \<Rightarrow> string \<Rightarrow> InfraConfig \<Rightarrow> EnvNetwork \<Rightarrow> EnvConfig" where
  "new_env req name infra net =
     \<lparr>EnvId = name, InfraName = infraName infra, EnvDomain = reqDomain req,
      PrivateDomain = ''p.'' @ reqDomain req, ContactEmail = reqContactEmail req,
      AdminPublicKey = reqAdminPublicKey req, PublicIP = infraPublicIP infra,
      NameserverIP = infraPublicIP infra, NamespacePrefix = name @ ''-'', EnvNet = net\<rparr>"

text \<open>Everything up to the pushed registry: the new environment, or the error that is answered.\<close>

definition allocate_env ::
    "servenv \<Rightarrow> (string, createEnvReq) result \<Rightarrow> (string, byte list) result \<Rightarrow> repo \<Rightarrow>
     repo \<times> (string, EnvConfig) result" where
  "allocate_env V extracted rnd r =
     (let r1 = fst (Pull (srvRepo V) r) in
      case extracted of
        Inl e \<Rightarrow> (r1, Inl e)
      | Inr req \<Rightarrow>
      (case read_file V ''config.yaml'' (infraParse V) r1 of
        Inl e \<Rightarrow> (r1, Inl e)
      | Inr infra \<Rightarrow>
      (case generateName rnd of
        Inl e \<Rightarrow> (r1, Inl e)
      | Inr name \<Rightarrow>
      (case read_file V ''env-cidrs.yaml'' (cidrsParse V) r1 of
        Inl e \<Rightarrow> (r1, Inl e)
      | Inr cidrs \<Rightarrow>
      (case findNextStartIP cidrs of
        Inl e \<Rightarrow> (r1, Inl e)
      | Inr startIP \<Rightarrow>
          andThen (repo_write (srvRepo V) ''env-cidrs.yaml''
              (cidrsText V (cidrs @ [\<lparr>cidrName = name, cidrIP = startIP\<rparr>])) r1) (\<lambda>r2.
          andThen (CommitAndPush (srvRepo V) (''Allocate CIDR for '' @ name) r2) (\<lambda>r3.
            (r3, bindE (NewEnvNetwork startIP) (\<lambda>net. Inr (new_env req name infra net))))))))))"

definition createEnv ::
    "servenv \<Rightarrow> request \<Rightarrow> (string, json) result \<Rightarrow> (string, byte list) result \<Rightarrow>
     (string, byte list) result list \<Rightarrow> server \<Rightarrow> server \<times> env_page response option" where
  "createEnv V r body rnd keys s =
     (case allocate_env V (extractRequest r body) rnd (srepo s) of
        (r', Inl e) \<Rightarrow> (s\<lparr>srepo := r'\<rparr>, Some (HttpError StatusInternalServerError e))
      | (r', Inr env) \<Rightarrow>
          (case first_key keys of
             None \<Rightarrow> (s\<lparr>srepo := r'\<rparr>, None)
           | Some key \<Rightarrow>
               (s\<lparr>srepo := r', Tasks := (Tasks s)(key \<mapsto> env), dnsOf := (dnsOf s)(key \<mapsto> envDNS env)\<rparr>,
                Some (Redirect StatusSeeOther (''/env/'' @ key)))))"

section \<open>The server\<close>

datatype env_call =
    CreateEnv request "(string, json) result" "(string, byte list) result" "(string, byte list) result list"
  | CreateInvitation "(string, byte list) result"
  | PublishDNS request
  | Monitor request

fun serve_env :: "servenv \<Rightarrow> env_call \<Rightarrow> server \<Rightarrow> server \<times> env_page response option" where
  "serve_env V (CreateEnv r body rnd keys) s = createEnv V r body rnd keys s"
| "serve_env V (CreateInvitation rnd) s = createInvitation V rnd s"
| "serve_env V (PublishDNS r) s = (let (s', w) = publishDNSRecords V r s in (s', Some w))"
| "serve_env V (Monitor r) s = (s, Some (monitorTask V r s))"

section \<open>The registry of subnets\<close>

definition registry :: "servenv \<Rightarrow> repo \<Rightarrow> EnvCIDR list option" where
  "registry V r =
     (case tree r (tree_key ''env-cidrs.yaml'') of
        None \<Rightarrow> None
      | Some x \<Rightarrow> (case cidrsParse V x of Inl _ \<Rightarrow> None | Inr cs \<Rightarrow> Some cs))"

text \<open>An environment without failures whose codecs print what they parse.\<close>

definition srv_env :: "servenv \<Rightarrow> bool" where
  "srv_env V \<longleftrightarrow> repo_healthy (srvRepo V) \<and> pullTree (srvRepo V) = id
     \<and> (\<forall>cs. cidrsParse V (cidrsText V cs) = Inr cs)
     \<and> (\<forall>is. invParse V (invText V is) = \<lparr>invItems = is, invBroken = False\<rparr>)"

lemma file_keys: "tree_key ''env-cidrs.yaml'' \<noteq> tree_key ''invitations''"
  by code_simp

lemma registry_read:
  "srv_env V \<Longrightarrow> registry V r = Some cs \<longleftrightarrow> read_file V ''env-cidrs.yaml'' (cidrsParse V) r = Inr cs"
  by (auto simp: registry_def read_file_def repo_Reader_def srv_env_def split: option.splits sum.splits)

lemma Pull_id: "srv_env V \<Longrightarrow> fst (Pull (srvRepo V) r) = r"
  by (simp add: srv_env_def Pull_def)

lemma register_cidrs:
  assumes "srv_env V"
  shows "\<exists>r2 r3. repo_write (srvRepo V) ''env-cidrs.yaml'' (cidrsText V cs) r = (r2, None)
    \<and> CommitAndPush (srvRepo V) msg r2 = (r3, None) \<and> registry V r3 = Some cs
    \<and> hd (remoteCommits r3) = (msg, tree r3)"
  using assms by (simp add: srv_env_def CommitAndPush_def Let_def registry_def)

text \<open>What one allocation does to the registry.\<close>

lemma allocate_env_cases:
  assumes V: "srv_env V" and h: "allocate_env V extracted rnd r = (r', x)"
  obtains (failed) e where "x = Inl e" "r' = r"
  | (allocated) req infra name cidrs ip where "extracted = Inr req" "generateName rnd = Inr name"
      "read_file V ''config.yaml'' (infraParse V) r = Inr infra"
      "registry V r = Some cidrs" "findNextStartIP cidrs = Inr ip"
      "registry V r' = Some (cidrs @ [\<lparr>cidrName = name, cidrIP = ip\<rparr>])"
      "hd (remoteCommits r') = (''Allocate CIDR for '' @ name, tree r')"
      "x = bindE (NewEnvNetwork ip) (\<lambda>net. Inr (new_env req name infra net))"
proof (cases "\<exists>req infra name cidrs ip. extracted = Inr req \<and> generateName rnd = Inr name
    \<and> read_file V ''config.yaml'' (infraParse V) r = Inr infra
    \<and> registry V r = Some cidrs \<and> findNextStartIP cidrs = Inr ip")
  case True
  then obtain req infra name cidrs ip where c: "extracted = Inr req" "generateName rnd = Inr name"
      "read_file V ''config.yaml'' (infraParse V) r = Inr infra"
      "registry V r = Some cidrs" "findNextStartIP cidrs = Inr ip" by blast
  from c(4) V have rd: "read_file V ''env-cidrs.yaml'' (cidrsParse V) r = Inr cidrs" by (simp add: registry_read)
  from register_cidrs[OF V, of "cidrs @ [\<lparr>cidrName = name, cidrIP = ip\<rparr>]" r "''Allocate CIDR for '' @ name"]
  obtain r2 r3 where
    "repo_write (srvRepo V) ''env-cidrs.yaml'' (cidrsText V (cidrs @ [\<lparr>cidrName = name, cidrIP = ip\<rparr>])) r = (r2, None)"
    "CommitAndPush (srvRepo V) (''Allocate CIDR for '' @ name) r2 = (r3, None)"
    "registry V r3 = Some (cidrs @ [\<lparr>cidrName = name, cidrIP = ip\<rparr>])"
    "hd (remoteCommits r3) = (''Allocate CIDR for '' @ name, tree r3)" by blast
  with c rd h allocated[OF c] show ?thesis by (simp add: allocate_env_def Let_def Pull_id[OF V])
next
  case False
  have "\<exists>e. x = Inl e \<and> r' = r"
    using h False registry_read[OF V, of r]
    by (auto simp: allocate_env_def Let_def Pull_id[OF V] split: sum.splits)
  with failed show ?thesis by blast
qed

definition registry_ok :: "servenv \<Rightarrow> server \<Rightarrow> bool" where
  "registry_ok V s \<longleftrightarrow> (case registry V (srepo s) of None \<Rightarrow> False | Some cs \<Rightarrow> cidrs_ok cs)"

lemma createEnv_registry:
  assumes "srv_env V" "registry_ok V s"
  shows "registry_ok V (fst (createEnv V r body rnd keys s))"
proof -
  obtain r' x where a: "allocate_env V (extractRequest r body) rnd (srepo s) = (r', x)" by (metis prod.exhaust)
  have "registry_ok V (s\<lparr>srepo := r'\<rparr>)"
    using assms(1) a
  proof (cases rule: allocate_env_cases)
    case failed
    with assms(2) show ?thesis by (simp add: registry_ok_def)
  next
    case (allocated req infra name cidrs ip)
    with assms(2) show ?thesis by (simp add: registry_ok_def allocate_step)
  qed
  with a show ?thesis by (auto simp: createEnv_def registry_ok_def split: sum.splits option.splits)
qed

lemma createInvitation_registry:
  "srv_env V \<Longrightarrow> registry V (srepo (fst (createInvitation V rnd s))) = registry V (srepo s)"
  using file_keys
  by (auto simp: createInvitation_def writeInvitations_def CommitAndPush_def Let_def srv_env_def
      registry_def split: option.splits sum.splits)

lemma serve_env_registry:
  assumes "srv_env V" "registry_ok V s"
  shows "registry_ok V (fst (serve_env V c s))"
proof (cases c)
  case (CreateEnv r body rnd keys)
  with assms show ?thesis by (simp add: createEnv_registry)
next
  case (CreateInvitation rnd)
  with assms show ?thesis by (simp add: registry_ok_def createInvitation_registry)
next
  case (PublishDNS r)
  have "srepo (fst (publishDNSRecords V r s)) = srepo s"
    by (simp add: publishDNSRecords_def Let_def split: option.split sum.split)
  with assms PublishDNS show ?thesis by (simp add: registry_ok_def case_prod_beta)
qed (simp add: assms)

interpretation es: service "serve_env V" "\<lambda>s. srv_env V \<longrightarrow> registry_ok V s" for V
  by unfold_locales (simp add: serve_env_registry)

section \<open>Reading and accepting invitations\<close>

lemma read_loop_total: "read_loop rest False acc = Some (acc @ rest)"
proof (induction rest arbitrary: acc)
  case Nil
  then show ?case by (subst read_loop.simps) simp
next
  case (Cons i rest)
  then show ?case by (subst read_loop.simps) simp
qed

lemma read_loop_broken: "read_loop rest broken acc = Some y \<Longrightarrow> \<not> broken"
  by (erule read_loop.raw_induct[of "\<lambda>rest broken acc y. \<not> broken", rotated])
    (auto split: list.splits if_splits)

lemma readInvitations_written:
  "srv_env V \<Longrightarrow> tree r (tree_key ''invitations'') = Some (invText V is) \<Longrightarrow> readInvitations V r = Some (Inr is)"
  by (simp add: readInvitations_def srv_env_def read_loop_total)

lemma writeInvitations_env:
  "srv_env V \<Longrightarrow> \<exists>r'. writeInvitations V is r = (r', None)
    \<and> tree r' (tree_key ''invitations'') = Some (invText V is)"
  by (simp add: writeInvitations_def srv_env_def CommitAndPush_def Let_def)

lemma accept_first_Some:
  "accept_first token is = Some is' \<Longrightarrow>
     (\<exists>u i w. is = u @ i # w \<and> Token i = token \<and> Status i = StatusActive
        \<and> is' = u @ i\<lparr>Status := StatusAccepted\<rparr> # w)"
proof (induction "is" arbitrary: is')
  case Nil
  then show ?case by simp
next
  case (Cons i "is")
  show ?case
  proof (cases "Token i = token \<and> Status i = StatusActive")
    case True
    with Cons.prems have "i # is = [] @ i # is \<and> Token i = token \<and> Status i = StatusActive
      \<and> is' = [] @ i\<lparr>Status := StatusAccepted\<rparr> # is" by simp
    then show ?thesis by blast
  next
    case False
    with Cons.prems obtain is1 where is1: "accept_first token is = Some is1" "is' = i # is1" by auto
    from Cons.IH[OF is1(1)] obtain u j w where "is = u @ j # w" "Token j = token"
      "Status j = StatusActive" "is1 = u @ j\<lparr>Status := StatusAccepted\<rparr> # w" by blast
    with is1(2) have "i # is = (i # u) @ j # w \<and> Token j = token \<and> Status j = StatusActive
      \<and> is' = (i # u) @ j\<lparr>Status := StatusAccepted\<rparr> # w" by simp
    then show ?thesis by blast
  qed
qed

lemma accept_first_None:
  "accept_first token is = None \<longleftrightarrow> (\<forall>i \<in> set is. Token i = token \<longrightarrow> Status i \<noteq> StatusActive)"
  by (induction "is") auto

section \<open>Properties\<close>


text \<open>
  C34: Creating an environment. With a readable configuration, a registry that is not exhausted and
  working generators, the request is redirected to the page of a new task; the registry that was
  pushed has one more subnet, not used before, the task's environment has the network of that
  subnet, and its DNS zone is known.
\<close>
theorem created_env_is_registered:
  assumes "srv_env V" and "extractRequest r body = Inr req" and "generateName rnd = Inr name"
    and "read_file V ''config.yaml'' (infraParse V) (srepo s) = Inr infra"
    and "registry V (srepo s) = Some cidrs" and "cidrs_ok cidrs"
    and "[10, 254, 254, 0] \<notin> cidrIP ` set cidrs" and "first_key keys = Some key"
  shows "\<exists>s' ip net. createEnv V r body rnd keys s = (s', Some (Redirect StatusSeeOther (''/env/'' @ key)))
    \<and> ip \<notin> cidrIP ` set cidrs \<and> NewEnvNetwork ip = Inr net
    \<and> registry V (srepo s') = Some (cidrs @ [\<lparr>cidrName = name, cidrIP = ip\<rparr>])
    \<and> hd (remoteCommits (srepo s')) = (''Allocate CIDR for '' @ name, tree (srepo s'))
    \<and> Tasks s' key = Some (new_env req name infra net)
    \<and> dnsOf s' key = Some (envDNS (new_env req name infra net))"
proof -
  from next_subnet[OF assms(6)] assms(7) obtain ip where
    ip: "findNextStartIP cidrs = Inr ip" "subnet_ok ip" "\<forall>c \<in> set cidrs. addr_less (cidrIP c) ip"
    by (auto split: sum.splits)
  then have fresh: "ip \<notin> cidrIP ` set cidrs" using addr_less_irrefl by auto
  from ip(2) obtain net where net: "NewEnvNetwork ip = Inr net"
    by (elim subnet_okE) (metis network_of_subnet ip(2))
  obtain r' x where a: "allocate_env V (Inr req) rnd (srepo s) = (r', x)" by (metis prod.exhaust)
  from assms(1) a show ?thesis
  proof (cases rule: allocate_env_cases)
    case (failed e)
    have "\<exists>env. snd (allocate_env V (Inr req) rnd (srepo s)) = Inr env"
    proof -
      have rd: "read_file V ''env-cidrs.yaml'' (cidrsParse V) (srepo s) = Inr cidrs"
        using assms(1,5) registry_read by blast
      from register_cidrs[OF assms(1), of "cidrs @ [\<lparr>cidrName = name, cidrIP = ip\<rparr>]" "srepo s"
          "''Allocate CIDR for '' @ name"]
      show ?thesis using rd assms(3,4) ip(1) net by (auto simp: allocate_env_def Let_def Pull_id[OF assms(1)])
    qed
    with a failed show ?thesis by simp
  next
    case (allocated req' infra' name' cidrs' ip')
    with assms ip(1) have eqs: "req' = req" "infra' = infra" "name' = name" "cidrs' = cidrs" "ip' = ip" by simp_all
    with allocated net have x: "x = Inr (new_env req name infra net)" by simp
    let ?env = "new_env req name infra net"
    let ?s = "s\<lparr>srepo := r', Tasks := (Tasks s)(key \<mapsto> ?env), dnsOf := (dnsOf s)(key \<mapsto> envDNS ?env)\<rparr>"
    have "createEnv V r body rnd keys s = (?s, Some (Redirect StatusSeeOther (''/env/'' @ key)))"
      using a x assms(2,8) by (simp add: createEnv_def)
    moreover have "registry V (srepo ?s) = Some (cidrs @ [\<lparr>cidrName = name, cidrIP = ip\<rparr>])"
      "hd (remoteCommits (srepo ?s)) = (''Allocate CIDR for '' @ name, tree (srepo ?s))"
      using allocated(6,7) unfolding eqs by simp_all
    moreover have "Tasks ?s key = Some ?env" "dnsOf ?s key = Some (envDNS ?env)" by simp_all
    ultimately show ?thesis using fresh net by blast
  qed
qed

text \<open>The secret token is not checked. Two requests that differ in their token only are answered in
  the same way and have the same effect, whatever invitations exist.
\<close>
theorem secret_token_is_ignored:
  assumes "extractRequest r body = Inr req"
    and "extractRequest r' body' = Inr (req\<lparr>reqSecretToken := token\<rparr>)"
  shows "createEnv V r body rnd keys s = createEnv V r' body' rnd keys s"
proof -
  have same: "new_env (req\<lparr>reqSecretToken := token\<rparr>) = new_env req"
    by (intro ext) (simp add: new_env_def)
  show ?thesis unfolding createEnv_def allocate_env_def assms sum.case same ..
qed

text \<open>An invitation is accepted once. With different tokens in the file, accepting one succeeds
  exactly when it is listed as active, and a second attempt is refused.
\<close>
theorem invitation_is_accepted_once:
  assumes "srv_env V" and "tree r (tree_key ''invitations'') = Some (invText V is)"
    and "distinct (map Token is)"
  shows "if \<exists>i \<in> set is. Token i = token \<and> Status i = StatusActive
    then \<exists>r'. acceptInvitation V token r = Some (r', None)
      \<and> acceptInvitation V token r' = Some (r', Some ''Invitation not found'')
    else acceptInvitation V token r = Some (r, Some ''Invitation not found'')"
proof (cases "accept_first token is")
  case None
  then show ?thesis
    using assms readInvitations_written accept_first_None[of token "is"]
    by (auto simp: acceptInvitation_def)
next
  case (Some is')
  from accept_first_Some[OF this] obtain u i w where h: "is = u @ i # w" "Token i = token"
    "Status i = StatusActive" "is' = u @ i\<lparr>Status := StatusAccepted\<rparr> # w" by blast
  obtain r' where r': "writeInvitations V is' r = (r', None)"
    "tree r' (tree_key ''invitations'') = Some (invText V is')" using writeInvitations_env[OF assms(1)] by blast
  have "accept_first token is' = None"
    using assms(3) h by (auto simp: accept_first_None) (metis image_eqI)+
  then have "acceptInvitation V token r' = Some (r', Some ''Invitation not found'')"
    using readInvitations_written[OF assms(1) r'(2)] by (simp add: acceptInvitation_def)
  moreover have "acceptInvitation V token r = Some (r', None)"
    using readInvitations_written[OF assms(1,2)] Some r'(1) by (simp add: acceptInvitation_def)
  ultimately show ?thesis using h by auto
qed

text \<open>A malformed invitations file hangs its readers. When the file exists and ends in a syntax error,
  reading it does not return, so creating an invitation is never answered.
\<close>
theorem malformed_invitations_hang:
  assumes "repo_Reader (srvRepo V) ''invitations'' (srepo s) = Inr x" and "invBroken (invParse V x)"
  shows "readInvitations V (srepo s) = None \<and> createInvitation V rnd s = (s, None)"
proof -
  have "read_loop (invItems (invParse V x)) (invBroken (invParse V x)) [] = None"
    using read_loop_broken assms(2) by (metis not_None_eq)
  with assms show ?thesis by (simp add: readInvitations_def createInvitation_def)
qed

subsection \<open>A concrete server\<close>

text \<open>
  Codecs by way of the prefix code: a registry is an array of pairs of a name and the bytes of an
  address, an invitations file an array of tokens and states.
\<close>

definition cidr_json :: "EnvCIDR \<Rightarrow> json" where
  "cidr_json c = JArr [JStr (cidrName c), JArr (map (\<lambda>b. JNum (int (unat b))) (cidrIP c))]"

fun json_cidr :: "json \<Rightarrow> EnvCIDR" where
  "json_cidr (JArr [JStr n, JArr bs]) =
     \<lparr>cidrName = n, cidrIP = map (\<lambda>b. case b of JNum i \<Rightarrow> of_int i | _ \<Rightarrow> 0) bs\<rparr>"
| "json_cidr _ = \<lparr>cidrName = [], cidrIP = []\<rparr>"

definition inv_json :: "invitation \<Rightarrow> json" where
  "inv_json i = JArr [JStr (Token i), JStr (Status i)]"

fun json_inv :: "json \<Rightarrow> invitation" where
  "json_inv (JArr [JStr t, JStr x]) = \<lparr>Token = t, Status = x\<rparr>"
| "json_inv _ = \<lparr>Token = [], Status = []\<rparr>"

definition example_srvenv :: servenv where
  "example_srvenv = \<lparr>srvRepo = example_repoenv,
     infraParse = (\<lambda>_. Inr \<lparr>infraName = ''infra'', infraPublicIP = [], InfraNamespacePrefix = [], InfraAdminPublicKey = []\<rparr>),
     cidrsText = (\<lambda>cs. code_json (JArr (map cidr_json cs))),
     cidrsParse = (\<lambda>s. case decode_json s of Inr (JArr vs) \<Rightarrow> Inr (map json_cidr vs) | _ \<Rightarrow> Inl ''bad''),
     invText = (\<lambda>is. code_json (JArr (map inv_json is))),
     invParse = (\<lambda>s. case decode_json s of
        Inr (JArr vs) \<Rightarrow> \<lparr>invItems = map json_inv vs, invBroken = False\<rparr>
      | _ \<Rightarrow> \<lparr>invItems = [], invBroken = True\<rparr>),
     zoneFetch = (\<lambda>_. Inl ''down''), dnsUpdate = (\<lambda>_ _ _. None), pageErr = None, writeErr = None\<rparr>"

lemma json_cidr_inverse: "json_cidr (cidr_json c) = c"
  by (simp add: cidr_json_def comp_def)

lemma json_inv_inverse: "json_inv (inv_json i) = i"
  by (simp add: inv_json_def)

lemma wf_cidr_json: "wf_json (JArr (map cidr_json cs))"
proof -
  have "int (unat b) \<le> 2 ^ 53" for b :: byte using uint_lt2p[of b] by simp
  then show ?thesis by (simp add: cidr_json_def list_all_iff)
qed

lemma wf_inv_json: "wf_json (JArr (map inv_json is))"
  by (simp add: inv_json_def list_all_iff)

lemma example_srv_env: "srv_env example_srvenv"
  by (simp add: srv_env_def)
    (simp add: example_srvenv_def decode_code_json wf_cidr_json wf_inv_json json_cidr_inverse
      json_inv_inverse comp_def del: code_json.simps wf_json.simps)

definition example_server :: server where
  "example_server = \<lparr>srepo = empty_repo\<lparr>tree := [tree_key ''config.yaml'' \<mapsto> ''infra'',
       tree_key ''env-cidrs.yaml'' \<mapsto> cidrsText example_srvenv [],
       tree_key ''invitations'' \<mapsto> invText example_srvenv [\<lparr>Token = ''t'', Status = StatusActive\<rparr>]]\<rparr>,
     Tasks = Map.empty, envInfo = Map.empty, dnsOf = Map.empty, dnsPublished = {}\<rparr>"

definition example_form :: "string \<Rightarrow> request" where
  "example_form token = empty_request\<lparr>Method := ''POST'', PostForm := [''secret-token'' \<mapsto> [token],
     ''domain'' \<mapsto> [''e.com''], ''contact-email'' \<mapsto> [''a@e.com''], ''admin-public-key'' \<mapsto> [''k'']]\<rparr>"

definition example_req :: "string \<Rightarrow> createEnvReq" where
  "example_req token = \<lparr>reqName = [], reqContactEmail = ''a@e.com'', reqDomain = ''e.com'',
     reqAdminPublicKey = ''k'', reqSecretToken = token\<rparr>"

lemma example_extract: "extractRequest (example_form token) body = Inr (example_req token)"
  by (simp add: extractRequest_def example_form_def empty_request_def zero_req_def getFormValue_def
      example_req_def)

lemma distinct_keys: "tree_key ''config.yaml'' \<noteq> tree_key ''env-cidrs.yaml''"
  "tree_key ''config.yaml'' \<noteq> tree_key ''invitations''"
  by code_simp+

lemma example_registry: "registry example_srvenv (srepo example_server) = Some []"
proof -
  have "cidrsParse example_srvenv (cidrsText example_srvenv []) = Inr []"
    using example_srv_env by (simp add: srv_env_def)
  with file_keys distinct_keys show ?thesis by (simp add: registry_def example_server_def)
qed


theorem created_env_is_registered_witness:
  "\<exists>s' ip net. createEnv example_srvenv (example_form ''t'') (Inl []) (Inr [1, 2]) [Inr [3]] example_server
      = (s', Some (Redirect StatusSeeOther (''/env/'' @ map letter [3])))
    \<and> ip \<notin> cidrIP ` set ([] :: EnvCIDR list) \<and> NewEnvNetwork ip = Inr net
    \<and> registry example_srvenv (srepo s') = Some ([] @ [\<lparr>cidrName = map letter [1, 2], cidrIP = ip\<rparr>])
    \<and> hd (remoteCommits (srepo s')) = (''Allocate CIDR for '' @ map letter [1, 2], tree (srepo s'))
    \<and> Tasks s' (map letter [3]) =
        Some (new_env (example_req ''t'') (map letter [1, 2]) \<lparr>infraName = ''infra'', infraPublicIP = [], InfraNamespacePrefix = [], InfraAdminPublicKey = []\<rparr> net)
    \<and> dnsOf s' (map letter [3]) =
        Some (envDNS (new_env (example_req ''t'') (map letter [1, 2]) \<lparr>infraName = ''infra'', infraPublicIP = [], InfraNamespacePrefix = [], InfraAdminPublicKey = []\<rparr> net))"
proof -
  have "read_file example_srvenv ''config.yaml'' (infraParse example_srvenv) (srepo example_server)
      = Inr \<lparr>infraName = ''infra'', infraPublicIP = [], InfraNamespacePrefix = [], InfraAdminPublicKey = []\<rparr>"
    using distinct_keys
    by (simp add: read_file_def repo_Reader_def example_srvenv_def example_server_def)
  then show ?thesis using example_registry
    by - (rule created_env_is_registered[OF example_srv_env example_extract],
        simp_all add: generateName_def cidrs_ok_def)
qed

theorem secret_token_is_ignored_witness:
  "createEnv example_srvenv (example_form ''t'') (Inl []) (Inr [1]) [Inr [3]] example_server
    = createEnv example_srvenv (example_form ''wrong'') (Inl []) (Inr [1]) [Inr [3]] example_server"
  by (rule secret_token_is_ignored[OF example_extract, where token = "''wrong''"])
    (simp add: example_extract, simp add: example_req_def)

theorem invitation_is_accepted_once_witness:
  "\<exists>r'. acceptInvitation example_srvenv ''t'' (srepo example_server) = Some (r', None)
      \<and> acceptInvitation example_srvenv ''t'' r' = Some (r', Some ''Invitation not found'')"
  using invitation_is_accepted_once[OF example_srv_env, of "srepo example_server"
      "[\<lparr>Token = ''t'', Status = StatusActive\<rparr>]" "''t''"]
  by (simp add: example_server_def)

theorem malformed_invitations_hang_witness:
  "readInvitations example_srvenv (empty_repo\<lparr>tree := [tree_key ''invitations'' \<mapsto> ''?'']\<rparr>) = None"
proof -
  let ?s = "example_server\<lparr>srepo := empty_repo\<lparr>tree := [tree_key ''invitations'' \<mapsto> ''?'']\<rparr>\<rparr>"
  have "repo_Reader (srvRepo example_srvenv) ''invitations'' (srepo ?s) = Inr ''?''"
    by (simp add: repo_Reader_def example_srvenv_def)
  moreover have "invBroken (invParse example_srvenv ''?'')"
    by (simp add: example_srvenv_def decode_json_def)
  ultimately show ?thesis using malformed_invitations_hang[of example_srvenv ?s] by simp
qed

end
