(* ===== verification/Tasks.thy ===== *)
theory Tasks
  imports Prelude
begin

text \<open>
  The tasks of an environment (\<open>src/core/installer/tasks/tasks.go\<close>): leaves that do some work, and
  parents that run their subtasks one after the other or all at once.

  Tasks run in goroutines and report over unbuffered channels, so their behaviour is a step
  relation on a tree of tasks. A node carries the fields of \<open>basicTask\<close>, a program counter
  \<open>phase\<close> for the goroutine that runs \<open>Start\<close>, and the state of the goroutine that
  \<open>callDoneListeners\<close> starts for the listener its parent registered with \<open>OnDone\<close>. A send on the channel
  of a parent is one step together with its receipt. The work of a leaf is what it returns, or that
  it never returns. \<open>beforeStart\<close> and \<open>afterDone\<close> are what they tell the info listener of the
  environment, which is all the callbacks do.
\<close>

section \<open>Tasks\<close>

datatype Status = StatusPending | StatusRunning | StatusFailed | StatusDone

type_synonym err = "string option"

datatype phase =
    Idle
  | Spawned
  | Working nat nat
  | Returned err
  | Notified err
  | Ended err
  | Panicked

datatype listener = Silent | Ready err | Gone

record basicTask =
  title :: string
  status :: Status
  err :: err
  beforeStart :: "string option"
  afterDone :: "string option"
  phase :: phase
  listener :: listener
  showChildren :: bool

datatype work = Returns err | Hangs

datatype kind = Leaf work | Sequential | Concurrent

datatype task = Task (basic: basicTask) (kind: kind) (subs: "task list")

definition newBasicTask :: "string \<Rightarrow> basicTask" where
  "newBasicTask t = \<lparr>title = t, status = StatusPending, err = None, beforeStart = None, afterDone = None,
     phase = Idle, listener = Silent, showChildren = False\<rparr>"

definition newLeafTask :: "string \<Rightarrow> work \<Rightarrow> task" where
  "newLeafTask t w = Task (newBasicTask t) (Leaf w) []"

definition newParentTask :: "string \<Rightarrow> bool \<Rightarrow> kind \<Rightarrow> task list \<Rightarrow> task" where
  "newParentTask t sc k ts = Task ((newBasicTask t)\<lparr>showChildren := sc\<rparr>) k ts"

definition newSequentialParentTask :: "string \<Rightarrow> bool \<Rightarrow> task list \<Rightarrow> task" where
  "newSequentialParentTask t sc ts = newParentTask t sc Sequential ts"

definition newConcurrentParentTask :: "string \<Rightarrow> bool \<Rightarrow> task list \<Rightarrow> task" where
  "newConcurrentParentTask t sc ts = newParentTask t sc Concurrent ts"

definition with_basic :: "(basicTask \<Rightarrow> basicTask) \<Rightarrow> task \<Rightarrow> task" where
  "with_basic f t = Task (f (basic t)) (kind t) (subs t)"

definition Subtasks :: "task \<Rightarrow> task list" where
  "Subtasks t = (case kind t of Leaf _ \<Rightarrow> [] | _ \<Rightarrow> if showChildren (basic t) then subs t else [])"

section \<open>Steps\<close>

text \<open>\<open>go t.Start()\<close>, and the end of the goroutine that runs a listener.\<close>

definition spawn :: "task \<Rightarrow> task" where
  "spawn t = with_basic (phase_update (\<lambda>_. Spawned)) t"

definition heard :: "task \<Rightarrow> task" where
  "heard t = with_basic (listener_update (\<lambda>_. Gone)) t"

text \<open>\<open>callDoneListeners\<close> first starts the listeners and only then sets the status.\<close>

definition notify :: "err \<Rightarrow> basicTask \<Rightarrow> basicTask" where
  "notify e b = b\<lparr>phase := Notified e, listener := Ready e\<rparr>"

definition conclude :: "err \<Rightarrow> basicTask \<Rightarrow> basicTask" where
  "conclude e b =
     (case e of
        None \<Rightarrow> b\<lparr>phase := Ended e, status := StatusDone\<rparr>
      | Some _ \<Rightarrow> b\<lparr>phase := Ended e, status := StatusFailed, err := e\<rparr>)"

definition msgs :: "string option \<Rightarrow> string list" where
  "msgs m = (case m of None \<Rightarrow> [] | Some x \<Rightarrow> [x])"

text \<open>
  \<open>Working s c\<close>: inside \<open>start\<close>, with \<open>s\<close> subtasks started by the loop of the parent and \<open>c\<close> nil
  errors received. The listener of a sequential subtask starts the next one or sends the error; that of
  a concurrent subtask always sends. A sequential parent slices \<open>subtasks[:len(subtasks)-1]\<close>, which
  panics when there are none.
\<close>

inductive step :: "task \<Rightarrow> string list \<Rightarrow> task \<Rightarrow> bool" where
  start:
    "phase b = Spawned \<Longrightarrow>
     step (Task b k ts) (msgs (beforeStart b)) (Task (b\<lparr>status := StatusRunning, phase := Working 0 0\<rparr>) k ts)"
| leaf:
    "phase b = Working s c \<Longrightarrow>
     step (Task b (Leaf (Returns e)) ts) [] (Task (b\<lparr>phase := Returned e\<rparr>) (Leaf (Returns e)) ts)"
| seq_panic:
    "phase b = Working 0 c \<Longrightarrow>
     step (Task b Sequential []) [] (Task (b\<lparr>phase := Panicked\<rparr>) Sequential [])"
| seq_first:
    "phase b = Working 0 c \<Longrightarrow>
     step (Task b Sequential (t # ts)) [] (Task (b\<lparr>phase := Working 1 c\<rparr>) Sequential (spawn t # ts))"
| seq_next:
    "Suc i < length ts \<Longrightarrow> listener (basic (ts ! i)) = Ready None \<Longrightarrow>
     step (Task b Sequential ts) []
       (Task b Sequential (ts[i := heard (ts ! i), Suc i := spawn (ts ! Suc i)]))"
| seq_recv:
    "i < length ts \<Longrightarrow> listener (basic (ts ! i)) = Ready e \<Longrightarrow> e \<noteq> None \<or> Suc i = length ts \<Longrightarrow>
     phase b = Working 1 c \<Longrightarrow>
     step (Task b Sequential ts) [] (Task (b\<lparr>phase := Returned e\<rparr>) Sequential (ts[i := heard (ts ! i)]))"
| conc_spawn:
    "phase b = Working s c \<Longrightarrow> s < length ts \<Longrightarrow>
     step (Task b Concurrent ts) []
       (Task (b\<lparr>phase := Working (Suc s) c\<rparr>) Concurrent (ts[s := spawn (ts ! s)]))"
| conc_recv:
    "phase b = Working (length ts) c \<Longrightarrow> c < length ts \<Longrightarrow> i < length ts \<Longrightarrow>
     listener (basic (ts ! i)) = Ready e \<Longrightarrow>
     step (Task b Concurrent ts) []
       (Task (b\<lparr>phase := (case e of None \<Rightarrow> Working (length ts) (Suc c) | Some _ \<Rightarrow> Returned e)\<rparr>)
          Concurrent (ts[i := heard (ts ! i)]))"
| conc_all:
    "phase b = Working (length ts) (length ts) \<Longrightarrow>
     step (Task b Concurrent ts) [] (Task (b\<lparr>phase := Returned None\<rparr>) Concurrent ts)"
| after:
    "phase b = Returned e \<Longrightarrow> step (Task b k ts) (msgs (afterDone b)) (Task (notify e b) k ts)"
| conclude:
    "phase b = Notified e \<Longrightarrow> step (Task b k ts) [] (Task (conclude e b) k ts)"
| sub:
    "step (ts ! i) ms t \<Longrightarrow> i < length ts \<Longrightarrow> step (Task b k ts) ms (Task b k (ts[i := t]))"

text \<open>A run: the info messages so far, and the number of steps.\<close>

inductive run :: "task \<Rightarrow> string list \<Rightarrow> nat \<Rightarrow> task \<Rightarrow> bool" where
  run_nil: "run t [] 0 t"
| run_step: "run t ms n t' \<Longrightarrow> step t' ms' t'' \<Longrightarrow> run t (ms @ ms') (Suc n) t''"

section \<open>A scheduler\<close>

text \<open>The steps of a task as a list, and the run in which a schedule picks the next step.\<close>

fun own_steps :: "basicTask \<Rightarrow> kind \<Rightarrow> task list \<Rightarrow> (string list \<times> task) list" where
  "own_steps b k ts =
     (case phase b of
        Spawned \<Rightarrow> [(msgs (beforeStart b), Task (b\<lparr>status := StatusRunning, phase := Working 0 0\<rparr>) k ts)]
      | Returned e \<Rightarrow> [(msgs (afterDone b), Task (notify e b) k ts)]
      | Notified e \<Rightarrow> [([], Task (conclude e b) k ts)]
      | Working s c \<Rightarrow>
          (case k of
             Leaf (Returns e) \<Rightarrow> [([], Task (b\<lparr>phase := Returned e\<rparr>) k ts)]
           | Leaf Hangs \<Rightarrow> []
           | Sequential \<Rightarrow>
               if s = 0 then
                 (case ts of [] \<Rightarrow> [([], Task (b\<lparr>phase := Panicked\<rparr>) k ts)]
                  | t # ts' \<Rightarrow> [([], Task (b\<lparr>phase := Working 1 c\<rparr>) k (spawn t # ts'))])
               else []
           | Concurrent \<Rightarrow>
               if s < length ts then
                 [([], Task (b\<lparr>phase := Working (Suc s) c\<rparr>) k (ts[s := spawn (ts ! s)]))]
               else if s = length ts \<and> c = length ts then [([], Task (b\<lparr>phase := Returned None\<rparr>) k ts)]
               else [])
      | _ \<Rightarrow> [])"

fun listener_steps :: "basicTask \<Rightarrow> kind \<Rightarrow> task list \<Rightarrow> nat \<Rightarrow> (string list \<times> task) list" where
  "listener_steps b k ts i =
     (case listener (basic (ts ! i)) of
        Ready e \<Rightarrow>
          (case k of
             Leaf _ \<Rightarrow> []
           | Sequential \<Rightarrow>
               if e = None \<and> Suc i < length ts then
                 [([], Task b k (ts[i := heard (ts ! i), Suc i := spawn (ts ! Suc i)]))]
               else
                 (case phase b of
                    Working s c \<Rightarrow>
                      if s = 1 then [([], Task (b\<lparr>phase := Returned e\<rparr>) k (ts[i := heard (ts ! i)]))] else []
                  | _ \<Rightarrow> [])
           | Concurrent \<Rightarrow>
               (case phase b of
                  Working s c \<Rightarrow>
                    if s = length ts \<and> c < length ts then
                      [([], Task (b\<lparr>phase := (case e of None \<Rightarrow> Working (length ts) (Suc c) | Some _ \<Rightarrow> Returned e)\<rparr>)
                         k (ts[i := heard (ts ! i)]))]
                    else []
                | _ \<Rightarrow> []))
      | _ \<Rightarrow> [])"

fun steps :: "task \<Rightarrow> (string list \<times> task) list" where
  "steps (Task b k ts) =
     own_steps b k ts @ concat (map (listener_steps b k ts) [0..<length ts])
     @ concat (map (\<lambda>(i, ss). map (\<lambda>(ms, t). (ms, Task b k (ts[i := t]))) ss) (enumerate 0 (map steps ts)))"

fun schedule :: "nat list \<Rightarrow> task \<Rightarrow> string list \<times> task" where
  "schedule [] t = ([], t)"
| "schedule (i # is) t =
     (if i < length (steps t) then
        (let (ms, t') = steps t ! i; (ms', t'') = schedule is t' in (ms @ ms', t''))
      else ([], t))"

section \<open>The scheduler takes exactly the steps\<close>

lemma own_steps_sound:
  assumes "(ms, t') \<in> set (own_steps b k ts)"
  shows "step (Task b k ts) ms t'"
  using assms
  by (auto simp del: One_nat_def split: phase.splits kind.splits work.splits list.splits if_splits
      intro: step.intros)

lemma listener_steps_sound:
  assumes "(ms, t') \<in> set (listener_steps b k ts i)" and "i < length ts"
  shows "step (Task b k ts) ms t'"
proof (cases "listener (basic (ts ! i))")
  case (Ready e)
  show ?thesis
  proof (cases k)
    case Sequential
    show ?thesis
    proof (cases "e = None \<and> Suc i < length ts")
      case True
      with assms Ready Sequential show ?thesis by (auto intro: seq_next)
    next
      case False
      with assms(2) have "e \<noteq> None \<or> Suc i = length ts" by auto
      with False assms Ready Sequential show ?thesis
        by (auto split: phase.splits if_splits intro: seq_recv)
    qed
  next
    case Concurrent
    with assms Ready show ?thesis
      by (auto split: phase.splits if_splits intro: conc_recv)
  qed (use assms Ready in auto)
qed (use assms in auto)

lemma steps_sound: "(ms, t') \<in> set (steps t) \<Longrightarrow> step t ms t'"
proof (induction t arbitrary: ms t')
  case (Task b k ts)
  from Task.prems consider "(ms, t') \<in> set (own_steps b k ts)"
    | i where "i < length ts" "(ms, t') \<in> set (listener_steps b k ts i)"
    | i t where "i < length ts" "(ms, t) \<in> set (steps (ts ! i))" "t' = Task b k (ts[i := t])"
    by (auto simp: in_set_enumerate_eq simp del: own_steps.simps listener_steps.simps)
  then show ?case
    by cases (auto intro: own_steps_sound listener_steps_sound step.sub[OF Task.IH[OF nth_mem]]
        simp del: own_steps.simps listener_steps.simps)
qed

lemma steps_complete: "step t ms t' \<Longrightarrow> (ms, t') \<in> set (steps t)"
proof (induction rule: step.induct)
  case (seq_next i ts b)
  then have "([], Task b Sequential (ts[i := heard (ts ! i), Suc i := spawn (ts ! Suc i)]))
      \<in> set (listener_steps b Sequential ts i)" by simp
  with seq_next(1) show ?case by (auto simp del: own_steps.simps listener_steps.simps intro!: bexI[of _ i])
next
  case (seq_recv i ts e b c)
  then have "([], Task (b\<lparr>phase := Returned e\<rparr>) Sequential (ts[i := heard (ts ! i)]))
      \<in> set (listener_steps b Sequential ts i)" by auto
  with seq_recv(1) show ?case by (auto simp del: own_steps.simps listener_steps.simps intro!: bexI[of _ i])
next
  case (conc_recv b ts c i e)
  then have "([], Task (b\<lparr>phase := (case e of None \<Rightarrow> Working (length ts) (Suc c) | Some _ \<Rightarrow> Returned e)\<rparr>)
      Concurrent (ts[i := heard (ts ! i)])) \<in> set (listener_steps b Concurrent ts i)" by simp
  with conc_recv(3) show ?case by (auto simp del: own_steps.simps listener_steps.simps intro!: bexI[of _ i])
next
  case (sub ts i ms t b k)
  then show ?case
    by (auto simp: in_set_enumerate_eq simp del: own_steps.simps listener_steps.simps
        intro!: bexI[of _ "(i, steps (ts ! i))"] image_eqI[of _ _ "(ms, t)"])
qed (simp_all split: work.splits)

lemma schedule_run: "schedule is t = (ms, t') \<Longrightarrow> \<exists>n. run s ms0 m t \<longrightarrow> run s (ms0 @ ms) n t'"
proof (induction "is" arbitrary: t ms ms0 m)
  case (Cons i "is")
  show ?case
  proof (cases "i < length (steps t)")
    case True
    obtain ms1 t1 where s1: "steps t ! i = (ms1, t1)" by (cases "steps t ! i")
    obtain ms2 where s2: "schedule is t1 = (ms2, t')" "ms = ms1 @ ms2"
      using Cons.prems True s1 by (auto split: prod.splits)
    have "step t ms1 t1" using steps_sound True s1 by (metis nth_mem)
    with Cons.IH[OF s2(1), of "ms0 @ ms1" "Suc m"] s2(2) show ?thesis
      by (auto dest: run_step)
  qed (use Cons.prems in auto)
qed auto

lemma schedule_runs: "\<exists>n. run t (fst (schedule is t)) n (snd (schedule is t))"
  using schedule_run[of "is" t "fst (schedule is t)" "snd (schedule is t)" t "[]" 0] run_nil[of t] by simp

section \<open>What a task may end with\<close>

text \<open>
  The specification: a leaf ends with what it returns; a sequence with the error of the first subtask
  that has one, and without error after all of them; concurrent subtasks with the error of any of
  them, and without error only if all of them may.
\<close>

fun may_end :: "task \<Rightarrow> err \<Rightarrow> bool" where
  "may_end (Task b k ts) e =
     (let ends = map may_end ts in
      case k of
        Leaf w \<Rightarrow> w = Returns e
      | Sequential \<Rightarrow>
          (\<exists>j < length ts. (ends ! j) e \<and> (e \<noteq> None \<or> Suc j = length ts) \<and> (\<forall>i < j. (ends ! i) None))
      | Concurrent \<Rightarrow>
          (case e of
             None \<Rightarrow> (\<forall>i < length ts. (ends ! i) None)
           | Some _ \<Rightarrow> (\<exists>i < length ts. (ends ! i) e)))"

text \<open>No leaf runs for ever and no sequence is empty.\<close>

fun returning :: "task \<Rightarrow> bool" where
  "returning (Task b k ts) =
     ((case k of Leaf w \<Rightarrow> w \<noteq> Hangs | Sequential \<Rightarrow> ts \<noteq> [] | Concurrent \<Rightarrow> True) \<and> list_all returning ts)"

text \<open>As the constructors make it: nothing has happened yet.\<close>

fun fresh :: "task \<Rightarrow> bool" where
  "fresh (Task b k ts) =
     (phase b = Idle \<and> listener b = Silent \<and> status b = StatusPending \<and> err b = None
      \<and> (case k of Leaf _ \<Rightarrow> ts = [] | _ \<Rightarrow> True) \<and> list_all fresh ts)"

definition outcome :: "task \<Rightarrow> err option" where
  "outcome t = (case phase (basic t) of Returned e \<Rightarrow> Some e | Notified e \<Rightarrow> Some e | Ended e \<Rightarrow> Some e | _ \<Rightarrow> None)"

section \<open>The invariant\<close>

abbreviation began :: "task \<Rightarrow> bool" where
  "began t \<equiv> phase (basic t) \<noteq> Idle"

abbreviation gone :: "task \<Rightarrow> bool" where
  "gone t \<equiv> listener (basic t) = Gone"

definition basic_ok :: "basicTask \<Rightarrow> bool" where
  "basic_ok b =
     (case phase b of
        Idle \<Rightarrow> listener b = Silent \<and> status b = StatusPending \<and> err b = None
      | Spawned \<Rightarrow> listener b = Silent \<and> status b = StatusPending \<and> err b = None
      | Notified e \<Rightarrow> (listener b = Ready e \<or> listener b = Gone) \<and> status b = StatusRunning \<and> err b = None
      | Ended e \<Rightarrow> (listener b = Ready e \<or> listener b = Gone) \<and> err b = e
          \<and> status b = (if e = None then StatusDone else StatusFailed)
      | _ \<Rightarrow> listener b = Silent \<and> status b = StatusRunning \<and> err b = None)"

text \<open>The current subtask of a sequence: those before it were successful, those after it are untouched.\<close>

definition seq_at :: "nat \<Rightarrow> task list \<Rightarrow> bool" where
  "seq_at j ts \<longleftrightarrow> j < length ts \<and> (\<forall>i < j. gone (ts ! i) \<and> outcome (ts ! i) = Some None)
     \<and> began (ts ! j) \<and> (\<forall>i. j < i \<and> i < length ts \<longrightarrow> fresh (ts ! i))"

definition seq_ended :: "task list \<Rightarrow> err \<Rightarrow> bool" where
  "seq_ended ts e \<longleftrightarrow> (\<exists>j. seq_at j ts \<and> gone (ts ! j) \<and> outcome (ts ! j) = Some e
     \<and> (e \<noteq> None \<or> Suc j = length ts))"

definition seq_ok :: "basicTask \<Rightarrow> task list \<Rightarrow> bool" where
  "seq_ok b ts =
     (case phase b of
        Idle \<Rightarrow> list_all fresh ts
      | Spawned \<Rightarrow> list_all fresh ts
      | Working s c \<Rightarrow> c = 0 \<and> (s = 0 \<and> list_all fresh ts \<or> s = 1 \<and> (\<exists>j. seq_at j ts \<and> \<not> gone (ts ! j)))
      | Panicked \<Rightarrow> ts = []
      | Returned e \<Rightarrow> seq_ended ts e
      | Notified e \<Rightarrow> seq_ended ts e
      | Ended e \<Rightarrow> seq_ended ts e)"

definition conc_at :: "nat \<Rightarrow> nat \<Rightarrow> task list \<Rightarrow> bool" where
  "conc_at s c ts \<longleftrightarrow> s \<le> length ts \<and> (\<forall>i < s. began (ts ! i)) \<and> (\<forall>i. s \<le> i \<and> i < length ts \<longrightarrow> fresh (ts ! i))
     \<and> (\<forall>t \<in> set ts. gone t \<longrightarrow> outcome t = Some None)
     \<and> c = length (filter gone ts) \<and> (s < length ts \<longrightarrow> c = 0)"

definition conc_ended :: "task list \<Rightarrow> err \<Rightarrow> bool" where
  "conc_ended ts e \<longleftrightarrow>
     (case e of
        None \<Rightarrow> \<forall>t \<in> set ts. gone t \<and> outcome t = Some None
      | Some _ \<Rightarrow> \<exists>t \<in> set ts. outcome t = Some e)"

definition conc_ok :: "basicTask \<Rightarrow> task list \<Rightarrow> bool" where
  "conc_ok b ts =
     (case phase b of
        Idle \<Rightarrow> list_all fresh ts
      | Spawned \<Rightarrow> list_all fresh ts
      | Working s c \<Rightarrow> conc_at s c ts
      | Panicked \<Rightarrow> False
      | Returned e \<Rightarrow> conc_ended ts e
      | Notified e \<Rightarrow> conc_ended ts e
      | Ended e \<Rightarrow> conc_ended ts e)"

fun ok :: "task \<Rightarrow> bool" where
  "ok (Task b k ts) =
     (basic_ok b \<and> list_all ok ts
      \<and> (case k of
           Leaf w \<Rightarrow> ts = [] \<and> phase b \<noteq> Panicked \<and> (\<forall>e. outcome (Task b k ts) = Some e \<longrightarrow> w = Returns e)
         | Sequential \<Rightarrow> seq_ok b ts
         | Concurrent \<Rightarrow> conc_ok b ts))"

lemma with_basic_simps [simp]:
  "basic (with_basic f t) = f (basic t)" "kind (with_basic f t) = kind t" "subs (with_basic f t) = subs t"
  by (simp_all add: with_basic_def)

lemma spawn_simps [simp]: "basic (spawn t) = (basic t)\<lparr>phase := Spawned\<rparr>"
  by (simp add: spawn_def)

lemma heard_simps [simp]: "basic (heard t) = (basic t)\<lparr>listener := Gone\<rparr>" "outcome (heard t) = outcome t"
  by (simp_all add: heard_def outcome_def)

lemma fresh_basic: "fresh t \<Longrightarrow> \<not> began t \<and> listener (basic t) = Silent \<and> outcome t = None"
  by (cases t) (simp add: outcome_def)

lemma fresh_ok: "fresh t \<Longrightarrow> ok t"
proof (induction t)
  case (Task b k ts)
  then have "list_all ok ts" by (simp add: list_all_iff)
  with Task.prems show ?case
    by (auto simp: basic_ok_def seq_ok_def conc_ok_def outcome_def split: kind.splits)
qed

lemma fresh_stays: "step t ms t' \<Longrightarrow> \<not> fresh t"
proof (induction rule: step.induct)
  case (sub ts i ms t b k)
  then show ?case by (auto simp: list_all_length)
next
  case (seq_next i ts b)
  then show ?case using fresh_basic[of "ts ! i"] by (auto simp: list_all_length)
qed auto

lemma step_kind: "step t ms t' \<Longrightarrow> kind t' = kind t"
  by (erule step.cases; clarsimp)

lemma step_length: "step t ms t' \<Longrightarrow> length (subs t') = length (subs t)"
  by (erule step.cases; clarsimp)

lemma step_afterDone: "step t ms t' \<Longrightarrow> afterDone (basic t') = afterDone (basic t)"
  by (erule step.cases; clarsimp simp: notify_def conclude_def split: option.splits)

lemma step_began: "step t ms t' \<Longrightarrow> began t \<Longrightarrow> began t'"
  by (erule step.cases; clarsimp simp: notify_def conclude_def split: option.splits)

lemma step_outcome: "step t ms t' \<Longrightarrow> outcome t = Some e \<Longrightarrow> outcome t' = Some e"
  by (erule step.cases; clarsimp simp: outcome_def notify_def conclude_def split: option.splits)

lemma step_gone: "step t ms t' \<Longrightarrow> ok t \<Longrightarrow> gone t' \<longleftrightarrow> gone t"
  by (erule step.cases; clarsimp simp: basic_ok_def notify_def conclude_def split: option.splits)

text \<open>What a parent relies on when one of its subtasks makes a step, and when it acts on one.\<close>

definition succeeds :: "task \<Rightarrow> task \<Rightarrow> bool" where
  "succeeds t t' \<longleftrightarrow> \<not> fresh t \<and> (began t \<longrightarrow> began t') \<and> (\<forall>e. outcome t = Some e \<longrightarrow> outcome t' = Some e)
     \<and> (gone t' \<longleftrightarrow> gone t)"

lemma step_succeeds: "step t ms t' \<Longrightarrow> ok t \<Longrightarrow> succeeds t t'"
  using fresh_stays step_began step_outcome step_gone unfolding succeeds_def by blast

lemma seq_at_succeeds:
  assumes "seq_at j ts" and "i < length ts" and "succeeds (ts ! i) t"
  shows "seq_at j (ts[i := t])"
  using assms by (auto simp: seq_at_def succeeds_def nth_list_update)

lemma seq_ok_succeeds:
  assumes "seq_ok b ts" and "i < length ts" and "succeeds (ts ! i) t"
  shows "seq_ok b (ts[i := t])"
proof -
  have "\<not> list_all fresh ts" using assms(2,3) by (auto simp: succeeds_def list_all_length)
  moreover have "seq_ended (ts[i := t]) e" if "seq_ended ts e" for e
  proof -
    from that obtain j where j: "seq_at j ts" "gone (ts ! j)" "outcome (ts ! j) = Some e"
      "e \<noteq> None \<or> Suc j = length ts" by (auto simp: seq_ended_def)
    with assms(2,3) have "gone (ts[i := t] ! j)" "outcome (ts[i := t] ! j) = Some e"
      by (auto simp: succeeds_def nth_list_update)
    with j seq_at_succeeds[OF j(1) assms(2,3)] show ?thesis unfolding seq_ended_def by auto
  qed
  moreover have "\<exists>j. seq_at j (ts[i := t]) \<and> \<not> gone (ts[i := t] ! j)"
    if "\<exists>j. seq_at j ts \<and> \<not> gone (ts ! j)"
    using that assms(2,3) seq_at_succeeds[OF _ assms(2,3)] unfolding succeeds_def
    by (metis nth_list_update)
  ultimately show ?thesis using assms(1) by (auto simp: seq_ok_def split: phase.splits)
qed

lemma filter_update_same:
  assumes "i < length xs" and "P x \<longleftrightarrow> P (xs ! i)"
  shows "length (filter P (xs[i := x])) = length (filter P xs)"
  using assms
proof (induction xs arbitrary: i)
  case (Cons y ys)
  then show ?case by (cases i) auto
qed simp

lemma conc_ok_succeeds:
  assumes "conc_ok b ts" and "i < length ts" and "succeeds (ts ! i) t"
  shows "conc_ok b (ts[i := t])"
proof -
  have "\<not> list_all fresh ts" using assms(2,3) by (auto simp: succeeds_def list_all_length)
  moreover have "conc_ended (ts[i := t]) e" if "conc_ended ts e" for e
    using that assms(2,3) unfolding conc_ended_def succeeds_def
    by (auto split: option.splits simp: all_set_conv_all_nth set_conv_nth nth_list_update) metis+
  moreover have "conc_at s c (ts[i := t])" if "conc_at s c ts" for s c
    using that assms(2,3) unfolding conc_at_def succeeds_def
    by (auto simp: all_set_conv_all_nth nth_list_update filter_update_same)
  ultimately show ?thesis using assms(1) by (auto simp: conc_ok_def split: phase.splits)
qed

lemma ok_basic: "ok t \<Longrightarrow> basic_ok (basic t)"
  by (cases t) simp

lemma ok_spawn: "fresh t \<Longrightarrow> ok (spawn t)"
  using fresh_ok[of t]
  by (cases t) (auto simp: spawn_def with_basic_def basic_ok_def seq_ok_def conc_ok_def outcome_def
      split: kind.splits)

lemma ready_outcome: "ok t \<Longrightarrow> listener (basic t) = Ready e \<Longrightarrow> outcome t = Some e \<and> began t"
  using ok_basic[of t] by (auto simp: basic_ok_def outcome_def split: phase.splits)

lemma ok_heard:
  assumes "ok t" and "listener (basic t) = Ready e"
  shows "ok (heard t)"
proof -
  obtain b k ts where t: "t = Task b k ts" by (cases t)
  have "basic_ok (b\<lparr>listener := Gone\<rparr>)"
    using assms t by (auto simp: basic_ok_def split: phase.splits)
  moreover have "outcome (Task (b\<lparr>listener := Gone\<rparr>) k ts) = outcome (Task b k ts)"
    "seq_ok (b\<lparr>listener := Gone\<rparr>) ts = seq_ok b ts" "conc_ok (b\<lparr>listener := Gone\<rparr>) ts = conc_ok b ts"
    by (simp_all add: outcome_def seq_ok_def conc_ok_def)
  ultimately show ?thesis using assms(1) t
    by (cases k) (simp_all add: heard_def with_basic_def)
qed

lemma seq_ready:
  assumes "seq_ok b ts" and "i < length ts" and "listener (basic (ts ! i)) = Ready e"
  shows "phase b = Working 1 0 \<and> seq_at i ts"
proof -
  have nf: "\<not> fresh (ts ! i)" using assms(3) fresh_basic by fastforce
  then have "\<not> list_all fresh ts" using assms(2) by (auto simp: list_all_length)
  moreover have "i = j" if "seq_at j ts" for j
  proof (rule linorder_cases[of i j])
    assume "i < j" with that assms(3) show ?thesis by (auto simp: seq_at_def)
  next
    assume "j < i" with that nf assms(2) show ?thesis by (auto simp: seq_at_def)
  qed
  moreover from this have "\<not> seq_ended ts e'" for e'
    using assms(3) by (auto simp: seq_ended_def)
  ultimately show ?thesis using assms(1,2)
    by (auto simp: seq_ok_def split: phase.splits)
qed

lemma seq_ok_next:
  assumes "seq_ok b ts" and "Suc i < length ts" and "listener (basic (ts ! i)) = Ready None"
    and "outcome (ts ! i) = Some None"
  shows "seq_ok b (ts[i := heard (ts ! i), Suc i := spawn (ts ! Suc i)])" "fresh (ts ! Suc i)"
proof -
  from seq_ready[OF assms(1) _ assms(3)] assms(2) have ph: "phase b = Working 1 0" and at: "seq_at i ts"
    by auto
  then show fr: "fresh (ts ! Suc i)" using assms(2) by (auto simp: seq_at_def)
  let ?ts = "ts[i := heard (ts ! i), Suc i := spawn (ts ! Suc i)]"
  have "seq_at (Suc i) ?ts" using at assms(2,4)
    by (auto simp: seq_at_def nth_list_update less_Suc_eq)
  moreover have "\<not> gone (?ts ! Suc i)" using fresh_basic[OF fr] assms(2) by simp
  ultimately show "seq_ok b ?ts" using ph by (auto simp: seq_ok_def)
qed

lemma seq_ended_recv:
  assumes "seq_ok b ts" and "i < length ts" and "listener (basic (ts ! i)) = Ready e"
    and "e \<noteq> None \<or> Suc i = length ts" and "outcome (ts ! i) = Some e"
  shows "seq_ended (ts[i := heard (ts ! i)]) e"
proof -
  from seq_ready[OF assms(1-3)] have at: "seq_at i ts" by simp
  with assms show ?thesis unfolding seq_ended_def
    by (intro exI[of _ i]) (auto simp: seq_at_def nth_list_update)
qed

lemma conc_at_spawn:
  assumes "conc_at s c ts" and "s < length ts"
  shows "conc_at (Suc s) c (ts[s := spawn (ts ! s)])" "fresh (ts ! s)"
proof -
  from assms show fr: "fresh (ts ! s)" by (auto simp: conc_at_def)
  from assms have c: "c = 0" by (auto simp: conc_at_def)
  have "gone (spawn (ts ! s)) \<longleftrightarrow> gone (ts ! s)" by simp
  from filter_update_same[of s ts gone, OF assms(2) this] assms fr c fresh_basic[OF fr]
  show "conc_at (Suc s) c (ts[s := spawn (ts ! s)])"
    by (auto simp: conc_at_def nth_list_update less_Suc_eq all_set_conv_all_nth)
qed

lemma filter_update_more:
  assumes "i < length xs" and "P x" and "\<not> P (xs ! i)"
  shows "length (filter P (xs[i := x])) = Suc (length (filter P xs))"
  using assms
proof (induction xs arbitrary: i)
  case (Cons y ys)
  then show ?case by (cases i) auto
qed simp

lemma conc_at_recv:
  assumes "conc_at (length ts) c ts" and "i < length ts" and "listener (basic (ts ! i)) = Ready None"
    and "outcome (ts ! i) = Some None"
  shows "conc_at (length ts) (Suc c) (ts[i := heard (ts ! i)])"
proof -
  have "length (filter gone (ts[i := heard (ts ! i)])) = Suc (length (filter gone ts))"
    using assms(2,3) by (intro filter_update_more) auto
  moreover have "gone (ts[i := heard (ts ! i)] ! j) \<longrightarrow> outcome (ts[i := heard (ts ! i)] ! j) = Some None"
    and "began (ts[i := heard (ts ! i)] ! j)" if "j < length ts" for j
    using that assms by (auto simp: conc_at_def nth_list_update)
  ultimately show ?thesis using assms(1) unfolding conc_at_def all_set_conv_all_nth length_list_update
    by auto
qed

lemma conc_ended_recv:
  assumes "i < length ts" and "outcome (ts ! i) = Some (Some e)"
  shows "conc_ended (ts[i := heard (ts ! i)]) (Some e)"
proof -
  have "heard (ts ! i) \<in> set (ts[i := heard (ts ! i)])" using assms(1) by (rule set_update_memI)
  moreover have "outcome (heard (ts ! i)) = Some (Some e)" using assms(2) by simp
  ultimately show ?thesis unfolding conc_ended_def option.case by (rule bexI[rotated])
qed

lemma filter_all:
  assumes "length (filter P xs) = length xs" and "x \<in> set xs"
  shows "P x"
  using assms by (metis filter_id_conv length_filter_less less_irrefl)

lemma conc_ended_all:
  assumes "conc_at s (length ts) ts"
  shows "conc_ended ts None"
proof -
  have "gone t" if "t \<in> set ts" for t
    using assms that by (intro filter_all[of gone ts]) (simp_all add: conc_at_def)
  with assms show ?thesis by (simp add: conc_at_def conc_ended_def)
qed

text \<open>Every step keeps the invariant.\<close>

lemma list_all_update: "list_all P xs \<Longrightarrow> P x \<Longrightarrow> list_all P (xs[i := x])"
  by (auto simp: list_all_iff dest: set_update_subset_insert[THEN subsetD])

lemma list_all_at: "list_all P xs \<Longrightarrow> i < length xs \<Longrightarrow> P (xs ! i)"
  by (simp add: list_all_length)

lemma seq_ok_phase: "phase b = phase b' \<Longrightarrow> seq_ok b ts = seq_ok b' ts"
  by (simp add: seq_ok_def)

lemma conc_ok_phase: "phase b = phase b' \<Longrightarrow> conc_ok b ts = conc_ok b' ts"
  by (simp add: conc_ok_def)

lemma conc_at_fresh:
  assumes "list_all fresh ts"
  shows "conc_at 0 0 ts"
proof -
  have "\<not> gone t" if "t \<in> set ts" for t
    using assms that fresh_basic[of t] by (auto simp: list_all_iff)
  with assms show ?thesis by (simp add: conc_at_def list_all_length filter_empty_conv)
qed

lemma ok_own:
  assumes "ok (Task b k ts)" and "basic_ok b'" and "outcome (Task b' k ts) = outcome (Task b k ts)"
    and "phase b' \<noteq> Panicked" and "seq_ok b ts \<Longrightarrow> seq_ok b' ts" and "conc_ok b ts \<Longrightarrow> conc_ok b' ts"
  shows "ok (Task b' k ts)"
  using assms by (cases k) auto

lemma step_ok: "step t ms t' \<Longrightarrow> ok t \<Longrightarrow> ok t'"
proof (induction rule: step.induct)
  case (start b k ts)
  then show ?case
    by (intro ok_own[OF start(2)]) (auto simp: basic_ok_def outcome_def seq_ok_def conc_ok_def
        conc_at_fresh)
next
  case (leaf b s c e ts)
  then show ?case by (simp add: basic_ok_def outcome_def)
next
  case (seq_panic b c)
  then show ?case by (simp add: basic_ok_def seq_ok_def)
next
  case (seq_first b c t ts)
  then have "c = 0" "fresh t" "list_all fresh ts" by (auto simp: seq_ok_def)
  moreover from this have "seq_at 0 (spawn t # ts)" "\<not> gone (spawn t)"
    using fresh_basic[of t] by (auto simp: seq_at_def list_all_length nth_Cons split: nat.splits)
  ultimately show ?case using seq_first
    by (auto simp: basic_ok_def seq_ok_def ok_spawn intro!: exI[of _ 0])
next
  case (seq_next i ts b)
  then have i: "ok (ts ! i)" by (simp add: list_all_at)
  from seq_next.prems have "seq_ok b ts" by simp
  from seq_ok_next[OF this seq_next(1,2)] ready_outcome[OF i seq_next(2)]
  show ?case using seq_next.prems ok_heard[OF i seq_next(2)] by (simp add: list_all_update ok_spawn)
next
  case (seq_recv i ts e b c)
  then have i: "ok (ts ! i)" by (simp add: list_all_at)
  from seq_recv.prems have "seq_ok b ts" by simp
  from seq_ended_recv[OF this seq_recv(1-3)] ready_outcome[OF i seq_recv(2)]
  show ?case using seq_recv.prems seq_recv.hyps ok_heard[OF i seq_recv(2)]
    by (simp add: list_all_update basic_ok_def seq_ok_def)
next
  case (conc_spawn b s c ts)
  then have "conc_at s c ts" by (simp add: conc_ok_def)
  from conc_at_spawn[OF this conc_spawn(2)] show ?case using conc_spawn
    by (simp add: list_all_update basic_ok_def conc_ok_def ok_spawn)
next
  case (conc_recv b ts c i e)
  then have i: "ok (ts ! i)" by (simp add: list_all_at)
  from conc_recv have "conc_at (length ts) c ts" by (simp add: conc_ok_def)
  with conc_at_recv[OF _ conc_recv(3)] conc_ended_recv[OF conc_recv(3)] ready_outcome[OF i conc_recv(4)]
    ok_heard[OF i conc_recv(4)] conc_recv
  show ?case by (cases e) (simp_all add: list_all_update basic_ok_def conc_ok_def)
next
  case (conc_all b ts)
  then have "conc_ended ts None" by (intro conc_ended_all[of "length ts"]) (simp add: conc_ok_def)
  with conc_all show ?case by (simp add: basic_ok_def conc_ok_def)
next
  case (after b e k ts)
  then show ?case
    by (intro ok_own[OF after(2)]) (auto simp: basic_ok_def outcome_def seq_ok_def conc_ok_def notify_def)
next
  case (conclude b e k ts)
  then show ?case
    by (intro ok_own[OF conclude(2)])
      (auto simp: basic_ok_def outcome_def seq_ok_def conc_ok_def conclude_def split: option.splits)
next
  case (sub ts i ms t b k)
  then have i: "ok (ts ! i)" by (simp add: list_all_at)
  note s = step_succeeds[OF sub(1) i]
  have "k \<noteq> Leaf w" for w using sub by auto
  then show ?case using sub i seq_ok_succeeds[OF _ sub(2) s] conc_ok_succeeds[OF _ sub(2) s]
    by (cases k) (simp_all add: list_all_update)
qed

section \<open>Outcomes, termination, progress\<close>

lemma may_end_Sequential:
  "may_end (Task b Sequential ts) e \<longleftrightarrow>
     (\<exists>j < length ts. may_end (ts ! j) e \<and> (e \<noteq> None \<or> Suc j = length ts) \<and> (\<forall>i < j. may_end (ts ! i) None))"
  by (simp add: Let_def cong: conj_cong)

lemma may_end_Concurrent:
  "may_end (Task b Concurrent ts) None \<longleftrightarrow> (\<forall>t \<in> set ts. may_end t None)"
  "may_end (Task b Concurrent ts) (Some x) \<longleftrightarrow> (\<exists>t \<in> set ts. may_end t (Some x))"
  by (simp_all add: Let_def all_set_conv_all_nth cong: conj_cong) (metis in_set_conv_nth)

lemma outcome_may_end: "ok t \<Longrightarrow> outcome t = Some e \<Longrightarrow> may_end t e"
proof (induction t arbitrary: e)
  case (Task b k ts)
  have IH: "may_end t e'" if "t \<in> set ts" "outcome t = Some e'" for t e'
    using that Task.IH Task.prems(1) by (simp add: list_all_iff)
  show ?case
  proof (cases k)
    case (Leaf w)
    with Task.prems show ?thesis by simp
  next
    case Sequential
    with Task.prems have "seq_ended ts e" by (auto simp: seq_ok_def outcome_def split: phase.splits)
    then obtain j where j: "seq_at j ts" "outcome (ts ! j) = Some e" "e \<noteq> None \<or> Suc j = length ts"
      by (auto simp: seq_ended_def)
    then have "may_end (ts ! j) e" "\<forall>i < j. may_end (ts ! i) None" "j < length ts"
      using IH by (auto simp: seq_at_def)
    with j(3) Sequential show ?thesis by (auto simp only: may_end_Sequential)
  next
    case Concurrent
    with Task.prems have "conc_ended ts e" by (auto simp: conc_ok_def outcome_def split: phase.splits)
    with IH Concurrent show ?thesis
      by (cases e) (auto simp: conc_ended_def may_end_Concurrent simp del: may_end.simps)
  qed
qed

text \<open>Steps change neither the kinds of the tasks nor what they may end with.\<close>

fun shape :: "task \<Rightarrow> task" where
  "shape (Task b k ts) = Task (newBasicTask []) k (map shape ts)"

lemma shape_with_basic [simp]: "shape (with_basic f t) = shape t"
  by (cases t) (simp add: with_basic_def)

lemma shape_spawn [simp]: "shape (spawn t) = shape t" "shape (heard t) = shape t"
  by (simp_all add: spawn_def heard_def)

lemma map_update_same: "i < length xs \<Longrightarrow> (map f xs)[i := f (xs ! i)] = map f xs"
  by (metis list_update_id nth_map)

lemma step_shape: "step t ms t' \<Longrightarrow> shape t' = shape t"
  by (induction rule: step.induct) (simp_all add: map_update map_update_same)

lemma may_end_shape: "may_end (shape t) e = may_end t e"
proof (induction t arbitrary: e)
  case (Task b k ts)
  then have "map (may_end \<circ> shape) ts = map may_end ts" by auto
  then show ?case unfolding shape.simps may_end.simps map_map length_map by (rule arg_cong)
qed

lemma returning_shape: "returning (shape t) = returning t"
  by (induction t) (auto simp: list_all_iff split: kind.splits)

fun phase_weight :: "nat \<Rightarrow> phase \<Rightarrow> nat" where
  "phase_weight n Idle = 2 * n + 8"
| "phase_weight n Spawned = 2 * n + 7"
| "phase_weight n (Working s c) = (n - s) + (n - c) + 6"
| "phase_weight n (Returned e) = 5"
| "phase_weight n (Notified e) = 1"
| "phase_weight n _ = 0"

fun listener_weight :: "listener \<Rightarrow> nat" where
  "listener_weight Silent = 2"
| "listener_weight (Ready e) = 1"
| "listener_weight Gone = 0"

text \<open>An upper bound of the number of steps a task can still make.\<close>

fun weight :: "task \<Rightarrow> nat" where
  "weight (Task b k ts) =
     phase_weight (length ts) (phase b) + listener_weight (listener b) + sum_list (map weight ts)"

lemma sum_update:
  fixes f :: "'a \<Rightarrow> nat"
  assumes "i < length xs"
  shows "sum_list (map f (xs[i := x])) + f (xs ! i) = sum_list (map f xs) + f x"
  using assms
proof (induction xs arbitrary: i)
  case (Cons y ys)
  then show ?case by (cases i) (auto simp: algebra_simps)
qed simp

lemma weight_spawn: "\<not> began t \<Longrightarrow> weight (spawn t) < weight t"
  by (cases t) (simp add: spawn_def with_basic_def)

lemma weight_heard: "listener (basic t) = Ready e \<Longrightarrow> weight (heard t) < weight t"
  by (cases t) (simp add: heard_def with_basic_def)

lemma weight_update:
  assumes "i < length ts" and "weight t < weight (ts ! i)"
  shows "sum_list (map weight (ts[i := t])) < sum_list (map weight ts)"
  using sum_update[OF assms(1), of weight t] assms(2) by simp

lemma step_weight: "step t ms t' \<Longrightarrow> ok t \<Longrightarrow> weight t' < weight t"
proof (induction rule: step.induct)
  case (seq_first b c t ts)
  then have "weight (spawn t) < weight t" by (intro weight_spawn) (auto simp: seq_ok_def dest: fresh_basic)
  with seq_first show ?case by simp
next
  case (seq_next i ts b)
  then have i: "ok (ts ! i)" by (simp add: list_all_at)
  from seq_next.prems have "seq_ok b ts" by simp
  from seq_ok_next(2)[OF this seq_next(1,2)] ready_outcome[OF i seq_next(2)]
  have "\<not> began (ts ! Suc i)" by (auto dest: fresh_basic)
  then have "sum_list (map weight (ts[i := heard (ts ! i), Suc i := spawn (ts ! Suc i)]))
      < sum_list (map weight (ts[i := heard (ts ! i)]))"
    using seq_next(1) by (intro weight_update) (simp_all add: weight_spawn)
  also have "\<dots> < sum_list (map weight ts)"
    using seq_next(1,2) by (intro weight_update weight_heard) simp_all
  finally show ?case by simp
next
  case (seq_recv i ts e b c)
  then show ?case using weight_update[OF seq_recv(1) weight_heard[OF seq_recv(2)]] by simp
next
  case (conc_spawn b s c ts)
  then have "conc_at s c ts" by (simp add: conc_ok_def)
  from conc_at_spawn(2)[OF this conc_spawn(2)] have "\<not> began (ts ! s)" by (auto dest: fresh_basic)
  with conc_spawn weight_update[OF conc_spawn(2) weight_spawn] show ?case by simp
next
  case (conc_recv b ts c i e)
  then show ?case using weight_update[OF conc_recv(3) weight_heard[OF conc_recv(4)]]
    by (cases e) simp_all
next
  case (sub ts i ms t b k)
  then have "ok (ts ! i)" by (simp add: list_all_at)
  with sub weight_update[OF sub(2), of t] show ?case by simp
qed (auto simp: basic_ok_def notify_def conclude_def split: option.splits)

text \<open>A task that has begun and not ended can make a step, unless a leaf of it hangs.\<close>

lemma progress:
  assumes "ok t" and "returning t" and "began t" and "\<And>e. phase (basic t) \<noteq> Ended e"
  shows "\<exists>ms t'. step t ms t'"
  using assms
proof (induction t)
  case (Task b k ts)
  have active: "\<exists>ms t'. step (Task b k ts) ms t'"
    if i: "i < length ts" "began (ts ! i)" "\<not> gone (ts ! i)" and nr: "\<And>e. listener (basic (ts ! i)) \<noteq> Ready e" for i
  proof -
    have oi: "ok (ts ! i)" "returning (ts ! i)" using Task.prems i(1) by (auto simp: list_all_length)
    have "phase (basic (ts ! i)) \<noteq> Ended e" for e
      using ok_basic[OF oi(1)] i(3) nr by (auto simp: basic_ok_def)
    with Task.IH[of "ts ! i"] oi i obtain ms t' where "step (ts ! i) ms t'" by auto
    then show ?thesis using step.sub i(1) by blast
  qed
  show ?case
  proof (cases "phase b")
    case (Working s c)
    show ?thesis
    proof (cases k)
      case (Leaf w)
      with Task.prems Working show ?thesis by (cases w) (auto intro: step.leaf)
    next
      case Sequential
      show ?thesis
      proof (cases "s = 0")
        case True
        with Sequential Working show ?thesis
          by (cases ts) (auto intro: step.seq_panic step.seq_first)
      next
        case False
        with Sequential Working Task.prems obtain j where j: "seq_at j ts" "\<not> gone (ts ! j)" "s = 1"
          by (auto simp: seq_ok_def)
        then have jl: "j < length ts" "began (ts ! j)" by (auto simp: seq_at_def)
        show ?thesis
        proof (cases "\<exists>e. listener (basic (ts ! j)) = Ready e")
          case True
          then obtain e where e: "listener (basic (ts ! j)) = Ready e" ..
          show ?thesis
          proof (cases "e = None \<and> Suc j < length ts")
            case True
            with e Sequential show ?thesis by (auto intro: step.seq_next)
          next
            case False
            with jl have "e \<noteq> None \<or> Suc j = length ts" by auto
            from step.seq_recv[OF jl(1) e this] Working j(3) Sequential show ?thesis by blast
          qed
        qed (use active jl j in blast)
      qed
    next
      case Concurrent
      with Working Task.prems have at: "conc_at s c ts" by (simp add: conc_ok_def)
      show ?thesis
      proof (cases "s < length ts")
        case True
        with Concurrent Working show ?thesis by (auto intro: step.conc_spawn)
      next
        case False
        with at have s: "s = length ts" by (simp add: conc_at_def)
        show ?thesis
        proof (cases "c = length ts")
          case True
          with Concurrent Working s show ?thesis by (auto intro: step.conc_all)
        next
          case False
          with at have "filter gone ts \<noteq> ts" by (auto simp: conc_at_def)
          then have "\<not> list_all gone ts" unfolding list_all_iff by (metis (mono_tags, lifting) filter_True)
          then obtain i where i: "i < length ts" "\<not> gone (ts ! i)" by (auto simp: list_all_length)
          from False at have "c < length ts"
            using le_neq_implies_less[OF length_filter_le[of gone ts]] by (simp add: conc_at_def)
          with i at s Working Concurrent active[OF i(1) _ i(2)] step.conc_recv[of b ts c i] show ?thesis
            by (auto simp: conc_at_def)
        qed
      qed
    qed
  qed (use Task.prems in \<open>auto intro: step.intros simp: seq_ok_def conc_ok_def split: kind.splits\<close>)
qed

section \<open>Runs\<close>

lemma run_ok: "run t ms n t' \<Longrightarrow> ok t \<Longrightarrow> ok t' \<and> shape t' = shape t \<and> n + weight t' \<le> weight t"
proof (induction rule: run.induct)
  case (run_step t ms n t' ms' t'')
  then have "ok t'" "n + weight t' \<le> weight t" by auto
  with step_weight[OF run_step(2)] step_ok[OF run_step(2)] step_shape[OF run_step(2)] run_step
  show ?case by auto
qed simp

lemma run_began: "run t ms n t' \<Longrightarrow> began t \<Longrightarrow> began t'"
  by (induction rule: run.induct) (auto dest: step_began)

lemma shape_eqD: "shape t = shape t' \<Longrightarrow> kind t = kind t' \<and> length (subs t) = length (subs t')"
  by (cases t; cases t') (auto dest: map_eq_imp_length_eq)

text \<open>
  The closing message of a task does not depend on its outcome: it is told before the listeners are
  called, be it for a success or a failure.
\<close>

lemma afterDone_said:
  assumes "run t ms n t'" and "outcome t = None" and "afterDone (basic t) = Some m"
    and "phase (basic t') = Notified e \<or> phase (basic t') = Ended e"
  shows "m \<in> set ms"
proof -
  have "afterDone (basic t') = Some m \<and>
      ((\<exists>e. phase (basic t') = Notified e \<or> phase (basic t') = Ended e) \<longrightarrow> m \<in> set ms)"
    using assms(1-3)
  proof (induction rule: run.induct)
    case (run_nil t)
    then show ?case by (auto simp: outcome_def)
  next
    case (run_step t ms n t' ms' t'')
    from run_step(2) consider
        (said) "ms' = msgs (afterDone (basic t'))"
      | (later) "\<exists>e. phase (basic t') = Notified e"
      | (same) "\<And>e. phase (basic t'') \<noteq> Notified e \<and> phase (basic t'') \<noteq> Ended e"
      | (sub) "phase (basic t'') = phase (basic t')"
      by (cases rule: step.cases) (auto split: option.splits)
    then show ?case
      using run_step step_afterDone[OF run_step(2)] by cases (auto simp: msgs_def)
  qed
  with assms(4) show ?thesis by blast
qed

text \<open>The works at the leaves: a task may end without error only if all of them do.\<close>

fun leaves :: "task \<Rightarrow> work list" where
  "leaves (Task b k ts) = (case k of Leaf w \<Rightarrow> [w] | _ \<Rightarrow> concat (map leaves ts))"

text \<open>No sequence is empty.\<close>

fun filled :: "task \<Rightarrow> bool" where
  "filled (Task b k ts) = ((k = Sequential \<longrightarrow> ts \<noteq> []) \<and> list_all filled ts)"

lemma returning_leaves: "fresh t \<Longrightarrow> filled t \<Longrightarrow> Hangs \<notin> set (leaves t) \<Longrightarrow> returning t"
proof (induction t)
  case (Task b k ts)
  then show ?case by (cases k) (auto simp: list_all_iff)
qed

lemma may_end_None: "may_end t None \<Longrightarrow> set (leaves t) \<subseteq> {Returns None}"
proof (induction t)
  case (Task b k ts)
  show ?case
  proof (cases k)
    case Sequential
    with Task.prems obtain j where j: "Suc j = length ts" "may_end (ts ! j) None" "\<forall>i < j. may_end (ts ! i) None"
      by (auto simp only: may_end_Sequential)
    then have "may_end (ts ! i) None" if "i < length ts" for i using that by (metis less_Suc_eq)
    then have "set (leaves x) \<subseteq> {Returns None}" if "x \<in> set ts" for x
      using that Task.IH by (auto simp: in_set_conv_nth)
    with Sequential show ?thesis by auto
  next
    case Concurrent
    with Task show ?thesis
      by (auto simp: may_end_Concurrent simp del: may_end.simps)
  qed (use Task.prems in auto)
qed

lemma may_end_Some: "may_end t (Some x) \<Longrightarrow> Returns (Some x) \<in> set (leaves t)"
proof (induction t)
  case (Task b k ts)
  show ?case
  proof (cases k)
    case Sequential
    with Task.prems obtain j where "j < length ts" "may_end (ts ! j) (Some x)"
      by (auto simp only: may_end_Sequential)
    with Task.IH[of "ts ! j"] Sequential show ?thesis by auto
  next
    case Concurrent
    with Task show ?thesis
      by (auto simp: may_end_Concurrent simp del: may_end.simps)
  qed (use Task.prems in auto)
qed

lemma run_ended:
  assumes "fresh t" and "run (spawn t) ms n t'" and "phase (basic t') = Ended e"
  shows "may_end t e" "err (basic t') = e" "status (basic t') = (if e = None then StatusDone else StatusFailed)"
proof -
  from run_ok[OF assms(2) ok_spawn[OF assms(1)]] have ok: "ok t'" and sh: "shape t' = shape t" by auto
  have "outcome t' = Some e" using assms(3) by (simp add: outcome_def)
  with outcome_may_end[OF ok] sh show "may_end t e" by (metis may_end_shape)
  show "err (basic t') = e" "status (basic t') = (if e = None then StatusDone else StatusFailed)"
    using assms(3) ok_basic[OF ok] by (simp_all add: basic_ok_def)
qed

lemma run_stuck:
  assumes "fresh t" and "returning t" and "run (spawn t) ms n t'" and "\<And>ms' t''. \<not> step t' ms' t''"
  shows "\<exists>e. phase (basic t') = Ended e"
proof -
  from run_ok[OF assms(3) ok_spawn[OF assms(1)]] have ok: "ok t'" and sh: "shape t' = shape t" by auto
  have "returning t'" using assms(2) sh returning_shape by metis
  moreover have "began t'" using run_began[OF assms(3)] by simp
  ultimately show ?thesis using progress[OF ok] assms(4) by blast
qed

lemma stopped_task:
  assumes "fresh t" and "returning t" and "run (spawn t) ms n t'" and "\<And>ms' t''. \<not> step t' ms' t''"
  obtains (succeeded) "set (leaves t) \<subseteq> {Returns None}" "status (basic t') = StatusDone"
  | (failed) x where "Returns (Some x) \<in> set (leaves t)" "status (basic t') = StatusFailed"
      "err (basic t') = Some x"
proof -
  from run_stuck[OF assms] obtain e where e: "phase (basic t') = Ended e" ..
  from run_ended[OF assms(1,3) e] show ?thesis
    by (cases e) (auto dest: may_end_None may_end_Some intro: succeeded failed)
qed

text \<open>
  C10: A task ends, with an outcome its subtasks explain. If no leaf hangs and no sequence is
  empty, then whatever the interleaving, a started task makes at most \<open>weight\<close> steps, never gets stuck,
  and when it stops its status and error are those of an outcome the specification allows.
\<close>
theorem started_tasks_end:
  assumes "fresh t" and "returning t" and "run (spawn t) ms n t'"
  shows "n \<le> weight t \<and> ((\<exists>ms' t''. step t' ms' t'') \<or>
    (\<exists>e. may_end t e \<and> err (basic t') = e \<and> status (basic t') = (if e = None then StatusDone else StatusFailed)))"
proof (rule conjI)
  from run_ok[OF assms(3) ok_spawn[OF assms(1)]] have
    w: "n + weight t' \<le> weight (spawn t)" by auto
  have "weight (spawn t) < weight t" using fresh_basic[OF assms(1)] by (intro weight_spawn) simp
  with w show "n \<le> weight t" by simp
next
  show "(\<exists>ms' t''. step t' ms' t'') \<or>
      (\<exists>e. may_end t e \<and> err (basic t') = e \<and> status (basic t') = (if e = None then StatusDone else StatusFailed))"
    using run_stuck[OF assms] run_ended[OF assms(1,3)] by metis
qed

text \<open>A sequence runs its subtasks in order. In every state of a started sequence, a subtask has
  begun only if all those before it have returned without an error.
\<close>
theorem sequence_runs_in_order:
  assumes "fresh (newSequentialParentTask ti sc ts)"
    and "run (spawn (newSequentialParentTask ti sc ts)) ms n t'"
    and "j < length ts" and "began (subs t' ! j)" and "i < j"
  shows "outcome (subs t' ! i) = Some None"
proof -
  let ?t = "newSequentialParentTask ti sc ts"
  from run_ok[OF assms(2) ok_spawn[OF assms(1)]] have ok: "ok t'" and sh: "shape t' = shape ?t" by auto
  then have k: "kind t' = Sequential" "length (subs t') = length ts"
    using shape_eqD[OF sh] by (simp_all add: newSequentialParentTask_def newParentTask_def)
  obtain b us where t': "t' = Task b Sequential us" using k by (cases t') auto
  have "\<not> list_all fresh us" using assms(3,4) k t' by (auto simp: list_all_length dest: fresh_basic)
  moreover have "us \<noteq> []" using assms(3) k t' by auto
  ultimately obtain m where m: "seq_at m us" using ok t'
    by (auto simp: seq_ok_def seq_ended_def split: phase.splits)
  have "j \<le> m"
  proof (rule ccontr)
    assume "\<not> j \<le> m"
    with m assms(3) k t' have "fresh (us ! j)" by (auto simp: seq_at_def)
    with assms(4) t' show False by (auto dest: fresh_basic)
  qed
  with m assms(5) t' show ?thesis by (auto simp: seq_at_def)
qed

subsection \<open>A concrete task\<close>

definition example_task :: task where
  "example_task = newSequentialParentTask ''root'' True
     [newLeafTask ''first'' (Returns None),
      newConcurrentParentTask ''both'' False
        [newLeafTask ''left'' (Returns (Some ''broken'')), newLeafTask ''right'' (Returns None)]]"

text \<open>A schedule that runs it to the end.\<close>

definition example_end :: task where
  "example_end = snd (schedule (replicate 40 0) (spawn example_task))"

lemma example_task_ok: "fresh example_task" "returning example_task"
  by code_simp+

lemma example_run: "\<exists>ms n. run (spawn example_task) ms n example_end"
  using schedule_runs[of "spawn example_task" "replicate 40 0"] by (auto simp: example_end_def)

lemma example_end_facts: "status (basic example_end) = StatusFailed" "err (basic example_end) = Some ''broken''"
  "began (subs example_end ! 1)" "outcome (subs example_end ! 0) = Some None"
  by code_simp+

lemma example_end_stuck: "\<not> step example_end ms t"
proof -
  have "steps example_end = []" by code_simp
  then show ?thesis using steps_complete[of example_end ms t] by auto
qed

text \<open>The status lags behind: a parent may be done while its only subtask still says it is running.\<close>

lemma parent_done_before_subtask:
  "\<exists>t ms n t'. fresh t \<and> run (spawn t) ms n t' \<and> status (basic t') = StatusDone
    \<and> status (basic (subs t' ! 0)) = StatusRunning"
proof -
  let ?t = "newSequentialParentTask ''root'' True [newLeafTask ''leaf'' (Returns None)]"
  let ?t' = "snd (schedule (replicate 8 0) (spawn ?t))"
  have "fresh ?t" "status (basic ?t') = StatusDone" "status (basic (subs ?t' ! 0)) = StatusRunning"
    by code_simp+
  with schedule_runs[of "spawn ?t" "replicate 8 0"] show ?thesis by blast
qed

theorem started_tasks_end_witness:
  "\<exists>ms n. run (spawn example_task) ms n example_end \<and> n \<le> weight example_task
    \<and> may_end example_task (Some ''broken'') \<and> status (basic example_end) = StatusFailed"
proof -
  from example_run obtain ms n where r: "run (spawn example_task) ms n example_end" by blast
  from started_tasks_end[OF example_task_ok r] example_end_stuck example_end_facts r show ?thesis
    by auto
qed

theorem sequence_runs_in_order_witness: "outcome (subs example_end ! 0) = Some None"
proof -
  from example_run obtain ms n where r: "run (spawn example_task) ms n example_end" by blast
  note e = example_task_def
  show ?thesis
    by (rule sequence_runs_in_order[OF example_task_ok(1)[unfolded e] r[unfolded e], of 1 0])
      (use example_end_facts in simp_all)
qed

end
