(* ===== verification/EnvTasks.thy ===== *)
theory EnvTasks
  imports EnvServer Tasks
begin

text \<open>
  The tasks that provision an environment and watch a release
  (\<open>src/core/installer/tasks\<close>: \<open>env.go\<close>, \<open>init.go\<close>, \<open>activate.go\<close>, \<open>dns.go\<close>,
  \<open>infra.go\<close>, \<open>web.go\<close>, \<open>release.go\<close>).

  Modelled are the trees of tasks, with their titles and messages, and the leaves that poll until something
  holds. What the other leaves do (they install applications and set up the repositories of the
  environment) is a parameter: the error they return, or that they never do.
\<close>

section \<open>Polling leaves\<close>

text \<open>The number of the first attempt that succeeds; the loop runs for ever when none does.\<close>

partial_function (option) poll :: "(nat \<Rightarrow> bool) \<Rightarrow> nat \<Rightarrow> nat option" where
  "poll f n = (if f n then Some n else poll f (Suc n))"

declare poll.simps [code]

definition polling :: "(nat \<Rightarrow> bool) \<Rightarrow> work" where
  "polling f = (case poll f 0 of Some _ \<Rightarrow> Returns None | None \<Rightarrow> Hangs)"

lemma poll_reaches: "f (n + k) \<Longrightarrow> \<exists>m. poll f n = Some m"
proof (induction k arbitrary: n)
  case 0
  then show ?case by (simp add: poll.simps)
next
  case (Suc k)
  from Suc.IH[of "Suc n"] Suc.prems obtain m where "poll f (Suc n) = Some m" by auto
  then show ?case by (subst poll.simps) auto
qed

lemma poll_Some:
  assumes "poll f n = Some m"
  shows "f m"
  by (rule poll.raw_induct[where P = "\<lambda>f n m. f m", OF _ assms]) (auto split: if_splits)

lemma polling_iff: "polling f = Returns None \<longleftrightarrow> (\<exists>n. f n)"
proof
  assume "polling f = Returns None"
  then obtain m where "poll f 0 = Some m" by (auto simp: polling_def split: option.splits)
  then show "\<exists>n. f n" using poll_Some by blast
next
  assume "\<exists>n. f n"
  then obtain n where "f n" ..
  then show "polling f = Returns None" using poll_reaches[of f 0 n] by (auto simp: polling_def)
qed

lemma polling_Hangs: "polling f = Hangs \<longleftrightarrow> (\<forall>n. \<not> f n)"
  using polling_iff[of f] by (auto simp: polling_def split: option.splits)

text \<open>\<open>net.IP.Equal\<close>: an IPv4 address equals its sixteen-byte form.\<close>

definition ip_equal :: "IP \<Rightarrow> IP \<Rightarrow> bool" where
  "ip_equal a b =
     (if length a = length b then a = b
      else if length a = 4 \<and> length b = 16 then b = v4_prefix @ a
      else if length a = 16 \<and> length b = 4 then a = v4_prefix @ b
      else False)"

definition gotExpectedIPs :: "IP list \<Rightarrow> IP list \<Rightarrow> bool" where
  "gotExpectedIPs expected actual = list_all (\<lambda>a. list_ex (ip_equal a) expected) actual"

section \<open>The world of the tasks\<close>

text \<open>
  \<open>get\<close>, \<open>lookup\<close> and \<open>isReleased\<close> answer the \<open>n\<close>-th attempt of a client; the other fields are what the
  leaves of that name return.
\<close>

record outside =
  getAddr :: "string \<Rightarrow> nat \<Rightarrow> (string, nat) result"
  lookup :: "string \<Rightarrow> nat \<Rightarrow> (string, IP list) result"
  isReleased :: "string \<Rightarrow> string \<Rightarrow> nat \<Rightarrow> (string, bool) result"
  workOf :: "string \<Rightarrow> work"

definition waitForAddr :: "outside \<Rightarrow> string \<Rightarrow> task" where
  "waitForAddr W addr = newLeafTask (''Wait for '' @ addr @ '' to come up'')
     (polling (\<lambda>n. case getAddr W addr n of Inl _ \<Rightarrow> False | Inr code \<Rightarrow> code = StatusOK))"

definition WaitToPropagate :: "outside \<Rightarrow> string \<Rightarrow> IP list \<Rightarrow> task" where
  "WaitToPropagate W name expected = newLeafTask ''Wait to propagate''
     (polling (\<lambda>n. case lookup W name n of Inl _ \<Rightarrow> False | Inr addrs \<Rightarrow> gotExpectedIPs expected addrs))"

definition newMonitorHelm :: "outside \<Rightarrow> Resource \<Rightarrow> task" where
  "newMonitorHelm W h = newLeafTask (resNamespace h @ ''/'' @ resName h)
     (polling (\<lambda>n. isReleased W (resNamespace h) (resName h) n = Inr True))"

definition NewMonitorRelease :: "outside \<Rightarrow> Resource list \<Rightarrow> task" where
  "NewMonitorRelease W helm = newConcurrentParentTask ''Monitor'' True (map (newMonitorHelm W) helm)"

section \<open>The repository of an environment\<close>

definition before :: "string \<Rightarrow> task \<Rightarrow> task" where
  "before m t = with_basic (beforeStart_update (\<lambda>_. Some m)) t"

definition afterwards :: "string \<Rightarrow> task \<Rightarrow> task" where
  "afterwards m t = with_basic (afterDone_update (\<lambda>_. Some m)) t"

definition leafOf :: "outside \<Rightarrow> string \<Rightarrow> task" where
  "leafOf W t = newLeafTask t (workOf W t)"

definition CreateRepoClient :: "outside \<Rightarrow> task" where
  "CreateRepoClient W = before ''Setting up core infrastructure services.'' (leafOf W ''Create repo client'')"

definition NewActivateEnvTask :: "outside \<Rightarrow> task" where
  "NewActivateEnvTask W = newSequentialParentTask ''Activate GitOps'' False [leafOf W ''Commit initial configuration'']"

definition SetupConfigRepoTask :: "outside \<Rightarrow> task" where
  "SetupConfigRepoTask W =
     before (''dodo is driven by GitOps, changes are committed to the repository before updating an environment. '' @
         ''This unlocks functionalities such as: rolling back to old working state, migrating dodo to new '' @
         ''infrastructure (for example from Cloud to on-prem).'')
       (newSequentialParentTask ''Configure Git repository'' True
          [newSequentialParentTask ''Start up Git server'' False
             [leafOf W ''Install Git server'', leafOf W ''Wait git server to come up''],
           leafOf W ''Configure access control lists'',
           NewActivateEnvTask W,
           newSequentialParentTask ''Create initial commit'' False
             [CreateRepoClient W, leafOf W ''commit config'', leafOf W ''Configure first account settings'']])"

definition SetupZoneTask :: "outside \<Rightarrow> EnvConfig \<Rightarrow> task" where
  "SetupZoneTask W env =
     afterwards ''DNS zone records have been propagated.''
       (before (''Generating DNS zone records for '' @ EnvDomain env)
          (newSequentialParentTask ''Configure DNS'' True
             [leafOf W ''Start up DNS server'', WaitToPropagate W (EnvDomain env) (PublicIP env)]))"

section \<open>The core services\<close>

text \<open>The leaves called \<open>Setup\<close> in the code carry here the name of their parent.\<close>

definition setup_and_wait :: "outside \<Rightarrow> string \<Rightarrow> string \<Rightarrow> task" where
  "setup_and_wait W t addr = newSequentialParentTask t False
     [newLeafTask ''Setup'' (workOf W t), waitForAddr W addr]"

definition SetupCertificateIssuers :: "outside \<Rightarrow> EnvConfig \<Rightarrow> task" where
  "SetupCertificateIssuers W env = newSequentialParentTask ''Configure TLS certificate issuers'' False
     [leafOf W (''Public '' @ EnvDomain env), leafOf W (''Private p.'' @ EnvDomain env)]"

definition SetupAuth :: "outside \<Rightarrow> EnvConfig \<Rightarrow> task" where
  "SetupAuth W env = setup_and_wait W ''Authentication services'' (''https://accounts-ui.'' @ EnvDomain env)"

definition SetupGroupMemberships :: "outside \<Rightarrow> EnvConfig \<Rightarrow> task" where
  "SetupGroupMemberships W env = setup_and_wait W ''Group membership'' (''https://memberships.p.'' @ EnvDomain env)"

definition SetupLauncher :: "outside \<Rightarrow> EnvConfig \<Rightarrow> task" where
  "SetupLauncher W env = setup_and_wait W ''Launcher'' (''https://launcher.'' @ EnvDomain env)"

definition SetupHeadscale :: "outside \<Rightarrow> EnvConfig \<Rightarrow> task" where
  "SetupHeadscale W env = setup_and_wait W ''Setup mesh VPN'' (''https://headscale.'' @ EnvDomain env @ ''/apple'')"

definition SetupWelcome :: "outside \<Rightarrow> EnvConfig \<Rightarrow> task" where
  "SetupWelcome W env = setup_and_wait W ''Welcome service'' (''https://welcome.'' @ EnvDomain env)"

definition SetupInfra :: "outside \<Rightarrow> EnvConfig \<Rightarrow> task" where
  "SetupInfra W env = newConcurrentParentTask ''Setup core services'' True
     [leafOf W ''Setup private and public networks'', SetupCertificateIssuers W env, SetupAuth W env,
      SetupGroupMemberships W env, SetupHeadscale W env, SetupWelcome W env,
      leafOf W ''Application marketplace'', SetupLauncher W env]"

definition provisioned :: "EnvConfig \<Rightarrow> string" where
  "provisioned env = ''dodo environment for '' @ EnvDomain env @ '' has been provisioned successfully. Visit [https://welcome.''
     @ EnvDomain env @ ''](https://welcome.'' @ EnvDomain env
     @ '') to create administrative account and log into the system.''"

definition NewCreateEnvTask :: "outside \<Rightarrow> EnvConfig \<Rightarrow> task" where
  "NewCreateEnvTask W env =
     afterwards (provisioned env)
       (newSequentialParentTask ''Create env'' True [SetupConfigRepoTask W, SetupZoneTask W env, SetupInfra W env])"

section \<open>Correctness of the trees\<close>

lemmas env_tree_defs = NewCreateEnvTask_def SetupConfigRepoTask_def SetupZoneTask_def SetupInfra_def
  NewActivateEnvTask_def CreateRepoClient_def SetupCertificateIssuers_def SetupAuth_def
  SetupGroupMemberships_def SetupLauncher_def SetupHeadscale_def SetupWelcome_def setup_and_wait_def
  leafOf_def before_def afterwards_def waitForAddr_def WaitToPropagate_def

lemmas constructor_defs = newSequentialParentTask_def newConcurrentParentTask_def newParentTask_def
  newLeafTask_def newBasicTask_def with_basic_def

text \<open>The titles of the leaves, in order.\<close>

fun leaf_titles :: "task \<Rightarrow> string list" where
  "leaf_titles (Task b k ts) = (case k of Leaf _ \<Rightarrow> [title b] | _ \<Rightarrow> concat (map leaf_titles ts))"

lemma create_env_fresh: "fresh (NewCreateEnvTask W env)"
  by (simp add: env_tree_defs constructor_defs)

text \<open>The addresses and names an environment waits for.\<close>

definition env_works :: "outside \<Rightarrow> EnvConfig \<Rightarrow> work list" where
  "env_works W env = leaves (NewCreateEnvTask W env)"

lemma create_env_returning: "Hangs \<notin> set (env_works W env) \<Longrightarrow> returning (NewCreateEnvTask W env)"
  unfolding env_works_def
  by (rule returning_leaves[OF create_env_fresh]) (simp_all add: env_tree_defs constructor_defs)

lemma create_env_afterDone: "afterDone (basic (NewCreateEnvTask W env)) = Some (provisioned env)"
  by (simp add: NewCreateEnvTask_def afterwards_def)

text \<open>Provisioning reports its outcome. Whatever the interleaving of its tasks, when nothing is left to
  do the environment is done exactly if every leaf returned without error, and otherwise failed with
  the error of a leaf; it is not reported while a leaf is still waiting.
\<close>
theorem create_env_outcome:
  assumes "Hangs \<notin> set (env_works W env)" and "run (spawn (NewCreateEnvTask W env)) ms n t'"
    and "\<And>ms' t''. \<not> step t' ms' t''"
  shows "if set (env_works W env) = {Returns None} then status (basic t') = StatusDone
    else status (basic t') = StatusFailed \<and> (\<exists>x. err (basic t') = Some x \<and> Returns (Some x) \<in> set (env_works W env))"
proof -
  have ne: "env_works W env \<noteq> []" by (simp add: env_works_def env_tree_defs constructor_defs)
  from create_env_fresh create_env_returning[OF assms(1)] assms(2,3) show ?thesis
  proof (cases rule: stopped_task)
    case succeeded
    then have "set (env_works W env) = {Returns None}" using ne
      by (metis env_works_def set_empty subset_singletonD)
    with succeeded show ?thesis by simp
  next
    case (failed x)
    then have "set (env_works W env) \<noteq> {Returns None}" by (auto simp: env_works_def)
    with failed show ?thesis by (auto simp: env_works_def)
  qed
qed

text \<open>A failed environment is announced as provisioned. Once the task of an environment has ended, its
  info listener has been told that it was provisioned successfully, even when the task failed.
\<close>
theorem failed_env_is_announced:
  assumes "run (spawn (NewCreateEnvTask W env)) ms n t'" and "status (basic t') = StatusFailed"
  shows "provisioned env \<in> set ms"
proof -
  let ?t = "NewCreateEnvTask W env"
  from run_ok[OF assms(1) ok_spawn[OF create_env_fresh]] have "basic_ok (basic t')" by (auto dest: ok_basic)
  with assms(2) obtain e where "phase (basic t') = Ended e"
    by (auto simp: basic_ok_def split: phase.splits)
  then show ?thesis
    using afterDone_said[OF assms(1)] create_env_afterDone[of W env] by (auto simp: outcome_def)
qed

text \<open>A release is monitored until it is out. The monitor of a release can only stop as done, and it
  does when every Helm release of it is eventually reported as released.
\<close>
theorem monitor_waits_for_release:
  assumes "\<forall>h \<in> set helm. \<exists>n. isReleased W (resNamespace h) (resName h) n = Inr True"
    and "run (spawn (NewMonitorRelease W helm)) ms n t'" and "\<And>ms' t''. \<not> step t' ms' t''"
  shows "status (basic t') = StatusDone"
proof -
  let ?t = "NewMonitorRelease W helm"
  have leaf: "leaves (newMonitorHelm W h) = [Returns None]" if "h \<in> set helm" for h
    using assms(1) that polling_iff by (auto simp: newMonitorHelm_def newLeafTask_def)
  have fr: "fresh ?t"
    by (auto simp: NewMonitorRelease_def newMonitorHelm_def constructor_defs list_all_iff)
  have "returning ?t" using leaf
    by (auto simp: NewMonitorRelease_def newMonitorHelm_def constructor_defs list_all_iff)
  from fr this assms(2,3) show ?thesis
  proof (cases rule: stopped_task)
    case (failed x)
    moreover have "set (leaves ?t) \<subseteq> {Returns None}" using leaf
      by (auto simp: NewMonitorRelease_def newConcurrentParentTask_def newParentTask_def)
    ultimately show ?thesis by blast
  qed
qed

subsection \<open>A concrete environment\<close>

definition example_outside :: "work \<Rightarrow> outside" where
  "example_outside w = \<lparr>getAddr = (\<lambda>_ n. if n = 0 then Inl ''refused'' else Inr StatusOK),
     lookup = (\<lambda>_ _. Inr [[1, 2, 3, 4]]), isReleased = (\<lambda>_ _ n. Inr (n = 1)),
     workOf = (\<lambda>t. if t = ''Install Git server'' then w else Returns None)\<rparr>"

definition example_env :: EnvConfig where
  "example_env = \<lparr>EnvId = ''e'', InfraName = ''i'', EnvDomain = ''e.com'', PrivateDomain = ''p.e.com'',
     ContactEmail = [], AdminPublicKey = [], PublicIP = [v4_prefix @ [1, 2, 3, 4]], NameserverIP = [],
     NamespacePrefix = ''e-'', EnvNet = \<lparr>netDNS = [], netDNSInClusterIP = [], netIngress = [], netHeadscale = [], netServicesFrom = [], netServicesTo = []\<rparr>\<rparr>"

text \<open>Where the tasks of the environment end when the Git server is installed, or is not.\<close>

definition example_final :: "work \<Rightarrow> task" where
  "example_final w = snd (schedule (replicate 200 0) (spawn (NewCreateEnvTask (example_outside w) example_env)))"

definition example_failed :: task where
  "example_failed = example_final (Returns (Some ''no app''))"

lemma example_failed_run:
  obtains ms n where "run (spawn (NewCreateEnvTask (example_outside (Returns (Some ''no app''))) example_env)) ms n example_failed"
  using schedule_runs[of "spawn (NewCreateEnvTask (example_outside (Returns (Some ''no app''))) example_env)"
      "replicate 200 0"] that by (auto simp: example_failed_def example_final_def)

lemma example_failed_stuck: "\<not> step example_failed ms t"
proof -
  have "steps example_failed = []" by code_simp
  then show ?thesis using steps_complete[of example_failed ms t] by auto
qed

lemma example_works: "Hangs \<notin> set (env_works (example_outside (Returns (Some ''no app''))) example_env)"
  "Returns (Some ''no app'') \<in> set (env_works (example_outside (Returns (Some ''no app''))) example_env)"
  by code_simp+

lemma example_failed_status: "status (basic example_failed) = StatusFailed"
  by code_simp

theorem create_env_outcome_witness: "status (basic example_failed) = StatusFailed"
proof -
  let ?W = "example_outside (Returns (Some ''no app''))"
  obtain ms n where r: "run (spawn (NewCreateEnvTask ?W example_env)) ms n example_failed"
    by (rule example_failed_run)
  have "set (env_works ?W example_env) \<noteq> {Returns None}" using example_works(2) by auto
  with create_env_outcome[OF example_works(1) r example_failed_stuck] show ?thesis by simp
qed

theorem failed_env_is_announced_witness:
  "\<exists>ms n. run (spawn (NewCreateEnvTask (example_outside (Returns (Some ''no app''))) example_env)) ms n example_failed
    \<and> provisioned example_env \<in> set ms"
proof -
  obtain ms n where r: "run (spawn (NewCreateEnvTask (example_outside (Returns (Some ''no app''))) example_env)) ms n example_failed"
    by (rule example_failed_run)
  with failed_env_is_announced[OF r example_failed_status] show ?thesis by blast
qed

definition example_helm :: "Resource list" where
  "example_helm = [\<lparr>resName = ''a'', resNamespace = ''ns''\<rparr>, \<lparr>resName = ''b'', resNamespace = ''ns''\<rparr>]"

definition example_monitor :: task where
  "example_monitor = snd (schedule (replicate 40 0) (spawn (NewMonitorRelease (example_outside Hangs) example_helm)))"

theorem monitor_waits_for_release_witness: "status (basic example_monitor) = StatusDone"
proof -
  let ?t = "spawn (NewMonitorRelease (example_outside Hangs) example_helm)"
  have "steps example_monitor = []" by code_simp
  then have stuck: "\<not> step example_monitor ms t" for ms t using steps_complete[of example_monitor ms t] by auto
  obtain ms n where r: "run ?t ms n example_monitor"
    using schedule_runs[of ?t "replicate 40 0"] by (auto simp: example_monitor_def)
  have "\<forall>h \<in> set example_helm. \<exists>n. isReleased (example_outside Hangs) (resNamespace h) (resName h) n = Inr True"
    by (simp add: example_outside_def)
  from monitor_waits_for_release[OF this r stuck] show ?thesis .
qed

end
