(* ===== verification/AppStore.thy ===== *)
theory AppStore
  imports AppRepository EnvTasks
begin

text \<open>
  The application manager of an environment (\<open>AppManagerServer\<close> of
  \<open>src/core/installer/welcome/appmanager.go\<close>): it lists the applications of a repository (theory
  \<open>AppRepository\<close>), installs, updates and removes instances (theory \<open>AppManager\<close>) and keeps a task
  (theory \<open>Tasks\<close>) for every instance whose Helm releases are not out yet.

  The handlers of package echo return an error or have written a reply; a panic ends the connection.
  The listener that removes a finished task is a call of its own, since it runs on a goroutine.
\<close>

section \<open>State and replies\<close>

record storeapp =
  stName :: string
  stIcon :: string
  stDescription :: string
  stSlug :: string
  stInstances :: "AppInstanceConfig list"

record appContext =
  ctxApp :: cueApp
  ctxInstance :: "AppInstanceConfig option"
  ctxInstances :: "AppInstanceConfig list"
  ctxNetworks :: "Network list"
  ctxTask :: "task option"

datatype store_reply =
    AppsJSON "storeapp list"
  | AppJSON storeapp
  | Location string
  | IndexPage "storeapp list"
  | AppPage appContext
  | Failed string
  | Crashed
  | NoReply

text \<open>The number of reconcilers started counts \<open>go s.reconciler.Reconcile(ctx)\<close>.\<close>

record storeserver =
  ssWorld :: world
  ssTasks :: "string \<rightharpoonup> task"
  ssReconcilers :: nat

record storeenv =
  seApps :: appenv
  seManager :: AppManager
  seRepo :: repository
  seOutside :: outside
  seTmplErr :: "string option"
  seExecErr :: "string option"

definition reply_of :: "(string, store_reply) result \<Rightarrow> store_reply" where
  "reply_of x = (case x of Inl e \<Rightarrow> Failed e | Inr w \<Rightarrow> w)"

definition store_app :: "App \<Rightarrow> AppInstanceConfig list \<Rightarrow> storeapp" where
  "store_app a instances = \<lparr>stName = appName (app_cue a), stIcon = appIcon (app_cue a),
     stDescription = appDescription (app_cue a), stSlug = app_Slug a, stInstances = instances\<rparr>"

section \<open>Handlers that read\<close>

definition handleAppRepo :: "storeenv \<Rightarrow> store_reply" where
  "handleAppRepo V = reply_of (bindE (GetAll (seRepo V)) (\<lambda>all. Inr (AppsJSON (map (\<lambda>a. store_app a []) all))))"

definition handleApp :: "storeenv \<Rightarrow> string \<Rightarrow> storeserver \<Rightarrow> store_reply" where
  "handleApp V slug s = reply_of
     (bindE (app_Find (seRepo V) slug) (\<lambda>a.
      bindE (FindAllAppInstances (seApps V) (seManager V) slug (wRepo (ssWorld s))) (\<lambda>instances.
        Inr (AppJSON (store_app a instances)))))"

definition handleInstance :: "storeenv \<Rightarrow> string \<Rightarrow> storeserver \<Rightarrow> store_reply" where
  "handleInstance V slug s = reply_of
     (bindE (FindInstance (seApps V) (seManager V) slug (wRepo (ssWorld s))) (\<lambda>instance.
      bindE (app_Find (seRepo V) (cfgAppId instance)) (\<lambda>a.
        Inr (AppJSON (store_app a [instance])))))"

definition execute :: "storeenv \<Rightarrow> store_reply \<Rightarrow> (string, store_reply) result" where
  "execute V page = (case seExecErr V of Some e \<Rightarrow> Inl e | None \<Rightarrow> Inr page)"

definition templates :: "storeenv \<Rightarrow> (string, unit) result" where
  "templates V = (case seTmplErr V of Some e \<Rightarrow> Inl e | None \<Rightarrow> Inr ())"

definition handleIndex :: "storeenv \<Rightarrow> store_reply" where
  "handleIndex V = reply_of
     (bindE (templates V) (\<lambda>_.
      bindE (GetAll (seRepo V)) (\<lambda>all. execute V (IndexPage (map (\<lambda>a. store_app a []) all)))))"

definition networks_of :: "EnvConfig \<Rightarrow> Network list" where
  "networks_of env = CreateNetworks (EnvId env) (InfraName env) (EnvDomain env) (PrivateDomain env)"

definition handleAppUI :: "storeenv \<Rightarrow> string \<Rightarrow> storeserver \<Rightarrow> store_reply" where
  "handleAppUI V slug s = reply_of
     (bindE (templates V) (\<lambda>_.
      bindE (mgr_Config (seApps V) (wRepo (ssWorld s))) (\<lambda>global.
      bindE (FindEnvApp (seRepo V) slug) (\<lambda>a.
      bindE (FindAllAppInstances (seApps V) (seManager V) slug (wRepo (ssWorld s))) (\<lambda>instances.
        execute V (AppPage \<lparr>ctxApp = a, ctxInstance = None, ctxInstances = instances,
          ctxNetworks = networks_of global, ctxTask = None\<rparr>))))))"

definition handleInstanceUI :: "storeenv \<Rightarrow> string \<Rightarrow> storeserver \<Rightarrow> store_reply" where
  "handleInstanceUI V slug s = reply_of
     (bindE (templates V) (\<lambda>_.
      bindE (mgr_Config (seApps V) (wRepo (ssWorld s))) (\<lambda>global.
      bindE (FindInstance (seApps V) (seManager V) slug (wRepo (ssWorld s))) (\<lambda>instance.
      bindE (FindEnvApp (seRepo V) (cfgAppId instance)) (\<lambda>a.
      bindE (FindAllAppInstances (seApps V) (seManager V) (Slug a) (wRepo (ssWorld s))) (\<lambda>instances.
        execute V (AppPage \<lparr>ctxApp = a, ctxInstance = Some instance, ctxInstances = instances,
          ctxNetworks = networks_of global, ctxTask = ssTasks s slug\<rparr>)))))))"

section \<open>Handlers that change\<close>

text \<open>\<open>values\<close> is the outcome of reading the body and decoding it, \<open>rnd\<close> that of \<open>rand.Read\<close>.\<close>

definition handleAppInstall ::
    "storeenv \<Rightarrow> string \<Rightarrow> (string, (string \<times> goval) list) result \<Rightarrow> (string, byte list) result \<Rightarrow>
     storeserver \<Rightarrow> storeserver \<times> store_reply" where
  "handleAppInstall V slug values rnd s =
     (case bindE values (\<lambda>vals.
           bindE (FindEnvApp (seRepo V) slug) (\<lambda>a.
           bindE (mgr_Config (seApps V) (wRepo (ssWorld s))) (\<lambda>env.
           bindE (generateSuffix rnd) (\<lambda>suffix. Inr (vals, a, env, suffix))))) of
        Inl e \<Rightarrow> (s, Failed e)
      | Inr (vals, a, env, suffix) \<Rightarrow>
      (let instanceId = Slug a @ suffix;
           appDir = ''/apps/'' @ instanceId;
           namespace = NamespacePrefix env @ appNamespace a @ suffix
       in case Install (seApps V) a instanceId appDir namespace vals (ssWorld s) of
            (w, InstallError e) \<Rightarrow> (s\<lparr>ssWorld := w\<rparr>, Failed e)
          | (w, InstallPanic) \<Rightarrow> (s\<lparr>ssWorld := w\<rparr>, Crashed)
          | (w, InstallDiverges) \<Rightarrow> (s\<lparr>ssWorld := w\<rparr>, NoReply)
          | (w, Installed helm) \<Rightarrow>
              (let s1 = s\<lparr>ssWorld := w, ssReconcilers := ssReconcilers s + 1\<rparr> in
               if ssTasks s instanceId \<noteq> None then (s1, Crashed)
               else (s1\<lparr>ssTasks := (ssTasks s)(instanceId \<mapsto> spawn (NewMonitorRelease (seOutside V) helm))\<rparr>,
                     Location (''/instance/'' @ instanceId)))))"

definition handleAppUpdate ::
    "storeenv \<Rightarrow> string \<Rightarrow> (string, (string \<times> goval) list) result \<Rightarrow> storeserver \<Rightarrow> storeserver \<times> store_reply" where
  "handleAppUpdate V slug values s =
     (case bindE (mgr_AppConfig (seApps V) (seManager V) slug (wRepo (ssWorld s))) (\<lambda>appConfig.
           bindE values (\<lambda>vals.
           bindE (FindEnvApp (seRepo V) (cfgAppId appConfig)) (\<lambda>a.
           bindE (guardE (ssTasks s slug = None) ''Update already in progress'') (\<lambda>_. Inr (vals, a))))) of
        Inl e \<Rightarrow> (s, Failed e)
      | Inr (vals, a) \<Rightarrow>
      (case Update (seApps V) (seManager V) a slug vals False (ssWorld s) of
         (w, InstallError e) \<Rightarrow> (s\<lparr>ssWorld := w\<rparr>, Failed e)
       | (w, InstallPanic) \<Rightarrow> (s\<lparr>ssWorld := w\<rparr>, Crashed)
       | (w, InstallDiverges) \<Rightarrow> (s\<lparr>ssWorld := w\<rparr>, NoReply)
       | (w, Installed helm) \<Rightarrow>
           (s\<lparr>ssWorld := w, ssReconcilers := ssReconcilers s + 1,
              ssTasks := (ssTasks s)(slug \<mapsto> spawn (NewMonitorRelease (seOutside V) helm))\<rparr>,
            Location (''/instance/'' @ slug))))"

definition handleAppRemove :: "storeenv \<Rightarrow> string \<Rightarrow> storeserver \<Rightarrow> storeserver \<times> store_reply" where
  "handleAppRemove V slug s =
     (case Remove (seApps V) (seManager V) slug (wRepo (ssWorld s)) of
        (r, Some e) \<Rightarrow> (s\<lparr>ssWorld := (ssWorld s)\<lparr>wRepo := r\<rparr>\<rparr>, Failed e)
      | (r, None) \<Rightarrow>
          (s\<lparr>ssWorld := (ssWorld s)\<lparr>wRepo := r\<rparr>, ssReconcilers := ssReconcilers s + 1\<rparr>, Location ''/''))"

text \<open>The listener of a task that is done.\<close>

definition task_done :: "string \<Rightarrow> storeserver \<Rightarrow> storeserver" where
  "task_done slug s = s\<lparr>ssTasks := (ssTasks s)(slug := None)\<rparr>"

datatype store_call =
    GetRepo | GetApp string | GetInstance string | GetIndex | GetAppUI string | GetInstanceUI string
  | PostInstall string "(string, (string \<times> goval) list) result" "(string, byte list) result"
  | PostUpdate string "(string, (string \<times> goval) list) result"
  | PostRemove string
  | TaskDone string

fun store_serve :: "storeenv \<Rightarrow> store_call \<Rightarrow> storeserver \<Rightarrow> storeserver \<times> store_reply" where
  "store_serve V GetRepo s = (s, handleAppRepo V)"
| "store_serve V (GetApp slug) s = (s, handleApp V slug s)"
| "store_serve V (GetInstance slug) s = (s, handleInstance V slug s)"
| "store_serve V GetIndex s = (s, handleIndex V)"
| "store_serve V (GetAppUI slug) s = (s, handleAppUI V slug s)"
| "store_serve V (GetInstanceUI slug) s = (s, handleInstanceUI V slug s)"
| "store_serve V (PostInstall slug values rnd) s = handleAppInstall V slug values rnd s"
| "store_serve V (PostUpdate slug values) s = handleAppUpdate V slug values s"
| "store_serve V (PostRemove slug) s = handleAppRemove V slug s"
| "store_serve V (TaskDone slug) s = (task_done slug s, NoReply)"

section \<open>From an installation to the instance\<close>

definition instance_name :: "cueApp \<Rightarrow> byte list \<Rightarrow> string" where
  "instance_name a bs = Slug a @ ''-'' @ map letter bs"

lemma letter_ne: "letter v \<noteq> CHR ''/''"
proof -
  have "of_char (letter v) = (97 + unat v mod 26 :: nat)" by (simp add: letter_def of_char_of)
  then show ?thesis by auto
qed

lemma instance_name_ok:
  assumes "CHR ''/'' \<notin> set (Slug a)"
  shows "comp_ok (instance_name a bs)" and "instance_name a bs \<noteq> ''kustomization.yaml''"
proof -
  have dash: "CHR ''-'' \<in> set (instance_name a bs)" by (simp add: instance_name_def)
  have "CHR ''/'' \<notin> set (instance_name a bs)"
    using assms by (auto simp: instance_name_def letter_ne dest: sym)
  with dash show "comp_ok (instance_name a bs)" by (auto simp: comp_ok_def)
  from dash show "instance_name a bs \<noteq> ''kustomization.yaml''" by auto
qed

text \<open>What has to hold for an installation to succeed: the repository and the cluster do not fail.\<close>

definition install_ready ::
    "appenv \<Rightarrow> world \<Rightarrow> string \<Rightarrow> rendered \<Rightarrow> AppInstanceConfig \<Rightarrow> Resource list \<Rightarrow> bool" where
  "install_ready A w namespace ren cfg helm \<longleftrightarrow>
     repo_healthy (repoOf A) \<and> kust_codec (repoOf A) \<and> pullTree (repoOf A) = id
     \<and> kust_at (repoOf A) [] (wRepo w) \<noteq> None \<and> kust_at (repoOf A) [''apps''] (wRepo w) \<noteq> None
     \<and> nsCreate A namespace = None \<and> render_ok ren \<and> cfgParse A (cfgJsonOf A cfg) = Inr cfg
     \<and> snd (openPorts A (renPorts ren) (wPortRequests w)) = None \<and> extractHelm A (renResources ren) = Some helm"

lemma Install_ok:
  assumes "install_ready A w namespace ren cfg helm" and "mgr_Config A (wRepo w) = Inr env"
    and "comp_ok i" "i \<noteq> ''kustomization.yaml''"
    and "Render (keyGen A) (envValue A) (relValue A) app
        \<lparr>AppInstanceId = i, relNamespace = namespace, RepoAddr = fullAddress A, AppDir = path_of [''apps'', i]\<rparr>
        env vals = Rendered (ren, cfg)"
  shows "\<exists>w'. Install A app i (path_of [''apps'', i]) namespace vals w = (w', Installed helm)
    \<and> FindInstance A \<lparr>appDirRoot = path_of [''apps'']\<rparr> i (wRepo w') = Inr (cfg\<lparr>cfgId := i\<rparr>)"
proof -
  let ?w2 = "w\<lparr>wNamespaces := wNamespaces w @ [namespace]\<rparr>"
  have E: "repo_healthy (repoOf A)" "kust_codec (repoOf A)" "pullTree (repoOf A) = id"
    "cfgParse A (cfgJsonOf A cfg) = Inr cfg"
    using assms(1) by (auto simp: install_ready_def)
  have pull: "fst (Pull (repoOf A) (wRepo w)) = wRepo w" using E by (simp add: Pull_def)
  have "\<forall>j \<le> length [''apps'']. kust_at (repoOf A) (take j [''apps'']) (wRepo w) \<noteq> None"
    using assms(1) by (auto simp: install_ready_def le_Suc_eq)
  with InstallApp_ok[OF E(1-3), of "[''apps'']" i "wRepo w" "renData ren" "renResources ren" "renName ren"
      "cfgYamlOf A cfg" "cfgJsonOf A cfg"] assms
  obtain r' k where r': "commit_app A False (path_of [''apps'', i]) ren cfg (wRepo w) = Some (r', None)"
    and h: "tree r' (path_of ([''apps''] @ [i, ''config.json''])) = Some (cfgJsonOf A cfg)"
      "tree r' (kust_file [''apps'']) = Some (yamlOfK (repoOf A) k)" "i \<in> set (Resources k)"
    by (auto simp: install_ready_def render_ok_def commit_app_def)
  have find: "FindInstance A \<lparr>appDirRoot = path_of [''apps'']\<rparr> i r' = Inr (cfg\<lparr>cfgId := i\<rparr>)"
    by (rule find_after_install[OF E(1) refl E(2) _ assms(3) h(1) E(4) h(2,3)]) simp
  obtain ps where ps: "openPorts A (renPorts ren) (wPortRequests w) = (ps, None)"
    using assms(1) by (cases "openPorts A (renPorts ren) (wPortRequests w)") (auto simp: install_ready_def)
  have "Install A app i (path_of [''apps'', i]) namespace vals w =
      (?w2\<lparr>wRepo := r', wPortRequests := ps\<rparr>, Installed helm)"
    using assms r' ps
    by (simp add: Install_def Let_def pull clean_path_of install_ready_def)
  with find show ?thesis by auto
qed

text \<open>The configuration of an instance whose values were derived and rendered.\<close>

definition instance_config ::
    "storeenv \<Rightarrow> EnvConfig \<Rightarrow> cueApp \<Rightarrow> byte list \<Rightarrow> (string \<times> goval) list \<Rightarrow> (string \<times> goval) list \<Rightarrow> rendered \<Rightarrow>
     AppInstanceConfig" where
  "instance_config V env a bs vals derived ren =
     \<lparr>cfgId = [], cfgAppId = Slug a, cfgEnv = env,
      cfgRelease = \<lparr>AppInstanceId = instance_name a bs,
        relNamespace = NamespacePrefix env @ appNamespace a @ ''-'' @ map letter bs,
        RepoAddr = fullAddress (seApps V), AppDir = path_of [''apps'', instance_name a bs]\<rparr>,
      cfgValues = vals, cfgInput = derived, cfgURL = renURL ren, cfgHelp = renHelp ren, cfgIcon = renIcon ren\<rparr>"

text \<open>A request to install an application that can be carried out.\<close>

definition installable ::
    "storeenv \<Rightarrow> storeserver \<Rightarrow> cueApp \<Rightarrow> byte list \<Rightarrow> (string \<times> goval) list \<Rightarrow> EnvConfig \<Rightarrow> rendered \<Rightarrow>
     AppInstanceConfig \<Rightarrow> Resource list \<Rightarrow> bool" where
  "installable V s a bs vals env ren cfg helm \<longleftrightarrow>
     seManager V = \<lparr>appDirRoot = ''/apps''\<rparr> \<and> CHR ''/'' \<notin> set (Slug a)
     \<and> mgr_Config (seApps V) (wRepo (ssWorld s)) = Inr env
     \<and> (\<exists>derived. deriveValues (keyGen (seApps V)) (GMap vals) (appSchema a) (networks_of env) = Inr derived
          \<and> cfg = instance_config V env a bs vals derived ren
          \<and> render a [(''global'', envValue (seApps V) env), (''input'', GMap derived),
               (''release'', relValue (seApps V) (cfgRelease cfg))] = Inr ren)
     \<and> install_ready (seApps V) (ssWorld s) (relNamespace (cfgRelease cfg)) ren cfg helm"

lemma Render_installable:
  assumes "installable V s a bs vals env ren cfg helm"
  shows "Render (keyGen (seApps V)) (envValue (seApps V)) (relValue (seApps V)) a
    (cfgRelease cfg) env vals = Rendered (ren, cfg)"
  using assms by (auto simp: installable_def Render_def Let_def networks_of_def instance_config_def)

lemma handleAppInstall_ok:
  assumes inst: "installable V s a bs vals env ren cfg helm" and find: "FindEnvApp (seRepo V) slug = Inr a"
  defines "i \<equiv> instance_name a bs"
  shows "\<exists>w'. handleAppInstall V slug (Inr vals) (Inr bs) s =
      (if ssTasks s i \<noteq> None then (s\<lparr>ssWorld := w', ssReconcilers := ssReconcilers s + 1\<rparr>, Crashed)
       else (s\<lparr>ssWorld := w', ssReconcilers := ssReconcilers s + 1,
               ssTasks := (ssTasks s)(i \<mapsto> spawn (NewMonitorRelease (seOutside V) helm))\<rparr>, Location (''/instance/'' @ i)))
    \<and> FindInstance (seApps V) (seManager V) i (wRepo w') = Inr (cfg\<lparr>cfgId := i\<rparr>)"
proof -
  let ?ns = "relNamespace (cfgRelease cfg)"
  have h: "seManager V = \<lparr>appDirRoot = path_of [''apps'']\<rparr>" "CHR ''/'' \<notin> set (Slug a)"
    "mgr_Config (seApps V) (wRepo (ssWorld s)) = Inr env"
    "install_ready (seApps V) (ssWorld s) ?ns ren cfg helm"
    and rel: "cfgRelease cfg = \<lparr>AppInstanceId = i, relNamespace = ?ns, RepoAddr = fullAddress (seApps V),
        AppDir = path_of [''apps'', i]\<rparr>"
    and ns: "?ns = NamespacePrefix env @ appNamespace a @ ''-'' @ map letter bs"
    using inst by (auto simp: installable_def instance_config_def i_def path_of_def)
  have "Render (keyGen (seApps V)) (envValue (seApps V)) (relValue (seApps V)) a
      \<lparr>AppInstanceId = i, relNamespace = ?ns, RepoAddr = fullAddress (seApps V), AppDir = path_of [''apps'', i]\<rparr>
      env vals = Rendered (ren, cfg)"
    using Render_installable[OF inst] rel by metis
  from Install_ok[OF h(4,3) instance_name_ok(1,2)[OF h(2), of bs, folded i_def] this]
  obtain w' where w': "Install (seApps V) a i (path_of [''apps'', i]) ?ns vals (ssWorld s) = (w', Installed helm)"
      "FindInstance (seApps V) (seManager V) i (wRepo w') = Inr (cfg\<lparr>cfgId := i\<rparr>)"
    unfolding h(1) by blast
  have "handleAppInstall V slug (Inr vals) (Inr bs) s =
      (if ssTasks s i \<noteq> None then (s\<lparr>ssWorld := w', ssReconcilers := ssReconcilers s + 1\<rparr>, Crashed)
       else (s\<lparr>ssWorld := w', ssReconcilers := ssReconcilers s + 1,
               ssTasks := (ssTasks s)(i \<mapsto> spawn (NewMonitorRelease (seOutside V) helm))\<rparr>, Location (''/instance/'' @ i)))"
    using w'(1) unfolding i_def instance_name_def ns
    by (simp add: handleAppInstall_def find h(3) generateSuffix_def Let_def path_of_def)
  with w'(2) show ?thesis by blast
qed


text \<open>
  Two instances of an application may draw the same suffix. While the first is still monitored, the
  installation of the second overwrites it and then panics.
\<close>
theorem install_overwrites_instance:
  assumes "installable V s a bs vals env ren cfg helm" and "FindEnvApp (seRepo V) slug = Inr a"
    and "ssTasks s (instance_name a bs) \<noteq> None"
  shows "\<exists>s'. store_serve V (PostInstall slug (Inr vals) (Inr bs)) s = (s', Crashed)
    \<and> FindInstance (seApps V) (seManager V) (instance_name a bs) (wRepo (ssWorld s')) =
        Inr (cfg\<lparr>cfgId := instance_name a bs\<rparr>)"
  using handleAppInstall_ok[OF assms(1,2)] assms(3) by auto

subsection \<open>A concrete server\<close>

definition store_example_app :: cueApp where
  "store_example_app = example_app\<lparr>appSchema := structSchema ''input'' [] False\<rparr>"

definition store_example_config :: AppInstanceConfig where
  "store_example_config = \<lparr>cfgId = [], cfgAppId = ''git'', cfgEnv = zero_env,
     cfgRelease = \<lparr>AppInstanceId = ''git-bcd'', relNamespace = ''app-git-bcd'', RepoAddr = ''ssh://h/r'',
       AppDir = ''/apps/git-bcd''\<rparr>,
     cfgValues = [], cfgInput = [], cfgURL = [], cfgHelp = [], cfgIcon = []\<rparr>"

definition store_example :: storeenv where
  "store_example = \<lparr>seApps = example_appenv\<lparr>cfgParse := (\<lambda>_. Inr store_example_config)\<rparr>,
     seManager = \<lparr>appDirRoot = ''/apps''\<rparr>, seRepo = [cueEnvApp store_example_app],
     seOutside = example_outside Hangs, seTmplErr = None, seExecErr = None\<rparr>"

definition store_example_server :: storeserver where
  "store_example_server = \<lparr>ssWorld = example_world, ssTasks = Map.empty, ssReconcilers = 0\<rparr>"

definition store_example_rendered :: rendered where
  "store_example_rendered = empty_rendered\<lparr>renName := ''git'', renResources := [(''git.yaml'', ''x'')],
     renData := [(''rendered.json'', ''{}'')]\<rparr>"

lemma store_example_slug: "Slug store_example_app = ''git''"
  by code_simp

lemma store_example_name: "instance_name store_example_app [1, 2, 3] = ''git-bcd''"
  by code_simp

lemma store_example_installable:
  "installable store_example store_example_server store_example_app [1, 2, 3] [] zero_env
     store_example_rendered store_example_config [\<lparr>resName = [], resNamespace = []\<rparr>]"
proof -
  have clean: "cleanName ''git'' = ''git''" by code_simp
  have letters: "map letter [1, 2, 3] = ''bcd''" by code_simp
  have cfg: "store_example_config = instance_config store_example zero_env store_example_app [1, 2, 3] [] []
      store_example_rendered"
    unfolding instance_config_def store_example_slug store_example_name letters
    by (simp add: store_example_config_def store_example_def example_appenv_def store_example_app_def
        example_app_def zero_env_def store_example_rendered_def empty_rendered_def path_of_def)
  have conf: "mgr_Config (seApps store_example) (wRepo (ssWorld store_example_server)) = Inr zero_env"
    by (simp add: mgr_Config_def store_example_def store_example_server_def example_world_def repo_Reader_def
        example_appenv_def)
  have derive: "deriveValues (keyGen (seApps store_example)) (GMap []) (appSchema store_example_app) ns = Inr []" for ns
    by (simp add: deriveValues_def store_example_app_def)
  have ren: "render store_example_app vs = Inr store_example_rendered" for vs
    unfolding render_def store_example_slug
    by (simp add: store_example_app_def example_app_def store_example_rendered_def empty_rendered_def data_put_def clean)
  have ready: "install_ready (seApps store_example) (ssWorld store_example_server)
      (relNamespace (cfgRelease store_example_config)) store_example_rendered store_example_config
      [\<lparr>resName = [], resNamespace = []\<rparr>]"
    by (simp add: install_ready_def store_example_def render_ok_def store_example_rendered_def empty_rendered_def)
      (simp add: example_appenv_def)
  show ?thesis
    unfolding installable_def
    using cfg conf derive ren ready by (simp add: store_example_slug) (simp add: store_example_def)
qed


theorem install_overwrites_instance_witness:
  "\<exists>s'. store_serve store_example (PostInstall ''git'' (Inr []) (Inr [1, 2, 3]))
        (store_example_server\<lparr>ssTasks := [''git-bcd'' \<mapsto> newLeafTask [] Hangs]\<rparr>) = (s', Crashed)"
proof -
  let ?s = "store_example_server\<lparr>ssTasks := [''git-bcd'' \<mapsto> newLeafTask [] Hangs]\<rparr>"
  have "FindEnvApp (seRepo store_example) ''git'' = Inr store_example_app"
    by (simp add: FindEnvApp_def app_Find_def store_example_def app_Slug_def store_example_slug)
  moreover have "installable store_example ?s store_example_app [1, 2, 3] [] zero_env
     store_example_rendered store_example_config [\<lparr>resName = [], resNamespace = []\<rparr>]"
    using store_example_installable by (simp add: installable_def)
  ultimately show ?thesis
    using install_overwrites_instance[of store_example ?s] unfolding store_example_name by (fastforce simp: store_example_name)
qed

end
