(* ===== verification/Launcher.thy ===== *)
theory Launcher
  imports AppManager "HOL-Library.Multiset" "HOL-Library.Char_ord" "HOL-Library.List_Lexorder"
    "HOL-Library.Product_Lexorder"
begin

text \<open>
  The launcher (\<open>src/core/installer/welcome/launcher.go\<close>): the page that lists the applications of an
  environment, the application manager and the network first and the others by name.

  \<open>sort.Slice\<close> sorts up to twelve elements by insertion, which is modelled as it is written; what it
  does with longer slices is a function of the environment that keeps the documented contract (the
  locale \<open>slice_sort\<close>). Markdown and templates are functions of the environment too.
\<close>

section \<open>Sorting a slice\<close>

text \<open>The rotation of one element into the sorted part, which is kept with its end first.\<close>

fun sift :: "('a \<Rightarrow> 'a \<Rightarrow> bool) \<Rightarrow> 'a \<Rightarrow> 'a list \<Rightarrow> 'a list" where
  "sift lt x [] = [x]"
| "sift lt x (y # ys) = (if lt x y then y # sift lt x ys else x # y # ys)"

definition insertionSort :: "('a \<Rightarrow> 'a \<Rightarrow> bool) \<Rightarrow> 'a list \<Rightarrow> 'a list" where
  "insertionSort lt xs = rev (fold (sift lt) xs [])"

definition sort_Slice ::
    "(('a \<Rightarrow> 'a \<Rightarrow> bool) \<Rightarrow> 'a list \<Rightarrow> 'a list) \<Rightarrow> ('a \<Rightarrow> 'a \<Rightarrow> bool) \<Rightarrow> 'a list \<Rightarrow> 'a list" where
  "sort_Slice pdq lt xs = (if length xs \<le> 12 then insertionSort lt xs else pdq lt xs)"

text \<open>
  What package sort asks of a comparison. A comparison need not be irreflexive; elements that are
  each less than the other may come in any order.
\<close>

definition less_ok :: "('a \<Rightarrow> 'a \<Rightarrow> bool) \<Rightarrow> bool" where
  "less_ok lt \<longleftrightarrow> (\<forall>x y z. lt x y \<longrightarrow> lt y z \<longrightarrow> lt x z)
     \<and> (\<forall>x y z. \<not> lt x y \<longrightarrow> \<not> lt y z \<longrightarrow> \<not> lt x z)"

locale slice_sort =
  fixes srt :: "('a \<Rightarrow> 'a \<Rightarrow> bool) \<Rightarrow> 'a list \<Rightarrow> 'a list"
  assumes permutes: "mset (srt lt xs) = mset xs"
    and ascends: "less_ok lt \<Longrightarrow> sorted_wrt (\<lambda>x y. lt y x \<longrightarrow> lt x y) (srt lt xs)"
begin

lemma keys_sorted:
  fixes key :: "'a \<Rightarrow> 'k::linorder"
  assumes "less_ok lt" and "\<And>x y. key x < key y \<Longrightarrow> lt x y \<and> \<not> lt y x"
  shows "map key (srt lt xs) = sort (map key xs)"
proof (rule sym, rule properties_for_sort)
  show "mset (map key (srt lt xs)) = mset (map key xs)" by (simp add: permutes)
  have "sorted_wrt (\<lambda>x y. key x \<le> key y) (srt lt xs)"
  proof (rule sorted_wrt_mono_rel[OF _ ascends[OF assms(1)]])
    fix x y assume h: "lt y x \<longrightarrow> lt x y"
    show "key x \<le> key y"
    proof (rule ccontr)
      assume "\<not> key x \<le> key y"
      then have "key y < key x" by simp
      from assms(2)[OF this] h show False by simp
    qed
  qed
  then show "sorted (map key (srt lt xs))" by (simp add: sorted_wrt_map)
qed

end

lemma mset_sift: "mset (sift lt x ys) = add_mset x (mset ys)"
  by (induction ys) auto

lemma set_sift: "set (sift lt x ys) = insert x (set ys)"
  by (induction ys) auto

lemma sift_sorted:
  assumes neg: "\<And>x y z. \<not> lt x y \<Longrightarrow> \<not> lt y z \<Longrightarrow> \<not> lt x z"
    and "sorted_wrt (\<lambda>x y. lt x y \<longrightarrow> lt y x) ys"
  shows "sorted_wrt (\<lambda>x y. lt x y \<longrightarrow> lt y x) (sift lt x ys)"
  using assms(2)
proof (induction ys)
  case (Cons y ys)
  show ?case
  proof (cases "lt x y")
    case True
    with Cons show ?thesis by (auto simp: set_sift)
  next
    case False
    have "lt z x" if "z \<in> set ys" "lt x z" for z
    proof -
      from neg[of x y z] False that(2) have "lt y z" by blast
      with Cons.prems that(1) have "lt z y" by auto
      with neg[of z x y] False show ?thesis by blast
    qed
    with False Cons.prems show ?thesis by auto
  qed
qed simp

interpretation isort: slice_sort insertionSort
proof unfold_locales
  show "mset (insertionSort lt xs) = mset xs" for lt and xs :: "'b list"
  proof -
    have "mset (fold (sift lt) xs acc) = mset xs + mset acc" for acc
      by (induction xs arbitrary: acc) (simp_all add: mset_sift)
    then show ?thesis by (simp add: insertionSort_def)
  qed
  show "sorted_wrt (\<lambda>x y. lt y x \<longrightarrow> lt x y) (insertionSort lt xs)" if "less_ok lt"
    for lt and xs :: "'b list"
  proof -
    have "sorted_wrt (\<lambda>x y. lt x y \<longrightarrow> lt y x) (fold (sift lt) xs acc)"
      if "sorted_wrt (\<lambda>x y. lt x y \<longrightarrow> lt y x) acc" for acc
      using that
    proof (induction xs arbitrary: acc)
      case (Cons x xs)
      have "sorted_wrt (\<lambda>x y. lt x y \<longrightarrow> lt y x) (sift lt x acc)"
        by (rule sift_sorted[OF _ Cons.prems]) (use \<open>less_ok lt\<close> in \<open>unfold less_ok_def, blast\<close>)
      with Cons.IH show ?case by simp
    qed simp
    from this[of "[]"] show ?thesis by (simp add: insertionSort_def sorted_wrt_rev)
  qed
qed

lemma slice_sort_sort_Slice: "slice_sort pdq \<Longrightarrow> slice_sort (sort_Slice pdq)"
  by (auto simp: slice_sort_def sort_Slice_def isort.permutes isort.ascends)

section \<open>The applications of an environment\<close>

datatype HelpDocumentRendered = HelpDocumentRendered string string "HelpDocumentRendered list"

record AppLauncherInfo =
  aliName :: string
  aliIcon :: string
  aliHelp :: "HelpDocumentRendered list"
  aliUrl :: string

text \<open>
  \<open>executed\<close> is the text a template writes for its data, and the error it ends with.
\<close>

record homeHandlerData =
  LoggedInUsername :: string
  AllAppsInfo :: "AppLauncherInfo list"

record launcherenv =
  toHTML :: "string \<Rightarrow> string"
  pdqsort :: "(AppLauncherInfo \<Rightarrow> AppLauncherInfo \<Rightarrow> bool) \<Rightarrow> AppLauncherInfo list \<Rightarrow> AppLauncherInfo list"
  executed :: "homeHandlerData \<Rightarrow> string \<times> string option"

fun toMarkdown1 :: "launcherenv \<Rightarrow> HelpDocument \<Rightarrow> HelpDocumentRendered" where
  "toMarkdown1 L (HelpDocument title contents children) =
     HelpDocumentRendered title (toHTML L contents) (map (toMarkdown1 L) children)"

definition toMarkdown :: "launcherenv \<Rightarrow> HelpDocument list \<Rightarrow> HelpDocumentRendered list" where
  "toMarkdown L help = map (toMarkdown1 L) help"

definition launcher_info :: "launcherenv \<Rightarrow> AppInstanceConfig \<Rightarrow> AppLauncherInfo" where
  "launcher_info L a = \<lparr>aliName = cfgAppId a, aliIcon = cfgIcon a, aliHelp = toMarkdown L (cfgHelp a),
     aliUrl = cfgURL a\<rparr>"

definition launcher_less :: "AppLauncherInfo \<Rightarrow> AppLauncherInfo \<Rightarrow> bool" where
  "launcher_less a b =
     (if aliName a = ''app-manager'' then True
      else if aliName b = ''app-manager'' then False
      else if aliName a = ''headscale'' then aliName b \<noteq> ''app-manager''
      else if aliName b = ''headscale'' then False
      else aliName a < aliName b)"

definition GetAllApps ::
    "launcherenv \<Rightarrow> appenv \<Rightarrow> AppManager \<Rightarrow> repo \<Rightarrow> repo \<times> (string, AppLauncherInfo list) result" where
  "GetAllApps L A m r =
     (case FindAllInstances A m r of
        (r', Inl e) \<Rightarrow> (r', Inl e)
      | (r', Inr all) \<Rightarrow>
          (r', Inr (sort_Slice (pdqsort L) launcher_less
             (map (launcher_info L) (filter (\<lambda>a. \<not> (cfgURL a = [] \<and> cfgHelp a = [])) all)))))"

section \<open>The page\<close>

definition getUserInitials :: "string \<Rightarrow> string" where
  "getUserInitials username =
     (case username of
        [] \<Rightarrow> []
      | c # _ \<Rightarrow>
          if (of_char c :: nat) < 128 then [upper_char c]
          else map char_of [0xEF, 0xBF, 0xBD :: nat])"

definition cleanAppName :: "string \<Rightarrow> string" where
  "cleanAppName name = replace_char (CHR '' '') ''-'' (to_lower name)"

definition launcher_getLoggedInUser :: "request \<Rightarrow> (string, string) result" where
  "launcher_getLoggedInUser rq =
     (if header_get rq ''X-User'' \<noteq> [] then Inr (header_get rq ''X-User'') else Inl ''unauthenticated'')"

text \<open>
  What a handler has written to a response: the status is set by the first write only.
  \<open>http.Error\<close> writes its text with a line feed.
\<close>

record written =
  wrStatus :: "nat option"
  wrBody :: string

definition write_response :: "nat \<Rightarrow> string \<Rightarrow> written \<Rightarrow> written" where
  "write_response code x w =
     \<lparr>wrStatus = Some (case wrStatus w of None \<Rightarrow> code | Some s \<Rightarrow> s), wrBody = wrBody w @ x\<rparr>"

definition http_error :: "nat \<Rightarrow> string \<Rightarrow> written \<Rightarrow> written" where
  "http_error code e w = write_response code (e @ [CHR 0x0A]) w"

definition nothing_written :: written where
  "nothing_written = \<lparr>wrStatus = None, wrBody = []\<rparr>"

definition homeHandler ::
    "launcherenv \<Rightarrow> appenv \<Rightarrow> AppManager \<Rightarrow> request \<Rightarrow> repo \<Rightarrow> repo \<times> written" where
  "homeHandler L A m rq r =
     (case launcher_getLoggedInUser rq of
        Inl _ \<Rightarrow> (r, http_error StatusUnauthorized ''User Not Logged In'' nothing_written)
      | Inr user \<Rightarrow>
        (case GetAllApps L A m r of
           (r', res) \<Rightarrow>
             (let w1 = (case res of
                    Inl e \<Rightarrow> http_error StatusInternalServerError e nothing_written
                  | Inr _ \<Rightarrow> nothing_written);
                  apps = (case res of Inl _ \<Rightarrow> [] | Inr as \<Rightarrow> as);
                  (text, err) = executed L \<lparr>LoggedInUsername = user, AllAppsInfo = apps\<rparr>;
                  w2 = (if text = [] then w1 else write_response StatusOK text w1)
              in (r', case err of None \<Rightarrow> w2 | Some e \<Rightarrow> http_error StatusInternalServerError e w2))))"

section \<open>The order of the applications\<close>

definition launcher_key :: "AppLauncherInfo \<Rightarrow> nat \<times> string" where
  "launcher_key a =
     (if aliName a = ''app-manager'' then (0, [])
      else if aliName a = ''headscale'' then (1, [])
      else (2, aliName a))"

lemma launcher_less_ok: "less_ok launcher_less"
  unfolding less_ok_def
proof (intro conjI allI impI)
  fix x y z assume "launcher_less x y" "launcher_less y z"
  then show "launcher_less x z" by (auto simp: launcher_less_def split: if_splits)
next
  fix x y z assume "\<not> launcher_less x y" "\<not> launcher_less y z"
  then show "\<not> launcher_less x z" by (auto simp: launcher_less_def not_less split: if_splits)
qed

lemma launcher_key_less: "launcher_key a < launcher_key b \<Longrightarrow> launcher_less a b \<and> \<not> launcher_less b a"
  by (auto simp: launcher_key_def launcher_less_def split: if_splits)

text \<open>
  C35: The launcher lists the applications in the order of a reference definition. Exactly the instances
  with an address or a help page are shown; their names come in the order that sorting them by rank
  and name gives, whatever the sorting routine does with applications of the same name, and the
  application manager and the network come first.
\<close>
theorem launcher_order:
  assumes "slice_sort (pdqsort L)" and "FindAllInstances A m r = (r', Inr all)"
  shows "\<exists>ret. GetAllApps L A m r = (r', Inr ret)
    \<and> map launcher_key ret
        = sort (map launcher_key (map (launcher_info L) (filter (\<lambda>a. cfgURL a \<noteq> [] \<or> cfgHelp a \<noteq> []) all)))
    \<and> mset ret = image_mset (launcher_info L) (mset (filter (\<lambda>a. cfgURL a \<noteq> [] \<or> cfgHelp a \<noteq> []) all))"
proof -
  note S = slice_sort_sort_Slice[OF assms(1)]
  have "map launcher_key (sort_Slice (pdqsort L) launcher_less xs) = sort (map launcher_key xs)" for xs
    by (rule slice_sort.keys_sorted[OF S launcher_less_ok]) (rule launcher_key_less)
  then show ?thesis
    using slice_sort.permutes[OF S] by (simp add: GetAllApps_def assms(2) de_Morgan_conj)
qed

definition example_launcher :: launcherenv where
  "example_launcher = \<lparr>toHTML = (\<lambda>x. x), pdqsort = insertionSort, executed = (\<lambda>_. ([], None))\<rparr>"

text \<open>An environment with three applications, whose stored configuration is their name.\<close>

definition launcher_appenv :: appenv where
  "launcher_appenv = example_appenv\<lparr>cfgParse := (\<lambda>x. Inr (zero_config\<lparr>cfgAppId := x, cfgURL := x\<rparr>))\<rparr>"

definition launcher_repo :: repo where
  "launcher_repo = empty_repo\<lparr>tree :=
     [tree_key ''/apps/kustomization.yaml'' \<mapsto>
        example_kust_text (AddResources [''git'', ''headscale'', ''app-manager''] NewKustomization),
      tree_key ''/apps/git/config.json'' \<mapsto> ''git'',
      tree_key ''/apps/headscale/config.json'' \<mapsto> ''headscale'',
      tree_key ''/apps/app-manager/config.json'' \<mapsto> ''app-manager'']\<rparr>"

definition launcher_mgr :: AppManager where
  "launcher_mgr = \<lparr>appDirRoot = ''/apps''\<rparr>"

lemma launcher_instances:
  "map_sum id (\<lambda>all. sort (map launcher_key (map (launcher_info example_launcher)
         (filter (\<lambda>a. cfgURL a \<noteq> [] \<or> cfgHelp a \<noteq> []) all))))
       (snd (FindAllInstances launcher_appenv launcher_mgr launcher_repo))
     = Inr [(0, []), (1, []), (2, ''git'')]"
  by code_simp

theorem launcher_order_witness:
  "\<exists>r' ret. GetAllApps example_launcher launcher_appenv launcher_mgr launcher_repo = (r', Inr ret)
     \<and> map launcher_key ret = [(0, []), (1, []), (2, ''git'')]"
proof (cases "FindAllInstances launcher_appenv launcher_mgr launcher_repo")
  case (Pair r' res)
  with launcher_instances obtain all where h: "res = Inr all"
    and "sort (map launcher_key (map (launcher_info example_launcher)
      (filter (\<lambda>a. cfgURL a \<noteq> [] \<or> cfgHelp a \<noteq> []) all))) = [(0, []), (1, []), (2, ''git'')]"
    by (cases res) auto
  moreover have "slice_sort (pdqsort example_launcher)"
    by (simp add: example_launcher_def isort.slice_sort_axioms)
  ultimately show ?thesis
    using launcher_order[of example_launcher launcher_appenv launcher_mgr launcher_repo r' all] Pair by auto
qed

end
