(* ===== verification/Welcome.thy ===== *)
theory Welcome
  imports Accounts AppRepository EnvServer MembershipsServer
begin

text \<open>
  The welcome service of an environment (\<open>src/core/installer/welcome/welcome.go\<close>): it creates an
  account with the accounts API, makes the owner of the first account the owner of the initial groups, and
  installs the application that gives the user access to the private network.

  It talks to two other services of this repository, the accounts API (theory \<open>Accounts\<close>) and the
  memberships server (theory \<open>MembershipsServer\<close>), and to its configuration repository through
  the application manager (theory \<open>AppManager\<close>).
\<close>

section \<open>Requests and state\<close>

record createAccountReq =
  caUsername :: string
  caPassword :: string
  caSecretToken :: string

record formData =
  UsernameErrors :: "string list"
  PasswordErrors :: "string list"
  formReq :: createAccountReq

record firstaccount =
  faCreated :: bool
  faGroups :: "string list"

datatype welcome_page = RegistrationForm formData | RegistrationSuccess string

text \<open>
  \<open>accountsErr\<close> and \<open>membershipsErr\<close> are failures of the network on the way to the two services; \<open>builtin\<close>
  holds the files the built-in applications are made from (theory \<open>AppRepository\<close>).
\<close>

record welcomeenv =
  apps :: appenv
  kratosOf :: kratos
  accountsErr :: "string option"
  membershipsErr :: "string option"
  memberships :: webenv
  faText :: "firstaccount \<Rightarrow> string"
  faParse :: "string \<Rightarrow> (string, firstaccount) result"
  builtin :: appsenv
  loginAddr :: string
  templateErr :: "string option"

record wstate =
  wsWorld :: world
  wsGroups :: db

section \<open>Forms\<close>

definition zero_account :: createAccountReq where
  "zero_account = \<lparr>caUsername = [], caPassword = [], caSecretToken = []\<rparr>"

definition decode_createAccountReq :: "createAccountReq decoder" where
  "decode_createAccountReq = decode_struct
     [''username'' \<mapsto> on_field caUsername caUsername_update decode_string,
      ''password'' \<mapsto> on_field caPassword caPassword_update decode_string,
      ''secrettoken'' \<mapsto> on_field caSecretToken caSecretToken_update decode_string]"

definition extractReq :: "request \<Rightarrow> (string, json) result \<Rightarrow> (string, createAccountReq) result" where
  "extractReq r body =
     (let (req, err) =
        (case formErr r of
           Some e \<Rightarrow> (zero_account, Some e)
         | None \<Rightarrow>
             fill_form (PostForm r)
               [(''username'', caUsername_update), (''password'', caPassword_update),
                (''secret-token'', caSecretToken_update)] zero_account)
      in case err of
           None \<Rightarrow> Inr req
         | Some _ \<Rightarrow> bindE body (\<lambda>doc. decode_createAccountReq doc req))"

definition renderRegistrationForm :: "welcomeenv \<Rightarrow> formData \<Rightarrow> welcome_page response" where
  "renderRegistrationForm W d =
     (case templateErr W of
        Some e \<Rightarrow> HttpError StatusInternalServerError e
      | None \<Rightarrow> Page (RegistrationForm d))"

definition renderRegistrationSuccess :: "welcomeenv \<Rightarrow> string \<Rightarrow> welcome_page response" where
  "renderRegistrationSuccess W addr =
     (case templateErr W of
        Some e \<Rightarrow> HttpError StatusInternalServerError e
      | None \<Rightarrow> Page (RegistrationSuccess addr))"

definition createAccountForm :: "welcomeenv \<Rightarrow> welcome_page response" where
  "createAccountForm W =
     renderRegistrationForm W \<lparr>UsernameErrors = [], PasswordErrors = [], formReq = zero_account\<rparr>"

section \<open>The first account\<close>

definition read_first :: "welcomeenv \<Rightarrow> repo \<Rightarrow> (string, firstaccount) result" where
  "read_first W r =
     bindE (repo_Reader (repoOf (apps W)) ''first-account.yaml'' r) (\<lambda>x.
     case billyFault (repoOf (apps W)) BReadAll (tree_key ''first-account.yaml'') of
       Some e \<Rightarrow> Inl e
     | None \<Rightarrow> faParse W x)"

text \<open>
  The function passed to \<open>Do\<close>, and beside it the request it posts. The status of the answer is not
  looked at, so that the worktree does not depend on what the memberships server made of the request.
\<close>

definition init_op :: "welcomeenv \<Rightarrow> string op" where
  "init_op W r =
     (case read_first W r of
        Inl e \<Rightarrow> (r, Inl e)
      | Inr fa \<Rightarrow>
          if faCreated fa then (r, Inr [])
          else
            (case membershipsErr W of
               Some e \<Rightarrow> (r, Inl e)
             | None \<Rightarrow>
                 andThen (repo_write (repoOf (apps W)) ''first-account.yaml'' (faText W (fa\<lparr>faCreated := True\<rparr>)) r)
                   (\<lambda>r'. (r', Inr ''initialized groups for first account''))))"

definition init_post :: "welcomeenv \<Rightarrow> string \<Rightarrow> repo \<Rightarrow> initRequest option" where
  "init_post W username r =
     (case read_first W r of
        Inl _ \<Rightarrow> None
      | Inr fa \<Rightarrow>
          if faCreated fa \<or> membershipsErr W \<noteq> None then None
          else Some \<lparr>reqOwner = username, reqGroups = faGroups fa\<rparr>)"

definition initMemberships :: "welcomeenv \<Rightarrow> string \<Rightarrow> wstate \<Rightarrow> wstate \<times> string option" where
  "initMemberships W username s =
     (let E = repoOf (apps W); r = wRepo (wsWorld s);
          groups' = (case init_post W username (fst (Pull E r)) of
             None \<Rightarrow> wsGroups s
           | Some req \<Rightarrow> fst (apiInitHandler (memberships W) (Inr req) (wsGroups s)));
          (r', err) = Do E False (init_op W) r
      in (s\<lparr>wsWorld := (wsWorld s)\<lparr>wRepo := r'\<rparr>, wsGroups := groups'\<rparr>, err))"

section \<open>Creating an account\<close>

text \<open>What the accounts API answers to the posted user name and password.\<close>

definition account_body :: "createAccountReq \<Rightarrow> json" where
  "account_body req = JObj (omitempty ''username'' (caUsername req) @ omitempty ''password'' (caPassword req))"

definition messages_for :: "string \<Rightarrow> ValidationError list \<Rightarrow> string list" where
  "messages_for field es = map veMessage (filter (\<lambda>e. veField e = field) es)"

text \<open>
  A text is not a JSON document, so that a failure of the API shows as one of decoding. When the
  request can not be sent at all, the handler reads the body of a response that is nil and panics.
\<close>

definition post_account :: "welcomeenv \<Rightarrow> createAccountReq \<Rightarrow> welcome_page response option" where
  "post_account W req =
     (case accountsErr W of
        Some _ \<Rightarrow> Some Aborted
      | None \<Rightarrow>
          (case identityCreate (kratosOf W) (Inr (account_body req)) of
             IdentityCreated \<Rightarrow> None
           | ApiFailure _ _ \<Rightarrow> Some (HttpError StatusInternalServerError ''Error Decoding JSON'')
           | CombinedErrors es \<Rightarrow>
               Some (renderRegistrationForm W
                 \<lparr>UsernameErrors = messages_for ''username'' es, PasswordErrors = messages_for ''password'' es,
                  formReq = req\<rparr>)))"

definition user_app_dir :: "cueApp \<Rightarrow> string \<Rightarrow> string" where
  "user_app_dir app username = ''/apps/'' @ Slug app @ ''-'' @ username"

definition user_values :: "string \<Rightarrow> (string \<times> goval) list" where
  "user_values username = [(''preAuthKey'', GMap [(''enabled'', GBool False)]), (''username'', GStr username)]"

definition install_user :: "welcomeenv \<Rightarrow> string \<Rightarrow> world \<Rightarrow> world \<times> install_result" where
  "install_user W username w =
     (case mgr_Config (apps W) (wRepo w) of
        Inl e \<Rightarrow> (w, InstallError e)
      | Inr env \<Rightarrow>
          (case CreateAllApps (builtin W) of
             None \<Rightarrow> (w, InstallPanic)
           | Some appsRepo \<Rightarrow>
          (case FindEnvApp appsRepo ''headscale-user'' of
             Inl e \<Rightarrow> (w, InstallError e)
           | Inr app \<Rightarrow>
               Install (apps W) app (Slug app @ ''-'' @ username) (user_app_dir app username)
                 (NamespacePrefix env @ appNamespace app) (user_values username) w)))"

definition createAccount ::
    "welcomeenv \<Rightarrow> request \<Rightarrow> (string, json) result \<Rightarrow> wstate \<Rightarrow> wstate \<times> welcome_page response option" where
  "createAccount W r body s =
     (case extractReq r body of
        Inl e \<Rightarrow> (s, Some (HttpError StatusInternalServerError e))
      | Inr req \<Rightarrow>
      (case post_account W req of
        Some resp \<Rightarrow> (s, Some resp)
      | None \<Rightarrow>
      (case initMemberships W (caUsername req) s of
        (s1, Some e) \<Rightarrow> (s1, Some (HttpError StatusInternalServerError e))
      | (s1, None) \<Rightarrow>
      (case install_user W (caUsername req) (wsWorld s1) of
        (w2, res) \<Rightarrow>
          (s1\<lparr>wsWorld := w2\<rparr>,
           case res of
             InstallError e \<Rightarrow> Some (HttpError StatusInternalServerError e)
           | InstallPanic \<Rightarrow> Some Aborted
           | InstallDiverges \<Rightarrow> None
           | Installed _ \<Rightarrow> Some (renderRegistrationSuccess W (loginAddr W)))))))"

section \<open>Who is told about an account\<close>

definition welcome_ok :: "welcomeenv \<Rightarrow> bool" where
  "welcome_ok W \<longleftrightarrow> repo_healthy (repoOf (apps W)) \<and> pullTree (repoOf (apps W)) = id
     \<and> (\<forall>fa. faParse W (faText W fa) = Inr fa)"

definition first_file :: "welcomeenv \<Rightarrow> wstate \<Rightarrow> firstaccount option" where
  "first_file W s =
     (case tree (wRepo (wsWorld s)) (tree_key ''first-account.yaml'') of
        None \<Rightarrow> None
      | Some x \<Rightarrow> (case faParse W x of Inl _ \<Rightarrow> None | Inr fa \<Rightarrow> Some fa))"

lemma Pull_healthy: "repo_healthy E \<Longrightarrow> pullTree E = id \<Longrightarrow> Pull E r = (r, None)"
  by (simp add: Pull_def)

lemma read_first_file:
  "welcome_ok W \<Longrightarrow> first_file W s = Some fa \<Longrightarrow> read_first W (wRepo (wsWorld s)) = Inr fa"
  by (auto simp: welcome_ok_def first_file_def read_first_def split: option.splits sum.splits)

lemma initMemberships_first:
  assumes "welcome_ok W" and "membershipsErr W = None" and "first_file W s = Some fa" and "\<not> faCreated fa"
  shows "\<exists>s'. initMemberships W u s = (s', None) \<and> first_file W s' = Some (fa\<lparr>faCreated := True\<rparr>)
    \<and> wsGroups s' = fst (apiInitHandler (memberships W) (Inr \<lparr>reqOwner = u, reqGroups = faGroups fa\<rparr>) (wsGroups s))"
  using assms read_first_file[OF assms(1,3)]
  by (auto simp: initMemberships_def Let_def init_post_def init_op_def Do_def Pull_healthy welcome_ok_def
      CommitAndPush_def first_file_def andThen_def)

lemma initMemberships_later:
  assumes "welcome_ok W" and "first_file W s = Some fa" and "faCreated fa"
  shows "wsGroups (fst (initMemberships W u s)) = wsGroups s"
  using assms read_first_file[OF assms(1,2)]
  by (simp add: initMemberships_def Let_def init_post_def Pull_healthy welcome_ok_def case_prod_beta)

lemma createAccount_groups:
  "wsGroups (fst (createAccount W r body s)) =
    (case extractReq r body of
       Inl _ \<Rightarrow> wsGroups s
     | Inr req \<Rightarrow>
         if post_account W req = None then wsGroups (fst (initMemberships W (caUsername req) s)) else wsGroups s)"
  by (auto simp: createAccount_def split: sum.splits option.splits prod.splits)

lemma config_keys: "tree_key ''config.yaml'' \<noteq> tree_key ''first-account.yaml''"
  by code_simp

lemma initMemberships_config:
  assumes "welcome_ok W" and "membershipsErr W = None" and "first_file W s = Some fa"
  shows "\<exists>s1. initMemberships W u s = (s1, None)
    \<and> mgr_Config (apps W) (wRepo (wsWorld s1)) = mgr_Config (apps W) (wRepo (wsWorld s))"
  using assms read_first_file[OF assms(1,3)] config_keys
  by (auto simp: initMemberships_def Let_def init_post_def init_op_def Do_def Pull_healthy welcome_ok_def
      CommitAndPush_def andThen_def mgr_Config_def repo_Reader_def)

lemma escape_to_root:
  assumes "comp_ok c"
  shows "path_clean (''/apps/'' @ c @ ''/../..'') = ''/''"
proof -
  have p: "''/apps/'' @ c @ ''/../..'' = dirs [''apps'', c, ''..'', ''..'']" by simp
  have "split_on (CHR ''/'') (dirs [''apps'', c, ''..'', ''..'']) = [[], ''apps'', c, ''..'', ''..'']"
    by (rule split_dirs) (use comp_okD(1)[OF assms] in auto)
  moreover have "clean_parts True [] [[], ''apps'', c, ''..'', ''..''] = []"
    using assms by (simp add: comp_ok_def)
  ultimately show ?thesis unfolding p path_clean_def by (simp add: has_prefix_def)
qed

lemma user_dir_root:
  assumes "CHR ''/'' \<notin> set (Slug app @ x)" and "2 \<le> length x"
  shows "path_clean (user_app_dir app (x @ ''/../..'')) = ''/''"
proof -
  let ?c = "Slug app @ ''-'' @ x"
  have "3 \<le> length ?c" using assms(2) by simp
  then have ne: "?c \<noteq> d" if "length d < 3" for d
    using that by (metis leD)
  have ok: "comp_ok ?c" unfolding comp_ok_def
    using ne[of "[]"] ne[of "''.''"] ne[of "''..''"] assms(1) by simp
  show ?thesis using escape_to_root[OF ok] by (simp add: user_app_dir_def)
qed

lemma createAccount_first:
  assumes "welcome_ok W" and "membershipsErr W = None" and "no_faults (sqlOf (memberships W))"
    and "first_file W s = Some fa" and "\<not> faCreated fa" and "distinct (faGroups fa)"
    and "wsGroups s = NewSQLiteStore"
    and "extractReq r body = Inr req" and "post_account W req = None"
  shows "wsGroups (fst (createAccount W r body s)) = NewSQLiteStore
      \<lparr>groups := map (\<lambda>g. \<lparr>gName = g, gDescription = []\<rparr>) (faGroups fa),
       owners := map (Pair (caUsername req)) (faGroups fa),
       user_to_group := map (Pair (caUsername req)) (faGroups fa)\<rparr>"
proof -
  from initMemberships_first[OF assms(1,2,4,5)] obtain s1 where
    "initMemberships W (caUsername req) s = (s1, None)"
      "wsGroups s1 = fst (apiInitHandler (memberships W)
         (Inr \<lparr>reqOwner = caUsername req, reqGroups = faGroups fa\<rparr>) (wsGroups s))" by blast
  with assms(6-9) Init_empty[OF assms(3,6)] show ?thesis
    by (simp add: createAccount_groups apiInitHandler_def)
qed

text \<open>The first account becomes the administrator. On a new environment, the first account that is
  created owns and belongs to each of the initial groups, and no later account changes who owns or belongs to
  them, however it is created.
\<close>
theorem first_account_is_admin:
  assumes "welcome_ok W" and "membershipsErr W = None" and "no_faults (sqlOf (memberships W))"
    and "first_file W s = Some fa" and "\<not> faCreated fa" and "distinct (faGroups fa)"
    and "wsGroups s = NewSQLiteStore"
    and "extractReq r body = Inr req" and "post_account W req = None"
  shows "wsGroups (fst (createAccount W r body s)) = NewSQLiteStore
      \<lparr>groups := map (\<lambda>g. \<lparr>gName = g, gDescription = []\<rparr>) (faGroups fa),
       owners := map (Pair (caUsername req)) (faGroups fa),
       user_to_group := map (Pair (caUsername req)) (faGroups fa)\<rparr>
    \<and> (\<exists>s1. initMemberships W (caUsername req) s = (s1, None)
         \<and> (\<forall>r' body'. wsGroups (fst (createAccount W r' body' s1)) = wsGroups s1))"
proof -
  from initMemberships_first[OF assms(1,2,4,5)] obtain s1 where
    s1: "initMemberships W (caUsername req) s = (s1, None)" "first_file W s1 = Some (fa\<lparr>faCreated := True\<rparr>)" by blast
  from initMemberships_later[OF assms(1) s1(2)]
  have "wsGroups (fst (createAccount W r' body' s1)) = wsGroups s1" for r' body'
    by (simp add: createAccount_groups split: sum.split)
  with s1(1) createAccount_first[OF assms] show ?thesis by blast
qed

text \<open>A failed initialisation is final. If the memberships server refuses the groups of the first
  account, the account is recorded as the first one all the same, without an error, and no later
  account is made the owner of anything.
\<close>
theorem failed_init_is_final:
  assumes "welcome_ok W" and "membershipsErr W = None" and "first_file W s = Some fa" and "\<not> faCreated fa"
    and "Init (sqlOf (memberships W)) u (faGroups fa) (wsGroups s) = Inl e"
  shows "\<exists>s1. initMemberships W u s = (s1, None) \<and> first_file W s1 = Some (fa\<lparr>faCreated := True\<rparr>)
    \<and> wsGroups s1 = wsGroups s
    \<and> (\<forall>r' body'. wsGroups (fst (createAccount W r' body' s1)) = wsGroups s)"
proof -
  from initMemberships_first[OF assms(1-4)] obtain s1 where
    s1: "initMemberships W u s = (s1, None)" "first_file W s1 = Some (fa\<lparr>faCreated := True\<rparr>)"
      "wsGroups s1 = fst (apiInitHandler (memberships W) (Inr \<lparr>reqOwner = u, reqGroups = faGroups fa\<rparr>) (wsGroups s))"
    by blast
  with assms(5) have same: "wsGroups s1 = wsGroups s" by (simp add: apiInitHandler_def)
  from initMemberships_later[OF assms(1) s1(2)]
  have "wsGroups (fst (createAccount W r' body' s1)) = wsGroups s" for r' body'
    by (simp add: createAccount_groups same split: sum.split)
  with s1 same show ?thesis by blast
qed

text \<open>A user name can erase the configuration. The accounts API accepts every user name of three
  bytes, and the welcome service uses it as the name of a directory: a name that climbs to the root makes
  the installation remove every file of the repository before it writes its own.
\<close>
theorem username_erases_repository:
  assumes "welcome_ok W" and "membershipsErr W = None" and "first_file W s = Some fa"
    and "extractReq r body = Inr req" and "post_account W req = None"
    and "caUsername req = x @ ''/../..''" and "CHR ''/'' \<notin> set (Slug app @ x)" and "2 \<le> length x"
    and "CreateAllApps (builtin W) = Some as" and "FindEnvApp as ''headscale-user'' = Inr app"
    and "mgr_Config (apps W) (wRepo (wsWorld s)) = Inr env"
    and "nsCreate (apps W) (NamespacePrefix env @ appNamespace app) = None"
    and "Render (keyGen (apps W)) (envValue (apps W)) (relValue (apps W)) app
          \<lparr>AppInstanceId = Slug app @ ''-'' @ caUsername req, relNamespace = NamespacePrefix env @ appNamespace app,
           RepoAddr = fullAddress (apps W), AppDir = ''/''\<rparr> env (user_values (caUsername req)) = Rendered (ren, cfg)"
    and "\<forall>n \<in> fst ` set (renData ren). n \<notin> {''config.json'', ''kustomization.yaml'', ''resources''}"
    and "''/kustomization.yaml'' \<notin> writes ''/'' (renData ren)"
    and "p \<notin> root_files (renData ren) (renResources ren)"
  shows "tree (wRepo (wsWorld (fst (createAccount W r body s)))) p = None"
proof -
  let ?A = "apps W" and ?E = "repoOf (apps W)"
  have E: "repo_healthy ?E" "pullTree ?E = id" using assms(1) by (auto simp: welcome_ok_def)
  obtain s1 where s1: "initMemberships W (caUsername req) s = (s1, None)"
    "mgr_Config ?A (wRepo (wsWorld s1)) = Inr env"
    using initMemberships_config[OF assms(1-3)] assms(11) by metis
  have dir: "path_clean (user_app_dir app (caUsername req)) = ''/''"
    using user_dir_root[OF assms(7,8)] assms(6) by simp
  from install_at_root[OF E(1) assms(14,15)] obtain r' where
    r': "install_op ?E ''/'' (renName ren) (cfgYamlOf ?A cfg) (cfgJsonOf ?A cfg) (renResources ren) (renData ren)
        (wRepo (wsWorld s1)) = Some (r', Inr (''install: '' @ renName ren))" "tree r' p = None"
    using assms(16) by blast
  have "\<exists>r2. commit_app ?A False ''/'' ren cfg (wRepo (wsWorld s1)) = Some (r2, None) \<and> tree r2 = tree r'"
    using E r'(1)
    by (simp add: commit_app_def InstallApp_def DoP_def Do_def Pull_healthy CommitAndPush_def Let_def)
  then obtain r2 where c: "commit_app ?A False ''/'' ren cfg (wRepo (wsWorld s1)) = Some (r2, None)"
    "tree r2 = tree r'" by blast
  have "wRepo (fst (install_user W (caUsername req) (wsWorld s1))) = r2"
    using s1(2) assms(9,10,12,13) c(1) dir E
    by (simp add: install_user_def Install_def Let_def Pull_healthy case_prod_beta split: prod.split option.split)
  then show ?thesis
    using s1(1) assms(4,5) c(2) r'(2) by (simp add: createAccount_def case_prod_beta)
qed

subsection \<open>A concrete environment\<close>

definition fa_json :: "firstaccount \<Rightarrow> json" where
  "fa_json fa = JArr [JBool (faCreated fa), JArr (map JStr (faGroups fa))]"

fun json_fa :: "json \<Rightarrow> firstaccount" where
  "json_fa (JArr [JBool b, JArr gs]) = \<lparr>faCreated = b, faGroups = map (\<lambda>g. case g of JStr s \<Rightarrow> s | _ \<Rightarrow> []) gs\<rparr>"
| "json_fa _ = \<lparr>faCreated = False, faGroups = []\<rparr>"

definition example_welcome :: welcomeenv where
  "example_welcome = \<lparr>apps = example_appenv, kratosOf = (\<lambda>_. Inr (StatusCreated, Inl [])), accountsErr = None,
     membershipsErr = None,
     memberships = \<lparr>sqlOf = healthy, parseTemplatesErr = None, executeErr = None, encodeErr = None\<rparr>,
     faText = (\<lambda>fa. code_json (fa_json fa)),
     faParse = (\<lambda>s. case decode_json s of Inr v \<Rightarrow> Inr (json_fa v) | Inl e \<Rightarrow> Inl e),
     builtin = example_apps, loginAddr = ''/login'', templateErr = None\<rparr>"

definition example_wstate :: wstate where
  "example_wstate = \<lparr>wsWorld = example_world\<lparr>wRepo := empty_repo\<lparr>tree :=
       [tree_key ''config.yaml'' \<mapsto> ''env'', tree_key ''first-account.yaml'' \<mapsto>
         faText example_welcome \<lparr>faCreated = False, faGroups = [''admin'']\<rparr>]\<rparr>\<rparr>,
     wsGroups = NewSQLiteStore\<rparr>"

definition account_form :: "string \<Rightarrow> request" where
  "account_form u = empty_request\<lparr>Method := ''POST'', PostForm := [''username'' \<mapsto> [u],
     ''password'' \<mapsto> [''secret''], ''secret-token'' \<mapsto> [[]]]\<rparr>"

lemma example_welcome_ok: "welcome_ok example_welcome"
proof -
  have "json_fa (fa_json fa) = fa" for fa by (simp add: fa_json_def comp_def)
  moreover have "wf_json (fa_json fa)" for fa by (simp add: fa_json_def list_all_iff)
  moreover have "repo_healthy (repoOf (apps example_welcome))" "pullTree (repoOf (apps example_welcome)) = id"
    by (simp_all add: example_welcome_def)
  ultimately show ?thesis
    by (simp add: welcome_ok_def) (simp add: example_welcome_def decode_code_json)
qed

lemma example_first:
  "first_file example_welcome example_wstate = Some \<lparr>faCreated = False, faGroups = [''admin'']\<rparr>"
  using example_welcome_ok by (simp add: first_file_def example_wstate_def welcome_ok_def)

lemma account_extract:
  "extractReq (account_form u) body = Inr \<lparr>caUsername = u, caPassword = ''secret'', caSecretToken = []\<rparr>"
  by (simp add: extractReq_def account_form_def empty_request_def zero_account_def getFormValue_def)

lemma lower_keys: "to_lower ''username'' = ''username''" "to_lower ''password'' = ''password''"
  by code_simp+

lemma account_posted:
  assumes "3 \<le> length u"
  shows "post_account example_welcome \<lparr>caUsername = u, caPassword = ''secret'', caSecretToken = []\<rparr> = None"
proof -
  from assms have "u \<noteq> []" by auto
  then have "identityCreate (kratosOf example_welcome)
      (Inr (account_body \<lparr>caUsername = u, caPassword = ''secret'', caSecretToken = []\<rparr>)) = IdentityCreated"
    using assms by (simp add: identityCreate_created account_body_def omitempty_def decode_identityCreateReq_def
        on_field_def lower_keys example_welcome_def)
  then show ?thesis by (simp add: post_account_def example_welcome_def)
qed

theorem first_account_is_admin_witness:
  "wsGroups (fst (createAccount example_welcome (account_form ''gio'') (Inl []) example_wstate)) = NewSQLiteStore
      \<lparr>groups := map (\<lambda>g. \<lparr>gName = g, gDescription = []\<rparr>) [''admin''],
       owners := map (Pair ''gio'') [''admin''], user_to_group := map (Pair ''gio'') [''admin'']\<rparr>"
  using first_account_is_admin[OF example_welcome_ok _ _ example_first _ _ _ account_extract account_posted,
      of "''gio''" "Inl []"]
  by (simp add: example_welcome_def example_wstate_def)

text \<open>A memberships server whose database refuses every statement.\<close>

definition example_broken :: welcomeenv where
  "example_broken = example_welcome\<lparr>memberships := (memberships example_welcome)
     \<lparr>sqlOf := healthy\<lparr>sqlFault := (\<lambda>_. Some ''locked'')\<rparr>\<rparr>\<rparr>"

theorem failed_init_is_final_witness:
  "\<exists>s1. initMemberships example_broken ''gio'' example_wstate = (s1, None) \<and> wsGroups s1 = wsGroups example_wstate"
proof -
  have "welcome_ok example_broken"
    using example_welcome_ok by (simp add: welcome_ok_def example_broken_def)
  moreover have "first_file example_broken example_wstate = Some \<lparr>faCreated = False, faGroups = [''admin'']\<rparr>"
    using example_first by (auto simp: first_file_def example_broken_def split: option.splits sum.splits)
  moreover have "Init (sqlOf (memberships example_broken)) ''gio'' [''admin''] (wsGroups example_wstate) = Inl ''locked''"
    by (simp add: Init_def run_def plain_def example_broken_def)
  moreover have "membershipsErr example_broken = None" by (simp add: example_broken_def example_welcome_def)
  ultimately show ?thesis
    using failed_init_is_final[of example_broken example_wstate "\<lparr>faCreated = False, faGroups = [''admin'']\<rparr>"
        "''gio''" "''locked''"] by auto
qed

definition example_user_rendered :: rendered where
  "example_user_rendered = \<lparr>renName = ''headscale-user'', renReadme = [], renResources = [(''git.yaml'', ''x'')],
     renPorts = [], renData = (''rendered.json'', ''{}'') # example_data ''values-tmpl/headscale-user.cue'',
     renURL = [], renHelp = [], renIcon = []\<rparr>"

lemma example_user_render:
  "\<exists>cfg. Render (keyGen (apps example_welcome)) (envValue (apps example_welcome)) (relValue (apps example_welcome))
     example_user_app rel zero_env (user_values u) = Rendered (example_user_rendered, cfg)"
proof -
  have "Slug example_user_app = ''headscale-user''" "cleanName ''git'' = ''git''" by code_simp+
  then show ?thesis
    by (simp add: Render_def Let_def example_user_app_def example_cue_def example_data_def example_app_def deriveValues_def derive_one.simps
        derive_fields.simps user_values_def AppManager.render_def data_put_def example_user_rendered_def)
qed

theorem username_erases_repository_witness:
  "tree (wRepo (wsWorld (fst (createAccount example_welcome (account_form ''me/../..'') (Inl []) example_wstate))))
     ''/first-account.yaml'' = None"
proof -
  have slug: "Slug example_user_app = ''headscale-user''" by code_simp
  obtain cfg where cfg: "Render (keyGen (apps example_welcome)) (envValue (apps example_welcome))
      (relValue (apps example_welcome)) example_user_app
      \<lparr>AppInstanceId = Slug example_user_app @ ''-'' @ ''me/../..'',
       relNamespace = NamespacePrefix zero_env @ appNamespace example_user_app,
       RepoAddr = fullAddress (apps example_welcome), AppDir = ''/''\<rparr> zero_env (user_values ''me/../..'')
      = Rendered (example_user_rendered, cfg)" using example_user_render by blast
  from example_find_user obtain as where as: "CreateAllApps (builtin example_welcome) = Some as"
    "FindEnvApp as ''headscale-user'' = Inr example_user_app" by (auto simp: example_welcome_def)
  have files: "writes ''/'' (renData example_user_rendered)
      = {''/rendered.json'', ''/base.cue'', ''/global.cue'', ''/app.cue''}"
    "writes ''/resources'' [(''git.yaml'', ''x'')] = {''/resources/git.yaml''}" by code_simp+
  show ?thesis
    by (rule username_erases_repository[OF example_welcome_ok _ example_first account_extract account_posted,
          where x = "''me''" and app = example_user_app and env = zero_env and ren = example_user_rendered and cfg = cfg and as = as])
      (use cfg files slug as in \<open>simp_all add: example_data_def example_welcome_def example_wstate_def example_appenv_def mgr_Config_def
        repo_Reader_def example_user_rendered_def root_files_def example_repoenv_def\<close>)
qed

end
