(* ===== verification/Program.thy ===== *)
theory Program
  imports Prelude
begin

text \<open>
  Programs with state that may fail: the bodies of the provisioning tasks and the bootstrapper. A
  program returns a value, an error, or ends in one of the ways Go code can end otherwise: a nil
  dereference, another panic, or not at all.
\<close>

datatype 'a outcome = Val 'a | Fail string | NilDeref | Panic | Hang

type_synonym ('s, 'a) prog = "'s \<Rightarrow> 's \<times> 'a outcome"

definition bindL :: "('s, 'a) prog \<Rightarrow> ('a \<Rightarrow> ('s, 'b) prog) \<Rightarrow> ('s, 'b) prog" where
  "bindL m f s =
     (case m s of
        (s', Val a) \<Rightarrow> f a s'
      | (s', Fail e) \<Rightarrow> (s', Fail e)
      | (s', NilDeref) \<Rightarrow> (s', NilDeref)
      | (s', Panic) \<Rightarrow> (s', Panic)
      | (s', Hang) \<Rightarrow> (s', Hang))"

definition returnL :: "'a \<Rightarrow> ('s, 'a) prog" where
  "returnL a s = (s, Val a)"

definition tryL :: "(string, 'a) result \<Rightarrow> ('s, 'a) prog" where
  "tryL x s = (s, case x of Inl e \<Rightarrow> Fail e | Inr a \<Rightarrow> Val a)"

definition field :: "('s \<Rightarrow> 'a option) \<Rightarrow> ('s, 'a) prog" where
  "field f s = (s, case f s of None \<Rightarrow> NilDeref | Some a \<Rightarrow> Val a)"

definition setL :: "('s \<Rightarrow> 's) \<Rightarrow> ('s, unit) prog" where
  "setL f s = (f s, Val ())"

fun ended_as :: "string option \<Rightarrow> unit outcome" where
  "ended_as None = Val ()"
| "ended_as (Some e) = Fail e"

text \<open>A call that only reports an error.\<close>

definition checkL :: "string option \<Rightarrow> ('s, unit) prog" where
  "checkL e s = (s, ended_as e)"

text \<open>A deferred call runs when the function returns or panics, and not when it never ends.\<close>

definition deferL :: "('s \<Rightarrow> 's) \<Rightarrow> ('s, 'a) prog \<Rightarrow> ('s, 'a) prog" where
  "deferL fin m s = (case m s of (s', Hang) \<Rightarrow> (s', Hang) | (s', x) \<Rightarrow> (fin s', x))"

fun forL :: "('x \<Rightarrow> ('s, unit) prog) \<Rightarrow> 'x list \<Rightarrow> ('s, unit) prog" where
  "forL f [] s = (s, Val ())"
| "forL f (x # xs) s = bindL (f x) (\<lambda>_. forL f xs) s"

section \<open>Running to a value\<close>

text \<open>\<open>gives m s Q\<close>: from \<open>s\<close> the program returns a value, and \<open>Q\<close> holds of it and the new state.\<close>

definition gives :: "('s, 'a) prog \<Rightarrow> 's \<Rightarrow> ('a \<Rightarrow> 's \<Rightarrow> bool) \<Rightarrow> bool" where
  "gives m s Q \<longleftrightarrow> (\<exists>a s'. m s = (s', Val a) \<and> Q a s')"

named_theorems prog_rules \<open>rules that run a program to a value\<close>

lemma gives_bindL [prog_rules]:
  assumes "gives m s R" and "\<And>a s'. R a s' \<Longrightarrow> gives (f a) s' Q"
  shows "gives (bindL m f) s Q"
proof -
  from assms(1) obtain a s' where "m s = (s', Val a)" "R a s'" by (auto simp: gives_def)
  moreover from assms(2)[OF this(2)] obtain b s'' where "f a s' = (s'', Val b)" "Q b s''"
    by (auto simp: gives_def)
  ultimately show ?thesis by (auto simp: gives_def bindL_def)
qed

lemma gives_returnL: "Q a s \<Longrightarrow> gives (returnL a) s Q"
  by (simp add: gives_def returnL_def)

lemma gives_tryL: "x = Inr a \<Longrightarrow> Q a s \<Longrightarrow> gives (tryL x) s Q"
  by (simp add: gives_def tryL_def)

lemma gives_setL: "Q () (f s) \<Longrightarrow> gives (setL f) s Q"
  by (simp add: gives_def setL_def)

lemma gives_checkL: "e = None \<Longrightarrow> Q () s \<Longrightarrow> gives (checkL e) s Q"
  by (simp add: gives_def checkL_def)

lemma gives_deferL: "gives m s (\<lambda>a s'. Q a (fin s')) \<Longrightarrow> gives (deferL fin m) s Q"
  by (auto simp: gives_def deferL_def)

lemma gives_mono: "gives m s R \<Longrightarrow> (\<And>a s'. R a s' \<Longrightarrow> Q a s') \<Longrightarrow> gives m s Q"
  by (auto simp: gives_def)

text \<open>An invariant of the steps of a loop that records what each element has established.\<close>

lemma gives_forL:
  assumes "I [] s" and "\<And>us x s. I us s \<Longrightarrow> x \<in> set xs \<Longrightarrow> gives (f x) s (\<lambda>_. I (us @ [x]))"
  shows "gives (forL f xs) s (\<lambda>_. I xs)"
proof -
  have "gives (forL f vs) s (\<lambda>_. I (us @ vs))" if "I us s" "set vs \<subseteq> set xs" for us vs s
    using that
  proof (induction vs arbitrary: us s)
    case Nil
    then show ?case by (simp add: gives_def)
  next
    case (Cons x vs)
    have "gives (f x) s (\<lambda>_. I (us @ [x]))" using Cons.prems by (intro assms(2)) auto
    moreover have "gives (forL f vs) s' (\<lambda>_. I ((us @ [x]) @ vs))" if "I (us @ [x]) s'" for s'
      using Cons.IH[OF that] Cons.prems(2) by simp
    ultimately have "gives (bindL (f x) (\<lambda>_. forL f vs)) s (\<lambda>_. I ((us @ [x]) @ vs))"
      by (rule gives_bindL)
    then show ?case by (simp add: gives_def)
  qed
  from this[of "[]" s xs] assms(1) show ?thesis by simp
qed

end
