(* ===== verification/EnvSetup.thy ===== *)
theory EnvSetup
  imports EnvTasks Welcome Program
begin

text \<open>
  What the leaves of the provisioning task do (\<open>init.go\<close>, \<open>activate.go\<close>, \<open>infra.go\<close> and \<open>dns.go\<close> below
  \<open>src/core/installer/tasks\<close>): they start the Git server of the environment, give users access to it, commit the
  first files and install the core applications. The order they run in is that of theory \<open>EnvTasks\<close>.

  The leaves share the fields of the struct \<open>state\<close>; a field that has not been set yet is nil, and a leaf
  that uses it dereferences nil, which is kept apart from other panics. The clones of the environment's
  repository that the leaves make one after the other are one repository here, which a new clone resets to
  what was pushed last.
\<close>

section \<open>State\<close>

record keypair =
  RawPrivateKey :: string
  RawAuthorizedKey :: string
  AuthorizedKey :: string

record setupst =
  stInfra :: world
  stConfig :: world
  stSent :: "string list"
  ssAdminKeys :: "keypair option"
  ssClient :: "soft_client option"
  fluxUserName :: string
  stKeys :: "keypair option"
  appsRepo :: "repository option"

text \<open>
  \<open>getClient\<close> is the client getter, \<open>cloneErr\<close> the error of cloning, \<open>envTmpls\<close> are the templates of an
  environment with what they print, \<open>fetched\<close> says at which attempt the DNS API answers.
\<close>

record setupenv =
  newKeys :: "string \<Rightarrow> (string, keypair) result"
  suBuiltin :: appsenv
  suInfra :: infraenv
  suApps :: appenv
  getClient :: "string \<Rightarrow> string \<Rightarrow> (string, string) result"
  cloneErr :: "string option"
  sshErr :: "string \<Rightarrow> string option"
  publicKeys :: "(string, string list) result"
  envTmpls :: "(string, (string \<times> ((string \<times> string) list \<Rightarrow> (string, string) result)) list) result"
  envText :: "EnvConfig \<Rightarrow> string"
  faTextOf :: "firstaccount \<Rightarrow> string"
  fetched :: "nat \<Rightarrow> bool"
  ip6Text :: "IP \<Rightarrow> string"

type_synonym 'a leaf = "(setupst, 'a) prog"

fun install_end :: "install_result \<Rightarrow> unit outcome" where
  "install_end (Installed _) = Val ()"
| "install_end (InstallError e) = Fail e"
| "install_end InstallPanic = Panic"
| "install_end InstallDiverges = Hang"

section \<open>Steps the leaves share\<close>

text \<open>A command of the client of the environment's Git server.\<close>

definition ssh :: "(string list \<Rightarrow> string list \<times> string option) \<Rightarrow> unit leaf" where
  "ssh cmd = bindL (field ssClient) (\<lambda>_ s. case cmd (stSent s) of (sent, e) \<Rightarrow> (s\<lparr>stSent := sent\<rparr>, ended_as e))"

definition clone_repo :: "repo \<Rightarrow> repo" where
  "clone_repo r = r\<lparr>tree := (case remoteCommits r of [] \<Rightarrow> Map.empty | (_, t) # _ \<Rightarrow> t), localCommits := []\<rparr>"

definition GetRepo :: "setupenv \<Rightarrow> unit leaf" where
  "GetRepo V = bindL (field ssClient) (\<lambda>_ s.
     case cloneErr V of
       Some e \<Rightarrow> (s, Fail e)
     | None \<Rightarrow> (s\<lparr>stConfig := (stConfig s)\<lparr>wRepo := clone_repo (wRepo (stConfig s))\<rparr>\<rparr>, Val ()))"

definition config_Do :: "setupenv \<Rightarrow> string op \<Rightarrow> unit leaf" where
  "config_Do V f s =
     (case Do (repoOf (suApps V)) False f (wRepo (stConfig s)) of
        (r, e) \<Rightarrow> (s\<lparr>stConfig := (stConfig s)\<lparr>wRepo := r\<rparr>\<rparr>, ended_as e))"

definition find_env_app :: "string \<Rightarrow> cueApp leaf" where
  "find_env_app name = bindL (field appsRepo) (\<lambda>repo. tryL (FindEnvApp repo name))"

text \<open>\<open>st.appManager\<close> is set together with \<open>st.appsRepo\<close>.\<close>

definition install_app ::
    "setupenv \<Rightarrow> cueApp \<Rightarrow> string \<Rightarrow> string \<Rightarrow> (string \<times> goval) list \<Rightarrow> unit leaf" where
  "install_app V app instanceId namespace vals = bindL (field appsRepo) (\<lambda>_ s.
     case Install (suApps V) app instanceId (''/apps/'' @ instanceId) namespace vals (stConfig s) of
       (w, res) \<Rightarrow> (s\<lparr>stConfig := w\<rparr>, install_end res))"

definition install_named :: "setupenv \<Rightarrow> EnvConfig \<Rightarrow> string \<Rightarrow> (string \<times> goval) list \<Rightarrow> unit leaf" where
  "install_named V env name vals = bindL (find_env_app name) (\<lambda>app.
     install_app V app (Slug app) (NamespacePrefix env @ appNamespace app) vals)"

definition add_collaborator :: "setupenv \<Rightarrow> string \<Rightarrow> keypair \<Rightarrow> unit leaf" where
  "add_collaborator V user keys =
     bindL (ssh (SoftAddUser (sshErr V) user (AuthorizedKey keys))) (\<lambda>_.
       ssh (AddReadWriteCollaborator (sshErr V) ''config'' user))"

definition config_address :: "string leaf" where
  "config_address = bindL (field ssClient) (\<lambda>c. returnL (GetRepoAddress c ''config''))"

section \<open>The Git server\<close>

definition all_apps :: "setupenv \<Rightarrow> repository leaf" where
  "all_apps V s = (s, case CreateAllApps (suBuiltin V) of None \<Rightarrow> Panic | Some as \<Rightarrow> Val as)"

definition NewCreateConfigRepoTask :: "setupenv \<Rightarrow> EnvConfig \<Rightarrow> unit leaf" where
  "NewCreateConfigRepoTask V env =
     bindL (all_apps V) (\<lambda>repo.
     bindL (tryL (FindInfraApp repo ''config-repo'')) (\<lambda>app.
     bindL (tryL (newKeys V (EnvId env @ ''-config-repo-admin-keys''))) (\<lambda>adminKeys.
     bindL (setL (\<lambda>s. s\<lparr>ssAdminKeys := Some adminKeys\<rparr>)) (\<lambda>_.
     bindL (tryL (newKeys V (EnvId env @ ''-config-repo-keys''))) (\<lambda>keys s.
       case infra_Install (suInfra V) app (path_join [''/environments'', EnvId env, ''config-repo'']) (EnvId env)
              [(''privateKey'', GStr (RawPrivateKey keys)), (''publicKey'', GStr (RawAuthorizedKey keys)),
               (''adminKey'', GStr (RawAuthorizedKey adminKeys))] (stInfra s) of
         (w, res) \<Rightarrow> (s\<lparr>stInfra := w\<rparr>, install_end res))))))"

definition CreateGitClientTask :: "setupenv \<Rightarrow> EnvConfig \<Rightarrow> unit leaf" where
  "CreateGitClientTask V env =
     bindL (field ssAdminKeys) (\<lambda>adminKeys.
     bindL (tryL (getClient V (''soft-serve.'' @ EnvId env @ ''.svc.cluster.local:22'') (RawPrivateKey adminKeys))) (\<lambda>addr.
     bindL (\<lambda>s. case AddPublicKey (sshErr V) ''admin'' (AdminPublicKey env) (stSent s) of
              (sent, e) \<Rightarrow> (s\<lparr>stSent := sent\<rparr>, ended_as e)) (\<lambda>_.
       setL (\<lambda>s. s\<lparr>ssClient := Some \<lparr>softAddr = addr\<rparr>\<rparr>))))"

definition init_repo_op :: "setupenv \<Rightarrow> EnvConfig \<Rightarrow> string op" where
  "init_repo_op V env r =
     andThen (repo_write (repoOf (suApps V)) ''README.md'' (''# '' @ EnvId env @ '' PCloud environment'') r) (\<lambda>r1.
     andThen (WriteKustomization (repoOf (suApps V)) ''kustomization.yaml'' NewKustomization r1) (\<lambda>r2.
       (r2, Inr ''init'')))"

definition NewInitConfigRepoTask :: "setupenv \<Rightarrow> EnvConfig \<Rightarrow> unit leaf" where
  "NewInitConfigRepoTask V env =
     (let user = ''flux-'' @ EnvId env in
      bindL (setL (\<lambda>s. s\<lparr>fluxUserName := user\<rparr>)) (\<lambda>_.
      bindL (tryL (newKeys V user)) (\<lambda>keys.
      bindL (setL (\<lambda>s. s\<lparr>stKeys := Some keys\<rparr>)) (\<lambda>_.
      bindL (ssh (AddRepository (sshErr V) ''config'')) (\<lambda>_.
      bindL (GetRepo V) (\<lambda>_.
      bindL (config_Do V (init_repo_op V env)) (\<lambda>_.
      bindL (ssh (SoftAddUser (sshErr V) user (AuthorizedKey keys))) (\<lambda>_.
        ssh (AddReadOnlyCollaborator (sshErr V) ''config'' user)))))))))"

section \<open>Activation\<close>

text \<open>Standard base64 with padding.\<close>

definition b64 :: "nat \<Rightarrow> char" where
  "b64 n = (''ABCDEFGHIJKLMNOPQRSTUVWXYZabcdefghijklmnopqrstuvwxyz0123456789+/'') ! (n mod 64)"

fun base64 :: "string \<Rightarrow> string" where
  "base64 [] = []"
| "base64 [a] =
     (let x = of_char a * 65536 :: nat in [b64 (x div 262144), b64 (x div 4096), CHR ''='', CHR ''=''])"
| "base64 [a, b] =
     (let x = of_char a * 65536 + of_char b * 256 :: nat in
      [b64 (x div 262144), b64 (x div 4096), b64 (x div 64), CHR ''=''])"
| "base64 (a # b # c # cs) =
     (let x = of_char a * 65536 + of_char b * 256 + of_char c :: nat in
      b64 (x div 262144) # b64 (x div 4096) # b64 (x div 64) # b64 x # base64 cs)"

fun write_tmpls ::
    "repoenv \<Rightarrow> string \<Rightarrow> (string \<times> string) list \<Rightarrow>
     (string \<times> ((string \<times> string) list \<Rightarrow> (string, string) result)) list \<Rightarrow> repo \<Rightarrow> repo \<times> string option" where
  "write_tmpls E name data [] r = (r, None)"
| "write_tmpls E name data ((n, t) # ts) r =
     (let dst = path_join [''environments'', name, n] in
      case repo_Writer E dst r of
        (r1, Some e) \<Rightarrow> (r1, Some e)
      | (r1, None) \<Rightarrow>
          (case t data of
             Inl e \<Rightarrow> (r1, Some e)
           | Inr x \<Rightarrow>
               (case repo_write E dst x r1 of
                  (r2, Some e) \<Rightarrow> (r2, Some e)
                | (r2, None) \<Rightarrow> write_tmpls E name data ts r2)))"

definition known_hosts :: "string \<Rightarrow> string list \<Rightarrow> string" where
  "known_hosts host keys = concat (map (\<lambda>k. host @ '' '' @ k @ nl) keys)"

definition add_env_op :: "setupenv \<Rightarrow> EnvConfig \<Rightarrow> (string \<times> string) list \<Rightarrow> string op" where
  "add_env_op V env data r =
     (let E = iRepo (suInfra V) in
      case ReadKustomization E ''environments/kustomization.yaml'' r of
        Inl e \<Rightarrow> (r, Inl e)
      | Inr kust \<Rightarrow>
          (case envTmpls V of
             Inl e \<Rightarrow> (r, Inl e)
           | Inr ts \<Rightarrow>
               andThen (write_tmpls E (EnvId env) data ts r) (\<lambda>r1.
               andThen (WriteKustomization E ''environments/kustomization.yaml'' (AddResources [EnvId env] kust) r1) (\<lambda>r2.
                 (r2, Inr (EnvId env @ '': initialize environment''))))))"

definition AddNewEnvTask :: "setupenv \<Rightarrow> EnvConfig \<Rightarrow> unit leaf" where
  "AddNewEnvTask V env =
     bindL (field ssClient) (\<lambda>client.
     bindL (tryL (publicKeys V)) (\<lambda>ssPublicKeys.
     bindL (field stKeys) (\<lambda>keys s.
       let repoHost = hd (split_on (CHR '':'') (softAddr client));
           data = [(''Name'', EnvId env), (''PrivateKey'', base64 (RawPrivateKey keys)),
             (''PublicKey'', base64 (RawAuthorizedKey keys)), (''RepoHost'', repoHost), (''RepoName'', ''config''),
             (''KnownHosts'', base64 (known_hosts repoHost ssPublicKeys))]
       in case Do (iRepo (suInfra V)) False (add_env_op V env data) (wRepo (stInfra s)) of
            (r, e) \<Rightarrow> (s\<lparr>stInfra := (stInfra s)\<lparr>wRepo := r\<rparr>\<rparr>, ended_as e))))"

section \<open>The first commits\<close>

definition CreateRepoClient_body :: "setupenv \<Rightarrow> unit leaf" where
  "CreateRepoClient_body V =
     bindL (GetRepo V) (\<lambda>_.
     bindL (all_apps V) (\<lambda>repo. setL (\<lambda>s. s\<lparr>appsRepo := Some repo\<rparr>)))"

definition charts_text :: "string \<Rightarrow> string" where
  "charts_text ns =
     nl @ ''apiVersion: source.toolkit.fluxcd.io/v1'' @ nl @ ''kind: GitRepository'' @ nl @ ''metadata:'' @ nl @
     ''  name: pcloud'' @ nl @ ''  namespace: '' @ ns @ nl @ ''spec:'' @ nl @ ''  interval: 1m0s'' @ nl @
     ''  url: https://github.com/giolekva/pcloud'' @ nl @ ''  ref:'' @ nl @ ''    branch: main'' @ nl"

definition commit_config_op :: "setupenv \<Rightarrow> EnvConfig \<Rightarrow> string op" where
  "commit_config_op V env r =
     (let E = repoOf (suApps V) in
      andThen (repo_write E ''config.yaml'' (envText V env) r) (\<lambda>r1.
      andThen (repo_write E ''pcloud-charts.yaml'' (charts_text (EnvId env)) r1) (\<lambda>r2.
        case ReadKustomization E ''kustomization.yaml'' r2 of
          Inl e \<Rightarrow> (r2, Inl e)
        | Inr rootKust \<Rightarrow>
            andThen (WriteKustomization E ''kustomization.yaml'' (AddResources [''pcloud-charts.yaml''] rootKust) r2) (\<lambda>r3.
              (r3, Inr ''configure charts repo'')))))"

text \<open>The error of the transaction is dropped.\<close>

definition CommitEnvironmentConfiguration :: "setupenv \<Rightarrow> EnvConfig \<Rightarrow> unit leaf" where
  "CommitEnvironmentConfiguration V env =
     bindL (GetRepo V) (\<lambda>_ s. (fst (config_Do V (commit_config_op V env) s), Val ()))"

definition initGroups :: "string list" where
  "initGroups = [''admin'']"

definition first_account_op :: "setupenv \<Rightarrow> string op" where
  "first_account_op V r =
     andThen (repo_write (repoOf (suApps V)) ''first-account.yaml''
       (faTextOf V \<lparr>faCreated = False, faGroups = initGroups\<rparr>) r) (\<lambda>r1.
       (r1, Inr ''first account membership configuration''))"

definition ConfigureFirstAccount :: "setupenv \<Rightarrow> unit leaf" where
  "ConfigureFirstAccount V = bindL (GetRepo V) (\<lambda>_. config_Do V (first_account_op V))"

section \<open>The core applications\<close>

definition ip_string :: "setupenv \<Rightarrow> IP \<Rightarrow> string" where
  "ip_string V ip =
     (if ip = [] then ''<nil>''
      else case parse_ip ip of
        Inr [a, b, c, d] \<Rightarrow> join_with ''.'' (map (\<lambda>x. nat_digits (unat x)) [a, b, c, d])
      | _ \<Rightarrow> ip6Text V ip)"

definition pool_values :: "setupenv \<Rightarrow> string \<Rightarrow> IP \<Rightarrow> IP \<Rightarrow> (string \<times> goval) list" where
  "pool_values V name from to =
     [(''name'', GStr name), (''from'', GStr (ip_string V from)), (''to'', GStr (ip_string V to)),
      (''autoAssign'', GBool False), (''namespace'', GStr ''metallb-system'')]"

definition address_pools :: "setupenv \<Rightarrow> EnvConfig \<Rightarrow> unit leaf" where
  "address_pools V env =
     bindL (find_env_app ''metallb-ipaddresspool'') (\<lambda>app.
     bindL (install_app V app (Slug app @ ''-ingress-private'') (NamespacePrefix env @ appNamespace app @ ''-ingress-private'')
        (pool_values V (EnvId env @ ''-ingress-private'') (netIngress (EnvNet env)) (netIngress (EnvNet env)))) (\<lambda>_.
     bindL (install_app V app (Slug app @ ''-headscale'') (NamespacePrefix env @ appNamespace app @ ''-ingress-private'')
        (pool_values V (EnvId env @ ''-headscale'') (netHeadscale (EnvNet env)) (netHeadscale (EnvNet env)))) (\<lambda>_.
       install_app V app (Slug app) (NamespacePrefix env @ appNamespace app)
         (pool_values V (EnvId env) (netServicesFrom (EnvNet env)) (netServicesTo (EnvNet env))))))"

text \<open>The first three numbers of an address; a text with fewer parts makes the slice expression panic.\<close>

definition subnet24 :: "string \<Rightarrow> string leaf" where
  "subnet24 addr s =
     (let parts = split_on (CHR ''.'') addr in
      (s, if length parts < 3 then Panic else Val (join_with ''.'' (take 3 parts) @ ''.0/24'')))"

definition SetupNetwork :: "setupenv \<Rightarrow> EnvConfig \<Rightarrow> unit leaf" where
  "SetupNetwork V env =
     bindL (address_pools V env) (\<lambda>_.
     bindL (tryL (newKeys V ''port-allocator'')) (\<lambda>keys.
     bindL (add_collaborator V (EnvId env @ ''-port-allocator'') keys) (\<lambda>_.
     bindL (find_env_app ''private-network'') (\<lambda>app.
     bindL (subnet24 (ip_string V (netDNS (EnvNet env)))) (\<lambda>subnet.
       install_app V app (Slug app) (NamespacePrefix env @ appNamespace app)
         [(''privateNetwork'', GMap [(''hostname'', GStr ''private-network-proxy''),
            (''username'', GStr ''private-network-proxy''), (''ipSubnet'', GStr subnet)]),
          (''sshPrivateKey'', GStr (RawPrivateKey keys))])))))"

definition issuer_public :: "setupenv \<Rightarrow> EnvConfig \<Rightarrow> unit leaf" where
  "issuer_public V env = install_named V env ''certificate-issuer-public'' []"

definition issuer_private :: "setupenv \<Rightarrow> EnvConfig \<Rightarrow> unit leaf" where
  "issuer_private V env = install_named V env ''certificate-issuer-private'' []"

definition auth_body :: "setupenv \<Rightarrow> EnvConfig \<Rightarrow> unit leaf" where
  "auth_body V env = install_named V env ''core-auth'' [(''subdomain'', GStr ''test'')]"

definition memberships_body :: "setupenv \<Rightarrow> EnvConfig \<Rightarrow> unit leaf" where
  "memberships_body V env = install_named V env ''memberships'' [(''authGroups'', GStr (join_with '','' initGroups))]"

text \<open>The services that get a key of their own for the configuration repository.\<close>

definition install_with_key ::
    "setupenv \<Rightarrow> EnvConfig \<Rightarrow> string \<Rightarrow> string \<Rightarrow> string \<Rightarrow> (string \<times> goval) list \<Rightarrow> unit leaf" where
  "install_with_key V env keyName user name vals =
     bindL (tryL (newKeys V keyName)) (\<lambda>keys.
     bindL (add_collaborator V user keys) (\<lambda>_.
     bindL (find_env_app name) (\<lambda>app.
     bindL config_address (\<lambda>addr.
       install_app V app (Slug app) (NamespacePrefix env @ appNamespace app)
         ([(''repoAddr'', GStr addr), (''sshPrivateKey'', GStr (RawPrivateKey keys))] @ vals)))))"

definition launcher_body :: "setupenv \<Rightarrow> EnvConfig \<Rightarrow> unit leaf" where
  "launcher_body V env = install_with_key V env (EnvId env @ ''-launcher'') (EnvId env @ ''-launcher'') ''launcher'' []"

definition headscale_body :: "setupenv \<Rightarrow> EnvConfig \<Rightarrow> unit leaf" where
  "headscale_body V env = install_named V env ''headscale''
     [(''subdomain'', GStr ''headscale''), (''ipSubnet'', GStr (ip_string V (netDNS (EnvNet env)) @ ''/24''))]"

definition welcome_body :: "setupenv \<Rightarrow> EnvConfig \<Rightarrow> unit leaf" where
  "welcome_body V env = install_with_key V env ''welcome'' (EnvId env @ ''-welcome'') ''welcome'' []"

definition SetupAppStore :: "setupenv \<Rightarrow> EnvConfig \<Rightarrow> unit leaf" where
  "SetupAppStore V env = install_with_key V env (EnvId env @ ''-appmanager'') (EnvId env @ ''-appmanager'') ''app-manager''
     [(''authGroups'', GStr (join_with '','' initGroups))]"

section \<open>The DNS server\<close>

definition decode_EnvDNS :: "EnvDNS decoder" where
  "decode_EnvDNS = decode_struct
     [''zone'' \<mapsto> on_field Zone Zone_update decode_string,
      ''address'' \<mapsto> on_field Address Address_update decode_string]"

definition envdns_json :: "EnvDNS \<Rightarrow> json" where
  "envdns_json d = JObj (omitempty ''zone'' (Zone d) @ omitempty ''address'' (Address d))"

definition servers_value :: "EnvDNS list \<Rightarrow> goval" where
  "servers_value ds = from_json (JArr (map envdns_json ds))"

definition servers_of :: "(string \<times> goval) list \<Rightarrow> (string, EnvDNS list) result" where
  "servers_of vals =
     (case map_of vals ''servers'' of
        None \<Rightarrow> Inr []
      | Some v \<Rightarrow> decode_list decode_EnvDNS \<lparr>Zone = [], Address = []\<rparr> (to_json v) [])"

definition register_zone :: "setupenv \<Rightarrow> EnvConfig \<Rightarrow> unit leaf" where
  "register_zone V env =
     bindL (field appsRepo) (\<lambda>repo.
     bindL (tryL (FindInfraApp repo ''dns-gateway'')) (\<lambda>app.
     bindL (\<lambda>s. tryL (infra_FindInstance (suInfra V) ''dns-gateway'' (wRepo (stInfra s))) s) (\<lambda>cfg.
     bindL (tryL (servers_of (iaValues cfg))) (\<lambda>servers s.
       case infra_Update (suInfra V) app ''dns-gateway''
              [(''servers'', servers_value (servers @ [\<lparr>Zone = EnvDomain env,
                  Address = ip_string V (netDNSInClusterIP (EnvNet env))\<rparr>]))] False (stInfra s) of
         (w, res) \<Rightarrow> (s\<lparr>stInfra := w\<rparr>, install_end res)))))"

text \<open>The last loop fetches until there is no error; it hangs if there always is one.\<close>

definition SetupDNSServer :: "setupenv \<Rightarrow> EnvConfig \<Rightarrow> unit leaf" where
  "SetupDNSServer V env =
     bindL (install_named V env ''env-dns''
        [(''addressPool'', GStr (EnvId env @ ''-dns'')),
         (''inClusterIP'', GStr (ip_string V (netDNSInClusterIP (EnvNet env)))),
         (''publicIP'', GStr (join_with '','' (map (ip_string V) (PublicIP env)))),
         (''privateIP'', GStr (ip_string V (netIngress (EnvNet env)))),
         (''nameserverIP'', GStr (join_with '','' (map (ip_string V) (NameserverIP env))))]) (\<lambda>_.
     bindL (register_zone V env) (\<lambda>_ s.
       case polling (fetched V) of Returns _ \<Rightarrow> (s, Val ()) | Hangs \<Rightarrow> (s, Hang)))"

section \<open>No leaf dereferences nil\<close>

text \<open>The leaves with their titles, in the order of the tree of theory \<open>EnvTasks\<close>.\<close>

definition config_leaves :: "setupenv \<Rightarrow> EnvConfig \<Rightarrow> (string \<times> unit leaf) list" where
  "config_leaves V env =
     [(''Install Git server'', NewCreateConfigRepoTask V env),
      (''Wait git server to come up'', CreateGitClientTask V env),
      (''Configure access control lists'', NewInitConfigRepoTask V env),
      (''Commit initial configuration'', AddNewEnvTask V env),
      (''Create repo client'', CreateRepoClient_body V),
      (''commit config'', CommitEnvironmentConfiguration V env),
      (''Configure first account settings'', ConfigureFirstAccount V),
      (''Start up DNS server'', SetupDNSServer V env)]"

definition core_leaves :: "setupenv \<Rightarrow> EnvConfig \<Rightarrow> (string \<times> unit leaf) list" where
  "core_leaves V env =
     [(''Setup private and public networks'', SetupNetwork V env),
      (''Public '' @ EnvDomain env, issuer_public V env), (''Private p.'' @ EnvDomain env, issuer_private V env),
      (''Setup'', auth_body V env), (''Setup'', memberships_body V env), (''Setup'', headscale_body V env),
      (''Setup'', welcome_body V env), (''Application marketplace'', SetupAppStore V env), (''Setup'', launcher_body V env)]"

lemma leaves_of_tree:
  "leaf_titles (SetupConfigRepoTask W) @ leaf_titles (SetupZoneTask W env)
     = map fst (config_leaves V env) @ [''Wait to propagate'']"
  "filter (\<lambda>t. \<not> has_prefix t ''Wait for '') (leaf_titles (SetupInfra W env)) = map fst (core_leaves V env)"
  by (simp_all add: config_leaves_def core_leaves_def env_tree_defs constructor_defs has_prefix_def)

fun run_leaves :: "unit leaf list \<Rightarrow> unit leaf" where
  "run_leaves [] s = (s, Val ())"
| "run_leaves (l # ls) s = (case l s of (s', Val _) \<Rightarrow> run_leaves ls s' | (s', x) \<Rightarrow> (s', x))"

text \<open>The fields that have been set: the administrator's keys, the client, the keys of Flux, the applications.\<close>

definition have_set :: "bool \<Rightarrow> bool \<Rightarrow> bool \<Rightarrow> bool \<Rightarrow> setupst \<Rightarrow> bool" where
  "have_set a c k r s \<longleftrightarrow> (a \<longrightarrow> ssAdminKeys s \<noteq> None) \<and> (c \<longrightarrow> ssClient s \<noteq> None)
     \<and> (k \<longrightarrow> stKeys s \<noteq> None) \<and> (r \<longrightarrow> appsRepo s \<noteq> None)"

text \<open>Partial correctness of a leaf: from \<open>P\<close> it does not dereference nil and, if it returns, gives \<open>Q\<close>.\<close>

definition safely :: "(setupst \<Rightarrow> bool) \<Rightarrow> 'a leaf \<Rightarrow> (setupst \<Rightarrow> bool) \<Rightarrow> bool" where
  "safely P l Q \<longleftrightarrow> (\<forall>s. P s \<longrightarrow> snd (l s) \<noteq> NilDeref \<and> (\<forall>a. snd (l s) = Val a \<longrightarrow> Q (fst (l s))))"

named_theorems leaf_rules \<open>rules for the steps of a leaf\<close>

lemma safely_bindL [leaf_rules]:
  assumes "safely P m R" and "\<And>a. safely R (f a) Q"
  shows "safely P (bindL m f) Q"
  unfolding safely_def
proof (intro allI impI)
  fix s assume "P s"
  show "snd (bindL m f s) \<noteq> NilDeref \<and> (\<forall>a. snd (bindL m f s) = Val a \<longrightarrow> Q (fst (bindL m f s)))"
  proof (cases "m s")
    case (Pair s' x)
    with assms \<open>P s\<close> show ?thesis by (cases x) (auto simp: safely_def bindL_def)
  qed
qed

lemma safely_tryL [leaf_rules]: "safely P (tryL x) P"
  by (auto simp: safely_def tryL_def split: sum.splits)

lemma safely_returnL [leaf_rules]: "safely P (returnL x) P"
  by (auto simp: safely_def returnL_def)

lemma safely_all_apps [leaf_rules]: "safely P (all_apps V) P"
  by (auto simp: safely_def all_apps_def split: option.splits)

lemma safely_subnet24 [leaf_rules]: "safely P (subnet24 x) P"
  by (auto simp: safely_def subnet24_def Let_def)

lemma ends_safely [simp]: "ended_as e \<noteq> NilDeref" "install_end res \<noteq> NilDeref"
  by (cases e; simp) (cases res; simp)

lemma safely_fields [leaf_rules]:
  "safely (have_set True c k r) (field ssAdminKeys) (have_set True c k r)"
  "safely (have_set a True k r) (field ssClient) (have_set a True k r)"
  "safely (have_set a c True r) (field stKeys) (have_set a c True r)"
  "safely (have_set a c k True) (field appsRepo) (have_set a c k True)"
  by (auto simp: safely_def field_def have_set_def)

text \<open>A step that changes the repositories or sends commands keeps the fields.\<close>

lemma safely_changes:
  assumes "\<And>s. snd (l s) \<noteq> NilDeref \<and> ssAdminKeys (fst (l s)) = ssAdminKeys s \<and> ssClient (fst (l s)) = ssClient s
    \<and> stKeys (fst (l s)) = stKeys s \<and> appsRepo (fst (l s)) = appsRepo s"
  shows "safely (have_set a c k r) l (have_set a c k r)"
  using assms by (simp add: safely_def have_set_def)

lemma safely_ssh [leaf_rules]: "safely (have_set a True k r) (ssh cmd) (have_set a True k r)"
  unfolding ssh_def
  by (rule leaf_rules safely_changes)+ (simp split: prod.split)

lemma safely_GetRepo [leaf_rules]: "safely (have_set a True k r) (GetRepo V) (have_set a True k r)"
  unfolding GetRepo_def
  by (rule leaf_rules safely_changes)+ (simp split: option.split)

lemma safely_config_Do [leaf_rules]: "safely (have_set a c k r) (config_Do V f) (have_set a c k r)"
  by (rule safely_changes) (simp add: config_Do_def split: prod.split)

lemma safely_find [leaf_rules]: "safely (have_set a c k True) (find_env_app n) (have_set a c k True)"
  unfolding find_env_app_def by (rule leaf_rules)+

lemma safely_install [leaf_rules]:
  "safely (have_set a c k True) (install_app V app i ns vals) (have_set a c k True)"
  unfolding install_app_def by (rule leaf_rules safely_changes)+ (simp split: prod.split)

lemma safely_install_named [leaf_rules]:
  "safely (have_set a c k True) (install_named V env n vals) (have_set a c k True)"
  unfolding install_named_def by (rule leaf_rules)+

lemma safely_add_collaborator [leaf_rules]:
  "safely (have_set a True k r) (add_collaborator V user keys) (have_set a True k r)"
  unfolding add_collaborator_def by (rule leaf_rules)+

lemma safely_config_address [leaf_rules]: "safely (have_set a True k r) config_address (have_set a True k r)"
  unfolding config_address_def by (rule leaf_rules)+

lemma safely_setL [leaf_rules]:
  "safely (have_set a c k r) (setL (\<lambda>s. s\<lparr>ssAdminKeys := Some x\<rparr>)) (have_set True c k r)"
  "safely (have_set a c k r) (setL (\<lambda>s. s\<lparr>ssClient := Some y\<rparr>)) (have_set a True k r)"
  "safely (have_set a c k r) (setL (\<lambda>s. s\<lparr>stKeys := Some x\<rparr>)) (have_set a c True r)"
  "safely (have_set a c k r) (setL (\<lambda>s. s\<lparr>appsRepo := Some z\<rparr>)) (have_set a c k True)"
  "safely (have_set a c k r) (setL (\<lambda>s. s\<lparr>fluxUserName := u\<rparr>)) (have_set a c k r)"
  by (simp_all add: safely_def setL_def have_set_def)

lemma create_config_repo_safe:
  "safely (have_set a c k r) (NewCreateConfigRepoTask V env) (have_set True c k r)"
  unfolding NewCreateConfigRepoTask_def
  by (rule leaf_rules safely_changes)+ (simp split: prod.split)

lemma create_git_client_safe:
  "safely (have_set True c k r) (CreateGitClientTask V env) (have_set True True k r)"
  unfolding CreateGitClientTask_def
  by (rule leaf_rules safely_changes | simp split: prod.split)+

lemma init_config_repo_safe:
  "safely (have_set a True k r) (NewInitConfigRepoTask V env) (have_set a True True r)"
  unfolding NewInitConfigRepoTask_def Let_def by (rule leaf_rules)+

lemma add_new_env_safe:
  "safely (have_set a True True r) (AddNewEnvTask V env) (have_set a True True r)"
  unfolding AddNewEnvTask_def Let_def by (rule leaf_rules safely_changes | simp split: prod.split)+

lemma repo_client_safe: "safely (have_set a True k r) (CreateRepoClient_body V) (have_set a True k True)"
  unfolding CreateRepoClient_body_def by (rule leaf_rules)+

lemma commit_config_safe:
  "safely (have_set a True k r) (CommitEnvironmentConfiguration V env) (have_set a True k r)"
  unfolding CommitEnvironmentConfiguration_def
  by (rule leaf_rules safely_changes | simp add: config_Do_def split: prod.split)+

lemma first_account_safe: "safely (have_set a True k r) (ConfigureFirstAccount V) (have_set a True k r)"
  unfolding ConfigureFirstAccount_def by (rule leaf_rules)+

lemma register_zone_safe [leaf_rules]:
  "safely (have_set a c k True) (register_zone V env) (have_set a c k True)"
  unfolding register_zone_def
  by (rule leaf_rules safely_changes | simp add: tryL_def split: prod.split sum.split)+

lemma dns_server_safe: "safely (have_set a c k True) (SetupDNSServer V env) (have_set a c k True)"
  unfolding SetupDNSServer_def
  by (rule leaf_rules safely_changes | simp split: work.split)+

lemma core_leaves_safe:
  assumes "l \<in> set (map snd (core_leaves V env))"
  shows "safely (have_set a True k True) l (have_set a True k True)"
  using assms unfolding core_leaves_def
  by (auto simp: SetupNetwork_def address_pools_def issuer_public_def issuer_private_def auth_body_def
      memberships_body_def headscale_body_def welcome_body_def SetupAppStore_def launcher_body_def install_with_key_def
      intro!: leaf_rules)

lemma run_leaves_bind: "run_leaves (l # ls) = bindL l (\<lambda>_. run_leaves ls)"
  by (auto simp: bindL_def fun_eq_iff split: prod.splits outcome.splits)

lemma safely_run_leaves:
  assumes "\<And>l. l \<in> set ls \<Longrightarrow> safely P l P"
  shows "safely P (run_leaves ls) P"
  using assms
proof (induction ls)
  case Nil
  then show ?case by (simp add: safely_def)
next
  case (Cons l ls)
  then show ?case unfolding run_leaves_bind by (intro safely_bindL) auto
qed

text \<open>
  C18: Provisioning never uses a field before it is set. From whatever state, the leaves that set up the
  repository and the zone, run in the order of their sequence, and then the leaves that install the core
  applications, run in any order, with no leaf started after one that failed, never dereference a client,
  key or repository of applications that is nil.
\<close>
theorem setup_never_dereferences_nil:
  assumes "set ls \<subseteq> set (map snd (core_leaves V env))"
  shows "snd (run_leaves (map snd (config_leaves V env) @ ls) s) \<noteq> NilDeref"
proof -
  have rest: "safely (have_set True True True True) (run_leaves ls) (have_set True True True True)"
    using assms by (intro safely_run_leaves core_leaves_safe) auto
  have "safely (have_set False False False False) (run_leaves (map snd (config_leaves V env) @ ls)) (have_set True True True True)"
    unfolding config_leaves_def list.map snd_conv append_Cons append_Nil run_leaves_bind
    by (rule safely_bindL create_config_repo_safe create_git_client_safe init_config_repo_safe add_new_env_safe
        repo_client_safe commit_config_safe first_account_safe dns_server_safe rest)+
  then show ?thesis by (simp add: safely_def have_set_def)
qed

section \<open>The zone of an environment\<close>

lemma lower_dns_keys: "to_lower ''zone'' = ''zone''" "to_lower ''address'' = ''address''"
  by code_simp+

lemma decode_envdns: "decode_EnvDNS (envdns_json d) \<lparr>Zone = [], Address = []\<rparr> = Inr d"
  by (cases d) (simp add: decode_EnvDNS_def envdns_json_def omitempty_def on_field_def lower_dns_keys)

lemma reload_servers: "to_json (from_json (JArr (map envdns_json ds))) = JArr (map envdns_json ds)"
  by (simp add: comp_def envdns_json_def omitempty_def)

text \<open>Storing the list of servers and reading it back.\<close>

lemma servers_roundtrip: "servers_of [(''servers'', servers_value ds)] = Inr ds"
proof -
  have "decode_elems decode_EnvDNS \<lparr>Zone = [], Address = []\<rparr> (map envdns_json ds) [] = Inr ds"
    by (induction ds) (simp_all add: decode_envdns)
  then show ?thesis 
    by (simp add: servers_of_def servers_value_def reload_servers del: to_json.simps from_json.simps)
qed

text \<open>
  C19: The DNS gateway learns the zone of a new environment and forgets none. If the gateway is
  installed and rendering and committing it succeed, then afterwards its stored list of servers is the
  earlier list with the domain of the environment and the address of its DNS server at the end, and the
  gateway stays in its namespace.
\<close>
theorem dns_gateway_learns_zone:
  assumes "infra_ok (suInfra V) (wRepo (stInfra s))"
    and "appsRepo s = Some repo" and "FindInfraApp repo ''dns-gateway'' = Inr app"
    and "infra_Config (suInfra V) (wRepo (stInfra s)) = Inr infra"
    and "infra_FindInstance (suInfra V) ''dns-gateway'' (wRepo (stInfra s)) = Inr (old\<lparr>iaId := ''dns-gateway''\<rparr>)"
    and "tree (wRepo (stInfra s)) (path_of [''infrastructure'', ''dns-gateway'', ''config.json''])
          = Some (iJsonOf (suInfra V) old)"
    and "servers_of (iaValues old) = Inr servers"
    and "zone = \<lparr>Zone = EnvDomain env, Address = ip_string V (netDNSInClusterIP (EnvNet env))\<rparr>"
    and "infra_Render (iValue (suInfra V)) (iRelValue (suInfra V)) app
      \<lparr>AppInstanceId = ''dns-gateway'', relNamespace = relNamespace (iaRelease old), RepoAddr = iAddress (suInfra V),
       AppDir = path_of [''infrastructure'', ''dns-gateway'']\<rparr> infra
      [(''servers'', servers_value (servers @ [zone]))] = Inr (ren, cfg)"
    and "render_ok ren" and "\<forall>c \<in> {old, cfg}. iCfgParse (suInfra V) (iJsonOf (suInfra V) c) = Inr c"
  shows "\<exists>s' cfg'. register_zone V env s = (s', Val ())
    \<and> infra_FindInstance (suInfra V) ''dns-gateway'' (wRepo (stInfra s')) = Inr cfg'
    \<and> servers_of (iaValues cfg') = Inr (servers @ [zone])
    \<and> relNamespace (iaRelease cfg') = relNamespace (iaRelease old)"
proof -
  have name: "comp_ok ''dns-gateway''" "''dns-gateway'' \<noteq> ''kustomization.yaml''"
    by (simp_all add: comp_ok_def)
  from infra_update_ok[OF assms(1) name assms(4,6,9,10,11)] obtain r' where
    r': "infra_Update (suInfra V) app ''dns-gateway'' [(''servers'', servers_value (servers @ [zone]))] False (stInfra s)
        = ((stInfra s)\<lparr>wRepo := r'\<rparr>, Installed [])"
      "infra_FindInstance (suInfra V) ''dns-gateway'' r' = Inr (cfg\<lparr>iaId := ''dns-gateway''\<rparr>)" by blast
  have "register_zone V env s = (s\<lparr>stInfra := (stInfra s)\<lparr>wRepo := r'\<rparr>\<rparr>, Val ())"
    using assms(2,3,5,7) r'(1)
    by (simp add: register_zone_def bindL_def field_def tryL_def assms(8)[symmetric])
  moreover have "iaValues cfg = [(''servers'', servers_value (servers @ [zone]))]"
      "relNamespace (iaRelease cfg) = relNamespace (iaRelease old)"
    using assms(9) by (auto simp: infra_Render_def bindE_eq_Inr)
  ultimately show ?thesis using r'(2) servers_roundtrip by auto
qed

section \<open>From provisioning to the first account\<close>

text \<open>
  C15: The first account of a new environment is its administrator. When the leaf that configures the first
  account has run on a healthy repository, the first account that the welcome service then creates on
  a new store of groups owns the group of administrators and is its only member.
\<close>
theorem provisioned_env_gets_admin:
  assumes "apps W = suApps V" and "faText W = faTextOf V" and "welcome_ok W"
    and "membershipsErr W = None" and "no_faults (sqlOf (memberships W))"
    and "ssClient s \<noteq> None" and "cloneErr V = None"
    and "extractReq r body = Inr req" and "post_account W req = None"
  shows "\<exists>s'. ConfigureFirstAccount V s = (s', Val ())
    \<and> wsGroups (fst (createAccount W r body \<lparr>wsWorld = stConfig s', wsGroups = NewSQLiteStore\<rparr>)) = NewSQLiteStore
      \<lparr>groups := [\<lparr>gName = ''admin'', gDescription = []\<rparr>], owners := [(caUsername req, ''admin'')],
       user_to_group := [(caUsername req, ''admin'')]\<rparr>"
proof -
  let ?fa = "\<lparr>faCreated = False, faGroups = initGroups\<rparr>"
  have E: "repo_healthy (repoOf (suApps V))" "pullTree (repoOf (suApps V)) = id"
    "faParse W (faTextOf V ?fa) = Inr ?fa"
    using assms(1-3) by (auto simp: welcome_ok_def)
  obtain c where c: "ssClient s = Some c" using assms(6) by auto
  obtain s' where s': "ConfigureFirstAccount V s = (s', Val ())"
      "tree (wRepo (stConfig s')) (tree_key ''first-account.yaml'') = Some (faTextOf V ?fa)"
    using E assms(7) c
    by (simp add: ConfigureFirstAccount_def bindL_def GetRepo_def field_def config_Do_def Do_def Pull_healthy
        first_account_op_def andThen_def CommitAndPush_def)
  have "first_file W \<lparr>wsWorld = stConfig s', wsGroups = NewSQLiteStore\<rparr> = Some ?fa"
    using s'(2) E(3) by (simp add: first_file_def)
  from createAccount_first[OF assms(3-5) this _ _ _ assms(8,9)] s'(1) show ?thesis
    by (auto simp: initGroups_def)
qed

subsection \<open>A concrete environment\<close>

definition example_setup :: setupenv where
  "example_setup = \<lparr>newKeys = (\<lambda>n. Inr \<lparr>RawPrivateKey = ''priv'', RawAuthorizedKey = ''pub'', AuthorizedKey = ''pub''\<rparr>),
     suBuiltin = example_apps, suInfra = example_infra, suApps = example_appenv,
     getClient = (\<lambda>addr _. Inr addr), cloneErr = None, sshErr = (\<lambda>_. None), publicKeys = Inr [''key''],
     envTmpls = Inr [(''kustomization.yaml'', \<lambda>_. Inr [])], envText = (\<lambda>_. []), faTextOf = faText example_welcome,
     fetched = (\<lambda>n. n = 1), ip6Text = (\<lambda>_. [])\<rparr>"

definition example_setupst :: setupst where
  "example_setupst = \<lparr>stInfra = example_infra_world, stConfig = example_world, stSent = [], ssAdminKeys = None,
     ssClient = None, fluxUserName = [], stKeys = None, appsRepo = None\<rparr>"

theorem setup_never_dereferences_nil_witness:
  "snd (run_leaves (map snd (config_leaves example_setup EnvTasks.example_env)
      @ [SetupAppStore example_setup EnvTasks.example_env, auth_body example_setup EnvTasks.example_env]) example_setupst) \<noteq> NilDeref"
  by (rule setup_never_dereferences_nil) (simp add: core_leaves_def)

theorem provisioned_env_gets_admin_witness:
  "\<exists>s'. ConfigureFirstAccount example_setup (example_setupst\<lparr>ssClient := Some \<lparr>softAddr = []\<rparr>\<rparr>) = (s', Val ())
    \<and> wsGroups (fst (createAccount example_welcome (account_form ''gio'') (Inl [])
        \<lparr>wsWorld = stConfig s', wsGroups = NewSQLiteStore\<rparr>)) = NewSQLiteStore
      \<lparr>groups := [\<lparr>gName = ''admin'', gDescription = []\<rparr>], owners := [(''gio'', ''admin'')],
       user_to_group := [(''gio'', ''admin'')]\<rparr>"
  using provisioned_env_gets_admin[OF _ _ example_welcome_ok _ _ _ _ account_extract account_posted,
      of example_setup "example_setupst\<lparr>ssClient := Some \<lparr>softAddr = []\<rparr>\<rparr>" "''gio''" "Inl []"]
  by (simp add: example_setup_def example_welcome_def)

text \<open>An infrastructure whose DNS gateway serves no zone yet.\<close>

definition gateway_app :: cueApp where
  "gateway_app = example_app\<lparr>appName := ''dns-gateway''\<rparr>"

definition gateway_zone :: EnvDNS where
  "gateway_zone = \<lparr>Zone = ''e.com'', Address = ''10.1.0.2''\<rparr>"

definition gateway_env :: EnvConfig where
  "gateway_env = zero_env\<lparr>EnvDomain := ''e.com'', EnvNet := (EnvNet zero_env)\<lparr>netDNSInClusterIP := [10, 1, 0, 2]\<rparr>\<rparr>"

definition gateway_new :: InfraAppInstanceConfig where
  "gateway_new = \<lparr>iaId = [], iaAppId = ''dns-gateway'', iaInfra = zero_infra,
     iaRelease = \<lparr>AppInstanceId = ''dns-gateway'', relNamespace = ''infra-git'', RepoAddr = [],
       AppDir = path_of [''infrastructure'', ''dns-gateway'']\<rparr>,
     iaValues = [(''servers'', servers_value [gateway_zone])], iaInput = [(''servers'', servers_value [gateway_zone])],
     iaURL = [], iaHelp = [], iaIcon = []\<rparr>"

definition gateway_rendered :: rendered where
  "gateway_rendered = empty_rendered\<lparr>renName := ''dns-gateway'', renResources := [(''git.yaml'', ''x'')],
     renData := [(''rendered.json'', ''{}'')]\<rparr>"

definition gateway_setup :: setupenv where
  "gateway_setup = example_setup\<lparr>suInfra := example_infra
     \<lparr>iCfgParse := (\<lambda>x. Inr (if x = [] then example_old else gateway_new))\<rparr>\<rparr>"

definition gateway_state :: setupst where
  "gateway_state = example_setupst\<lparr>appsRepo := Some [cueInfraApp gateway_app],
     stInfra := \<lparr>wRepo = empty_repo\<lparr>tree := [tree_key ''config.yaml'' \<mapsto> [],
        kust_file [''infrastructure''] \<mapsto> example_kust_text (AddResources [''dns-gateway''] NewKustomization),
        path_of [''infrastructure'', ''dns-gateway'', ''config.json''] \<mapsto> []]\<rparr>,
        wNamespaces = [], wPortRequests = []\<rparr>\<rparr>"

theorem dns_gateway_learns_zone_witness:
  "\<exists>s' cfg'. register_zone gateway_setup gateway_env gateway_state = (s', Val ())
    \<and> infra_FindInstance (suInfra gateway_setup) ''dns-gateway'' (wRepo (stInfra s')) = Inr cfg'
    \<and> servers_of (iaValues cfg') = Inr [gateway_zone]"
proof -
  let ?J = "suInfra gateway_setup" and ?r = "wRepo (stInfra gateway_state)"
  have slug: "Slug gateway_app = ''dns-gateway''" "cleanName ''git'' = ''git''"
    and ip: "ip_string gateway_setup [10, 1, 0, 2] = ''10.1.0.2''" by code_simp+
  have keys: "tree_key (kust_file [''infrastructure'']) = kust_file [''infrastructure'']"
    "kust_file [''infrastructure''] \<noteq> path_of [''infrastructure'', ''dns-gateway'', ''config.json'']"
    "tree_key ''config.yaml'' \<noteq> kust_file [''infrastructure'']"
    "tree_key ''config.yaml'' \<noteq> path_of [''infrastructure'', ''dns-gateway'', ''config.json'']" by code_simp+
  have name: "comp_ok ''dns-gateway''" by (simp add: comp_ok_def)
  have J: "iRepo ?J = example_repoenv" "iJsonOf ?J = iaAppId" "iParse ?J = (\<lambda>_. Inr zero_infra)" "iAddress ?J = []"
    "iValue ?J = (\<lambda>_. GNil)" "iRelValue ?J = (\<lambda>_. GNil)"
    "iCfgParse ?J = (\<lambda>x. Inr (if x = [] then example_old else gateway_new))"
    by (simp_all add: gateway_setup_def example_infra_def)
  have old: "iaAppId example_old = []" "relNamespace (iaRelease example_old) = ''infra-git''" "iaValues example_old = []"
    by (simp_all add: example_old_def zero_infra_config_def)
  have tree: "tree ?r (path_of [''infrastructure'', ''dns-gateway'', ''config.json'']) = Some []"
    "tree ?r (kust_file [''infrastructure'']) = Some (example_kust_text (AddResources [''dns-gateway''] NewKustomization))"
    "tree ?r (tree_key ''config.yaml'') = Some []"
    using keys by (simp_all add: gateway_state_def)
  have kust: "ReadKustomization example_repoenv (kust_file [''infrastructure'']) ?r
      = Inr (AddResources [''dns-gateway''] NewKustomization)"
    unfolding ReadKustomization_def repo_Reader_def keys(1) tree(2) by (simp add: example_repoenv_def)
  have "infra_FindInstance ?J ''dns-gateway'' ?r = Inr (example_old\<lparr>iaId := ''dns-gateway''\<rparr>)"
    using kust infra_read_config[of ?J "''dns-gateway''" ?r "[]"] tree(1) name
    by (simp add: infra_FindInstance_def infra_paths[OF name] J AddResources_def NewKustomization_def)
  moreover have "infra_Config ?J ?r = Inr zero_infra"
    using tree(3) by (simp add: infra_Config_def repo_Reader_def J)
  moreover have "infra_Render (iValue ?J) (iRelValue ?J) gateway_app
      \<lparr>AppInstanceId = ''dns-gateway'', relNamespace = relNamespace (iaRelease example_old), RepoAddr = iAddress ?J,
       AppDir = path_of [''infrastructure'', ''dns-gateway'']\<rparr> zero_infra
      [(''servers'', servers_value ([] @ [gateway_zone]))] = Inr (gateway_rendered, gateway_new)"
    unfolding infra_Render_def AppManager.render_def slug(1) J old
    by (simp add: gateway_app_def example_app_def gateway_rendered_def gateway_new_def empty_rendered_def
        data_put_def slug(2))
  moreover have "infra_ok ?J ?r" by (simp add: infra_ok_def J)
  moreover have "FindInfraApp [cueInfraApp gateway_app] ''dns-gateway'' = Inr gateway_app"
    by (simp add: FindInfraApp_def app_Find_def app_Slug_def slug)
  moreover have "gateway_zone = \<lparr>Zone = EnvDomain gateway_env,
      Address = ip_string gateway_setup (netDNSInClusterIP (EnvNet gateway_env))\<rparr>"
    by (simp add: gateway_zone_def gateway_env_def ip)
  ultimately show ?thesis
    using dns_gateway_learns_zone[of gateway_setup gateway_state "[cueInfraApp gateway_app]" gateway_app zero_infra
        example_old "[]" gateway_zone gateway_env gateway_rendered gateway_new] tree(1)
    by (auto simp: J old servers_of_def render_ok_def gateway_rendered_def empty_rendered_def gateway_new_def
        gateway_state_def)
qed

end
