(* ===== verification/Bootstrap.thy ===== *)
theory Bootstrap
  imports EnvSetup
begin

text \<open>
  The bootstrapper (\<open>src/core/installer/bootstrapper.go\<close>, \<open>cmd/bootstrap.go\<close>): it turns an empty cluster
  into an infrastructure. It installs the load balancer, the storage and the Git server with Helm,
  opens the configuration repository, writes its first files, and installs the services of the
  infrastructure through the manager of theory \<open>InfraManager\<close>.

  Helm, the charts, key generation and the connection to the Git server are functions of the
  environment. The releases asked of Helm and the commands sent to the Git server are recorded.
\<close>

section \<open>Configuration\<close>

record EnvServiceIPs =
  sipConfigRepo :: IP
  sipIngressPublic :: IP
  sipFrom :: IP
  sipTo :: IP

record BootstrapConfig =
  bcInfraName :: string
  bcPublicIP :: "IP list"
  bcNamespacePrefix :: string
  bcStorageDir :: string
  bcReplicaCount :: int
  bcAdminPublicKey :: string
  bcServiceIPs :: EnvServiceIPs

record helm_release =
  hrConfig :: string
  hrChart :: string
  hrNamespace :: string
  hrName :: string
  hrCreateNamespace :: bool
  hrIncludeCRDs :: bool
  hrTimeout :: "nat option"
  hrValues :: "(string \<times> goval) list"

record bootst =
  bWorld :: world
  bSent :: "string list"
  bReleases :: "helm_release list"

text \<open>\<open>bsHelmNew\<close>, \<open>bsChartAt\<close> and \<open>bsRunHelm\<close> are the errors of making a Helm configuration, of loading the
  chart of a directory and of running an installation.\<close>

record bootenv =
  bsHelmNew :: "string \<Rightarrow> string option"
  bsBaseDir :: string
  bsChartAt :: "string \<Rightarrow> string option"
  bsRunHelm :: "helm_release \<Rightarrow> string option"
  bsNewKeys :: "string \<Rightarrow> (string, keypair) result"
  bsClient :: "string \<Rightarrow> string \<Rightarrow> (string, string) result"
  bsSshErr :: "string \<Rightarrow> string option"
  bsPublicKeys :: "(string, string list) result"
  bsCloneErr :: "string option"
  bsApps :: repository
  bsInfra :: infraenv
  bsConfigText :: "BootstrapConfig \<Rightarrow> string"
  bsInfraText :: "InfraConfig \<Rightarrow> string"
  bsCidrsText :: "EnvCIDR list \<Rightarrow> string"
  bsIp6Text :: "IP \<Rightarrow> string"

type_synonym 'a boot = "(bootst, 'a) prog"

definition findApp :: "bootenv \<Rightarrow> string \<Rightarrow> (string, cueApp) result" where
  "findApp V name =
     bindE (app_Find (bsApps V) name) (\<lambda>app.
       case app of cueInfraApp a \<Rightarrow> Inr a | cueEnvApp _ \<Rightarrow> Inl ''not found'')"

text \<open>\<open>Addr.String\<close> and \<open>AddrPort.String\<close>.\<close>

definition addr_text :: "bootenv \<Rightarrow> IP \<Rightarrow> string" where
  "addr_text V a =
     (if a = [] then ''invalid IP''
      else if length a = 4 then join_with ''.'' (map (\<lambda>x. nat_digits (unat x)) a)
      else bsIp6Text V a)"

definition addrport_text :: "bootenv \<Rightarrow> IP \<Rightarrow> nat \<Rightarrow> string" where
  "addrport_text V a port =
     (if a = [] then ''invalid AddrPort''
      else if length a = 4 then addr_text V a @ '':'' @ nat_digits port
      else ''['' @ addr_text V a @ '']:'' @ nat_digits port)"

section \<open>Helm\<close>

definition fsChartLoader_Load :: "bootenv \<Rightarrow> string \<Rightarrow> string option" where
  "fsChartLoader_Load V name = bsChartAt V (path_join [bsBaseDir V, name])"

definition helm_run :: "bootenv \<Rightarrow> helm_release \<Rightarrow> unit boot" where
  "helm_run V h =
     bindL (checkL (bsHelmNew V (hrConfig h))) (\<lambda>_.
     bindL (checkL (fsChartLoader_Load V (hrChart h))) (\<lambda>_ s.
       (s\<lparr>bReleases := bReleases s @ [h]\<rparr>, ended_as (bsRunHelm V h))))"

definition installMetallbNamespace :: "bootenv \<Rightarrow> BootstrapConfig \<Rightarrow> unit boot" where
  "installMetallbNamespace V env = helm_run V
     \<lparr>hrConfig = bcInfraName env, hrChart = ''namespace'', hrNamespace = bcInfraName env, hrName = ''metallb-ns'',
      hrCreateNamespace = False, hrIncludeCRDs = False, hrTimeout = None,
      hrValues = [(''namespace'', GStr ''metallb-system''),
        (''labels'', GStrings [''pod-security.kubernetes.io/audit: privileged'',
           ''pod-security.kubernetes.io/enforce: privileged'', ''pod-security.kubernetes.io/warn: privileged''])]\<rparr>"

definition image_value :: "string \<Rightarrow> string \<Rightarrow> goval" where
  "image_value repo tag = GMap [(''repository'', GStr repo), (''tag'', GStr tag), (''pullPolicy'', GStr ''IfNotPresent'')]"

definition installMetallbService :: "bootenv \<Rightarrow> unit boot" where
  "installMetallbService V = helm_run V
     \<lparr>hrConfig = ''metallb-system'', hrChart = ''metallb'', hrNamespace = ''metallb-system'', hrName = ''metallb'',
      hrCreateNamespace = True, hrIncludeCRDs = True, hrTimeout = Some 20,
      hrValues =
        [(''controller'', GMap [(''image'', image_value ''quay.io/metallb/controller'' ''v0.13.12''),
            (''logLevel'', GStr ''info'')]),
         (''speaker'', GMap [(''image'', image_value ''quay.io/metallb/speaker'' ''v0.13.12''),
            (''logLevel'', GStr ''info'')])]\<rparr>"

definition installMetallbIPAddressPool :: "bootenv \<Rightarrow> string \<Rightarrow> bool \<Rightarrow> IP \<Rightarrow> IP \<Rightarrow> unit boot" where
  "installMetallbIPAddressPool V name autoAssign from to = helm_run V
     \<lparr>hrConfig = ''metallb-system'', hrChart = ''metallb-ipaddresspool'', hrNamespace = ''metallb-system'',
      hrName = name, hrCreateNamespace = True, hrIncludeCRDs = False, hrTimeout = Some 20,
      hrValues = [(''name'', GStr name), (''autoAssign'', GBool autoAssign), (''from'', GStr (addr_text V from)),
        (''to'', GStr (addr_text V to))]\<rparr>"

definition installMetallb :: "bootenv \<Rightarrow> BootstrapConfig \<Rightarrow> unit boot" where
  "installMetallb V env =
     (let ips = bcServiceIPs env in
      bindL (installMetallbNamespace V env) (\<lambda>_.
      bindL (installMetallbService V) (\<lambda>_.
      bindL (installMetallbIPAddressPool V ''local'' True (sipFrom ips) (sipTo ips)) (\<lambda>_.
      bindL (installMetallbIPAddressPool V ''config-repo'' False (sipConfigRepo ips) (sipConfigRepo ips)) (\<lambda>_.
        installMetallbIPAddressPool V ''ingress-public'' False (sipIngressPublic ips) (sipIngressPublic ips))))))"

definition installLonghorn :: "bootenv \<Rightarrow> string \<Rightarrow> string \<Rightarrow> int \<Rightarrow> unit boot" where
  "installLonghorn V envName storageDir replicas = helm_run V
     \<lparr>hrConfig = envName, hrChart = ''longhorn'', hrNamespace = ''longhorn-system'', hrName = ''longhorn'',
      hrCreateNamespace = True, hrIncludeCRDs = False, hrTimeout = Some 20,
      hrValues = [(''defaultSettings'', GMap [(''defaultDataPath'', GStr storageDir)]),
        (''persistence'', GMap [(''defaultClassReplicaCount'', GNum replicas)]),
        (''service'', GMap [(''ui'', GMap [(''type'', GStr ''LoadBalancer'')])]),
        (''ingress'', GMap [(''enabled'', GBool False)])]\<rparr>"

definition installSoftServe :: "bootenv \<Rightarrow> string \<Rightarrow> string \<Rightarrow> IP \<Rightarrow> unit boot" where
  "installSoftServe V adminPublicKey namespace repoIP =
     bindL (tryL (bsNewKeys V ''soft-serve'')) (\<lambda>keys. helm_run V
     \<lparr>hrConfig = namespace, hrChart = ''soft-serve'', hrNamespace = namespace, hrName = ''soft-serve'',
      hrCreateNamespace = True, hrIncludeCRDs = False, hrTimeout = Some 20,
      hrValues = [(''image'', image_value ''charmcli/soft-serve'' ''v0.7.1''),
        (''privateKey'', GStr (RawPrivateKey keys)), (''publicKey'', GStr (RawAuthorizedKey keys)),
        (''adminKey'', GStr adminPublicKey), (''reservedIP'', GStr (addr_text V repoIP)),
        (''serviceType'', GStr ''LoadBalancer'')]\<rparr>)"

definition installFluxBootstrap ::
    "bootenv \<Rightarrow> string \<Rightarrow> string \<Rightarrow> string list \<Rightarrow> string \<Rightarrow> string \<Rightarrow> unit boot" where
  "installFluxBootstrap V repoAddr repoHost repoHostPubKeys privateKey envName = helm_run V
     \<lparr>hrConfig = envName, hrChart = ''flux-bootstrap'', hrNamespace = envName, hrName = ''flux'',
      hrCreateNamespace = True, hrIncludeCRDs = False, hrTimeout = Some 20,
      hrValues = [(''image'', image_value ''fluxcd/flux-cli'' ''v2.1.2''),
        (''repositoryAddress'', GStr repoAddr), (''repositoryHost'', GStr repoHost),
        (''repositoryHostPublicKeys'', GStr (join_with nl (map (\<lambda>k. repoHost @ '' '' @ k) repoHostPubKeys))),
        (''privateKey'', GStr privateKey), (''installationNamespace'', GStr (envName @ ''-flux''))]\<rparr>"

section \<open>The configuration repository\<close>

definition boot_ssh :: "(string list \<Rightarrow> string list \<times> string option) \<Rightarrow> unit boot" where
  "boot_ssh cmd s = (case cmd (bSent s) of (sent, e) \<Rightarrow> (s\<lparr>bSent := sent\<rparr>, ended_as e))"

definition boot_GetRepo :: "bootenv \<Rightarrow> unit boot" where
  "boot_GetRepo V s =
     (case bsCloneErr V of
        Some e \<Rightarrow> (s, Fail e)
      | None \<Rightarrow> (s\<lparr>bWorld := (bWorld s)\<lparr>wRepo := clone_repo (wRepo (bWorld s))\<rparr>\<rparr>, Val ()))"

definition boot_Do :: "bootenv \<Rightarrow> string op \<Rightarrow> unit boot" where
  "boot_Do V f s =
     (case Do (iRepo (bsInfra V)) False f (wRepo (bWorld s)) of
        (r, e) \<Rightarrow> (s\<lparr>bWorld := (bWorld s)\<lparr>wRepo := r\<rparr>\<rparr>, ended_as e))"

definition readme_op :: "bootenv \<Rightarrow> string \<Rightarrow> string op" where
  "readme_op V envName r =
     andThen (repo_write (iRepo (bsInfra V)) ''README.md'' (''# '' @ envName @ '' systems'') r) (\<lambda>r1. (r1, Inr ''readme''))"

definition installFluxcd :: "bootenv \<Rightarrow> soft_client \<Rightarrow> string \<Rightarrow> unit boot" where
  "installFluxcd V ss envName =
     bindL (tryL (bsNewKeys V ''fluxcd'')) (\<lambda>keys.
     bindL (boot_ssh (SoftAddUser (bsSshErr V) ''flux'' (AuthorizedKey keys))) (\<lambda>_.
     bindL (boot_ssh (MakeUserAdmin (bsSshErr V) ''flux'')) (\<lambda>_.
     bindL (boot_ssh (AddRepository (bsSshErr V) ''config'')) (\<lambda>_.
     bindL (boot_GetRepo V) (\<lambda>_.
     bindL (boot_Do V (readme_op V envName)) (\<lambda>_.
     bindL (tryL (bsPublicKeys V)) (\<lambda>ssPublicKeys.
       installFluxBootstrap V (GetRepoAddress ss ''config'') (hd (split_on (CHR '':'') (softAddr ss)))
         ssPublicKeys (RawPrivateKey keys) envName)))))))"

definition infra_of :: "BootstrapConfig \<Rightarrow> InfraConfig" where
  "infra_of env = \<lparr>infraName = bcInfraName env, infraPublicIP = bcPublicIP env,
     InfraNamespacePrefix = bcNamespacePrefix env, InfraAdminPublicKey = bcAdminPublicKey env\<rparr>"

definition boot_charts_text :: "string \<Rightarrow> string" where
  "boot_charts_text ns =
     nl @ ''apiVersion: source.toolkit.fluxcd.io/v1'' @ nl @ ''kind: GitRepository'' @ nl @ ''metadata:'' @ nl @
     ''  name: pcloud # TODO(giolekva): use more generic name'' @ nl @ ''  namespace: '' @ ns @ nl @ ''spec:'' @ nl @
     ''  interval: 1m0s'' @ nl @ ''  url: https://github.com/giolekva/pcloud'' @ nl @ ''  ref:'' @ nl @
     ''    branch: main'' @ nl"

definition main_repo_op :: "bootenv \<Rightarrow> BootstrapConfig \<Rightarrow> string op" where
  "main_repo_op V env r =
     (let E = iRepo (bsInfra V) in
      andThen (repo_write E ''bootstrap-config.yaml'' (bsConfigText V env) r) (\<lambda>r1.
      andThen (repo_write E ''config.yaml'' (bsInfraText V (infra_of env)) r1) (\<lambda>r2.
      andThen (repo_write E ''env-cidrs.yaml'' (bsCidrsText V []) r2) (\<lambda>r3.
      andThen (WriteKustomization E ''kustomization.yaml''
        (AddResources [bcInfraName env @ ''-flux'', ''infrastructure'', ''environments''] NewKustomization) r3) (\<lambda>r4.
      andThen (repo_write E ''infrastructure/pcloud-charts.yaml'' (boot_charts_text (bcInfraName env)) r4) (\<lambda>r5.
      andThen (WriteKustomization E ''infrastructure/kustomization.yaml''
        (AddResources [''pcloud-charts.yaml''] NewKustomization) r5) (\<lambda>r6.
      andThen (WriteKustomization E ''environments/kustomization.yaml'' NewKustomization r6) (\<lambda>r7.
        (r7, Inr ''initialize pcloud directory structure'')))))))))"

definition configureMainRepo :: "bootenv \<Rightarrow> BootstrapConfig \<Rightarrow> unit boot" where
  "configureMainRepo V env = boot_Do V (main_repo_op V env)"

section \<open>The services of the infrastructure\<close>

definition mgr_Install :: "bootenv \<Rightarrow> BootstrapConfig \<Rightarrow> cueApp \<Rightarrow> (string \<times> goval) list \<Rightarrow> unit boot" where
  "mgr_Install V env app vals s =
     (case infra_Install (bsInfra V) app (path_join [''/infrastructure'', Slug app])
             (bcInfraName env @ ''-'' @ appNamespace app) vals (bWorld s) of
        (w, res) \<Rightarrow> (s\<lparr>bWorld := w\<rparr>, install_end res))"

definition install_infra :: "bootenv \<Rightarrow> BootstrapConfig \<Rightarrow> string \<Rightarrow> (string \<times> goval) list \<Rightarrow> unit boot" where
  "install_infra V env name vals = bindL (tryL (findApp V name)) (\<lambda>app. mgr_Install V env app vals)"

definition appsToInstall :: "string list" where
  "appsToInstall = [''resource-renderer-controller'', ''headscale-controller'', ''csi-driver-smb'', ''cert-manager'']"

definition installInfrastructureServices :: "bootenv \<Rightarrow> BootstrapConfig \<Rightarrow> unit boot" where
  "installInfrastructureServices V env = forL (\<lambda>name. install_infra V env name []) appsToInstall"

text \<open>An address given as a value prints as its text.\<close>

definition env_manager_values :: "bootenv \<Rightarrow> BootstrapConfig \<Rightarrow> keypair \<Rightarrow> (string \<times> goval) list" where
  "env_manager_values V env keys =
     [(''repoIP'', GStr (addr_text V (sipConfigRepo (bcServiceIPs env)))), (''repoPort'', GNum 22),
      (''repoName'', GStr ''config''), (''sshPrivateKey'', GStr (RawPrivateKey keys))]"

definition installEnvManager :: "bootenv \<Rightarrow> BootstrapConfig \<Rightarrow> unit boot" where
  "installEnvManager V env =
     bindL (tryL (bsNewKeys V ''env-manager'')) (\<lambda>keys.
     bindL (boot_ssh (SoftAddUser (bsSshErr V) (bcInfraName env @ ''-env-manager'') (AuthorizedKey keys))) (\<lambda>_.
     bindL (boot_ssh (MakeUserAdmin (bsSshErr V) (bcInfraName env @ ''-env-manager''))) (\<lambda>_.
       install_infra V env ''env-manager'' (env_manager_values V env keys))))"

definition installIngressPublic :: "bootenv \<Rightarrow> BootstrapConfig \<Rightarrow> unit boot" where
  "installIngressPublic V env =
     bindL (tryL (bsNewKeys V ''port-allocator'')) (\<lambda>keys.
     bindL (boot_ssh (SoftAddUser (bsSshErr V) (bcInfraName env @ ''-port-allocator'') (AuthorizedKey keys))) (\<lambda>_.
     bindL (boot_ssh (AddReadWriteCollaborator (bsSshErr V) ''config'' (bcInfraName env @ ''-port-allocator''))) (\<lambda>_.
       install_infra V env ''ingress-public'' [(''sshPrivateKey'', GStr (RawPrivateKey keys))])))"

definition installOryHydraMaester :: "bootenv \<Rightarrow> BootstrapConfig \<Rightarrow> unit boot" where
  "installOryHydraMaester V env = install_infra V env ''hydra-maester'' []"

definition installDNSZoneManager :: "bootenv \<Rightarrow> BootstrapConfig \<Rightarrow> unit boot" where
  "installDNSZoneManager V env = install_infra V env ''dns-gateway'' [(''servers'', servers_value [])]"

definition installFluxcdReconciler :: "bootenv \<Rightarrow> BootstrapConfig \<Rightarrow> unit boot" where
  "installFluxcdReconciler V env = install_infra V env ''fluxcd-reconciler'' []"

section \<open>Run\<close>

text \<open>
  \<open>Run\<close> after it has got the client of the Git server. The results of adding the key of the
  administrator and of removing that of the bootstrapper are not assigned to the \<open>err\<close> that is
  tested, so neither stops the run.
\<close>

definition with_client :: "bootenv \<Rightarrow> BootstrapConfig \<Rightarrow> soft_client \<Rightarrow> unit boot" where
  "with_client V env ss =
     bindL (setL (\<lambda>s. s\<lparr>bSent := fst (AddPublicKey (bsSshErr V) ''admin'' (bcAdminPublicKey env) (bSent s))\<rparr>)) (\<lambda>_.
     bindL (installFluxcd V ss (bcInfraName env)) (\<lambda>_.
     bindL (boot_GetRepo V) (\<lambda>_.
     bindL (configureMainRepo V env) (\<lambda>_.
     bindL (installInfrastructureServices V env) (\<lambda>_.
     bindL (installIngressPublic V env) (\<lambda>_.
     bindL (installDNSZoneManager V env) (\<lambda>_.
     bindL (installFluxcdReconciler V env) (\<lambda>_.
     bindL (installEnvManager V env) (\<lambda>_.
       installOryHydraMaester V env)))))))))"

definition drop_key :: "bootenv \<Rightarrow> keypair \<Rightarrow> bootst \<Rightarrow> bootst" where
  "drop_key V keys s = s\<lparr>bSent := fst (RemovePublicKey (bsSshErr V) ''admin'' (AuthorizedKey keys) (bSent s))\<rparr>"

definition boot_namespace :: "bootenv \<Rightarrow> string \<Rightarrow> unit boot" where
  "boot_namespace V name s =
     (case iNsCreate (bsInfra V) name of
        Some e \<Rightarrow> (s, Fail e)
      | None \<Rightarrow> (s\<lparr>bWorld := (bWorld s)\<lparr>wNamespaces := wNamespaces (bWorld s) @ [name]\<rparr>\<rparr>, Val ()))"

definition Run :: "bootenv \<Rightarrow> BootstrapConfig \<Rightarrow> unit boot" where
  "Run V env =
     bindL (boot_namespace V (bcInfraName env)) (\<lambda>_.
     bindL (installMetallb V env) (\<lambda>_.
     bindL (installLonghorn V (bcInfraName env) (bcStorageDir env) (bcReplicaCount env)) (\<lambda>_.
     bindL (tryL (bsNewKeys V ''bootstrapper'')) (\<lambda>keys.
     bindL (installSoftServe V (AuthorizedKey keys) (bcInfraName env) (sipConfigRepo (bcServiceIPs env))) (\<lambda>_.
     bindL (tryL (bsClient V (addrport_text V (sipConfigRepo (bcServiceIPs env)) 22) (RawPrivateKey keys))) (\<lambda>addr.
       deferL (drop_key V keys) (with_client V env \<lparr>softAddr = addr\<rparr>)))))))"

section \<open>The command\<close>

text \<open>\<open>newServiceIPs\<close>: the first two addresses of the range are reserved; \<open>To\<close> is taken as it is.\<close>

definition newServiceIPs :: "(string \<Rightarrow> (string, IP) result) \<Rightarrow> string \<Rightarrow> string \<Rightarrow> (string, EnvServiceIPs) result" where
  "newServiceIPs parseAddr from to =
     bindE (parseAddr from) (\<lambda>f. bindE (parseAddr to) (\<lambda>t.
       let ingress = addr_next f in
       Inr \<lparr>sipConfigRepo = f, sipIngressPublic = ingress, sipFrom = addr_next ingress, sipTo = t\<rparr>))"

fun parse_all :: "(string \<Rightarrow> IP option) \<Rightarrow> string list \<Rightarrow> (string, IP list) result" where
  "parse_all parseIP [] = Inr []"
| "parse_all parseIP (i # is) =
     (case parseIP i of
        None \<Rightarrow> Inl (''invalid ip: '' @ i)
      | Some ip \<Rightarrow> bindE (parse_all parseIP is) (\<lambda>ips. Inr (ip # ips)))"

definition parseIPs :: "(string \<Rightarrow> IP option) \<Rightarrow> string \<Rightarrow> (string, IP list) result" where
  "parseIPs parseIP ip = parse_all parseIP (split_on (CHR '','') ip)"

record bootstrapFlags =
  bfEnvName :: string
  bfPublicIP :: string
  bfStorageDir :: string
  bfReplicaCount :: int
  bfFromIP :: string
  bfToIP :: string

text \<open>The error of \<open>parseIPs\<close> is dropped and its nil slice used.\<close>

definition bootstrap_config ::
    "(string \<Rightarrow> (string, IP) result) \<Rightarrow> (string \<Rightarrow> IP option) \<Rightarrow> bootstrapFlags \<Rightarrow> string \<Rightarrow>
     (string, BootstrapConfig) result" where
  "bootstrap_config parseAddr parseIP f adminPubKey =
     bindE (newServiceIPs parseAddr (bfFromIP f) (bfToIP f)) (\<lambda>serviceIPs.
       Inr \<lparr>bcInfraName = bfEnvName f,
         bcPublicIP = (case parseIPs parseIP (bfPublicIP f) of Inl _ \<Rightarrow> [] | Inr ips \<Rightarrow> ips),
         bcNamespacePrefix = bfEnvName f @ ''-'', bcStorageDir = bfStorageDir f,
         bcReplicaCount = bfReplicaCount f, bcAdminPublicKey = adminPubKey, bcServiceIPs = serviceIPs\<rparr>)"

text \<open>\<open>nsErr\<close> is the error of making the client that creates namespaces.\<close>

definition bootstrapCmdRun ::
    "(string \<Rightarrow> (string, IP) result) \<Rightarrow> (string \<Rightarrow> IP option) \<Rightarrow> (string, string) result \<Rightarrow> string option \<Rightarrow>
     bootstrapFlags \<Rightarrow> bootenv \<Rightarrow> unit boot" where
  "bootstrapCmdRun parseAddr parseIP keyFile nsErr f V =
     bindL (tryL keyFile) (\<lambda>adminPubKey.
     bindL (checkL nsErr) (\<lambda>_.
     bindL (tryL (bootstrap_config parseAddr parseIP f adminPubKey)) (\<lambda>env. Run V env)))"

section \<open>What a successful run leaves behind\<close>

text \<open>Nothing outside the repository fails: Helm, the Git server, keys, namespaces and files.\<close>

definition boot_env :: "bootenv \<Rightarrow> bool" where
  "boot_env V \<longleftrightarrow>
     (\<forall>n. bsHelmNew V n = None) \<and> (\<forall>p. bsChartAt V p = None) \<and> (\<forall>h. bsRunHelm V h = None)
     \<and> (\<forall>n. is_ok (bsNewKeys V n)) \<and> (\<forall>a k. is_ok (bsClient V a k)) \<and> (\<forall>c. bsSshErr V c = None)
     \<and> is_ok (bsPublicKeys V) \<and> bsCloneErr V = None \<and> (\<forall>n. iNsCreate (bsInfra V) n = None)
     \<and> repo_healthy (iRepo (bsInfra V)) \<and> kust_codec (iRepo (bsInfra V)) \<and> pullTree (iRepo (bsInfra V)) = id"

text \<open>The services, and the values each is given.\<close>

definition infra_services :: "string list" where
  "infra_services = appsToInstall @
     [''ingress-public'', ''dns-gateway'', ''fluxcd-reconciler'', ''env-manager'', ''hydra-maester'']"

definition boot_values :: "bootenv \<Rightarrow> BootstrapConfig \<Rightarrow> string \<Rightarrow> (string \<times> goval) list" where
  "boot_values V env name =
     (if name = ''ingress-public''
      then (case bsNewKeys V ''port-allocator'' of
              Inl _ \<Rightarrow> [] | Inr keys \<Rightarrow> [(''sshPrivateKey'', GStr (RawPrivateKey keys))])
      else if name = ''env-manager''
      then (case bsNewKeys V ''env-manager'' of Inl _ \<Rightarrow> [] | Inr keys \<Rightarrow> env_manager_values V env keys)
      else if name = ''dns-gateway'' then [(''servers'', servers_value [])] else [])"

definition boot_rendered :: "bootenv \<Rightarrow> BootstrapConfig \<Rightarrow> string \<Rightarrow> (string, rendered \<times> InfraAppInstanceConfig) result" where
  "boot_rendered V env name =
     bindE (findApp V name) (\<lambda>app.
       infra_Render (iValue (bsInfra V)) (iRelValue (bsInfra V)) app
         \<lparr>AppInstanceId = [], relNamespace = bcInfraName env @ ''-'' @ appNamespace app,
          RepoAddr = iAddress (bsInfra V), AppDir = path_of [''infrastructure'', name]\<rparr>
         (infra_of env) (boot_values V env name))"

text \<open>Every service is among the applications and renders, and its configuration is read back.\<close>

definition services_ok :: "bootenv \<Rightarrow> BootstrapConfig \<Rightarrow> bool" where
  "services_ok V env \<longleftrightarrow>
     iParse (bsInfra V) (bsInfraText V (infra_of env)) = Inr (infra_of env)
     \<and> (\<forall>name \<in> set infra_services.
          case boot_rendered V env name of
            Inl _ \<Rightarrow> False
          | Inr (ren, cfg) \<Rightarrow> render_ok ren \<and> iCfgParse (bsInfra V) (iJsonOf (bsInfra V) cfg) = Inr cfg)"

text \<open>The state of the repository once the services \<open>us\<close> are installed.\<close>

definition instance_of :: "bootenv \<Rightarrow> BootstrapConfig \<Rightarrow> string \<Rightarrow> InfraAppInstanceConfig option" where
  "instance_of V env name =
     (case boot_rendered V env name of Inl _ \<Rightarrow> None | Inr (_, cfg) \<Rightarrow> Some (cfg\<lparr>iaId := name\<rparr>))"

definition installed :: "bootenv \<Rightarrow> BootstrapConfig \<Rightarrow> string list \<Rightarrow> bootst \<Rightarrow> bool" where
  "installed V env us s \<longleftrightarrow>
     (let J = bsInfra V; r = wRepo (bWorld s) in
      infra_ok J r \<and> remoteCommits r \<noteq> [] \<and> snd (hd (remoteCommits r)) = tree r
      \<and> infra_Config J r = Inr (infra_of env)
      \<and> tree r (path_of [''env-cidrs.yaml'']) = Some (bsCidrsText V [])
      \<and> tree r (kust_file [''environments'']) = Some (yamlOfK (iRepo J) NewKustomization)
      \<and> (\<forall>m \<in> set us. m \<in> set infra_services \<and>
           (\<exists>cfg. instance_of V env m = Some cfg \<and> infra_FindInstance J m r = Inr cfg)))"

lemma findApp_FindInfraApp: "findApp V name = FindInfraApp (bsApps V) name"
  by (simp add: findApp_def FindInfraApp_def)

lemma findApp_slug: "findApp V name = Inr app \<Longrightarrow> Slug app = name"
  by (auto simp: findApp_FindInfraApp FindInfraApp_Inr app_Slug_def dest!: app_Find_Inr)

lemma service_names: "n \<in> set infra_services \<Longrightarrow> comp_ok n \<and> n \<noteq> ''kustomization.yaml''"
  by (auto simp: infra_services_def appsToInstall_def comp_ok_def)

lemma installed_frame:
  assumes "installed V env us s" "infra_frame (bsInfra V) n (wRepo (bWorld s)) r'" "boot_env V"
    and "n \<in> set infra_services"
    and "instance_of V env n = Some cfg" "infra_FindInstance (bsInfra V) n r' = Inr cfg"
    and "wRepo (bWorld s') = r'"
  shows "installed V env (us @ [n]) s'"
proof -
  let ?J = "bsInfra V" and ?r = "wRepo (bWorld s)"
  note ok = service_names[OF assms(4)]
  have kept: "tree r' (path_of es) = tree ?r (path_of es)"
    if "\<forall>c \<in> set es. comp_ok c" "\<nexists>t. es = [''infrastructure'', n] @ t" "es \<noteq> [''kustomization.yaml'']"
      "es \<noteq> [''infrastructure'', ''kustomization.yaml'']" for es
    using assms(2) that unfolding infra_frame_def by blast
  have "tree r' (path_of [''env-cidrs.yaml'']) = tree ?r (path_of [''env-cidrs.yaml''])"
    by (rule kept) (simp_all add: comp_ok_def)
  moreover have "tree r' (kust_file [''environments'']) = tree ?r (kust_file [''environments''])"
    unfolding kust_file_def by (rule kept) (simp_all add: comp_ok_def)
  moreover have "\<exists>cfg. instance_of V env m = Some cfg \<and> infra_FindInstance ?J m r' = Inr cfg"
    if "m \<in> set (us @ [n])" for m
  proof (cases "m = n")
    case True
    then show ?thesis using assms(5,6) by simp
  next
    case False
    with that assms(1) obtain c where "m \<in> set infra_services" "instance_of V env m = Some c"
      "infra_FindInstance ?J m ?r = Inr c" by (auto simp: installed_def Let_def)
    with infra_find_other[OF assms(2) _ _ _ False] ok service_names assms(3) show ?thesis
      by (auto simp: boot_env_def)
  qed
  ultimately show ?thesis
    using assms(1,2,4,7) infra_config_kept[OF assms(2)] ok
    by (auto simp: installed_def Let_def infra_frame_def)
qed

lemma install_infra_installs:
  assumes V: "boot_env V" "services_ok V env" and s: "installed V env us s" and n: "n \<in> set infra_services"
  shows "gives (install_infra V env n (boot_values V env n)) s (\<lambda>_. installed V env (us @ [n]))"
proof -
  let ?J = "bsInfra V" and ?w = "bWorld s"
  from V(2) n obtain ren cfg where rc: "boot_rendered V env n = Inr (ren, cfg)" "render_ok ren"
    "iCfgParse ?J (iJsonOf ?J cfg) = Inr cfg"
    by (cases "boot_rendered V env n") (auto simp: services_ok_def)
  then obtain app where app: "findApp V n = Inr app"
    and ren: "infra_Render (iValue ?J) (iRelValue ?J) app
        \<lparr>AppInstanceId = [], relNamespace = bcInfraName env @ ''-'' @ appNamespace app, RepoAddr = iAddress ?J,
         AppDir = path_of [''infrastructure'', n]\<rparr> (infra_of env) (boot_values V env n) = Inr (ren, cfg)"
    by (auto simp: boot_rendered_def bindE_eq_Inr)
  note slug = findApp_slug[OF app] and ok = service_names[OF n]
  have pre: "infra_ok ?J (wRepo ?w)" "infra_Config ?J (wRepo ?w) = Inr (infra_of env)"
    "iNsCreate ?J (bcInfraName env @ ''-'' @ appNamespace app) = None"
    using s V(1) by (auto simp: installed_def Let_def boot_env_def)
  from infra_install_ok[OF pre(1) _ _ pre(2,3) ren rc(2,3)] ok obtain r' where
    i: "infra_Install ?J app (path_of [''infrastructure'', n]) (bcInfraName env @ ''-'' @ appNamespace app)
          (boot_values V env n) ?w
        = (?w\<lparr>wRepo := r', wNamespaces := wNamespaces ?w @ [bcInfraName env @ ''-'' @ appNamespace app]\<rparr>, Installed [])"
    and r': "infra_FindInstance ?J n r' = Inr (cfg\<lparr>iaId := n\<rparr>)" "infra_frame ?J n (wRepo ?w) r'" by auto
  have "instance_of V env n = Some (cfg\<lparr>iaId := n\<rparr>)" by (simp add: instance_of_def rc(1))
  from installed_frame[OF s r'(2) V(1) n this r'(1)] show ?thesis
    using i ok infra_paths(1)[of n]
    by (simp add: gives_def install_infra_def bindL_def tryL_def app mgr_Install_def slug)
qed

subsection \<open>The steps before the services\<close>

text \<open>Steps that return a value from every state.\<close>

definition always :: "('s, 'a) prog \<Rightarrow> bool" where
  "always m \<longleftrightarrow> (\<forall>s. gives m s (\<lambda>_ _. True))"

named_theorems always_rules \<open>steps that return\<close>

lemma always_bindL [always_rules]: "always m \<Longrightarrow> (\<And>a. always (f a)) \<Longrightarrow> always (bindL m f)"
  unfolding always_def by (blast intro: gives_bindL)

lemma always_tryL [always_rules]: "is_ok x \<Longrightarrow> always (tryL x)"
  by (auto simp: always_def gives_def tryL_def elim!: is_okE)

lemma always_helm [always_rules]: "boot_env V \<Longrightarrow> always (helm_run V h)"
  by (simp add: always_def gives_def helm_run_def bindL_def checkL_def boot_env_def fsChartLoader_Load_def)

lemma commands_none:
  assumes "boot_env V"
  shows "snd (SoftAddUser (bsSshErr V) u k sent) = None" "snd (MakeUserAdmin (bsSshErr V) u sent) = None"
    "snd (AddRepository (bsSshErr V) u sent) = None" "snd (AddReadWriteCollaborator (bsSshErr V) q u sent) = None"
  using assms
  by (simp_all add: SoftAddUser_def MakeUserAdmin_def AddRepository_def AddReadWriteCollaborator_def
      AddPublicKey_def RunCommand_def Let_def boot_env_def)

lemma gives_ssh: "(\<And>sent. snd (cmd sent) = None) \<Longrightarrow> gives (boot_ssh cmd) s (\<lambda>_ s'. bWorld s' = bWorld s)"
  by (simp add: gives_def boot_ssh_def split: prod.split) (metis ended_as.simps(1) snd_conv)

lemma always_ssh: "(\<And>sent. snd (cmd sent) = None) \<Longrightarrow> always (boot_ssh cmd)"
  unfolding always_def by (blast intro: gives_mono[OF gives_ssh])

lemma always_commands [always_rules]:
  assumes "boot_env V"
  shows "always (boot_ssh (SoftAddUser (bsSshErr V) u k))" "always (boot_ssh (MakeUserAdmin (bsSshErr V) u))"
    "always (boot_ssh (AddRepository (bsSshErr V) u))"
  by (rule always_ssh, rule commands_none[OF assms])+

lemma always_repo [always_rules]:
  assumes "boot_env V"
  shows "always (boot_GetRepo V)" "always (boot_Do V (readme_op V e))" "always (boot_namespace V n)"
  using assms
  by (simp_all add: always_def gives_def boot_GetRepo_def boot_Do_def Do_def Pull_def readme_op_def CommitAndPush_def
      Let_def boot_env_def boot_namespace_def)

lemma always_setL [always_rules]: "always (setL f)"
  by (simp add: always_def gives_def setL_def)

lemma boot_env_ok [always_rules]:
  "boot_env V \<Longrightarrow> is_ok (bsNewKeys V n)" "boot_env V \<Longrightarrow> is_ok (bsPublicKeys V)" "boot_env V \<Longrightarrow> is_ok (bsClient V a k)"
  by (simp_all add: boot_env_def)

lemma always_metallb [always_rules]: "boot_env V \<Longrightarrow> always (installMetallb V env)"
  unfolding installMetallb_def Let_def installMetallbNamespace_def installMetallbService_def
    installMetallbIPAddressPool_def by (rule always_rules | assumption)+

lemma always_longhorn [always_rules]: "boot_env V \<Longrightarrow> always (installLonghorn V e d n)"
  unfolding installLonghorn_def by (rule always_rules)

lemma always_soft_serve [always_rules]: "boot_env V \<Longrightarrow> always (installSoftServe V k ns ip)"
  unfolding installSoftServe_def by (rule always_rules | assumption)+

lemma always_fluxcd [always_rules]: "boot_env V \<Longrightarrow> always (installFluxcd V ss e)"
  unfolding installFluxcd_def installFluxBootstrap_def by (rule always_rules | assumption)+

lemma gives_always: "always m \<Longrightarrow> (\<And>a s'. gives (f a) s' Q) \<Longrightarrow> gives (bindL m f) s Q"
  unfolding always_def by (blast intro: gives_bindL)

lemma main_repo_op_ok:
  assumes "repo_healthy (iRepo (bsInfra V))"
  shows "\<exists>r'. main_repo_op V env r = (r', Inr ''initialize pcloud directory structure'')
    \<and> tree r' (path_of [''config.yaml'']) = Some (bsInfraText V (infra_of env))
    \<and> tree r' (path_of [''env-cidrs.yaml'']) = Some (bsCidrsText V [])
    \<and> tree r' (kust_file []) = Some (yamlOfK (iRepo (bsInfra V))
        (AddResources [bcInfraName env @ ''-flux'', ''infrastructure'', ''environments''] NewKustomization))
    \<and> tree r' (kust_file [''infrastructure'']) = Some (yamlOfK (iRepo (bsInfra V))
        (AddResources [''pcloud-charts.yaml''] NewKustomization))
    \<and> tree r' (kust_file [''environments'']) = Some (yamlOfK (iRepo (bsInfra V)) NewKustomization)"
proof -
  have keys: "tree_key ''bootstrap-config.yaml'' = ''/bootstrap-config.yaml''" "tree_key ''config.yaml'' = ''/config.yaml''"
    "tree_key ''env-cidrs.yaml'' = ''/env-cidrs.yaml''" "tree_key ''kustomization.yaml'' = ''/kustomization.yaml''"
    "tree_key ''infrastructure/pcloud-charts.yaml'' = ''/infrastructure/pcloud-charts.yaml''"
    "tree_key ''infrastructure/kustomization.yaml'' = ''/infrastructure/kustomization.yaml''"
    "tree_key ''environments/kustomization.yaml'' = ''/environments/kustomization.yaml''"
    by code_simp+
  show ?thesis
    using assms
    by (simp add: main_repo_op_def Let_def WriteKustomization_def andThen_def keys kust_file_def path_of_def)
qed

lemma configured_ok:
  assumes "boot_env V" "services_ok V env"
  shows "gives (configureMainRepo V env) s (\<lambda>_. installed V env [])"
proof -
  let ?J = "bsInfra V"
  have E: "repo_healthy (iRepo ?J)" "kust_codec (iRepo ?J)" "pullTree (iRepo ?J) = id"
    using assms(1) by (auto simp: boot_env_def)
  from main_repo_op_ok[OF E(1), of env "wRepo (bWorld s)"] obtain r1 where r1:
    "main_repo_op V env (wRepo (bWorld s)) = (r1, Inr ''initialize pcloud directory structure'')"
    "tree r1 (path_of [''config.yaml'']) = Some (bsInfraText V (infra_of env))"
    "tree r1 (path_of [''env-cidrs.yaml'']) = Some (bsCidrsText V [])"
    "tree r1 (kust_file []) = Some (yamlOfK (iRepo ?J)
        (AddResources [bcInfraName env @ ''-flux'', ''infrastructure'', ''environments''] NewKustomization))"
    "tree r1 (kust_file [''infrastructure'']) = Some (yamlOfK (iRepo ?J)
        (AddResources [''pcloud-charts.yaml''] NewKustomization))"
    "tree r1 (kust_file [''environments'']) = Some (yamlOfK (iRepo ?J) NewKustomization)" by blast
  define r' where "r' = fst (CommitAndPush (iRepo ?J) ''initialize pcloud directory structure'' r1)"
  have r': "tree r' = tree r1" "remoteCommits r' \<noteq> []" "snd (hd (remoteCommits r')) = tree r'"
    using E(1) by (simp_all add: r'_def CommitAndPush_def Let_def)
  have "Do (iRepo ?J) False (main_repo_op V env) (wRepo (bWorld s)) = (r', None)"
    using E(1,3) r1(1) by (simp add: Do_def Pull_def r'_def CommitAndPush_def Let_def)
  moreover have "infra_Config ?J r' = Inr (infra_of env)"
  proof -
    have "tree_key ''config.yaml'' = path_of [''config.yaml'']" by code_simp
    with E(1) r1(2) r'(1) assms(2) show ?thesis
      by (simp add: infra_Config_def repo_Reader_def services_ok_def)
  qed
  ultimately show ?thesis
    using E r1 r'
    by (simp add: gives_def configureMainRepo_def boot_Do_def installed_def Let_def infra_ok_def
        kust_at_def kust_codec_def)
qed

text \<open>Sending commands keeps what is installed.\<close>

lemma installed_world: "installed V env us s \<Longrightarrow> bWorld s' = bWorld s \<Longrightarrow> installed V env us s'"
  by (simp add: installed_def)

lemma keyed_install:
  assumes V: "boot_env V" "services_ok V env" and us: "installed V env us s" and n: "n \<in> set infra_services"
    and vals: "\<And>keys. bsNewKeys V kn = Inr keys \<Longrightarrow> vals keys = boot_values V env n"
    and cmds: "\<And>keys sent. snd (c1 keys sent) = None" "\<And>sent. snd (c2 sent) = None"
  shows "gives (bindL (tryL (bsNewKeys V kn)) (\<lambda>keys. bindL (boot_ssh (c1 keys)) (\<lambda>_. bindL (boot_ssh c2) (\<lambda>_.
      install_infra V env n (vals keys))))) s (\<lambda>_. installed V env (us @ [n]))"
proof -
  obtain keys where k: "bsNewKeys V kn = Inr keys" using boot_env_ok(1)[OF V(1)] by (blast elim: is_okE)
  have rest: "gives (bindL (boot_ssh (c1 keys)) (\<lambda>_. bindL (boot_ssh c2) (\<lambda>_. install_infra V env n (vals keys)))) s
      (\<lambda>_. installed V env (us @ [n]))"
  proof (rule gives_bindL[OF gives_ssh[OF cmds(1)]], rule gives_bindL[OF gives_ssh[OF cmds(2)]])
    fix s1 s2 :: bootst assume "bWorld s1 = bWorld s" "bWorld s2 = bWorld s1"
    with us have "installed V env us s2" by (simp add: installed_def)
    from install_infra_installs[OF V this n] vals[OF k]
    show "gives (install_infra V env n (vals keys)) s2 (\<lambda>_. installed V env (us @ [n]))" by simp
  qed
  show ?thesis by (rule gives_bindL[OF gives_tryL[OF k, of "\<lambda>a s'. a = keys \<and> s' = s"]]) (simp_all add: rest)
qed

lemma service_members:
  "''ingress-public'' \<in> set infra_services" "''dns-gateway'' \<in> set infra_services"
  "''fluxcd-reconciler'' \<in> set infra_services" "''env-manager'' \<in> set infra_services"
  "''hydra-maester'' \<in> set infra_services"
  by (simp_all add: infra_services_def)

lemma base_services: "x \<in> set appsToInstall \<Longrightarrow> x \<in> set infra_services \<and> boot_values V env x = []"
  unfolding infra_services_def appsToInstall_def
  by (simp only: list.set insert_iff empty_iff set_append Un_iff) (elim disjE; simp add: boot_values_def)

lemma service_values:
  "boot_values V env ''dns-gateway'' = [(''servers'', servers_value [])]"
  "boot_values V env ''fluxcd-reconciler'' = []" "boot_values V env ''hydra-maester'' = []"
  by (simp_all add: boot_values_def)

lemma services_installed:
  assumes V: "boot_env V" "services_ok V env"
  shows "gives (with_client V env ss) s (\<lambda>_. installed V env infra_services)"
proof -
  note inst = install_infra_installs[OF V]
  have loop: "gives (installInfrastructureServices V env) s' (\<lambda>_. installed V env appsToInstall)"
    if i: "installed V env [] s'" for s'
    unfolding installInfrastructureServices_def
  proof (rule gives_forL[where I = "installed V env", OF i])
    fix us x s1 assume "installed V env us s1" "x \<in> set appsToInstall"
    then show "gives (install_infra V env x []) s1 (\<lambda>_. installed V env (us @ [x]))"
      using inst[of us s1 x] base_services[of x V env] by simp
  qed
  have plain: "gives (install_infra V env n vals) s' (\<lambda>_. installed V env (us @ [n]))"
    if "n \<in> set infra_services" "boot_values V env n = vals" "installed V env us s'" for us s' n vals
    using inst[OF that(3,1)] that(2) by simp
  note dns = plain[OF service_members(2) service_values(1)] and flux = plain[OF service_members(3) service_values(2)]
    and hydra = plain[OF service_members(5) service_values(3)]
  have ingress: "gives (installIngressPublic V env) s' (\<lambda>_. installed V env (us @ [''ingress-public'']))"
    if "installed V env us s'" for us s'
    unfolding installIngressPublic_def
    by (rule keyed_install[OF V that service_members(1)]) (simp_all add: boot_values_def commands_none[OF V(1)])
  have env_manager: "gives (installEnvManager V env) s' (\<lambda>_. installed V env (us @ [''env-manager'']))"
    if "installed V env us s'" for us s'
    unfolding installEnvManager_def
    by (rule keyed_install[OF V that service_members(4)]) (simp_all add: boot_values_def commands_none[OF V(1)])
  have "gives (with_client V env ss) s (\<lambda>_. installed V env
      (((((appsToInstall @ [''ingress-public'']) @ [''dns-gateway'']) @ [''fluxcd-reconciler'']) @ [''env-manager'']) @ [''hydra-maester'']))"
    unfolding with_client_def installDNSZoneManager_def installFluxcdReconciler_def installOryHydraMaester_def
    by (rule gives_always[OF always_setL], rule gives_always[OF always_fluxcd[OF V(1)]],
        rule gives_always[OF always_repo(1)[OF V(1)]], rule gives_bindL[OF configured_ok[OF V]],
        erule gives_bindL[OF loop], erule gives_bindL[OF ingress], erule gives_bindL[OF dns],
        erule gives_bindL[OF flux], erule gives_bindL[OF env_manager], erule hydra)
  then show ?thesis by (simp add: infra_services_def)
qed

lemma run_installed:
  assumes V: "boot_env V" "services_ok V env"
  shows "gives (Run V env) s (\<lambda>_. installed V env infra_services)"
proof -
  have "gives (deferL (drop_key V keys) (with_client V env ss)) s' (\<lambda>_. installed V env infra_services)" for keys ss s'
    by (rule gives_deferL, rule gives_mono[OF services_installed[OF V]])
      (erule installed_world, simp add: drop_key_def)
  then show ?thesis
    unfolding Run_def
    by (intro gives_always always_rules V(1))
qed

subsection \<open>A clone of the repository\<close>

lemma reader_tree: "tree r = tree r' \<Longrightarrow> repo_Reader E p r = repo_Reader E p r'"
  by (simp add: repo_Reader_def split: option.split)

lemma find_instance_tree: "tree r = tree r' \<Longrightarrow> infra_FindInstance J n r = infra_FindInstance J n r'"
  unfolding infra_FindInstance_def ReadKustomization_def infra_appConfig_def reader_tree[of r r'] ..

lemma infra_config_tree: "tree r = tree r' \<Longrightarrow> infra_Config J r = infra_Config J r'"
  by (simp add: infra_Config_def reader_tree[of r r'])

lemma clone_tree: "remoteCommits r \<noteq> [] \<Longrightarrow> snd (hd (remoteCommits r)) = tree r \<Longrightarrow> tree (clone_repo r) = tree r"
  by (cases "remoteCommits r") (auto simp: clone_repo_def)

lemma instance_values:
  assumes "instance_of V env n = Some cfg"
  shows "iaId cfg = n \<and> iaAppId cfg = n \<and> iaInfra cfg = infra_of env \<and> iaValues cfg = boot_values V env n"
proof -
  from assms obtain ren c app where "boot_rendered V env n = Inr (ren, c)" "cfg = c\<lparr>iaId := n\<rparr>"
    by (auto simp: instance_of_def split: sum.splits)
  then show ?thesis by (auto simp: boot_rendered_def bindE_eq_Inr infra_Render_def findApp_slug)
qed

lemma servers_none: "servers_of [(''servers'', servers_value [])] = Inr []"
  by (simp add: servers_of_def servers_value_def)

subsection \<open>Commands and the key of the bootstrapper\<close>

definition quiet :: "'a boot \<Rightarrow> bool" where
  "quiet m \<longleftrightarrow> (\<forall>s. bSent (fst (m s)) = bSent s)"

named_theorems quiet_rules \<open>steps that send no command\<close>

lemma quiet_bindL [quiet_rules]: "quiet m \<Longrightarrow> (\<And>a. quiet (f a)) \<Longrightarrow> quiet (bindL m f)"
  by (auto simp: quiet_def bindL_def split: prod.split outcome.split) (metis fst_conv)+

lemma quiet_steps [quiet_rules]: "quiet (tryL x)" "quiet (checkL e)" "quiet (helm_run V h)" "quiet (boot_namespace V n)"
  by (auto simp: quiet_def tryL_def checkL_def helm_run_def bindL_def boot_namespace_def
      split: prod.split outcome.split option.split)

lemma quiet_installs [quiet_rules]:
  "quiet (installMetallb V env)" "quiet (installLonghorn V e d n)" "quiet (installSoftServe V k ns ip)"
  unfolding installMetallb_def Let_def installMetallbNamespace_def installMetallbService_def
    installMetallbIPAddressPool_def installLonghorn_def installSoftServe_def
  by (rule quiet_rules)+

text \<open>Either nothing was sent, or \<open>cmd\<close> was sent last.\<close>

definition ends_with :: "string \<Rightarrow> unit boot \<Rightarrow> bool" where
  "ends_with cmd m \<longleftrightarrow>
     (\<forall>s. snd (m s) \<noteq> Hang \<longrightarrow> bSent (fst (m s)) = bSent s \<or> (\<exists>sent. bSent (fst (m s)) = sent @ [cmd]))"

lemma ends_with_bindL:
  assumes "quiet m" and "\<And>a. ends_with cmd (f a)"
  shows "ends_with cmd (bindL m f)"
  unfolding ends_with_def
proof (intro allI impI)
  fix s assume h: "snd (bindL m f s) \<noteq> Hang"
  obtain s1 x where m: "m s = (s1, x)" by (cases "m s")
  then have q: "bSent s1 = bSent s" using assms(1) unfolding quiet_def by (metis fst_conv)
  show "bSent (fst (bindL m f s)) = bSent s \<or> (\<exists>sent. bSent (fst (bindL m f s)) = sent @ [cmd])"
  proof (cases x)
    case (Val a)
    with assms(2)[of a] h m q show ?thesis by (auto simp: ends_with_def bindL_def)
  qed (use m q in \<open>auto simp: bindL_def\<close>)
qed

lemma ends_with_drop_key:
  "ends_with (''user remove-pubkey admin '' @ AuthorizedKey keys) (deferL (drop_key V keys) m)"
  by (auto simp: ends_with_def deferL_def drop_key_def RemovePublicKey_def RunCommand_def Let_def
      split: prod.split outcome.split)

section \<open>Properties\<close>

text \<open>
  C6: Bootstrapping prepares the infrastructure. When no service fails and every service of the
  infrastructure renders, the run succeeds and pushes a repository whose clone has all nine services
  installed with the values the bootstrapper chose, the configuration of the infrastructure, an
  empty list of subnets that satisfies the invariant of the environment manager, an empty
  kustomization for environments, and a DNS gateway without zones: what the environment manager
  and the provisioning tasks start from.
\<close>
theorem bootstrap_prepares_environments:
  assumes "boot_env V" and "services_ok V env" and "cidrsParse W (bsCidrsText V []) = Inr []"
  shows "\<exists>s'. Run V env s = (s', Val ()) \<and>
    (let J = bsInfra V; r = clone_repo (wRepo (bWorld s')) in
       infra_ok J r \<and> infra_Config J r = Inr (infra_of env)
     \<and> (\<forall>srv. srepo srv = r \<longrightarrow> registry_ok W srv)
     \<and> ReadKustomization (iRepo J) ''environments/kustomization.yaml'' r = Inr NewKustomization
     \<and> (\<forall>n \<in> set infra_services. \<exists>cfg. infra_FindInstance J n r = Inr cfg
          \<and> iaAppId cfg = n \<and> iaInfra cfg = infra_of env \<and> iaValues cfg = boot_values V env n
          \<and> (n = ''dns-gateway'' \<longrightarrow> servers_of (iaValues cfg) = Inr [])))"
proof -
  from run_installed[OF assms(1,2)] obtain s' where run: "Run V env s = (s', Val ())"
    and inst: "installed V env infra_services s'" by (auto simp: gives_def)
  let ?J = "bsInfra V" and ?r = "wRepo (bWorld s')"
  have tr: "tree (clone_repo ?r) = tree ?r" using inst by (auto simp: installed_def Let_def intro: clone_tree)
  have keys: "tree_key ''env-cidrs.yaml'' = path_of [''env-cidrs.yaml'']"
    "tree_key ''environments/kustomization.yaml'' = kust_file [''environments'']"
    by code_simp+
  have "infra_ok ?J (clone_repo ?r)" using inst tr by (simp add: installed_def Let_def infra_ok_def kust_at_def)
  moreover have "infra_Config ?J (clone_repo ?r) = Inr (infra_of env)"
    using inst infra_config_tree[OF tr] by (simp add: installed_def Let_def)
  moreover have "registry_ok W srv" if "srepo srv = clone_repo ?r" for srv
    using inst tr that assms(3) by (simp add: installed_def Let_def registry_ok_def registry_def keys cidrs_ok_def)
  moreover have "ReadKustomization (iRepo ?J) ''environments/kustomization.yaml'' (clone_repo ?r) = Inr NewKustomization"
    using inst tr assms(1)
    by (simp add: installed_def Let_def ReadKustomization_def repo_Reader_def keys boot_env_def kust_codec_def)
  moreover have "\<exists>cfg. infra_FindInstance ?J n (clone_repo ?r) = Inr cfg
      \<and> iaAppId cfg = n \<and> iaInfra cfg = infra_of env \<and> iaValues cfg = boot_values V env n
      \<and> (n = ''dns-gateway'' \<longrightarrow> servers_of (iaValues cfg) = Inr [])" if n: "n \<in> set infra_services" for n
  proof -
    from inst n obtain cfg where "instance_of V env n = Some cfg" "infra_FindInstance ?J n ?r = Inr cfg"
      by (auto simp: installed_def Let_def)
    then show ?thesis using instance_values find_instance_tree[OF tr] servers_none by (auto simp: boot_values_def)
  qed
  ultimately show ?thesis using run by (auto simp: Let_def)
qed


subsection \<open>A concrete cluster\<close>

definition boot_app :: "string \<Rightarrow> cueApp" where
  "boot_app n = example_app\<lparr>appName := n\<rparr>"

definition example_keys :: keypair where
  "example_keys = \<lparr>RawPrivateKey = ''priv'', RawAuthorizedKey = ''pub'', AuthorizedKey = ''key''\<rparr>"

definition example_bootstrap :: BootstrapConfig where
  "example_bootstrap = \<lparr>bcInfraName = ''dodo'', bcPublicIP = [], bcNamespacePrefix = ''dodo-'', bcStorageDir = ''/data'',
     bcReplicaCount = 1, bcAdminPublicKey = ''admin-key'',
     bcServiceIPs = \<lparr>sipConfigRepo = [10, 1, 0, 1], sipIngressPublic = [10, 1, 0, 2], sipFrom = [10, 1, 0, 3],
       sipTo = [10, 1, 0, 9]\<rparr>\<rparr>"

text \<open>An environment in which nothing fails; \<open>parse\<close> reads the configuration of an instance.\<close>

definition boot_with :: "(string \<Rightarrow> (string, InfraAppInstanceConfig) result) \<Rightarrow> bootenv" where
  "boot_with parse = \<lparr>bsHelmNew = (\<lambda>_. None), bsBaseDir = ''/charts'', bsChartAt = (\<lambda>_. None), bsRunHelm = (\<lambda>_. None),
     bsNewKeys = (\<lambda>_. Inr example_keys), bsClient = (\<lambda>a _. Inr a), bsSshErr = (\<lambda>_. None), bsPublicKeys = Inr [],
     bsCloneErr = None, bsApps = map (\<lambda>n. cueInfraApp (boot_app n)) infra_services,
     bsInfra = example_infra\<lparr>iParse := (\<lambda>_. Inr (infra_of example_bootstrap)), iJsonOf := iaAppId, iCfgParse := parse\<rparr>,
     bsConfigText = (\<lambda>_. []), bsInfraText = (\<lambda>_. []), bsCidrsText = cidrsText example_srvenv, bsIp6Text = (\<lambda>_. [])\<rparr>"

definition example_boot :: bootenv where
  "example_boot = boot_with (\<lambda>x. bindE (boot_rendered (boot_with (\<lambda>_. Inl [])) example_bootstrap x) (\<lambda>(_, cfg). Inr cfg))"

lemma boot_with_simps:
  "iJsonOf (bsInfra (boot_with p)) = iaAppId" "iCfgParse (bsInfra (boot_with p)) = p"
  "iParse (bsInfra (boot_with p)) x = Inr (infra_of example_bootstrap)"
  by (simp_all add: boot_with_def)

lemma boot_slug: "n \<in> set infra_services \<Longrightarrow> Slug (boot_app n) = n"
proof -
  have "list_all (\<lambda>n. replace_char (CHR '' '') ''-'' (to_lower n) = n) infra_services" by code_simp
  then show "n \<in> set infra_services \<Longrightarrow> Slug (boot_app n) = n"
    by (simp add: list_all_iff Slug_def boot_app_def)
qed

lemma boot_find: "n \<in> set infra_services \<Longrightarrow> findApp (boot_with p) n = Inr (boot_app n)"
proof -
  assume n: "n \<in> set infra_services"
  have "app_Find (bsApps (boot_with p)) n = Inr (cueInfraApp (boot_app n))"
    by (rule app_Find_unique) (use n boot_slug in \<open>auto simp: boot_with_def app_Slug_def\<close>)
  then show ?thesis by (simp add: findApp_FindInfraApp FindInfraApp_Inr)
qed

lemma boot_rendered_parse: "boot_rendered (boot_with p) e n = boot_rendered (boot_with q) e n"
  by (simp add: boot_rendered_def findApp_def boot_values_def env_manager_values_def addr_text_def boot_with_def)

lemma boot_render:
  assumes "n \<in> set infra_services"
  shows "\<exists>ren cfg. boot_rendered (boot_with p) e n = Inr (ren, cfg) \<and> render_ok ren \<and> iaAppId cfg = n"
proof -
  have clean: "cleanName ''git'' = ''git''" by code_simp
  show ?thesis
    unfolding boot_rendered_def boot_find[OF assms] bindE_Inr infra_Render_def AppManager.render_def boot_slug[OF assms]
    by (simp add: boot_app_def example_app_def clean data_put_def render_ok_def)
qed

lemma example_boot_env: "boot_env example_boot"
  by (simp add: boot_env_def example_boot_def boot_with_def example_infra_def)

lemma example_services: "services_ok example_boot example_bootstrap"
proof -
  have "case boot_rendered example_boot example_bootstrap n of
      Inl _ \<Rightarrow> False
    | Inr (ren, cfg) \<Rightarrow> render_ok ren
        \<and> iCfgParse (bsInfra example_boot) (iJsonOf (bsInfra example_boot) cfg) = Inr cfg"
    if n: "n \<in> set infra_services" for n
  proof -
    from boot_render[OF n, of "\<lambda>_. Inl []" example_bootstrap] obtain ren cfg where
      r: "boot_rendered (boot_with (\<lambda>_. Inl [])) example_bootstrap n = Inr (ren, cfg)" "render_ok ren" "iaAppId cfg = n"
      by blast
    moreover have "boot_rendered example_boot example_bootstrap n = Inr (ren, cfg)"
      unfolding example_boot_def by (rule trans[OF boot_rendered_parse r(1)])
    moreover have "iJsonOf (bsInfra example_boot) cfg = n" using r(3) by (simp add: example_boot_def boot_with_simps)
    moreover have "iCfgParse (bsInfra example_boot) n = Inr cfg"
      using r(1) by (simp add: example_boot_def boot_with_simps)
    ultimately show ?thesis by simp
  qed
  moreover have "iParse (bsInfra example_boot) (bsInfraText example_boot (infra_of example_bootstrap))
      = Inr (infra_of example_bootstrap)" by (simp add: example_boot_def boot_with_simps)
  ultimately show ?thesis unfolding services_ok_def by blast
qed

definition empty_cluster :: bootst where
  "empty_cluster = \<lparr>bWorld = \<lparr>wRepo = empty_repo, wNamespaces = [], wPortRequests = []\<rparr>, bSent = [], bReleases = []\<rparr>"

theorem bootstrap_prepares_environments_witness:
  "\<exists>s'. Run example_boot example_bootstrap empty_cluster = (s', Val ()) \<and>
    (\<exists>cfg. infra_FindInstance (bsInfra example_boot) ''dns-gateway'' (clone_repo (wRepo (bWorld s'))) = Inr cfg
       \<and> servers_of (iaValues cfg) = Inr [])"
proof -
  have "bsCidrsText example_boot [] = cidrsText example_srvenv []" by (simp add: example_boot_def boot_with_def)
  then have "cidrsParse example_srvenv (bsCidrsText example_boot []) = Inr []"
    using example_srv_env by (simp add: srv_env_def)
  from bootstrap_prepares_environments[OF example_boot_env example_services this, of empty_cluster] service_members(2)
  show ?thesis by (auto simp: Let_def)
qed


end
