(* ===== verification/UrlShortener.thy ===== *)
theory UrlShortener
  imports Json
begin

text \<open>
  The URL shortener (\<open>src/apps/url-shortener/main.go\<close>): a table of named addresses, a handler that
  creates names and redirects, and one that switches a name on and off.

  The table is a list of rows in insertion order. SQLite refuses a second row with the same primary
  key; any statement may also fail otherwise, as the environment says. The names the random generator draws
  are an argument of the handler: a list, which stands for the attempts made so far.
\<close>

section \<open>The store\<close>

record NamedAddress =
  naName :: string
  naAddress :: string
  naOwnerId :: string
  naActive :: bool

type_synonym table = "NamedAddress list"

datatype store_error = NameAlreadyTaken string | StoreError string

datatype url_sql = InsertAddress string | SelectName string | UpdateActive string | SelectOwner string

record urlenv =
  urlFault :: "url_sql \<Rightarrow> string option"
  requireAuth :: bool
  tmplErr :: "string option"
  indexErr :: "string option"

definition url_NewSQLiteStore :: table where
  "url_NewSQLiteStore = []"

definition url_Create :: "urlenv \<Rightarrow> NamedAddress \<Rightarrow> table \<Rightarrow> table \<times> store_error option" where
  "url_Create V addr d =
     (case urlFault V (InsertAddress (naName addr)) of
        Some e \<Rightarrow> (d, Some (StoreError e))
      | None \<Rightarrow>
          if naName addr \<in> naName ` set d then (d, Some (NameAlreadyTaken (naName addr)))
          else (d @ [addr], None))"

definition url_Get :: "urlenv \<Rightarrow> string \<Rightarrow> table \<Rightarrow> (string, NamedAddress) result" where
  "url_Get V name d =
     (case urlFault V (SelectName name) of
        Some e \<Rightarrow> Inl e
      | None \<Rightarrow>
          (case find (\<lambda>a. naName a = name) d of
             None \<Rightarrow> Inl (''No record found for name '' @ name)
           | Some a \<Rightarrow> Inr a))"

definition url_UpdateStatus :: "urlenv \<Rightarrow> string \<Rightarrow> bool \<Rightarrow> table \<Rightarrow> table \<times> string option" where
  "url_UpdateStatus V name active d =
     (case urlFault V (UpdateActive name) of
        Some e \<Rightarrow> (d, Some e)
      | None \<Rightarrow> (map (\<lambda>a. if naName a = name then a\<lparr>naActive := active\<rparr> else a) d, None))"

definition url_ChangeOwner :: "string \<Rightarrow> string \<Rightarrow> table \<Rightarrow> table \<times> string option" where
  "url_ChangeOwner name ownerId d = (d, None)"

definition url_List :: "urlenv \<Rightarrow> string \<Rightarrow> table \<Rightarrow> (string, NamedAddress list) result" where
  "url_List V ownerId d =
     (case urlFault V (SelectOwner ownerId) of
        Some e \<Rightarrow> Inl e
      | None \<Rightarrow> Inr (filter (\<lambda>a. naOwnerId a = ownerId) d))"

section \<open>Handlers\<close>

definition charset :: string where
  "charset = ''0123456789abcdefghijklmnopqrstuvwxyzABCDEFGHIJKLMNOPQRSTUVWXYZ''"

text \<open>Six draws of \<open>rand.Intn(len(charset))\<close>.\<close>

definition generateRandomURL :: "nat list \<Rightarrow> string" where
  "generateRandomURL draws = map (\<lambda>i. charset ! (i mod length charset)) (take 6 draws)"

definition anyUser :: string where
  "anyUser = ''__any__''"

definition url_getLoggedInUser :: "urlenv \<Rightarrow> request \<Rightarrow> (string, string) result" where
  "url_getLoggedInUser V r =
     (if \<not> requireAuth V then Inr anyUser
      else if header_get r ''X-User'' \<noteq> [] then Inr (header_get r ''X-User'')
      else Inl ''unauthenticated'')"

datatype url_page = PageVariables "NamedAddress list"

definition http_address :: "string \<Rightarrow> bool" where
  "http_address a = (has_prefix a ''http://'' \<or> has_prefix a ''https://'')"

text \<open>
  One attempt of the loop, and the loop. With a custom name there is one attempt; otherwise a new
  name is drawn as long as the drawn one is taken. \<open>None\<close> means that the loop is still running.
\<close>

definition url_attempt ::
    "urlenv \<Rightarrow> string \<Rightarrow> string \<Rightarrow> string \<Rightarrow> string \<Rightarrow> table \<Rightarrow> table \<times> url_page response option" where
  "url_attempt V custom cn address user d =
     (case url_Create V \<lparr>naName = cn, naAddress = address, naOwnerId = user, naActive = True\<rparr> d of
        (d', None) \<Rightarrow> (d', Some (Redirect StatusSeeOther ''/''))
      | (d', Some (NameAlreadyTaken _)) \<Rightarrow>
          (d', if custom = [] then None else Some (HttpError StatusBadRequest ''Name is already taken''))
      | (d', Some (StoreError _)) \<Rightarrow> (d', Some (HttpError StatusInternalServerError ''Try again later'')))"

fun url_loop ::
    "urlenv \<Rightarrow> string \<Rightarrow> string \<Rightarrow> string \<Rightarrow> nat list list \<Rightarrow> table \<Rightarrow> table \<times> url_page response option" where
  "url_loop V custom address user [] d =
     (if custom = [] then (d, None) else url_attempt V custom custom address user d)"
| "url_loop V custom address user (draws # rest) d =
     (case url_attempt V custom (if custom = [] then generateRandomURL draws else custom) address user d of
        (d', Some w) \<Rightarrow> (d', Some w)
      | (d', None) \<Rightarrow> url_loop V custom address user rest d')"

definition url_handler ::
    "urlenv \<Rightarrow> string \<Rightarrow> nat list list \<Rightarrow> request \<Rightarrow> table \<Rightarrow> table \<times> url_page response option" where
  "url_handler V path rnd r d =
     (case url_getLoggedInUser V r of
        Inl _ \<Rightarrow> (d, Some (HttpError StatusUnauthorized ''User Not Logged In''))
      | Inr user \<Rightarrow>
          if Method r = ''POST'' then
            (let custom = PostFormValue r ''custom''; address = PostFormValue r ''address'' in
             if \<not> http_address address
             then (d, Some (HttpError StatusBadRequest ''Address must start with http:// or https://''))
             else url_loop V custom address user rnd d)
          else
            (let name = trim_prefix path ''/'' in
             (d, Some
               (if name \<noteq> [] then
                  (case url_Get V name d of
                     Inl _ \<Rightarrow> NoContent
                   | Inr a \<Rightarrow>
                       if \<not> naActive a then HttpError StatusNotFound ''address not found''
                       else Redirect StatusSeeOther (naAddress a))
                else
                  (case url_List V user d of
                     Inl _ \<Rightarrow> HttpError StatusInternalServerError ''Internal Server Error''
                   | Inr as \<Rightarrow>
                       (case indexErr V of
                          Some _ \<Rightarrow> HttpError StatusInternalServerError ''Internal Server Error''
                        | None \<Rightarrow>
                            (case tmplErr V of
                               Some e \<Rightarrow> HttpError StatusInternalServerError e
                             | None \<Rightarrow> Page (PageVariables as))))))))"

record UpdateRequest =
  upName :: string
  upActive :: bool

definition decode_UpdateRequest :: "UpdateRequest decoder" where
  "decode_UpdateRequest = decode_struct
     [''name'' \<mapsto> on_field upName upName_update decode_string,
      ''active'' \<mapsto> on_field upActive upActive_update decode_bool]"

definition toggleHandler ::
    "urlenv \<Rightarrow> request \<Rightarrow> (string, json) result \<Rightarrow> table \<Rightarrow> table \<times> url_page response" where
  "toggleHandler V r body d =
     (if Method r = ''POST'' then
        (case url_getLoggedInUser V r of
           Inl _ \<Rightarrow> (d, HttpError StatusUnauthorized ''User Not Logged In'')
         | Inr user \<Rightarrow>
             (case bindE body (\<lambda>doc. decode_UpdateRequest doc \<lparr>upName = [], upActive = False\<rparr>) of
                Inl _ \<Rightarrow> (d, HttpError StatusBadRequest ''Failed to decode JSON data'')
              | Inr data \<Rightarrow>
                  (case url_Get V (upName data) d of
                     Inl _ \<Rightarrow> (d, HttpError StatusInternalServerError
                                  (''Failed to get named_address for name '' @ upName data))
                   | Inr a \<Rightarrow>
                       if naOwnerId a \<noteq> user then (d, HttpError StatusUnauthorized ''Invalid owner ID'')
                       else
                         (case url_UpdateStatus V (upName data) (upActive data) d of
                            (d', Some _) \<Rightarrow> (d', HttpError StatusInternalServerError
                                               (''Failed to update status for name '' @ upName data))
                          | (d', None) \<Rightarrow> (d', NoContent)))))
      else (d, HttpError StatusMethodNotAllowed ''Method Not Allowed''))"

datatype url_call =
    Visit urlenv string "nat list list" request
  | Toggle urlenv request "(string, json) result"

fun url_serve :: "url_call \<Rightarrow> table \<Rightarrow> table \<times> url_page response option" where
  "url_serve (Visit V path rnd r) d = url_handler V path rnd r d"
| "url_serve (Toggle V r body) d = (let (d', w) = toggleHandler V r body d in (d', Some w))"

section \<open>What a request may change\<close>

text \<open>
  The abstract specification: a user adds an active name of their own that nobody has, or switches a
  name of their own. Who is logged in is the caller's affair.
\<close>

inductive url_change :: "string \<Rightarrow> table \<Rightarrow> table \<Rightarrow> bool" where
  add: "name \<notin> naName ` set d \<Longrightarrow> http_address address \<Longrightarrow>
    url_change u d (d @ [\<lparr>naName = name, naAddress = address, naOwnerId = u, naActive = True\<rparr>])"
| switch: "a \<in> set d \<Longrightarrow> naOwnerId a = u \<Longrightarrow>
    url_change u d (map (\<lambda>b. if naName b = naName a then b\<lparr>naActive := x\<rparr> else b) d)"

fun url_user :: "url_call \<Rightarrow> (string, string) result" where
  "url_user (Visit V path rnd r) = url_getLoggedInUser V r"
| "url_user (Toggle V r body) = url_getLoggedInUser V r"

lemma url_attempt_change:
  assumes "url_attempt V custom cn address u d = (d', w)" and "http_address address"
  shows "d' = d \<or> url_change u d d'"
  using assms
  by (auto simp: url_attempt_def url_Create_def split: option.splits if_splits intro: url_change.add)

lemma url_attempt_None: "url_attempt V custom cn address u d = (d', None) \<Longrightarrow> d' = d"
  by (auto simp: url_attempt_def url_Create_def split: option.splits if_splits)

lemma url_loop_change:
  assumes "url_loop V custom address u rnd d = (d', w)" and "http_address address"
  shows "d' = d \<or> url_change u d d'"
  using assms(1)
proof (induction rnd)
  case Nil
  then show ?case using url_attempt_change[OF _ assms(2)] by (auto split: if_splits)
next
  case (Cons draws rnd)
  then show ?case using url_attempt_change[OF _ assms(2)] url_attempt_None
    by (fastforce split: prod.splits option.splits)
qed

lemma toggle_change:
  assumes "toggleHandler V r body d = (d', w)" and "d' \<noteq> d"
  shows "\<exists>u. url_getLoggedInUser V r = Inr u \<and> url_change u d d'"
proof -
  from assms have m: "Method r = ''POST''" by (auto simp: toggleHandler_def split: if_splits)
  with assms obtain u where u: "url_getLoggedInUser V r = Inr u"
    by (cases "url_getLoggedInUser V r") (auto simp: toggleHandler_def)
  with assms m obtain data where data:
    "bindE body (\<lambda>doc. decode_UpdateRequest doc \<lparr>upName = [], upActive = False\<rparr>) = Inr data"
    by (cases "bindE body (\<lambda>doc. decode_UpdateRequest doc \<lparr>upName = [], upActive = False\<rparr>)")
      (auto simp: toggleHandler_def)
  with assms m u obtain a where a: "url_Get V (upName data) d = Inr a" "naOwnerId a = u"
    by (cases "url_Get V (upName data) d") (auto simp: toggleHandler_def split: if_splits)
  with assms m u data obtain e where "url_UpdateStatus V (upName data) (upActive data) d = (d', e)"
    by (auto simp: toggleHandler_def split: option.splits prod.splits)
  note h = u a this
  from h(2) have "a \<in> set d" "naName a = upName data"
    by (auto simp: url_Get_def find_Some_iff split: option.splits)
  with h assms(2) have "d' = map (\<lambda>b. if naName b = naName a then b\<lparr>naActive := upActive data\<rparr> else b) d"
    by (auto simp: url_UpdateStatus_def split: option.splits)
  with \<open>a \<in> set d\<close> h(1,3) show ?thesis by (auto intro: url_change.switch)
qed

lemma url_serve_change:
  assumes "url_serve c d = (d', w)" and "d' \<noteq> d"
  shows "\<exists>u. url_user c = Inr u \<and> url_change u d d'"
proof (cases c)
  case (Visit V path rnd r)
  with assms show ?thesis
    using url_loop_change by (fastforce simp: url_handler_def Let_def split: sum.splits if_splits)
next
  case (Toggle V r body)
  with assms show ?thesis using toggle_change by (auto split: prod.splits)
qed

section \<open>The table stays well-formed\<close>

definition url_inv :: "table \<Rightarrow> bool" where
  "url_inv d \<longleftrightarrow> distinct (map naName d) \<and> list_all (\<lambda>a. http_address (naAddress a)) d"

lemma url_change_inv: "url_change u d d' \<Longrightarrow> url_inv d \<Longrightarrow> url_inv d'"
proof (induction rule: url_change.induct)
  case (switch a d u x)
  have "map naName (map (\<lambda>b. if naName b = naName a then b\<lparr>naActive := x\<rparr> else b) d) = map naName d"
    by simp
  with switch show ?case by (auto simp: url_inv_def list_all_iff simp del: map_map)
qed (auto simp: url_inv_def)

lemma url_serve_inv: "url_inv d \<Longrightarrow> url_inv (fst (url_serve c d))"
  using url_serve_change[of c d "fst (url_serve c d)" "snd (url_serve c d)"] url_change_inv by force

interpretation us: service url_serve url_inv
  by unfold_locales (rule url_serve_inv)

text \<open>A name keeps its address and its owner, whatever is requested later.\<close>

definition url_entry :: "string \<Rightarrow> table \<Rightarrow> (string \<times> string) option" where
  "url_entry name d = map_option (\<lambda>a. (naAddress a, naOwnerId a)) (find (\<lambda>a. naName a = name) d)"

lemma find_map_same:
  "(\<And>a. P (f a) = P a) \<Longrightarrow> find P (map f d) = map_option f (find P d)"
  by (induction d) auto

lemma url_change_entry:
  "url_change u d d' \<Longrightarrow> url_entry name d = Some e \<Longrightarrow> url_entry name d' = Some e"
proof (induction rule: url_change.induct)
  case (add n d address u)
  have "find P (xs @ ys) = (case find P xs of Some x \<Rightarrow> Some x | None \<Rightarrow> find P ys)" for P and xs ys :: table
    by (induction xs) auto
  with add show ?case by (auto simp: url_entry_def)
next
  case (switch a d u x)
  let ?f = "\<lambda>b. if naName b = naName a then b\<lparr>naActive := x\<rparr> else b"
  have "find (\<lambda>b. naName b = name) (map ?f d) = map_option ?f (find (\<lambda>b. naName b = name) d)"
    by (rule find_map_same) simp
  with switch show ?case
    by (cases "find (\<lambda>b. naName b = name) d") (auto simp: url_entry_def)
qed

lemma url_serve_entry:
  "url_entry name d = Some e \<Longrightarrow> url_entry name (fst (url_serve c d)) = Some e"
  using url_serve_change[of c d "fst (url_serve c d)" "snd (url_serve c d)"] url_change_entry
  by (metis surjective_pairing)

interpretation ue: service url_serve "\<lambda>d. url_entry name d = Some e" for name e
  by unfold_locales (rule url_serve_entry)

section \<open>The loop over random names\<close>

lemma url_loop_random:
  assumes "\<And>q. urlFault V q = None"
  shows "url_loop V [] address u rnd d =
    (case find (\<lambda>draws. generateRandomURL draws \<notin> naName ` set d) rnd of
       None \<Rightarrow> (d, None)
     | Some draws \<Rightarrow>
         (d @ [\<lparr>naName = generateRandomURL draws, naAddress = address, naOwnerId = u, naActive = True\<rparr>],
          Some (Redirect StatusSeeOther ''/'')))"
  using assms by (induction rnd) (auto simp: url_attempt_def url_Create_def)

section \<open>Properties\<close>

lemma url_table_invariant: "url_inv (run_service url_serve cs url_NewSQLiteStore)"
  by (rule us.run_inv) (simp add: url_inv_def url_NewSQLiteStore_def)

text \<open>
  C17: Only the owner changes a short link. A request that changes the table is made by a user who is logged
  in, and does nothing but add a new active name of that user with a web address, or switch a name that
  user owns on or off.
\<close>
theorem short_links_are_owned:
  assumes "url_serve c d = (d', w)" and "d' \<noteq> d"
  shows "\<exists>u. url_user c = Inr u \<and> url_change u d d'"
  using assms by (rule url_serve_change)

lemma url_handler_creates:
  assumes "\<And>q. urlFault V q = None" and "url_getLoggedInUser V r = Inr u" and "Method r = ''POST''"
    and "PostFormValue r ''custom'' = name" and "name \<noteq> []" and "http_address (PostFormValue r ''address'')"
    and "name \<notin> naName ` set d"
  shows "url_handler V path rnd r d =
    (d @ [\<lparr>naName = name, naAddress = PostFormValue r ''address'', naOwnerId = u, naActive = True\<rparr>],
     Some (Redirect StatusSeeOther ''/''))"
  using assms
  by (cases rnd) (simp_all add: url_handler_def Let_def url_attempt_def url_Create_def)

lemma url_handler_visits:
  assumes "url_entry name d = Some (address, u)" and "name \<noteq> []" and "\<And>q. urlFault V q = None"
    and "url_getLoggedInUser V r = Inr v" and "Method r \<noteq> ''POST''"
  shows "url_handler V (''/'' @ name) rnd r d \<in>
    {(d, Some (Redirect StatusSeeOther address)), (d, Some (HttpError StatusNotFound ''address not found''))}"
  using assms
  by (auto simp: url_handler_def Let_def url_Get_def url_entry_def trim_prefix_def has_prefix_def
      split: if_splits)

text \<open>A short link leads where it was made to lead. A user who asks for a free name gets it, and after
  any further requests, by anyone and with any failures of the database, a visit to the name is
  redirected to the address given at the creation, or told that the name is switched off.
\<close>
theorem short_link_lives:
  assumes "\<And>q. urlFault V q = None" and "url_getLoggedInUser V r = Inr u" and "Method r = ''POST''"
    and "PostFormValue r ''custom'' = name" and "name \<noteq> []" and "http_address (PostFormValue r ''address'')"
    and "name \<notin> naName ` set d"
    and "\<And>q. urlFault V' q = None" and "url_getLoggedInUser V' g = Inr v" and "Method g \<noteq> ''POST''"
  shows "\<exists>d'. url_handler V path rnd r d = (d', Some (Redirect StatusSeeOther ''/''))
    \<and> (let d'' = run_service url_serve cs d' in
        url_handler V' (''/'' @ name) rnd' g d'' \<in>
          {(d'', Some (Redirect StatusSeeOther (PostFormValue r ''address''))),
           (d'', Some (HttpError StatusNotFound ''address not found''))})"
proof -
  let ?d' = "d @ [\<lparr>naName = name, naAddress = PostFormValue r ''address'', naOwnerId = u, naActive = True\<rparr>]"
  have "find (\<lambda>a. naName a = name) d = None" using assms(7) by (auto simp: find_None_iff)
  moreover have "find P (xs @ ys) = (case find P xs of Some x \<Rightarrow> Some x | None \<Rightarrow> find P ys)"
    for P and xs ys :: table by (induction xs) auto
  ultimately have "url_entry name ?d' = Some (PostFormValue r ''address'', u)" by (simp add: url_entry_def)
  then have "url_entry name (run_service url_serve cs ?d') = Some (PostFormValue r ''address'', u)"
    by (rule ue.run_inv)
  from url_handler_visits[OF this assms(5,8,9,10), where rnd = rnd'] url_handler_creates[OF assms(1-7)]
  show ?thesis by (simp add: Let_def)
qed

subsection \<open>A concrete server\<close>

definition example_urlenv :: urlenv where
  "example_urlenv = \<lparr>urlFault = (\<lambda>_. None), requireAuth = True, tmplErr = None, indexErr = None\<rparr>"

definition url_request :: "string \<Rightarrow> string \<Rightarrow> request" where
  "url_request m user = empty_request\<lparr>Method := m, Header := (\<lambda>k. if k = ''X-User'' then [user] else []),
     PostForm := [''custom'' \<mapsto> [''go''], ''address'' \<mapsto> [''https://go.dev'']]\<rparr>"

lemma url_request_facts [simp]:
  "Method (url_request m user) = m" "PostFormValue (url_request m user) ''custom'' = ''go''"
  "PostFormValue (url_request m user) ''address'' = ''https://go.dev''"
  "user \<noteq> [] \<Longrightarrow> url_getLoggedInUser example_urlenv (url_request m user) = Inr user"
  "urlFault example_urlenv q = None" "http_address ''https://go.dev''"
  by (simp_all add: url_request_def empty_request_def PostFormValue_def values_get_def first_value_def
      url_getLoggedInUser_def example_urlenv_def header_get_def http_address_def has_prefix_def)

theorem short_link_lives_witness:
  "\<exists>d'. url_handler example_urlenv ''/'' [] (url_request ''POST'' ''u'') [] = (d', Some (Redirect StatusSeeOther ''/''))
    \<and> (let d'' = run_service url_serve [Toggle example_urlenv (url_request ''POST'' ''v'') (Inl [])] d' in
        url_handler example_urlenv (''/'' @ ''go'') [] (url_request ''GET'' ''v'') d'' \<in>
          {(d'', Some (Redirect StatusSeeOther ''https://go.dev'')),
           (d'', Some (HttpError StatusNotFound ''address not found''))})"
  using short_link_lives[of example_urlenv "url_request ''POST'' ''u''" "''u''" "''go''" "[]" example_urlenv
      "url_request ''GET'' ''v''" "''v''" "''/''" "[]" "[Toggle example_urlenv (url_request ''POST'' ''v'') (Inl [])]" "[]"]
  by (simp del: url_serve.simps run_service.simps)

theorem short_links_are_owned_witness:
  "\<exists>u. url_user (Visit example_urlenv ''/'' [] (url_request ''POST'' ''u'')) = Inr u
    \<and> url_change u [] [\<lparr>naName = ''go'', naAddress = ''https://go.dev'', naOwnerId = ''u'', naActive = True\<rparr>]"
proof -
  have "url_serve (Visit example_urlenv ''/'' [] (url_request ''POST'' ''u'')) [] =
      ([\<lparr>naName = ''go'', naAddress = ''https://go.dev'', naOwnerId = ''u'', naActive = True\<rparr>],
       Some (Redirect StatusSeeOther ''/''))"
    using url_handler_creates[of example_urlenv "url_request ''POST'' ''u''" "''u''" "''go''" "[]"] by simp
  from short_links_are_owned[OF this] show ?thesis by simp
qed

end
