(* ===== verification/Kube.thy ===== *)
theory Kube
  imports Prelude
begin

text \<open>
  The Kubernetes API as the controllers of the repository use it, and what their reconcilers have in
  common. Objects of one kind are kept by namespace and name. Any call may fail; apart from that a
  read or an update needs the object to exist and a creation needs it not to.

  A controller runs its reconciler again and again for a resource until it reports no error. The
  locales state what such a reconciler promises, and what goes wrong when a step that can be done
  only once comes before the step that records it.
\<close>

section \<open>Objects\<close>

type_synonym kube_key = "string \<times> string"
type_synonym 'a objects = "kube_key \<Rightarrow> 'a option"

datatype kube_verb = KGet | KList | KCreate | KUpdate | KUpdateStatus

text \<open>The error of a call on a kind of objects, if any.\<close>

type_synonym kube_faults = "kube_verb \<Rightarrow> string \<Rightarrow> string option"

definition kubeNotFound :: string where "kubeNotFound = ''not found''"
definition kubeExists :: string where "kubeExists = ''already exists''"

definition kube_get :: "kube_faults \<Rightarrow> string \<Rightarrow> kube_key \<Rightarrow> 'a objects \<Rightarrow> (string, 'a) result" where
  "kube_get F kind k objs =
     (case F KGet kind of
        Some e \<Rightarrow> Inl e
      | None \<Rightarrow> (case objs k of None \<Rightarrow> Inl kubeNotFound | Some x \<Rightarrow> Inr x))"

definition kube_create :: "kube_faults \<Rightarrow> string \<Rightarrow> kube_key \<Rightarrow> 'a \<Rightarrow> 'a objects \<Rightarrow> 'a objects \<times> string option" where
  "kube_create F kind k x objs =
     (case F KCreate kind of
        Some e \<Rightarrow> (objs, Some e)
      | None \<Rightarrow> if objs k = None then (objs(k \<mapsto> x), None) else (objs, Some kubeExists))"

definition kube_update_status ::
    "kube_faults \<Rightarrow> string \<Rightarrow> kube_key \<Rightarrow> 'a \<Rightarrow> 'a objects \<Rightarrow> 'a objects \<times> string option" where
  "kube_update_status F kind k x objs =
     (case F KUpdateStatus kind of
        Some e \<Rightarrow> (objs, Some e)
      | None \<Rightarrow> if objs k = None then (objs, Some kubeNotFound) else (objs(k \<mapsto> x), None))"

definition no_faults :: kube_faults where
  "no_faults _ _ = None"

lemma kube_no_faults [simp]:
  "kube_get no_faults kind k objs = (case objs k of None \<Rightarrow> Inl kubeNotFound | Some x \<Rightarrow> Inr x)"
  "kube_create no_faults kind k x objs = (if objs k = None then (objs(k \<mapsto> x), None) else (objs, Some kubeExists))"
  "kube_update_status no_faults kind k x objs = (if objs k = None then (objs, Some kubeNotFound) else (objs(k \<mapsto> x), None))"
  by (simp_all add: kube_get_def kube_create_def kube_update_status_def no_faults_def)

lemma kube_get_Inr: "kube_get F kind k objs = Inr x \<longleftrightarrow> F KGet kind = None \<and> objs k = Some x"
  by (auto simp: kube_get_def split: option.splits)

lemma kube_create_cases:
  obtains (refused) e where "kube_create F kind k x objs = (objs, Some e)"
  | (created) "kube_create F kind k x objs = (objs(k \<mapsto> x), None)" "objs k = None"
  by (cases "F KCreate kind"; cases "objs k = None") (auto simp: kube_create_def)

lemma kube_update_cases:
  obtains (refused) e where "kube_update_status F kind k x objs = (objs, Some e)"
  | (updated) "kube_update_status F kind k x objs = (objs(k \<mapsto> x), None)" "objs k \<noteq> None"
  by (cases "F KUpdateStatus kind"; cases "objs k = None") (auto simp: kube_update_status_def)

lemma create_existing: "objs k = Some y \<Longrightarrow> \<exists>e. kube_create F kind k x objs = (objs, Some e)"
  by (auto simp: kube_create_def split: option.split)

section \<open>Reconcilers\<close>

text \<open>\<open>retries rec es w\<close>: the reconciler is run once for each environment of \<open>es\<close>.\<close>

fun retries :: "('e \<Rightarrow> 'w \<Rightarrow> 'w \<times> string option) \<Rightarrow> 'e list \<Rightarrow> 'w \<Rightarrow> 'w" where
  "retries rec [] w = w"
| "retries rec (e # es) w = retries rec es (fst (rec e w))"

locale reconciler =
  fixes rec :: "'e \<Rightarrow> 'w \<Rightarrow> 'w \<times> string option"
    and settled :: "'w \<Rightarrow> bool"
  assumes settled_kept: "settled w \<Longrightarrow> fst (rec e w) = w"
    and success_settles: "snd (rec e w) = None \<Longrightarrow> settled (fst (rec e w))"
begin

lemma settled_stays: "settled w \<Longrightarrow> retries rec es w = w"
  by (induction es) (simp_all add: settled_kept)

text \<open>After a run without an error nothing is done any more.\<close>

lemma success_is_final: "snd (rec e w) = None \<Longrightarrow> retries rec es (fst (rec e w)) = fst (rec e w)"
  by (rule settled_stays[OF success_settles])

end

text \<open>
  A reconciler with a step that can not be repeated: in a state where the step is done and the
  resource is not recorded as settled, every run fails and stays in such a state.
\<close>

locale one_shot = reconciler +
  fixes spent :: "'b \<Rightarrow> bool"
  assumes spent_unsettled: "spent w \<Longrightarrow> \<not> settled w"
    and spent_fails: "spent w \<Longrightarrow> snd (rec e w) \<noteq> None \<and> spent (fst (rec e w))"
begin

lemma spent_stays: "spent w \<Longrightarrow> spent (retries rec es w)"
  by (induction es arbitrary: w) (simp_all add: spent_fails)

lemma never_settles: "spent w \<Longrightarrow> \<not> settled (retries rec es w) \<and> snd (rec e (retries rec es w)) \<noteq> None"
  using spent_stays spent_unsettled spent_fails by blast

end

end
