(* ===== verification/Headscale.thy ===== *)
theory Headscale
  imports Kube Json
begin

text \<open>
  Users of the private network: the HTTP interface to the headscale command line
  (\<open>src/core/headscale/main.go\<close>, \<open>client.go\<close>) and the controller that creates the users declared as
  resources (\<open>src/core/headscale/controller/controllers/headscaleuser_controller.go\<close>), which calls it.

  The headscale program is a function of its arguments and of a state of its own: it returns an
  error or its output.
\<close>

section \<open>The command line\<close>

record 'h headscale =
  hsRun :: "string list \<Rightarrow> 'h \<Rightarrow> 'h \<times> (string, string) result"
  hsConfig :: string

definition newClient :: "string \<Rightarrow> string" where
  "newClient config = ''--config='' @ config"

definition cli_createUser :: "'h headscale \<Rightarrow> string \<Rightarrow> 'h \<Rightarrow> 'h \<times> string option" where
  "cli_createUser H name h =
     (case hsRun H [''headscale'', newClient (hsConfig H), ''users'', ''create'', name] h of
        (h', Inl e) \<Rightarrow> (h', Some e)
      | (h', Inr _) \<Rightarrow> (h', None))"

text \<open>The loop over the lines from the last to the first.\<close>

fun last_text :: "string list \<Rightarrow> string option" where
  "last_text [] = None"
| "last_text (l # ls) = (case last_text ls of Some t \<Rightarrow> Some t
     | None \<Rightarrow> (let t = trim_space l in if t = [] then None else Some t))"

definition extractLastLine :: "string \<Rightarrow> (string, string) result" where
  "extractLastLine s =
     (case last_text (split_on (CHR 0x0A) s) of
        Some t \<Rightarrow> Inr t
      | None \<Rightarrow> Inl ''All lines are empty'')"

definition cli_createPreAuthKey :: "'h headscale \<Rightarrow> string \<Rightarrow> 'h \<Rightarrow> 'h \<times> (string, string) result" where
  "cli_createPreAuthKey H user h =
     (case hsRun H [''headscale'', newClient (hsConfig H), ''--user'', user, ''preauthkeys'', ''create'', ''--reusable'',
             ''--expiration'', ''365d''] h of
        (h', Inl e) \<Rightarrow> (h', Inl e)
      | (h', Inr out) \<Rightarrow> (h', extractLastLine out))"

definition cli_enableRoute :: "'h headscale \<Rightarrow> string \<Rightarrow> 'h \<Rightarrow> 'h \<times> string option" where
  "cli_enableRoute H i h =
     (case hsRun H [''headscale'', newClient (hsConfig H), ''routes'', ''enable'', ''-r'', i] h of
        (h', Inl e) \<Rightarrow> (h', Some e)
      | (h', Inr _) \<Rightarrow> (h', None))"

section \<open>The server\<close>

text \<open>A handler that returns an error makes the framework answer 500.\<close>

definition hs_error :: http_answer where
  "hs_error = (StatusInternalServerError, ''{\"message\":\"Internal Server Error\"}'')"

definition decode_createUserReq :: "json \<Rightarrow> (string, string) result" where
  "decode_createUserReq d = decode_struct [''name'' \<mapsto> decode_string] d []"

definition hs_createUser ::
    "'h headscale \<Rightarrow> (string \<Rightarrow> (string, json) result) \<Rightarrow> string \<Rightarrow> 'h \<Rightarrow> 'h \<times> http_answer" where
  "hs_createUser H rd body h =
     (case bindE (rd body) decode_createUserReq of
        Inl e \<Rightarrow> (h, hs_error)
      | Inr name \<Rightarrow>
          (case cli_createUser H name h of
             (h', Some e) \<Rightarrow> (h', hs_error)
           | (h', None) \<Rightarrow> (h', (StatusOK, []))))"

definition hs_createReusablePreAuthKey :: "'h headscale \<Rightarrow> string \<Rightarrow> 'h \<Rightarrow> 'h \<times> http_answer" where
  "hs_createReusablePreAuthKey H user h =
     (case cli_createPreAuthKey H user h of
        (h', Inl e) \<Rightarrow> (h', hs_error)
      | (h', Inr key) \<Rightarrow> (h', (StatusOK, key)))"

definition hs_enableRoute :: "'h headscale \<Rightarrow> string \<Rightarrow> 'h \<Rightarrow> 'h \<times> http_answer" where
  "hs_enableRoute H i h =
     (case cli_enableRoute H i h of
        (h', Some e) \<Rightarrow> (h', hs_error)
      | (h', None) \<Rightarrow> (h', (StatusOK, [])))"

text \<open>The routes of \<open>start\<close>, for requests with the method POST.\<close>

definition hs_serve ::
    "'h headscale \<Rightarrow> (string \<Rightarrow> (string, json) result) \<Rightarrow> string \<Rightarrow> string \<Rightarrow> 'h \<Rightarrow> 'h \<times> http_answer" where
  "hs_serve H rd path body h =
     (case split_on (CHR ''/'') path of
        [a, b] \<Rightarrow> if a = [] \<and> b = ''user'' then hs_createUser H rd body h else (h, (StatusNotFound, []))
      | [a, b, x, c] \<Rightarrow>
          if a = [] \<and> b = ''user'' \<and> c = ''preauthkey'' then hs_createReusablePreAuthKey H x h
          else if a = [] \<and> b = ''routes'' \<and> c = ''enable'' then hs_enableRoute H x h
          else (h, (StatusNotFound, []))
      | _ \<Rightarrow> (h, (StatusNotFound, [])))"

section \<open>Access control lists\<close>

definition defaultACLs :: "string list \<Rightarrow> string" where
  "defaultACLs cidrs =
     (let nl = [CHR 0x0A]; qt = [CHR 0x22] in
      nl @ ''{'' @ nl @ ''  '' @ qt @ ''autoApprovers'' @ qt @ '': {'' @ nl @ ''    '' @ qt @ ''routes'' @ qt @ '': {'' @
      concat (map (\<lambda>c. nl @ ''      '' @ qt @ c @ qt @ '': ['' @ qt @ ''*'' @ qt @ ''],'') cidrs) @
      nl @ ''    },'' @ nl @ ''  },'' @ nl @ ''  '' @ qt @ ''acls'' @ qt @ '': ['' @
      concat (map (\<lambda>c. nl @ ''    { // Everyone has passthough access to private-network-proxy node'' @ nl @
        ''      '' @ qt @ ''action'' @ qt @ '': '' @ qt @ ''accept'' @ qt @ '','' @ nl @
        ''      '' @ qt @ ''src'' @ qt @ '': ['' @ qt @ ''*'' @ qt @ ''],'' @ nl @
        ''      '' @ qt @ ''dst'' @ qt @ '': ['' @ qt @ c @ '':*'' @ qt @ '', '' @ qt @ ''private-network-proxy:0'' @ qt @ ''],'' @ nl @
        ''    },'') cidrs) @
      nl @ ''  ],'' @ nl @ ''}'' @ nl)"

text \<open>The file is truncated before the text is written; \<open>openErr\<close> and \<open>putErr\<close> are the errors of both.\<close>

definition updateACLs ::
    "string option \<Rightarrow> string option \<Rightarrow> string list \<Rightarrow> string \<Rightarrow> (string \<rightharpoonup> string) \<Rightarrow> (string \<rightharpoonup> string) \<times> string option" where
  "updateACLs openErr putErr cidrs aclsPath fs =
     (case openErr of
        Some e \<Rightarrow> (fs, Some e)
      | None \<Rightarrow>
          (case putErr of
             Some e \<Rightarrow> (fs(aclsPath \<mapsto> []), Some e)
           | None \<Rightarrow> (fs(aclsPath \<mapsto> defaultACLs cidrs), None)))"

text \<open>Start-up: a subnet that does not parse makes it panic, an error of \<open>updateACLs\<close> is dropped.\<close>

fun parse_cidrs :: "(string \<Rightarrow> (string, string) result) \<Rightarrow> string list \<Rightarrow> string list option" where
  "parse_cidrs parseCIDR [] = Some []"
| "parse_cidrs parseCIDR (i # is) =
     (case parseCIDR i of
        Inl _ \<Rightarrow> None
      | Inr c \<Rightarrow> (case parse_cidrs parseCIDR is of None \<Rightarrow> None | Some cs \<Rightarrow> Some (c # cs)))"

definition headscale_main ::
    "(string \<Rightarrow> (string, string) result) \<Rightarrow> string option \<Rightarrow> string option \<Rightarrow> string \<Rightarrow> string \<Rightarrow> (string \<rightharpoonup> string) \<Rightarrow>
     (string \<rightharpoonup> string) option" where
  "headscale_main parseCIDR openErr putErr ipSubnet acls fs =
     (case parse_cidrs parseCIDR (split_on (CHR '','') ipSubnet) of
        None \<Rightarrow> None
      | Some cidrs \<Rightarrow> Some (fst (updateACLs openErr putErr cidrs acls fs)))"

section \<open>The controller\<close>

record HeadscaleUser =
  hsuAddress :: string
  hsuName :: string
  hsuKeyEnabled :: bool
  hsuSecretName :: string
  hsuReady :: bool

record 'h hsworld =
  hwUsers :: "HeadscaleUser objects"
  hwSecrets :: "(string \<times> string) list objects"
  hwHead :: 'h

text \<open>The environment of one run: errors of the Kubernetes API, of parsing the address and of the
  network, by the path of the request.\<close>

record hsfaults =
  hfKube :: kube_faults
  hfUrl :: "string \<Rightarrow> string option"
  hfNet :: "string \<Rightarrow> string option"

text \<open>The name is put between quotation marks as it is.\<close>

definition create_user_body :: "string \<Rightarrow> string" where
  "create_user_body name =
     [CHR 0x0A] @ ''{'' @ [CHR 0x0A] @ ''    '' @ [CHR 0x22] @ ''name'' @ [CHR 0x22] @ '': '' @ [CHR 0x22] @ name @
     [CHR 0x22] @ [CHR 0x0A] @ ''}''"

definition hs_post ::
    "'h headscale \<Rightarrow> (string \<Rightarrow> (string, json) result) \<Rightarrow> hsfaults \<Rightarrow> string \<Rightarrow> string \<Rightarrow> 'h \<Rightarrow>
     'h \<times> (string, http_answer) result" where
  "hs_post H rd F path body h =
     (case hfNet F path of
        Some e \<Rightarrow> (h, Inl e)
      | None \<Rightarrow> (case hs_serve H rd path body h of (h', a) \<Rightarrow> (h', Inr a)))"

definition CreateUser ::
    "'h headscale \<Rightarrow> (string \<Rightarrow> (string, json) result) \<Rightarrow> hsfaults \<Rightarrow> string \<Rightarrow> 'h \<Rightarrow> 'h \<times> string option" where
  "CreateUser H rd F name h =
     (case hs_post H rd F ''/user'' (create_user_body name) h of
        (h', Inl e) \<Rightarrow> (h', Some e)
      | (h', Inr (code, _)) \<Rightarrow> (h', if code \<noteq> StatusOK then Some ''Could not create user'' else None))"

definition CreateReusablePreAuthKey ::
    "'h headscale \<Rightarrow> (string \<Rightarrow> (string, json) result) \<Rightarrow> hsfaults \<Rightarrow> string \<Rightarrow> 'h \<Rightarrow> 'h \<times> (string, string) result" where
  "CreateReusablePreAuthKey H rd F user h =
     (case hs_post H rd F (''/user/'' @ user @ ''/preauthkey'') [] h of
        (h', Inl e) \<Rightarrow> (h', Inl e)
      | (h', Inr (code, body)) \<Rightarrow>
          (h', if code \<noteq> StatusOK then Inl ''Could not create pre-authenticated key'' else Inr body))"

definition set_ready :: "hsfaults \<Rightarrow> kube_key \<Rightarrow> HeadscaleUser \<Rightarrow> 'h hsworld \<Rightarrow> 'h hsworld \<times> string option" where
  "set_ready F req resource w =
     (case kube_update_status (hfKube F) ''headscaleusers'' req (resource\<lparr>hsuReady := True\<rparr>) (hwUsers w) of
        (us, e) \<Rightarrow> (w\<lparr>hwUsers := us\<rparr>, e))"

definition add_key ::
    "'h headscale \<Rightarrow> (string \<Rightarrow> (string, json) result) \<Rightarrow> hsfaults \<Rightarrow> kube_key \<Rightarrow> HeadscaleUser \<Rightarrow> 'h hsworld \<Rightarrow>
     'h hsworld \<times> string option" where
  "add_key H rd F req resource w =
     (case CreateReusablePreAuthKey H rd F (hsuName resource) (hwHead w) of
        (h', Inl e) \<Rightarrow> (w\<lparr>hwHead := h'\<rparr>, Some e)
      | (h', Inr key) \<Rightarrow>
          (case kube_create (hfKube F) ''secrets'' (fst req, hsuSecretName resource) [(''authkey'', trim_space key)]
                  (hwSecrets w) of
             (ss, e) \<Rightarrow> (w\<lparr>hwHead := h', hwSecrets := ss\<rparr>, e)))"

definition hs_Reconcile ::
    "'h headscale \<Rightarrow> (string \<Rightarrow> (string, json) result) \<Rightarrow> kube_key \<Rightarrow> hsfaults \<Rightarrow> 'h hsworld \<Rightarrow> 'h hsworld \<times> string option" where
  "hs_Reconcile H rd req F w =
     (case kube_get (hfKube F) ''headscaleusers'' req (hwUsers w) of
        Inl e \<Rightarrow> (w, Some e)
      | Inr resource \<Rightarrow>
          if hsuReady resource then (w, None)
          else
            (case hfUrl F (hsuAddress resource) of
               Some e \<Rightarrow> (w, Some e)
             | None \<Rightarrow>
                 (case CreateUser H rd F (hsuName resource) (hwHead w) of
                    (h', Some e) \<Rightarrow> (w\<lparr>hwHead := h'\<rparr>, Some e)
                  | (h', None) \<Rightarrow>
                      (let w1 = w\<lparr>hwHead := h'\<rparr> in
                       if hsuKeyEnabled resource
                       then (case add_key H rd F req resource w1 of
                               (w2, Some e) \<Rightarrow> (w2, Some e)
                             | (w2, None) \<Rightarrow> set_ready F req resource w2)
                       else set_ready F req resource w1))))"

section \<open>Correctness\<close>

lemma trim_space_idem [simp]: "trim_space (trim_space s) = trim_space s"
proof -
  have d: "dropWhile is_space (rev (dropWhile is_space (rev (dropWhile is_space s))))
      = rev (dropWhile is_space (rev (dropWhile is_space s)))" for s
  proof (cases "dropWhile is_space (rev (dropWhile is_space s)) = []")
    case False
    define u where "u = dropWhile is_space s"
    obtain v where u: "u = rev (dropWhile is_space (rev u)) @ v"
      by (metis append_take_drop_id dropWhile_eq_drop rev_append rev_rev_ident takeWhile_dropWhile_id)
    from False have ne: "rev (dropWhile is_space (rev u)) \<noteq> []" by (simp add: u_def)
    then have "hd (rev (dropWhile is_space (rev u))) = hd u" using u by (metis hd_append2)
    moreover have "u \<noteq> []" using u ne by auto
    then have "\<not> is_space (hd u)" unfolding u_def using hd_dropWhile by blast
    ultimately have "\<not> is_space (hd (rev (dropWhile is_space (rev u))))" by simp
    with ne show ?thesis unfolding u_def[symmetric] by (cases "rev (dropWhile is_space (rev u))") auto
  next
    case True
    then show ?thesis by (simp only: True rev.simps dropWhile.simps)
  qed
  show ?thesis by (simp add: trim_space_def d)
qed

lemma last_text_trimmed: "last_text ls = Some t \<Longrightarrow> t \<noteq> [] \<and> (\<exists>l \<in> set ls. t = trim_space l)"
  by (induction ls) (auto simp: Let_def split: option.splits if_splits)

lemma extractLastLine_trimmed: "extractLastLine s = Inr t \<Longrightarrow> trim_space t = t \<and> t \<noteq> []"
  by (auto simp: extractLastLine_def split: option.splits dest!: last_text_trimmed)

text \<open>The document that is sent is read back as the name it was made from.\<close>

definition reads_name :: "(string \<Rightarrow> (string, json) result) \<Rightarrow> string \<Rightarrow> bool" where
  "reads_name rd name \<longleftrightarrow> rd (create_user_body name) = Inr (JObj [(''name'', JStr name)])"

definition create_args :: "'h headscale \<Rightarrow> string \<Rightarrow> string list" where
  "create_args H name = [''headscale'', newClient (hsConfig H), ''users'', ''create'', name]"

definition key_args :: "'h headscale \<Rightarrow> string \<Rightarrow> string list" where
  "key_args H name = [''headscale'', newClient (hsConfig H), ''--user'', name, ''preauthkeys'', ''create'', ''--reusable'',
     ''--expiration'', ''365d'']"

text \<open>Headscale refuses to create a user it has; \<open>has\<close> tells which it has.\<close>

definition refuses :: "'h headscale \<Rightarrow> ('h \<Rightarrow> string \<Rightarrow> bool) \<Rightarrow> bool" where
  "refuses H has \<longleftrightarrow> (\<forall>h n. has h n \<longrightarrow> (\<exists>h' e. hsRun H (create_args H n) h = (h', Inl e) \<and> has h' n))"

lemma lower_name: "to_lower ''name'' = ''name''"
  by code_simp

lemma CreateUser_reaches:
  assumes "reads_name rd n" "hfNet F ''/user'' = None"
  shows "CreateUser H rd F n h =
    (case hsRun H (create_args H n) h of (h', Inl _) \<Rightarrow> (h', Some ''Could not create user'') | (h', Inr _) \<Rightarrow> (h', None))"
proof -
  have "decode_createUserReq (JObj [(''name'', JStr n)]) = Inr n"
    by (simp add: decode_createUserReq_def lower_name)
  with assms show ?thesis
    by (simp add: CreateUser_def hs_post_def hs_serve_def hs_createUser_def reads_name_def cli_createUser_def
        create_args_def hs_error_def StatusOK_def StatusInternalServerError_def split: prod.split sum.split)
qed

lemma CreateUser_refused:
  assumes "refuses H has" "reads_name rd n" "has h n"
  shows "\<exists>h' e. CreateUser H rd F n h = (h', Some e) \<and> has h' n"
proof (cases "hfNet F ''/user''")
  case None
  from assms(1,3) obtain h' e where "hsRun H (create_args H n) h = (h', Inl e)" "has h' n"
    unfolding refuses_def by blast
  with None show ?thesis by (simp add: CreateUser_reaches[OF assms(2)])
next
  case (Some e)
  with assms(3) show ?thesis by (simp add: CreateUser_def hs_post_def)
qed

lemma split_key_path:
  assumes "CHR ''/'' \<notin> set n"
  shows "split_on (CHR ''/'') (''/user/'' @ n @ ''/preauthkey'') = [[], ''user'', n, ''preauthkey'']"
  using assms split_on_append[OF assms, of "''preauthkey''"] by simp

lemma key_reaches:
  assumes "CHR ''/'' \<notin> set n" "\<And>p. hfNet F p = None"
    and "hsRun H (key_args H n) h = (h', Inr out)" "extractLastLine out = Inr key"
  shows "CreateReusablePreAuthKey H rd F n h = (h', Inr key)"
  unfolding CreateReusablePreAuthKey_def hs_post_def hs_serve_def split_key_path[OF assms(1)]
  using assms(2-4)
  by (simp add: hs_createReusablePreAuthKey_def cli_createPreAuthKey_def key_args_def)

text \<open>A run that reports an error leaves the resources as they are.\<close>

lemma error_keeps_users: "hs_Reconcile H rd req F w = (w', Some e) \<Longrightarrow> hwUsers w' = hwUsers w"
  by (cases rule: kube_update_cases[of "hfKube F" "''headscaleusers''" req _ "hwUsers w"])
    (auto simp: hs_Reconcile_def add_key_def set_ready_def Let_def kube_update_status_def
      split: sum.splits option.splits if_splits prod.splits)

definition user_ready :: "kube_key \<Rightarrow> 'h hsworld \<Rightarrow> bool" where
  "user_ready req w \<longleftrightarrow> (case hwUsers w req of None \<Rightarrow> False | Some u \<Rightarrow> hsuReady u)"

definition user_spent ::
    "'h headscale \<Rightarrow> (string \<Rightarrow> (string, json) result) \<Rightarrow> ('h \<Rightarrow> string \<Rightarrow> bool) \<Rightarrow> kube_key \<Rightarrow> 'h hsworld \<Rightarrow> bool" where
  "user_spent H rd has req w \<longleftrightarrow> refuses H has \<and>
     (case hwUsers w req of
        None \<Rightarrow> False
      | Some u \<Rightarrow> \<not> hsuReady u \<and> reads_name rd (hsuName u) \<and> has (hwHead w) (hsuName u))"

lemma success_ready: "hs_Reconcile H rd req F w = (w', None) \<Longrightarrow> user_ready req w'"
  by (auto simp: hs_Reconcile_def set_ready_def add_key_def user_ready_def Let_def kube_get_Inr kube_update_status_def
      split: sum.splits option.splits if_splits prod.splits)

lemma ready_kept: "user_ready req w \<Longrightarrow> fst (hs_Reconcile H rd req F w) = w"
  by (auto simp: hs_Reconcile_def user_ready_def kube_get_Inr split: sum.splits option.splits)

lemma spent_unready: "user_spent H rd has req w \<Longrightarrow> \<not> user_ready req w"
  by (auto simp: user_spent_def user_ready_def split: option.splits)

lemma spent_fails:
  assumes "user_spent H rd has req w"
  shows "snd (hs_Reconcile H rd req F w) \<noteq> None \<and> user_spent H rd has req (fst (hs_Reconcile H rd req F w))"
proof -
  from assms obtain u where u: "refuses H has" "hwUsers w req = Some u" "\<not> hsuReady u" "reads_name rd (hsuName u)"
    "has (hwHead w) (hsuName u)" by (auto simp: user_spent_def split: option.splits)
  from CreateUser_refused[OF u(1,4,5), of F] obtain h' x where
    "CreateUser H rd F (hsuName u) (hwHead w) = (h', Some x)" "has h' (hsuName u)" by blast
  with u show ?thesis
    by (auto simp: hs_Reconcile_def user_spent_def kube_get_def split: option.splits)
qed

interpretation hsu: one_shot "hs_Reconcile H rd req" "user_ready req" "user_spent H rd has req" for H rd req has
  by unfold_locales (erule ready_kept, metis prod.collapse success_ready, erule spent_unready, erule spent_fails)

section \<open>Properties\<close>

text \<open>
  C25: A declared user gets access. When no call fails, one run for a new user creates it with the
  command line, stores the key that headscale prints on its last line, without the space around it,
  in the secret of the resource, and marks the resource as ready; runs after that change nothing.
\<close>
theorem headscale_user_becomes_ready:
  assumes "hwUsers w req = Some u" and "\<not> hsuReady u" and "hsuKeyEnabled u"
    and "hwSecrets w (fst req, hsuSecretName u) = None"
    and "CHR ''/'' \<notin> set (hsuName u)" and "reads_name rd (hsuName u)"
    and "hsRun H (create_args H (hsuName u)) (hwHead w) = (h1, Inr out1)"
    and "hsRun H (key_args H (hsuName u)) h1 = (h2, Inr out2)" and "extractLastLine out2 = Inr key"
  defines "F \<equiv> \<lparr>hfKube = no_faults, hfUrl = (\<lambda>_. None), hfNet = (\<lambda>_. None)\<rparr>"
  shows "\<exists>w'. hs_Reconcile H rd req F w = (w', None)
    \<and> hwUsers w' req = Some (u\<lparr>hsuReady := True\<rparr>)
    \<and> hwSecrets w' (fst req, hsuSecretName u) = Some [(''authkey'', key)] \<and> hwHead w' = h2
    \<and> (\<forall>Fs. retries (hs_Reconcile H rd req) Fs w' = w')"
proof -
  have "CreateUser H rd F (hsuName u) (hwHead w) = (h1, None)"
    using assms(6,7) by (simp add: CreateUser_reaches F_def)
  moreover have "CreateReusablePreAuthKey H rd F (hsuName u) h1 = (h2, Inr key)"
    by (rule key_reaches) (use assms(5,8,9) in \<open>simp_all add: F_def\<close>)
  moreover have "trim_space key = key" using extractLastLine_trimmed[OF assms(9)] by simp
  ultimately obtain w' where w': "hs_Reconcile H rd req F w = (w', None)"
    "hwUsers w' req = Some (u\<lparr>hsuReady := True\<rparr>)"
    "hwSecrets w' (fst req, hsuSecretName u) = Some [(''authkey'', key)]" "hwHead w' = h2"
    using assms(1-4) by (simp add: hs_Reconcile_def add_key_def set_ready_def F_def)
  moreover have "retries (hs_Reconcile H rd req) Fs w' = w'" for Fs
    using hsu.success_is_final[of H rd req F w Fs] w'(1) by simp
  ultimately show ?thesis by blast
qed

text \<open>An interrupted user never becomes ready. The user is created before anything is recorded.
  When a run fails after that, and headscale refuses to create a user it already has, every later
  run fails, whatever calls succeed, and the resource is never ready.
\<close>
theorem interrupted_user_is_stuck:
  assumes "refuses H has" and "hwUsers w req = Some u" and "\<not> hsuReady u" and "reads_name rd (hsuName u)"
    and "hs_Reconcile H rd req F w = (w', Some e)" and "has (hwHead w') (hsuName u)"
  shows "\<forall>Fs F'. \<not> user_ready req (retries (hs_Reconcile H rd req) Fs w')
    \<and> snd (hs_Reconcile H rd req F' (retries (hs_Reconcile H rd req) Fs w')) \<noteq> None"
proof -
  have "user_spent H rd has req w'"
    using assms error_keeps_users[OF assms(5)] by (simp add: user_spent_def)
  from hsu.never_settles[OF this] show ?thesis by blast
qed

section \<open>Witnesses\<close>

text \<open>A headscale that keeps a list of users and prints a warning before each key.\<close>

fun example_hs_run :: "string list \<Rightarrow> string list \<Rightarrow> string list \<times> (string, string) result" where
  "example_hs_run [_, _, _, _, n] us = (if n \<in> set us then (us, Inl ''exists'') else (n # us, Inr []))"
| "example_hs_run _ us = (us, Inr (''warning'' @ [CHR 0x0A] @ ''key '' @ [CHR 0x0A]))"

definition example_hs :: "string list headscale" where
  "example_hs = \<lparr>hsRun = example_hs_run, hsConfig = ''/c''\<rparr>"

definition example_hsu :: HeadscaleUser where
  "example_hsu = \<lparr>hsuAddress = ''http://h'', hsuName = ''u'', hsuKeyEnabled = True, hsuSecretName = ''s'', hsuReady = False\<rparr>"

definition example_hsworld :: "string list hsworld" where
  "example_hsworld = \<lparr>hwUsers = [(''n'', ''u'') \<mapsto> example_hsu], hwSecrets = Map.empty, hwHead = []\<rparr>"

definition example_rd :: "string \<Rightarrow> (string, json) result" where
  "example_rd x = Inr (JObj [(''name'', JStr ''u'')])"

lemma example_hs_facts:
  "reads_name example_rd ''u''" "refuses example_hs (\<lambda>us n. n \<in> set us)" "hsuName example_hsu = ''u''"
  "hwUsers example_hsworld (''n'', ''u'') = Some example_hsu"
  by (simp_all add: reads_name_def example_rd_def refuses_def example_hs_def create_args_def example_hsu_def example_hsworld_def)

theorem headscale_user_becomes_ready_witness:
  "\<exists>w'. hs_Reconcile example_hs example_rd (''n'', ''u'') \<lparr>hfKube = no_faults, hfUrl = (\<lambda>_. None), hfNet = (\<lambda>_. None)\<rparr>
      example_hsworld = (w', None) \<and> hwSecrets w' (''n'', ''s'') = Some [(''authkey'', ''key'')]"
proof -
  have "extractLastLine (''warning'' @ [CHR 0x0A] @ ''key '' @ [CHR 0x0A]) = Inr ''key''" by code_simp
  then show ?thesis
    using headscale_user_becomes_ready[of example_hsworld "(''n'', ''u'')" example_hsu example_rd example_hs "[''u'']" "[]"
        "[''u'']" "''warning'' @ [CHR 0x0A] @ ''key '' @ [CHR 0x0A]" "''key''"] example_hs_facts
    by (simp add: example_hs_def create_args_def key_args_def)
      (simp add: example_hsu_def example_hsworld_def, blast)
qed

theorem interrupted_user_is_stuck_witness:
  "let F = \<lparr>hfKube = (\<lambda>v k. if v = KCreate then Some ''timeout'' else None), hfUrl = (\<lambda>_. None), hfNet = (\<lambda>_. None)\<rparr>;
       w' = fst (hs_Reconcile example_hs example_rd (''n'', ''u'') F example_hsworld)
   in \<forall>Fs. \<not> user_ready (''n'', ''u'') (retries (hs_Reconcile example_hs example_rd (''n'', ''u'')) Fs w')"
proof -
  let ?F = "\<lparr>hfKube = (\<lambda>v k. if v = KCreate then Some ''timeout'' else None), hfUrl = (\<lambda>_. None), hfNet = (\<lambda>_. None)\<rparr>"
  have l: "extractLastLine (''warning'' @ [CHR 0x0A] @ ''key '' @ [CHR 0x0A]) = Inr ''key''" by code_simp
  have "CreateUser example_hs example_rd ?F ''u'' [] = ([''u''], None)"
    using example_hs_facts(1) by (simp add: CreateUser_reaches) (simp add: example_hs_def create_args_def)
  moreover have "CreateReusablePreAuthKey example_hs example_rd ?F ''u'' [''u''] = ([''u''], Inr ''key'')"
    by (rule key_reaches[OF _ _ _ l]) (simp_all add: example_hs_def key_args_def)
  ultimately have "hs_Reconcile example_hs example_rd (''n'', ''u'') ?F example_hsworld
      = (example_hsworld\<lparr>hwHead := [''u'']\<rparr>, Some ''timeout'')"
    by (simp add: hs_Reconcile_def kube_get_def example_hsworld_def example_hsu_def add_key_def kube_create_def)
  with interrupted_user_is_stuck[OF example_hs_facts(2) example_hs_facts(4), of example_rd ?F] example_hs_facts
  show ?thesis by (simp add: Let_def) (simp add: example_hsu_def)
qed

end
