(* ===== verification/Renderer.thy ===== *)
theory Renderer
  imports Kube
begin

text \<open>
  The controller of rendered resources
  (\<open>src/core/resource-renderer/controllers/resourcerenderer_controller.go\<close>): a config map is made from
  a template and the data of a secret. The template engine and the YAML reader are third-party code.
\<close>

section \<open>The controller\<close>

record ResourceRenderer =
  rrSecretName :: string
  rrSecretNamespace :: string
  rrTemplate :: string
  rrReady :: bool

record ConfigMap =
  cmNamespace :: string
  cmName :: string
  cmData :: "(string \<times> string) list"

record rrworld =
  rwRenderers :: "ResourceRenderer objects"
  rwSecrets :: "(string \<rightharpoonup> string) objects"
  rwConfigs :: "ConfigMap objects"

text \<open>Parsing a template, executing it on the data of a secret, and reading a config map.\<close>

record 't engine =
  enParse :: "string \<Rightarrow> (string, 't) result"
  enExecute :: "'t \<Rightarrow> (string \<rightharpoonup> string) \<Rightarrow> (string, string) result"
  enUnmarshal :: "string \<Rightarrow> (string, ConfigMap) result"

definition secret_ns :: "kube_key \<Rightarrow> ResourceRenderer \<Rightarrow> string" where
  "secret_ns req resource =
     (if rrSecretNamespace resource = [] then fst req else rrSecretNamespace resource)"

definition render_config :: "'t engine \<Rightarrow> ResourceRenderer \<Rightarrow> (string \<rightharpoonup> string) \<Rightarrow> (string, ConfigMap) result" where
  "render_config T resource data =
     bindE (enParse T (rrTemplate resource)) (\<lambda>tmpl.
     bindE (enExecute T tmpl data) (\<lambda>rendered.
       enUnmarshal T rendered))"

definition rr_Reconcile :: "'t engine \<Rightarrow> kube_key \<Rightarrow> kube_faults \<Rightarrow> rrworld \<Rightarrow> rrworld \<times> string option" where
  "rr_Reconcile T req F w =
     (case kube_get F ''resourcerenderers'' req (rwRenderers w) of
        Inl e \<Rightarrow> (w, Some e)
      | Inr resource \<Rightarrow>
          if rrReady resource then (w, None)
          else
            (case kube_get F ''secrets'' (secret_ns req resource, rrSecretName resource) (rwSecrets w) of
               Inl e \<Rightarrow> (w, Some e)
             | Inr data \<Rightarrow>
                 (case render_config T resource data of
                    Inl e \<Rightarrow> (w, Some e)
                  | Inr config \<Rightarrow>
                      (case kube_create F ''configmaps'' (cmNamespace config, cmName config) config (rwConfigs w) of
                         (cs, Some e) \<Rightarrow> (w\<lparr>rwConfigs := cs\<rparr>, Some e)
                       | (cs, None) \<Rightarrow>
                           (case kube_update_status F ''resourcerenderers'' req (resource\<lparr>rrReady := True\<rparr>) (rwRenderers w) of
                              (rs, r) \<Rightarrow> (w\<lparr>rwConfigs := cs, rwRenderers := rs\<rparr>, r))))))"

section \<open>Correctness\<close>

definition rr_ready :: "kube_key \<Rightarrow> rrworld \<Rightarrow> bool" where
  "rr_ready req w \<longleftrightarrow> (case rwRenderers w req of None \<Rightarrow> False | Some r \<Rightarrow> rrReady r)"

text \<open>The config map the resource asks for is there, and the resource does not say so.\<close>

definition rr_spent :: "'t engine \<Rightarrow> kube_key \<Rightarrow> rrworld \<Rightarrow> bool" where
  "rr_spent T req w \<longleftrightarrow>
     (case rwRenderers w req of
        None \<Rightarrow> False
      | Some r \<Rightarrow> \<not> rrReady r \<and>
          (case rwSecrets w (secret_ns req r, rrSecretName r) of
             None \<Rightarrow> False
           | Some d \<Rightarrow>
               (case render_config T r d of
                  Inl _ \<Rightarrow> False
                | Inr c \<Rightarrow> rwConfigs w (cmNamespace c, cmName c) \<noteq> None)))"

lemma rr_spentE:
  assumes "rr_spent T req w"
  obtains r d c where "rwRenderers w req = Some r" "\<not> rrReady r"
    "rwSecrets w (secret_ns req r, rrSecretName r) = Some d" "render_config T r d = Inr c"
    "rwConfigs w (cmNamespace c, cmName c) \<noteq> None"
  using assms by (auto simp: rr_spent_def split: option.splits sum.splits)

lemma rr_ready_kept: "rr_ready req w \<Longrightarrow> fst (rr_Reconcile T req F w) = w"
  by (auto simp: rr_Reconcile_def rr_ready_def kube_get_Inr split: sum.splits option.splits)

lemma rr_success_ready: "rr_Reconcile T req F w = (w', None) \<Longrightarrow> rr_ready req w'"
  by (auto simp: rr_Reconcile_def rr_ready_def kube_get_Inr kube_update_status_def
      split: sum.splits option.splits if_splits prod.splits)

lemma rr_spent_unready: "rr_spent T req w \<Longrightarrow> \<not> rr_ready req w"
  by (auto simp: rr_ready_def elim!: rr_spentE)

lemma rr_spent_fails:
  assumes "rr_spent T req w"
  shows "snd (rr_Reconcile T req F w) \<noteq> None \<and> rr_spent T req (fst (rr_Reconcile T req F w))"
proof -
  from assms obtain r d c where h: "rwRenderers w req = Some r" "\<not> rrReady r"
    "rwSecrets w (secret_ns req r, rrSecretName r) = Some d" "render_config T r d = Inr c"
    "rwConfigs w (cmNamespace c, cmName c) \<noteq> None" by (rule rr_spentE)
  then obtain e where "kube_create F ''configmaps'' (cmNamespace c, cmName c) c (rwConfigs w) = (rwConfigs w, Some e)"
    using create_existing by (metis not_None_eq)
  with h have "\<exists>e. rr_Reconcile T req F w = (w, Some e)"
    by (auto simp: rr_Reconcile_def kube_get_def split: option.splits)
  with assms show ?thesis by auto
qed

interpretation rr: one_shot "rr_Reconcile T req" "rr_ready req" "rr_spent T req" for T req
  by unfold_locales (erule rr_ready_kept, metis prod.collapse rr_success_ready, erule rr_spent_unready, erule rr_spent_fails)

lemma rr_error_cases:
  assumes "rr_Reconcile T req F w = (w', Some e)"
  obtains (unchanged) "w' = w" | (created) "rr_spent T req w'"
proof (cases "w' = w")
  case False
  with assms have "rr_spent T req w'"
    by (auto simp: rr_Reconcile_def rr_spent_def kube_get_Inr kube_create_def kube_update_status_def
        split: sum.splits option.splits if_splits prod.splits)
  then show ?thesis by (rule created)
qed (rule unchanged)

section \<open>Properties\<close>

text \<open>A rendered resource appears. When no call fails and the config map does not exist yet, one run
  creates the config map that the template and the data of the secret give, taken from the namespace
  of the resource unless it names another, and marks the resource as ready; later runs change nothing.
\<close>
theorem renderer_creates_config:
  assumes "rwRenderers w req = Some r" and "\<not> rrReady r"
    and "rwSecrets w (secret_ns req r, rrSecretName r) = Some d" and "render_config T r d = Inr c"
    and "rwConfigs w (cmNamespace c, cmName c) = None"
  shows "\<exists>w'. rr_Reconcile T req no_faults w = (w', None)
    \<and> rwConfigs w' = (rwConfigs w)((cmNamespace c, cmName c) \<mapsto> c)
    \<and> rwRenderers w' = (rwRenderers w)(req \<mapsto> r\<lparr>rrReady := True\<rparr>) \<and> rwSecrets w' = rwSecrets w
    \<and> (\<forall>Fs. retries (rr_Reconcile T req) Fs w' = w')"
proof -
  let ?w = "w\<lparr>rwConfigs := (rwConfigs w)((cmNamespace c, cmName c) \<mapsto> c),
    rwRenderers := (rwRenderers w)(req \<mapsto> r\<lparr>rrReady := True\<rparr>)\<rparr>"
  from assms have "rr_Reconcile T req no_faults w = (?w, None)" by (simp add: rr_Reconcile_def)
  moreover from this have "retries (rr_Reconcile T req) Fs ?w = ?w" for Fs
    using rr.success_is_final[of T req no_faults w Fs] by simp
  ultimately show ?thesis by (intro exI[of _ ?w]) simp
qed

text \<open>An interrupted rendering is never finished. A run that reports an error and has changed
  anything leaves the resource in a state where every later run fails and it is never ready.
\<close>
theorem interrupted_rendering_is_stuck:
  assumes "rr_Reconcile T req F w = (w', Some e)" and "w' \<noteq> w"
  shows "\<forall>Fs F'. \<not> rr_ready req (retries (rr_Reconcile T req) Fs w')
    \<and> snd (rr_Reconcile T req F' (retries (rr_Reconcile T req) Fs w')) \<noteq> None"
  using assms(1)
proof (cases rule: rr_error_cases)
  case unchanged
  with assms(2) show ?thesis by simp
next
  case created
  from rr.never_settles[OF this] show ?thesis by blast
qed

section \<open>Witnesses\<close>

text \<open>An engine that puts the value of a key into the data of a fixed config map.\<close>

definition example_engine :: "string engine" where
  "example_engine = \<lparr>enParse = Inr,
     enExecute = (\<lambda>t d. case d t of None \<Rightarrow> Inl ''no value'' | Some v \<Rightarrow> Inr v),
     enUnmarshal = (\<lambda>v. Inr \<lparr>cmNamespace = ''n'', cmName = ''c'', cmData = [(''k'', v)]\<rparr>)\<rparr>"

definition example_renderer :: ResourceRenderer where
  "example_renderer = \<lparr>rrSecretName = ''s'', rrSecretNamespace = [], rrTemplate = ''key'', rrReady = False\<rparr>"

definition example_rrworld :: rrworld where
  "example_rrworld = \<lparr>rwRenderers = [(''n'', ''r'') \<mapsto> example_renderer], rwSecrets = [(''n'', ''s'') \<mapsto> [''key'' \<mapsto> ''v'']],
     rwConfigs = Map.empty\<rparr>"

lemma example_render:
  "render_config example_engine example_renderer [''key'' \<mapsto> ''v''] =
     Inr \<lparr>cmNamespace = ''n'', cmName = ''c'', cmData = [(''k'', ''v'')]\<rparr>"
  by (simp add: render_config_def example_engine_def example_renderer_def)

theorem renderer_creates_config_witness:
  "\<exists>w'. rr_Reconcile example_engine (''n'', ''r'') no_faults example_rrworld = (w', None)
    \<and> rwConfigs w' (''n'', ''c'') = Some \<lparr>cmNamespace = ''n'', cmName = ''c'', cmData = [(''k'', ''v'')]\<rparr>"
  using renderer_creates_config[of example_rrworld "(''n'', ''r'')" example_renderer _ example_engine, OF _ _ _ example_render]
  by (simp add: example_rrworld_def secret_ns_def) (simp add: example_renderer_def, metis fun_upd_same)

theorem interrupted_rendering_is_stuck_witness:
  "let F = (\<lambda>v k. if v = KUpdateStatus then Some ''timeout'' else None);
       w' = fst (rr_Reconcile example_engine (''n'', ''r'') F example_rrworld)
   in \<forall>Fs. \<not> rr_ready (''n'', ''r'') (retries (rr_Reconcile example_engine (''n'', ''r'')) Fs w')"
proof -
  let ?F = "\<lambda>v k. if v = KUpdateStatus then Some ''timeout'' else None"
  let ?c = "\<lparr>cmNamespace = ''n'', cmName = ''c'', cmData = [(''k'', ''v'')]\<rparr>"
  have s: "secret_ns (''n'', ''r'') example_renderer = ''n''" "rrSecretName example_renderer = ''s''"
    "\<not> rrReady example_renderer" by (simp_all add: example_renderer_def secret_ns_def)
  have run: "rr_Reconcile example_engine (''n'', ''r'') ?F example_rrworld
      = (example_rrworld\<lparr>rwConfigs := [(''n'', ''c'') \<mapsto> ?c]\<rparr>, Some ''timeout'')"
    by (simp add: rr_Reconcile_def kube_get_def kube_create_def kube_update_status_def example_rrworld_def s example_render)
  note run
  moreover have "example_rrworld\<lparr>rwConfigs := [(''n'', ''c'') \<mapsto> ?c]\<rparr> \<noteq> example_rrworld"
    by (simp add: example_rrworld_def fun_eq_iff)
  ultimately have "\<forall>Fs. \<not> rr_ready (''n'', ''r'') (retries (rr_Reconcile example_engine (''n'', ''r'')) Fs
      (example_rrworld\<lparr>rwConfigs := [(''n'', ''c'') \<mapsto> ?c]\<rparr>))"
    using interrupted_rendering_is_stuck by blast
  with run show ?thesis by (simp add: Let_def)
qed

end
