(* ===== verification/Transport.thy ===== *)
theory Transport
  imports PortAllocator Kube
begin

text \<open>
  The controller of service transports
  (\<open>src/core/tcp-udp-transport/controllers/servicetransport_controller.go\<close>): it opens a port of an
  ingress by editing the Helm release of the ingress in the git repository its annotations name.

  The controller uses an interface to repositories of which the methods with these signatures are not
  in the sources: cloning, reading and writing a document and pushing are parameters.
\<close>

section \<open>The controller\<close>

record ServiceTransport =
  stPort :: int
  stSourcePort :: int
  stProtocol :: string
  stService :: string
  stIngressClassName :: string
  stStatusPort :: int

text \<open>\<open>'g\<close> is what the git servers hold, \<open>'c\<close> a clone.\<close>

record ('g, 'c) remotes =
  rmClone :: "string \<Rightarrow> 'g \<Rightarrow> (string, 'c) result"
  rmRead :: "string \<Rightarrow> 'c \<Rightarrow> (string, json) result"
  rmWrite :: "string \<Rightarrow> json \<Rightarrow> 'c \<Rightarrow> 'c \<times> string option"
  rmPush :: "string \<Rightarrow> string \<Rightarrow> 'c \<Rightarrow> 'g \<Rightarrow> 'g \<times> string option"

text \<open>The Helm releases are kept by the value of the label of their ingress class.\<close>

record 'g trworld =
  twTransports :: "ServiceTransport objects"
  twReleases :: "string \<Rightarrow> json list"
  twRemote :: 'g

text \<open>The environment of one run: errors of the Kubernetes API, label values that are refused, and the
  values that \<open>rand.Intn\<close> returns one after the other.\<close>

record trenv =
  teKube :: kube_faults
  teLabel :: "string \<Rightarrow> string option"
  teRand :: "nat \<Rightarrow> nat"

definition as_map :: "json option \<Rightarrow> (string, json) result" where
  "as_map v = (case v of None \<Rightarrow> Inl ''Not map'' | Some d \<Rightarrow> if is_obj d then Inr d else Inl ''Not map'')"

definition as_string :: "json option \<Rightarrow> (string, string) result" where
  "as_string v = (case v of Some (JStr s) \<Rightarrow> Inr s | _ \<Rightarrow> Inl ''Not string'')"

definition extractRepoInfo :: "json \<Rightarrow> (string, string \<times> string) result" where
  "extractRepoInfo rel =
     bindE (as_map (obj_get ''metadata'' rel)) (\<lambda>metadata.
     bindE (as_map (obj_get ''annotations'' metadata)) (\<lambda>annotations.
     bindE (as_string (obj_get ''dodo.cloud/releaseSourceRepo'' annotations)) (\<lambda>repoAddr.
     bindE (as_string (obj_get ''dodo.cloud/releasePath'' annotations)) (\<lambda>repoPath.
       Inr (repoAddr, repoPath)))))"

text \<open>The map of the protocol inside the release, empty when there is none.\<close>

definition protocol_ports :: "string \<Rightarrow> json \<Rightarrow> (string, json) result" where
  "protocol_ports protocol data =
     bindE (as_map (Some data)) (\<lambda>def.
     bindE (as_map (obj_get ''spec'' def)) (\<lambda>spec.
     bindE (as_map (obj_get ''values'' spec)) (\<lambda>vals.
       case obj_get protocol vals of
         None \<Rightarrow> Inr (JObj [])
       | Some k \<Rightarrow> as_map (Some k))))"

text \<open>The loop that draws ports until one is free, from the \<open>i\<close>th value on.\<close>

partial_function (option) draw_port :: "json \<Rightarrow> (nat \<Rightarrow> nat) \<Rightarrow> nat \<Rightarrow> int option" where
  "draw_port m rnd i =
     (let sourcePort = int (rnd i mod (65536 - 1000)) + 1000 in
      if obj_get (itoa sourcePort) m = None then Some sourcePort else draw_port m rnd (i + 1))"

text \<open>The outer option is \<open>None\<close> when the loop never ends.\<close>

definition choose_port :: "json \<Rightarrow> trenv \<Rightarrow> int \<Rightarrow> (string, int) result option" where
  "choose_port m E wanted =
     (if wanted \<noteq> 0
      then Some (if obj_get (itoa wanted) m \<noteq> None
                 then Inl (''Source port '' @ itoa wanted @ '' is already taken'') else Inr wanted)
      else (case draw_port m (teRand E) 0 of None \<Rightarrow> None | Some p \<Rightarrow> Some (Inr p)))"

definition transport_dest :: "kube_key \<Rightarrow> ServiceTransport \<Rightarrow> string" where
  "transport_dest req resource = fst req @ ''/'' @ stService resource @ '':'' @ itoa (stPort resource)"

definition find_release :: "trenv \<Rightarrow> string \<Rightarrow> 'g trworld \<Rightarrow> (string, json) result" where
  "find_release E ingressClassName w =
     (case teLabel E ingressClassName of
        Some e \<Rightarrow> Inl e
      | None \<Rightarrow>
          (case teKube E KList ''helmreleases'' of
             Some e \<Rightarrow> Inl e
           | None \<Rightarrow>
               (case twReleases w ingressClassName of
                  [] \<Rightarrow> Inl (''Ingress '' @ ingressClassName @ '' not found'')
                | [rel] \<Rightarrow> Inr rel
                | _ \<Rightarrow> Inl (''Found more than one ingress '' @ ingressClassName))))"

definition open_release ::
    "('g, 'c) remotes \<Rightarrow> trenv \<Rightarrow> ServiceTransport \<Rightarrow> 'g trworld \<Rightarrow> (string, string \<times> string \<times> 'c \<times> json \<times> json) result" where
  "open_release R E resource w =
     bindE (find_release E (stIngressClassName resource) w) (\<lambda>rel.
     bindE (extractRepoInfo rel) (\<lambda>(repoAddr, repoPath).
     bindE (rmClone R repoAddr (twRemote w)) (\<lambda>repo.
     bindE (rmRead R repoPath repo) (\<lambda>data.
     bindE (protocol_ports (to_lower (stProtocol resource)) data) (\<lambda>m.
       Inr (repoAddr, repoPath, repo, data, m))))))"

definition publish_port ::
    "('g, 'c) remotes \<Rightarrow> trenv \<Rightarrow> kube_key \<Rightarrow> ServiceTransport \<Rightarrow> string \<times> string \<times> 'c \<times> json \<times> json \<Rightarrow> int \<Rightarrow>
     'g trworld \<Rightarrow> 'g trworld \<times> string option" where
  "publish_port R E req resource rel sourcePort w =
     (case rel of (repoAddr, repoPath, repo, def, m) \<Rightarrow>
      (let protocol = to_lower (stProtocol resource);
           dest = transport_dest req resource;
           m' = obj_put (itoa sourcePort) (JStr dest) m in
       (case rmWrite R repoPath (put_port_map protocol m' def) repo of
          (repo', Some e) \<Rightarrow> (w, Some e)
        | (repo', None) \<Rightarrow>
            (case rmPush R repoAddr (protocol @ '' transport for '' @ dest) repo' (twRemote w) of
               (g, Some e) \<Rightarrow> (w\<lparr>twRemote := g\<rparr>, Some e)
             | (g, None) \<Rightarrow>
                 (case kube_update_status (teKube E) ''servicetransports'' req
                     (resource\<lparr>stStatusPort := sourcePort\<rparr>) (twTransports w) of
                    (ts, r) \<Rightarrow> (w\<lparr>twRemote := g, twTransports := ts\<rparr>, r))))))"

definition st_Reconcile ::
    "('g, 'c) remotes \<Rightarrow> kube_key \<Rightarrow> trenv \<Rightarrow> 'g trworld \<Rightarrow> ('g trworld \<times> string option) option" where
  "st_Reconcile R req E w =
     (case kube_get (teKube E) ''servicetransports'' req (twTransports w) of
        Inl e \<Rightarrow> Some (w, Some e)
      | Inr resource \<Rightarrow>
          if stStatusPort resource \<noteq> 0 then Some (w, None)
          else
            (case open_release R E resource w of
               Inl e \<Rightarrow> Some (w, Some e)
             | Inr rel \<Rightarrow>
                 (case rel of (_, _, _, _, m) \<Rightarrow>
                   (case choose_port m E (stSourcePort resource) of
                      None \<Rightarrow> None
                    | Some (Inl e) \<Rightarrow> Some (w, Some e)
                    | Some (Inr sourcePort) \<Rightarrow> Some (publish_port R E req resource rel sourcePort w)))))"

text \<open>A run that does not end changes nothing and reports nothing: for the runs after it it is as
  good as a failed one.\<close>

definition st_run :: "('g, 'c) remotes \<Rightarrow> kube_key \<Rightarrow> trenv \<Rightarrow> 'g trworld \<Rightarrow> 'g trworld \<times> string option" where
  "st_run R req E w = (case st_Reconcile R req E w of None \<Rightarrow> (w, Some ''no answer'') | Some x \<Rightarrow> x)"

section \<open>The search for a port\<close>

text \<open>The loop ends as soon as a free port is drawn, with the first such port; only when every port that
  is ever drawn is taken it runs forever.\<close>

lemma draw_port_bounds:
  assumes "draw_port m rnd i = Some p"
  shows "1000 \<le> p \<and> p < 65536 \<and> obj_get (itoa p) m = None"
  by (rule draw_port.raw_induct[OF _ assms]) (auto simp: Let_def split: if_splits)

definition port_free :: "json \<Rightarrow> (nat \<Rightarrow> nat) \<Rightarrow> nat \<Rightarrow> bool" where
  "port_free m rnd i \<longleftrightarrow> obj_get (itoa (int (rnd i mod 64536) + 1000)) m = None"

lemma draw_port_returns:
  assumes "port_free m rnd (i + k)"
  shows "\<exists>p. draw_port m rnd i = Some p"
  using assms
proof (induction k arbitrary: i)
  case 0
  then show ?case by (subst draw_port.simps) (simp add: port_free_def)
next
  case (Suc k)
  then have "\<exists>p. draw_port m rnd (Suc i) = Some p" by simp
  then show ?case by (subst draw_port.simps) (simp add: Let_def)
qed

lemma choose_port_free: "choose_port m E wanted = Some (Inr p) \<Longrightarrow> obj_get (itoa p) m = None \<and> p \<noteq> 0"
  by (auto simp: choose_port_def split: if_splits option.splits dest: draw_port_bounds)

section \<open>Releases\<close>

lemma as_map_Inr: "as_map v = Inr d \<longleftrightarrow> v = Some d \<and> is_obj d"
  by (auto simp: as_map_def split: option.splits)

lemma protocol_ports_Inr:
  assumes "protocol_ports proto d = Inr m"
  obtains spec vals where "is_obj d" "obj_get ''spec'' d = Some spec" "is_obj spec" "obj_get ''values'' spec = Some vals"
    "is_obj vals" "is_obj m" "m = JObj [] \<and> obj_get proto vals = None \<or> obj_get proto vals = Some m"
  using assms unfolding protocol_ports_def bindE_eq_Inr as_map_Inr
  by (elim exE conjE) (auto split: option.splits simp: as_map_Inr)

text \<open>Writing a port into the map of the protocol changes that port only.\<close>

lemma put_protocol_port:
  fixes k :: string and v :: json
  assumes "protocol_ports proto d = Inr m"
  defines "d' \<equiv> put_port_map proto (obj_put k v m) d"
  shows "port_target d proto k = obj_get k m"
    and "port_target d' q x = (if q = proto \<and> x = k then Some v else port_target d q x)"
    and "wf_json d \<Longrightarrow> wf_json v \<Longrightarrow> wf_json d'"
    and "protocol_ports proto d' = Inr (obj_put k v m)"
proof -
  from assms(1) obtain spec vals where h: "is_obj d" "obj_get ''spec'' d = Some spec" "is_obj spec"
    "obj_get ''values'' spec = Some vals" "is_obj vals" "is_obj m"
    "m = JObj [] \<and> obj_get proto vals = None \<or> obj_get proto vals = Some m" by (rule protocol_ports_Inr)
  show "port_target d proto k = obj_get k m" using h by (auto simp: port_target_def port_map_def values_of_def)
  show "port_target d' q x = (if q = proto \<and> x = k then Some v else port_target d q x)"
    using h by (auto simp: d'_def put_port_map_def port_target_def port_map_def values_of_def obj_get_put)
  show "wf_json d'" if "wf_json d" "wf_json v"
  proof -
    have "wf_json spec" by (rule wf_obj_get[OF that(1) h(2)])
    moreover from this have "wf_json vals" by (rule wf_obj_get[OF _ h(4)])
    moreover from this have "wf_json m" using h(7) by (auto dest: wf_obj_get)
    ultimately show ?thesis using that h by (simp add: d'_def put_port_map_def wf_obj_put)
  qed
  show "protocol_ports proto d' = Inr (obj_put k v m)"
    using h by (simp add: d'_def put_port_map_def protocol_ports_def as_map_def obj_get_put)
qed

section \<open>The contract of the reconciler\<close>

definition st_assigned :: "kube_key \<Rightarrow> 'g trworld \<Rightarrow> bool" where
  "st_assigned req w \<longleftrightarrow> (case twTransports w req of None \<Rightarrow> False | Some r \<Rightarrow> stStatusPort r \<noteq> 0)"

definition remote_doc :: "('g, 'c) remotes \<Rightarrow> string \<Rightarrow> string \<Rightarrow> 'g \<Rightarrow> (string, json) result" where
  "remote_doc R addr path g = bindE (rmClone R addr g) (rmRead R path)"

text \<open>The port the resource asks for is taken in the release of its ingress, and the resource has none.\<close>

definition st_spent :: "('g, 'c) remotes \<Rightarrow> kube_key \<Rightarrow> 'g trworld \<Rightarrow> bool" where
  "st_spent R req w \<longleftrightarrow>
     (\<exists>r rel addr path d m. twTransports w req = Some r \<and> stStatusPort r = 0 \<and> stSourcePort r \<noteq> 0
        \<and> twReleases w (stIngressClassName r) = [rel] \<and> extractRepoInfo rel = Inr (addr, path)
        \<and> remote_doc R addr path (twRemote w) = Inr d \<and> protocol_ports (to_lower (stProtocol r)) d = Inr m
        \<and> obj_get (itoa (stSourcePort r)) m \<noteq> None)"

lemma st_assigned_kept: "st_assigned req w \<Longrightarrow> fst (st_run R req E w) = w"
  by (auto simp: st_run_def st_Reconcile_def st_assigned_def kube_get_def split: option.splits)

lemma publish_assigns:
  "publish_port R E req r x p w = (w', None) \<Longrightarrow> p \<noteq> 0 \<Longrightarrow> st_assigned req w'"
  by (auto simp: publish_port_def Let_def st_assigned_def kube_update_status_def split: prod.splits option.splits if_splits)

lemma st_success_assigned:
  assumes "st_run R req E w = (w', None)"
  shows "st_assigned req w'"
  using assms
  by (auto simp: st_run_def st_Reconcile_def kube_get_Inr
      split: option.splits sum.splits if_splits dest!: choose_port_free dest: publish_assigns)
    (auto simp: st_assigned_def)

lemma st_spent_fails:
  assumes "st_spent R req w"
  shows "\<exists>e. st_run R req E w = (w, Some e)"
proof -
  from assms obtain r rel addr path d m c where h: "twTransports w req = Some r" "stStatusPort r = 0" "stSourcePort r \<noteq> 0"
    "twReleases w (stIngressClassName r) = [rel]" "extractRepoInfo rel = Inr (addr, path)"
    "rmClone R addr (twRemote w) = Inr c" "rmRead R path c = Inr d"
    "protocol_ports (to_lower (stProtocol r)) d = Inr m"
    "obj_get (itoa (stSourcePort r)) m \<noteq> None" by (auto simp: st_spent_def remote_doc_def bindE_eq_Inr)
  then have "open_release R E r w = Inr (addr, path, c, d, m) \<or> (\<exists>e. open_release R E r w = Inl e)"
    by (auto simp: open_release_def find_release_def bindE_def split: option.splits)
  moreover have "choose_port m E (stSourcePort r) =
      Some (Inl (''Source port '' @ itoa (stSourcePort r) @ '' is already taken''))"
    using h(3,9) by (simp add: choose_port_def)
  ultimately show ?thesis using h(1,2)
    by (auto simp: st_run_def st_Reconcile_def kube_get_def split: option.splits)
qed

interpretation st: one_shot "st_run R req" "st_assigned req" "st_spent R req" for R req
proof (unfold_locales, goal_cases)
  case (1 w e) then show ?case by (rule st_assigned_kept)
next
  case (2 e w) then show ?case by (metis prod.collapse st_success_assigned)
next
  case (3 w) then show ?case by (auto simp: st_spent_def st_assigned_def)
next
  case (4 w e) with st_spent_fails[OF 4, of e] show ?case by auto
qed

text \<open>What the port of a resource is opened in: the release of its ingress and its map of ports.\<close>

definition release_of ::
    "('g, 'c) remotes \<Rightarrow> trenv \<Rightarrow> ServiceTransport \<Rightarrow> 'g trworld \<Rightarrow> string \<Rightarrow> string \<Rightarrow> json \<Rightarrow> json \<Rightarrow> bool" where
  "release_of R E r w addr path d m \<longleftrightarrow>
     (\<exists>rel. find_release E (stIngressClassName r) w = Inr rel \<and> extractRepoInfo rel = Inr (addr, path))
     \<and> remote_doc R addr path (twRemote w) = Inr d \<and> wf_json d \<and> protocol_ports (to_lower (stProtocol r)) d = Inr m"

text \<open>A repository that works: what is written into a clone and pushed is what the next clone reads.\<close>

definition remote_works :: "('g, 'c) remotes \<Rightarrow> string \<Rightarrow> string \<Rightarrow> 'g \<Rightarrow> bool" where
  "remote_works R addr path g \<longleftrightarrow>
     (\<forall>c d msg. rmClone R addr g = Inr c \<and> wf_json d \<longrightarrow>
        (\<exists>c' g'. rmWrite R path d c = (c', None) \<and> rmPush R addr msg c' g = (g', None)
           \<and> remote_doc R addr path g' = Inr d))"

lemma publish_port_works:
  assumes "twTransports w req = Some r" "stStatusPort r = 0" "teKube E KGet ''servicetransports'' = None"
    and "release_of R E r w addr path d m" "remote_works R addr path (twRemote w)"
    and "choose_port m E (stSourcePort r) = Some (Inr p)"
  obtains g d' where "st_Reconcile R req E w = Some (case kube_update_status (teKube E) ''servicetransports'' req
        (r\<lparr>stStatusPort := p\<rparr>) (twTransports w) of (ts, x) \<Rightarrow> (w\<lparr>twRemote := g, twTransports := ts\<rparr>, x))"
    and "remote_doc R addr path g = Inr d'"
    and "d' = put_port_map (to_lower (stProtocol r)) (obj_put (itoa p) (JStr (transport_dest req r)) m) d"
proof -
  let ?pr = "to_lower (stProtocol r)"
  let ?d' = "put_port_map ?pr (obj_put (itoa p) (JStr (transport_dest req r)) m) d"
  from assms(4) obtain rel c where h: "find_release E (stIngressClassName r) w = Inr rel"
    "extractRepoInfo rel = Inr (addr, path)" "rmClone R addr (twRemote w) = Inr c" "rmRead R path c = Inr d"
    "wf_json d" "protocol_ports ?pr d = Inr m"
    by (auto simp: release_of_def remote_doc_def bindE_eq_Inr)
  have "wf_json ?d'" by (rule put_protocol_port(3)[OF h(6) h(5)]) simp
  with assms(5) h(3) obtain c' g where g: "rmWrite R path ?d' c = (c', None)"
    "rmPush R addr (?pr @ '' transport for '' @ transport_dest req r) c' (twRemote w) = (g, None)"
    "remote_doc R addr path g = Inr ?d'" unfolding remote_works_def by blast
  have "open_release R E r w = Inr (addr, path, c, d, m)" using h by (simp add: open_release_def)
  with assms(1-3,6) g have "st_Reconcile R req E w = Some (case kube_update_status (teKube E) ''servicetransports'' req
        (r\<lparr>stStatusPort := p\<rparr>) (twTransports w) of (ts, x) \<Rightarrow> (w\<lparr>twRemote := g, twTransports := ts\<rparr>, x))"
    by (simp add: st_Reconcile_def kube_get_def publish_port_def Let_def)
  then show thesis by (rule that[OF _ g(3) refl])
qed

section \<open>Properties\<close>


text \<open>An interrupted transport with a fixed port is never assigned. The port is pushed before it is
  recorded. When the repository works, the run gets that far and the status can not be stored, the
  port is open, every later run finds it taken, whatever else succeeds, and the resource never gets it.
\<close>
theorem interrupted_transport_is_stuck:
  assumes "twTransports w req = Some r" and "stStatusPort r = 0" and "stSourcePort r \<noteq> 0"
    and "teKube E KGet ''servicetransports'' = None" and "teKube E KUpdateStatus ''servicetransports'' = Some e"
    and "release_of R E r w addr path d m" and "remote_works R addr path (twRemote w)"
    and "port_target d (to_lower (stProtocol r)) (itoa (stSourcePort r)) = None"
  shows "\<exists>w'. st_Reconcile R req E w = Some (w', Some e)
    \<and> (\<exists>d'. remote_doc R addr path (twRemote w') = Inr d'
        \<and> port_target d' (to_lower (stProtocol r)) (itoa (stSourcePort r)) = Some (JStr (transport_dest req r)))
    \<and> (\<forall>Es E'. \<not> st_assigned req (retries (st_run R req) Es w')
        \<and> snd (st_run R req E' (retries (st_run R req) Es w')) \<noteq> None)"
proof -
  let ?p = "stSourcePort r" and ?pr = "to_lower (stProtocol r)"
  from assms(6) have pp: "protocol_ports ?pr d = Inr m" by (simp add: release_of_def)
  have ch: "choose_port m E ?p = Some (Inr ?p)"
    using assms(3,8) put_protocol_port(1)[OF pp] by (simp add: choose_port_def)
  from publish_port_works[OF assms(1,2,4,6,7) ch] obtain g d' where
    run: "st_Reconcile R req E w = Some (case kube_update_status (teKube E) ''servicetransports'' req
        (r\<lparr>stStatusPort := ?p\<rparr>) (twTransports w) of (ts, x) \<Rightarrow> (w\<lparr>twRemote := g, twTransports := ts\<rparr>, x))"
    and d': "remote_doc R addr path g = Inr d'"
      "d' = put_port_map ?pr (obj_put (itoa ?p) (JStr (transport_dest req r)) m) d" by blast
  let ?w = "w\<lparr>twRemote := g\<rparr>"
  have r: "st_Reconcile R req E w = Some (?w, Some e)" using run assms(5) by (simp add: kube_update_status_def)
  from assms(6) obtain rel where rel: "twReleases w (stIngressClassName r) = [rel]" "extractRepoInfo rel = Inr (addr, path)"
    by (auto simp: release_of_def find_release_def split: option.splits list.splits)
  from pp have "is_obj m" by (rule protocol_ports_Inr)
  then have "obj_get (itoa ?p) (obj_put (itoa ?p) (JStr (transport_dest req r)) m) \<noteq> None" by (simp add: obj_get_put)
  with assms(1-3) rel d' put_protocol_port(4)[OF pp] have "st_spent R req ?w" by (auto simp: st_spent_def)
  from st.never_settles[OF this] r d' put_protocol_port(2)[OF pp] show ?thesis
    by (intro exI[of _ ?w]) auto
qed

section \<open>Witnesses\<close>

text \<open>A server with one document per address and path; a clone is the server itself.\<close>

definition example_remotes :: "(string \<rightharpoonup> json, string \<rightharpoonup> json) remotes" where
  "example_remotes = \<lparr>rmClone = (\<lambda>_. Inr),
     rmRead = (\<lambda>p c. case c p of None \<Rightarrow> Inl ''no file'' | Some d \<Rightarrow> Inr d),
     rmWrite = (\<lambda>p d c. (c(p \<mapsto> d), None)), rmPush = (\<lambda>_ _ c _. (c, None))\<rparr>"

definition example_transport :: ServiceTransport where
  "example_transport = \<lparr>stPort = 25, stSourcePort = 2525, stProtocol = ''TCP'', stService = ''mail'',
     stIngressClassName = ''pub'', stStatusPort = 0\<rparr>"

definition example_helm :: json where
  "example_helm = JObj [(''metadata'', JObj [(''annotations'', JObj [(''dodo.cloud/releaseSourceRepo'', JStr ''a''),
     (''dodo.cloud/releasePath'', JStr ''p'')])])]"

definition example_helm_doc :: json where
  "example_helm_doc = JObj [(''spec'', JObj [(''values'', JObj [])])]"

definition example_trworld :: "(string \<rightharpoonup> json) trworld" where
  "example_trworld = \<lparr>twTransports = [(''n'', ''t'') \<mapsto> example_transport],
     twReleases = (\<lambda>c. if c = ''pub'' then [example_helm] else []), twRemote = [''p'' \<mapsto> example_helm_doc]\<rparr>"

definition example_trenv :: "kube_faults \<Rightarrow> trenv" where
  "example_trenv F = \<lparr>teKube = F, teLabel = (\<lambda>_. None), teRand = id\<rparr>"

lemma example_transport_facts:
  "to_lower (stProtocol example_transport) = ''tcp''" "stSourcePort example_transport = 2525"
  "stStatusPort example_transport = 0" "twTransports example_trworld (''n'', ''t'') = Some example_transport"
  "port_target example_helm_doc ''tcp'' (itoa 2525) = None"
  by (simp_all add: example_transport_def example_trworld_def example_helm_doc_def port_target_def port_map_def values_of_def)
    code_simp

lemma example_release:
  assumes "F KList ''helmreleases'' = None"
  shows "release_of example_remotes (example_trenv F) example_transport example_trworld ''a'' ''p'' example_helm_doc (JObj [])"
  unfolding release_of_def example_transport_facts
  using assms
  by (simp add: example_trenv_def find_release_def example_trworld_def example_transport_def example_remotes_def
      remote_doc_def extractRepoInfo_def example_helm_def as_map_def as_string_def)
    (simp add: example_helm_doc_def protocol_ports_def as_map_def)

lemma example_remote_works: "remote_works example_remotes a p g"
  by (simp add: remote_works_def example_remotes_def remote_doc_def)


theorem interrupted_transport_is_stuck_witness:
  "let E = example_trenv (\<lambda>v k. if v = KUpdateStatus then Some ''timeout'' else None);
       w' = fst (st_run example_remotes (''n'', ''t'') E example_trworld)
   in \<forall>Es. \<not> st_assigned (''n'', ''t'') (retries (st_run example_remotes (''n'', ''t'')) Es w')"
proof -
  let ?F = "\<lambda>v k. if v = KUpdateStatus then Some ''timeout'' else None"
  have "teKube (example_trenv ?F) KGet ''servicetransports'' = None"
    "teKube (example_trenv ?F) KUpdateStatus ''servicetransports'' = Some ''timeout''"
    by (simp_all add: example_trenv_def)
  from interrupted_transport_is_stuck[OF example_transport_facts(4,3) _ this example_release example_remote_works]
  obtain w' where w': "st_Reconcile example_remotes (''n'', ''t'') (example_trenv ?F) example_trworld = Some (w', Some ''timeout'')"
    "\<forall>Es. \<not> st_assigned (''n'', ''t'') (retries (st_run example_remotes (''n'', ''t'')) Es w')"
    unfolding example_transport_facts(1,2) using example_transport_facts(5) by force
  then show ?thesis by (simp add: Let_def st_run_def[of _ _ "example_trenv ?F" example_trworld])
qed

end
