(* ===== verification/Base64.thy ===== *)
theory Base64
  imports Json
begin

text \<open>
  Standard base64 (\<open>encoding/base64\<close>), in which \<open>encoding/json\<close> writes and reads byte slices. Bytes
  are characters. The decoder skips line breaks, wants the padding and ignores the bits that padding
  leaves over.
\<close>

section \<open>The alphabet\<close>

definition b64_alphabet :: string where
  "b64_alphabet = ''ABCDEFGHIJKLMNOPQRSTUVWXYZabcdefghijklmnopqrstuvwxyz0123456789+/''"

definition b64_char :: "nat \<Rightarrow> char" where
  "b64_char n = b64_alphabet ! n"

fun find_pos :: "char \<Rightarrow> string \<Rightarrow> nat option" where
  "find_pos c [] = None"
| "find_pos c (d # ds) = (if c = d then Some 0 else map_option Suc (find_pos c ds))"

definition b64_val :: "char \<Rightarrow> nat option" where
  "b64_val c = find_pos c b64_alphabet"

lemma b64_alphabet_ok:
  "\<forall>n \<in> set [0..<64]. b64_val (b64_char n) = Some n \<and> b64_char n \<noteq> CHR ''='' \<and> b64_char n \<noteq> CHR 0x0A
     \<and> b64_char n \<noteq> CHR 0x0D"
  by code_simp

lemma b64_char_ok [simp]:
  assumes "n < 64"
  shows "b64_val (b64_char n) = Some n" "b64_char n \<noteq> CHR ''=''" "b64_char n \<noteq> CHR 0x0A" "b64_char n \<noteq> CHR 0x0D"
  using b64_alphabet_ok assms by simp_all

section \<open>Encoding and decoding\<close>

definition byte_of :: "char \<Rightarrow> nat" where
  "byte_of c = of_char c"

definition b64_digit :: "nat \<Rightarrow> nat \<Rightarrow> char" where
  "b64_digit n i = b64_char (n div 64 ^ i mod 64)"

fun b64_encode :: "string \<Rightarrow> string" where
  "b64_encode [] = []"
| "b64_encode [a] = (let n = byte_of a * 65536 in [b64_digit n 3, b64_digit n 2, CHR ''='', CHR ''=''])"
| "b64_encode [a, b] =
     (let n = byte_of a * 65536 + byte_of b * 256 in [b64_digit n 3, b64_digit n 2, b64_digit n 1, CHR ''=''])"
| "b64_encode (a # b # c # s) =
     (let n = byte_of a * 65536 + byte_of b * 256 + byte_of c in
      [b64_digit n 3, b64_digit n 2, b64_digit n 1, b64_digit n 0] @ b64_encode s)"

definition b64_num :: "char list \<Rightarrow> nat option" where
  "b64_num cs = foldl (\<lambda>acc c. case acc of None \<Rightarrow> None
     | Some n \<Rightarrow> (case b64_val c of None \<Rightarrow> None | Some v \<Rightarrow> Some (64 * n + v))) (Some 0) cs"

definition b64_bytes :: "nat \<Rightarrow> string" where
  "b64_bytes n = [char_of (n div 65536), char_of (n div 256 mod 256), char_of (n mod 256)]"

fun b64_quads :: "string \<Rightarrow> string option" where
  "b64_quads [] = Some []"
| "b64_quads (p # q # r # t # s) =
     (if t = CHR ''='' \<and> s = [] then
        (if r = CHR ''='' then map_option (\<lambda>n. take 1 (b64_bytes (4096 * n))) (b64_num [p, q])
         else map_option (\<lambda>n. take 2 (b64_bytes (64 * n))) (b64_num [p, q, r]))
      else
        (case b64_num [p, q, r, t] of
           None \<Rightarrow> None
         | Some n \<Rightarrow> map_option ((@) (b64_bytes n)) (b64_quads s)))"
| "b64_quads _ = None"

definition b64_decode :: "string \<Rightarrow> (string, string) result" where
  "b64_decode s =
     (case b64_quads (filter (\<lambda>c. c \<noteq> CHR 0x0A \<and> c \<noteq> CHR 0x0D) s) of
        None \<Rightarrow> Inl ''illegal base64 data''
      | Some t \<Rightarrow> Inr t)"

section \<open>Round trip\<close>

lemma byte_of_less [simp]: "byte_of c < 256"
  by (simp add: byte_of_def)

lemma char_of_byte [simp]: "char_of (byte_of c) = c"
  by (simp add: byte_of_def)

lemma b64_digit_ok [simp]:
  "b64_val (b64_digit n i) = Some (n div 64 ^ i mod 64)" "b64_digit n i \<noteq> CHR ''=''"
  "b64_digit n i \<noteq> CHR 0x0A" "b64_digit n i \<noteq> CHR 0x0D"
  by (simp_all add: b64_digit_def)

lemma b64_num_digits:
  "b64_num [b64_digit n 3, b64_digit n 2] = Some (n div 4096 mod 4096)"
  "b64_num [b64_digit n 3, b64_digit n 2, b64_digit n 1] = Some (n div 64 mod 262144)"
  "b64_num [b64_digit n 3, b64_digit n 2, b64_digit n 1, b64_digit n 0] = Some (n mod 16777216)"
proof -
  have d: "n div 262144 = n div 4096 div 64" "n div 4096 = n div 64 div 64" for n :: nat
    by (simp_all flip: div_mult2_eq)
  have m: "64 * (n div 64 mod k) + n mod 64 = n mod (64 * k)" for n k :: nat
    by (simp only: mod_mult2_eq)
  show "b64_num [b64_digit n 3, b64_digit n 2] = Some (n div 4096 mod 4096)"
    using m[of "n div 4096" 64] by (simp add: b64_num_def d(1))
  show "b64_num [b64_digit n 3, b64_digit n 2, b64_digit n 1] = Some (n div 64 mod 262144)"
    using m[of "n div 4096" 64] m[of "n div 64" 4096] by (simp add: b64_num_def d)
  show "b64_num [b64_digit n 3, b64_digit n 2, b64_digit n 1, b64_digit n 0] = Some (n mod 16777216)"
    using m[of "n div 4096" 64] m[of "n div 64" 4096] m[of n 262144] by (simp add: b64_num_def d)
qed

lemma b64_bytes_sum:
  assumes "x < 256" "y < 256" "z < 256"
  shows "b64_bytes (x * 65536 + y * 256 + z) = [char_of x, char_of y, char_of z]"
proof -
  have "(x * 65536 + y * 256 + z) div 65536 = x" "(x * 65536 + y * 256 + z) div 256 = x * 256 + y"
    using assms by (auto intro!: div_nat_eqI)
  moreover have "(x * 65536 + y * 256 + z) mod 256 = (z + (x * 256 + y) * 256) mod 256" by (simp add: algebra_simps)
  moreover have "\<dots> = z" using assms(3) by (simp only: mod_mult_self1 mod_less)
  moreover have "(x * 256 + y) mod 256 = y" using assms(2) by simp
  ultimately show ?thesis by (simp add: b64_bytes_def)
qed

lemma b64_quads_encode: "b64_quads (b64_encode s) = Some s"
proof (induction s rule: b64_encode.induct)
  case 1
  show ?case by simp
next
  case (2 a)
  let ?n = "byte_of a * 65536"
  have "4096 * (?n div 4096 mod 4096) = byte_of a * 65536 + 0 * 256 + 0"
    using mod_less[of "byte_of a * 16" 4096] byte_of_less[of a] by simp
  then show ?case using b64_bytes_sum[of "byte_of a" 0 0] by (simp add: Let_def b64_num_digits mult.commute)
next
  case (3 a b)
  let ?n = "byte_of a * 65536 + byte_of b * 256"
  have "64 * (?n div 64 mod 262144) = byte_of a * 65536 + byte_of b * 256 + 0"
  proof -
    have "1024 * byte_of a + 4 * byte_of b < 262144" using byte_of_less[of a] byte_of_less[of b] by linarith
    then show ?thesis using div_nat_eqI[of 64 "1024 * byte_of a + 4 * byte_of b" ?n] by simp
  qed
  then show ?case using b64_bytes_sum[of "byte_of a" "byte_of b" 0] by (simp add: Let_def b64_num_digits[unfolded One_nat_def] mult.commute)
next
  case (4 a b c s)
  let ?n = "byte_of a * 65536 + byte_of b * 256 + byte_of c"
  have "?n mod 16777216 = ?n" using byte_of_less[of a] byte_of_less[of b] byte_of_less[of c] by (intro mod_less) linarith
  with 4 show ?case by (simp add: Let_def b64_num_digits[unfolded One_nat_def] b64_bytes_sum)
qed

lemma b64_encode_no_breaks: "filter (\<lambda>c. c \<noteq> CHR 0x0A \<and> c \<noteq> CHR 0x0D) (b64_encode s) = b64_encode s"
  by (induction s rule: b64_encode.induct) (simp_all add: Let_def)

lemma b64_decode_encode [simp]: "b64_decode (b64_encode s) = Inr s"
  by (simp add: b64_decode_def b64_encode_no_breaks b64_quads_encode)

lemma b64_encode_Nil [simp]: "b64_encode s = [] \<longleftrightarrow> s = []"
  by (cases s rule: b64_encode.cases) (simp_all add: Let_def)

section \<open>Byte slices in documents\<close>

text \<open>A slice is \<open>None\<close> when it is nil. An array of small numbers is accepted as well.\<close>

fun decode_byte :: "char decoder" where
  "decode_byte (JNum i) c = (if 0 \<le> i \<and> i < 256 then Inr (char_of (nat i)) else Inl typeMismatch)"
| "decode_byte JNull c = Inr c"
| "decode_byte _ c = Inl typeMismatch"

fun decode_bytes :: "string option decoder" where
  "decode_bytes (JStr s) a = bindE (b64_decode s) (\<lambda>b. Inr (Some b))"
| "decode_bytes (JArr vs) a =
     bindE (decode_elems decode_byte (CHR 0x00) vs (case a of None \<Rightarrow> [] | Some b \<Rightarrow> b)) (\<lambda>b. Inr (Some b))"
| "decode_bytes JNull a = Inr None"
| "decode_bytes _ a = Inl typeMismatch"

definition encode_bytes :: "string option \<Rightarrow> json" where
  "encode_bytes b = (case b of None \<Rightarrow> JNull | Some s \<Rightarrow> JStr (b64_encode s))"

lemma decode_encode_bytes [simp]: "decode_bytes (encode_bytes b) a = Inr b"
  by (cases b) (simp_all add: encode_bytes_def)

end
