(* ===== verification/NebulaCert.thy ===== *)
theory NebulaCert
  imports Base64 EnvNetwork
begin

text \<open>
  Certificates of the Nebula network (\<open>src/core/nebula/api/nebula.go\<close>, and \<open>processCA\<close> and
  \<open>processNode\<close> of \<open>api/main.go\<close>). Keys and texts are byte strings, times are nanoseconds. The
  cryptography and the certificate format are third-party code: fields of \<open>certlib\<close>.
\<close>

unbundle bit_operations_syntax

section \<open>Networks\<close>

text \<open>
  \<open>net.ParseCIDR\<close>: the address and the network it is in, which is the address with the host bits
  cleared. Decimal fields of an IPv4 address have no leading zeros. IPv6 is given by a parameter.
\<close>

type_synonym ipnet = "IP \<times> nat"

definition is_digit :: "char \<Rightarrow> bool" where
  "is_digit c \<longleftrightarrow> CHR ''0'' \<le> c \<and> c \<le> CHR ''9''"

definition parse_octet :: "string \<Rightarrow> byte option" where
  "parse_octet s =
     (if s = [] \<or> \<not> list_all is_digit s \<or> (1 < length s \<and> hd s = CHR ''0'') \<or> 3 < length s \<or> 255 < undigits s then None
      else Some (of_nat (undigits s)))"

definition parse_v4 :: "string \<Rightarrow> IP option" where
  "parse_v4 s =
     (case split_on (CHR ''.'') s of
        [a, b, c, d] \<Rightarrow>
          (case (parse_octet a, parse_octet b, parse_octet c, parse_octet d) of
             (Some w, Some x, Some y, Some z) \<Rightarrow> Some [w, x, y, z]
           | _ \<Rightarrow> None)
      | _ \<Rightarrow> None)"

fun CIDRMask :: "nat \<Rightarrow> nat \<Rightarrow> IP" where
  "CIDRMask ones 0 = []"
| "CIDRMask ones (Suc len) =
     (if 8 \<le> ones then 255 # CIDRMask (ones - 8) len
      else NOT (drop_bit ones 255) # CIDRMask 0 len)"

definition mask_ip :: "nat \<Rightarrow> IP \<Rightarrow> IP" where
  "mask_ip n ip = map2 (AND) ip (CIDRMask n (length ip))"

definition cidrError :: string where "cidrError = ''invalid CIDR address''"

definition ParseCIDR :: "(string \<Rightarrow> IP option) \<Rightarrow> string \<Rightarrow> (string, IP \<times> ipnet) result" where
  "ParseCIDR p6 s =
     (case split_on (CHR ''/'') s of
        a # m # ms \<Rightarrow>
          (let mask = join_with ''/'' (m # ms) in
           case (if CHR '':'' \<in> set a then p6 a else parse_v4 a) of
             None \<Rightarrow> Inl cidrError
           | Some ip \<Rightarrow>
               if mask = [] \<or> \<not> list_all is_digit mask \<or> 8 * length ip < undigits mask then Inl cidrError
               else Inr (ip, (mask_ip (undigits mask) ip, undigits mask)))
      | _ \<Rightarrow> Inl cidrError)"

section \<open>Certificates\<close>

record NebulaCertificate =
  ncName :: string
  ncIps :: "ipnet list"
  ncNotBefore :: int
  ncNotAfter :: int
  ncPublicKey :: string
  ncIsCA :: bool
  ncIssuer :: string
  ncSignature :: string

record certlib =
  clSign :: "NebulaCertificate \<Rightarrow> string \<Rightarrow> (string, NebulaCertificate) result"
  clMarshal :: "NebulaCertificate \<Rightarrow> (string, string) result"
  clUnmarshal :: "string \<Rightarrow> (string, NebulaCertificate) result"
  clMarshalEd :: "string \<Rightarrow> string"
  clUnmarshalEd :: "string \<Rightarrow> (string, string) result"
  clMarshalX :: "string \<Rightarrow> string"
  clUnmarshalX :: "string \<Rightarrow> (string, string) result"
  clXPub :: "string \<Rightarrow> string"
  clVerifyKey :: "NebulaCertificate \<Rightarrow> string \<Rightarrow> string option"
  clSha :: "NebulaCertificate \<Rightarrow> (string, string) result"
  clExpired :: "NebulaCertificate \<Rightarrow> int \<Rightarrow> bool"
  clCheckRoot :: "NebulaCertificate \<Rightarrow> NebulaCertificate \<Rightarrow> string option"
  clEdSign :: "string \<Rightarrow> string \<Rightarrow> (string, string) result"
  clEdPub :: "string \<Rightarrow> string"
  clEdVerify :: "string \<Rightarrow> string \<Rightarrow> string \<Rightarrow> bool"
  clParse6 :: "string \<Rightarrow> IP option"

text \<open>What a call draws from the random source and the clock.\<close>

record draws =
  drEdKey :: "(string, string \<times> string) result"
  drXPriv :: "(string, string) result"
  drNow :: int
  drNow' :: int

definition second :: int where "second = 1000000000"

definition CreateCertificateAuthority :: "certlib \<Rightarrow> draws \<Rightarrow> string \<Rightarrow> (string, string \<times> string) result" where
  "CreateCertificateAuthority L D name =
     (let t = drNow D - second in
      bindE (drEdKey D) (\<lambda>(rawPub, rawPriv).
      bindE (clSign L \<lparr>ncName = name, ncIps = [], ncNotBefore = t, ncNotAfter = t + 8760 * 3600 * second,
          ncPublicKey = rawPub, ncIsCA = True, ncIssuer = [], ncSignature = []\<rparr> rawPriv) (\<lambda>nc.
      bindE (clMarshal L nc) (\<lambda>certSerialized.
        Inr (clMarshalEd L rawPriv, certSerialized)))))"

definition x25519Keypair :: "certlib \<Rightarrow> draws \<Rightarrow> (string, string \<times> string) result" where
  "x25519Keypair L D = bindE (drXPriv D) (\<lambda>privkey. Inr (clXPub L privkey, privkey))"

text \<open>The key of the node, and the serialized private key when the node has not sent one.\<close>

definition node_keys :: "certlib \<Rightarrow> draws \<Rightarrow> string option \<Rightarrow> (string, string \<times> string) result" where
  "node_keys L D nodePublicKey =
     (case nodePublicKey of
        Some k \<Rightarrow> bindE (clUnmarshalX L k) (\<lambda>pub. Inr (pub, []))
      | None \<Rightarrow> bindE (x25519Keypair L D) (\<lambda>(pub, rawPriv). Inr (pub, clMarshalX L rawPriv)))"

definition SignNebulaNode ::
    "certlib \<Rightarrow> draws \<Rightarrow> string \<Rightarrow> string \<Rightarrow> string \<Rightarrow> string option \<Rightarrow> ipnet \<Rightarrow> (string, string \<times> string) result" where
  "SignNebulaNode L D rawCAPrivateKey rawCACert nodeName nodePublicKey ip =
     bindE (clUnmarshalEd L rawCAPrivateKey) (\<lambda>caKey.
     bindE (clUnmarshal L rawCACert) (\<lambda>caCert.
     case clVerifyKey L caCert caKey of
       Some e \<Rightarrow> Inl e
     | None \<Rightarrow>
         bindE (clSha L caCert) (\<lambda>issuer.
         if clExpired L caCert (drNow D) then Inl ''ca certificate is expired''
         else
           bindE (node_keys L D nodePublicKey) (\<lambda>(pub, priv).
           let nc = \<lparr>ncName = nodeName, ncIps = [ip], ncNotBefore = drNow' D - second,
                 ncNotAfter = ncNotAfter caCert - second, ncPublicKey = pub, ncIsCA = False, ncIssuer = issuer,
                 ncSignature = []\<rparr>
           in case clCheckRoot L nc caCert of
                Some e \<Rightarrow> Inl e
              | None \<Rightarrow>
                  bindE (clSign L nc caKey) (\<lambda>nc'.
                  bindE (clMarshal L nc') (\<lambda>certSerialized.
                    Inr (priv, certSerialized)))))))"

section \<open>The handlers\<close>

text \<open>An answer is a status with a document or a text.\<close>

datatype api_body = Doc json | Text string

type_synonym api_answer = "nat \<times> api_body"

definition http_Error :: "string \<Rightarrow> nat \<Rightarrow> api_answer" where
  "http_Error e code = (code, Text (e @ [CHR 0x0A]))"

definition bytes_of :: "string option \<Rightarrow> string" where
  "bytes_of b = (case b of None \<Rightarrow> [] | Some s \<Rightarrow> s)"

definition processCA :: "certlib \<Rightarrow> draws \<Rightarrow> (string, json) result \<Rightarrow> api_answer" where
  "processCA L D body =
     (case bindE body (\<lambda>d. decode_struct [''name'' \<mapsto> decode_string] d []) of
        Inl e \<Rightarrow> http_Error e StatusBadRequest
      | Inr name \<Rightarrow>
          (case CreateCertificateAuthority L D name of
             Inl e \<Rightarrow> http_Error e StatusInternalServerError
           | Inr (priv, crt) \<Rightarrow>
               (StatusOK, Doc (JObj [(''private_key'', encode_bytes (Some priv)), (''certificate'', encode_bytes (Some crt))]))))"

record processNodeReq =
  pnCAPrivateKey :: "string option"
  pnCACert :: "string option"
  pnNodeName :: string
  pnNodePublicKey :: "string option"
  pnNodeIPCidr :: string

definition decode_processNodeReq :: "processNodeReq decoder" where
  "decode_processNodeReq = decode_struct
     [''ca_private_key'' \<mapsto> on_field pnCAPrivateKey pnCAPrivateKey_update decode_bytes,
      ''ca_certificate'' \<mapsto> on_field pnCACert pnCACert_update decode_bytes,
      ''node_name'' \<mapsto> on_field pnNodeName pnNodeName_update decode_string,
      ''node_public_key'' \<mapsto> on_field pnNodePublicKey pnNodePublicKey_update decode_bytes,
      ''node_ip_cidr'' \<mapsto> on_field pnNodeIPCidr pnNodeIPCidr_update decode_string]"

definition empty_processNodeReq :: processNodeReq where
  "empty_processNodeReq = \<lparr>pnCAPrivateKey = None, pnCACert = None, pnNodeName = [], pnNodePublicKey = None, pnNodeIPCidr = []\<rparr>"

text \<open>A private key is left out when it is empty.\<close>

definition encode_NebulaNode :: "string \<times> string \<Rightarrow> json" where
  "encode_NebulaNode n = (case n of (priv, crt) \<Rightarrow>
     JObj ((if priv = [] then [] else [(''private_key'', encode_bytes (Some priv))]) @
       [(''certificate'', encode_bytes (Some crt))]))"

definition processNode :: "certlib \<Rightarrow> draws \<Rightarrow> (string, json) result \<Rightarrow> api_answer" where
  "processNode L D body =
     (case bindE body (\<lambda>d. decode_processNodeReq d empty_processNodeReq) of
        Inl e \<Rightarrow> http_Error e StatusBadRequest
      | Inr req \<Rightarrow>
          (case ParseCIDR (clParse6 L) (pnNodeIPCidr req) of
             Inl e \<Rightarrow> http_Error e StatusBadRequest
           | Inr (_, ipNet) \<Rightarrow>
               (case SignNebulaNode L D (bytes_of (pnCAPrivateKey req)) (bytes_of (pnCACert req)) (pnNodeName req)
                   (pnNodePublicKey req) ipNet of
                  Inl e \<Rightarrow> http_Error e StatusBadRequest
                | Inr node \<Rightarrow> (StatusOK, Doc (encode_NebulaNode node)))))"

end
