(* ===== verification/NebulaApi.thy ===== *)
theory NebulaApi
  imports NebulaCert Kube
begin

text \<open>
  The API of the Nebula network: the manager (\<open>src/core/nebula/api/manager.go\<close>) and the handlers
  (\<open>api/main.go\<close>) that list, create and configure its nodes. Authorities, nodes and their secrets are
  Kubernetes objects; whatever happens in the cluster while a handler waits is a sequence of worlds.
\<close>

section \<open>Resources\<close>

text \<open>The states and messages of \<open>NebulaCAStatus\<close> and \<open>NebulaNodeStatus\<close>.\<close>

datatype nstate = NoState | Creating | Ready | Error

record NebulaCA =
  caSecretName :: string
  caState :: nstate
  caMessage :: string

record NebulaNode =
  nnCAName :: string
  nnCANamespace :: string
  nnIPCidr :: string
  nnPubKey :: string
  nnEncPubKey :: string
  nnSecretName :: string
  nnState :: nstate
  nnMessage :: string

type_synonym secret = "string \<rightharpoonup> string"

record nworld =
  nwCAs :: "NebulaCA objects"
  nwNodes :: "NebulaNode objects"
  nwSecrets :: "secret objects"

section \<open>The manager\<close>

text \<open>The template of the configuration, copying it, and printing a configuration as YAML.\<close>

record Manager =
  mgNamespace :: string
  mgCaName :: string
  mgCfgTmpl :: json
  mgCopy :: "json \<Rightarrow> (string, json) result"
  mgYaml :: "json \<Rightarrow> (string, string) result"

record nebulaNode =
  lnName :: string
  lnNamespace :: string
  lnIP :: string

record nebulaCA =
  laName :: string
  laNamespace :: string
  laNodes :: "nebulaNode list"

fun add_node :: "kube_key \<times> NebulaNode \<Rightarrow> nebulaCA list \<Rightarrow> nebulaCA list" where
  "add_node (k, node) cas =
     map (\<lambda>ca. if laName ca = nnCAName node
       then ca\<lparr>laNodes := laNodes ca @ [\<lparr>lnName = snd k, lnNamespace = fst k, lnIP = nnIPCidr node\<rparr>]\<rparr> else ca) cas"

text \<open>The arguments are the answers of the two calls that list the authorities and the nodes.\<close>

definition ListAll ::
    "(string, (kube_key \<times> NebulaCA) list) result \<Rightarrow> (string, (kube_key \<times> NebulaNode) list) result \<Rightarrow>
     (string, nebulaCA list) result" where
  "ListAll cas nodes =
     bindE cas (\<lambda>cs.
     bindE nodes (\<lambda>ns.
       Inr (fold add_node ns (map (\<lambda>(k, ca). \<lparr>laName = snd k, laNamespace = fst k, laNodes = []\<rparr>) cs))))"

definition new_node :: "string \<Rightarrow> string \<Rightarrow> string \<Rightarrow> string \<Rightarrow> string \<Rightarrow> string option \<Rightarrow> NebulaNode" where
  "new_node name caNamespace caName ipCidr pubKey encPubKey =
     \<lparr>nnCAName = caName, nnCANamespace = caNamespace, nnIPCidr = ipCidr, nnPubKey = pubKey,
      nnEncPubKey = (case encPubKey of None \<Rightarrow> [] | Some k \<Rightarrow> b64_encode k), nnSecretName = name @ ''-cert'',
      nnState = NoState, nnMessage = []\<rparr>"

definition CreateNode ::
    "kube_faults \<Rightarrow> string \<Rightarrow> string \<Rightarrow> string \<Rightarrow> string \<Rightarrow> string \<Rightarrow> string \<Rightarrow> string option \<Rightarrow> nworld \<Rightarrow> nworld \<times> string option" where
  "CreateNode F namespace name caNamespace caName ipCidr pubKey encPubKey w =
     (case kube_create F ''nebulanodes'' (namespace, name) (new_node name caNamespace caName ipCidr pubKey encPubKey)
         (nwNodes w) of
        (ns, r) \<Rightarrow> (w\<lparr>nwNodes := ns\<rparr>, r))"

definition getCASecret :: "kube_faults \<Rightarrow> string \<Rightarrow> string \<Rightarrow> nworld \<Rightarrow> (string, secret) result" where
  "getCASecret F namespace name w =
     bindE (kube_get F ''nebulacas'' (namespace, name) (nwCAs w)) (\<lambda>ca.
       kube_get F ''secrets'' (namespace, caSecretName ca) (nwSecrets w))"

definition getNodeSecret :: "kube_faults \<Rightarrow> string \<Rightarrow> string \<Rightarrow> nworld \<Rightarrow> (string, secret) result" where
  "getNodeSecret F namespace name w =
     bindE (kube_get F ''nebulanodes'' (namespace, name) (nwNodes w)) (\<lambda>node.
       kube_get F ''secrets'' (namespace, nnSecretName node) (nwSecrets w))"

text \<open>\<open>None\<close> is the panic of a template without an object \<open>pki\<close>.\<close>

definition GetNodeConfig :: "Manager \<Rightarrow> kube_faults \<Rightarrow> string \<Rightarrow> string \<Rightarrow> nworld \<Rightarrow> (string, json) result option" where
  "GetNodeConfig M F namespace name w =
     (case getNodeSecret F namespace name w of
        Inl e \<Rightarrow> Some (Inl e)
      | Inr secret \<Rightarrow>
          (case mgCopy M (mgCfgTmpl M) of
             Inl e \<Rightarrow> Some (Inl e)
           | Inr c \<Rightarrow>
               (case obj_get ''pki'' c of
                  None \<Rightarrow> None
                | Some pki \<Rightarrow>
                    if \<not> is_obj pki then None
                    else Some (Inr (obj_put ''pki''
                      (obj_put ''cert'' (JStr (bytes_of (secret ''host.crt'')))
                        (obj_put ''ca'' (JStr (bytes_of (secret ''ca.crt''))) pki)) c)))))"

definition GetNodeCertQR :: "kube_faults \<Rightarrow> string \<Rightarrow> string \<Rightarrow> nworld \<Rightarrow> (string, string) result" where
  "GetNodeCertQR F namespace name w = bindE (getNodeSecret F namespace name w) (\<lambda>s. Inr (bytes_of (s ''host.png'')))"

definition GetCACertQR :: "kube_faults \<Rightarrow> string \<Rightarrow> string \<Rightarrow> nworld \<Rightarrow> (string, string) result" where
  "GetCACertQR F namespace name w = bindE (getCASecret F namespace name w) (\<lambda>s. Inr (bytes_of (s ''ca.png'')))"

definition ca_key :: "certlib \<Rightarrow> Manager \<Rightarrow> kube_faults \<Rightarrow> nworld \<Rightarrow> (string, string) result" where
  "ca_key L M F w =
     bindE (getCASecret F (mgNamespace M) (mgCaName M) w) (\<lambda>secret.
       clUnmarshalEd L (bytes_of (secret ''ca.key'')))"

definition Sign :: "certlib \<Rightarrow> Manager \<Rightarrow> kube_faults \<Rightarrow> string \<Rightarrow> nworld \<Rightarrow> (string, string) result" where
  "Sign L M F message w = bindE (ca_key L M F w) (\<lambda>edPriv. clEdSign L edPriv message)"

definition VerifySignature :: "certlib \<Rightarrow> Manager \<Rightarrow> kube_faults \<Rightarrow> string \<Rightarrow> string \<Rightarrow> nworld \<Rightarrow> (string, bool) result" where
  "VerifySignature L M F message signature w =
     bindE (ca_key L M F w) (\<lambda>edPriv. Inr (clEdVerify L (clEdPub L edPriv) message signature))"

definition GetNodeEncryptionPublicKey ::
    "(string \<Rightarrow> (string, 'k) result) \<Rightarrow> kube_faults \<Rightarrow> string \<Rightarrow> string \<Rightarrow> nworld \<Rightarrow> (string, 'k) result" where
  "GetNodeEncryptionPublicKey parsePKCS1 F namespace name w =
     bindE (kube_get F ''nebulanodes'' (namespace, name) (nwNodes w)) (\<lambda>node.
     bindE (b64_decode (nnEncPubKey node)) (\<lambda>k.
       parsePKCS1 k))"

section \<open>The handlers\<close>

text \<open>What the page template writes, and its error.\<close>

definition nebula_handleIndex ::
    "(nebulaCA list \<Rightarrow> string \<times> string option) \<Rightarrow> (string, (kube_key \<times> NebulaCA) list) result \<Rightarrow>
     (string, (kube_key \<times> NebulaNode) list) result \<Rightarrow> api_answer" where
  "nebula_handleIndex page cas nodes =
     (case ListAll cas nodes of
        Inl e \<Rightarrow> http_Error e StatusInternalServerError
      | Inr l \<Rightarrow>
          (case page l of
             (out, None) \<Rightarrow> (StatusOK, Text out)
           | (out, Some e) \<Rightarrow>
               (if out = [] then StatusInternalServerError else StatusOK, Text (out @ e @ [CHR 0x0A]))))"

text \<open>After an error the handlers go on and write the image, which is nil then.\<close>

definition handleNode :: "kube_faults \<Rightarrow> string \<Rightarrow> string \<Rightarrow> nworld \<Rightarrow> api_answer" where
  "handleNode F namespace name w =
     (case GetNodeCertQR F namespace name w of
        Inl e \<Rightarrow> (StatusInternalServerError, Text (e @ [CHR 0x0A] @ []))
      | Inr qr \<Rightarrow> (StatusOK, Text qr))"

definition handleCA :: "kube_faults \<Rightarrow> string \<Rightarrow> string \<Rightarrow> nworld \<Rightarrow> api_answer" where
  "handleCA F namespace name w =
     (case GetCACertQR F namespace name w of
        Inl e \<Rightarrow> (StatusInternalServerError, Text (e @ [CHR 0x0A] @ []))
      | Inr qr \<Rightarrow> (StatusOK, Text qr))"

definition api_sign :: "certlib \<Rightarrow> Manager \<Rightarrow> kube_faults \<Rightarrow> (string, json) result \<Rightarrow> nworld \<Rightarrow> api_answer" where
  "api_sign L M F body w =
     (case bindE body (\<lambda>d. decode_struct [''message'' \<mapsto> decode_bytes] d None) of
        Inl e \<Rightarrow> http_Error e StatusBadRequest
      | Inr message \<Rightarrow>
          (case Sign L M F (bytes_of message) w of
             Inl e \<Rightarrow> http_Error e StatusInternalServerError
           | Inr signature \<Rightarrow> (StatusOK, Doc (JObj [(''signature'', encode_bytes (Some signature))]))))"

record joinReq =
  jrMessage :: "string option"
  jrSignature :: "string option"
  jrName :: string
  jrPublicKey :: "string option"
  jrIPCidr :: string

definition decode_joinReq :: "json \<Rightarrow> (string, joinReq) result" where
  "decode_joinReq d = decode_struct
     [''message'' \<mapsto> on_field jrMessage jrMessage_update decode_bytes,
      ''signature'' \<mapsto> on_field jrSignature jrSignature_update decode_bytes,
      ''name'' \<mapsto> on_field jrName jrName_update decode_string,
      ''public_key'' \<mapsto> on_field jrPublicKey jrPublicKey_update decode_bytes,
      ''ip_cidr'' \<mapsto> on_field jrIPCidr jrIPCidr_update decode_string] d
     \<lparr>jrMessage = None, jrSignature = None, jrName = [], jrPublicKey = None, jrIPCidr = []\<rparr>"

text \<open>The part of \<open>join\<close> up to its loop: an answer, or the name of the node it goes on to wait for.\<close>

definition join_create ::
    "certlib \<Rightarrow> Manager \<Rightarrow> kube_faults \<Rightarrow> (string, json) result \<Rightarrow> nworld \<Rightarrow> nworld \<times> (api_answer, string) result" where
  "join_create L M F body w =
     (case bindE body decode_joinReq of
        Inl e \<Rightarrow> (w, Inl (http_Error e StatusBadRequest))
      | Inr req \<Rightarrow>
          (case VerifySignature L M F (bytes_of (jrMessage req)) (bytes_of (jrSignature req)) w of
             Inl e \<Rightarrow> (w, Inl (http_Error e StatusInternalServerError))
           | Inr valid \<Rightarrow>
               if \<not> valid then (w, Inl (http_Error ''Signature could not be verified'' StatusBadRequest))
               else
                 (case CreateNode F (mgNamespace M) (jrName req) (mgNamespace M) (mgCaName M) (jrIPCidr req)
                     (bytes_of (jrPublicKey req)) None w of
                    (w', Some e) \<Rightarrow> (w', Inl (http_Error e StatusInternalServerError))
                  | (w', None) \<Rightarrow> (w', Inr (jrName req)))))"

text \<open>The cluster as a waiting handler sees it at its \<open>i\<close>th try.\<close>

type_synonym nweather = "nat \<Rightarrow> kube_faults \<times> nworld"

text \<open>The loop of \<open>join\<close> and \<open>get\<close>: it waits for the configuration; the inner \<open>None\<close> is a panic.\<close>

partial_function (option) wait_config :: "Manager \<Rightarrow> string \<Rightarrow> nweather \<Rightarrow> nat \<Rightarrow> json option option" where
  "wait_config M name W i =
     (case GetNodeConfig M (fst (W i)) (mgNamespace M) name (snd (W i)) of
        None \<Rightarrow> Some None
      | Some (Inl e) \<Rightarrow> wait_config M name W (i + 1)
      | Some (Inr cfg) \<Rightarrow> Some (Some cfg))"

text \<open>The rest of \<open>join\<close>: no answer when it waits forever or panics.\<close>

definition join_answer :: "Manager \<Rightarrow> string \<Rightarrow> nweather \<Rightarrow> api_answer option" where
  "join_answer M name W =
     (case wait_config M name W 0 of
        Some (Some cfg) \<Rightarrow>
          (case mgYaml M cfg of
             Inl e \<Rightarrow> Some (http_Error e StatusInternalServerError)
           | Inr cfgBytes \<Rightarrow> Some (StatusOK, Text (b64_encode cfgBytes)))
      | _ \<Rightarrow> None)"

text \<open>Encryption of an answer: the random source, AES in GCM mode and RSA with OAEP.\<close>

record 'k sealing =
  slKey :: "(string, string) result"
  slNonce :: "(string, string) result"
  slSeal :: "string \<Rightarrow> string \<Rightarrow> string \<Rightarrow> string"
  slOAEP :: "'k \<Rightarrow> string \<Rightarrow> (string, string) result"
  slParse :: "string \<Rightarrow> (string, 'k) result"

definition api_get :: "'k sealing \<Rightarrow> Manager \<Rightarrow> kube_faults \<Rightarrow> string \<Rightarrow> nworld \<Rightarrow> nweather \<Rightarrow> api_answer option" where
  "api_get S M F name w W =
     (case GetNodeEncryptionPublicKey (slParse S) F (mgNamespace M) name w of
        Inl e \<Rightarrow> Some (http_Error e StatusInternalServerError)
      | Inr pubKey \<Rightarrow>
          (case slKey S of
             Inl e \<Rightarrow> Some (http_Error e StatusInternalServerError)
           | Inr key \<Rightarrow>
               (case slNonce S of
                  Inl e \<Rightarrow> None
                | Inr nonce \<Rightarrow>
                    (case wait_config M name W 0 of
                       Some (Some cfg) \<Rightarrow>
                         (case bindE (mgYaml M cfg) (\<lambda>cfgBytes.
                             bindE (slOAEP S pubKey key) (\<lambda>keyEnc.
                             bindE (slOAEP S pubKey nonce) (\<lambda>nonceEnc.
                               Inr (keyEnc, nonceEnc, slSeal S key nonce cfgBytes)))) of
                            Inl e \<Rightarrow> Some (http_Error e StatusInternalServerError)
                          | Inr (keyEnc, nonceEnc, cfgEnc) \<Rightarrow>
                              Some (StatusOK, Doc (JObj [(''key'', encode_bytes (Some keyEnc)),
                                (''nonce'', encode_bytes (Some nonceEnc)), (''data'', encode_bytes (Some cfgEnc))])))
                     | _ \<Rightarrow> None))))"

record approveReq =
  arEncPublicKey :: "string option"
  arName :: string
  arNetPublicKey :: "string option"
  arIPCidr :: string

definition decode_approveReq :: "json \<Rightarrow> (string, approveReq) result" where
  "decode_approveReq d = decode_struct
     [''enc_public_key'' \<mapsto> on_field arEncPublicKey arEncPublicKey_update decode_bytes,
      ''name'' \<mapsto> on_field arName arName_update decode_string,
      ''net_public_key'' \<mapsto> on_field arNetPublicKey arNetPublicKey_update decode_bytes,
      ''ip_cidr'' \<mapsto> on_field arIPCidr arIPCidr_update decode_string] d
     \<lparr>arEncPublicKey = None, arName = [], arNetPublicKey = None, arIPCidr = []\<rparr>"

definition approve :: "Manager \<Rightarrow> kube_faults \<Rightarrow> (string, json) result \<Rightarrow> nworld \<Rightarrow> nworld \<times> api_answer" where
  "approve M F body w =
     (case bindE body decode_approveReq of
        Inl e \<Rightarrow> (w, http_Error e StatusBadRequest)
      | Inr req \<Rightarrow>
          (case CreateNode F (mgNamespace M) (arName req) (mgNamespace M) (mgCaName M) (arIPCidr req)
              (bytes_of (arNetPublicKey req)) (arEncPublicKey req) w of
             (w', Some e) \<Rightarrow> (w', http_Error e StatusInternalServerError)
           | (w', None) \<Rightarrow> (w', (StatusOK, Text []))))"

section \<open>Routes\<close>

definition name_char :: "char \<Rightarrow> bool" where
  "name_char c \<longleftrightarrow> (CHR ''a'' \<le> c \<and> c \<le> CHR ''z'') \<or> (CHR ''A'' \<le> c \<and> c \<le> CHR ''z'') \<or> is_digit c \<or> c = CHR ''-''"

definition name_seg :: "string \<Rightarrow> bool" where
  "name_seg s \<longleftrightarrow> s \<noteq> [] \<and> list_all name_char s"

datatype route =
    RSign | RJoin | RApprove | RGet string | RProcessCA | RProcessNode | RNode string string | RCA string string
  | RIndex | RNotFound

definition route_of :: "string \<Rightarrow> route" where
  "route_of path =
     (if path = ''/api/sign'' then RSign
      else if path = ''/api/join'' then RJoin
      else if path = ''/api/approve'' then RApprove
      else if path = ''/api/process/authority'' then RProcessCA
      else if path = ''/api/process/node'' then RProcessNode
      else if path = ''/'' then RIndex
      else
        (case split_on (CHR ''/'') path of
           [r, a, b, c] \<Rightarrow>
             if r = [] \<and> a = ''api'' \<and> b = ''get'' \<and> name_seg c then RGet c
             else if r = [] \<and> a = ''node'' \<and> name_seg b \<and> name_seg c then RNode b c
             else if r = [] \<and> a = ''ca'' \<and> name_seg b \<and> name_seg c then RCA b c
             else RNotFound
         | _ \<Rightarrow> RNotFound))"

definition not_found_answer :: api_answer where
  "not_found_answer = (StatusNotFound, Text (''404 page not found'' @ [CHR 0x0A]))"

text \<open>The environment of one request: the third-party code, the cluster's answers and its course.\<close>

record 'k apienv =
  aeLib :: certlib
  aeDraws :: draws
  aeMgr :: Manager
  aeFaults :: kube_faults
  aePage :: "nebulaCA list \<Rightarrow> string \<times> string option"
  aeCAs :: "(string, (kube_key \<times> NebulaCA) list) result"
  aeNodes :: "(string, (kube_key \<times> NebulaNode) list) result"
  aeSealing :: "'k sealing"
  aeWeather :: nweather

text \<open>No answer is a handler that panics or waits forever.\<close>

definition api_serve :: "'k apienv \<Rightarrow> string \<Rightarrow> (string, json) result \<Rightarrow> nworld \<Rightarrow> nworld \<times> api_answer option" where
  "api_serve V path body w =
     (case route_of path of
        RSign \<Rightarrow> (w, Some (api_sign (aeLib V) (aeMgr V) (aeFaults V) body w))
      | RJoin \<Rightarrow>
          (case join_create (aeLib V) (aeMgr V) (aeFaults V) body w of
             (w', Inl a) \<Rightarrow> (w', Some a)
           | (w', Inr name) \<Rightarrow> (w', join_answer (aeMgr V) name (aeWeather V)))
      | RApprove \<Rightarrow> (case approve (aeMgr V) (aeFaults V) body w of (w', a) \<Rightarrow> (w', Some a))
      | RGet name \<Rightarrow> (w, api_get (aeSealing V) (aeMgr V) (aeFaults V) name w (aeWeather V))
      | RProcessCA \<Rightarrow> (w, Some (processCA (aeLib V) (aeDraws V) body))
      | RProcessNode \<Rightarrow> (w, Some (processNode (aeLib V) (aeDraws V) body))
      | RNode namespace name \<Rightarrow> (w, Some (handleNode (aeFaults V) namespace name w))
      | RCA namespace name \<Rightarrow> (w, Some (handleCA (aeFaults V) namespace name w))
      | RIndex \<Rightarrow> (w, Some (nebula_handleIndex (aePage V) (aeCAs V) (aeNodes V)))
      | RNotFound \<Rightarrow> (w, Some not_found_answer))"

section \<open>Requests and the cluster\<close>

text \<open>A request creates at most one node, without a state, and changes nothing else.\<close>

lemma CreateNode_frame:
  assumes "CreateNode F ns name cns cn ip pk epk w = (w', r)"
  shows "nwCAs w' = nwCAs w \<and> nwSecrets w' = nwSecrets w
    \<and> (nwNodes w' = nwNodes w \<and> r \<noteq> None \<or> r = None \<and> nwNodes w (ns, name) = None
        \<and> nwNodes w' = (nwNodes w)((ns, name) \<mapsto> new_node name cns cn ip pk epk))"
  using assms
  by (cases rule: kube_create_cases[of F "''nebulanodes''" "(ns, name)" "new_node name cns cn ip pk epk" "nwNodes w"])
    (auto simp: CreateNode_def)

lemma join_create_frame:
  assumes "join_create L M F body w = (w', r)"
  shows "(\<exists>a. r = Inl a) \<and> w' = w \<or>
    (\<exists>req. bindE body decode_joinReq = Inr req \<and> r = Inr (jrName req)
      \<and> VerifySignature L M F (bytes_of (jrMessage req)) (bytes_of (jrSignature req)) w = Inr True
      \<and> CreateNode F (mgNamespace M) (jrName req) (mgNamespace M) (mgCaName M) (jrIPCidr req)
          (bytes_of (jrPublicKey req)) None w = (w', None))"
proof -
  have "w1 = w" if "CreateNode F ns name cns cn ip pk epk w = (w1, Some e)" for ns name cns cn ip pk epk w1 e
    using CreateNode_frame[OF that] by (cases w; cases w1) auto
  with assms show ?thesis
    by (auto simp: join_create_def split: sum.splits if_splits prod.splits option.splits)
qed

lemma api_serve_frame:
  assumes "api_serve V path body w = (w', r)"
  shows "nwCAs w' = nwCAs w \<and> nwSecrets w' = nwSecrets w
    \<and> (nwNodes w' = nwNodes w \<or> (\<exists>name ip pk epk. nwNodes w (mgNamespace (aeMgr V), name) = None
        \<and> nwNodes w' = (nwNodes w)((mgNamespace (aeMgr V), name) \<mapsto>
            new_node name (mgNamespace (aeMgr V)) (mgCaName (aeMgr V)) ip pk epk)))"
proof (cases "route_of path")
  case RJoin
  then obtain x where "join_create (aeLib V) (aeMgr V) (aeFaults V) body w = (w', x)"
    using assms by (auto simp: api_serve_def split: prod.splits sum.splits)
  from join_create_frame[OF this] show ?thesis by (auto dest!: CreateNode_frame)
next
  case RApprove
  with assms show ?thesis
    by (auto simp: api_serve_def approve_def split: sum.splits prod.splits option.splits dest!: CreateNode_frame)
qed (use assms in \<open>simp_all add: api_serve_def\<close>)

section \<open>Waiting\<close>

text \<open>The loop ends with the first configuration that can be read.\<close>

lemma wait_config_returns:
  assumes "GetNodeConfig M (fst (W (i + k))) (mgNamespace M) name (snd (W (i + k))) = Some (Inr cfg)"
    and "\<And>j. j < k \<Longrightarrow> \<exists>e. GetNodeConfig M (fst (W (i + j))) (mgNamespace M) name (snd (W (i + j))) = Some (Inl e)"
  shows "wait_config M name W i = Some (Some cfg)"
  using assms
proof (induction k arbitrary: i)
  case 0
  then show ?case by (subst wait_config.simps) simp
next
  case (Suc k)
  from Suc.prems(2)[of 0] obtain e where "GetNodeConfig M (fst (W i)) (mgNamespace M) name (snd (W i)) = Some (Inl e)" by auto
  moreover have "wait_config M name W (i + 1) = Some (Some cfg)"
    by (rule Suc.IH) (use Suc.prems(1) Suc.prems(2)[of "Suc _"] in auto)
  ultimately show ?case by (subst wait_config.simps) simp
qed

lemma wait_config_forever:
  assumes "\<And>i. \<exists>e. GetNodeConfig M (fst (W i)) (mgNamespace M) name (snd (W i)) = Some (Inl e)"
  shows "wait_config M name W i = None"
proof -
  have "\<not> (\<forall>i. \<exists>e. GetNodeConfig M (fst (W i)) (mgNamespace M) name (snd (W i)) = Some (Inl e))"
    if "wait_config M name W i = Some y" for M name W i y
  proof (rule wait_config.raw_induct[OF _ that], intro notI)
    fix f M name W i y
    assume ih: "\<And>M name W i y. f M name W i = Some y \<Longrightarrow>
        \<not> (\<forall>i. \<exists>e. GetNodeConfig M (fst (W i)) (mgNamespace M) name (snd (W i)) = Some (Inl e))"
      and eq: "(case GetNodeConfig M (fst (W i)) (mgNamespace M) name (snd (W i)) of None \<Rightarrow> Some None
        | Some (Inl e) \<Rightarrow> f M name W (i + 1) | Some (Inr cfg) \<Rightarrow> Some (Some cfg)) = Some y"
      and all: "\<forall>i. \<exists>e. GetNodeConfig M (fst (W i)) (mgNamespace M) name (snd (W i)) = Some (Inl e)"
    from all obtain e where "GetNodeConfig M (fst (W i)) (mgNamespace M) name (snd (W i)) = Some (Inl e)" by blast
    with eq have "f M name W (i + 1) = Some y" by simp
    from ih[OF this] all show False by blast
  qed
  with assms show ?thesis by (metis not_None_eq)
qed

end
