(* ===== verification/NebulaController.thy ===== *)
theory NebulaController
  imports NebulaApi
begin

text \<open>
  The controller of the Nebula network (\<open>src/core/nebula/controller/controllers/ca.go\<close>, \<open>client.go\<close>):
  it makes the credentials of declared authorities and nodes by calling the API. It reads from caches
  that follow the cluster, works off a queue of references, and puts a reference back when its
  processing fails.
\<close>

section \<open>The client of the API\<close>

text \<open>The environment of one work item. Texts in answers are read as documents by \<open>wkRead\<close>.\<close>

record 'k workenv =
  wkFaults :: kube_faults
  wkNet :: "string \<Rightarrow> string option"
  wkApi :: "'k apienv"
  wkRead :: "string \<Rightarrow> (string, json) result"

definition api_post :: "'k workenv \<Rightarrow> string \<Rightarrow> json \<Rightarrow> nworld \<Rightarrow> (string, json) result" where
  "api_post E path doc w =
     (case wkNet E path of
        Some e \<Rightarrow> Inl e
      | None \<Rightarrow>
          (case snd (api_serve (wkApi E) path (Inr doc) w) of
             None \<Rightarrow> Inl ''EOF''
           | Some (code, Doc d) \<Rightarrow> Inr d
           | Some (code, Text t) \<Rightarrow> wkRead E t))"

record credentials =
  crPrivateKey :: "string option"
  crCertificate :: "string option"

definition decode_credentials :: "json \<Rightarrow> (string, credentials) result" where
  "decode_credentials d = decode_struct
     [''private_key'' \<mapsto> on_field crPrivateKey crPrivateKey_update decode_bytes,
      ''certificate'' \<mapsto> on_field crCertificate crCertificate_update decode_bytes] d
     \<lparr>crPrivateKey = None, crCertificate = None\<rparr>"

definition client_CreateCA :: "'k workenv \<Rightarrow> string \<Rightarrow> nworld \<Rightarrow> (string, credentials) result" where
  "client_CreateCA E name w =
     bindE (api_post E ''/api/process/ca'' (JObj [(''name'', JStr name)]) w) decode_credentials"

definition signNodeReq :: "string option \<Rightarrow> string option \<Rightarrow> string \<Rightarrow> string option \<Rightarrow> string \<Rightarrow> json" where
  "signNodeReq caPrivateKey caCert nodeName nodePublicKey nodeIp =
     JObj ([(''ca_private_key'', encode_bytes caPrivateKey), (''ca_certificate'', encode_bytes caCert),
       (''node_name'', JStr nodeName)] @
       (if bytes_of nodePublicKey = [] then [] else [(''node_public_key'', encode_bytes nodePublicKey)]) @
       [(''node_ip_cidr'', JStr nodeIp)])"

definition client_SignNode ::
    "'k workenv \<Rightarrow> string option \<Rightarrow> string option \<Rightarrow> string \<Rightarrow> string option \<Rightarrow> string \<Rightarrow> nworld \<Rightarrow>
     (string, credentials) result" where
  "client_SignNode E caPrivateKey caCert nodeName nodePublicKey nodeIp w =
     bindE (api_post E ''/api/process/node'' (signNodeReq caPrivateKey caCert nodeName nodePublicKey nodeIp) w)
       decode_credentials"

section \<open>The controller\<close>

datatype nref = CaRef string | NodeRef string

record NebulaController =
  ctWorld :: nworld
  ctCAs :: "NebulaCA objects"
  ctNodes :: "NebulaNode objects"
  ctSecrets :: "secret objects"
  ctQueue :: "nref list"

definition MetaNamespaceKey :: "kube_key \<Rightarrow> string" where
  "MetaNamespaceKey k = (if fst k = [] then snd k else fst k @ ''/'' @ snd k)"

definition SplitMetaNamespaceKey :: "string \<Rightarrow> kube_key option" where
  "SplitMetaNamespaceKey key =
     (case split_on (CHR ''/'') key of
        [name] \<Rightarrow> Some ([], name)
      | [namespace, name] \<Rightarrow> Some (namespace, name)
      | _ \<Rightarrow> None)"

text \<open>A reference that is queued is not queued again.\<close>

definition wq_add :: "nref \<Rightarrow> nref list \<Rightarrow> nref list" where
  "wq_add r q = (if r \<in> set q then q else q @ [r])"

definition enqueueCA :: "kube_key \<Rightarrow> NebulaController \<Rightarrow> NebulaController" where
  "enqueueCA k c = c\<lparr>ctQueue := wq_add (CaRef (MetaNamespaceKey k)) (ctQueue c)\<rparr>"

definition enqueueNode :: "kube_key \<Rightarrow> NebulaController \<Rightarrow> NebulaController" where
  "enqueueNode k c = c\<lparr>ctQueue := wq_add (NodeRef (MetaNamespaceKey k)) (ctQueue c)\<rparr>"

text \<open>The caches take over the state of an object; added and updated authorities and nodes are queued.\<close>

definition watch_ca :: "kube_key \<Rightarrow> NebulaController \<Rightarrow> NebulaController" where
  "watch_ca k c =
     (let x = nwCAs (ctWorld c) k; c' = c\<lparr>ctCAs := (ctCAs c)(k := x)\<rparr> in
      if x = None then c' else enqueueCA k c')"

definition watch_node :: "kube_key \<Rightarrow> NebulaController \<Rightarrow> NebulaController" where
  "watch_node k c =
     (let x = nwNodes (ctWorld c) k; c' = c\<lparr>ctNodes := (ctNodes c)(k := x)\<rparr> in
      if x = None then c' else enqueueNode k c')"

definition watch_secret :: "kube_key \<Rightarrow> NebulaController \<Rightarrow> NebulaController" where
  "watch_secret k c = c\<lparr>ctSecrets := (ctSecrets c)(k := nwSecrets (ctWorld c) k)\<rparr>"

text \<open>Only the status of an object is changed.\<close>

definition updateCAStatus :: "kube_faults \<Rightarrow> kube_key \<Rightarrow> nstate \<Rightarrow> string \<Rightarrow> nworld \<Rightarrow> nworld \<times> string option" where
  "updateCAStatus F k state msg w =
     (case nwCAs w k of
        None \<Rightarrow> (w, Some kubeNotFound)
      | Some ca \<Rightarrow>
          (case kube_update_status F ''nebulacas'' k (ca\<lparr>caState := state, caMessage := msg\<rparr>) (nwCAs w) of
             (cs, r) \<Rightarrow> (w\<lparr>nwCAs := cs\<rparr>, r)))"

definition updateNodeStatus :: "kube_faults \<Rightarrow> kube_key \<Rightarrow> nstate \<Rightarrow> string \<Rightarrow> nworld \<Rightarrow> nworld \<times> string option" where
  "updateNodeStatus F k state msg w =
     (case nwNodes w k of
        None \<Rightarrow> (w, Some kubeNotFound)
      | Some node \<Rightarrow>
          (case kube_update_status F ''nebulanodes'' k (node\<lparr>nnState := state, nnMessage := msg\<rparr>) (nwNodes w) of
             (ns, r) \<Rightarrow> (w\<lparr>nwNodes := ns\<rparr>, r)))"

definition create_secret :: "kube_faults \<Rightarrow> kube_key \<Rightarrow> secret \<Rightarrow> nworld \<Rightarrow> nworld \<times> string option" where
  "create_secret F k s w = (case kube_create F ''secrets'' k s (nwSecrets w) of (ss, r) \<Rightarrow> (w\<lparr>nwSecrets := ss\<rparr>, r))"

definition processCAWithKey :: "'k workenv \<Rightarrow> string \<Rightarrow> NebulaController \<Rightarrow> nworld \<times> string option" where
  "processCAWithKey E key c =
     (case SplitMetaNamespaceKey key of
        None \<Rightarrow> (ctWorld c, None)
      | Some k \<Rightarrow>
          (case ctCAs c k of
             None \<Rightarrow> (ctWorld c, None)
           | Some ca \<Rightarrow>
               if caState ca = Ready then (ctWorld c, None)
               else
                 (case client_CreateCA E (snd k) (ctWorld c) of
                    Inl e \<Rightarrow> (ctWorld c, Some e)
                  | Inr cr \<Rightarrow>
                      (case create_secret (wkFaults E) (fst k, caSecretName ca)
                          [''ca.key'' \<mapsto> bytes_of (crPrivateKey cr), ''ca.crt'' \<mapsto> bytes_of (crCertificate cr)] (ctWorld c) of
                         (w, Some e) \<Rightarrow> (w, Some e)
                       | (w, None) \<Rightarrow> updateCAStatus (wkFaults E) k Ready ''Generated credentials'' w))))"

definition processNodeWithKey :: "'k workenv \<Rightarrow> string \<Rightarrow> NebulaController \<Rightarrow> nworld \<times> string option" where
  "processNodeWithKey E key c =
     (case SplitMetaNamespaceKey key of
        None \<Rightarrow> (ctWorld c, None)
      | Some k \<Rightarrow>
          (case ctNodes c k of
             None \<Rightarrow> (ctWorld c, None)
           | Some node \<Rightarrow>
               if nnState node = Ready then (ctWorld c, None)
               else
                 (case ctCAs c (nnCANamespace node, nnCAName node) of
                    None \<Rightarrow> (ctWorld c, Some kubeNotFound)
                  | Some ca \<Rightarrow>
                      if caState ca \<noteq> Ready
                      then (ctWorld c, Some (''Referenced CA '' @ nnCAName node @ '' is not ready yet.''))
                      else
                        (case ctSecrets c (nnCANamespace node, caSecretName ca) of
                           None \<Rightarrow>
                             (fst (updateNodeStatus (wkFaults E) k Error ''Could not find CA secret'' (ctWorld c)),
                              Some kubeNotFound)
                         | Some caSecret \<Rightarrow>
                             (case client_SignNode E (caSecret ''ca.key'') (caSecret ''ca.crt'') (snd k)
                                 (if nnPubKey node = [] then None else Some (nnPubKey node)) (nnIPCidr node) (ctWorld c) of
                                Inl e \<Rightarrow> (ctWorld c, Some e)
                              | Inr cr \<Rightarrow>
                                  (case create_secret (wkFaults E) (fst k, nnSecretName node)
                                      [''ca.crt'' \<mapsto> bytes_of (caSecret ''ca.crt''),
                                       ''host.crt'' \<mapsto> bytes_of (crCertificate cr),
                                       ''host.key'' \<mapsto> bytes_of (crPrivateKey cr)] (ctWorld c) of
                                     (w, Some e) \<Rightarrow> (w, Some e)
                                   | (w, None) \<Rightarrow> updateNodeStatus (wkFaults E) k Ready ''Generated credentials'' w))))))"

fun process_ref :: "'k workenv \<Rightarrow> nref \<Rightarrow> NebulaController \<Rightarrow> nworld \<times> string option" where
  "process_ref E (CaRef key) c = processCAWithKey E key c"
| "process_ref E (NodeRef key) c = processNodeWithKey E key c"

text \<open>An empty queue makes the worker wait.\<close>

definition processNextWorkItem :: "'k workenv \<Rightarrow> NebulaController \<Rightarrow> NebulaController" where
  "processNextWorkItem E c =
     (case ctQueue c of
        [] \<Rightarrow> c
      | ref # q \<Rightarrow>
          (case process_ref E ref c of
             (w, Some e) \<Rightarrow> c\<lparr>ctWorld := w, ctQueue := wq_add ref q\<rparr>
           | (w, None) \<Rightarrow> c\<lparr>ctWorld := w, ctQueue := q\<rparr>))"

section \<open>The system\<close>

text \<open>
  Steps of the cluster: somebody declares an authority, a request reaches the API, a cache takes over
  a change, the worker works.
\<close>

inductive nstep :: "(string \<Rightarrow> (string, json) result) \<Rightarrow> NebulaController \<Rightarrow> NebulaController \<Rightarrow> bool"
  for rd :: "string \<Rightarrow> (string, json) result" where
  declare_ca: "nwCAs (ctWorld c) k = None \<Longrightarrow>
    nstep rd c (c\<lparr>ctWorld := (ctWorld c)\<lparr>nwCAs := (nwCAs (ctWorld c))(k \<mapsto>
      \<lparr>caSecretName = s, caState = NoState, caMessage = []\<rparr>)\<rparr>\<rparr>)"
| request: "api_serve (V :: string apienv) path body (ctWorld c) = (w, a) \<Longrightarrow> nstep rd c (c\<lparr>ctWorld := w\<rparr>)"
| watch_ca: "nstep rd c (watch_ca k c)"
| watch_node: "nstep rd c (watch_node k c)"
| watch_secret: "nstep rd c (watch_secret k c)"
| work: "wkRead (E :: string workenv) = rd \<Longrightarrow> nstep rd c (processNextWorkItem E c)"

inductive_cases nstepE: "nstep rd c c'"

section \<open>No authority becomes ready\<close>

text \<open>Reading the text of a missing page as a document gives the number it starts with.\<close>

definition reads_404 :: "(string \<Rightarrow> (string, json) result) \<Rightarrow> bool" where
  "reads_404 rd \<longleftrightarrow> rd (''404 page not found'' @ [CHR 0x0A]) = Inr (JNum 404)"

lemma no_such_route: "route_of ''/api/process/ca'' = RNotFound"
  by code_simp

lemma client_CreateCA_fails:
  assumes "reads_404 (wkRead E)"
  shows "\<exists>e. client_CreateCA E name w = Inl e"
  using assms
  by (auto simp: client_CreateCA_def api_post_def api_serve_def no_such_route not_found_answer_def reads_404_def
      decode_credentials_def split: option.split)

lemma processCA_fails:
  assumes "reads_404 (wkRead E)"
  shows "fst (processCAWithKey E key c) = ctWorld c"
  using client_CreateCA_fails[OF assms]
  by (auto simp: processCAWithKey_def split: option.split sum.split) (metis Inl_Inr_False)+

definition none_ready :: "NebulaController \<Rightarrow> bool" where
  "none_ready c \<longleftrightarrow> (\<forall>k ca. nwCAs (ctWorld c) k = Some ca \<longrightarrow> caState ca \<noteq> Ready)
     \<and> (\<forall>k ca. ctCAs c k = Some ca \<longrightarrow> caState ca \<noteq> Ready)
     \<and> (\<forall>k n. nwNodes (ctWorld c) k = Some n \<longrightarrow> nnState n \<noteq> Ready)"

lemma processNode_idle:
  assumes "none_ready c"
  shows "fst (processNodeWithKey E key c) = ctWorld c"
  using assms by (auto simp: processNodeWithKey_def none_ready_def split: option.splits)

lemma work_idle:
  assumes "none_ready c" "reads_404 (wkRead E)"
  shows "ctWorld (processNextWorkItem E c) = ctWorld c" "ctCAs (processNextWorkItem E c) = ctCAs c"
proof -
  have "fst (process_ref E ref c) = ctWorld c" for ref
    by (cases ref) (simp_all add: processCA_fails[OF assms(2)] processNode_idle[OF assms(1)])
  then show "ctWorld (processNextWorkItem E c) = ctWorld c"
    by (auto simp: processNextWorkItem_def split: list.split prod.split option.split) (metis fst_conv)+
  show "ctCAs (processNextWorkItem E c) = ctCAs c"
    by (auto simp: processNextWorkItem_def split: list.split prod.split option.split)
qed

lemma watch_idle:
  "ctWorld (watch_ca k c) = ctWorld c" "ctWorld (watch_node k c) = ctWorld c" "ctWorld (watch_secret k c) = ctWorld c"
  "ctCAs (watch_ca k c) = (ctCAs c)(k := nwCAs (ctWorld c) k)" "ctCAs (watch_node k c) = ctCAs c"
  "ctCAs (watch_secret k c) = ctCAs c"
  by (simp_all add: watch_ca_def watch_node_def watch_secret_def enqueueCA_def enqueueNode_def Let_def)

text \<open>What an arbitrary step does to a cluster in which nothing is ready: it only adds authorities and nodes.\<close>

lemma idle_step:
  assumes "nstep rd c c'" "none_ready c" "reads_404 rd"
  shows "none_ready c' \<and> nwSecrets (ctWorld c') = nwSecrets (ctWorld c)
    \<and> (\<forall>k n. nwNodes (ctWorld c') k = Some n \<longrightarrow> nwNodes (ctWorld c) k = Some n \<or> nnSecretName n = snd k @ ''-cert'')"
  using assms(1)
proof cases
  case (request V path body w a)
  from api_serve_frame[OF request(2)] assms(2) show ?thesis
    unfolding request(1) none_ready_def by (auto simp: new_node_def split: if_splits)
next
  case (work E)
  with work_idle[OF assms(2), of E] assms(2,3) show ?thesis by (simp add: none_ready_def)
qed (use assms(2) in \<open>auto simp: none_ready_def watch_idle\<close>)

lemma idle_run:
  assumes "(nstep rd)\<^sup>*\<^sup>* c c'" "none_ready c" "reads_404 rd"
  shows "none_ready c' \<and> nwSecrets (ctWorld c') = nwSecrets (ctWorld c)
    \<and> (\<forall>k n. nwNodes (ctWorld c') k = Some n \<longrightarrow> nwNodes (ctWorld c) k = Some n \<or> nnSecretName n = snd k @ ''-cert'')"
  using assms(1)
proof (induction rule: rtranclp_induct)
  case base
  with assms(2) show ?case by simp
next
  case (step c1 c2)
  from idle_step[OF step(2) _ assms(3)] step(3) show ?case by metis
qed

section \<open>Properties\<close>

text \<open>
  C8: No authority ever becomes ready. The controller asks the API for new credentials under a path
  the API does not serve. Whatever is declared, requested, watched and worked on in whatever order,
  and whatever calls fail, starting where nothing is ready no authority and no node becomes ready and
  no secret is ever stored.
\<close>
theorem authorities_never_become_ready:
  assumes "reads_404 rd" and "none_ready c" and "(nstep rd)\<^sup>*\<^sup>* c c'"
  shows "(\<forall>k ca. nwCAs (ctWorld c') k = Some ca \<longrightarrow> caState ca \<noteq> Ready)
    \<and> (\<forall>k n. nwNodes (ctWorld c') k = Some n \<longrightarrow> nnState n \<noteq> Ready)
    \<and> nwSecrets (ctWorld c') = nwSecrets (ctWorld c)"
  using idle_run[OF assms(3,2,1)] by (simp add: none_ready_def)

text \<open>Nobody gets a configuration. In such a cluster a request to join or to get the configuration of
  a node, for a name that is new and has no secret yet, waits forever, at whatever states of the
  cluster its tries find.
\<close>
theorem joining_waits_forever:
  assumes "reads_404 rd" and "none_ready c"
    and "nwNodes (ctWorld c) (mgNamespace M, name) = None"
    and "nwSecrets (ctWorld c) (mgNamespace M, name @ ''-cert'') = None"
    and "\<And>i. \<exists>c'. (nstep rd)\<^sup>*\<^sup>* c c' \<and> snd (W i) = ctWorld c'"
  shows "wait_config M name W 0 = None \<and> join_answer M name W = None"
proof -
  have "\<exists>e. GetNodeConfig M (fst (W i)) (mgNamespace M) name (snd (W i)) = Some (Inl e)" for i
  proof -
    from assms(5) obtain c' where c': "(nstep rd)\<^sup>*\<^sup>* c c'" "snd (W i) = ctWorld c'" by blast
    from idle_run[OF c'(1) assms(2,1)] assms(3,4) have
      "\<forall>n. nwNodes (ctWorld c') (mgNamespace M, name) = Some n \<longrightarrow> nnSecretName n = name @ ''-cert''"
      "nwSecrets (ctWorld c') (mgNamespace M, name @ ''-cert'') = None" by force+
    then have "\<exists>e. getNodeSecret (fst (W i)) (mgNamespace M) name (ctWorld c') = Inl e"
      by (auto simp: getNodeSecret_def kube_get_def split: option.split)
    with c'(2) show ?thesis by (auto simp: GetNodeConfig_def)
  qed
  from wait_config_forever[OF this] show ?thesis by (simp add: join_answer_def)
qed

section \<open>Witnesses\<close>

definition example_empty :: NebulaController where
  "example_empty = \<lparr>ctWorld = \<lparr>nwCAs = Map.empty, nwNodes = Map.empty, nwSecrets = Map.empty\<rparr>, ctCAs = Map.empty,
     ctNodes = Map.empty, ctSecrets = Map.empty, ctQueue = []\<rparr>"

lemma example_empty_idle: "none_ready example_empty" "reads_404 (\<lambda>_. Inr (JNum 404))"
  by (simp_all add: none_ready_def example_empty_def reads_404_def)

text \<open>An authority is declared and the controller learns of it.\<close>

definition example_declared :: NebulaController where
  "example_declared = watch_ca (''n'', ''ca'') (example_empty\<lparr>ctWorld := (ctWorld example_empty)\<lparr>nwCAs :=
     (nwCAs (ctWorld example_empty))((''n'', ''ca'') \<mapsto> \<lparr>caSecretName = ''s'', caState = NoState, caMessage = []\<rparr>)\<rparr>\<rparr>)"

lemma example_declared_run: "(nstep rd)\<^sup>*\<^sup>* example_empty example_declared"
proof -
  let ?c = "example_empty\<lparr>ctWorld := (ctWorld example_empty)\<lparr>nwCAs :=
     (nwCAs (ctWorld example_empty))((''n'', ''ca'') \<mapsto> \<lparr>caSecretName = ''s'', caState = NoState, caMessage = []\<rparr>)\<rparr>\<rparr>"
  have "nstep rd example_empty ?c" by (rule nstep.declare_ca) (simp add: example_empty_def)
  moreover have "nstep rd ?c example_declared" unfolding example_declared_def by (rule nstep.watch_ca)
  ultimately show ?thesis by simp
qed

theorem authorities_never_become_ready_witness:
  "nwSecrets (ctWorld example_declared) = Map.empty
    \<and> map_option caState (nwCAs (ctWorld example_declared) (''n'', ''ca'')) \<noteq> Some Ready"
proof -
  have "nwSecrets (ctWorld example_empty) = Map.empty" by (simp add: example_empty_def)
  with authorities_never_become_ready[OF example_empty_idle(2,1) example_declared_run] show ?thesis
    by (cases "nwCAs (ctWorld example_declared) (''n'', ''ca'')") auto
qed

theorem joining_waits_forever_witness:
  "join_answer \<lparr>mgNamespace = ''n'', mgCaName = ''ca'', mgCfgTmpl = JObj [], mgCopy = Inr, mgYaml = (\<lambda>d. Inr [])\<rparr> ''laptop''
     (\<lambda>i. (no_faults, ctWorld (if i = 0 then example_empty else example_declared))) = None"
proof -
  have e: "nwNodes (ctWorld example_empty) k = None" "nwSecrets (ctWorld example_empty) k = None" for k
    by (simp_all add: example_empty_def)
  show ?thesis
    by (rule joining_waits_forever[OF example_empty_idle(2,1) e(1) e(2), THEN conjunct2])
      (use example_declared_run in auto)
qed

end
