(* ===== verification/NebulaIssue.thy ===== *)
theory NebulaIssue
  imports NebulaController
begin

text \<open>
  What the parts of the Nebula network achieve together: the authority's credentials made by the API,
  the certificate of a node that the controller obtains with them, and the configuration that the API
  hands to the node.
\<close>

section \<open>The certificate library\<close>

text \<open>The documented behaviour of the certificate library that the theorems rely on.\<close>

definition certlib_ok :: "certlib \<Rightarrow> bool" where
  "certlib_ok L \<longleftrightarrow>
     (\<forall>nc k. \<exists>sig. clSign L nc k = Inr (nc\<lparr>ncSignature := sig\<rparr>))
     \<and> (\<forall>nc. \<exists>t. clMarshal L nc = Inr t \<and> clUnmarshal L t = Inr nc)
     \<and> (\<forall>k. clUnmarshalEd L (clMarshalEd L k) = Inr k)
     \<and> (\<forall>nc k. ncPublicKey nc = clEdPub L k \<longrightarrow> clVerifyKey L nc k = None)
     \<and> (\<forall>nc. \<exists>h. clSha L nc = Inr h)
     \<and> (\<forall>nc t. clExpired L nc t \<longleftrightarrow> t < ncNotBefore nc \<or> ncNotAfter nc < t)
     \<and> (\<forall>nc ca. ncNotAfter nc \<le> ncNotAfter ca \<and> ncNotBefore ca \<le> ncNotBefore nc \<and> ncIps ca = [] \<longrightarrow>
          clCheckRoot L nc ca = None)"

text \<open>Credentials of an authority with which nodes can be certified at a time.\<close>

definition ca_valid :: "certlib \<Rightarrow> int \<Rightarrow> string \<Rightarrow> string \<Rightarrow> bool" where
  "ca_valid L t key crt \<longleftrightarrow>
     (\<exists>k ca. clUnmarshalEd L key = Inr k \<and> clUnmarshal L crt = Inr ca \<and> ncPublicKey ca = clEdPub L k
        \<and> ncIps ca = [] \<and> ncNotBefore ca \<le> t - second \<and> t \<le> ncNotAfter ca)"

lemma second_pos: "0 < second"
  by (simp add: second_def)

text \<open>The certificate the node gets, up to its signature.\<close>

definition node_cert :: "certlib \<Rightarrow> string \<Rightarrow> string \<Rightarrow> string \<Rightarrow> ipnet \<Rightarrow> string \<Rightarrow> bool" where
  "node_cert L caCrt name pub net crt \<longleftrightarrow>
     (\<exists>ca nc. clUnmarshal L caCrt = Inr ca \<and> clUnmarshal L crt = Inr nc \<and> ncName nc = name \<and> ncPublicKey nc = pub
        \<and> ncIps nc = [net] \<and> \<not> ncIsCA nc \<and> clSha L ca = Inr (ncIssuer nc) \<and> ncNotAfter nc < ncNotAfter ca)"

lemma SignNebulaNode_ok:
  assumes "certlib_ok L" "ca_valid L (drNow D) key crt" "drNow D \<le> drNow' D" "clUnmarshalX L pk = Inr pub"
  shows "\<exists>c. SignNebulaNode L D key crt name (Some pk) net = Inr ([], c) \<and> node_cert L crt name pub net c"
proof -
  from assms(2) obtain k ca where ca: "clUnmarshalEd L key = Inr k" "clUnmarshal L crt = Inr ca"
    "ncPublicKey ca = clEdPub L k" "ncIps ca = []" "ncNotBefore ca \<le> drNow D - second" "drNow D \<le> ncNotAfter ca"
    by (auto simp: ca_valid_def)
  from assms(1) ca(3) have v: "clVerifyKey L ca k = None" by (simp add: certlib_ok_def)
  from assms(1) obtain h where h: "clSha L ca = Inr h" unfolding certlib_ok_def by blast
  have x: "\<not> clExpired L ca (drNow D)" using assms(1) ca(5,6) second_pos by (simp add: certlib_ok_def)
  let ?nc = "\<lparr>ncName = name, ncIps = [net], ncNotBefore = drNow' D - second, ncNotAfter = ncNotAfter ca - second,
    ncPublicKey = pub, ncIsCA = False, ncIssuer = h, ncSignature = []\<rparr>"
  have r: "clCheckRoot L ?nc ca = None"
    using assms(1,3) ca(4,5) second_pos unfolding certlib_ok_def by simp
  from assms(1) obtain sig where s: "clSign L ?nc k = Inr (?nc\<lparr>ncSignature := sig\<rparr>)" unfolding certlib_ok_def by blast
  from assms(1) obtain t where t: "clMarshal L (?nc\<lparr>ncSignature := sig\<rparr>) = Inr t" "clUnmarshal L t = Inr (?nc\<lparr>ncSignature := sig\<rparr>)"
    unfolding certlib_ok_def by blast
  have "SignNebulaNode L D key crt name (Some pk) net = Inr ([], t)"
    unfolding SignNebulaNode_def using ca(1,2) v h x assms(4) r s t(1) by (simp add: node_keys_def Let_def)
  moreover have "node_cert L crt name pub net t"
    unfolding node_cert_def using ca(2) t(2) h second_pos by auto
  ultimately show ?thesis by blast
qed

lemma lower_names:
  "to_lower ''name'' = ''name''" "to_lower ''private_key'' = ''private_key''" "to_lower ''certificate'' = ''certificate''"
  "to_lower ''ca_private_key'' = ''ca_private_key''" "to_lower ''ca_certificate'' = ''ca_certificate''"
  "to_lower ''node_name'' = ''node_name''" "to_lower ''node_public_key'' = ''node_public_key''"
  "to_lower ''node_ip_cidr'' = ''node_ip_cidr''"
  by code_simp+

lemma decode_signNodeReq:
  assumes "pk \<noteq> []"
  shows "decode_processNodeReq (signNodeReq key crt name (Some pk) ip) empty_processNodeReq =
    Inr \<lparr>pnCAPrivateKey = key, pnCACert = crt, pnNodeName = name, pnNodePublicKey = Some pk, pnNodeIPCidr = ip\<rparr>"
  using assms
  by (simp add: decode_processNodeReq_def signNodeReq_def empty_processNodeReq_def lower_names on_field_def bytes_of_def)

lemma decode_node_answer: "decode_credentials (encode_NebulaNode ([], c)) = Inr \<lparr>crPrivateKey = None, crCertificate = Some c\<rparr>"
  by (simp add: decode_credentials_def encode_NebulaNode_def lower_names on_field_def)

lemma process_node_route: "route_of ''/api/process/node'' = RProcessNode"
  by code_simp

lemma client_SignNode_ok:
  assumes "certlib_ok L" "aeLib (wkApi E) = L" "D = aeDraws (wkApi E)" "wkNet E ''/api/process/node'' = None"
    and "ca_valid L (drNow D) key crt" "drNow D \<le> drNow' D" "pk \<noteq> []" "clUnmarshalX L pk = Inr pub"
    and "ParseCIDR (clParse6 L) ip = Inr (a, net)"
  shows "\<exists>c. client_SignNode E (Some key) (Some crt) name (Some pk) ip w = Inr \<lparr>crPrivateKey = None, crCertificate = Some c\<rparr>
    \<and> node_cert L crt name pub net c"
proof -
  from SignNebulaNode_ok[OF assms(1,5,6,8)] obtain c where
    c: "SignNebulaNode L D key crt name (Some pk) net = Inr ([], c)" "node_cert L crt name pub net c" by blast
  have "client_SignNode E (Some key) (Some crt) name (Some pk) ip w = Inr \<lparr>crPrivateKey = None, crCertificate = Some c\<rparr>"
    using c(1) assms(2-4,9)
    by (simp add: client_SignNode_def api_post_def api_serve_def process_node_route processNode_def
        decode_signNodeReq[OF assms(7)] decode_node_answer bytes_of_def)
  with c(2) show ?thesis by blast
qed

section \<open>Keys of the queue\<close>

definition key_ok :: "kube_key \<Rightarrow> bool" where
  "key_ok k \<longleftrightarrow> fst k \<noteq> [] \<and> CHR ''/'' \<notin> set (fst k) \<and> CHR ''/'' \<notin> set (snd k)"

lemma split_meta_key: "key_ok k \<Longrightarrow> SplitMetaNamespaceKey (MetaNamespaceKey k) = Some k"
  by (cases k) (simp add: key_ok_def MetaNamespaceKey_def SplitMetaNamespaceKey_def split_on_append split_on_single)

section \<open>Lemmas on the cluster\<close>

text \<open>A node whose secret is stored can be configured.\<close>

definition template_ok :: "Manager \<Rightarrow> bool" where
  "template_ok M \<longleftrightarrow> is_obj (mgCfgTmpl M) \<and> mgCopy M (mgCfgTmpl M) = Inr (mgCfgTmpl M)
     \<and> (\<exists>pki. obj_get ''pki'' (mgCfgTmpl M) = Some pki \<and> is_obj pki)"

lemma config_of_secret:
  assumes "template_ok M" "nwNodes w (ns, name) = Some node" "nwSecrets w (ns, nnSecretName node) = Some s"
  shows "\<exists>cfg pki. GetNodeConfig M no_faults ns name w = Some (Inr cfg) \<and> obj_get ''pki'' cfg = Some pki
    \<and> obj_get ''ca'' pki = Some (JStr (bytes_of (s ''ca.crt''))) \<and> obj_get ''cert'' pki = Some (JStr (bytes_of (s ''host.crt'')))"
  using assms by (auto simp: template_ok_def GetNodeConfig_def getNodeSecret_def obj_get_put)

lemma processNode_signs:
  assumes "key_ok k" "ctNodes c k = Some node" "nnState node \<noteq> Ready"
    and "ctCAs c (nnCANamespace node, nnCAName node) = Some ca" "caState ca = Ready"
    and "ctSecrets c (nnCANamespace node, caSecretName ca) = Some sec"
    and "client_SignNode E (sec ''ca.key'') (sec ''ca.crt'') (snd k)
        (if nnPubKey node = [] then None else Some (nnPubKey node)) (nnIPCidr node) (ctWorld c) = Inr cr"
    and "wkFaults E = no_faults" "nwSecrets (ctWorld c) (fst k, nnSecretName node) = None"
    and "nwNodes (ctWorld c) k = Some node'"
  shows "processNodeWithKey E (MetaNamespaceKey k) c =
    ((ctWorld c)\<lparr>nwSecrets := (nwSecrets (ctWorld c))((fst k, nnSecretName node) \<mapsto>
        [''ca.crt'' \<mapsto> bytes_of (sec ''ca.crt''), ''host.crt'' \<mapsto> bytes_of (crCertificate cr),
         ''host.key'' \<mapsto> bytes_of (crPrivateKey cr)]),
      nwNodes := (nwNodes (ctWorld c))(k \<mapsto> node'\<lparr>nnState := Ready, nnMessage := ''Generated credentials''\<rparr>)\<rparr>, None)"
  using assms
  by (simp add: processNodeWithKey_def split_meta_key create_secret_def updateNodeStatus_def)

section \<open>Properties\<close>

text \<open>The credentials of a new authority are good for a year. The answer of the API to a request for
  an authority, read by the controller, is a key and a certificate with which nodes can be certified
  at any time from one second after the clock was read until a year after.
\<close>
theorem authority_credentials_are_valid:
  assumes "certlib_ok L" and "drEdKey D = Inr (clEdPub L k, k)"
  shows "\<exists>doc key crt. processCA L D (Inr (JObj [(''name'', JStr name)])) = (StatusOK, Doc doc)
    \<and> decode_credentials doc = Inr \<lparr>crPrivateKey = Some key, crCertificate = Some crt\<rparr>
    \<and> (\<forall>t. drNow D \<le> t \<and> t \<le> drNow D + 8760 * 3600 * second - second \<longrightarrow> ca_valid L t key crt)"
proof -
  let ?nc = "\<lparr>ncName = name, ncIps = [], ncNotBefore = drNow D - second, ncNotAfter = drNow D - second + 8760 * 3600 * second,
    ncPublicKey = clEdPub L k, ncIsCA = True, ncIssuer = [], ncSignature = []\<rparr>"
  from assms(1) obtain sig where s: "clSign L ?nc k = Inr (?nc\<lparr>ncSignature := sig\<rparr>)" unfolding certlib_ok_def by blast
  from assms(1) obtain t where t: "clMarshal L (?nc\<lparr>ncSignature := sig\<rparr>) = Inr t" "clUnmarshal L t = Inr (?nc\<lparr>ncSignature := sig\<rparr>)"
    unfolding certlib_ok_def by blast
  have "CreateCertificateAuthority L D name = Inr (clMarshalEd L k, t)"
    using assms(2) s t(1) by (simp add: CreateCertificateAuthority_def Let_def)
  then have "processCA L D (Inr (JObj [(''name'', JStr name)])) = (StatusOK, Doc (JObj [(''private_key'',
      encode_bytes (Some (clMarshalEd L k))), (''certificate'', encode_bytes (Some t))]))"
    by (simp add: processCA_def lower_names)
  moreover have "ca_valid L x (clMarshalEd L k) t" if "drNow D \<le> x" "x \<le> drNow D + 8760 * 3600 * second - second" for x
    using assms(1) t(2) that by (auto simp: ca_valid_def certlib_ok_def)
  ultimately show ?thesis by (simp add: decode_credentials_def lower_names on_field_def)
qed


text \<open>
  C27: Approval makes the signature pointless. A request to join creates a node only when its signature
  verifies with the key of the authority; but a request for approval with the same name, address and
  key creates the very same node without any signature.
\<close>
theorem approval_bypasses_signature:
  assumes "join_create L M F (Inr d) w = (w', Inr name)" and "decode_joinReq d = Inr req"
  shows "VerifySignature L M F (bytes_of (jrMessage req)) (bytes_of (jrSignature req)) w = Inr True
    \<and> approve M F (Inr (JObj ([(''name'', JStr (jrName req)), (''ip_cidr'', JStr (jrIPCidr req)),
        (''net_public_key'', encode_bytes (jrPublicKey req))]))) w = (w', (StatusOK, Text []))"
proof -
  from join_create_frame[OF assms(1)] assms(2) have
    h: "VerifySignature L M F (bytes_of (jrMessage req)) (bytes_of (jrSignature req)) w = Inr True"
      "CreateNode F (mgNamespace M) (jrName req) (mgNamespace M) (mgCaName M) (jrIPCidr req)
          (bytes_of (jrPublicKey req)) None w = (w', None)" by auto
  have low: "to_lower ''ip_cidr'' = ''ip_cidr''" "to_lower ''net_public_key'' = ''net_public_key''" by code_simp+
  have "decode_approveReq (JObj ([(''name'', JStr (jrName req)), (''ip_cidr'', JStr (jrIPCidr req)),
        (''net_public_key'', encode_bytes (jrPublicKey req))])) =
      Inr \<lparr>arEncPublicKey = None, arName = jrName req, arNetPublicKey = jrPublicKey req, arIPCidr = jrIPCidr req\<rparr>"
    by (simp add: decode_approveReq_def lower_names low on_field_def)
  with h show ?thesis by (simp add: approve_def)
qed

text \<open>A certificate does not tell the hosts of a network apart. Requests for nodes whose addresses lie
  in the same network get the same answer: the certificate holds the network, and the host part of the
  address is lost.
\<close>
theorem certificates_forget_the_host:
  assumes "pk \<noteq> []" and "ParseCIDR (clParse6 L) ip = Inr (a, net)" and "ParseCIDR (clParse6 L) ip' = Inr (a', net)"
  shows "processNode L D (Inr (signNodeReq key crt name (Some pk) ip))
       = processNode L D (Inr (signNodeReq key crt name (Some pk) ip'))"
  by (simp add: processNode_def decode_signNodeReq[OF assms(1)] assms(2,3))

section \<open>A concrete certificate library\<close>

text \<open>Certificates are coded as documents; a key is its own public key.\<close>

definition net_code :: "ipnet \<Rightarrow> json" where
  "net_code n = JArr [JArr (map (\<lambda>b. JNum (uint b)) (fst n)), JNum (int (snd n))]"

fun byte_read :: "json \<Rightarrow> byte" where
  "byte_read (JNum i) = word_of_int i"
| "byte_read _ = 0"

fun net_read :: "json \<Rightarrow> ipnet" where
  "net_read (JArr [JArr bs, JNum n]) = (map byte_read bs, nat n)"
| "net_read _ = ([], 0)"

lemma net_read_code [simp]: "net_read (net_code n) = n"
  by (cases n) (simp add: net_code_def comp_def)

definition cert_doc :: "NebulaCertificate \<Rightarrow> json" where
  "cert_doc nc = JArr [JStr (ncName nc), JArr (map net_code (ncIps nc)), JNum (ncNotBefore nc), JNum (ncNotAfter nc),
     JStr (ncPublicKey nc), JBool (ncIsCA nc), JStr (ncIssuer nc), JStr (ncSignature nc)]"

fun arr_of :: "json \<Rightarrow> json list" where
  "arr_of (JArr ds) = ds"
| "arr_of _ = []"

fun str_of :: "json \<Rightarrow> string" where
  "str_of (JStr s) = s"
| "str_of _ = []"

fun num_of :: "json \<Rightarrow> int" where
  "num_of (JNum i) = i"
| "num_of _ = 0"

definition cert_of_doc :: "json \<Rightarrow> (string, NebulaCertificate) result" where
  "cert_of_doc d =
     (case arr_of d of
        n # is # b # a # p # c # i # g # _ \<Rightarrow>
          Inr \<lparr>ncName = str_of n, ncIps = map net_read (arr_of is), ncNotBefore = num_of b, ncNotAfter = num_of a,
            ncPublicKey = str_of p, ncIsCA = (c = JBool True), ncIssuer = str_of i, ncSignature = str_of g\<rparr>
      | _ \<Rightarrow> Inl ''bad certificate'')"

definition cert_read :: "string \<Rightarrow> (string, NebulaCertificate) result" where
  "cert_read s = (case read_json (length s) s of Some (d, []) \<Rightarrow> cert_of_doc d | _ \<Rightarrow> Inl ''bad certificate'')"

lemma cert_read_code: "cert_read (code_json (cert_doc nc)) = Inr nc"
  using read_code_json[of "cert_doc nc" "length (code_json (cert_doc nc))" "[]"]
  by (simp add: cert_read_def) (simp add: cert_doc_def cert_of_doc_def comp_def)

definition example_certlib :: certlib where
  "example_certlib = \<lparr>clSign = (\<lambda>nc k. Inr (nc\<lparr>ncSignature := k\<rparr>)), clMarshal = (\<lambda>nc. Inr (code_json (cert_doc nc))),
     clUnmarshal = cert_read, clMarshalEd = id, clUnmarshalEd = Inr, clMarshalX = id, clUnmarshalX = Inr, clXPub = id,
     clVerifyKey = (\<lambda>nc k. if ncPublicKey nc = k then None else Some ''wrong key''), clSha = (\<lambda>nc. Inr (ncName nc)),
     clExpired = (\<lambda>nc t. t < ncNotBefore nc \<or> ncNotAfter nc < t),
     clCheckRoot = (\<lambda>nc ca. if ncNotAfter nc \<le> ncNotAfter ca \<and> ncNotBefore ca \<le> ncNotBefore nc \<and> ncIps ca = [] then None
        else Some ''not allowed''),
     clEdSign = (\<lambda>k m. Inr (k @ m)), clEdPub = id, clEdVerify = (\<lambda>p m s. s = p @ m), clParse6 = (\<lambda>_. None)\<rparr>"

lemma example_certlib_ok: "certlib_ok example_certlib"
  unfolding certlib_ok_def example_certlib_def by (auto simp: cert_read_code)

section \<open>Witnesses\<close>

definition example_draws :: draws where
  "example_draws = \<lparr>drEdKey = Inr (''k'', ''k''), drXPriv = Inr ''x'', drNow = 5 * second, drNow' = 6 * second\<rparr>"

theorem authority_credentials_are_valid_witness:
  "\<exists>key crt. ca_valid example_certlib (6 * second) key crt"
proof -
  have t: "6 * second \<le> drNow example_draws + 8760 * 3600 * second - second" "drNow example_draws \<le> 6 * second"
    by (simp_all add: second_def example_draws_def)
  have "drEdKey example_draws = Inr (clEdPub example_certlib ''k'', ''k'')"
    by (simp add: example_draws_def example_certlib_def)
  from authority_credentials_are_valid[OF example_certlib_ok this, of "''n''"] t show ?thesis by blast
qed

definition example_ca_cert :: NebulaCertificate where
  "example_ca_cert = \<lparr>ncName = ''ca'', ncIps = [], ncNotBefore = 0, ncNotAfter = 100 * second, ncPublicKey = ''k'',
     ncIsCA = True, ncIssuer = [], ncSignature = ''k''\<rparr>"

definition example_manager :: Manager where
  "example_manager = \<lparr>mgNamespace = ''n'', mgCaName = ''ca'', mgCfgTmpl = JObj [(''pki'', JObj [])], mgCopy = Inr,
     mgYaml = (\<lambda>d. Inr (code_json d))\<rparr>"

definition example_apienv :: "string apienv" where
  "example_apienv = \<lparr>aeLib = example_certlib, aeDraws = example_draws, aeMgr = example_manager, aeFaults = no_faults,
     aePage = (\<lambda>_. ([], None)), aeCAs = Inr [], aeNodes = Inr [],
     aeSealing = \<lparr>slKey = Inr [], slNonce = Inr [], slSeal = (\<lambda>_ _ x. x), slOAEP = (\<lambda>_ x. Inr x), slParse = Inr\<rparr>,
     aeWeather = (\<lambda>_. (no_faults, \<lparr>nwCAs = Map.empty, nwNodes = Map.empty, nwSecrets = Map.empty\<rparr>))\<rparr>"

definition example_workenv :: "string workenv" where
  "example_workenv = \<lparr>wkFaults = no_faults, wkNet = (\<lambda>_. None), wkApi = example_apienv, wkRead = (\<lambda>_. Inr (JNum 404))\<rparr>"

definition example_node :: NebulaNode where
  "example_node = new_node ''laptop'' ''n'' ''ca'' ''111.0.0.7/24'' ''pub'' None"

definition example_controller :: NebulaController where
  "example_controller =
     (let cas = [(''n'', ''ca'') \<mapsto> \<lparr>caSecretName = ''s'', caState = Ready, caMessage = []\<rparr>];
          nodes = [(''n'', ''laptop'') \<mapsto> example_node];
          secrets = [(''n'', ''s'') \<mapsto> [''ca.key'' \<mapsto> ''k'', ''ca.crt'' \<mapsto> code_json (cert_doc example_ca_cert)]]
      in \<lparr>ctWorld = \<lparr>nwCAs = cas, nwNodes = nodes, nwSecrets = secrets\<rparr>, ctCAs = cas, ctNodes = nodes, ctSecrets = secrets,
           ctQueue = []\<rparr>)"

lemma example_ca_valid: "ca_valid example_certlib (5 * second) ''k'' (code_json (cert_doc example_ca_cert))"
  unfolding ca_valid_def using cert_read_code[of example_ca_cert]
  by (auto simp: example_certlib_def example_ca_cert_def second_def)

lemma example_networks:
  "ParseCIDR p6 ''111.0.0.7/24'' = Inr ([111, 0, 0, 7], ([111, 0, 0, 0], 24))"
  "ParseCIDR p6 ''111.0.0.8/24'' = Inr ([111, 0, 0, 8], ([111, 0, 0, 0], 24))"
  by code_simp+


theorem approval_bypasses_signature_witness:
  "\<exists>w'. approve example_manager no_faults (Inr (JObj [(''name'', JStr ''x''), (''ip_cidr'', JStr ''111.0.0.9/24''),
      (''net_public_key'', encode_bytes (Some ''p''))])) (ctWorld example_controller) = (w', (StatusOK, Text []))"
proof -
  let ?d = "JObj [(''message'', encode_bytes (Some ''m'')), (''signature'', encode_bytes (Some ''km'')), (''name'', JStr ''x''),
    (''public_key'', encode_bytes (Some ''p'')), (''ip_cidr'', JStr ''111.0.0.9/24'')]"
  let ?r = "\<lparr>jrMessage = Some ''m'', jrSignature = Some ''km'', jrName = ''x'', jrPublicKey = Some ''p'', jrIPCidr = ''111.0.0.9/24''\<rparr>"
  have low: "to_lower ''message'' = ''message''" "to_lower ''signature'' = ''signature''" "to_lower ''public_key'' = ''public_key''"
    "to_lower ''ip_cidr'' = ''ip_cidr''" by code_simp+
  have d: "decode_joinReq ?d = Inr ?r" by (simp add: decode_joinReq_def low lower_names on_field_def)
  have w: "nwCAs (ctWorld example_controller) (''n'', ''ca'') = Some \<lparr>caSecretName = ''s'', caState = Ready, caMessage = []\<rparr>"
    "nwSecrets (ctWorld example_controller) (''n'', ''s'') = Some [''ca.key'' \<mapsto> ''k'', ''ca.crt'' \<mapsto> code_json (cert_doc example_ca_cert)]"
    "nwNodes (ctWorld example_controller) (''n'', ''x'') = None"
    by (simp_all add: example_controller_def Let_def)
  have m: "mgNamespace example_manager = ''n''" "mgCaName example_manager = ''ca''" by (simp_all add: example_manager_def)
  have "VerifySignature example_certlib example_manager no_faults ''m'' ''km'' (ctWorld example_controller) = Inr True"
    by (simp add: VerifySignature_def ca_key_def getCASecret_def m w bytes_of_def) (simp add: example_certlib_def)
  then have "\<exists>w'. join_create example_certlib example_manager no_faults (Inr ?d) (ctWorld example_controller) = (w', Inr ''x'')"
    by (simp add: join_create_def d CreateNode_def m w bytes_of_def)
  with approval_bypasses_signature[OF _ d] show ?thesis by force
qed

theorem certificates_forget_the_host_witness:
  "processNode example_certlib example_draws (Inr (signNodeReq (Some ''k'') (Some ''c'') ''laptop'' (Some ''p'') ''111.0.0.7/24''))
     = processNode example_certlib example_draws (Inr (signNodeReq (Some ''k'') (Some ''c'') ''laptop'' (Some ''p'') ''111.0.0.8/24''))"
  by (rule certificates_forget_the_host[OF _ example_networks]) simp

end
