(* ===== verification/VpnClient.thy ===== *)
theory VpnClient
  imports NebulaIssue
begin

text \<open>
  The client on a device (\<open>src/core/client/cmd/pcloud\<close>): the calls to the Nebula API (\<open>client.go\<close>) and
  the processor (\<open>main.go\<close>) that makes and reads the codes with which devices invite and approve each
  other. A code is the document it shows; the screen, the camera and the system services are left out.
\<close>

section \<open>The calls\<close>

text \<open>Third-party code and the network: \<open>'p\<close> is a private key. A connection that is dropped or never
  answered is an error; \<open>vlRead\<close> reads a text as a document.\<close>

record 'p vpnlib =
  vlNet :: "string \<Rightarrow> string option"
  vlRead :: "string \<Rightarrow> (string, json) result"
  vlMarshalPub :: "string \<Rightarrow> string"
  vlMarshalPriv :: "string \<Rightarrow> string"
  vlDecrypt :: "'p \<Rightarrow> string \<Rightarrow> (string, string) result"
  vlOpen :: "string \<Rightarrow> string \<Rightarrow> string \<Rightarrow> (string, string) result"
  vlYamlRead :: "string \<Rightarrow> (string, json) result"
  vlYamlWrite :: "json \<Rightarrow> (string, string) result"
  vlParsePriv :: "string \<Rightarrow> (string, 'p) result"

definition vpn_call ::
    "'p vpnlib \<Rightarrow> 'k apienv \<Rightarrow> string \<Rightarrow> string \<Rightarrow> (string, json) result \<Rightarrow> nworld \<Rightarrow> nworld \<times> (string, api_answer) result" where
  "vpn_call C V apiAddr path body w =
     (case vlNet C (apiAddr @ path) of
        Some e \<Rightarrow> (w, Inl e)
      | None \<Rightarrow>
          (case api_serve V path body w of
             (w', None) \<Rightarrow> (w', Inl ''no answer'')
           | (w', Some a) \<Rightarrow> (w', Inr a)))"

definition body_doc :: "'p vpnlib \<Rightarrow> api_answer \<Rightarrow> (string, json) result" where
  "body_doc C a = (case snd a of Doc d \<Rightarrow> Inr d | Text t \<Rightarrow> vlRead C t)"

definition vpn_Sign :: "'p vpnlib \<Rightarrow> 'k apienv \<Rightarrow> string \<Rightarrow> string option \<Rightarrow> nworld \<Rightarrow> (string, string option) result" where
  "vpn_Sign C V apiAddr message w =
     (case vpn_call C V apiAddr ''/api/sign'' (Inr (JObj [(''message'', encode_bytes message)])) w of
        (_, Inl e) \<Rightarrow> Inl e
      | (_, Inr a) \<Rightarrow> bindE (body_doc C a) (\<lambda>d. decode_struct [''signature'' \<mapsto> decode_bytes] d None))"

text \<open>The configuration of a device: the one of the API with its private key; \<open>None\<close> is a panic.\<close>

definition add_private_key :: "'p vpnlib \<Rightarrow> string \<Rightarrow> string \<Rightarrow> (string, string) result option" where
  "add_private_key C cfgYaml privateKey =
     (case vlYamlRead C cfgYaml of
        Inl e \<Rightarrow> Some (Inl e)
      | Inr cfgMap \<Rightarrow>
          (case obj_get ''pki'' cfgMap of
             None \<Rightarrow> None
           | Some pki \<Rightarrow>
               if \<not> is_obj pki then None
               else Some (vlYamlWrite C (obj_put ''pki'' (obj_put ''key'' (JStr (vlMarshalPriv C privateKey)) pki) cfgMap))))"

definition join_doc :: "string option \<Rightarrow> string option \<Rightarrow> string \<Rightarrow> string \<Rightarrow> string \<Rightarrow> json" where
  "join_doc message signature name publicKey ipCidr =
     JObj [(''message'', encode_bytes message), (''signature'', encode_bytes signature), (''name'', JStr name),
       (''public_key'', encode_bytes (Some publicKey)), (''ip_cidr'', JStr ipCidr)]"

definition vpn_Join ::
    "'p vpnlib \<Rightarrow> 'k apienv \<Rightarrow> string \<Rightarrow> string \<Rightarrow> string option \<Rightarrow> string option \<Rightarrow> string option \<Rightarrow> string option \<Rightarrow> nworld \<Rightarrow>
     nworld \<times> (string, string) result option" where
  "vpn_Join C V apiAddr hostname publicKey privateKey message signature w =
     (case vpn_call C V apiAddr ''/api/join''
         (Inr (join_doc message signature hostname (vlMarshalPub C (bytes_of publicKey)) ''111.0.0.13/24'')) w of
        (w', Inl e) \<Rightarrow> (w', Some (Inl e))
      | (w', Inr (_, Doc d)) \<Rightarrow> (w', Some (Inl ''illegal base64 data''))
      | (w', Inr (_, Text t)) \<Rightarrow>
          (w', case b64_decode t of
             Inl e \<Rightarrow> Some (Inl e)
           | Inr cfgYaml \<Rightarrow> add_private_key C cfgYaml (bytes_of privateKey)))"

definition approve_doc :: "string option \<Rightarrow> string \<Rightarrow> string \<Rightarrow> string \<Rightarrow> json" where
  "approve_doc encPublicKey name netPublicKey ipCidr =
     JObj [(''enc_public_key'', encode_bytes encPublicKey), (''name'', JStr name),
       (''net_public_key'', encode_bytes (Some netPublicKey)), (''ip_cidr'', JStr ipCidr)]"

text \<open>The answer to an approval is not looked at.\<close>

definition vpn_Approve ::
    "'p vpnlib \<Rightarrow> 'k apienv \<Rightarrow> string \<Rightarrow> string \<Rightarrow> string \<Rightarrow> string option \<Rightarrow> string option \<Rightarrow> nworld \<Rightarrow> nworld \<times> string option" where
  "vpn_Approve C V apiAddr hostname ipCidr encPublicKey netPublicKey w =
     (case vpn_call C V apiAddr ''/api/approve''
         (Inr (approve_doc encPublicKey hostname (vlMarshalPub C (bytes_of netPublicKey)) ipCidr)) w of
        (w', Inl e) \<Rightarrow> (w', Some e)
      | (w', Inr _) \<Rightarrow> (w', None))"

record getResp =
  grKey :: "string option"
  grNonce :: "string option"
  grData :: "string option"

definition decode_getResp :: "json \<Rightarrow> (string, getResp) result" where
  "decode_getResp d = decode_struct
     [''key'' \<mapsto> on_field grKey grKey_update decode_bytes,
      ''nonce'' \<mapsto> on_field grNonce grNonce_update decode_bytes,
      ''data'' \<mapsto> on_field grData grData_update decode_bytes] d \<lparr>grKey = None, grNonce = None, grData = None\<rparr>"

definition vpn_Get ::
    "'p vpnlib \<Rightarrow> 'k apienv \<Rightarrow> string \<Rightarrow> string \<Rightarrow> 'p \<Rightarrow> string option \<Rightarrow> nworld \<Rightarrow> (string, string) result option" where
  "vpn_Get C V apiAddr hostname encPrivateKey netPrivateKey w =
     (case snd (vpn_call C V apiAddr (''/api/get/'' @ hostname) (Inl ''EOF'') w) of
        Inl e \<Rightarrow> Some (Inl e)
      | Inr a \<Rightarrow>
          (case bindE (bindE (body_doc C a) decode_getResp) (\<lambda>resp.
              bindE (vlDecrypt C encPrivateKey (bytes_of (grKey resp))) (\<lambda>key.
              bindE (vlDecrypt C encPrivateKey (bytes_of (grNonce resp))) (\<lambda>nonce.
                vlOpen C key nonce (bytes_of (grData resp))))) of
             Inl e \<Rightarrow> Some (Inl e)
           | Inr cfgYaml \<Rightarrow> add_private_key C cfgYaml (bytes_of netPrivateKey)))"

section \<open>The processor\<close>

record Config =
  cfApiAddr :: string
  cfEncPublic :: "string option"
  cfEncPrivate :: "string option"
  cfNetPublic :: "string option"
  cfNetPrivate :: "string option"
  cfNetConfig :: "string option"

text \<open>What a step of the device meets: errors of its storage, its host name, and the keys it draws.\<close>

record devenv =
  deGetErr :: "string option"
  deStoreErr :: "string option"
  deHostname :: "(string, string) result"
  deRSA :: "(string, string \<times> string) result"
  deX25519 :: "(string, string \<times> string) result"

definition st_get :: "devenv \<Rightarrow> Config \<Rightarrow> (string, Config) result" where
  "st_get D c = (case deGetErr D of Some e \<Rightarrow> Inl e | None \<Rightarrow> Inr c)"

definition st_store :: "devenv \<Rightarrow> Config \<Rightarrow> Config \<Rightarrow> Config \<times> string option" where
  "st_store D new c = (case deStoreErr D of Some e \<Rightarrow> (c, Some e) | None \<Rightarrow> (new, None))"

definition sanitizeHostname :: "string \<Rightarrow> string" where
  "sanitizeHostname hostname = to_lower (replace_char (CHR ''.'') ''-'' (replace_char (CHR '' '') ''-'' hostname))"

text \<open>\<open>None\<close> is the panic when no key can be made. The pairs are the private and the public part of the
  first key, and the public and the private part of the second.\<close>

definition generatePublicPrivateKey :: "devenv \<Rightarrow> Config \<Rightarrow> Config \<times> string option option" where
  "generatePublicPrivateKey D c =
     (case st_get D c of
        Inl e \<Rightarrow> (c, Some (Some e))
      | Inr config \<Rightarrow>
          if cfEncPrivate config \<noteq> None then (c, Some None)
          else
            (case deRSA D of
               Inl e \<Rightarrow> (c, None)
             | Inr (priv, pub) \<Rightarrow>
                 (case deX25519 D of
                    Inl e \<Rightarrow> (c, Some (Some e))
                  | Inr (npub, npriv) \<Rightarrow>
                      (case st_store D (config\<lparr>cfEncPrivate := Some priv, cfEncPublic := Some pub, cfNetPublic := Some npub,
                          cfNetPrivate := Some npriv\<rparr>) c of
                         (c', r) \<Rightarrow> (c', Some r)))))"

definition invite_doc :: "string \<Rightarrow> string option \<Rightarrow> string option \<Rightarrow> json" where
  "invite_doc addr message signature =
     JObj [(''vpn_api_addr'', JStr addr), (''message'', encode_bytes message), (''signature'', encode_bytes signature)]"

definition generateInviteQRCode :: "'p vpnlib \<Rightarrow> 'k apienv \<Rightarrow> devenv \<Rightarrow> Config \<Rightarrow> nworld \<Rightarrow> (string, json) result" where
  "generateInviteQRCode C V D c w =
     bindE (st_get D c) (\<lambda>config.
     bindE (vpn_Sign C V (cfApiAddr config) (Some ''Hello PCloud'') w) (\<lambda>signature.
       Inr (invite_doc (cfApiAddr config) (Some ''Hello PCloud'') signature)))"

text \<open>The code to be approved is the document of the approval, with the key as it is.\<close>

definition generateJoinQRCode :: "devenv \<Rightarrow> Config \<Rightarrow> (string, json) result" where
  "generateJoinQRCode D c =
     bindE (st_get D c) (\<lambda>config.
     bindE (deHostname D) (\<lambda>hostname.
       Inr (JObj [(''enc_public_key'', encode_bytes (cfEncPublic config)), (''name'', JStr (sanitizeHostname hostname)),
         (''net_public_key'', encode_bytes (cfNetPublic config)), (''ip_cidr'', JStr ''111.0.0.14/24'')])))"

record inviteQrCodeData =
  iqAddr :: string
  iqMessage :: "string option"
  iqSignature :: "string option"

definition decode_invite :: "json \<Rightarrow> (string, inviteQrCodeData) result" where
  "decode_invite d = decode_struct
     [''vpn_api_addr'' \<mapsto> on_field iqAddr iqAddr_update decode_string,
      ''message'' \<mapsto> on_field iqMessage iqMessage_update decode_bytes,
      ''signature'' \<mapsto> on_field iqSignature iqSignature_update decode_bytes] d
     \<lparr>iqAddr = [], iqMessage = None, iqSignature = None\<rparr>"

text \<open>\<open>None\<close> is a panic of the client.\<close>

definition JoinAndGetNetworkConfig ::
    "'p vpnlib \<Rightarrow> 'k apienv \<Rightarrow> devenv \<Rightarrow> (string, json) result \<Rightarrow> Config \<times> nworld \<Rightarrow> (Config \<times> nworld) \<times> string option option" where
  "JoinAndGetNetworkConfig C V D code s =
     (case s of (c, w) \<Rightarrow>
       (case bindE (st_get D c) (\<lambda>config.
           bindE (bindE code decode_invite) (\<lambda>invite.
           bindE (deHostname D) (\<lambda>hostname.
             Inr (config, invite, sanitizeHostname hostname)))) of
          Inl e \<Rightarrow> (s, Some (Some e))
        | Inr (config, invite, hostname) \<Rightarrow>
            (case vpn_Join C V (iqAddr invite) hostname (cfNetPublic config) (cfNetPrivate config) (iqMessage invite)
                (iqSignature invite) w of
               (w', None) \<Rightarrow> ((c, w'), None)
             | (w', Some (Inl e)) \<Rightarrow> ((c, w'), Some (Some e))
             | (w', Some (Inr network)) \<Rightarrow>
                 (case st_store D (config\<lparr>cfApiAddr := iqAddr invite, cfNetConfig := Some network\<rparr>) c of
                    (c', r) \<Rightarrow> ((c', w'), Some r)))))"

definition ApproveOther ::
    "'p vpnlib \<Rightarrow> 'k apienv \<Rightarrow> devenv \<Rightarrow> (string, json) result \<Rightarrow> Config \<Rightarrow> nworld \<Rightarrow> nworld \<times> string option" where
  "ApproveOther C V D code c w =
     (case bindE (st_get D c) (\<lambda>config. bindE (bindE code decode_approveReq) (\<lambda>approve. Inr (config, approve))) of
        Inl e \<Rightarrow> (w, Some e)
      | Inr (config, a) \<Rightarrow>
          vpn_Approve C V (cfApiAddr config) (arName a) (arIPCidr a) (arEncPublicKey a) (arNetPublicKey a) w)"

text \<open>One try of the loop that waits for the approval: the configuration it stores, if it succeeds; a
  panic of the client ends the program.\<close>

definition vpnHost :: string where "vpnHost = ''https://vpn.lekva.me''"

definition fetch_try :: "'p vpnlib \<Rightarrow> 'k apienv \<Rightarrow> devenv \<Rightarrow> nworld \<Rightarrow> Config \<Rightarrow> Config \<times> bool option" where
  "fetch_try C V D w c =
     (case bindE (st_get D c) (\<lambda>config.
         bindE (vlParsePriv C (bytes_of (cfEncPrivate config))) (\<lambda>privKey.
         bindE (deHostname D) (\<lambda>hostname.
           Inr (config, privKey, sanitizeHostname hostname)))) of
        Inl e \<Rightarrow> (c, Some False)
      | Inr (config, privKey, hostname) \<Rightarrow>
          (case vpn_Get C V vpnHost hostname privKey (cfNetPrivate config) w of
             None \<Rightarrow> (c, None)
           | Some (Inl e) \<Rightarrow> (c, Some False)
           | Some (Inr network) \<Rightarrow>
               (case st_store D (config\<lparr>cfApiAddr := vpnHost, cfNetConfig := Some network\<rparr>) c of
                  (c', Some e) \<Rightarrow> (c', Some False)
                | (c', None) \<Rightarrow> (c', Some True))))"

text \<open>At most five tries, each in an environment of its own.\<close>

fun fetch_tries :: "(Config \<Rightarrow> Config \<times> bool option) list \<Rightarrow> Config \<Rightarrow> Config \<times> bool option" where
  "fetch_tries [] c = (c, Some False)"
| "fetch_tries (t # ts) c =
     (case t c of
        (c', Some False) \<Rightarrow> fetch_tries ts c'
      | (c', r) \<Rightarrow> (c', r))"

definition fetch_config :: "('p vpnlib \<times> 'k apienv \<times> devenv \<times> nworld) list \<Rightarrow> Config \<Rightarrow> Config \<times> bool option" where
  "fetch_config es c = fetch_tries (take 5 (map (\<lambda>(C, V, D, w). fetch_try C V D w) es)) c"

section \<open>Calls that reach the API\<close>

lemma low_names:
  "to_lower ''message'' = ''message''" "to_lower ''signature'' = ''signature''" "to_lower ''public_key'' = ''public_key''"
  "to_lower ''ip_cidr'' = ''ip_cidr''" "to_lower ''vpn_api_addr'' = ''vpn_api_addr''" "to_lower ''key'' = ''key''"
  "to_lower ''nonce'' = ''nonce''" "to_lower ''data'' = ''data''" "to_lower ''enc_public_key'' = ''enc_public_key''"
  "to_lower ''net_public_key'' = ''net_public_key''"
  by code_simp+

lemma api_routes:
  "route_of ''/api/sign'' = RSign" "route_of ''/api/join'' = RJoin" "route_of ''/api/approve'' = RApprove"
  by code_simp+

lemma get_route:
  assumes "name_seg host"
  shows "route_of (''/api/get/'' @ host) = RGet host"
proof -
  have "CHR ''/'' \<notin> set host" using assms by (auto simp: name_seg_def name_char_def list_all_iff is_digit_def)
  then have "split_on (CHR ''/'') (''/api/get/'' @ host) = [[], ''api'', ''get'', host]" by (simp add: split_on_single)
  then show ?thesis unfolding route_of_def using assms by simp
qed

lemma decode_join_doc:
  "decode_joinReq (join_doc m s n pk ip) =
    Inr \<lparr>jrMessage = m, jrSignature = s, jrName = n, jrPublicKey = Some pk, jrIPCidr = ip\<rparr>"
  by (simp add: decode_joinReq_def join_doc_def low_names lower_names on_field_def)

lemma decode_approve_doc:
  "decode_approveReq (JObj [(''enc_public_key'', encode_bytes epk), (''name'', JStr n), (''net_public_key'', encode_bytes npk),
      (''ip_cidr'', JStr ip)]) = Inr \<lparr>arEncPublicKey = epk, arName = n, arNetPublicKey = npk, arIPCidr = ip\<rparr>"
  by (simp add: decode_approveReq_def low_names lower_names on_field_def)

lemma decode_invite_doc:
  "decode_invite (invite_doc addr m s) = Inr \<lparr>iqAddr = addr, iqMessage = m, iqSignature = s\<rparr>"
  by (simp add: decode_invite_def invite_doc_def low_names on_field_def)

lemma sign_reaches:
  assumes "vlNet C (addr @ ''/api/sign'') = None" "Sign (aeLib V) (aeMgr V) (aeFaults V) (bytes_of m) w = Inr sig"
  shows "vpn_Sign C V addr m w = Inr (Some sig)"
  using assms
  by (simp add: vpn_Sign_def vpn_call_def api_serve_def api_routes api_sign_def body_doc_def low_names)

text \<open>Keys of a device that fit: what the API encrypts for it, the device decrypts.\<close>

definition seal_ok :: "'p vpnlib \<Rightarrow> 'k sealing \<Rightarrow> 'k \<Rightarrow> 'p \<Rightarrow> bool" where
  "seal_ok C S pk sk \<longleftrightarrow> (\<forall>m. \<exists>c. slOAEP S pk m = Inr c \<and> vlDecrypt C sk c = Inr m)
     \<and> (\<forall>k n x. vlOpen C k n (slSeal S k n x) = Inr x)"

text \<open>Both sides agree on YAML.\<close>

definition yaml_ok :: "'p vpnlib \<Rightarrow> Manager \<Rightarrow> bool" where
  "yaml_ok C M \<longleftrightarrow> (\<forall>d. \<exists>t. mgYaml M d = Inr t \<and> vlYamlRead C t = Inr d) \<and> (\<forall>d. \<exists>t. vlYamlWrite C d = Inr t \<and> vlYamlRead C t = Inr d)"

text \<open>A stored configuration: the one of the API with the private key of the device.\<close>

definition device_config :: "'p vpnlib \<Rightarrow> json \<Rightarrow> string \<Rightarrow> string \<Rightarrow> bool" where
  "device_config C cfg privateKey y \<longleftrightarrow>
     (\<exists>pki d pki'. obj_get ''pki'' cfg = Some pki \<and> vlYamlRead C y = Inr d \<and> obj_get ''pki'' d = Some pki'
        \<and> (\<forall>k. obj_get k pki' = (if k = ''key'' then Some (JStr (vlMarshalPriv C privateKey)) else obj_get k pki))
        \<and> (\<forall>k. k \<noteq> ''pki'' \<longrightarrow> obj_get k d = obj_get k cfg))"

lemma add_private_key_ok:
  assumes "yaml_ok C M" "mgYaml M cfg = Inr t" "vlYamlRead C t = Inr cfg" "is_obj cfg"
    and "obj_get ''pki'' cfg = Some pki" "is_obj pki"
  shows "\<exists>y. add_private_key C t priv = Some (Inr y) \<and> device_config C cfg priv y"
proof -
  let ?d = "obj_put ''pki'' (obj_put ''key'' (JStr (vlMarshalPriv C priv)) pki) cfg"
  from assms(1) obtain y where y: "vlYamlWrite C ?d = Inr y" "vlYamlRead C y = Inr ?d" unfolding yaml_ok_def by blast
  have "device_config C cfg priv y"
    unfolding device_config_def using assms(4-6) y(2) by (auto simp: obj_get_put)
  with y(1) assms(3,5,6) show ?thesis by (simp add: add_private_key_def)
qed

lemma config_pki:
  assumes "wait_config M name W i = Some (Some cfg)" "template_ok M"
  shows "is_obj cfg \<and> (\<exists>pki. obj_get ''pki'' cfg = Some pki \<and> is_obj pki)"
proof -
  have c: "is_obj cfg \<and> (\<exists>pki. obj_get ''pki'' cfg = Some pki \<and> is_obj pki)"
    if "GetNodeConfig M F ns n w = Some (Inr cfg)" for F ns n w
    using that assms(2) by (auto simp: GetNodeConfig_def template_ok_def obj_get_put split: sum.splits)
  have "y = Some cfg \<longrightarrow> (\<exists>F ns n w. GetNodeConfig M F ns n w = Some (Inr cfg))" if "wait_config M name W i = Some y" for y
    by (rule wait_config.raw_induct[OF _ that]) (auto split: option.splits sum.splits)
  from this[OF assms(1)] c show ?thesis by blast
qed

lemma get_reaches:
  assumes "\<And>p. vlNet C p = None" "name_seg host" "aeFaults V = no_faults" "aeMgr V = M" "aeSealing V = S"
    and "nwNodes w (mgNamespace M, host) = Some node" "nnEncPubKey node = b64_encode pub" "slParse S pub = Inr pk"
    and "seal_ok C S pk sk" "slKey S = Inr key" "slNonce S = Inr nonce"
    and "wait_config M host (aeWeather V) 0 = Some (Some cfg)" "template_ok M" "yaml_ok C M"
  shows "\<exists>y. vpn_Get C V addr host sk priv w = Some (Inr y) \<and> device_config C cfg (bytes_of priv) y"
proof -
  from assms(14) obtain t where t: "mgYaml M cfg = Inr t" "vlYamlRead C t = Inr cfg" unfolding yaml_ok_def by blast
  from assms(9) obtain ck cn where ck: "slOAEP S pk key = Inr ck" "vlDecrypt C sk ck = Inr key"
    "slOAEP S pk nonce = Inr cn" "vlDecrypt C sk cn = Inr nonce" unfolding seal_ok_def by metis
  have op: "vlOpen C key nonce (slSeal S key nonce t) = Inr t" using assms(9) by (simp add: seal_ok_def)
  have k: "GetNodeEncryptionPublicKey (slParse S) no_faults (mgNamespace M) host w = Inr pk"
    using assms(6-8) by (simp add: GetNodeEncryptionPublicKey_def)
  let ?a = "(StatusOK, Doc (JObj [(''key'', encode_bytes (Some ck)), (''nonce'', encode_bytes (Some cn)),
      (''data'', encode_bytes (Some (slSeal S key nonce t)))]))"
  have "api_get S M no_faults host w (aeWeather V) = Some ?a"
    using k assms(10-12) t(1) ck(1,3) by (simp add: api_get_def)
  then have "snd (vpn_call C V addr (''/api/get/'' @ host) (Inl ''EOF'') w) = Inr ?a"
    unfolding vpn_call_def api_serve_def get_route[OF assms(2)] using assms(1,3-5) by simp
  moreover have "bindE (body_doc C ?a) decode_getResp
      = Inr \<lparr>grKey = Some ck, grNonce = Some cn, grData = Some (slSeal S key nonce t)\<rparr>"
    by (simp add: body_doc_def decode_getResp_def low_names on_field_def)
  ultimately have "vpn_Get C V addr host sk priv w = add_private_key C t (bytes_of priv)"
    unfolding vpn_Get_def using ck(2,4) op by (simp add: bytes_of_def)
  moreover from config_pki[OF assms(12,13)] obtain pki where "is_obj cfg" "obj_get ''pki'' cfg = Some pki" "is_obj pki" by blast
  ultimately show ?thesis using add_private_key_ok[OF assms(14) t] by metis
qed

text \<open>A device that joins: the node that is created and the configuration that comes back.\<close>

lemma join_reaches:
  assumes "\<And>p. vlNet C p = None" "aeFaults V = no_faults" "aeMgr V = M"
    and "VerifySignature (aeLib V) M no_faults (bytes_of m) (bytes_of sg) w = Inr True"
    and "nwNodes w (mgNamespace M, host) = None"
    and "wait_config M host (aeWeather V) 0 = Some (Some cfg)" "template_ok M" "yaml_ok C M"
  shows "\<exists>y. vpn_Join C V addr host pub priv m sg w =
      (w\<lparr>nwNodes := (nwNodes w)((mgNamespace M, host) \<mapsto> new_node host (mgNamespace M) (mgCaName M) ''111.0.0.13/24''
          (vlMarshalPub C (bytes_of pub)) None)\<rparr>, Some (Inr y))
    \<and> device_config C cfg (bytes_of priv) y"
proof -
  from assms(8) obtain t where t: "mgYaml M cfg = Inr t" "vlYamlRead C t = Inr cfg" unfolding yaml_ok_def by blast
  let ?d = "join_doc m sg host (vlMarshalPub C (bytes_of pub)) ''111.0.0.13/24''"
  let ?w = "w\<lparr>nwNodes := (nwNodes w)((mgNamespace M, host) \<mapsto> new_node host (mgNamespace M) (mgCaName M) ''111.0.0.13/24''
      (vlMarshalPub C (bytes_of pub)) None)\<rparr>"
  have "join_create (aeLib V) M no_faults (Inr ?d) w = (?w, Inr host)"
    using assms(4,5) by (simp add: join_create_def decode_join_doc CreateNode_def bytes_of_def)
  moreover have "join_answer M host (aeWeather V) = Some (StatusOK, Text (b64_encode t))"
    using assms(6) t(1) by (simp add: join_answer_def)
  ultimately have "vpn_call C V addr ''/api/join'' (Inr ?d) w = (?w, Inr (StatusOK, Text (b64_encode t)))"
    unfolding vpn_call_def api_serve_def api_routes using assms(1-3) by simp
  then have "vpn_Join C V addr host pub priv m sg w = (?w, add_private_key C t (bytes_of priv))"
    by (simp add: vpn_Join_def)
  moreover from config_pki[OF assms(6,7)] obtain pki where "is_obj cfg" "obj_get ''pki'' cfg = Some pki" "is_obj pki" by blast
  ultimately show ?thesis using add_private_key_ok[OF assms(8) t] by (metis (no_types, lifting))
qed

section \<open>Properties\<close>



text \<open>A refused approval goes unnoticed. Whatever the API answers, the member's device reports success;
  when the name is already taken nothing is created.
\<close>
theorem refused_approval_is_silent:
  assumes "\<And>p. vlNet C p = None" and "aeFaults V = no_faults" and "deGetErr A = None"
    and "decode_approveReq d = Inr r" and "nwNodes w (mgNamespace (aeMgr V), arName r) \<noteq> None"
  shows "ApproveOther C V A (Inr d) a w = (w, None)"
proof -
  let ?doc = "approve_doc (arEncPublicKey r) (arName r) (vlMarshalPub C (bytes_of (arNetPublicKey r))) (arIPCidr r)"
  have "approve (aeMgr V) no_faults (Inr ?doc) w = (w, http_Error kubeExists StatusInternalServerError)"
    using assms(5) by (auto simp: approve_def approve_doc_def decode_approve_doc CreateNode_def bytes_of_def)
  then have "vpn_call C V (cfApiAddr a) ''/api/approve'' (Inr ?doc) w = (w, Inr (http_Error kubeExists StatusInternalServerError))"
    unfolding vpn_call_def api_serve_def api_routes using assms(1,2) by simp
  then show ?thesis using assms(3,4) by (simp add: ApproveOther_def st_get_def vpn_Approve_def)
qed

section \<open>Witnesses\<close>

definition read_doc :: "string \<Rightarrow> (string, json) result" where
  "read_doc t = (case read_json (length t) t of Some (d, []) \<Rightarrow> Inr d | _ \<Rightarrow> Inl ''bad document'')"

lemma read_doc_code: "read_doc (code_json d) = Inr d"
  using read_code_json[of d "length (code_json d)" "[]"] by (simp add: read_doc_def)

definition example_vpnlib :: "string vpnlib" where
  "example_vpnlib = \<lparr>vlNet = (\<lambda>_. None), vlRead = read_doc, vlMarshalPub = id, vlMarshalPriv = id, vlDecrypt = (\<lambda>_. Inr),
     vlOpen = (\<lambda>_ _. Inr), vlYamlRead = read_doc, vlYamlWrite = (\<lambda>d. Inr (code_json d)), vlParsePriv = Inr\<rparr>"

text \<open>A cluster in which the configuration of the node \<open>laptop\<close> is found at the first try.\<close>

definition configured_world :: nworld where
  "configured_world = (ctWorld example_controller)\<lparr>nwNodes := [(''n'', ''laptop'') \<mapsto> example_node],
     nwSecrets := [(''n'', ''laptop-cert'') \<mapsto> [''ca.crt'' \<mapsto> ''c'', ''host.crt'' \<mapsto> ''h'']]\<rparr>"

definition configured_env :: "string apienv" where
  "configured_env = example_apienv\<lparr>aeWeather := (\<lambda>_. (no_faults, configured_world))\<rparr>"

definition example_device :: devenv where
  "example_device = \<lparr>deGetErr = None, deStoreErr = None, deHostname = Inr ''Laptop'', deRSA = Inl [], deX25519 = Inl []\<rparr>"

definition example_config :: Config where
  "example_config = \<lparr>cfApiAddr = ''https://a'', cfEncPublic = Some ''e'', cfEncPrivate = Some ''e'', cfNetPublic = Some ''p'',
     cfNetPrivate = Some ''q'', cfNetConfig = None\<rparr>"

definition fresh_world :: nworld where
  "fresh_world = (ctWorld example_controller)\<lparr>nwNodes := Map.empty\<rparr>"

lemma example_vpn_facts:
  "vlNet example_vpnlib p = None" "aeFaults configured_env = no_faults" "aeMgr configured_env = example_manager"
  "aeLib configured_env = example_certlib" "template_ok example_manager" "yaml_ok example_vpnlib example_manager"
  "sanitizeHostname ''Laptop'' = ''laptop''" "deGetErr example_device = None" "deStoreErr example_device = None"
  "deHostname example_device = Inr ''Laptop''" "mgNamespace example_manager = ''n''" "nwNodes fresh_world k = None"
  by (simp_all add: example_vpnlib_def configured_env_def example_apienv_def template_ok_def example_manager_def yaml_ok_def
      read_doc_code example_device_def fresh_world_def) code_simp

lemma configured_wait: "\<exists>cfg. wait_config example_manager ''laptop'' (aeWeather configured_env) 0 = Some (Some cfg)"
proof -
  have "nwNodes configured_world (''n'', ''laptop'') = Some example_node"
    "nwSecrets configured_world (''n'', nnSecretName example_node) = Some [''ca.crt'' \<mapsto> ''c'', ''host.crt'' \<mapsto> ''h'']"
    by (simp_all add: configured_world_def example_node_def new_node_def)
  from config_of_secret[OF example_vpn_facts(5) this] obtain cfg where
    "GetNodeConfig example_manager no_faults ''n'' ''laptop'' configured_world = Some (Inr cfg)" by blast
  then have "wait_config example_manager ''laptop'' (aeWeather configured_env) 0 = Some (Some cfg)"
    by (subst wait_config.simps) (simp add: configured_env_def example_vpn_facts(11))
  then show ?thesis by blast
qed



theorem refused_approval_is_silent_witness:
  "ApproveOther example_vpnlib configured_env example_device (Inr (JObj [(''enc_public_key'', encode_bytes None),
      (''name'', JStr ''laptop''), (''net_public_key'', encode_bytes None), (''ip_cidr'', JStr [])])) example_config configured_world
    = (configured_world, None)"
  by (rule refused_approval_is_silent[OF example_vpn_facts(1,2,8) decode_approve_doc])
    (simp add: example_vpn_facts configured_world_def)

end
