(* ===== verification/VpnLoop.thy ===== *)
theory VpnLoop
  imports VpnClient
begin

text \<open>
  The event loop of the VPN client (\<open>src/core/client/cmd/pcloud/main.go\<close>): the main goroutine takes events of
  the window and messages of channels, each with room for one message; other goroutines and the callbacks of
  the device send to these channels and wait while they are full. The steps of all of them interleave, in a
  step relation. What the window draws is left out.
\<close>

section \<open>State\<close>

text \<open>The main goroutine waits for the next event, is about to announce a configuration, or the program
  has ended: an error of \<open>run\<close> and a panic of any goroutine end it.\<close>

datatype main_status = Looping | Announcing | Crashed

text \<open>What a scanned code is for. The zero value is the first one; the default branch of the switch on it can
  not be reached.\<close>

datatype ScanQRFor = ScanQRForJoin | ScanQRForApprove

datatype UIEvent = EventGetInviteQRCode | EventGetJoinQRCode | EventApproveOther | EventScanBarcode | OtherUIEvent

text \<open>The other goroutines and the callbacks that wait to send. \<open>FetchLoop n\<close> has \<open>n\<close> tries left.\<close>

datatype loop_task =
    GenInvite | GenJoin
  | SendInvite json | SendJoin json
  | SendScanned "(string, json) result" | SendConnect | SendDisconnect
  | FetchLoop nat | SendConfig

record loop_state =
  lsMain :: main_status
  lsScanFor :: ScanQRFor
  lsConfig :: Config
  lsWorld :: nworld
  lsInviteQr :: "json list"
  lsQrScanned :: "(string, json) result list"
  lsJoinQr :: "json list"
  lsOnConnect :: nat
  lsOnDisconnect :: nat
  lsOnConfig :: nat
  lsTasks :: "loop_task list"

definition newProcessor :: "Config \<Rightarrow> nworld \<Rightarrow> loop_state" where
  "newProcessor c w = \<lparr>lsMain = Looping, lsScanFor = ScanQRForJoin, lsConfig = c, lsWorld = w, lsInviteQr = [], lsQrScanned = [],
     lsJoinQr = [], lsOnConnect = 0, lsOnDisconnect = 0, lsOnConfig = 0, lsTasks = []\<rparr>"

definition loop_spawn :: "loop_task \<Rightarrow> loop_state \<Rightarrow> loop_state" where
  "loop_spawn t s = s\<lparr>lsTasks := lsTasks s @ [t]\<rparr>"

definition crash :: "loop_state \<Rightarrow> loop_state" where
  "crash s = s\<lparr>lsMain := Crashed\<rparr>"

section \<open>Callbacks of the device\<close>

definition QRCodeScanned :: "(string, json) result \<Rightarrow> loop_state \<Rightarrow> loop_state" where
  "QRCodeScanned code = loop_spawn (SendScanned code)"

definition ConnectRequested :: "loop_state \<Rightarrow> loop_state" where
  "ConnectRequested = loop_spawn SendConnect"

definition DisconnectRequested :: "loop_state \<Rightarrow> loop_state" where
  "DisconnectRequested = loop_spawn SendDisconnect"

section \<open>Steps of the main goroutine\<close>

text \<open>Every event comes with the error of launching the scanner, if any.\<close>

fun processUIEvents :: "(UIEvent \<times> string option) list \<Rightarrow> loop_state \<Rightarrow> loop_state \<times> string option" where
  "processUIEvents [] s = (s, None)"
| "processUIEvents ((ev, launchErr) # evs) s =
     (case ev of
        EventGetInviteQRCode \<Rightarrow> processUIEvents evs (loop_spawn GenInvite s)
      | EventGetJoinQRCode \<Rightarrow> processUIEvents evs (loop_spawn GenJoin s)
      | EventApproveOther \<Rightarrow>
          (case launchErr of
             Some e \<Rightarrow> (s\<lparr>lsScanFor := ScanQRForApprove\<rparr>, Some e)
           | None \<Rightarrow> processUIEvents evs (s\<lparr>lsScanFor := ScanQRForApprove\<rparr>))
      | EventScanBarcode \<Rightarrow>
          (case launchErr of
             Some e \<Rightarrow> (s\<lparr>lsScanFor := ScanQRForJoin\<rparr>, Some e)
           | None \<Rightarrow> processUIEvents evs (s\<lparr>lsScanFor := ScanQRForJoin\<rparr>))
      | OtherUIEvent \<Rightarrow> (s, Some ''Unhandled event''))"

text \<open>An event of the window that shows the view.\<close>

definition on_view :: "string option \<Rightarrow> devenv \<Rightarrow> loop_state \<Rightarrow> loop_state" where
  "on_view viewErr D s =
     (case viewErr of
        Some e \<Rightarrow> crash s
      | None \<Rightarrow>
          (case st_get D (lsConfig s) of
             Inl e \<Rightarrow> crash s
           | Inr config \<Rightarrow> if cfNetConfig config \<noteq> None then s\<lparr>lsMain := Announcing\<rparr> else s))"

definition on_frame :: "(UIEvent \<times> string option) list \<Rightarrow> loop_state \<Rightarrow> loop_state" where
  "on_frame evs s = (case processUIEvents evs s of (s', None) \<Rightarrow> s' | (s', Some e) \<Rightarrow> crash s')"

definition on_scanned :: "'p vpnlib \<Rightarrow> 'k apienv \<Rightarrow> devenv \<Rightarrow> (string, json) result \<Rightarrow> loop_state \<Rightarrow> loop_state" where
  "on_scanned C V D code s =
     (case lsScanFor s of
        ScanQRForJoin \<Rightarrow>
          (case JoinAndGetNetworkConfig C V D code (lsConfig s, lsWorld s) of
             ((c, w), Some None) \<Rightarrow> s\<lparr>lsConfig := c, lsWorld := w, lsMain := Announcing\<rparr>
           | ((c, w), _) \<Rightarrow> crash (s\<lparr>lsConfig := c, lsWorld := w\<rparr>))
      | ScanQRForApprove \<Rightarrow>
          (case ApproveOther C V D code (lsConfig s) (lsWorld s) of
             (w, None) \<Rightarrow> s\<lparr>lsWorld := w\<rparr>
           | (w, Some e) \<Rightarrow> crash (s\<lparr>lsWorld := w\<rparr>)))"

definition on_connect :: "string option \<Rightarrow> devenv \<Rightarrow> string option \<Rightarrow> loop_state \<Rightarrow> loop_state" where
  "on_connect updateErr D connectErr s =
     (case updateErr of
        Some e \<Rightarrow> crash s
      | None \<Rightarrow> (case st_get D (lsConfig s) of Inl e \<Rightarrow> crash s | Inr _ \<Rightarrow> (if connectErr = None then s else crash s)))"

section \<open>Steps of the other goroutines\<close>

text \<open>What a goroutine does next: it ends, goes on as another one, or has to wait (\<open>None\<close>).\<close>

fun run_task :: "'p vpnlib \<Rightarrow> 'k apienv \<Rightarrow> devenv \<Rightarrow> loop_task \<Rightarrow> loop_state \<Rightarrow> (loop_state \<times> loop_task list) option" where
  "run_task C V D GenInvite s =
     (case generateInviteQRCode C V D (lsConfig s) (lsWorld s) of Inl e \<Rightarrow> Some (crash s, []) | Inr q \<Rightarrow> Some (s, [SendInvite q]))"
| "run_task C V D GenJoin s =
     (case generateJoinQRCode D (lsConfig s) of Inl e \<Rightarrow> Some (crash s, []) | Inr q \<Rightarrow> Some (s, [SendJoin q]))"
| "run_task C V D (SendInvite q) s = (if lsInviteQr s = [] then Some (s\<lparr>lsInviteQr := [q]\<rparr>, []) else None)"
| "run_task C V D (SendJoin q) s = (if lsJoinQr s = [] then Some (s\<lparr>lsJoinQr := [q]\<rparr>, []) else None)"
| "run_task C V D (SendScanned q) s = (if lsQrScanned s = [] then Some (s\<lparr>lsQrScanned := [q]\<rparr>, []) else None)"
| "run_task C V D SendConnect s = (if lsOnConnect s = 0 then Some (s\<lparr>lsOnConnect := 1\<rparr>, []) else None)"
| "run_task C V D SendDisconnect s = (if lsOnDisconnect s = 0 then Some (s\<lparr>lsOnDisconnect := 1\<rparr>, []) else None)"
| "run_task C V D (FetchLoop 0) s = Some (s, [])"
| "run_task C V D (FetchLoop (Suc n)) s =
     (case fetch_try C V D (lsWorld s) (lsConfig s) of
        (c, None) \<Rightarrow> Some (crash (s\<lparr>lsConfig := c\<rparr>), [])
      | (c, Some True) \<Rightarrow> Some (s\<lparr>lsConfig := c\<rparr>, [SendConfig])
      | (c, Some False) \<Rightarrow> Some (s\<lparr>lsConfig := c\<rparr>, [FetchLoop n]))"
| "run_task C V D SendConfig s = (if lsOnConfig s = 0 then Some (s\<lparr>lsOnConfig := 1\<rparr>, []) else None)"

section \<open>All steps\<close>

inductive loop_step :: "'p vpnlib \<Rightarrow> 'k apienv \<Rightarrow> loop_state \<Rightarrow> loop_state \<Rightarrow> bool" for C V where
  view: "lsMain s = Looping \<Longrightarrow> loop_step C V s (on_view viewErr D s)"
| frame: "lsMain s = Looping \<Longrightarrow> loop_step C V s (on_frame evs s)"
| invite_qr: "lsMain s = Looping \<Longrightarrow> lsInviteQr s = q # qs \<Longrightarrow> loop_step C V s (s\<lparr>lsInviteQr := qs\<rparr>)"
| scanned: "lsMain s = Looping \<Longrightarrow> lsQrScanned s = q # qs \<Longrightarrow> loop_step C V s (on_scanned C V D q (s\<lparr>lsQrScanned := qs\<rparr>))"
| join_qr: "lsMain s = Looping \<Longrightarrow> lsJoinQr s = q # qs \<Longrightarrow> loop_step C V s (loop_spawn (FetchLoop 5) (s\<lparr>lsJoinQr := qs\<rparr>))"
| trigger: "lsMain s = Looping \<Longrightarrow> lsOnConfig s = Suc n \<Longrightarrow> loop_step C V s (if triggerErr = (None :: string option) then s\<lparr>lsOnConfig := n\<rparr> else crash (s\<lparr>lsOnConfig := n\<rparr>))"
| connect: "lsMain s = Looping \<Longrightarrow> lsOnConnect s = Suc n \<Longrightarrow> loop_step C V s (on_connect updateErr D connectErr (s\<lparr>lsOnConnect := n\<rparr>))"
| announce: "lsMain s = Announcing \<Longrightarrow> lsOnConfig s = 0 \<Longrightarrow> loop_step C V s (s\<lparr>lsMain := Looping, lsOnConfig := 1\<rparr>)"
| callback_scan: "lsMain s \<noteq> Crashed \<Longrightarrow> loop_step C V s (QRCodeScanned code s)"
| callback_connect: "lsMain s \<noteq> Crashed \<Longrightarrow> loop_step C V s (ConnectRequested s)"
| callback_disconnect: "lsMain s \<noteq> Crashed \<Longrightarrow> loop_step C V s (DisconnectRequested s)"
| goroutine: "lsMain s \<noteq> Crashed \<Longrightarrow> lsTasks s = us @ t # vs \<Longrightarrow> run_task C V D t (s\<lparr>lsTasks := us @ vs\<rparr>) = Some (s', ts)
    \<Longrightarrow> loop_step C V s (s'\<lparr>lsTasks := lsTasks s' @ ts\<rparr>)"

text \<open>\<open>run\<close> makes the keys of the device before the loop.\<close>

definition start_loop :: "devenv \<Rightarrow> Config \<Rightarrow> nworld \<Rightarrow> loop_state" where
  "start_loop D c w =
     (case generatePublicPrivateKey D c of
        (c', Some None) \<Rightarrow> newProcessor c' w
      | (c', _) \<Rightarrow> crash (newProcessor c' w))"

abbreviation loop_steps :: "'p vpnlib \<Rightarrow> 'k apienv \<Rightarrow> loop_state \<Rightarrow> loop_state \<Rightarrow> bool" where
  "loop_steps C V \<equiv> rtranclp (loop_step C V)"

section \<open>Correctness\<close>

text \<open>Channels hold at most one message, and a device asks for its configuration at most five times.\<close>

fun task_ok :: "loop_task \<Rightarrow> bool" where
  "task_ok (FetchLoop n) = (n \<le> 5)"
| "task_ok _ = True"

definition loop_ok :: "loop_state \<Rightarrow> bool" where
  "loop_ok s \<longleftrightarrow> length (lsInviteQr s) \<le> 1 \<and> length (lsQrScanned s) \<le> 1 \<and> length (lsJoinQr s) \<le> 1 \<and> lsOnConnect s \<le> 1
     \<and> lsOnDisconnect s \<le> 1 \<and> lsOnConfig s \<le> 1 \<and> list_all task_ok (lsTasks s)"

text \<open>What the handlers of the main goroutine leave alone.\<close>

definition same_channels :: "loop_state \<Rightarrow> loop_state \<Rightarrow> bool" where
  "same_channels s s' \<longleftrightarrow> lsInviteQr s' = lsInviteQr s \<and> lsQrScanned s' = lsQrScanned s \<and> lsJoinQr s' = lsJoinQr s
     \<and> lsOnConnect s' = lsOnConnect s \<and> lsOnDisconnect s' = lsOnDisconnect s \<and> lsOnConfig s' = lsOnConfig s"

lemma same_channels_simps [simp]:
  "same_channels s s" "same_channels s (crash s') = same_channels s s'" "same_channels s (loop_spawn t s') = same_channels s s'"
  "same_channels (loop_spawn t s) s' = same_channels s s'"
  "lsTasks (crash s) = lsTasks s" "lsTasks (loop_spawn t s) = lsTasks s @ [t]"
  by (simp_all add: same_channels_def crash_def loop_spawn_def)

lemma processUIEvents_frame:
  "processUIEvents evs s = (s', r) \<Longrightarrow>
    same_channels s s' \<and> (\<exists>ts. lsTasks s' = lsTasks s @ ts \<and> (\<forall>t \<in> set ts. t = GenInvite \<or> t = GenJoin))"
proof (induction evs s arbitrary: s' r rule: processUIEvents.induct)
  case (2 ev launchErr evs s)
  show ?case
  proof (cases ev)
    case EventGetInviteQRCode
    with 2 have "same_channels s s' \<and> (\<exists>ts. lsTasks s' = (lsTasks s @ [GenInvite]) @ ts \<and> (\<forall>t \<in> set ts. t = GenInvite \<or> t = GenJoin))"
      by fastforce
    then show ?thesis by (metis append.assoc append_Cons append_Nil set_ConsD)
  next
    case EventGetJoinQRCode
    with 2 have "same_channels s s' \<and> (\<exists>ts. lsTasks s' = (lsTasks s @ [GenJoin]) @ ts \<and> (\<forall>t \<in> set ts. t = GenInvite \<or> t = GenJoin))"
      by fastforce
    then show ?thesis by (metis append.assoc append_Cons append_Nil set_ConsD)
  qed (use 2 in \<open>auto simp: same_channels_def split: option.splits\<close>)
qed simp

lemma handlers_frame:
  "same_channels s (on_view viewErr D s)" "lsTasks (on_view viewErr D s) = lsTasks s"
  "same_channels s (on_scanned C V D q s)" "lsTasks (on_scanned C V D q s) = lsTasks s"
  "same_channels s (on_connect updateErr D connectErr s)" "lsTasks (on_connect updateErr D connectErr s) = lsTasks s"
  by (simp_all add: on_view_def on_scanned_def on_connect_def same_channels_def crash_def
      split: option.split sum.split ScanQRFor.split prod.split)

lemma on_frame_frame:
  "same_channels s (on_frame evs s) \<and> (\<exists>ts. lsTasks (on_frame evs s) = lsTasks s @ ts \<and> (\<forall>t \<in> set ts. t = GenInvite \<or> t = GenJoin))"
proof -
  obtain s' r where p: "processUIEvents evs s = (s', r)" by (cases "processUIEvents evs s")
  from processUIEvents_frame[OF this] show ?thesis unfolding on_frame_def p by (cases r) simp_all
qed

lemma run_task_ok:
  assumes "run_task C V D t s = Some (s', ts)" and "loop_ok s" and "task_ok t"
  shows "loop_ok s' \<and> list_all task_ok ts"
  using assms
  by (cases "(C, V, D, t, s)" rule: run_task.cases)
    (auto simp: loop_ok_def crash_def split: sum.splits if_splits prod.splits option.splits bool.splits)

lemma loop_ok_step:
  assumes "loop_step C V s s'" and "loop_ok s"
  shows "loop_ok s'"
  using assms
proof (cases rule: loop_step.cases)
  case (goroutine us t vs D s1 ts)
  from assms(2) goroutine(3) have "loop_ok (s\<lparr>lsTasks := us @ vs\<rparr>)" "task_ok t" by (auto simp: loop_ok_def)
  from run_task_ok[OF goroutine(4) this] goroutine(1) show ?thesis by (simp add: loop_ok_def)
next
  case (frame evs)
  have "list_all task_ok ts" if "\<forall>t \<in> set ts. t = GenInvite \<or> t = GenJoin" for ts
    using that by (induction ts) auto
  with on_frame_frame[of s evs] frame assms(2) show ?thesis by (auto simp: loop_ok_def same_channels_def)
next
  case (view viewErr D)
  with handlers_frame(1,2)[where s = s and viewErr = viewErr and D = D] assms(2) show ?thesis by (simp add: loop_ok_def same_channels_def)
next
  case (scanned q qs D)
  with handlers_frame(3,4)[where s = "s\<lparr>lsQrScanned := qs\<rparr>" and C = C and V = V and D = D and q = q] assms(2) show ?thesis by (simp add: loop_ok_def same_channels_def)
next
  case (connect n updateErr D connectErr)
  with handlers_frame(5,6)[where s = "s\<lparr>lsOnConnect := n\<rparr>" and updateErr = updateErr and D = D and connectErr = connectErr] assms(2) show ?thesis by (simp add: loop_ok_def same_channels_def)
qed (auto simp: loop_ok_def loop_spawn_def crash_def QRCodeScanned_def ConnectRequested_def DisconnectRequested_def)

lemma loop_ok_steps: "loop_steps C V s s' \<Longrightarrow> loop_ok s \<Longrightarrow> loop_ok s'"
  by (induction rule: rtranclp_induct) (auto intro: loop_ok_step)

text \<open>The main goroutine waits to announce a configuration while an announcement is in the channel that
  only it empties.\<close>

definition frozen :: "loop_state \<Rightarrow> bool" where
  "frozen s \<longleftrightarrow> lsMain s = Announcing \<and> lsOnConfig s = 1"

lemma run_task_frozen:
  assumes "run_task C V D t s = Some (s', ts)" and "frozen s"
  shows "frozen s' \<or> lsMain s' = Crashed"
  using assms
  by (cases "(C, V, D, t, s)" rule: run_task.cases)
    (auto simp: frozen_def crash_def split: sum.splits if_splits prod.splits option.splits bool.splits)

lemma frozen_step:
  assumes "loop_step C V s s'" and "frozen s \<or> lsMain s = Crashed"
  shows "frozen s' \<or> lsMain s' = Crashed"
  using assms
proof (cases rule: loop_step.cases)
  case (goroutine us t vs D s1 ts)
  with assms(2) have "frozen (s\<lparr>lsTasks := us @ vs\<rparr>)" by (auto simp: frozen_def)
  from run_task_frozen[OF goroutine(4) this] goroutine(1) show ?thesis by (auto simp: frozen_def)
qed (use assms(2) in \<open>auto simp: frozen_def loop_spawn_def QRCodeScanned_def ConnectRequested_def DisconnectRequested_def\<close>)

lemma frozen_steps: "loop_steps C V s s' \<Longrightarrow> frozen s \<Longrightarrow> lsMain s' \<noteq> Looping"
proof -
  have "loop_steps C V s s' \<Longrightarrow> frozen s \<Longrightarrow> frozen s' \<or> lsMain s' = Crashed"
    by (induction rule: rtranclp_induct) (auto dest: frozen_step)
  then show "loop_steps C V s s' \<Longrightarrow> frozen s \<Longrightarrow> lsMain s' \<noteq> Looping" by (auto simp: frozen_def)
qed

definition disconnects :: "loop_state \<Rightarrow> nat" where
  "disconnects s = length (filter (\<lambda>t. t = SendDisconnect) (lsTasks s))"

lemma run_task_disconnect:
  assumes "run_task C V D t s = Some (s', ts)" and "lsOnDisconnect s = 1"
  shows "lsOnDisconnect s' = 1 \<and> lsTasks s' = lsTasks s \<and> t \<noteq> SendDisconnect"
  using assms
  by (cases "(C, V, D, t, s)" rule: run_task.cases)
    (auto simp: crash_def split: sum.splits if_splits prod.splits option.splits bool.splits)

lemma disconnect_step:
  assumes "loop_step C V s s'" and "lsOnDisconnect s = 1"
  shows "lsOnDisconnect s' = 1 \<and> disconnects s \<le> disconnects s'"
  using assms
proof (cases rule: loop_step.cases)
  case (goroutine us t vs D s1 ts)
  from run_task_disconnect[OF goroutine(4)] assms(2) goroutine(1,3) show ?thesis by (auto simp: disconnects_def)
next
  case (frame evs)
  with on_frame_frame[of s evs] assms(2) show ?thesis by (auto simp: disconnects_def same_channels_def)
next
  case (view viewErr D)
  with handlers_frame(1,2)[where s = s and viewErr = viewErr and D = D] assms(2) show ?thesis
    by (simp add: disconnects_def same_channels_def)
next
  case (scanned q qs D)
  with handlers_frame(3,4)[where s = "s\<lparr>lsQrScanned := qs\<rparr>" and C = C and V = V and D = D and q = q] assms(2) show ?thesis
    by (simp add: disconnects_def same_channels_def)
next
  case (connect n updateErr D connectErr)
  with handlers_frame(5,6)[where s = "s\<lparr>lsOnConnect := n\<rparr>" and updateErr = updateErr and D = D and connectErr = connectErr] assms(2)
  show ?thesis by (simp add: disconnects_def same_channels_def)
qed (auto simp: disconnects_def loop_spawn_def crash_def QRCodeScanned_def ConnectRequested_def DisconnectRequested_def)

section \<open>Properties\<close>

text \<open>
  C21: A configured device can freeze. From every state in which the client of a device with a stored
  configuration waits for events and no announcement is pending, two events that show the view, one after
  the other, lead to a state in which the main goroutine waits for room in a channel that only it empties:
  whatever happens from then on, it never handles an event again.
\<close>
theorem configured_device_can_freeze:
  assumes "lsMain s = Looping" and "lsOnConfig s = 0" and "cfNetConfig (lsConfig s) \<noteq> None"
  shows "\<exists>s'. loop_steps C V s s' \<and> frozen s' \<and> (\<nexists>s''. loop_steps C V s' s'' \<and> lsMain s'' = Looping)"
proof -
  let ?D = "\<lparr>deGetErr = None, deStoreErr = None, deHostname = Inl [], deRSA = Inl [], deX25519 = Inl []\<rparr>"
  let ?s1 = "s\<lparr>lsMain := Announcing\<rparr>" and ?s2 = "s\<lparr>lsMain := Looping, lsOnConfig := 1\<rparr>"
    and ?s3 = "s\<lparr>lsOnConfig := 1, lsMain := Announcing\<rparr>"
  have "loop_step C V s ?s1" using loop_step.view[of s C V None ?D] assms by (simp add: on_view_def st_get_def)
  moreover have "loop_step C V ?s1 ?s2" using loop_step.announce[of ?s1 C V] assms by simp
  moreover have "loop_step C V ?s2 ?s3" using loop_step.view[of ?s2 C V None ?D] assms by (simp add: on_view_def st_get_def)
  ultimately have "loop_steps C V s ?s3" by (meson rtranclp.rtrancl_into_rtrancl rtranclp.rtrancl_refl)
  moreover have "frozen ?s3" by (simp add: frozen_def)
  ultimately show ?thesis using frozen_steps by blast
qed

text \<open>Disconnecting is never handled. Once a request to disconnect is in its channel it stays there, and
  every further request waits for ever: the number of waiting requests never decreases.
\<close>
theorem disconnect_is_never_handled:
  assumes "loop_steps C V s s'" and "lsOnDisconnect s = 1"
  shows "lsOnDisconnect s' = 1 \<and> disconnects s \<le> disconnects s'"
  using assms(1)
proof (induction rule: rtranclp_induct)
  case (step s1 s2)
  with disconnect_step[OF step.hyps(2)] show ?case by auto
qed (simp add: assms(2))

text \<open>The channels of the client are bounded. In every state that the client reaches after its start, each
  channel holds at most one message, and every goroutine that waits for the approval of the device has at
  most five tries.
\<close>
theorem client_channels_are_bounded:
  assumes "loop_steps C V (start_loop D c w) s"
  shows "loop_ok s"
proof -
  have "loop_ok (start_loop D c w)"
    by (simp add: start_loop_def newProcessor_def crash_def loop_ok_def split: prod.split option.split)
  with assms show ?thesis by (rule loop_ok_steps)
qed

section \<open>Witnesses\<close>

definition example_loop :: loop_state where
  "example_loop = newProcessor (example_config\<lparr>cfNetConfig := Some ''n''\<rparr>) fresh_world"

theorem configured_device_can_freeze_witness:
  "\<exists>s'. loop_steps example_vpnlib configured_env example_loop s' \<and> frozen s'
    \<and> (\<nexists>s''. loop_steps example_vpnlib configured_env s' s'' \<and> lsMain s'' = Looping)"
  by (rule configured_device_can_freeze) (simp_all add: example_loop_def newProcessor_def)

theorem disconnect_is_never_handled_witness:
  "disconnects (example_loop\<lparr>lsOnDisconnect := 1, lsTasks := [SendDisconnect]\<rparr>) \<le>
    disconnects (ConnectRequested (example_loop\<lparr>lsOnDisconnect := 1, lsTasks := [SendDisconnect]\<rparr>))"
proof -
  let ?s = "example_loop\<lparr>lsOnDisconnect := 1, lsTasks := [SendDisconnect]\<rparr>"
  have "loop_step example_vpnlib configured_env ?s (ConnectRequested ?s)"
    by (rule loop_step.callback_connect) (simp add: example_loop_def newProcessor_def)
  then show ?thesis by (intro conjunct2[OF disconnect_is_never_handled] r_into_rtranclp) simp_all
qed

theorem client_channels_are_bounded_witness:
  "loop_ok (start_loop example_device example_config fresh_world)"
  by (rule client_channels_are_bounded[OF rtranclp.rtrancl_refl])

end
