(* ===== verification/VpnStorage.thy ===== *)
theory VpnStorage
  imports VpnClient
begin

text \<open>
  Where a device keeps its configuration on macOS (\<open>src/core/client/cmd/pcloud/storage_darwin.go\<close>): one item of
  the key chain with the configuration as a JSON document. The key chain is third-party code; its calls may
  fail.
\<close>

text \<open>Empty texts and byte slices are left out of the document; the two inner structs are always there.\<close>

definition bytes_field :: "string \<Rightarrow> string option \<Rightarrow> (string \<times> json) list" where
  "bytes_field k b = (case b of None \<Rightarrow> [] | Some s \<Rightarrow> if s = [] then [] else [(k, encode_bytes b)])"

definition encode_config :: "Config \<Rightarrow> json" where
  "encode_config c =
     JObj (omitempty ''api_addr'' (cfApiAddr c) @
       [(''encyption'', JObj (bytes_field ''public_key'' (cfEncPublic c) @ bytes_field ''private_key'' (cfEncPrivate c))),
        (''network'', JObj (bytes_field ''public_key'' (cfNetPublic c) @ bytes_field ''private_key'' (cfNetPrivate c) @
           bytes_field ''network'' (cfNetConfig c)))])"

definition zero_vpn_config :: Config where
  "zero_vpn_config = \<lparr>cfApiAddr = [], cfEncPublic = None, cfEncPrivate = None, cfNetPublic = None, cfNetPrivate = None, cfNetConfig = None\<rparr>"

definition decode_config :: "Config decoder" where
  "decode_config = decode_struct
     [''api_addr'' \<mapsto> on_field cfApiAddr cfApiAddr_update decode_string,
      ''encyption'' \<mapsto> decode_struct
        [''public_key'' \<mapsto> on_field cfEncPublic cfEncPublic_update decode_bytes,
         ''private_key'' \<mapsto> on_field cfEncPrivate cfEncPrivate_update decode_bytes],
      ''network'' \<mapsto> decode_struct
        [''public_key'' \<mapsto> on_field cfNetPublic cfNetPublic_update decode_bytes,
         ''private_key'' \<mapsto> on_field cfNetPrivate cfNetPrivate_update decode_bytes,
         ''network'' \<mapsto> on_field cfNetConfig cfNetConfig_update decode_bytes]]"

text \<open>The item of the key chain, if there is one, and the errors of its calls other than a missing item.\<close>

record keychain =
  kcQueryErr :: "string option"
  kcUpdateErr :: "string option"
  kcAddErr :: "string option"

definition darwin_Get :: "keychain \<Rightarrow> json option \<Rightarrow> (string, Config) result" where
  "darwin_Get K item =
     (case kcQueryErr K of
        Some e \<Rightarrow> Inl e
      | None \<Rightarrow> (case item of None \<Rightarrow> Inr zero_vpn_config | Some d \<Rightarrow> decode_config d zero_vpn_config))"

definition darwin_Store :: "keychain \<Rightarrow> Config \<Rightarrow> json option \<Rightarrow> json option \<times> string option" where
  "darwin_Store K config item =
     (case kcUpdateErr K of
        Some e \<Rightarrow> (item, Some e)
      | None \<Rightarrow>
          (case item of
             Some _ \<Rightarrow> (Some (encode_config config), None)
           | None \<Rightarrow> (case kcAddErr K of Some e \<Rightarrow> (None, Some e) | None \<Rightarrow> (Some (encode_config config), None))))"

section \<open>Correctness\<close>

lemma vpn_config_names:
  "to_lower ''api_addr'' = ''api_addr''" "to_lower ''encyption'' = ''encyption''" "to_lower ''network'' = ''network''"
  "to_lower ''public_key'' = ''public_key''" "to_lower ''private_key'' = ''private_key''"
  by code_simp+

text \<open>What is left of a byte slice: an empty one becomes nil.\<close>

definition kept :: "string option \<Rightarrow> string option" where
  "kept b = (if b = Some [] then None else b)"

section \<open>Properties\<close>

text \<open>A stored configuration is read back. When storing reports no error, reading gives the same
  configuration, in which empty byte slices are nil.
\<close>
theorem config_storage_roundtrip:
  assumes "darwin_Store K c item = (item', None)" and "kcQueryErr K' = None"
  shows "darwin_Get K' item' = Inr \<lparr>cfApiAddr = cfApiAddr c, cfEncPublic = kept (cfEncPublic c), cfEncPrivate = kept (cfEncPrivate c),
    cfNetPublic = kept (cfNetPublic c), cfNetPrivate = kept (cfNetPrivate c), cfNetConfig = kept (cfNetConfig c)\<rparr>"
proof -
  from assms(1) have i: "item' = Some (encode_config c)" by (auto simp: darwin_Store_def split: option.splits)
  show ?thesis using assms(2) unfolding i darwin_Get_def decode_config_def encode_config_def
    by (cases "cfApiAddr c = []"; cases "cfEncPublic c"; cases "cfEncPrivate c"; cases "cfNetPublic c"; cases "cfNetPrivate c"; cases "cfNetConfig c")
      (auto simp: omitempty_def bytes_field_def kept_def zero_vpn_config_def vpn_config_names on_field_def)
qed

theorem config_storage_roundtrip_witness:
  "darwin_Get \<lparr>kcQueryErr = None, kcUpdateErr = None, kcAddErr = None\<rparr>
     (fst (darwin_Store \<lparr>kcQueryErr = None, kcUpdateErr = None, kcAddErr = None\<rparr> example_config None)) = Inr example_config"
proof -
  let ?K = "\<lparr>kcQueryErr = None, kcUpdateErr = None, kcAddErr = None\<rparr>"
  have "darwin_Store ?K example_config None = (Some (encode_config example_config), None)" by (simp add: darwin_Store_def)
  from config_storage_roundtrip[OF this, of ?K] this show ?thesis by (simp add: example_config_def kept_def)
qed

end
