(* ===== verification/Flux.thy ===== *)
theory Flux
  imports Kube Json Program
begin

text \<open>
  Asking Flux to look at a repository now: the service \<open>src/core/fluxcd-reconciler/main.go\<close>, which
  annotates an object and waits until Flux reports that it has handled a request, and the loop of
  \<open>src/core/installer/tasks/reconciler.go\<close> that calls the service while an environment is provisioned.
  Objects are documents, times are nanoseconds; how they are written is a parameter.
\<close>

section \<open>Annotations\<close>

definition reconcileAnnotation :: string where
  "reconcileAnnotation = ''reconcile.fluxcd.io/requestedAt''"

fun string_map :: "(string \<times> json) list \<Rightarrow> (string \<times> string) list option" where
  "string_map [] = Some []"
| "string_map ((k, v) # kvs) =
     (case (v, string_map kvs) of (JStr s, Some m) \<Rightarrow> Some ((k, s) # m) | _ \<Rightarrow> None)"

text \<open>\<open>GetAnnotations\<close>: nil unless the object has a map of strings there.\<close>

definition GetAnnotations :: "json \<Rightarrow> (string \<times> string) list option" where
  "GetAnnotations obj =
     (case obj_get ''metadata'' obj of
        None \<Rightarrow> None
      | Some md \<Rightarrow> (case obj_get ''annotations'' md of Some (JObj kvs) \<Rightarrow> string_map kvs | _ \<Rightarrow> None))"

definition SetAnnotations :: "(string \<times> string) list \<Rightarrow> json \<Rightarrow> json" where
  "SetAnnotations m obj =
     (case obj_get ''metadata'' obj of
        None \<Rightarrow> obj
      | Some md \<Rightarrow> obj_put ''metadata'' (obj_put ''annotations'' (JObj (map (\<lambda>(k, v). (k, JStr v)) m)) md) obj)"

definition getReconciledAt :: "json \<Rightarrow> (string, string) result" where
  "getReconciledAt obj =
     (case obj_get ''status'' obj of
        None \<Rightarrow> Inl ''status not found''
      | Some status \<Rightarrow>
          if \<not> is_obj status then Inl ''status not map''
          else
            (case obj_get ''lastHandledReconcileAt'' status of
               None \<Rightarrow> Inl ''lastHandledReconcileAt not found in status''
             | Some (JStr s) \<Rightarrow> Inr s
             | Some _ \<Rightarrow> Inl ''lastHandledReconcileAt not string''))"

section \<open>The service\<close>

record clock =
  tmNow :: int
  tmFormat :: "int \<Rightarrow> string"
  tmParse :: "string \<Rightarrow> (string, int) result"

definition hour :: int where "hour = 3600 * 1000000000"

definition kube_update :: "kube_faults \<Rightarrow> string \<Rightarrow> kube_key \<Rightarrow> 'a \<Rightarrow> 'a objects \<Rightarrow> 'a objects \<times> string option" where
  "kube_update F kind k x objs =
     (case F KUpdate kind of
        Some e \<Rightarrow> (objs, Some e)
      | None \<Rightarrow> if objs k = None then (objs, Some kubeNotFound) else (objs(k \<mapsto> x), None))"

text \<open>What one turn of the loop finds: an end, or that it has to look again.\<close>

definition handled :: "clock \<Rightarrow> string \<Rightarrow> kube_key \<Rightarrow> kube_faults \<times> json objects \<Rightarrow> string option option" where
  "handled T kind k x =
     (case bindE (kube_get (fst x) kind k (snd x)) (\<lambda>obj.
         bindE (getReconciledAt obj) (tmParse T)) of
        Inl e \<Rightarrow> Some (Some e)
      | Inr reconciledAt \<Rightarrow> if tmNow T < reconciledAt + 3 * hour then Some None else None)"

text \<open>The loop on the states of the cluster it finds; \<open>None\<close> when it never ends.\<close>

partial_function (option) wait_handled ::
    "clock \<Rightarrow> string \<Rightarrow> kube_key \<Rightarrow> (nat \<Rightarrow> kube_faults \<times> json objects) \<Rightarrow> nat \<Rightarrow> string option option" where
  "wait_handled T kind k W i =
     (case handled T kind k (W i) of Some r \<Rightarrow> Some r | None \<Rightarrow> wait_handled T kind k W (i + 1))"

definition flux_reconcile ::
    "clock \<Rightarrow> kube_faults \<Rightarrow> string \<Rightarrow> kube_key \<Rightarrow> (nat \<Rightarrow> kube_faults \<times> json objects) \<Rightarrow> json objects \<Rightarrow>
     json objects \<times> unit outcome" where
  "flux_reconcile T F kind k W objs =
     (case kube_get F kind k objs of
        Inl e \<Rightarrow> (objs, Fail e)
      | Inr unstr \<Rightarrow>
          (case GetAnnotations unstr of
             None \<Rightarrow> (objs, Panic)
           | Some annotations \<Rightarrow>
               (case kube_update F kind k
                   (SetAnnotations (fields_put reconcileAnnotation (tmFormat T (tmNow T)) annotations) unstr) objs of
                  (objs', Some e) \<Rightarrow> (objs', Fail e)
                | (objs', None) \<Rightarrow>
                    (objs', case wait_handled T kind k W 0 of None \<Rightarrow> Hang | Some r \<Rightarrow> ended_as r))))"

definition flux_answer :: "json objects \<times> unit outcome \<Rightarrow> json objects \<times> unit response option" where
  "flux_answer x =
     (case x of (objs, r) \<Rightarrow> (objs,
       (case r of
          Val _ \<Rightarrow> Some NoContent
        | Fail _ \<Rightarrow> Some (HttpError StatusInternalServerError ''error'')
        | Hang \<Rightarrow> None
        | _ \<Rightarrow> Some Aborted)))"

text \<open>Objects of both kinds are kept by kind.\<close>

definition flux_http ::
    "clock \<Rightarrow> kube_faults \<Rightarrow> string \<Rightarrow> (string \<Rightarrow> nat \<Rightarrow> kube_faults \<times> json objects) \<Rightarrow> (string \<Rightarrow> json objects) \<Rightarrow>
     (string \<Rightarrow> json objects) \<times> unit response option" where
  "flux_http T F path W cl =
     (let run = (\<lambda>kind k. case flux_answer (flux_reconcile T F kind k (W kind) (cl kind)) of (objs, r) \<Rightarrow> (cl(kind := objs), r));
          missing = (cl, Some (HttpError StatusNotFound ''404 page not found'')) in
      case split_on (CHR ''/'') path of
        [z, a, b, ns, n, r] \<Rightarrow>
          if z = [] \<and> a = ''source'' \<and> b = ''git'' \<and> ns \<noteq> [] \<and> n \<noteq> [] \<and> r = ''reconcile'' then run ''gitrepositories'' (ns, n)
          else missing
      | [z, a, ns, n, r] \<Rightarrow>
          if z = [] \<and> a = ''kustomization'' \<and> ns \<noteq> [] \<and> n \<noteq> [] \<and> r = ''reconcile'' then run ''kustomizations'' (ns, n)
          else missing
      | _ \<Rightarrow> missing)"

section \<open>The loop of the installer\<close>

definition NewFluxcdReconciler :: "string \<Rightarrow> string \<Rightarrow> string list" where
  "NewFluxcdReconciler addr name =
     [addr @ ''/source/git/'' @ name @ ''/'' @ name @ ''/reconcile'',
      addr @ ''/kustomization/'' @ name @ ''/'' @ name @ ''/reconcile'']"

datatype wake = Tick | Done

text \<open>The addresses that are called before the context is done; \<open>None\<close> when it never is.\<close>

fun reconcile_calls :: "string list \<Rightarrow> wake list \<Rightarrow> string list option" where
  "reconcile_calls resources [] = None"
| "reconcile_calls resources (Done # ws) = Some []"
| "reconcile_calls resources (Tick # ws) = map_option ((@) resources) (reconcile_calls resources ws)"

section \<open>Correctness\<close>

lemma kube_update_no_faults [simp]:
  "kube_update no_faults kind k x objs = (if objs k = None then (objs, Some kubeNotFound) else (objs(k \<mapsto> x), None))"
  by (simp add: kube_update_def no_faults_def)

lemma string_map_strings: "string_map (map (\<lambda>(k, v). (k, JStr v)) m) = Some m"
  by (induction m) auto

lemma annotations_set:
  assumes "GetAnnotations obj = Some m"
  shows "GetAnnotations (SetAnnotations m' obj) = Some m'"
proof -
  from assms obtain md where md: "obj_get ''metadata'' obj = Some md" "is_obj md"
    by (cases "obj_get ''metadata'' obj") (auto simp: GetAnnotations_def split: option.splits intro: ccontr,
        metis is_obj.elims(3) obj_get.simps option.distinct(1))
  then have "is_obj obj" by (cases obj) auto
  with md show ?thesis by (simp add: SetAnnotations_def GetAnnotations_def obj_get_put string_map_strings)
qed

text \<open>A request that ends without an error has stored the time of the request.\<close>

definition time_format_ok :: "clock \<Rightarrow> bool" where
  "time_format_ok T \<longleftrightarrow> (\<forall>t. tmParse T (tmFormat T t) = Inr t)"

lemma wait_handled_returns:
  assumes "handled T kind k (W (i + n)) = Some r" "\<And>j. j < n \<Longrightarrow> handled T kind k (W (i + j)) = None"
  shows "wait_handled T kind k W i = Some r"
  using assms
proof (induction n arbitrary: i)
  case 0
  then show ?case by (subst wait_handled.simps) simp
next
  case (Suc n)
  from Suc.prems(2)[of 0] have "handled T kind k (W i) = None" by simp
  moreover have "wait_handled T kind k W (i + 1) = Some r"
    by (rule Suc.IH) (use Suc.prems(1) Suc.prems(2)[of "Suc _"] in auto)
  ultimately show ?case by (subst wait_handled.simps) simp
qed

text \<open>The object as Flux reports to have handled a request made at a time.\<close>

definition handled_at :: "clock \<Rightarrow> int \<Rightarrow> json \<Rightarrow> bool" where
  "handled_at T t obj \<longleftrightarrow> getReconciledAt obj = Inr (tmFormat T t)"

lemma handled_ok:
  assumes "time_format_ok T" "objs k = Some obj" "handled_at T t obj" "tmNow T < t + 3 * hour"
  shows "handled T kind k (no_faults, objs) = Some None"
  using assms by (simp add: handled_def handled_at_def time_format_ok_def)

lemma handled_not:
  assumes "time_format_ok T" "objs k = Some obj" "handled_at T t obj" "t + 3 * hour \<le> tmNow T"
  shows "handled T kind k (no_faults, objs) = None"
  using assms by (simp add: handled_def handled_at_def time_format_ok_def)

section \<open>Properties\<close>

text \<open>A reconciliation is requested, and ends when Flux has handled it. For an object with
  annotations, the request is stored in the object with the time it was made and the other annotations
  as they were; once Flux reports that it has handled that request, having reported requests of more
  than three hours ago until then, the call ends without an error.
\<close>
theorem reconcile_waits_for_flux:
  assumes "time_format_ok T" and "objs k = Some obj" and "GetAnnotations obj = Some m"
    and "W n = (no_faults, objs1)" and "objs1 k = Some obj1" and "handled_at T (tmNow T) obj1"
    and "\<And>j. j < n \<Longrightarrow> \<exists>objs2 obj2 t. W j = (no_faults, objs2) \<and> objs2 k = Some obj2 \<and> handled_at T t obj2
          \<and> t + 3 * hour \<le> tmNow T"
  shows "\<exists>obj'. flux_reconcile T no_faults kind k W objs = (objs(k \<mapsto> obj'), Val ())
    \<and> GetAnnotations obj' = Some (fields_put reconcileAnnotation (tmFormat T (tmNow T)) m)"
proof -
  have "handled T kind k (W n) = Some None"
    unfolding assms(4) by (rule handled_ok[where obj = obj1, OF assms(1) _ assms(6)]) (simp_all add: hour_def assms(5))
  moreover have "handled T kind k (W j) = None" if j: "j < n" for j
  proof -
    from assms(7)[OF j] obtain objs2 obj2 t where
      "W j = (no_faults, objs2)" "objs2 k = Some obj2" "handled_at T t obj2" "t + 3 * hour \<le> tmNow T" by blast
    then show ?thesis using handled_not[OF assms(1)] by metis
  qed
  ultimately have "wait_handled T kind k W 0 = Some None" by (intro wait_handled_returns[of _ _ _ _ _ n]) auto
  then show ?thesis using assms(2,3) annotations_set[OF assms(3)]
    by (simp add: flux_reconcile_def) blast
qed

text \<open>A recent reconciliation ends the wait at once. Three hours are added to the time that Flux
  reports. When the object was handled at any time in the last three hours, the call ends without an
  error at the first look, although its own request has not been handled.
\<close>
theorem recent_reconcile_ends_the_wait:
  assumes "time_format_ok T" and "objs k = Some obj" and "GetAnnotations obj = Some m" and "handled_at T t obj"
    and "tmNow T - 3 * hour < t" and "W 0 = (no_faults, objs)"
  shows "snd (flux_reconcile T no_faults kind k W objs) = Val ()"
proof -
  have "handled T kind k (W 0) = Some None"
    unfolding assms(6) by (rule handled_ok[where obj = obj, OF assms(1) _ assms(4)]) (use assms(2,5) in simp_all)
  then have "wait_handled T kind k W 0 = Some None" by (subst wait_handled.simps) simp
  then show ?thesis using assms(2,3)
    by (simp add: flux_reconcile_def)
qed

text \<open>An object without annotations crashes the request: the time is written into a nil map.
\<close>
theorem unannotated_object_panics:
  assumes "kube_get F kind k objs = Inr obj" and "GetAnnotations obj = None"
  shows "flux_reconcile T F kind k W objs = (objs, Panic)"
  using assms by (simp add: flux_reconcile_def)

section \<open>Witnesses\<close>

definition atoi :: "string \<Rightarrow> int" where
  "atoi s = (if has_prefix s ''-'' then - int (undigits (tl s)) else int (undigits s))"

lemma atoi_itoa: "atoi (itoa i) = i"
proof -
  have "\<not> has_prefix (nat_digits n) ''-''" for n
    using nat_digits_no_minus[of n] by (cases "nat_digits n") (auto simp: has_prefix_def)
  then show ?thesis by (auto simp: atoi_def itoa_def undigits_nat_digits has_prefix_def)
qed

definition example_clock :: clock where
  "example_clock = \<lparr>tmNow = 20 * hour, tmFormat = itoa, tmParse = (\<lambda>s. Inr (atoi s))\<rparr>"

lemma example_clock_ok: "time_format_ok example_clock"
  by (simp add: time_format_ok_def example_clock_def atoi_itoa)

definition flux_object :: "int \<Rightarrow> json" where
  "flux_object t = JObj [(''metadata'', JObj [(''annotations'', JObj [(''a'', JStr ''b'')])]),
     (''status'', JObj [(''lastHandledReconcileAt'', JStr (itoa t))])]"

lemma flux_object_facts:
  "GetAnnotations (flux_object t) = Some [(''a'', ''b'')]" "handled_at example_clock t (flux_object t)"
  by (simp_all add: flux_object_def GetAnnotations_def handled_at_def getReconciledAt_def example_clock_def)

theorem reconcile_waits_for_flux_witness:
  "\<exists>obj'. flux_reconcile example_clock no_faults ''kustomizations'' (''n'', ''n'')
      (\<lambda>i. (no_faults, [(''n'', ''n'') \<mapsto> flux_object (if i = 0 then hour else 20 * hour)])) [(''n'', ''n'') \<mapsto> flux_object hour]
      = ([(''n'', ''n'') \<mapsto> obj'], Val ())"
proof -
  let ?W = "\<lambda>i::nat. (no_faults, [(''n'', ''n'') \<mapsto> flux_object (if i = 0 then hour else 20 * hour)])"
  have now: "tmNow example_clock = 20 * hour" by (simp add: example_clock_def)
  have "\<exists>obj'. flux_reconcile example_clock no_faults ''kustomizations'' (''n'', ''n'') ?W [(''n'', ''n'') \<mapsto> flux_object hour]
      = ([(''n'', ''n'') \<mapsto> flux_object hour]((''n'', ''n'') \<mapsto> obj'), Val ())
    \<and> GetAnnotations obj' = Some (fields_put reconcileAnnotation (tmFormat example_clock (tmNow example_clock)) [(''a'', ''b'')])"
  proof (rule reconcile_waits_for_flux[OF example_clock_ok, where n = 1 and obj = "flux_object hour"
        and ?objs1.0 = "[(''n'', ''n'') \<mapsto> flux_object (20 * hour)]"])
    show "handled_at example_clock (tmNow example_clock) (flux_object (20 * hour))"
      unfolding now by (rule flux_object_facts)
    show "\<exists>objs2 obj2 t. ?W j = (no_faults, objs2) \<and> objs2 (''n'', ''n'') = Some obj2 \<and> handled_at example_clock t obj2
        \<and> t + 3 * hour \<le> tmNow example_clock" if "j < 1" for j
      using that by (intro exI[of _ "[(''n'', ''n'') \<mapsto> flux_object hour]"] exI[of _ "flux_object hour"] exI[of _ hour])
        (simp add: flux_object_facts now hour_def)
  qed (simp_all add: flux_object_facts)
  then show ?thesis by (auto simp: fun_upd_upd)
qed

theorem recent_reconcile_ends_the_wait_witness:
  "snd (flux_reconcile example_clock no_faults ''kustomizations'' (''n'', ''n'')
      (\<lambda>i. (no_faults, [(''n'', ''n'') \<mapsto> flux_object (18 * hour)])) [(''n'', ''n'') \<mapsto> flux_object (18 * hour)]) = Val ()"
  by (rule recent_reconcile_ends_the_wait[OF example_clock_ok, where obj = "flux_object (18 * hour)" and t = "18 * hour"])
    (simp_all add: flux_object_facts, simp add: example_clock_def hour_def)

theorem unannotated_object_panics_witness:
  "flux_reconcile example_clock no_faults ''kustomizations'' (''n'', ''n'') (\<lambda>_. (no_faults, Map.empty))
     [(''n'', ''n'') \<mapsto> JObj []] = ([(''n'', ''n'') \<mapsto> JObj []], Panic)"
  by (rule unannotated_object_panics[where obj = "JObj []"]) (simp_all add: GetAnnotations_def)

end
