(* ===== verification/DnsRecords.thy ===== *)
theory DnsRecords
  imports DnsStore "HOL-Library.Word"
begin

text \<open>
  Publishing the records of an environment at a registrar: \<open>src/core/installer/welcome/dns.go\<close> parses
  the lines that the DNS API prints and hands the records to the registrar, which is a parameter, as
  is the relative form of a name (both of \<open>libdns\<close>).
\<close>

section \<open>Parsing\<close>

record Record =
  rcType :: string
  rcName :: string
  rcValue :: string
  rcTTL :: int

definition newline :: char where "newline = CHR 0x0A"

definition is_blank :: "char \<Rightarrow> bool" where
  "is_blank c \<longleftrightarrow> is_space c \<and> c \<noteq> newline"

text \<open>The verb \<open>%s\<close> of \<open>Fscanf\<close>: a word after blanks; a line break or the end of the input is an error.\<close>

definition scan_word :: "string \<Rightarrow> (string, string \<times> string) result" where
  "scan_word s =
     (let s' = dropWhile is_blank s in
      if s' = [] then Inl ''unexpected EOF''
      else if hd s' = newline then Inl ''unexpected newline''
      else Inr (takeWhile (\<lambda>c. \<not> is_space c) s', dropWhile (\<lambda>c. \<not> is_space c) s'))"

definition scan_digit :: "char \<Rightarrow> bool" where
  "scan_digit c = (let n = (of_char c :: nat) in 48 \<le> n \<and> n \<le> 57)"

text \<open>The verb \<open>%d\<close> for a 64-bit integer, followed by a space of the format.\<close>

definition scan_int :: "string \<Rightarrow> (string, int \<times> string) result" where
  "scan_int s =
     (let s' = dropWhile is_blank s in
      if s' = [] then Inl ''unexpected EOF''
      else if hd s' = newline then Inl ''unexpected newline''
      else
        (let neg = hd s' = CHR ''-'';
             t = (if neg \<or> hd s' = CHR ''+'' then tl s' else s');
             ds = takeWhile scan_digit t; rest = dropWhile scan_digit t;
             n = (if neg then - int (undigits ds) else int (undigits ds)) in
         if ds = [] then Inl ''expected integer''
         else if n < - (2 ^ 63) \<or> 2 ^ 63 \<le> n then Inl ''value out of range''
         else if rest \<noteq> [] \<and> \<not> is_blank (hd rest) then Inl ''expected space in input to match format''
         else Inr (n, rest)))"

text \<open>The product of two durations wraps.\<close>

definition seconds :: "int \<Rightarrow> int" where
  "seconds ttl = sint (word_of_int ttl * word_of_int 1000000000 :: 64 word)"

definition parse_record :: "(string \<Rightarrow> string \<Rightarrow> string) \<Rightarrow> string \<Rightarrow> string \<Rightarrow> (string, Record) result" where
  "parse_record relativeName zone r =
     bindE (scan_word r) (\<lambda>(name, l).
     bindE (scan_int l) (\<lambda>(ttl, l).
     bindE (scan_word l) (\<lambda>(tmp, l).
     bindE (scan_word l) (\<lambda>(t, l).
       Inr \<lparr>rcType = t, rcName = relativeName name zone, rcValue = trim_space l, rcTTL = seconds ttl\<rparr>))))"

fun ParseRecords :: "(string \<Rightarrow> string \<Rightarrow> string) \<Rightarrow> string \<Rightarrow> string list \<Rightarrow> (string, Record list) result" where
  "ParseRecords relativeName zone [] = Inr []"
| "ParseRecords relativeName zone (r # records) =
     (if r = [] then ParseRecords relativeName zone records
      else
        bindE (parse_record relativeName zone r) (\<lambda>rr.
        bindE (ParseRecords relativeName zone records) (\<lambda>rrs.
          Inr (rr # rrs))))"

definition gandi_Update ::
    "(string \<Rightarrow> string \<Rightarrow> string) \<Rightarrow> (string \<Rightarrow> Record list \<Rightarrow> 'p \<Rightarrow> 'p \<times> string option) \<Rightarrow> string \<Rightarrow> string list \<Rightarrow> 'p \<Rightarrow>
     'p \<times> string option" where
  "gandi_Update relativeName setRecords zone records p =
     (case ParseRecords relativeName zone records of
        Inl e \<Rightarrow> (p, Some e)
      | Inr rrs \<Rightarrow> setRecords zone rrs p)"

section \<open>Lines\<close>

definition is_word :: "string \<Rightarrow> bool" where
  "is_word s \<longleftrightarrow> s \<noteq> [] \<and> list_all (\<lambda>c. \<not> is_space c) s"

text \<open>A line of a zone: fields separated by a blank.\<close>

definition record_line :: "char \<Rightarrow> string \<Rightarrow> nat \<Rightarrow> string \<Rightarrow> string \<Rightarrow> string \<Rightarrow> string" where
  "record_line b name ttl cls t v = name @ [b] @ nat_digits ttl @ [b] @ cls @ [b] @ t @ [b] @ v"

lemma is_word_hd: "is_word s \<Longrightarrow> s \<noteq> [] \<and> \<not> is_blank (hd s) \<and> hd s \<noteq> newline"
  by (cases s) (auto simp: is_word_def is_blank_def newline_def is_space_def)

lemma scan_word_ok:
  assumes "is_word s" "is_space b" "list_all is_blank u"
  shows "scan_word (u @ s @ b # t) = Inr (s, b # t)"
proof -
  have "dropWhile is_blank (u @ s @ b # t) = s @ b # t"
    using assms(3) is_word_hd[OF assms(1)] by (cases s) (auto simp: list_all_iff dropWhile_append2)
  moreover have "takeWhile (\<lambda>c. \<not> is_space c) (s @ b # t) = s" "dropWhile (\<lambda>c. \<not> is_space c) (s @ b # t) = b # t"
    using assms(1,2) by (auto simp: is_word_def list_all_iff takeWhile_append2 dropWhile_append2)
  ultimately show ?thesis using is_word_hd[OF assms(1)] by (simp add: scan_word_def Let_def hd_append)
qed

lemma digits_scan: "c \<in> set (nat_digits n) \<Longrightarrow> scan_digit c \<and> \<not> is_space c \<and> c \<noteq> CHR ''-'' \<and> c \<noteq> CHR ''+''"
proof -
  assume "c \<in> set (nat_digits n)"
  then obtain d :: nat where "d < 10" "c = char_of (48 + d)" using nat_digits_set by blast
  moreover have "\<forall>d \<in> set [0..<10]. scan_digit (char_of (48 + d :: nat)) \<and> \<not> is_space (char_of (48 + d))
      \<and> char_of (48 + d) \<noteq> CHR ''-'' \<and> char_of (48 + d) \<noteq> CHR ''+''" by code_simp
  ultimately show ?thesis by simp
qed

lemma blank_not_digit: "is_blank b \<Longrightarrow> \<not> scan_digit b"
  by (auto simp: is_blank_def is_space_def scan_digit_def Let_def)

lemma scan_int_ok:
  assumes "is_blank b" "ttl < 2 ^ 63"
  shows "scan_int (b # nat_digits ttl @ b # t) = Inr (int ttl, b # t)"
proof -
  let ?d = "nat_digits ttl"
  have ne: "?d \<noteq> []" by simp
  then have hd: "hd ?d \<in> set ?d" by (rule hd_in_set)
  note h = digits_scan[OF hd]
  have "\<not> is_blank (hd ?d)" using h by (simp add: is_blank_def)
  then have dw: "dropWhile is_blank (b # ?d @ b # t) = ?d @ b # t" using assms(1) ne by (cases ?d) auto
  have tk: "takeWhile scan_digit (?d @ b # t) = ?d" "dropWhile scan_digit (?d @ b # t) = b # t"
    using digits_scan blank_not_digit[OF assms(1)] by (auto simp: takeWhile_append2 dropWhile_append2)
  have nn: "hd ?d \<noteq> newline" using h by (auto simp: newline_def is_space_def)
  have r: "\<not> (int ttl < - (2 ^ 63) \<or> 2 ^ 63 \<le> int ttl)" using assms(2) by simp
  show ?thesis
    unfolding scan_int_def dw Let_def
    using ne h nn r assms(1) by (simp add: tk undigits_nat_digits hd_append)
qed

lemma trim_space_blank: "is_space b \<Longrightarrow> trim_space v = v \<Longrightarrow> trim_space (b # v) = v"
  by (simp add: trim_space_def)

lemma parse_record_line:
  assumes "is_blank b" "is_word name" "ttl < 2 ^ 63" "is_word cls" "is_word t" "trim_space v = v"
  shows "parse_record rel zone (record_line b name ttl cls t v) =
    Inr \<lparr>rcType = t, rcName = rel name zone, rcValue = v, rcTTL = seconds (int ttl)\<rparr>"
proof -
  have b: "is_space b" using assms(1) by (simp add: is_blank_def)
  have "scan_word (record_line b name ttl cls t v) = Inr (name, b # nat_digits ttl @ b # cls @ b # t @ b # v)"
    using scan_word_ok[OF assms(2) b, of "[]"] by (simp add: record_line_def)
  moreover have "scan_word (b # cls @ b # t @ b # v) = Inr (cls, b # t @ b # v)"
    "scan_word (b # t @ b # v) = Inr (t, b # v)"
    using scan_word_ok[OF assms(4) b, of "[b]"] scan_word_ok[OF assms(5) b, of "[b]"] assms(1) by simp_all
  ultimately show ?thesis
    by (simp add: parse_record_def scan_int_ok[OF assms(1,3)] trim_space_blank[OF b assms(6)])
qed

text \<open>Up to 9223372036 seconds, almost three hundred years, the time to live does not wrap.\<close>

lemma seconds_ok:
  assumes "0 \<le> ttl" "ttl \<le> 9223372036"
  shows "seconds ttl = ttl * 1000000000"
proof -
  have "word_of_int ttl * word_of_int 1000000000 = (word_of_int (ttl * 1000000000) :: 64 word)" by simp
  moreover have "- (2 ^ 63) \<le> ttl * 1000000000" "ttl * 1000000000 < 2 ^ 63" using assms by simp_all
  ultimately show ?thesis
    by (simp only: seconds_def sint_sbintrunc' signed_take_bit_int_eq_self) (simp add: signed_take_bit_int_eq_self)
qed

text \<open>What the DNS API prints, line by line.\<close>

definition published :: "string \<Rightarrow> string \<Rightarrow> string list \<Rightarrow> string list" where
  "published zone ds ips =
     ds # concat (map (\<lambda>(i, ip).
       [record_line (CHR '' '') (''ns'' @ nat_digits (i + 1) @ ''.'' @ zone @ ''.'') 10800 ''IN'' ''A'' ip,
        record_line (CHR '' '') (hd (split_on (CHR ''.'') zone)) 10800 ''IN'' ''NS'' (''ns'' @ nat_digits (i + 1) @ ''.'' @ zone @ ''.'')])
       (List.enumerate 0 ips))"

lemma digits_10800: "nat_digits 10800 = ''10800''"
proof -
  have "map char_of [49, 48, 56, 48, 48::nat] = ''10800''" by code_simp
  then show ?thesis by (simp add: nat_digits.simps)
qed

lemma publish_lines_published: "publish_lines zone ds ips = map (\<lambda>l. l @ [newline]) (published zone ds ips)"
  by (simp add: publish_lines_def published_def Let_def map_concat comp_def split_def record_line_def digits_10800 nl_def newline_def)

lemma emit_all: "emit (\<lambda>_. None) k ls = concat ls"
  by (induction ls arbitrary: k) auto

lemma split_lines: "\<forall>l \<in> set ls. c \<notin> set l \<Longrightarrow> split_on c (concat (map (\<lambda>l. l @ [c]) ls)) = ls @ [[]]"
  by (induction ls) (auto simp: split_on_append)

lemma ParseRecords_lines:
  "\<forall>(l, r) \<in> set lrs. l \<noteq> [] \<and> parse_record rel zone l = Inr r \<Longrightarrow> ParseRecords rel zone (map fst lrs @ [[]]) = Inr (map snd lrs)"
  by (induction lrs) auto

text \<open>The records the lines stand for.\<close>

definition registrar_records ::
    "(string \<Rightarrow> string \<Rightarrow> string) \<Rightarrow> string \<Rightarrow> string \<Rightarrow> Record \<Rightarrow> string list \<Rightarrow> Record list" where
  "registrar_records rel parent zone dsrec ips =
     (let ttl = 10800 * 1000000000 in
      dsrec # concat (map (\<lambda>(i, ip).
        [\<lparr>rcType = ''A'', rcName = rel (''ns'' @ nat_digits (i + 1) @ ''.'' @ zone @ ''.'') parent, rcValue = ip, rcTTL = ttl\<rparr>,
         \<lparr>rcType = ''NS'', rcName = rel (hd (split_on (CHR ''.'') zone)) parent,
          rcValue = ''ns'' @ nat_digits (i + 1) @ ''.'' @ zone @ ''.'', rcTTL = ttl\<rparr>])
        (List.enumerate 0 ips)))"

lemma word_trim: "is_word s \<Longrightarrow> trim_space s = s"
proof -
  assume w: "is_word s"
  then have "\<not> is_space (hd s)" "\<not> is_space (hd (rev s))" "s \<noteq> []"
    by (auto simp: is_word_def list_all_iff hd_rev)
  then have "dropWhile is_space s = s" "dropWhile is_space (rev s) = rev s"
    by (auto simp: dropWhile_eq_self_iff)
  then show ?thesis by (simp add: trim_space_def)
qed

lemma word_append: "is_word s \<Longrightarrow> list_all (\<lambda>c. \<not> is_space c) t \<Longrightarrow> is_word (s @ t)"
  by (simp add: is_word_def)

lemma word_no_newline: "is_word s \<Longrightarrow> newline \<notin> set s"
  by (auto simp: is_word_def list_all_iff newline_def is_space_def)

lemma published_records:
  assumes "is_word zone" "is_word (hd (split_on (CHR ''.'') zone))" "list_all is_word ips"
    and "parse_record rel parent ds = Inr dsrec" "ds \<noteq> []"
  shows "\<exists>lrs. map fst lrs = published zone ds ips \<and> map snd lrs = registrar_records rel parent zone dsrec ips
    \<and> (\<forall>(l, r) \<in> set lrs. l \<noteq> [] \<and> parse_record rel parent l = Inr r)"
proof -
  let ?n = "\<lambda>i. ''ns'' @ nat_digits (Suc i) @ ''.'' @ zone @ ''.''"
  let ?a = "\<lambda>(i, ip). (record_line (CHR '' '') (?n i) 10800 ''IN'' ''A'' ip,
      \<lparr>rcType = ''A'', rcName = rel (?n i) parent, rcValue = ip, rcTTL = 10800 * 1000000000\<rparr>)"
  let ?s = "\<lambda>(i, ip). (record_line (CHR '' '') (hd (split_on (CHR ''.'') zone)) 10800 ''IN'' ''NS'' (?n i),
      \<lparr>rcType = ''NS'', rcName = rel (hd (split_on (CHR ''.'') zone)) parent, rcValue = ?n i, rcTTL = 10800 * 1000000000\<rparr>)"
  let ?lrs = "(ds, dsrec) # concat (map (\<lambda>x. [?a x, ?s x]) (List.enumerate 0 ips))"
  have c: "is_blank (CHR '' '')" "is_word ''IN''" "is_word ''A''" "is_word ''NS''" by code_simp+
  have sp: "\<not> is_space (CHR ''.'')" "\<not> is_space (CHR ''n'')" "\<not> is_space (CHR ''s'')" by code_simp+
  have n: "is_word (?n i)" for i
    using assms(1) digits_scan[of _ "Suc i"] sp by (auto simp: is_word_def list_all_iff)
  have t: "seconds 10800 = 10800 * 1000000000" using seconds_ok[of 10800] by simp
  have "parse_record rel parent (fst (?a x)) = Inr (snd (?a x)) \<and> parse_record rel parent (fst (?s x)) = Inr (snd (?s x))"
    if "x \<in> set (List.enumerate 0 ips)" for x
  proof -
    obtain i ip where x: "x = (i, ip)" by (cases x)
    with that assms(3) have "is_word ip" by (auto simp: list_all_iff in_set_enumerate_eq)
    then show ?thesis
      using parse_record_line[OF c(1) n, of 10800 "''IN''" "''A''" ip rel parent i]
        parse_record_line[OF c(1) assms(2), of 10800 "''IN''" "''NS''" "?n i" rel parent]
      by (simp add: x c word_trim n t del: append_assoc append_Cons append_Nil)
  qed
  then have "\<forall>(l, r) \<in> set ?lrs. l \<noteq> [] \<and> parse_record rel parent l = Inr r"
    using assms(4,5) by (fastforce simp: record_line_def)
  moreover have "map fst ?lrs = published zone ds ips"
    by (simp add: published_def map_concat comp_def split_def)
  moreover have "map snd ?lrs = registrar_records rel parent zone dsrec ips"
    by (simp add: registrar_records_def Let_def map_concat comp_def split_def)
  ultimately show ?thesis by blast
qed

section \<open>Properties\<close>

text \<open>
  C26: What the DNS API publishes is what the registrar is given. When the lines that the API prints
  for a zone are fetched whole, splitting and parsing them gives the record of the zone's key as the
  text says it, and for every nameserver its address and the delegation of the subdomain to it, with a
  time to live of three hours; these and no others are handed to the registrar.
\<close>
theorem published_records_reach_registrar:
  assumes "is_word zone" and "is_word (hd (split_on (CHR ''.'') zone))" and "list_all is_word ips"
    and "is_blank b" and "is_word name" and "ttl \<le> 9223372036" and "is_word cls" and "is_word t"
    and "trim_space v = v" and "newline \<notin> set v"
  shows "gandi_Update rel setRecords parent
      (split_on newline (recordsToPublish (\<lambda>_. None) zone (record_line b name ttl cls t v) ips)) p
    = setRecords parent (registrar_records rel parent zone
        \<lparr>rcType = t, rcName = rel name parent, rcValue = v, rcTTL = int ttl * 1000000000\<rparr> ips) p"
proof -
  let ?ds = "record_line b name ttl cls t v"
  let ?r = "\<lparr>rcType = t, rcName = rel name parent, rcValue = v, rcTTL = int ttl * 1000000000\<rparr>"
  have "parse_record rel parent ?ds = Inr ?r"
    using parse_record_line[OF assms(4,5) _ assms(7,8,9)] seconds_ok[of "int ttl"] assms(6) by simp
  moreover have "?ds \<noteq> []" using assms(5) by (simp add: record_line_def is_word_def)
  ultimately obtain lrs where lrs: "map fst lrs = published zone ?ds ips"
    "map snd lrs = registrar_records rel parent zone ?r ips"
    "\<forall>(l, r) \<in> set lrs. l \<noteq> [] \<and> parse_record rel parent l = Inr r"
    using published_records[OF assms(1-3)] by blast
  have nd: "newline \<notin> set (nat_digits n)" for n using digits_scan[of newline n] by (auto simp: newline_def is_space_def)
  have lit: "newline \<notin> set ''ns''" "newline \<notin> set ''.''" "newline \<notin> set ''IN''" "newline \<notin> set ''A''" "newline \<notin> set ''NS''"
    "newline \<noteq> CHR '' ''" by code_simp+
  have "b \<noteq> newline" using assms(4) by (simp add: is_blank_def)
  then have "newline \<notin> set ?ds"
    using word_no_newline assms(5,7,8,10) nd by (auto simp: record_line_def)
  moreover have "newline \<notin> set ip" if "ip \<in> set ips" for ip using that assms(3) word_no_newline by (auto simp: list_all_iff)
  ultimately have "\<forall>l \<in> set (published zone ?ds ips). newline \<notin> set l"
    using nd lit word_no_newline[OF assms(1)] word_no_newline[OF assms(2)]
    by (auto simp: published_def record_line_def in_set_enumerate_eq)
  then have "split_on newline (recordsToPublish (\<lambda>_. None) zone ?ds ips) = published zone ?ds ips @ [[]]"
    by (simp add: recordsToPublish_def emit_all publish_lines_published split_lines)
  with ParseRecords_lines[OF lrs(3)] lrs(1,2) show ?thesis by (simp add: gandi_Update_def)
qed

section \<open>Witnesses\<close>

theorem published_records_reach_registrar_witness:
  "snd (fst (gandi_Update (\<lambda>n z. n) (\<lambda>z rrs p. ((z, rrs), None)) ''example''
      (split_on newline (recordsToPublish (\<lambda>_. None) ''p.example'' (record_line (CHR 0x09) ''p.example.'' 3600 ''IN'' ''DS'' ''1 13 2 AB'')
        [''10.0.0.1''])) ([], []))) ! 1
    = \<lparr>rcType = ''A'', rcName = ''ns1.p.example.'', rcValue = ''10.0.0.1'', rcTTL = 10800000000000\<rparr>"
proof -
  have w: "is_word ''p.example''" "is_word (hd (split_on (CHR ''.'') ''p.example''))" "list_all is_word [''10.0.0.1'']"
    "is_blank (CHR 0x09)" "is_word ''p.example.''" "is_word ''IN''" "is_word ''DS''" "trim_space ''1 13 2 AB'' = ''1 13 2 AB''"
    "newline \<notin> set ''1 13 2 AB''" by code_simp+
  have d: "nat_digits (Suc 0) = ''1''" by code_simp
  show ?thesis
    unfolding published_records_reach_registrar[OF w(1-5) _ w(6-9), of 3600, simplified]
    by (simp add: registrar_records_def Let_def d)
qed

end
