(* ===== verification/Kg.thy ===== *)
theory Kg
  imports Json "HOL-Library.Word"
begin

text \<open>
  The user service (\<open>src/core/kg\<close>): users (\<open>model/user.go\<close>), the store in memory
  (\<open>store/memory/user_store.go\<close>), the application (\<open>app/user.go\<close>) and the REST and RPC interfaces
  (\<open>api/rest\<close>, \<open>api/rpc\<close>). The store keeps pointers to users, so users live in a heap: what is done to
  a user after it was saved is done to the stored user.
\<close>

section \<open>Users\<close>

record User =
  uID :: string
  uCreateAt :: int
  uUpdateAt :: int
  uDeleteAt :: int
  uUsername :: string
  uPassword :: string
  uLastPasswordUpdate :: int

definition zero_user :: User where
  "zero_user = \<lparr>uID = [], uCreateAt = 0, uUpdateAt = 0, uDeleteAt = 0, uUsername = [], uPassword = [], uLastPasswordUpdate = 0\<rparr>"

definition username_char :: "char \<Rightarrow> bool" where
  "username_char c \<longleftrightarrow> (CHR ''a'' \<le> c \<and> c \<le> CHR ''z'') \<or> (CHR ''0'' \<le> c \<and> c \<le> CHR ''9'') \<or> c \<in> {CHR ''.'', CHR ''-'', CHR ''_''}"

definition isValidUsername :: "string \<Rightarrow> bool" where
  "isValidUsername s \<longleftrightarrow> \<not> (length s < 1 \<or> length s > 64) \<and> s \<noteq> [] \<and> list_all username_char s"

definition invalidUserError :: "string \<Rightarrow> string \<Rightarrow> string" where
  "invalidUserError fieldName userID = ''Invalid User field: '' @ fieldName @ ''; id: '' @ userID"

definition IsValidInput :: "User \<Rightarrow> string option" where
  "IsValidInput u = (if \<not> isValidUsername (uUsername u) then Some (invalidUserError ''username'' (uID u)) else None)"

definition SanitizeInput :: "User \<Rightarrow> User" where
  "SanitizeInput u = u\<lparr>uID := [], uCreateAt := 0, uUpdateAt := 0, uDeleteAt := 0, uLastPasswordUpdate := 0\<rparr>"

definition SanitizeOutput :: "User \<Rightarrow> User" where
  "SanitizeOutput u = u\<lparr>uPassword := []\<rparr>"

definition decode_kg_user :: "User decoder" where
  "decode_kg_user = decode_struct
     [''id'' \<mapsto> on_field uID uID_update decode_string,
      ''create_at'' \<mapsto> on_field uCreateAt uCreateAt_update decode_int,
      ''update_at'' \<mapsto> on_field uUpdateAt uUpdateAt_update decode_int,
      ''delete_at'' \<mapsto> on_field uDeleteAt uDeleteAt_update decode_int,
      ''username'' \<mapsto> on_field uUsername uUsername_update decode_string,
      ''password'' \<mapsto> on_field uPassword uPassword_update decode_string,
      ''last_password_update'' \<mapsto> on_field uLastPasswordUpdate uLastPasswordUpdate_update decode_int]"

definition omit_zero :: "string \<Rightarrow> int \<Rightarrow> (string \<times> json) list" where
  "omit_zero k i = (if i = 0 then [] else [(k, JNum i)])"

definition encode_user :: "User \<Rightarrow> json" where
  "encode_user u = JObj ([(''id'', JStr (uID u))] @ omit_zero ''create_at'' (uCreateAt u) @ omit_zero ''update_at'' (uUpdateAt u) @
     [(''delete_at'', JNum (uDeleteAt u)), (''username'', JStr (uUsername u))] @ omitempty ''password'' (uPassword u) @
     omit_zero ''last_password_update'' (uLastPasswordUpdate u))"

section \<open>The store in memory\<close>

text \<open>A heap of users, and the map from identifiers to addresses.\<close>

record memoryUserStore =
  msHeap :: "nat \<Rightarrow> User"
  msNext :: nat
  msUsers :: "string \<rightharpoonup> nat"
  msMaxID :: int

definition newMemoryUserStore :: memoryUserStore where
  "newMemoryUserStore = \<lparr>msHeap = (\<lambda>_. zero_user), msNext = 0, msUsers = Map.empty, msMaxID = 1\<rparr>"

definition new_user :: "User \<Rightarrow> memoryUserStore \<Rightarrow> nat \<times> memoryUserStore" where
  "new_user u s = (msNext s, s\<lparr>msHeap := (msHeap s)(msNext s := u), msNext := msNext s + 1\<rparr>)"

definition set_user :: "nat \<Rightarrow> (User \<Rightarrow> User) \<Rightarrow> memoryUserStore \<Rightarrow> memoryUserStore" where
  "set_user p f s = s\<lparr>msHeap := (msHeap s)(p := f (msHeap s p))\<rparr>"

text \<open>\<open>Save\<close> changes the user it is given and keeps the pointer; it returns the same pointer.\<close>

definition us_Save :: "int \<Rightarrow> nat \<Rightarrow> memoryUserStore \<Rightarrow> memoryUserStore" where
  "us_Save now p s =
     (let s1 = (if uID (msHeap s p) = []
                then (set_user p (\<lambda>u. u\<lparr>uID := itoa (msMaxID s), uCreateAt := now, uDeleteAt := 0\<rparr>) s)\<lparr>msMaxID := msMaxID s + 1\<rparr>
                else set_user p (\<lambda>u. u\<lparr>uUpdateAt := now\<rparr>) s)
      in s1\<lparr>msUsers := (msUsers s1)(uID (msHeap s1 p) \<mapsto> p)\<rparr>)"

text \<open>\<open>Get\<close> returns a clone.\<close>

definition us_Get :: "string \<Rightarrow> memoryUserStore \<Rightarrow> (string, User) result" where
  "us_Get i s = (case msUsers s i of None \<Rightarrow> Inl ''User not found'' | Some p \<Rightarrow> Inr (msHeap s p))"

definition us_Count :: "memoryUserStore \<Rightarrow> int" where
  "us_Count s = msMaxID s - 1"

text \<open>
  The map is read in an order that is not specified: \<open>v\<close> is the list of addresses in that order. The
  indices are 64-bit integers that wrap. A capacity that is negative or larger than the address space
  panics when the result is made, a negative index when it is read.
\<close>

definition wrap64 :: "int \<Rightarrow> int" where
  "wrap64 i = sint (word_of_int i :: 64 word)"

definition max_cap :: int where "max_cap = 2 ^ 45"

definition index_range :: "int \<Rightarrow> int \<Rightarrow> nat \<Rightarrow> int list" where
  "index_range page perPage n =
     (let startIndex = wrap64 (page * perPage) in [startIndex .. min (wrap64 (startIndex + perPage)) (int n) - 1])"

definition GetAllWithOptions :: "nat list \<Rightarrow> int \<Rightarrow> int \<Rightarrow> memoryUserStore \<Rightarrow> User list option" where
  "GetAllWithOptions v page perPage s =
     (if perPage < 0 \<or> max_cap < perPage then None
      else if list_ex (\<lambda>i. i < 0) (index_range page perPage (length v)) then None
      else Some (map (\<lambda>i. msHeap s (v ! nat i)) (index_range page perPage (length v))))"

section \<open>The application\<close>

definition isFirstUserAccount :: "memoryUserStore \<Rightarrow> bool" where
  "isFirstUserAccount s \<longleftrightarrow> us_Count s > 0"

definition app_CreateUser :: "int \<Rightarrow> nat \<Rightarrow> memoryUserStore \<Rightarrow> memoryUserStore \<times> (string, nat) result" where
  "app_CreateUser now p s =
     (if \<not> isFirstUserAccount s then (s, Inl ''not a first user'') else (us_Save now p s, Inr p))"

definition app_GetUser :: "string \<Rightarrow> memoryUserStore \<Rightarrow> (string, User) result" where
  "app_GetUser i s = (case us_Get i s of Inl e \<Rightarrow> Inl (''can't get user from store: '' @ e) | Inr u \<Rightarrow> Inr u)"

text \<open>\<open>None\<close> is the panic when a password can not be hashed.\<close>

definition HashPassword :: "(string \<Rightarrow> string option) \<Rightarrow> string \<Rightarrow> string option" where
  "HashPassword bcrypt password = (if password = [] then Some [] else bcrypt password)"

section \<open>The REST interface\<close>

text \<open>A handler panics, fails with an error that is answered as a bad request, or answers a document.\<close>

datatype rest = Panics | BadRequest string | Answer json

definition buildCreateUserHandler ::
    "(string \<Rightarrow> string option) \<Rightarrow> int \<Rightarrow> (string, json) result \<Rightarrow> memoryUserStore \<Rightarrow> memoryUserStore \<times> rest" where
  "buildCreateUserHandler bcrypt now body s =
     (case body of
        Inl e \<Rightarrow> (s, BadRequest (''can't decode request body: '' @ e))
      | Inr d \<Rightarrow>
          if d = JNull then (s, Panics)
          else
            (case decode_kg_user d zero_user of
               Inl e \<Rightarrow> (s, BadRequest (''can't decode request body: '' @ e))
             | Inr u \<Rightarrow>
                 (case IsValidInput u of
                    Some e \<Rightarrow> (s, BadRequest (''invalid user input: '' @ e))
                  | None \<Rightarrow>
                      (case HashPassword bcrypt (uPassword u) of
                         None \<Rightarrow> (s, Panics)
                       | Some h \<Rightarrow>
                           (case new_user (SanitizeInput (u\<lparr>uPassword := h\<rparr>)) s of (p, s1) \<Rightarrow>
                             (case app_CreateUser now p s1 of
                                (s2, Inl e) \<Rightarrow> (s2, BadRequest (''can't create user: '' @ e))
                              | (s2, Inr q) \<Rightarrow>
                                  (let s3 = set_user q SanitizeOutput s2 in (s3, Answer (encode_user (msHeap s3 q))))))))))"

definition buildGetUsersHandler :: "nat list \<Rightarrow> string \<Rightarrow> string \<Rightarrow> memoryUserStore \<Rightarrow> rest" where
  "buildGetUsersHandler v page perPage s =
     (case Atoi page of
        None \<Rightarrow> BadRequest ''parameter page should be an int''
      | Some pageInt \<Rightarrow>
          (case Atoi perPage of
             None \<Rightarrow> BadRequest ''parameter per_page should be an int''
           | Some perPageInt \<Rightarrow>
               (case GetAllWithOptions v pageInt perPageInt s of
                  None \<Rightarrow> Panics
                | Some us \<Rightarrow> Answer (JArr (map encode_user us)))))"

definition buildGetUserHandler :: "string \<Rightarrow> memoryUserStore \<Rightarrow> rest" where
  "buildGetUserHandler userID s =
     (case app_GetUser userID s of
        Inl e \<Rightarrow> BadRequest (''can't get user from app: '' @ e)
      | Inr u \<Rightarrow> Answer (encode_user u))"

text \<open>The RPC interface only reads single users.\<close>

definition rpc_GetUser :: "string \<Rightarrow> memoryUserStore \<Rightarrow> (string, User) result" where
  "rpc_GetUser i s = (case app_GetUser i s of Inl e \<Rightarrow> Inl (''can't get user from application: '' @ e) | Inr u \<Rightarrow> Inr u)"

text \<open>A request to the service.\<close>

datatype kg_call = CreateUser int "(string, json) result" | GetUsers "nat list" string string | GetUser string

fun kg_serve :: "(string \<Rightarrow> string option) \<Rightarrow> kg_call \<Rightarrow> memoryUserStore \<Rightarrow> memoryUserStore \<times> rest" where
  "kg_serve bcrypt (CreateUser now body) s = buildCreateUserHandler bcrypt now body s"
| "kg_serve bcrypt (GetUsers v page perPage) s = (s, buildGetUsersHandler v page perPage s)"
| "kg_serve bcrypt (GetUser userID) s = (s, buildGetUserHandler userID s)"

section \<open>Correctness\<close>

lemma wrap64_id: "- (2 ^ 63) \<le> i \<Longrightarrow> i < 2 ^ 63 \<Longrightarrow> wrap64 i = i"
  by (simp only: wrap64_def sint_sbintrunc') (simp add: signed_take_bit_int_eq_self)

lemma upto_map_nth:
  assumes "0 \<le> a"
  shows "map (\<lambda>i. f (v ! nat i)) [a .. min (a + k) (int (length v)) - 1] = map f (take (nat k) (drop (nat a) v))"
proof (rule nth_equalityI)
  show len: "length (map (\<lambda>i. f (v ! nat i)) [a .. min (a + k) (int (length v)) - 1]) = length (map f (take (nat k) (drop (nat a) v)))"
    using assms by auto
  fix i
  assume i: "i < length (map (\<lambda>i. f (v ! nat i)) [a .. min (a + k) (int (length v)) - 1])"
  then have "i < nat (min (a + k) (int (length v)) - a)" by simp
  then have "a + int i \<le> min (a + k) (int (length v)) - 1" by linarith
  then have "[a .. min (a + k) (int (length v)) - 1] ! i = a + int i" by (rule nth_upto)
  moreover have "i < length (take (nat k) (drop (nat a) v))" using i len by simp
  ultimately show "map (\<lambda>i. f (v ! nat i)) [a .. min (a + k) (int (length v)) - 1] ! i = map f (take (nat k) (drop (nat a) v)) ! i"
    using i assms by (simp add: nat_add_distrib)
qed

lemma pages:
  assumes "0 \<le> page" "0 \<le> perPage" "perPage \<le> max_cap" "(page + 1) * perPage < 2 ^ 63"
  shows "GetAllWithOptions v page perPage s = Some (map (msHeap s) (take (nat perPage) (drop (nat (page * perPage)) v)))"
proof -
  have "0 \<le> page * perPage" "page * perPage + perPage < 2 ^ 63" using assms by (simp_all add: algebra_simps)
  then have w: "wrap64 (page * perPage) = page * perPage" "wrap64 (page * perPage + perPage) = page * perPage + perPage"
    using assms(2) by (auto intro!: wrap64_id)
  then have r: "index_range page perPage (length v) = [page * perPage .. min (page * perPage + perPage) (int (length v)) - 1]"
    by (simp add: index_range_def Let_def)
  moreover have "\<not> list_ex (\<lambda>i. i < 0) [page * perPage .. min (page * perPage + perPage) (int (length v)) - 1]"
    using \<open>0 \<le> page * perPage\<close> by (auto simp: list_ex_iff)
  ultimately show ?thesis
    using assms(2,3) upto_map_nth[OF \<open>0 \<le> page * perPage\<close>] by (simp add: GetAllWithOptions_def)
qed

text \<open>What saving a new user does.\<close>

lemma save_new:
  assumes "uID (msHeap s p) = []"
  shows "msUsers (us_Save now p s) = (msUsers s)(itoa (msMaxID s) \<mapsto> p)"
    and "msHeap (us_Save now p s) = (msHeap s)(p := (msHeap s p)\<lparr>uID := itoa (msMaxID s), uCreateAt := now, uDeleteAt := 0\<rparr>)"
    and "us_Count (us_Save now p s) = us_Count s + 1"
  using assms by (simp_all add: us_Save_def set_user_def Let_def us_Count_def)

lemma create_refused:
  assumes "us_Count s \<le> 0"
  shows "\<exists>s' r. buildCreateUserHandler bcrypt now body s = (s', r) \<and> msUsers s' = msUsers s \<and> us_Count s' = us_Count s
    \<and> (r = Panics \<or> (\<exists>e. r = BadRequest e))"
  using assms
  by (auto simp: buildCreateUserHandler_def app_CreateUser_def isFirstUserAccount_def new_user_def us_Count_def
      split: sum.split option.split)

definition no_users :: "memoryUserStore \<Rightarrow> bool" where
  "no_users s \<longleftrightarrow> msUsers s = Map.empty \<and> us_Count s = 0"

lemma kg_serve_empty:
  assumes "no_users s"
  shows "no_users (fst (kg_serve bcrypt r s)) \<and> (\<forall>now body d. r = CreateUser now body \<longrightarrow> snd (kg_serve bcrypt r s) \<noteq> Answer d)"
proof (cases r)
  case (CreateUser now body)
  obtain s' x where "buildCreateUserHandler bcrypt now body s = (s', x)" "msUsers s' = msUsers s" "us_Count s' = us_Count s"
    "x = Panics \<or> (\<exists>e. x = BadRequest e)"
    using create_refused[of s bcrypt now body] assms unfolding no_users_def by auto
  with assms CreateUser show ?thesis by (auto simp: no_users_def)
qed (use assms in simp_all)

interpretation kg: service "kg_serve bcrypt" no_users for bcrypt
  by unfold_locales (simp add: kg_serve_empty)

lemma new_store_empty: "no_users newMemoryUserStore"
  by (simp add: no_users_def newMemoryUserStore_def us_Count_def)

section \<open>Properties\<close>

text \<open>The service never gets a user. The check that should let the first user in lets a user in only
  when there is one already. Starting with the empty store, after any requests there is still no user,
  and no request to create one is answered with a user.
\<close>
theorem kg_never_gets_a_user:
  "msUsers (run_service (kg_serve bcrypt) calls newMemoryUserStore) = Map.empty
    \<and> snd (kg_serve bcrypt (CreateUser now body) (run_service (kg_serve bcrypt) calls newMemoryUserStore)) \<noteq> Answer d"
  using kg.run_inv[OF new_store_empty, of bcrypt calls] kg_serve_empty unfolding no_users_def by metis

text \<open>The password of a created user is lost. When the store has a user, a valid request creates the
  next one and the answer does not show the password; but the answer and the store share the user, so
  that the user that is read back has no password either, whatever password was sent.
\<close>
theorem created_password_is_lost:
  assumes "us_Count s > 0" and "decode_kg_user d zero_user = Inr u" and "d \<noteq> JNull" and "isValidUsername (uUsername u)"
    and "HashPassword bcrypt (uPassword u) = Some h"
  shows "\<exists>s' doc i. buildCreateUserHandler bcrypt now (Inr d) s = (s', Answer doc) \<and> i = itoa (msMaxID s)
    \<and> us_Get i s' = Inr \<lparr>uID = i, uCreateAt = now, uUpdateAt = 0, uDeleteAt = 0, uUsername = uUsername u, uPassword = [],
        uLastPasswordUpdate = 0\<rparr>"
proof -
  let ?u = "SanitizeInput (u\<lparr>uPassword := h\<rparr>)"
  let ?p = "msNext s"
  obtain t where s1: "new_user ?u s = (?p, t)" "msHeap t ?p = ?u" "us_Count t = us_Count s" "msMaxID t = msMaxID s"
    by (simp add: new_user_def us_Count_def)
  have new: "uID (msHeap t ?p) = []" unfolding s1(2) by (simp add: SanitizeInput_def)
  let ?s2 = "us_Save now ?p t"
  let ?s3 = "set_user ?p SanitizeOutput ?s2"
  have "buildCreateUserHandler bcrypt now (Inr d) s = (?s3, Answer (encode_user (msHeap ?s3 ?p)))"
    using assms s1(1,3)
    by (simp add: buildCreateUserHandler_def IsValidInput_def app_CreateUser_def isFirstUserAccount_def Let_def)
  moreover have "us_Get (itoa (msMaxID s)) ?s3 = Inr \<lparr>uID = itoa (msMaxID s), uCreateAt = now, uUpdateAt = 0, uDeleteAt = 0,
      uUsername = uUsername u, uPassword = [], uLastPasswordUpdate = 0\<rparr>"
    using save_new(1,2)[OF new, of now] s1(2,4) by (simp add: us_Get_def set_user_def SanitizeOutput_def SanitizeInput_def)
  ultimately show ?thesis by blast
qed

text \<open>Pages are slices. For a page and a size that are not negative and do not overflow, a page of
  users is the slice of that size, in the order in which the store is read, that starts after the
  pages before it.
\<close>
theorem user_pages_are_slices:
  assumes "0 \<le> page" and "0 \<le> perPage" and "perPage \<le> max_cap" and "(page + 1) * perPage < 2 ^ 63"
  shows "GetAllWithOptions v page perPage s = Some (map (msHeap s) (take (nat perPage) (drop (nat page * nat perPage) v)))"
  using pages[OF assms] assms(1,2) by (simp add: nat_mult_distrib)

text \<open>A negative page crashes the request: as soon as there is a user, the page before the first reads
  the list of users at a negative index.
\<close>
theorem negative_page_panics:
  assumes "0 < perPage" and "perPage \<le> max_cap" and "v \<noteq> []"
  shows "GetAllWithOptions v (- 1) perPage s = None"
proof -
  have "wrap64 (- perPage) = - perPage" "wrap64 0 = 0" using assms(1,2) by (auto intro!: wrap64_id simp: max_cap_def)
  then have "- perPage \<in> set (index_range (- 1) perPage (length v))"
    using assms(1,3) by (simp add: index_range_def Let_def)
  with assms(1) have "list_ex (\<lambda>i. i < 0) (index_range (- 1) perPage (length v))" by (force simp: list_ex_iff)
  then show ?thesis by (simp add: GetAllWithOptions_def)
qed

section \<open>Witnesses\<close>

definition example_kg :: memoryUserStore where
  "example_kg = us_Save 5 0 (snd (new_user (zero_user\<lparr>uUsername := ''a''\<rparr>) newMemoryUserStore))"

definition example_user_doc :: json where
  "example_user_doc = JObj [(''username'', JStr ''b''), (''password'', JStr ''p'')]"

theorem created_password_is_lost_witness:
  "\<exists>s' doc u. buildCreateUserHandler (\<lambda>p. Some (''h'' @ p)) 7 (Inr example_user_doc) example_kg = (s', Answer doc)
    \<and> us_Get (itoa 2) s' = Inr u \<and> uUsername u = ''b'' \<and> uPassword u = []"
proof -
  let ?u = "zero_user\<lparr>uUsername := ''b'', uPassword := ''p''\<rparr>"
  have low: "to_lower ''username'' = ''username''" "to_lower ''password'' = ''password''" by code_simp+
  have d: "decode_kg_user example_user_doc zero_user = Inr ?u"
    by (simp add: decode_kg_user_def example_user_doc_def low on_field_def)
  have c: "us_Count example_kg > 0" "msMaxID example_kg = 2"
    by (simp_all add: example_kg_def us_Save_def new_user_def set_user_def newMemoryUserStore_def zero_user_def us_Count_def Let_def)
  have v: "isValidUsername (uUsername ?u)" by code_simp
  have n: "example_user_doc \<noteq> JNull" by (simp add: example_user_doc_def)
  have h: "HashPassword (\<lambda>p. Some (''h'' @ p)) (uPassword ?u) = Some ''hp''" by (simp add: HashPassword_def)
  from created_password_is_lost[OF c(1) d n v h, of 7] c(2) show ?thesis by force
qed

theorem user_pages_are_slices_witness:
  "GetAllWithOptions [3, 4, 5] 1 2 newMemoryUserStore = Some [msHeap newMemoryUserStore 5]"
proof -
  have "(2::int) \<le> max_cap" by (simp add: max_cap_def)
  from user_pages_are_slices[OF _ _ this, of 1 "[3, 4, 5]" newMemoryUserStore] show ?thesis by simp
qed

theorem negative_page_panics_witness: "GetAllWithOptions [3] (- 1) 2 newMemoryUserStore = None"
  by (rule negative_page_panics) (simp_all add: max_cap_def)

end
