(* ===== verification/Maddy.thy ===== *)
theory Maddy
  imports Kube
begin

text \<open>
  The mail server's helpers (\<open>src/apps/maddy\<close>): the page that creates accounts with the command line of
  the mail server (\<open>web/main.go\<close>), and the program that checks a password against a list of SMTP servers
  (\<open>auth/main.go\<close>). The command line and the servers are parameters.
\<close>

section \<open>Lines\<close>

text \<open>\<open>bufio.Scanner\<close>: lines without their end; an empty rest is no line, and a line that is too long ends
  the scan with an error.\<close>

definition trim_cr :: "string \<Rightarrow> string" where
  "trim_cr s = trim_suffix s [CHR 0x0D]"

fun drop_last_empty :: "string list \<Rightarrow> string list" where
  "drop_last_empty [] = []"
| "drop_last_empty [l] = (if l = [] then [] else [l])"
| "drop_last_empty (l # ls) = l # drop_last_empty ls"

definition raw_lines :: "string \<Rightarrow> string list" where
  "raw_lines s = drop_last_empty (split_on (CHR 0x0A) s)"

definition scan_lines :: "(string \<Rightarrow> bool) \<Rightarrow> string \<Rightarrow> string list \<times> string option" where
  "scan_lines tooLong s =
     (map trim_cr (takeWhile (\<lambda>l. \<not> tooLong l) (raw_lines s)),
      if list_ex tooLong (raw_lines s) then Some ''bufio.Scanner: token too long'' else None)"

section \<open>The page\<close>

text \<open>The command line takes arguments and an input to its output and its exit status, an error or none.\<close>

record 'h maddyctl =
  mcRun :: "string list \<Rightarrow> string \<Rightarrow> 'h \<Rightarrow> 'h \<times> string \<times> string option"
  mcStart :: "string option"
  mcConfig :: string
  mcTooLong :: "string \<Rightarrow> bool"

text \<open>Only a failure to start is noticed: the exit status is never asked for, nor the error of the scan.\<close>

definition ListAccounts :: "'h maddyctl \<Rightarrow> 'h \<Rightarrow> 'h \<times> (string, string list) result" where
  "ListAccounts M h =
     (case mcStart M of
        Some e \<Rightarrow> (h, Inl e)
      | None \<Rightarrow>
          (case mcRun M [''maddyctl'', ''-config'', mcConfig M, ''creds'', ''list''] [] h of
             (h', out, _) \<Rightarrow> (h', Inr (filter (\<lambda>l. l \<noteq> []) (fst (scan_lines (mcTooLong M) out))))))"

definition CreateAccount :: "'h maddyctl \<Rightarrow> string \<Rightarrow> string \<Rightarrow> 'h \<Rightarrow> 'h \<times> string option" where
  "CreateAccount M username password h =
     (case mcStart M of
        Some e \<Rightarrow> (h, Some e)
      | None \<Rightarrow>
          (case mcRun M [''maddyctl'', ''-config'', mcConfig M, ''creds'', ''create'', username] password h of
             (h1, _, Some e) \<Rightarrow> (h1, Some e)
           | (h1, _, None) \<Rightarrow>
               (case mcRun M [''maddyctl'', ''-config'', mcConfig M, ''imap-acct'', ''create'', username] [] h1 of
                  (h2, _, r) \<Rightarrow> (h2, r))))"

definition handleCreateAccount :: "'h maddyctl \<Rightarrow> request \<Rightarrow> 'h \<Rightarrow> 'h \<times> unit response" where
  "handleCreateAccount M r h =
     (case formErr r of
        Some e \<Rightarrow> (h, HttpError StatusBadRequest e)
      | None \<Rightarrow>
          (case CreateAccount M (FormValue r ''username'') (FormValue r ''password'') h of
             (h', Some e) \<Rightarrow> (h', HttpError StatusInternalServerError e)
           | (h', None) \<Rightarrow> (h', Redirect StatusSeeOther ''/'')))"

definition handleListAccounts :: "'h maddyctl \<Rightarrow> (string list \<Rightarrow> string option) \<Rightarrow> 'h \<Rightarrow> 'h \<times> string list response" where
  "handleListAccounts M pageErr h =
     (case ListAccounts M h of
        (h', Inl e) \<Rightarrow> (h', HttpError StatusInternalServerError e)
      | (h', Inr accts) \<Rightarrow>
          (h', case pageErr accts of Some e \<Rightarrow> HttpError StatusInternalServerError e | None \<Rightarrow> Page accts))"

definition handleDKIM :: "(string, string) result \<Rightarrow> string response" where
  "handleDKIM file = (case file of Inl e \<Rightarrow> HttpError StatusInternalServerError e | Inr d \<Rightarrow> Page d)"

section \<open>Checking a password\<close>

text \<open>The three steps of a session with a server; an error at any of them is a refusal.\<close>

record smtp =
  smDial :: "string \<Rightarrow> string option"
  smTLS :: "string \<Rightarrow> string option"
  smAuth :: "string \<Rightarrow> string \<Rightarrow> string \<Rightarrow> string option"

definition smtp_auth :: "smtp \<Rightarrow> string \<Rightarrow> string \<Rightarrow> string \<Rightarrow> (string, bool) result" where
  "smtp_auth S server username password =
     (case smDial S server of
        Some e \<Rightarrow> Inl e
      | None \<Rightarrow>
          (case smTLS S server of
             Some e \<Rightarrow> Inl e
           | None \<Rightarrow> (case smAuth S server username password of Some e \<Rightarrow> Inl e | None \<Rightarrow> Inr True)))"

definition readConfig :: "(string \<Rightarrow> bool) \<Rightarrow> (string, string) result \<Rightarrow> (string, string list) result" where
  "readConfig tooLong file =
     bindE file (\<lambda>text.
       case scan_lines tooLong text of
         (ls, Some e) \<Rightarrow> Inl e
       | (ls, None) \<Rightarrow> Inr ls)"

text \<open>\<open>ReadString\<close>: up to and with the line break; the input must have one.\<close>

definition read_line :: "string \<Rightarrow> (string \<times> string) option" where
  "read_line s = (if CHR 0x0A \<in> set s
     then Some (takeWhile (\<lambda>c. c \<noteq> CHR 0x0A) s, tl (dropWhile (\<lambda>c. c \<noteq> CHR 0x0A) s)) else None)"

fun try_servers :: "smtp \<Rightarrow> string \<Rightarrow> string \<Rightarrow> string list \<Rightarrow> nat" where
  "try_servers S username password [] = 1"
| "try_servers S username password (s # ss) =
     (case smtp_auth S s username password of
        Inr True \<Rightarrow> 0
      | _ \<Rightarrow> try_servers S username password ss)"

text \<open>The exit status of the program.\<close>

definition maddy_auth :: "smtp \<Rightarrow> (string \<Rightarrow> bool) \<Rightarrow> (string, string) result \<Rightarrow> string \<Rightarrow> nat" where
  "maddy_auth S tooLong file stdin =
     (case read_line stdin of
        None \<Rightarrow> 2
      | Some (username, rest) \<Rightarrow>
          (case read_line rest of
             None \<Rightarrow> 2
           | Some (password, _) \<Rightarrow>
               (case readConfig tooLong file of
                  Inl e \<Rightarrow> 2
                | Inr smtpServers \<Rightarrow> try_servers S username password smtpServers)))"

section \<open>Correctness\<close>

definition accepts :: "smtp \<Rightarrow> string \<Rightarrow> string \<Rightarrow> string \<Rightarrow> bool" where
  "accepts S server username password \<longleftrightarrow> smDial S server = None \<and> smTLS S server = None \<and> smAuth S server username password = None"

lemma try_servers_iff: "try_servers S u p ss = (if \<exists>s \<in> set ss. accepts S s u p then 0 else 1)"
  by (induction ss) (auto simp: smtp_auth_def accepts_def split: option.splits)

lemma read_line_append: "CHR 0x0A \<notin> set u \<Longrightarrow> read_line (u @ CHR 0x0A # v) = Some (u, v)"
  by (simp add: read_line_def takeWhile_append dropWhile_append)

lemma drop_last_empty_lines: "drop_last_empty (ls @ [[]]) = ls"
  by (induction ls rule: drop_last_empty.induct) auto

lemma split_ended_lines:
  "\<forall>l \<in> set ls. CHR 0x0A \<notin> set l \<Longrightarrow> split_on (CHR 0x0A) (concat (map (\<lambda>l. l @ [CHR 0x0A]) ls)) = ls @ [[]]"
  by (induction ls) (auto simp: split_on_append)

lemma scan_ended_lines:
  assumes "\<forall>l \<in> set ls. CHR 0x0A \<notin> set l \<and> \<not> tooLong l \<and> (l = [] \<or> last l \<noteq> CHR 0x0D)"
  shows "scan_lines tooLong (concat (map (\<lambda>l. l @ [CHR 0x0A]) ls)) = (ls, None)"
proof -
  have "raw_lines (concat (map (\<lambda>l. l @ [CHR 0x0A]) ls)) = ls"
    using assms by (simp add: raw_lines_def split_ended_lines drop_last_empty_lines)
  moreover have "takeWhile (\<lambda>l. \<not> tooLong l) ls = ls" "\<not> list_ex tooLong ls" using assms by (auto simp: takeWhile_eq_all_conv list_ex_iff)
  moreover have "map trim_cr ls = ls" using assms by (intro map_idI) (simp add: trim_cr_def trim_suffix_last)
  ultimately show ?thesis by (simp only: scan_lines_def if_False)
qed

text \<open>Creating an account as a step that can not be repeated: \<open>has\<close> tells which users have credentials.\<close>

definition creds_args :: "'h maddyctl \<Rightarrow> string \<Rightarrow> string list" where
  "creds_args M u = [''maddyctl'', ''-config'', mcConfig M, ''creds'', ''create'', u]"

definition refuses_creds :: "'h maddyctl \<Rightarrow> ('h \<Rightarrow> string \<Rightarrow> bool) \<Rightarrow> bool" where
  "refuses_creds M has \<longleftrightarrow> (\<forall>h u p. has h u \<longrightarrow> (\<exists>h' out e. mcRun M (creds_args M u) p h = (h', out, Some e) \<and> has h' u))"

section \<open>Properties\<close>

text \<open>A password is accepted exactly when a server accepts it. With a user name and a password on two
  lines and the addresses of the servers one per line, the program ends with status 0 when some server
  can be reached, speaks TLS and accepts them, and with status 1 otherwise.
\<close>
theorem mail_password_is_checked:
  assumes "CHR 0x0A \<notin> set u" and "CHR 0x0A \<notin> set p"
    and "\<forall>l \<in> set ls. CHR 0x0A \<notin> set l \<and> \<not> tooLong l \<and> (l = [] \<or> last l \<noteq> CHR 0x0D)"
  shows "maddy_auth S tooLong (Inr (concat (map (\<lambda>l. l @ [CHR 0x0A]) ls))) (u @ [CHR 0x0A] @ p @ [CHR 0x0A]) =
    (if \<exists>s \<in> set ls. accepts S s u p then 0 else 1)"
  using read_line_append[OF assms(1), of "p @ [CHR 0x0A]"] read_line_append[OF assms(2), of "[]"]
  by (simp add: maddy_auth_def readConfig_def scan_ended_lines[OF assms(3)] try_servers_iff)

text \<open>An account that was created halfway stays so. The credentials are created before the mailbox.
  When that is as far as a request got, and the command line refuses to create credentials that exist,
  every further request for the user fails before the mailbox is created.
\<close>
theorem halfway_account_is_stuck:
  assumes "refuses_creds M has" and "has h u"
  shows "\<forall>ps. has (retries (\<lambda>p. CreateAccount M u p) ps h) u \<and> (\<forall>p. snd (CreateAccount M u p (retries (\<lambda>p. CreateAccount M u p) ps h)) \<noteq> None)"
proof -
  have step: "\<exists>h' e. CreateAccount M u p h = (h', Some e) \<and> has h' u" if h: "has h u" for p h
  proof (cases "mcStart M")
    case None
    from assms(1) h obtain h' out e where "mcRun M (creds_args M u) p h = (h', out, Some e)" "has h' u" unfolding refuses_creds_def by blast
    with None show ?thesis by (simp add: CreateAccount_def creds_args_def)
  qed (use h in \<open>simp add: CreateAccount_def\<close>)
  have "has (retries (\<lambda>p. CreateAccount M u p) ps h) u" if "has h u" for ps h
    using that
  proof (induction ps arbitrary: h)
    case (Cons p ps)
    from step[OF Cons.prems, of p] Cons.IH show ?case by auto
  qed simp
  then have kept: "\<forall>ps. has (retries (\<lambda>p. CreateAccount M u p) ps h) u" using assms(2) by blast
  with step show ?thesis by (metis option.distinct(1) snd_conv)
qed

section \<open>Witnesses\<close>

definition example_smtp :: smtp where
  "example_smtp = \<lparr>smDial = (\<lambda>s. if s = ''a'' then Some ''refused'' else None), smTLS = (\<lambda>_. None),
     smAuth = (\<lambda>_ u p. if p = u @ ''!'' then None else Some ''no'')\<rparr>"

theorem mail_password_is_checked_witness:
  "maddy_auth example_smtp (\<lambda>_. False) (Inr (concat (map (\<lambda>l. l @ [CHR 0x0A]) [''a'', ''b'']))) (''u'' @ [CHR 0x0A] @ ''u!'' @ [CHR 0x0A]) = 0"
proof -
  have "accepts example_smtp ''b'' ''u'' ''u!''" by (simp add: accepts_def example_smtp_def)
  then show ?thesis by (subst mail_password_is_checked) auto
qed

fun example_maddyctl :: "string list \<Rightarrow> string \<Rightarrow> string list \<Rightarrow> string list \<times> string \<times> string option" where
  "example_maddyctl [_, _, _, c, _, u] _ us = (if c = ''creds'' \<and> u \<in> set us then (us, [], Some ''exists'') else (u # us, [], None))"
| "example_maddyctl _ _ us = (us, [], None)"

definition example_maddy :: "string list maddyctl" where
  "example_maddy = \<lparr>mcRun = example_maddyctl, mcStart = None, mcConfig = ''/c'', mcTooLong = (\<lambda>_. False)\<rparr>"

theorem halfway_account_is_stuck_witness:
  "\<forall>p. snd (CreateAccount example_maddy ''u'' p [''u'']) \<noteq> None"
proof -
  have "refuses_creds example_maddy (\<lambda>us u. u \<in> set us)"
    by (simp add: refuses_creds_def creds_args_def example_maddy_def)
  then have "\<forall>ps. ''u'' \<in> set (retries (\<lambda>p. CreateAccount example_maddy ''u'' p) ps [''u''])
      \<and> (\<forall>p. snd (CreateAccount example_maddy ''u'' p (retries (\<lambda>p. CreateAccount example_maddy ''u'' p) ps [''u''])) \<noteq> None)"
    by (rule halfway_account_is_stuck) simp
  from spec[OF this, of "[]"] show ?thesis unfolding retries.simps by (rule conjunct2)
qed

end
