(* ===== verification/ChartServer.thy ===== *)
theory ChartServer
  imports Json Paths
begin

text \<open>
  The server of application charts (\<open>src/apps/app-repository\<close>): archives in a directory are found by
  their file names (\<open>loader.go\<close>), listed in an index and served (\<open>app.go\<close>). The check of versions and the
  YAML printer are third-party code.
\<close>

section \<open>The loader\<close>

record fsApp =
  faName :: string
  faVersion :: string
  faPath :: string

text \<open>A directory: the names of its entries in order, and the content of those that are files.\<close>

record chartdir =
  cdEntries :: "(string \<times> bool) list"
  cdOpen :: "string \<Rightarrow> (string, string) result"

definition load_entry :: "(string \<Rightarrow> bool) \<Rightarrow> string \<times> bool \<Rightarrow> fsApp option" where
  "load_entry semverValid e =
     (case e of (name, isDir) \<Rightarrow>
       if \<not> isDir \<and> has_suffix name ''.tar.gz''
       then (let items = split_on (CHR ''-'') (trim_suffix name ''.tar.gz'') in
             if length items \<le> 1 then None
             else
               (let version = last items in
                if semverValid version \<or> semverValid (''v'' @ version)
                then Some \<lparr>faName = join_with ''-'' (butlast items), faVersion = trim_prefix version ''v'', faPath = name\<rparr>
                else None))
       else None)"

definition chart_Load :: "(string \<Rightarrow> bool) \<Rightarrow> (string, chartdir) result \<Rightarrow> (string, fsApp list) result" where
  "chart_Load semverValid dir =
     bindE dir (\<lambda>d. Inr (List.map_filter (load_entry semverValid) (cdEntries d)))"

section \<open>The server\<close>

text \<open>The entries of the index by name, in the order of their names.\<close>

definition index_entry :: "string \<Rightarrow> fsApp \<Rightarrow> json" where
  "index_entry schemeWithHost a =
     JObj [(''urls'', JArr [JStr (schemeWithHost @ ''/app/'' @ faName a @ ''/'' @ faVersion a @ ''.tar.gz'')]),
       (''version'', JStr (faVersion a))]"

fun add_entry :: "string \<Rightarrow> fsApp \<Rightarrow> (string \<times> json list) list \<Rightarrow> (string \<times> json list) list" where
  "add_entry host a es =
     fields_put (faName a) ((case map_of es (faName a) of None \<Rightarrow> [] | Some e \<Rightarrow> e) @ [index_entry host a]) es"

definition chart_index :: "string \<Rightarrow> fsApp list \<Rightarrow> (string \<times> json list) list" where
  "chart_index host apps = fold (add_entry host) apps []"

definition allApps :: "string \<Rightarrow> (json \<Rightarrow> (string, string) result) \<Rightarrow> fsApp list \<Rightarrow> string response" where
  "allApps host yaml apps =
     (case yaml (JObj [(''apiVersion'', JStr ''v1''), (''entries'', JObj (map (\<lambda>(k, es). (k, JArr es)) (chart_index host apps)))]) of
        Inl e \<Rightarrow> HttpError StatusInternalServerError e
      | Inr b \<Rightarrow> Page b)"

fun serve_app :: "chartdir \<Rightarrow> string \<Rightarrow> string \<Rightarrow> fsApp list \<Rightarrow> string response" where
  "serve_app d name version [] = HttpError StatusNotFound ''Not found''"
| "serve_app d name version (a # as) =
     (if faName a = name \<and> faVersion a = version
      then (case cdOpen d (faPath a) of Inl e \<Rightarrow> HttpError StatusInternalServerError e | Inr content \<Rightarrow> Page content)
      else serve_app d name version as)"

text \<open>The router first redirects a path that is not clean to the clean one.\<close>

definition mux_clean :: "string \<Rightarrow> string" where
  "mux_clean p =
     (let np = path_clean (if has_prefix p ''/'' then p else ''/'' @ p) in
      if has_suffix p ''/'' \<and> np \<noteq> ''/'' then np @ ''/'' else np)"

text \<open>The routes for requests with the method GET.\<close>

definition chart_serve :: "string \<Rightarrow> (json \<Rightarrow> (string, string) result) \<Rightarrow> chartdir \<Rightarrow> fsApp list \<Rightarrow> string \<Rightarrow> string response" where
  "chart_serve host yaml d apps path =
     (if mux_clean path \<noteq> path then Redirect 301 (mux_clean path)
      else if path = ''/'' then allApps host yaml apps
      else
        (case split_on (CHR ''/'') path of
           [r, a, name, file] \<Rightarrow>
             if r = [] \<and> a = ''app'' \<and> name \<noteq> [] \<and> has_suffix file ''.tar.gz'' \<and> trim_suffix file ''.tar.gz'' \<noteq> []
             then serve_app d name (trim_suffix file ''.tar.gz'') apps
             else HttpError StatusNotFound ''404 page not found''
         | _ \<Rightarrow> HttpError StatusNotFound ''404 page not found''))"

section \<open>Correctness\<close>

lemma split_join_last:
  assumes "c \<notin> set v"
  shows "split_on c (n @ [c] @ v) = split_on c n @ [v]"
proof (induction n)
  case (Cons x n)
  then show ?case by (cases "split_on c n") (auto split: list.splits)
qed (use assms in \<open>simp add: split_on_single\<close>)

text \<open>A file named after an application and a version is loaded as that version of that application.\<close>

lemma load_entry_ok:
  assumes "CHR ''-'' \<notin> set v" "semverValid v \<or> semverValid (''v'' @ v)"
  shows "load_entry semverValid (n @ ''-'' @ v @ ''.tar.gz'', False) =
    Some \<lparr>faName = n, faVersion = trim_prefix v ''v'', faPath = n @ ''-'' @ v @ ''.tar.gz''\<rparr>"
proof -
  have e: "n @ ''-'' @ v @ ''.tar.gz'' = (n @ ''-'' @ v) @ ''.tar.gz''" by simp
  have t: "trim_suffix (n @ ''-'' @ v @ ''.tar.gz'') ''.tar.gz'' = n @ ''-'' @ v" "has_suffix (n @ ''-'' @ v @ ''.tar.gz'') ''.tar.gz''"
    unfolding e by (rule trim_suffix_append, rule has_suffix_append)
  have s: "split_on (CHR ''-'') (n @ ''-'' @ v) = split_on (CHR ''-'') n @ [v]" by (rule split_join_last[OF assms(1)])
  have "1 < length (split_on (CHR ''-'') n @ [v])" by simp
  then show ?thesis unfolding load_entry_def prod.case t s Let_def using assms(2) t(2) by simp
qed

lemma serve_first:
  assumes "apps = us @ a # vs" "\<forall>u \<in> set us. \<not> (faName u = faName a \<and> faVersion u = faVersion a)" "cdOpen d (faPath a) = Inr x"
  shows "serve_app d (faName a) (faVersion a) apps = Page x"
  using assms(2) unfolding assms(1) by (induction us) (auto simp: assms(3))

lemma map_of_add_entry:
  "map_of (add_entry host a es) k = (if k = faName a
     then Some ((case map_of es k of None \<Rightarrow> [] | Some e \<Rightarrow> e) @ [index_entry host a]) else map_of es k)"
  by (auto simp: map_of_fields_put)

lemma chart_index_entries:
  "map_of (fold (add_entry host) apps es) k =
    (let xs = map (index_entry host) (filter (\<lambda>a. faName a = k) apps) in
     case map_of es k of None \<Rightarrow> (if xs = [] then None else Some xs) | Some e \<Rightarrow> Some (e @ xs))"
proof (induction apps arbitrary: es)
  case (Cons a apps)
  show ?case unfolding fold.simps comp_apply Cons.IH map_of_add_entry by (auto simp: Let_def split: option.splits)
qed (simp split: option.split)

lemma chart_path:
  assumes "comp_ok n" "comp_ok v"
  shows "mux_clean (''/app/'' @ n @ ''/'' @ v @ ''.tar.gz'') = ''/app/'' @ n @ ''/'' @ v @ ''.tar.gz''"
    and "split_on (CHR ''/'') (''/app/'' @ n @ ''/'' @ v @ ''.tar.gz'') = [[], ''app'', n, v @ ''.tar.gz'']"
proof -
  let ?cs = "[''app'', n, v @ ''.tar.gz'']"
  have ok: "\<forall>c \<in> set ?cs. comp_ok c" using assms by (auto simp: comp_ok_def append_eq_Cons_conv)
  have e: "''/app/'' @ n @ ''/'' @ v @ ''.tar.gz'' = path_of ?cs" by (simp add: path_of_def)
  have "has_prefix (path_of ?cs) ''/''" "\<not> has_suffix (path_of ?cs) ''/''"
    by (simp_all add: path_of_def has_prefix_def)
  then show "mux_clean (''/app/'' @ n @ ''/'' @ v @ ''.tar.gz'') = ''/app/'' @ n @ ''/'' @ v @ ''.tar.gz''"
    unfolding e mux_clean_def by (auto simp: clean_path_of[OF ok] Let_def simp del: set_simps)
  have "split_on (CHR ''/'') (dirs ?cs) = [] # ?cs" using ok by (intro split_dirs) (auto simp: comp_ok_def)
  then show "split_on (CHR ''/'') (''/app/'' @ n @ ''/'' @ v @ ''.tar.gz'') = [[], ''app'', n, v @ ''.tar.gz'']" by simp
qed

lemma serve_chart_path:
  assumes "comp_ok n" "comp_ok v"
  shows "chart_serve host yaml d apps (''/app/'' @ n @ ''/'' @ v @ ''.tar.gz'') = serve_app d n v apps"
  using assms unfolding chart_serve_def chart_path[OF assms] by (simp add: comp_ok_def)

section \<open>Properties\<close>

text \<open>Every version that is listed is served. The index lists, under the name of an application,
  exactly the versions that were loaded for it, in the order of the directory; and the path of the
  address it gives for an application that no earlier file shadows is answered with the content of
  its file.
\<close>
theorem listed_charts_are_served:
  assumes "apps = us @ a # vs" and "\<forall>u \<in> set us. \<not> (faName u = faName a \<and> faVersion u = faVersion a)"
    and "cdOpen d (faPath a) = Inr x" and "comp_ok (faName a)" and "comp_ok (faVersion a)"
  shows "map_of (chart_index host apps) (faName a) = Some (map (index_entry host) (filter (\<lambda>b. faName b = faName a) apps))
    \<and> index_entry host a = JObj [(''urls'', JArr [JStr (host @ ''/app/'' @ faName a @ ''/'' @ faVersion a @ ''.tar.gz'')]),
        (''version'', JStr (faVersion a))]
    \<and> chart_serve host yaml d apps (''/app/'' @ faName a @ ''/'' @ faVersion a @ ''.tar.gz'') = Page x"
proof -
  have "map_of (chart_index host apps) (faName a) = Some (map (index_entry host) (filter (\<lambda>b. faName b = faName a) apps))"
    unfolding chart_index_def chart_index_entries using assms(1) by (simp add: Let_def)
  then show ?thesis using serve_first[OF assms(1-3)] serve_chart_path[OF assms(4,5)] by (simp add: index_entry_def)
qed

text \<open>A file name tells the application and its version. An archive named after an application and a
  valid version without a dash is loaded under that name and version, a leading v of the version left
  out.
\<close>
theorem chart_names_roundtrip:
  assumes "CHR ''-'' \<notin> set v" and "semverValid v \<or> semverValid (''v'' @ v)"
  shows "chart_Load semverValid (Inr (d\<lparr>cdEntries := [(n @ ''-'' @ v @ ''.tar.gz'', False)]\<rparr>)) =
    Inr [\<lparr>faName = n, faVersion = trim_prefix v ''v'', faPath = n @ ''-'' @ v @ ''.tar.gz''\<rparr>]"
  using load_entry_ok[OF assms] by (simp add: chart_Load_def map_filter_simps)

section \<open>Witnesses\<close>

definition example_dir :: chartdir where
  "example_dir = \<lparr>cdEntries = [], cdOpen = (\<lambda>f. if f = ''a-b-1.tar.gz'' then Inr ''content'' else Inl ''no file'')\<rparr>"

theorem listed_charts_are_served_witness:
  "chart_serve ''http://h'' (\<lambda>_. Inr []) example_dir [\<lparr>faName = ''a-b'', faVersion = ''1'', faPath = ''a-b-1.tar.gz''\<rparr>] ''/app/a-b/1.tar.gz''
    = Page ''content''"
proof -
  let ?a = "\<lparr>faName = ''a-b'', faVersion = ''1'', faPath = ''a-b-1.tar.gz''\<rparr>"
  have "cdOpen example_dir (faPath ?a) = Inr ''content''" by (simp add: example_dir_def)
  from listed_charts_are_served[OF _ _ this, of "[?a]" "[]" "[]" "''http://h''" "\<lambda>_. Inr []"] show ?thesis by (simp add: comp_ok_def)
qed

theorem chart_names_roundtrip_witness:
  "chart_Load (\<lambda>s. s = ''v1'') (Inr (example_dir\<lparr>cdEntries := [(''a-b'' @ ''-'' @ ''1'' @ ''.tar.gz'', False)]\<rparr>)) =
    Inr [\<lparr>faName = ''a-b'', faVersion = ''1'', faPath = ''a-b-1.tar.gz''\<rparr>]"
  using chart_names_roundtrip[where v = "''1''" and semverValid = "\<lambda>s. s = ''v1''" and d = example_dir and n = "''a-b''"] by (simp add: trim_prefix_def has_prefix_def)

end
