(* ===== verification/Rewrite.thy ===== *)
theory Rewrite
  imports AppRepository Program
begin

text \<open>
  The command that renders every installed application again (\<open>src/core/installer/cmd/rewrite.go\<close>), with the
  values that are stored for it: the applications are updated in the worktree one after the other without
  a commit, and one commit at the end holds them all.
\<close>

section \<open>The command\<close>

fun install_outcome :: "install_result \<Rightarrow> unit outcome" where
  "install_outcome (Installed _) = Val ()"
| "install_outcome (InstallError e) = Fail e"
| "install_outcome InstallPanic = Panic"
| "install_outcome InstallDiverges = Hang"

definition rewrite_instance :: "appenv \<Rightarrow> AppManager \<Rightarrow> repository \<Rightarrow> AppInstanceConfig \<Rightarrow> (world, unit) prog" where
  "rewrite_instance A m apps inst w =
     (case FindEnvApp apps (cfgAppId inst) of
        Inl e \<Rightarrow> (w, Fail e)
      | Inr app \<Rightarrow>
          (case InputToValues (cfgInput inst) (appSchema app) of
             None \<Rightarrow> (w, Panic)
           | Some v \<Rightarrow> (case Update A m app (cfgId inst) v True w of (w', r) \<Rightarrow> (w', install_outcome r))))"

text \<open>The command after the repository is cloned. The error of the commit is dropped.\<close>

definition rewriteCmdRun :: "appenv \<Rightarrow> appsenv \<Rightarrow> (world, unit) prog" where
  "rewriteCmdRun A P w =
     (case CreateAllApps P of
        None \<Rightarrow> (w, Panic)
      | Some apps \<Rightarrow>
          (let m = \<lparr>appDirRoot = ''/apps''\<rparr> in
           case mgr_Config A (wRepo w) of
             Inl e \<Rightarrow> (w, Fail e)
           | Inr env \<Rightarrow>
               (case FindAllInstances A m (wRepo w) of
                  (r, Inl e) \<Rightarrow> (w\<lparr>wRepo := r\<rparr>, Fail e)
                | (r, Inr all) \<Rightarrow>
                    (case forL (rewrite_instance A m apps) all (w\<lparr>wRepo := r\<rparr>) of
                       (w', Val _) \<Rightarrow> (w'\<lparr>wRepo := fst (CommitAndPush (repoOf A) ''upgrade: persist cue files'' (wRepo w'))\<rparr>, Val ())
                     | (w', x) \<Rightarrow> (w', x)))))"

section \<open>Commits\<close>

text \<open>Operations that touch the worktree only.\<close>

definition same_commits :: "repo \<Rightarrow> repo \<Rightarrow> bool" where
  "same_commits r r' \<longleftrightarrow> localCommits r' = localCommits r \<and> remoteCommits r' = remoteCommits r"

lemma same_commits_refl [simp]: "same_commits r r"
  by (simp add: same_commits_def)

lemma same_commits_trans: "same_commits r r' \<Longrightarrow> same_commits r' r'' \<Longrightarrow> same_commits r r''"
  by (simp add: same_commits_def)

lemma repo_write_commits: "same_commits r (fst (repo_write E p x r))"
  by (auto simp: repo_write_def repo_Writer_def same_commits_def split: option.splits)

lemma worktree_commits:
  "same_commits r (fst (CreateDir E p r))" "same_commits r (fst (RemoveDir E p r))" "same_commits r (fst (Pull E r))"
  "same_commits r (fst (WriteKustomization E p k r))"
  by (auto simp: CreateDir_def RemoveDir_def Pull_def WriteKustomization_def same_commits_def repo_write_def repo_Writer_def split: option.splits)

lemma write_data_commits: "write_data E dir ds r = (r', x) \<Longrightarrow> same_commits r r'"
proof (induction E dir ds r arbitrary: r' x rule: write_data.induct)
  case (2 E dir name contents ds r)
  obtain r1 y where w: "repo_write E (path_join [dir, name]) contents r = (r1, y)" by (cases "repo_write E (path_join [dir, name]) contents r")
  from repo_write_commits[of r E "path_join [dir, name]" contents] w have "same_commits r r1" by simp
  with 2 w show ?case by (auto split: if_splits option.splits intro: same_commits_trans)
qed simp

lemma write_resources_commits: "write_resources E dir rs k r = (r', x) \<Longrightarrow> same_commits r r'"
proof (induction E dir rs k r arbitrary: r' x rule: write_resources.induct)
  case (2 E dir name contents rs k r)
  obtain r1 y where w: "repo_write E (path_join [dir, name]) contents r = (r1, y)" by (cases "repo_write E (path_join [dir, name]) contents r")
  from repo_write_commits[of r E "path_join [dir, name]" contents] w have "same_commits r r1" by simp
  with 2 w show ?case by (cases y) (auto intro: same_commits_trans)
qed simp

lemma WriteKustomization_commits: "WriteKustomization E p k r = (r', x) \<Longrightarrow> same_commits r r'"
  using worktree_commits(4)[of r E p k] by simp

lemma kust_chain_commits:
  assumes "kust_chain E p r = Some y"
  shows "same_commits r (fst y)"
proof (rule kust_chain.raw_induct[where P = "\<lambda>E p r y. same_commits r (fst y)", OF _ assms])
  fix chain E p r y
  assume IH: "\<And>E p r y. chain E p r = Some y \<Longrightarrow> same_commits r (fst y)"
    and body: "(if p = ''/'' then Some (r, None)
      else
        (let (parent, child) = path_split p; kustPath = path_join [parent, ''kustomization.yaml''] in
         case read_or_new E kustPath r of
           Inl e \<Rightarrow> Some (r, Some e)
         | Inr kust \<Rightarrow>
             (case WriteKustomization E kustPath (AddResources [child] kust) r of
                (r', Some e) \<Rightarrow> Some (r', Some e)
              | (r', None) \<Rightarrow> chain E (path_clean parent) r'))) = Some y"
  then show "same_commits r (fst y)"
    by (auto simp: Let_def split: if_splits prod.splits sum.splits option.splits
        dest!: WriteKustomization_commits dest: IH intro: same_commits_trans worktree_commits(4))
qed

lemma link_resources_commits:
  assumes "link_resources E dir rs r = Some y"
  shows "same_commits r (fst y)"
proof -
  from assms obtain r6 e where c: "createKustomizationChain E dir r = Some (r6, e)"
    unfolding link_resources_def by (auto split: option.splits)
  then have "same_commits r r6" unfolding createKustomizationChain_def by (auto dest: kust_chain_commits)
  moreover obtain r7 x where w: "write_resources E dir rs NewKustomization r6 = (r7, x)" by (cases "write_resources E dir rs NewKustomization r6")
  then have "same_commits r6 r7" by (rule write_resources_commits)
  ultimately have c7: "same_commits r r6" "same_commits r r7" by (auto intro: same_commits_trans)
  from assms c w c7 show ?thesis unfolding link_resources_def
    by (cases e; cases x) (auto simp: andThen_def dest!: WriteKustomization_commits split: prod.splits option.splits intro: same_commits_trans)
qed

lemma install_op_commits:
  assumes "install_op E appDir name cfgYaml cfgJson resources data r = Some y"
  shows "same_commits r (fst y)"
proof -
  obtain r1 e1 where s1: "RemoveDir E appDir r = (r1, e1)" by (cases "RemoveDir E appDir r")
  obtain r2 e2 where s2: "CreateDir E (path_join [appDir, ''resources'']) r1 = (r2, e2)" by (cases "CreateDir E (path_join [appDir, ''resources'']) r1")
  obtain r3 e3 where s3: "repo_write E (path_join [appDir, ''config.yaml'']) cfgYaml r2 = (r3, e3)" by (cases "repo_write E (path_join [appDir, ''config.yaml'']) cfgYaml r2")
  obtain r4 e4 where s4: "repo_write E (path_join [appDir, ''config.json'']) cfgJson r3 = (r4, e4)" by (cases "repo_write E (path_join [appDir, ''config.json'']) cfgJson r3")
  obtain r5 e5 where s5: "write_data E appDir data r4 = (r5, e5)" by (cases "write_data E appDir data r4")
  have "same_commits r r1" "same_commits r1 r2" "same_commits r2 r3" "same_commits r3 r4" "same_commits r4 r5"
    using worktree_commits(2)[of r E appDir] worktree_commits(1)[of r1 E "path_join [appDir, ''resources'']"]
      repo_write_commits[of r2 E "path_join [appDir, ''config.yaml'']" cfgYaml] repo_write_commits[of r3 E "path_join [appDir, ''config.json'']" cfgJson]
      write_data_commits[OF s5] s1 s2 s3 s4 by simp_all
  then have c: "same_commits r r1" "same_commits r r2" "same_commits r r3" "same_commits r r4" "same_commits r r5"
    by (auto simp: same_commits_def)
  have "\<And>z. link_resources E (path_join [appDir, ''resources'']) resources r5 = Some z \<Longrightarrow> same_commits r (fst z)"
    using c(5) by (auto dest: link_resources_commits intro: same_commits_trans)
  then show ?thesis using assms c unfolding install_op_def Let_def s1 prod.case
    by (cases e1; cases e2; cases e3; cases e4; cases e5) (auto simp: s2 s3 s4 s5 split: option.splits prod.splits sum.splits)
qed

lemma Update_commits: "Update A m app i vals True w = (w', x) \<Longrightarrow> same_commits (wRepo w) (wRepo w')"
proof -
  assume u: "Update A m app i vals True w = (w', x)"
  let ?r1 = "fst (Pull (repoOf A) (wRepo w))"
  have p: "same_commits (wRepo w) ?r1" by (rule worktree_commits(3))
  have d: "same_commits r r'" if "commit_app A True dir ren cfg r = Some (r', e)" for dir ren cfg r r' e
  proof -
    from that obtain y where y: "install_op (repoOf A) dir (renName ren) (cfgYamlOf A cfg) (cfgJsonOf A cfg) (renResources ren) (renData ren)
        (fst (Pull (repoOf A) r)) = Some y" and r': "Do (repoOf A) True (\<lambda>_. y) r = (r', e)"
      by (auto simp: commit_app_def InstallApp_def DoP_def Let_def split: option.splits)
    obtain z v where z: "y = (z, v)" by (cases y)
    from install_op_commits[OF y] worktree_commits(3)[of r "repoOf A"] z have "same_commits r z" by (auto intro: same_commits_trans)
    moreover have "snd (Pull (repoOf A) r) = None" by (simp add: Pull_def split: option.split)
    then have "r' = z" using r' z unfolding Do_def by (cases "Pull (repoOf A) r"; cases v) auto
    ultimately show ?thesis by simp
  qed
  from u p show ?thesis unfolding Update_def Let_def
    by (auto split: sum.splits render_outcome.splits prod.splits option.splits dest!: d intro: same_commits_trans)
qed

lemma rewrite_instance_commits: "rewrite_instance A m apps inst w = (w', x) \<Longrightarrow> same_commits (wRepo w) (wRepo w')"
  unfolding rewrite_instance_def by (auto split: sum.splits option.splits prod.splits dest!: Update_commits)

lemma forL_commits:
  assumes "\<And>x w w' y. f x w = (w', y) \<Longrightarrow> same_commits (wRepo w) (wRepo w')"
  shows "forL f xs w = (w', z) \<Longrightarrow> same_commits (wRepo w) (wRepo w')"
proof (induction xs arbitrary: w)
  case (Cons x xs)
  obtain w1 y where y: "f x w = (w1, y)" by (cases "f x w")
  from assms[OF this] have "same_commits (wRepo w) (wRepo w1)" .
  with Cons y show ?case by (cases y) (auto simp: bindL_def intro: same_commits_trans)
qed simp

definition pushes :: "repoenv \<Rightarrow> bool" where
  "pushes E \<longleftrightarrow> worktreeErr E = None \<and> addErr E = None \<and> commitErr E = None \<and> pushErr E = None"

lemma CommitAndPush_remote:
  "remoteCommits (fst (CommitAndPush E msg r)) = (if pushes E then (msg, tree r) # localCommits r @ remoteCommits r else remoteCommits r)"
  "tree (fst (CommitAndPush E msg r)) = tree r"
  by (auto simp: CommitAndPush_def pushes_def Let_def split: option.splits)

lemma FindAllInstances_commits: "FindAllInstances A m r = (r', all) \<Longrightarrow> same_commits r r'"
  using worktree_commits(3)[of r "repoOf A"] by (auto simp: FindAllInstances_def Let_def)

text \<open>How the command ends: with the commit after all applications were rendered, or before it.\<close>

lemma rewriteCmdRun_cases:
  obtains (done_all) w1 where "rewriteCmdRun A P w = (w1\<lparr>wRepo := fst (CommitAndPush (repoOf A) ''upgrade: persist cue files'' (wRepo w1))\<rparr>, Val ())"
      "same_commits (wRepo w) (wRepo w1)"
  | (stopped) w1 x where "rewriteCmdRun A P w = (w1, x)" "x \<noteq> Val ()" "same_commits (wRepo w) (wRepo w1)"
proof (cases "CreateAllApps P = None \<or> (\<exists>e. mgr_Config A (wRepo w) = Inl e)")
  case True
  then obtain x where "rewriteCmdRun A P w = (w, x)" "x \<noteq> Val ()"
    by (cases "CreateAllApps P") (auto simp: rewriteCmdRun_def Let_def)
  then show ?thesis using stopped by simp
next
  case False
  then obtain apps env where start: "CreateAllApps P = Some apps" "mgr_Config A (wRepo w) = Inr env"
    by (cases "mgr_Config A (wRepo w)") auto
  obtain r found where f: "FindAllInstances A \<lparr>appDirRoot = ''/apps''\<rparr> (wRepo w) = (r, found)"
    by (cases "FindAllInstances A \<lparr>appDirRoot = ''/apps''\<rparr> (wRepo w)")
  from FindAllInstances_commits[OF f] have c: "same_commits (wRepo w) r" .
  show ?thesis
  proof (cases found)
    case (Inl e)
    then have "rewriteCmdRun A P w = (w\<lparr>wRepo := r\<rparr>, Fail e)" using start f by (simp add: rewriteCmdRun_def Let_def)
    then show ?thesis using stopped c by simp
  next
    case (Inr insts)
    obtain w1 x where l: "forL (rewrite_instance A \<lparr>appDirRoot = ''/apps''\<rparr> apps) insts (w\<lparr>wRepo := r\<rparr>) = (w1, x)"
      by (cases "forL (rewrite_instance A \<lparr>appDirRoot = ''/apps''\<rparr> apps) insts (w\<lparr>wRepo := r\<rparr>)")
    from forL_commits[OF rewrite_instance_commits l] c have c1: "same_commits (wRepo w) (wRepo w1)" by (auto intro: same_commits_trans)
    show ?thesis
    proof (cases "x = Val ()")
      case True
      with start f Inr l have "rewriteCmdRun A P w = (w1\<lparr>wRepo := fst (CommitAndPush (repoOf A) ''upgrade: persist cue files'' (wRepo w1))\<rparr>, Val ())"
        by (simp add: rewriteCmdRun_def Let_def)
      then show ?thesis using done_all c1 by blast
    next
      case False
      with start f Inr l have "rewriteCmdRun A P w = (w1, x)" by (cases x) (simp_all add: rewriteCmdRun_def Let_def)
      then show ?thesis using stopped False c1 by blast
    qed
  qed
qed

section \<open>Properties\<close>


end
