(* ===== verification/Graphql.thy ===== *)
theory Graphql
  imports Program Json
begin

text \<open>
  The GraphQL API (\<open>src/core/api\<close>) in front of a Dgraph database: it extends the schema with a type of
  events for every type of nodes (\<open>schema/dgraph_schema_store.go\<close>), and gives every node that a mutation
  adds an event in state NEW before the mutation is passed on. The parser and the printer of GraphQL
  documents, the JSON queries (regogo) and the database are third-party code and parameters.
\<close>

section \<open>Documents\<close>

datatype defkind = ObjectKind | InputObjectKind | OtherKind

record gqldef =
  gdName :: string
  gdKind :: defkind

text \<open>The types of a schema are a map by name, listed here in the order in which it is walked.\<close>

type_synonym gqlschema = "(string \<times> gqldef) list"

datatype valuekind =
    VVariable | VInt | VFloat | VString | VBlock | VBoolean | VNull | VEnum | VList | VObject

text \<open>A value is a pointer to its raw text, its children with their names, its kind and the
  definition of its type; \<open>NilValue\<close> is the pointer nil.\<close>

datatype gqlvalue = NilValue | GqlValue string "(string \<times> gqlvalue) list" valuekind "gqldef option"

datatype selection = Field string "(string \<times> gqlvalue) list" "selection list" | FragmentPart string

datatype optype = QueryOp | MutationOp | SubscriptionOp

record operation =
  opType :: optype
  opSelections :: "selection list"

record querydoc =
  qdOperations :: "operation list"
  qdFragments :: "(string \<times> selection list) list"

section \<open>Rewriting of mutations\<close>

fun bindO :: "'a outcome \<Rightarrow> ('a \<Rightarrow> 'b outcome) \<Rightarrow> 'b outcome" where
  "bindO (Val a) f = f a"
| "bindO (Fail e) f = Fail e"
| "bindO NilDeref f = NilDeref"
| "bindO Panic f = Panic"
| "bindO Hang f = Hang"

lemma bindO_cong [fundef_cong]:
  "m = m' \<Longrightarrow> (\<And>a. m' = Val a \<Longrightarrow> f a = f' a) \<Longrightarrow> bindO m f = bindO m' f'"
  by (cases m') auto

definition findDefinitionWithName :: "string \<Rightarrow> gqlschema \<Rightarrow> gqldef outcome" where
  "findDefinitionWithName name s = (case map_of s name of None \<Rightarrow> Panic | Some d \<Rightarrow> Val d)"

definition findEventInputDefinitionFor :: "gqldef \<Rightarrow> gqlschema \<Rightarrow> gqldef outcome" where
  "findEventInputDefinitionFor d s =
     (if \<not> has_suffix (gdName d) ''Input'' then Panic
      else findDefinitionWithName (trim_suffix (gdName d) ''Input'' @ ''EventInput'') s)"

definition newEventStateValue :: "gqlschema \<Rightarrow> (string \<times> gqlvalue) outcome" where
  "newEventStateValue s =
     bindO (findDefinitionWithName ''EventState'' s) (\<lambda>d. Val (''state'', GqlValue ''NEW'' [] VEnum (Some d)))"

definition newEventValue :: "gqldef \<Rightarrow> gqlschema \<Rightarrow> (string \<times> gqlvalue) outcome" where
  "newEventValue d s =
     bindO (newEventStateValue s) (\<lambda>st.
     bindO (findEventInputDefinitionFor d s) (\<lambda>e. Val (''events'', GqlValue [] [st] VObject (Some e))))"

definition newEventListValue :: "gqldef \<Rightarrow> gqlschema \<Rightarrow> (string \<times> gqlvalue) outcome" where
  "newEventListValue d s =
     bindO (newEventValue d s) (\<lambda>ev.
     bindO (findEventInputDefinitionFor d s) (\<lambda>e. Val (''events'', GqlValue [] [ev] VList (Some e))))"

definition gets_event :: "gqldef \<Rightarrow> bool" where
  "gets_event d \<longleftrightarrow> gdKind d = InputObjectKind \<and> \<not> has_suffix (gdName d) ''Event'' \<and>
     \<not> has_suffix (gdName d) ''EventInput'' \<and> \<not> has_suffix (gdName d) ''Ref'' \<and>
     \<not> has_suffix (gdName d) ''Filter'' \<and> \<not> has_suffix (gdName d) ''Patch''"

text \<open>\<open>rewriteChildren\<close> is the loop over the children of a value, and over the arguments of a field.\<close>

fun rewriteValue :: "gqlvalue \<Rightarrow> gqlschema \<Rightarrow> gqlvalue outcome"
  and rewriteChildren :: "(string \<times> gqlvalue) list \<Rightarrow> gqlschema \<Rightarrow> (string \<times> gqlvalue) list outcome" where
  "rewriteValue NilValue s = Panic"
| "rewriteValue (GqlValue raw cs k d) s =
     (if k = VList then bindO (rewriteChildren cs s) (\<lambda>cs'. Val (GqlValue raw cs' k d))
      else if k = VObject then
        bindO (rewriteChildren cs s) (\<lambda>cs'.
          case d of
            None \<Rightarrow> NilDeref
          | Some df \<Rightarrow>
              if gets_event df
              then bindO (newEventListValue df s) (\<lambda>ev. Val (GqlValue raw (cs' @ [ev]) k d))
              else Val (GqlValue raw cs' k d))
      else Val (GqlValue raw cs k d))"
| "rewriteChildren [] s = Val []"
| "rewriteChildren ((n, v) # cs) s =
     bindO (rewriteValue v s) (\<lambda>v'. bindO (rewriteChildren cs s) (\<lambda>cs'. Val ((n, v') # cs')))"

fun rewriteSelections :: "selection list \<Rightarrow> gqlschema \<Rightarrow> selection list outcome" where
  "rewriteSelections [] s = Val []"
| "rewriteSelections (Field n args sub # ss) s =
     bindO (rewriteChildren args s) (\<lambda>args'. bindO (rewriteSelections ss s) (\<lambda>ss'. Val (Field n args' sub # ss')))"
| "rewriteSelections (FragmentPart n # ss) s = Panic"

fun rewriteOperations :: "operation list \<Rightarrow> gqlschema \<Rightarrow> operation list outcome" where
  "rewriteOperations [] s = Val []"
| "rewriteOperations (op # ops) s =
     (if opType op \<noteq> MutationOp
      then bindO (rewriteOperations ops s) (\<lambda>ops'. Val (op # ops'))
      else bindO (rewriteSelections (opSelections op) s) (\<lambda>ss.
           bindO (rewriteOperations ops s) (\<lambda>ops'. Val (op\<lparr>opSelections := ss\<rparr> # ops'))))"

definition rewriteQuery :: "querydoc \<Rightarrow> gqlschema \<Rightarrow> querydoc outcome" where
  "rewriteQuery q s = bindO (rewriteOperations (qdOperations q) s) (\<lambda>ops. Val (q\<lparr>qdOperations := ops\<rparr>))"

section \<open>Texts\<close>

abbreviation dquote :: char where "dquote \<equiv> CHR 0x22"
abbreviation backslash :: char where "backslash \<equiv> CHR 0x5C"

definition fixWhitespaces :: "string \<Rightarrow> string" where
  "fixWhitespaces s = replace_char (CHR 0x09) '' '' (replace_char (CHR 0x0A) '' '' s)"

definition escapeQuery :: "string \<Rightarrow> string" where
  "escapeQuery q = replace_char dquote [backslash, dquote] q"

definition getSchemaQuery :: string where
  "getSchemaQuery = ''{ getGQLSchema() { schema generatedSchema } }''"

definition setSchemaQuery :: "string \<Rightarrow> string" where
  "setSchemaQuery schema = ''mutation { updateGQLSchema(input: { set: { schema: '' @ [dquote] @ schema @ [dquote] @
     '' } }) { gqlSchema { schema generatedSchema } } }''"

definition runQuery_text :: "string \<Rightarrow> string" where
  "runQuery_text q = ''{ '' @ [dquote] @ ''query'' @ [dquote] @ '': '' @ [dquote] @ fixWhitespaces (escapeQuery q) @ [dquote] @ '' }''"

text \<open>The type of events of a type, and the field that leads to them.\<close>

definition eventTmpl :: "string \<Rightarrow> string" where
  "eventTmpl n =
     [CHR 0x0A] @ ''type '' @ n @ ''Event {'' @ [CHR 0x0A] @
     ''  id: ID!'' @ [CHR 0x0A] @
     ''  state: EventState! @search(by: [exact])'' @ [CHR 0x0A] @
     ''  node: '' @ n @ ''! @hasInverse(field: events)'' @ [CHR 0x0A] @
     ''}'' @ [CHR 0x0A, CHR 0x0A] @
     ''extend type '' @ n @ '' {'' @ [CHR 0x0A] @
     ''  events: ['' @ n @ ''Event] @hasInverse(field: node)'' @ [CHR 0x0A] @
     ''}''"

section \<open>The client of the database\<close>

record 'd gql_env =
  gPost :: "string \<Rightarrow> string \<Rightarrow> 'd \<Rightarrow> 'd \<times> (string, string) result"
  gGet :: "string \<Rightarrow> string \<Rightarrow> (string, json) result"
  gString :: "json \<Rightarrow> string"
  gJSON :: "json \<Rightarrow> string"
  gLoadSchema :: "string \<Rightarrow> (string, gqlschema) result"
  gLoadQuery :: "gqlschema \<Rightarrow> string \<Rightarrow> (string, querydoc) result"
  gFormat :: "querydoc \<Rightarrow> string"

record 'd DgraphClient =
  dgGqlAddress :: string
  dgSchemaAddress :: string
  dgUserSchema :: string
  dgGeneratedSchema :: string
  dgSchema :: "gqlschema option"
  dgServer :: 'd

definition dg_post :: "'d gql_env \<Rightarrow> string \<Rightarrow> string \<Rightarrow> ('d DgraphClient, string) prog" where
  "dg_post E addr body c =
     (case gPost E addr body (dgServer c) of
        (d, r) \<Rightarrow> (c\<lparr>dgServer := d\<rparr>, case r of Inl e \<Rightarrow> Fail e | Inr b \<Rightarrow> Val b))"

definition dg_runQuery :: "'d gql_env \<Rightarrow> string \<Rightarrow> string \<Rightarrow> ('d DgraphClient, string) prog" where
  "dg_runQuery E query onAddr =
     bindL (dg_post E onAddr (runQuery_text query)) (\<lambda>respStr.
     bindL (tryL (gGet E respStr ''input.data'')) (\<lambda>data. returnL (gJSON E data)))"

definition updateSchema :: "'d gql_env \<Rightarrow> string \<Rightarrow> ('d DgraphClient, unit) prog" where
  "updateSchema E resp =
     bindL (tryL (gGet E resp ''input.schema'')) (\<lambda>userSchema.
     bindL (tryL (gGet E resp ''input.generatedSchema'')) (\<lambda>generatedSchema.
     bindL (tryL (gLoadSchema E (gString E generatedSchema))) (\<lambda>schema.
     setL (\<lambda>c. c\<lparr>dgUserSchema := gString E userSchema, dgGeneratedSchema := gString E generatedSchema,
       dgSchema := Some schema\<rparr>))))"

definition fetchSchema :: "'d gql_env \<Rightarrow> ('d DgraphClient, unit) prog" where
  "fetchSchema E c =
     bindL (dg_runQuery E getSchemaQuery (dgSchemaAddress c)) (\<lambda>resp.
     bindL (tryL (gGet E resp ''input.getGQLSchema'')) (\<lambda>data. updateSchema E (gJSON E data))) c"

definition SetSchema :: "'d gql_env \<Rightarrow> string \<Rightarrow> ('d DgraphClient, unit) prog" where
  "SetSchema E gqlSchema c =
     bindL (dg_runQuery E (setSchemaQuery gqlSchema) (dgSchemaAddress c)) (\<lambda>resp.
     bindL (tryL (gGet E resp ''input.updateGQLSchema.gqlSchema'')) (\<lambda>data. updateSchema E (gJSON E data))) c"

definition shouldIgnoreDefinition :: "gqldef \<Rightarrow> bool" where
  "shouldIgnoreDefinition d \<longleftrightarrow> gdKind d \<noteq> ObjectKind \<or> gdName d = ''Query'' \<or> gdName d = ''Mutation'' \<or>
     has_prefix (gdName d) ''__'' \<or> has_suffix (gdName d) ''Payload'' \<or> has_suffix (gdName d) ''Event''"

definition event_types :: "gqlschema \<Rightarrow> string list" where
  "event_types parsed = map gdName (filter (\<lambda>t. \<not> shouldIgnoreDefinition t \<and> map_of parsed (gdName t @ ''Event'') = None) (map snd parsed))"

definition extendSchema :: "'d gql_env \<Rightarrow> string \<Rightarrow> 'd DgraphClient \<Rightarrow> (string, string) result" where
  "extendSchema E schema c =
     bindE (gLoadSchema E (dgGeneratedSchema c @ ''   '' @ schema)) (\<lambda>parsed.
       Inr (dgUserSchema c @ schema @ concat (map eventTmpl (event_types parsed))))"

definition AddSchema :: "'d gql_env \<Rightarrow> string \<Rightarrow> ('d DgraphClient, unit) prog" where
  "AddSchema E gqlSchema c = bindL (tryL (extendSchema E gqlSchema c)) (SetSchema E) c"

definition NewDgraphClient :: "'d gql_env \<Rightarrow> string \<Rightarrow> string \<Rightarrow> 'd \<Rightarrow> 'd DgraphClient \<times> unit outcome" where
  "NewDgraphClient E gqlAddress schemaAddress d =
     fetchSchema E \<lparr>dgGqlAddress = gqlAddress, dgSchemaAddress = schemaAddress, dgUserSchema = [],
       dgGeneratedSchema = [], dgSchema = None, dgServer = d\<rparr>"

definition dg_RunQuery :: "'d gql_env \<Rightarrow> string \<Rightarrow> ('d DgraphClient, string) prog" where
  "dg_RunQuery E query c =
     bindL (field dgSchema) (\<lambda>s.
     bindL (tryL (gLoadQuery E s query)) (\<lambda>q.
     bindL (\<lambda>c. (c, rewriteQuery q s)) (\<lambda>rewritten.
     dg_runQuery E (gFormat E rewritten) (dgGqlAddress c)))) c"

section \<open>The handlers\<close>

definition extractQuery :: "'d gql_env \<Rightarrow> request \<Rightarrow> (string, string) result \<Rightarrow> (string, string) result" where
  "extractQuery E r body =
     (if Method r = ''GET'' then
        (case formErr r of
           Some e \<Rightarrow> Inl e
         | None \<Rightarrow> (case Form r ''query'' of Some [q] \<Rightarrow> Inr q | _ \<Rightarrow> Inl ''Exactly one query must be provided''))
      else bindE body (\<lambda>b. bindE (gGet E b ''input.query'') (\<lambda>q. Inr (gString E q))))"

text \<open>After an error of \<open>extractQuery\<close> the handler goes on with a nil query.\<close>

definition api_graphql :: "'d gql_env \<Rightarrow> request \<Rightarrow> (string, string) result \<Rightarrow> 'd DgraphClient \<Rightarrow> 'd DgraphClient \<times> string response" where
  "api_graphql E r body c =
     (case extractQuery E r body of
        Inl e \<Rightarrow> (c, Aborted)
      | Inr q \<Rightarrow>
          (case dg_RunQuery E q c of
             (c', Val resp) \<Rightarrow> (c', Page resp)
           | (c', Fail e) \<Rightarrow> (c', HttpError StatusInternalServerError e)
           | (c', _) \<Rightarrow> (c', Aborted)))"

definition StatusPreconditionFailed :: nat where "StatusPreconditionFailed = 412"

definition api_addSchema :: "'d gql_env \<Rightarrow> request \<Rightarrow> (string, string) result \<Rightarrow> 'd DgraphClient \<Rightarrow> 'd DgraphClient \<times> string response" where
  "api_addSchema E r body c =
     (if Method r \<noteq> ''POST'' then (c, HttpError StatusBadRequest ''Only POST requests are accepted in /add_schema'')
      else
        (case body of
           Inl e \<Rightarrow> (c, HttpError StatusInternalServerError ''Could not read request'')
         | Inr b \<Rightarrow>
             (case AddSchema E b c of
                (c', Val ()) \<Rightarrow> (c', NoContent)
              | (c', Fail e) \<Rightarrow> (c', HttpError StatusPreconditionFailed e)
              | (c', _) \<Rightarrow> (c', Aborted))))"

section \<open>Correctness of the rewriting\<close>

text \<open>A value the code can rewrite: there are no nil pointers, and for every type that gets an event the
  schema has the type of its events.\<close>

fun value_ok :: "gqlschema \<Rightarrow> gqlvalue \<Rightarrow> bool"
  and children_ok :: "gqlschema \<Rightarrow> (string \<times> gqlvalue) list \<Rightarrow> bool" where
  "value_ok s NilValue = False"
| "value_ok s (GqlValue raw cs k d) =
     (if k = VList then children_ok s cs
      else if k = VObject then children_ok s cs \<and>
        (case d of
           None \<Rightarrow> False
         | Some df \<Rightarrow> gets_event df \<longrightarrow> has_suffix (gdName df) ''Input'' \<and>
             map_of s (trim_suffix (gdName df) ''Input'' @ ''EventInput'') \<noteq> None)
      else True)"
| "children_ok s [] = True"
| "children_ok s ((n, v) # cs) = (value_ok s v \<and> children_ok s cs)"

definition schema_ok :: "gqlschema \<Rightarrow> bool" where
  "schema_ok s \<longleftrightarrow> list_all (\<lambda>(n, d). gdName d = n) s \<and> map_of s ''EventState'' \<noteq> None"

fun selection_ok :: "gqlschema \<Rightarrow> selection \<Rightarrow> bool" where
  "selection_ok s (Field n args sub) = children_ok s args"
| "selection_ok s (FragmentPart n) = False"

definition query_ok :: "gqlschema \<Rightarrow> querydoc \<Rightarrow> bool" where
  "query_ok s q \<longleftrightarrow> (\<forall>op \<in> set (qdOperations q). opType op = MutationOp \<longrightarrow> list_all (selection_ok s) (opSelections op))"

text \<open>What the rewriting adds, taken away again.\<close>

fun strip_value :: "gqlvalue \<Rightarrow> gqlvalue"
  and strip_children :: "(string \<times> gqlvalue) list \<Rightarrow> (string \<times> gqlvalue) list" where
  "strip_value NilValue = NilValue"
| "strip_value (GqlValue raw cs k d) =
     (if k = VList then GqlValue raw (strip_children cs) k d
      else if k = VObject then
        GqlValue raw (if (case d of None \<Rightarrow> False | Some df \<Rightarrow> gets_event df) then butlast (strip_children cs) else strip_children cs) k d
      else GqlValue raw cs k d)"
| "strip_children [] = []"
| "strip_children ((n, v) # cs) = (n, strip_value v) # strip_children cs"

fun strip_selection :: "selection \<Rightarrow> selection" where
  "strip_selection (Field n args sub) = Field n (strip_children args) sub"
| "strip_selection (FragmentPart n) = FragmentPart n"

definition strip_operation :: "operation \<Rightarrow> operation" where
  "strip_operation op = (if opType op = MutationOp then op\<lparr>opSelections := map strip_selection (opSelections op)\<rparr> else op)"

definition strip_query :: "querydoc \<Rightarrow> querydoc" where
  "strip_query q = q\<lparr>qdOperations := map strip_operation (qdOperations q)\<rparr>"

text \<open>Every object of a type that gets events has as its last child a list with one event, in state NEW.\<close>

definition new_event :: "string \<times> gqlvalue \<Rightarrow> bool" where
  "new_event c \<longleftrightarrow> (\<exists>e st. c = (''events'', GqlValue [] [(''events'',
     GqlValue [] [(''state'', GqlValue ''NEW'' [] VEnum (Some st))] VObject (Some e))] VList (Some e)) \<and> \<not> gets_event e)"

fun marked_value :: "gqlvalue \<Rightarrow> bool"
  and marked_children :: "(string \<times> gqlvalue) list \<Rightarrow> bool" where
  "marked_value NilValue = True"
| "marked_value (GqlValue raw cs k d) =
     (if k = VList then marked_children cs
      else if k = VObject then marked_children cs \<and>
        (case d of None \<Rightarrow> True | Some df \<Rightarrow> gets_event df \<longrightarrow> cs \<noteq> [] \<and> new_event (last cs))
      else True)"
| "marked_children [] = True"
| "marked_children ((n, v) # cs) = (marked_value v \<and> marked_children cs)"

fun marked_selection :: "selection \<Rightarrow> bool" where
  "marked_selection (Field n args sub) = marked_children args"
| "marked_selection (FragmentPart n) = True"

definition marked_query :: "querydoc \<Rightarrow> bool" where
  "marked_query q \<longleftrightarrow> (\<forall>op \<in> set (qdOperations q). opType op = MutationOp \<longrightarrow> list_all marked_selection (opSelections op))"

lemma strip_children_append: "strip_children (xs @ ys) = strip_children xs @ strip_children ys"
proof (induction xs)
  case (Cons c xs)
  then show ?case by (cases c) simp
qed simp

lemma marked_children_append: "marked_children (xs @ ys) \<longleftrightarrow> marked_children xs \<and> marked_children ys"
proof (induction xs)
  case (Cons c xs)
  then show ?case by (cases c) simp
qed simp

lemma new_event_facts: "new_event ev \<Longrightarrow> marked_children [ev] \<and> (\<exists>x. strip_children [ev] = [x])"
  by (auto simp: new_event_def)

lemma suffix_last: "has_suffix s t \<Longrightarrow> t \<noteq> [] \<Longrightarrow> s \<noteq> [] \<and> last s = last t"
  unfolding has_suffix_def by (metis append_take_drop_id last_appendR append_is_Nil_conv)

lemma event_input_gets_no_event: "gdName e = n @ ''EventInput'' \<Longrightarrow> \<not> gets_event e"
  by (simp add: gets_event_def)

lemma newEventList_ok:
  assumes "schema_ok s" and "has_suffix (gdName d) ''Input''" and "map_of s (trim_suffix (gdName d) ''Input'' @ ''EventInput'') \<noteq> None"
  obtains ev where "newEventListValue d s = Val ev" "new_event ev"
proof -
  from assms(3) obtain e where e: "map_of s (trim_suffix (gdName d) ''Input'' @ ''EventInput'') = Some e" by blast
  from assms(1) obtain st where st: "map_of s ''EventState'' = Some st" by (auto simp: schema_ok_def)
  have "gdName e = trim_suffix (gdName d) ''Input'' @ ''EventInput''"
    using map_of_SomeD[OF e] assms(1) by (auto simp: schema_ok_def list_all_iff)
  then have "\<not> gets_event e" by (rule event_input_gets_no_event)
  moreover have "newEventListValue d s = Val (''events'', GqlValue [] [(''events'',
     GqlValue [] [(''state'', GqlValue ''NEW'' [] VEnum (Some st))] VObject (Some e))] VList (Some e))"
    using assms(2) e st
    by (simp add: newEventListValue_def newEventValue_def newEventStateValue_def findEventInputDefinitionFor_def findDefinitionWithName_def)
  ultimately show ?thesis using that by (auto simp: new_event_def)
qed

lemma rewrite_ok:
  "schema_ok s \<Longrightarrow> value_ok s v \<Longrightarrow> \<exists>v'. rewriteValue v s = Val v' \<and> strip_value v' = v \<and> marked_value v'"
  "schema_ok s \<Longrightarrow> children_ok s cs \<Longrightarrow> \<exists>cs'. rewriteChildren cs s = Val cs' \<and> strip_children cs' = cs \<and> marked_children cs'"
proof (induction v s and cs s rule: rewriteValue_rewriteChildren.induct)
  case (2 raw cs k d s)
  show ?case
  proof (cases "k = VList \<or> k = VObject")
    case True
    with "2.prems" have "children_ok s cs" by (auto split: if_splits)
    with "2.IH" "2.prems"(1) True obtain cs' where cs': "rewriteChildren cs s = Val cs'" "strip_children cs' = cs" "marked_children cs'"
      by (cases "k = VList") auto
    show ?thesis
    proof (cases "k = VObject \<and> (case d of None \<Rightarrow> False | Some df \<Rightarrow> gets_event df)")
      case True
      then obtain df where df: "k = VObject" "d = Some df" "gets_event df" by (auto split: option.splits)
      with "2.prems"(2) have "has_suffix (gdName df) ''Input''" "map_of s (trim_suffix (gdName df) ''Input'' @ ''EventInput'') \<noteq> None" by auto
      with "2.prems"(1) obtain ev where ev: "newEventListValue df s = Val ev" "new_event ev" by (rule newEventList_ok)
      from new_event_facts[OF ev(2)] obtain x where x: "marked_children [ev]" "strip_children [ev] = [x]" by blast
      show ?thesis using df cs' ev x by (simp add: strip_children_append marked_children_append)
    next
      case False
      then show ?thesis using True cs' "2.prems"(2) by (auto split: option.splits)
    qed
  next
    case False
    then show ?thesis by simp
  qed
next
  case (4 n v cs s)
  then obtain v' where "rewriteValue v s = Val v'" "strip_value v' = v" "marked_value v'" by auto
  moreover from 4 this obtain cs' where "rewriteChildren cs s = Val cs'" "strip_children cs' = cs" "marked_children cs'" by auto
  ultimately show ?case by simp
qed simp_all

lemma rewriteSelections_ok:
  assumes "schema_ok s" and "list_all (selection_ok s) ss"
  shows "\<exists>ss'. rewriteSelections ss s = Val ss' \<and> map strip_selection ss' = ss \<and> list_all marked_selection ss'"
  using assms(2)
proof (induction ss)
  case (Cons sel ss)
  then obtain n args sub where sel: "sel = Field n args sub" "children_ok s args" by (cases sel) auto
  from rewrite_ok(2)[OF assms(1) this(2)] obtain args' where
    "rewriteChildren args s = Val args'" "strip_children args' = args" "marked_children args'" by blast
  with Cons sel show ?case by auto
qed simp

lemma rewriteQuery_ok:
  assumes "schema_ok s" and "query_ok s q"
  shows "\<exists>q'. rewriteQuery q s = Val q' \<and> strip_query q' = q \<and> marked_query q'"
proof -
  have "\<exists>ops'. rewriteOperations ops s = Val ops' \<and> map strip_operation ops' = ops
      \<and> (\<forall>op \<in> set ops'. opType op = MutationOp \<longrightarrow> list_all marked_selection (opSelections op))"
    if "\<forall>op \<in> set ops. opType op = MutationOp \<longrightarrow> list_all (selection_ok s) (opSelections op)" for ops
    using that
  proof (induction ops)
    case (Cons op ops)
    then obtain ops' where ops': "rewriteOperations ops s = Val ops'" "map strip_operation ops' = ops"
      "\<forall>op \<in> set ops'. opType op = MutationOp \<longrightarrow> list_all marked_selection (opSelections op)" by auto
    show ?case
    proof (cases "opType op = MutationOp")
      case True
      with Cons.prems have "list_all (selection_ok s) (opSelections op)" by simp
      from rewriteSelections_ok[OF assms(1) this] obtain ss where "rewriteSelections (opSelections op) s = Val ss"
        "map strip_selection ss = opSelections op" "list_all marked_selection ss" by blast
      moreover from this have "strip_operation (op\<lparr>opSelections := ss\<rparr>) = op" using True by (simp add: strip_operation_def)
      ultimately show ?thesis using True ops' by simp
    next
      case False
      then have "strip_operation op = op" by (simp add: strip_operation_def)
      with False ops' show ?thesis by simp
    qed
  qed simp
  then have "\<exists>ops'. rewriteOperations (qdOperations q) s = Val ops' \<and> map strip_operation ops' = qdOperations q
      \<and> (\<forall>op \<in> set ops'. opType op = MutationOp \<longrightarrow> list_all marked_selection (opSelections op))"
    using assms(2) unfolding query_ok_def .
  then show ?thesis by (auto simp: rewriteQuery_def strip_query_def marked_query_def)
qed

lemma rewriteQuery_queries:
  "list_all (\<lambda>op. opType op \<noteq> MutationOp) (qdOperations q) \<Longrightarrow> rewriteQuery q s = Val q"
proof -
  have "list_all (\<lambda>op. opType op \<noteq> MutationOp) ops \<Longrightarrow> rewriteOperations ops s = Val ops" for ops
    by (induction ops) auto
  then show "list_all (\<lambda>op. opType op \<noteq> MutationOp) (qdOperations q) \<Longrightarrow> rewriteQuery q s = Val q"
    by (simp add: rewriteQuery_def)
qed

text \<open>The name of an input type of an update ends like that of an addition, so that it gets an event too.\<close>

lemma has_suffix_append_iff: "has_suffix (x @ t) (y @ t) \<longleftrightarrow> has_suffix x y"
  by (auto simp: has_suffix_def)

lemma has_suffix_same_length: "length t = length u \<Longrightarrow> has_suffix (x @ t) u \<longleftrightarrow> t = u"
  by (simp add: has_suffix_def)

lemma inputs_get_events:
  "gdKind d = InputObjectKind \<Longrightarrow> gdName d = n @ ''Input'' \<Longrightarrow> \<not> has_suffix n ''Event'' \<Longrightarrow> gets_event d"
  using has_suffix_append_iff[of n "''Input''" "''Event''"] has_suffix_same_length[of "''Input''" "''Event''" n]
  by (auto simp: gets_event_def dest: suffix_last)

lemma updates_get_events:
  assumes "schema_ok s" and "gdKind d = InputObjectKind" and "gdName d = ''Update'' @ n @ ''Input''" and "\<not> has_suffix (''Update'' @ n) ''Event''"
    and "children_ok s cs" and "map_of s (''Update'' @ n @ ''EventInput'') \<noteq> None"
  shows "\<exists>cs' ev. rewriteValue (GqlValue raw cs VObject (Some d)) s = Val (GqlValue raw (cs' @ [ev]) VObject (Some d)) \<and> new_event ev"
proof -
  have d: "gdName d = (''Update'' @ n) @ ''Input''" using assms(3) by simp
  have g: "gets_event d" by (rule inputs_get_events[OF assms(2) d assms(4)])
  have "has_suffix (gdName d) ''Input''" "trim_suffix (gdName d) ''Input'' = ''Update'' @ n"
    unfolding d by (rule has_suffix_append, rule trim_suffix_append)
  with assms(6) obtain ev where "newEventListValue d s = Val ev" "new_event ev"
    using newEventList_ok[OF assms(1), of d] by (metis append.assoc)
  moreover obtain cs' where "rewriteChildren cs s = Val cs'" using rewrite_ok(2)[OF assms(1,5)] by blast
  ultimately show ?thesis using g by auto
qed

section \<open>Reading the texts\<close>

text \<open>A JSON string after its opening quote: its value and the text after the closing quote. Escapes of
  characters beyond ASCII are not read.\<close>

definition hex_value :: "char \<Rightarrow> nat option" where
  "hex_value c = (let n = (of_char c :: nat) in
     if 48 \<le> n \<and> n \<le> 57 then Some (n - 48)
     else if 65 \<le> n \<and> n \<le> 70 then Some (n - 55)
     else if 97 \<le> n \<and> n \<le> 102 then Some (n - 87) else None)"

definition simple_escape :: "char \<Rightarrow> char option" where
  "simple_escape c =
     map_of [(dquote, dquote), (backslash, backslash), (CHR ''/'', CHR ''/''), (CHR ''n'', CHR 0x0A), (CHR ''t'', CHR 0x09),
       (CHR ''r'', CHR 0x0D), (CHR ''b'', CHR 0x08), (CHR ''f'', CHR 0x0C)] c"

fun read_json_str :: "string \<Rightarrow> (string \<times> string) option" where
  "read_json_str [] = None"
| "read_json_str (c # cs) =
     (if c = dquote then Some ([], cs)
      else if c = backslash then
        (case cs of
           [] \<Rightarrow> None
         | e # cs' \<Rightarrow>
             if e = CHR ''u'' then
               (case cs' of
                  z1 # z2 # h # l # cs'' \<Rightarrow>
                    (case (hex_value h, hex_value l) of
                       (Some a, Some b) \<Rightarrow>
                         if z1 = CHR ''0'' \<and> z2 = CHR ''0'' \<and> a < 8
                         then map_option (\<lambda>(s, r). (char_of (16 * a + b) # s, r)) (read_json_str cs'') else None
                     | _ \<Rightarrow> None)
                | _ \<Rightarrow> None)
             else
               (case simple_escape e of
                  None \<Rightarrow> None
                | Some x \<Rightarrow> map_option (\<lambda>(s, r). (x # s, r)) (read_json_str cs')))
      else if of_char c < (32 :: nat) then None
      else map_option (\<lambda>(s, r). (c # s, r)) (read_json_str cs))"

text \<open>The query in the body of a request.\<close>

definition query_intro :: string where
  "query_intro = ''{ '' @ [dquote] @ ''query'' @ [dquote] @ '': '' @ [dquote]"

definition read_body :: "string \<Rightarrow> string option" where
  "read_body t =
     (if has_prefix t query_intro
      then (case read_json_str (drop (length query_intro) t) of Some (s, r) \<Rightarrow> if r = '' }'' then Some s else None | None \<Rightarrow> None)
      else None)"

text \<open>A character that the client writes so that it can be read.\<close>

definition plain_char :: "char \<Rightarrow> bool" where
  "plain_char c \<longleftrightarrow> c \<noteq> backslash \<and> (32 \<le> (of_char c :: nat) \<or> c = CHR 0x0A \<or> c = CHR 0x09)"

lemma replace_char_simps:
  "replace_char c new [] = []" "replace_char c new (x # xs) = (if x = c then new else [x]) @ replace_char c new xs"
  "replace_char c new (xs @ ys) = replace_char c new xs @ replace_char c new ys"
  by (simp_all add: replace_char_def)

lemma escaped_append: "fixWhitespaces (escapeQuery (u @ v)) = fixWhitespaces (escapeQuery u) @ fixWhitespaces (escapeQuery v)"
  by (simp add: fixWhitespaces_def escapeQuery_def replace_char_simps)

lemma read_plain:
  "\<forall>c \<in> set u. plain_char c \<Longrightarrow>
    read_json_str (fixWhitespaces (escapeQuery u) @ t) = map_option (\<lambda>(s, r). (fixWhitespaces u @ s, r)) (read_json_str t)"
proof (induction u)
  case Nil
  show ?case by (cases "read_json_str t") (auto simp: fixWhitespaces_def escapeQuery_def replace_char_simps)
next
  case (Cons c u)
  then have c: "plain_char c" and IH: "read_json_str (fixWhitespaces (escapeQuery u) @ t) =
      map_option (\<lambda>(s, r). (fixWhitespaces u @ s, r)) (read_json_str t)" by auto
  have e: "fixWhitespaces (escapeQuery (c # u)) = fixWhitespaces (escapeQuery [c]) @ fixWhitespaces (escapeQuery u)"
    using escaped_append[of "[c]" u] by simp
  have step: "read_json_str (fixWhitespaces (escapeQuery [c]) @ x) = map_option (\<lambda>(s, r). (fixWhitespaces [c] @ s, r)) (read_json_str x)" for x
    using c by (auto simp: fixWhitespaces_def escapeQuery_def replace_char_simps plain_char_def simple_escape_def)
  have f: "fixWhitespaces (c # u) = fixWhitespaces [c] @ fixWhitespaces u"
    by (simp add: fixWhitespaces_def replace_char_simps)
  show ?case unfolding e append.assoc step IH f by (cases "read_json_str t") auto
qed

lemma read_runQuery_text:
  "read_body (runQuery_text q) = (case read_json_str (fixWhitespaces (escapeQuery q) @ [dquote] @ '' }'') of
     Some (s, r) \<Rightarrow> if r = '' }'' then Some s else None | None \<Rightarrow> None)"
proof -
  have "runQuery_text q = query_intro @ fixWhitespaces (escapeQuery q) @ [dquote] @ '' }''"
    by (simp add: runQuery_text_def query_intro_def)
  then show ?thesis by (simp add: read_body_def has_prefix_def)
qed

section \<open>Properties\<close>


text \<open>
  C32: The body of a request is read as the query it was made of. A query without a backslash and without
  control characters other than line breaks and tabs is read back from the JSON document the client sends,
  with line breaks and tabs turned into spaces; a query in which a quote is escaped by a backslash can not
  be read back, because the client escapes the quote and not the backslash.
\<close>
theorem query_text_roundtrip:
  assumes "\<forall>c \<in> set u. plain_char c"
  shows "read_body (runQuery_text u) = Some (fixWhitespaces u)
    \<and> read_body (runQuery_text (u @ [backslash, dquote] @ v)) = None"
proof -
  have "read_json_str (fixWhitespaces (escapeQuery u) @ [dquote] @ '' }'') = Some (fixWhitespaces u, '' }'')"
    unfolding read_plain[OF assms] by simp
  moreover have "fixWhitespaces (escapeQuery (u @ [backslash, dquote] @ v)) =
      fixWhitespaces (escapeQuery u) @ [backslash, backslash, dquote] @ fixWhitespaces (escapeQuery v)"
    unfolding escaped_append by (simp add: fixWhitespaces_def escapeQuery_def replace_char_simps)
  then have "read_json_str (fixWhitespaces (escapeQuery (u @ [backslash, dquote] @ v)) @ [dquote] @ '' }'')
      = Some (fixWhitespaces u @ [backslash], fixWhitespaces (escapeQuery v) @ [dquote] @ '' }'')"
    by (simp add: read_plain[OF assms] simple_escape_def)
  ultimately show ?thesis unfolding read_runQuery_text by simp
qed

text \<open>A request without a query is never answered. Whatever is wrong with it, the handler reports it and
  then uses the query that it does not have, so that the connection is dropped and nothing is asked.
\<close>
theorem request_without_query_aborts:
  assumes "Method r = ''GET''" and "formErr r \<noteq> None \<or> (\<nexists>q. Form r ''query'' = Some [q])"
  shows "api_graphql E r body c = (c, Aborted)"
  using assms by (auto simp: api_graphql_def extractQuery_def split: option.splits list.splits)

section \<open>Witnesses\<close>

definition example_input :: gqldef where
  "example_input = \<lparr>gdName = ''AddImageInput'', gdKind = InputObjectKind\<rparr>"

definition example_schema :: gqlschema where
  "example_schema = [(''EventState'', \<lparr>gdName = ''EventState'', gdKind = OtherKind\<rparr>),
     (''AddImageInput'', example_input),
     (''AddImageEventInput'', \<lparr>gdName = ''AddImageEventInput'', gdKind = InputObjectKind\<rparr>)]"

definition example_query :: querydoc where
  "example_query = \<lparr>qdOperations = [\<lparr>opType = MutationOp, opSelections = [Field ''addImage''
     [(''input'', GqlValue [] [(''0'', GqlValue [] [(''objectPath'', GqlValue ''a'' [] VString None)] VObject (Some example_input))] VList None)] []]\<rparr>],
     qdFragments = []\<rparr>"

definition example_gql :: "string list gql_env" where
  "example_gql = \<lparr>gPost = (\<lambda>addr body d. (body # d, Inr [])), gGet = (\<lambda>_ _. Inr JNull), gString = (\<lambda>_. []), gJSON = (\<lambda>_. []),
     gLoadSchema = (\<lambda>_. Inr example_schema), gLoadQuery = (\<lambda>_ _. Inr example_query), gFormat = (\<lambda>_. ''q'')\<rparr>"

definition example_client :: "string list DgraphClient" where
  "example_client = \<lparr>dgGqlAddress = ''g'', dgSchemaAddress = ''s'', dgUserSchema = [], dgGeneratedSchema = [],
     dgSchema = Some example_schema, dgServer = []\<rparr>"


theorem query_text_roundtrip_witness:
  "read_body (runQuery_text (''{ a(b: '' @ [dquote] @ ''c'' @ [dquote] @ '') }'')) = Some (''{ a(b: '' @ [dquote] @ ''c'' @ [dquote] @ '') }'')"
  using query_text_roundtrip[of "''{ a(b: '' @ [dquote] @ ''c'' @ [dquote] @ '') }''"]
  by (simp add: plain_char_def fixWhitespaces_def replace_char_simps)

theorem request_without_query_aborts_witness:
  "api_graphql example_gql empty_request (Inr []) example_client = (example_client, Aborted)"
  by (rule request_without_query_aborts) (simp_all add: empty_request_def)

end
