(* ===== verification/Importer.thy ===== *)
theory Importer
  imports Graphql
begin

text \<open>
  The importer of uploaded objects (\<open>src/apps/minio/importer\<close>): a notification of the object store becomes a
  mutation that adds an image, which is sent to the GraphQL API.
\<close>

text \<open>\<open>json.Marshal\<close> of a string, for ASCII characters; bytes of other characters are kept.\<close>

definition lower_hex :: "nat \<Rightarrow> char" where
  "lower_hex n = ''0123456789abcdef'' ! n"

definition json_escape :: "char \<Rightarrow> string" where
  "json_escape c =
     (if c = dquote \<or> c = backslash then [backslash, c]
      else if c = CHR 0x0A then [backslash, CHR ''n'']
      else if c = CHR 0x0D then [backslash, CHR ''r'']
      else if c = CHR 0x09 then [backslash, CHR ''t'']
      else if of_char c < (32 :: nat) \<or> c \<in> set ''<>&''
      then [backslash, CHR ''u'', CHR ''0'', CHR ''0'', lower_hex (of_char c div 16), lower_hex (of_char c mod 16)]
      else [c])"

definition json_quote :: "string \<Rightarrow> string" where
  "json_quote s = [dquote] @ concat (map json_escape s) @ [dquote]"

definition addImg_head :: string where
  "addImg_head = ''mutation {'' @ [CHR 0x0A] @ ''  addImage(input: [{ objectPath: ''"

definition addImg_tail :: string where
  "addImg_tail = '' }]) {'' @ [CHR 0x0A] @ ''    image {'' @ [CHR 0x0A] @ ''      id'' @ [CHR 0x0A] @ ''    }'' @
     [CHR 0x0A] @ ''  }'' @ [CHR 0x0A] @ ''}''"

text \<open>\<open>regogo\<close>: a query on a JSON document, and the text of its result.\<close>

record regogo =
  rgGet :: "string \<Rightarrow> string \<Rightarrow> (string, json) result"
  rgString :: "json \<Rightarrow> string"

definition EventToQuery :: "regogo \<Rightarrow> string \<Rightarrow> (string, string) result" where
  "EventToQuery G event =
     bindE (rgGet G event ''input.Key'') (\<lambda>key.
     bindE (guardE (rgString G key \<noteq> []) ''Key not found'') (\<lambda>_.
     Inr (addImg_head @ json_quote (rgString G key) @ addImg_tail)))"

text \<open>The API takes a document and answers with a status and a body, which may fail to be read.\<close>

definition importer_ServeHTTP ::
    "regogo \<Rightarrow> (json \<Rightarrow> 'w \<Rightarrow> 'w \<times> (string, nat \<times> (string, string) result) result) \<Rightarrow> (string, string) result \<Rightarrow> 'w \<Rightarrow> 'w \<times> unit response" where
  "importer_ServeHTTP G post body w =
     (case body of
        Inl e \<Rightarrow> (w, HttpError StatusBadRequest ''Could not read HTTP request body'')
      | Inr b \<Rightarrow>
          if b = [] then (w, NoContent)
          else
            (case EventToQuery G b of
               Inl e \<Rightarrow> (w, HttpError StatusBadRequest ''INTERNAL'')
             | Inr query \<Rightarrow>
                 (case post (JObj [(''query'', JStr query)]) w of
                    (w', Inl e) \<Rightarrow> (w', HttpError StatusInternalServerError ''Query failed'')
                  | (w', Inr (status, respBody)) \<Rightarrow>
                      if status \<noteq> StatusOK then (w', HttpError status ''Query failed'')
                      else (w', case respBody of Inl e \<Rightarrow> Aborted | Inr _ \<Rightarrow> NoContent))))"

section \<open>Correctness\<close>

lemma hex_value_lower_hex: "n < 16 \<Longrightarrow> hex_value (lower_hex n) = Some n"
proof -
  assume "n < 16"
  then have "n \<in> set [0..<16]" by simp
  moreover have "\<forall>n \<in> set [0..<16]. hex_value (lower_hex n) = Some n" by code_simp
  ultimately show ?thesis by blast
qed

lemma read_json_escape:
  assumes "of_char c < (128 :: nat)"
  shows "read_json_str (json_escape c @ t) = map_option (\<lambda>(s, r). (c # s, r)) (read_json_str t)"
proof -
  have n: "of_char c div 16 < (16 :: nat)" "of_char c mod 16 < (16 :: nat)" "of_char c div 16 < (8 :: nat)" using assms by auto
  have "char_of (16 * (of_char c div 16) + of_char c mod 16 :: nat) = c" by simp
  with n show ?thesis by (auto simp: json_escape_def simple_escape_def hex_value_lower_hex simp del: mult_div_mod_eq)
qed

lemma read_json_quote:
  "\<forall>c \<in> set k. of_char c < (128 :: nat) \<Longrightarrow> read_json_str (concat (map json_escape k) @ dquote # t) = Some (k, t)"
  by (induction k) (simp_all add: read_json_escape)

section \<open>Properties\<close>

text \<open>The mutation names the uploaded object. For a notification with a key of ASCII characters the
  importer posts a mutation whose string literal is read as exactly that key, whatever quotes, backslashes
  or control characters it has, and which goes on with the rest of the mutation.
\<close>
theorem imported_key_roundtrip:
  assumes "rgGet G b ''input.Key'' = Inr d" and "rgString G d = k" and "k \<noteq> []" and "\<forall>c \<in> set k. of_char c < (128 :: nat)"
  shows "\<exists>lit. EventToQuery G b = Inr (addImg_head @ [dquote] @ lit) \<and> read_json_str lit = Some (k, addImg_tail)"
  using assms read_json_quote[OF assms(4), of addImg_tail] by (simp add: EventToQuery_def json_quote_def)

theorem imported_key_roundtrip_witness:
  "\<exists>lit. EventToQuery \<lparr>rgGet = (\<lambda>s _. Inr (JStr s)), rgString = (\<lambda>_. ''a'' @ [dquote])\<rparr> ''e'' = Inr (addImg_head @ [dquote] @ lit)
    \<and> read_json_str lit = Some (''a'' @ [dquote], addImg_tail)"
  by (rule imported_key_roundtrip[where d = "JStr ''e''"]) simp_all

end
