(* ===== verification/Actions.thy ===== *)
theory Actions
  imports Program Json Paths
begin

text \<open>
  The first application manager (\<open>src/core/appmanager\<close>): Helm charts are uploaded, rendered and installed;
  a chart may bring a schema, actions that start a pod from a template, and triggers that tell on which
  events an action is to be launched. The operating system, the Helm command, the Kubernetes API and the
  parsers are parameters; they act on a world of any type.
\<close>

section \<open>Charts and applications\<close>

record Action =
  acName :: string
  acTemplate :: string

record Trigger =
  tgName :: string
  tgType :: string
  tgEvent :: string
  tgAction :: string

record CallAction =
  caApp :: string
  caAction :: string
  caArgs :: json

record HelmChart =
  hcName :: string
  hcType :: string
  hcDir :: string
  hcNamespace :: string
  hcSchema :: string
  hcTriggers :: "Trigger list"
  hcActions :: "Action list"
  hcInit :: "CallAction list"

record ActApp =
  apName :: string
  apNamespace :: string
  apTriggers :: "Trigger list"
  apActions :: "Action list"

text \<open>The applications by name, in the order in which the map is walked.\<close>

type_synonym apps = "(string \<times> ActApp) list"

text \<open>An error of reading a file tells whether the file does not exist.\<close>

datatype file_error = NotExist string | OtherError string

fun file_message :: "file_error \<Rightarrow> string" where
  "file_message (NotExist e) = e"
| "file_message (OtherError e) = e"

record ('c, 'p) act_env =
  aeHelm :: string
  aeChdir :: "string \<Rightarrow> 'c \<Rightarrow> 'c \<times> string option"
  aeRun :: "string list \<Rightarrow> 'c \<Rightarrow> 'c \<times> string option"
  aeMkdir :: "string \<Rightarrow> 'c \<Rightarrow> 'c \<times> string option"
  aeOpen :: "string \<Rightarrow> 'c \<Rightarrow> 'c \<times> string option"
  aeWrite :: "string \<Rightarrow> string \<Rightarrow> 'c \<Rightarrow> 'c \<times> string option"
  aeRemoveAll :: "string \<Rightarrow> 'c \<Rightarrow> 'c \<times> string option"
  aeRename :: "string \<Rightarrow> string \<Rightarrow> 'c \<Rightarrow> 'c \<times> string option"
  aeRead :: "string \<Rightarrow> 'c \<Rightarrow> (file_error, string) result"
  aeChartYaml :: "string \<Rightarrow> (string, string \<times> string) result"
  aeSchemaYaml :: "string \<Rightarrow> (string, string) result"
  aeTriggersYaml :: "string \<Rightarrow> (string, Trigger list) result"
  aeActionsYaml :: "string \<Rightarrow> (string, Action list) result"
  aeInitYaml :: "string \<Rightarrow> (string, CallAction list) result"
  aePost :: "string \<Rightarrow> 'c \<Rightarrow> 'c \<times> (string, nat \<times> string) result"
  aeNamespace :: "string \<Rightarrow> 'c \<Rightarrow> 'c \<times> string option"
  aeStore :: "apps \<Rightarrow> 'c \<Rightarrow> 'c \<times> string option"
  aeRender :: "string \<Rightarrow> json \<Rightarrow> (string, 'p) result"
  aeCreatePod :: "string \<Rightarrow> 'p \<Rightarrow> 'c \<Rightarrow> 'c \<times> string option"

record 'c act_state =
  amApps :: apps
  amWorld :: 'c

text \<open>A call that acts on the world.\<close>

definition worldL :: "('c \<Rightarrow> 'c \<times> string option) \<Rightarrow> ('c act_state, unit) prog" where
  "worldL f s = (case f (amWorld s) of (w, r) \<Rightarrow> (s\<lparr>amWorld := w\<rparr>, ended_as r))"

section \<open>Charts\<close>

definition FromYamlFile :: "('c, 'p) act_env \<Rightarrow> string \<Rightarrow> (string \<Rightarrow> (string, 'a) result) \<Rightarrow> 'c \<Rightarrow> (file_error, 'a) result" where
  "FromYamlFile E p parse w =
     (case aeRead E p w of
        Inl e \<Rightarrow> Inl e
      | Inr b \<Rightarrow> (case parse b of Inl e \<Rightarrow> Inl (OtherError e) | Inr a \<Rightarrow> Inr a))"

text \<open>A document that may be missing, in which case the zero value stays.\<close>

definition optionalYaml :: "('c, 'p) act_env \<Rightarrow> string \<Rightarrow> (string \<Rightarrow> (string, 'a) result) \<Rightarrow> 'a \<Rightarrow> ('c act_state, 'a) prog" where
  "optionalYaml E p parse zero s =
     (s, case FromYamlFile E p parse (amWorld s) of
           Inr a \<Rightarrow> Val a
         | Inl (NotExist e) \<Rightarrow> Val zero
         | Inl (OtherError e) \<Rightarrow> Fail e)"

definition HelmChartFromDir :: "('c, 'p) act_env \<Rightarrow> string \<Rightarrow> ('c act_state, HelmChart) prog" where
  "HelmChartFromDir E dir s =
     (s, case FromYamlFile E (path_join [dir, ''Chart.yaml'']) (aeChartYaml E) (amWorld s) of
           Inl e \<Rightarrow> Fail (file_message e)
         | Inr (name, typ) \<Rightarrow> Val \<lparr>hcName = name, hcType = typ, hcDir = dir, hcNamespace = [], hcSchema = [],
             hcTriggers = [], hcActions = [], hcInit = []\<rparr>)"

definition renderTemplates :: "('c, 'p) act_env \<Rightarrow> (string \<times> string) list \<Rightarrow> string \<Rightarrow> HelmChart \<Rightarrow> ('c act_state, unit) prog" where
  "renderTemplates E values outputDir chart =
     worldL (aeRun E ([aeHelm E, ''template'', ''--output-dir='' @ outputDir, ''--namespace='' @ hcNamespace chart,
       hcName chart, hcDir chart] @ map (\<lambda>(k, v). ''--set='' @ k @ ''='' @ v) values))"

definition chart_Render :: "('c, 'p) act_env \<Rightarrow> (string \<times> string) list \<Rightarrow> HelmChart \<Rightarrow> ('c act_state, HelmChart) prog" where
  "chart_Render E values chart0 =
     (let chart = chart0\<lparr>hcNamespace := ''app-'' @ hcName chart0\<rparr>;
          renderDir = path_join [hcDir chart, ''__render''];
          pcloudDir = path_join [hcDir chart, ''templates/pcloud''] in
      bindL (renderTemplates E values renderDir chart) (\<lambda>_.
      bindL (worldL (aeRemoveAll E (path_join [hcDir chart, ''templates'']))) (\<lambda>_.
      bindL (worldL (aeRename E (path_join [renderDir, hcName chart, ''templates'']) (path_join [hcDir chart, ''templates'']))) (\<lambda>_.
      bindL (optionalYaml E (path_join [pcloudDir, ''Schema.yaml'']) (aeSchemaYaml E) (hcSchema chart)) (\<lambda>schema.
      bindL (optionalYaml E (path_join [pcloudDir, ''Triggers.yaml'']) (aeTriggersYaml E) (hcTriggers chart)) (\<lambda>triggers.
      bindL (optionalYaml E (path_join [pcloudDir, ''Actions.yaml'']) (aeActionsYaml E) (hcActions chart)) (\<lambda>actions.
      bindL (optionalYaml E (path_join [pcloudDir, ''Init.yaml'']) (aeInitYaml E) (hcInit chart)) (\<lambda>init.
      bindL (worldL (aeRemoveAll E pcloudDir)) (\<lambda>_.
      returnL (chart\<lparr>hcSchema := schema, hcTriggers := triggers, hcActions := actions, hcInit := init\<rparr>))))))))))"

definition file_dir :: "string \<Rightarrow> string" where
  "file_dir p = path_clean (fst (path_split p))"

definition file_base :: "string \<Rightarrow> string" where
  "file_base p =
     (if p = [] then ''.''
      else (let q = rev (dropWhile (\<lambda>c. c = CHR ''/'') (rev p)) in
            if q = [] then ''/'' else snd (path_split q)))"

definition HelmChartFromTar :: "('c, 'p) act_env \<Rightarrow> string \<Rightarrow> ('c act_state, HelmChart) prog" where
  "HelmChartFromTar E chartTar =
     (if \<not> has_suffix chartTar ''.tar.gz'' then tryL (Inl ''Expected .tar.gz file'')
      else
        bindL (worldL (aeChdir E (file_dir chartTar))) (\<lambda>_.
        bindL (worldL (aeRun E [''tar'', ''-xvf'', file_base chartTar])) (\<lambda>_.
        HelmChartFromDir E (file_dir chartTar))))"

definition chart_Install :: "('c, 'p) act_env \<Rightarrow> HelmChart \<Rightarrow> ('c act_state, unit) prog" where
  "chart_Install E chart =
     worldL (aeRun E [aeHelm E, ''install'', ''--namespace='' @ hcNamespace chart, hcName chart, hcDir chart])"

definition InstallSchema :: "('c, 'p) act_env \<Rightarrow> string \<Rightarrow> ('c act_state, unit) prog" where
  "InstallSchema E schema s =
     (if schema = [] then (s, Val ())
      else
        (case aePost E schema (amWorld s) of
           (w, Inl e) \<Rightarrow> (s\<lparr>amWorld := w\<rparr>, Fail e)
         | (w, Inr (status, body)) \<Rightarrow>
             (s\<lparr>amWorld := w\<rparr>,
              if status \<noteq> StatusOK then Fail (''Failed request with status code: '' @ nat_digits status @ '' '' @ body) else Val ())))"

section \<open>Actions\<close>

definition Launch :: "('c, 'p) act_env \<Rightarrow> string \<Rightarrow> string \<Rightarrow> json \<Rightarrow> ('c act_state, unit) prog" where
  "Launch E ns tmpl args = bindL (tryL (aeRender E tmpl args)) (\<lambda>pod. worldL (aeCreatePod E ns pod))"

record actionReq =
  arApp :: string
  arAction :: string
  arArgs :: json

text \<open>The first action with the name, over all applications with the name.\<close>

fun find_action :: "apps \<Rightarrow> string \<Rightarrow> string \<Rightarrow> (string \<times> string) option" where
  "find_action [] app action = None"
| "find_action ((_, a) # as) app action =
     (if apName a \<noteq> app then find_action as app action
      else
        (case filter (\<lambda>x. acName x = action) (apActions a) of
           [] \<Rightarrow> find_action as app action
         | x # _ \<Rightarrow> Some (apNamespace a, acTemplate x)))"

definition launchAction :: "('c, 'p) act_env \<Rightarrow> actionReq \<Rightarrow> ('c act_state, unit) prog" where
  "launchAction E req s =
     (case find_action (amApps s) (arApp req) (arAction req) of
        None \<Rightarrow> (s, Fail (''Action not found: '' @ arApp req @ '' '' @ arAction req))
      | Some (ns, tmpl) \<Rightarrow> Launch E ns tmpl (arArgs req) s)"

fun apps_put :: "string \<Rightarrow> ActApp \<Rightarrow> apps \<Rightarrow> apps" where
  "apps_put n a [] = [(n, a)]"
| "apps_put n a ((m, b) # as) = (if m = n then (n, a) # as else (m, b) # apps_put n a as)"

definition app_of :: "HelmChart \<Rightarrow> ActApp" where
  "app_of h = \<lparr>apName = hcName h, apNamespace = hcNamespace h, apTriggers = hcTriggers h, apActions = hcActions h\<rparr>"

text \<open>The error of storing the applications is dropped.\<close>

definition StoreManagerState :: "('c, 'p) act_env \<Rightarrow> ('c act_state, unit) prog" where
  "StoreManagerState E s = (s\<lparr>amWorld := fst (aeStore E (amApps s) (amWorld s))\<rparr>, Val ())"

definition installHelmChart :: "('c, 'p) act_env \<Rightarrow> string \<Rightarrow> ('c act_state, unit) prog" where
  "installHelmChart E path =
     bindL (HelmChartFromTar E path) (\<lambda>h0.
     bindL (chart_Render E [] h0) (\<lambda>h.
     bindL (InstallSchema E (hcSchema h)) (\<lambda>_.
     bindL (worldL (aeNamespace E (hcNamespace h))) (\<lambda>_.
     bindL (if hcType h = ''application'' then chart_Install E h else returnL ()) (\<lambda>_.
     bindL (setL (\<lambda>s. s\<lparr>amApps := apps_put (hcName h) (app_of h) (amApps s)\<rparr>)) (\<lambda>_.
     bindL (StoreManagerState E) (\<lambda>_.
     forL (\<lambda>a. launchAction E \<lparr>arApp = caApp a, arAction = caAction a, arArgs = caArgs a\<rparr>) (hcInit h))))))))"

text \<open>The applications of the last run: none when there is no file.\<close>

definition LoadManagerState :: "(file_error, apps) result \<Rightarrow> (string, apps) result" where
  "LoadManagerState file =
     (case file of Inr as \<Rightarrow> Inr as | Inl (NotExist e) \<Rightarrow> Inr [] | Inl (OtherError e) \<Rightarrow> Inl e)"

section \<open>The handlers\<close>

text \<open>An uploaded file is written to a fresh directory \<open>tmp\<close>. Failing to open the file is not reported.\<close>

definition saveUpload :: "('c, 'p) act_env \<Rightarrow> string \<Rightarrow> string \<Rightarrow> string \<Rightarrow> 'c \<Rightarrow> 'c \<times> (string response, string) result" where
  "saveUpload E tmp name content w =
     (if tmp = [] then (w, Inl (HttpError StatusInternalServerError ''Could not generate temp dir''))
      else
        (case aeMkdir E (''/tmp/'' @ tmp) w of
           (w1, Some e) \<Rightarrow> (w1, Inl (HttpError StatusInternalServerError ''Could not create temp dir''))
         | (w1, None) \<Rightarrow>
             (let p = ''/tmp/'' @ tmp @ ''/'' @ name in
              case aeOpen E p w1 of
                (w2, Some e) \<Rightarrow> (w2, Inl NoContent)
              | (w2, None) \<Rightarrow>
                  (case aeWrite E p content w2 of
                     (w3, Some e) \<Rightarrow> (w3, Inl (HttpError StatusInternalServerError e))
                   | (w3, None) \<Rightarrow> (w3, Inr p)))))"

text \<open>\<open>upload\<close> is the file of the form, its name and content.\<close>

definition handleInstall ::
    "('c, 'p) act_env \<Rightarrow> request \<Rightarrow> (string, string \<times> string) result \<Rightarrow> string \<Rightarrow> 'c act_state \<Rightarrow> 'c act_state \<times> string response" where
  "handleInstall E r upload tmp s =
     (if Method r = ''GET'' then (s, Page ''upload'')
      else if Method r = ''POST'' then
        (case upload of
           Inl e \<Rightarrow> (s, HttpError StatusInternalServerError e)
         | Inr (name, content) \<Rightarrow>
             (case saveUpload E tmp name content (amWorld s) of
                (w, Inl resp) \<Rightarrow> (s\<lparr>amWorld := w\<rparr>, resp)
              | (w, Inr p) \<Rightarrow>
                  (case installHelmChart E p (s\<lparr>amWorld := w\<rparr>) of
                     (s', Val _) \<Rightarrow> (s', Page ''Installed'')
                   | (s', Fail e) \<Rightarrow> (s', HttpError StatusInternalServerError e)
                   | (s', _) \<Rightarrow> (s', Aborted))))
      else (s, NoContent))"

definition matching_triggers :: "apps \<Rightarrow> string \<Rightarrow> string \<Rightarrow> (string \<times> string) list" where
  "matching_triggers as typ ev =
     concat (map (\<lambda>(_, a). map (\<lambda>t. (apName a, tgAction t)) (filter (\<lambda>t. tgType t = typ \<and> tgEvent t = ev) (apTriggers a))) as)"

text \<open>A nil slice is encoded as null.\<close>

definition encode_triggers :: "(string \<times> string) list \<Rightarrow> json" where
  "encode_triggers ts = (if ts = [] then JNull else JArr (map (\<lambda>(app, action). JObj [(''app'', JStr app), (''action'', JStr action)]) ts))"

definition handleTriggers :: "request \<Rightarrow> 'c act_state \<Rightarrow> json response" where
  "handleTriggers r s =
     (if Method r \<noteq> ''GET'' then HttpError StatusBadRequest ''Only GET method is supported on /triggers''
      else
        (case formErr r of
           Some e \<Rightarrow> HttpError StatusBadRequest e
         | None \<Rightarrow>
             (case (Form r ''trigger_on_type'', Form r ''trigger_on_event'') of
                (Some (typ # _), Some (ev # _)) \<Rightarrow> Page (encode_triggers (matching_triggers (amApps s) typ ev))
              | _ \<Rightarrow> Aborted)))"

definition decode_actionReq :: "actionReq decoder" where
  "decode_actionReq = decode_struct
     [''app'' \<mapsto> on_field arApp arApp_update decode_string,
      ''action'' \<mapsto> on_field arAction arAction_update decode_string,
      ''args'' \<mapsto> on_field arArgs arArgs_update (\<lambda>d _. decode_map_any d)]"

definition zero_actionReq :: actionReq where
  "zero_actionReq = \<lparr>arApp = [], arAction = [], arArgs = JNull\<rparr>"

definition handleLaunchAction :: "('c, 'p) act_env \<Rightarrow> (string, (string, json) result) result \<Rightarrow> 'c act_state \<Rightarrow> 'c act_state \<times> json response" where
  "handleLaunchAction E body s =
     (case body of
        Inl e \<Rightarrow> (s, HttpError StatusInternalServerError e)
      | Inr doc \<Rightarrow>
          (case bindE doc (\<lambda>d. decode_actionReq d zero_actionReq) of
             Inl e \<Rightarrow> (s, HttpError StatusBadRequest e)
           | Inr req \<Rightarrow>
               (case launchAction E req s of
                  (s', Val _) \<Rightarrow> (s', NoContent)
                | (s', Fail e) \<Rightarrow> (s', HttpError StatusBadRequest e)
                | (s', _) \<Rightarrow> (s', Aborted))))"

datatype act_request =
    InstallReq request "(string, string \<times> string) result" string
  | TriggersReq request
  | LaunchReq "(string, (string, json) result) result"

fun act_serve :: "('c, 'p) act_env \<Rightarrow> act_request \<Rightarrow> 'c act_state \<Rightarrow> 'c act_state \<times> json response" where
  "act_serve E (InstallReq r file tmp) s =
     (case handleInstall E r file tmp s of
        (s', Page p) \<Rightarrow> (s', Page (JStr p))
      | (s', HttpError n e) \<Rightarrow> (s', HttpError n e)
      | (s', Redirect n l) \<Rightarrow> (s', Redirect n l)
      | (s', NoContent) \<Rightarrow> (s', NoContent)
      | (s', Aborted) \<Rightarrow> (s', Aborted))"
| "act_serve E (TriggersReq r) s = (s, handleTriggers r s)"
| "act_serve E (LaunchReq body) s = handleLaunchAction E body s"

section \<open>Correctness\<close>

text \<open>The map of applications: every application is kept once, under its name.\<close>

definition apps_ok :: "apps \<Rightarrow> bool" where
  "apps_ok as \<longleftrightarrow> distinct (map fst as) \<and> (\<forall>(n, a) \<in> set as. apName a = n)"

text \<open>Programs that leave the applications alone.\<close>

definition keeps_apps :: "('c act_state, 'a) prog \<Rightarrow> bool" where
  "keeps_apps m \<longleftrightarrow> (\<forall>s. amApps (fst (m s)) = amApps s)"

lemma keeps_appsI: "(\<And>s. amApps (fst (m s)) = amApps s) \<Longrightarrow> keeps_apps m"
  by (simp add: keeps_apps_def)

lemma keeps_bindL: "keeps_apps m \<Longrightarrow> (\<And>a. keeps_apps (f a)) \<Longrightarrow> keeps_apps (bindL m f)"
  unfolding keeps_apps_def bindL_def by (auto split: prod.splits outcome.splits) (metis fst_conv)+

lemma keeps_worldL: "keeps_apps (worldL f)"
  by (rule keeps_appsI) (simp add: worldL_def split: prod.splits)

lemma keeps_tryL: "keeps_apps (tryL x)"
  by (rule keeps_appsI) (simp add: tryL_def)

lemma keeps_returnL: "keeps_apps (returnL x)"
  by (rule keeps_appsI) (simp add: returnL_def)

lemma keeps_yaml: "keeps_apps (optionalYaml E p parse zero)" "keeps_apps (HelmChartFromDir E dir)"
  by (rule keeps_appsI, simp add: optionalYaml_def HelmChartFromDir_def)+

lemma keeps_InstallSchema: "keeps_apps (InstallSchema E schema)"
  by (rule keeps_appsI) (simp add: InstallSchema_def split: prod.splits sum.splits)

lemma keeps_StoreManagerState: "keeps_apps (StoreManagerState E)"
  by (rule keeps_appsI) (simp add: StoreManagerState_def)

lemmas keeps_rules = keeps_bindL keeps_worldL keeps_tryL keeps_returnL keeps_yaml keeps_InstallSchema keeps_StoreManagerState

lemma keeps_chart: "keeps_apps (HelmChartFromTar E p)" "keeps_apps (chart_Render E vs h)"
  by (auto simp: HelmChartFromTar_def chart_Render_def renderTemplates_def Let_def intro!: keeps_rules)

lemma keeps_launchAction: "keeps_apps (launchAction E req)"
proof (rule keeps_appsI)
  fix s
  have "keeps_apps (Launch E ns tmpl args)" for ns tmpl args unfolding Launch_def by (intro keeps_rules)
  then show "amApps (fst (launchAction E req s)) = amApps s"
    by (simp add: launchAction_def keeps_apps_def split: option.splits)
qed

lemma keeps_forL: "(\<And>x. keeps_apps (f x)) \<Longrightarrow> keeps_apps (forL f xs)"
proof (induction xs)
  case (Cons x xs)
  then have "keeps_apps (bindL (f x) (\<lambda>_. forL f xs))" by (intro keeps_bindL) auto
  then show ?case by (simp add: keeps_apps_def)
qed (simp add: keeps_apps_def)

lemma keeps_appsD: "keeps_apps m \<Longrightarrow> m s = (s', r) \<Longrightarrow> amApps s' = amApps s"
  unfolding keeps_apps_def by (metis fst_conv)

lemma bindL_setL: "bindL (setL f) g s = g () (f s)"
  by (simp add: bindL_def setL_def)

lemma bindL_apps:
  assumes "bindL m f s = (s', r)" and "keeps_apps m"
  obtains (stops) "amApps s' = amApps s" "\<forall>b. r \<noteq> Val b"
  | (goes_on) a s1 where "m s = (s1, Val a)" "amApps s1 = amApps s" "f a s1 = (s', r)"
proof -
  obtain s1 x where m: "m s = (s1, x)" by (cases "m s")
  with assms(2) have "amApps s1 = amApps s" by (rule keeps_appsD)
  with m that assms(1) show ?thesis by (cases x) (auto simp: bindL_def)
qed

text \<open>An installation that fails before the application is registered leaves the applications alone; from
  then on it is registered, whether the first actions can be launched or not.\<close>

lemma installHelmChart_apps:
  assumes "installHelmChart E path s = (s', r)"
  obtains (failed) "amApps s' = amApps s" "\<forall>u. r \<noteq> Val u"
  | (registered) h0 h s1 s2 where "HelmChartFromTar E path s = (s1, Val h0)" "chart_Render E [] h0 s1 = (s2, Val h)"
      "amApps s' = apps_put (hcName h) (app_of h) (amApps s)"
proof -
  have inst: "keeps_apps (if b then chart_Install E h else returnL ())" for b h
    by (simp add: chart_Install_def keeps_rules)
  have last: "keeps_apps (bindL (StoreManagerState E) (\<lambda>_. forL (\<lambda>a. launchAction E (req a)) as))" for req as
    by (intro keeps_rules keeps_forL keeps_launchAction)
  from assms keeps_chart(1) show ?thesis unfolding installHelmChart_def
  proof (cases rule: bindL_apps)
    case (goes_on h0 s1)
    note tar = goes_on(1,2)
    from goes_on(3) keeps_chart(2) show ?thesis
    proof (cases rule: bindL_apps)
      case (goes_on h s2)
      note ren = goes_on(1,2)
      from goes_on(3) keeps_InstallSchema show ?thesis
      proof (cases rule: bindL_apps)
        case (goes_on u s3)
        note s3 = goes_on(2)
        from goes_on(3) keeps_worldL show ?thesis
        proof (cases rule: bindL_apps)
          case (goes_on v s4)
          note s4 = goes_on(2)
          from goes_on(3) inst show ?thesis
          proof (cases rule: bindL_apps)
            case (goes_on x s5)
            from goes_on(3)[unfolded bindL_setL] have "amApps s' = apps_put (hcName h) (app_of h) (amApps s5)"
              using keeps_appsD[OF last] by fastforce
            then show ?thesis using tar ren s3 s4 goes_on(2) registered by simp
          qed (use tar ren s3 s4 failed in simp)
        qed (use tar ren s3 failed in simp)
      qed (use tar ren failed in simp)
    qed (use tar failed in simp)
  qed (use failed in simp)
qed

lemma apps_put_set: "set (apps_put n a as) \<subseteq> insert (n, a) (set as)"
  by (induction n a as rule: apps_put.induct) auto

lemma apps_put_keys: "map fst (apps_put n a as) = (if n \<in> fst ` set as then map fst as else map fst as @ [n])"
  by (induction n a as rule: apps_put.induct) auto

lemma map_of_apps_put: "map_of (apps_put n a as) n = Some a"
  by (induction n a as rule: apps_put.induct) auto

lemma apps_ok_put: "apps_ok as \<Longrightarrow> apps_ok (apps_put (hcName h) (app_of h) as)"
  using apps_put_set[of "hcName h" "app_of h" as] by (auto simp: apps_ok_def apps_put_keys app_of_def)

lemma find_action_ok:
  "apps_ok as \<Longrightarrow> map_of as n = Some a \<Longrightarrow>
    find_action as n action = (case filter (\<lambda>x. acName x = action) (apActions a) of [] \<Rightarrow> None | x # _ \<Rightarrow> Some (apNamespace a, acTemplate x))"
proof (induction as)
  case (Cons p as)
  obtain m b where p: "p = (m, b)" by (cases p)
  have no: "find_action cs k action = None" if "\<forall>(j, c) \<in> set cs. apName c \<noteq> k" for cs k
    using that by (induction cs) auto
  from Cons.prems(1) p have ok: "apName b = m" "apps_ok as" "m \<notin> fst ` set as" "\<forall>(j, c) \<in> set as. apName c = j"
    by (auto simp: apps_ok_def)
  show ?case
  proof (cases "m = n")
    case True
    from ok(3,4) have "\<forall>(j, c) \<in> set as. apName c \<noteq> m" by force
    from no[OF this] True ok(1) p Cons.prems(2) show ?thesis by (simp split: list.splits)
  next
    case False
    with Cons.IH[OF ok(2)] Cons.prems(2) ok(1) p show ?thesis by simp
  qed
qed simp

lemma installHelmChart_ok: "apps_ok (amApps s) \<Longrightarrow> installHelmChart E path s = (s', r) \<Longrightarrow> apps_ok (amApps s')"
  by (erule installHelmChart_apps) (auto intro: apps_ok_put)

lemma handleInstall_cases:
  assumes "handleInstall E r upload tmp s = (s', x)"
  shows "amApps s' = amApps s \<or> (\<exists>p w y. installHelmChart E p (s\<lparr>amWorld := w\<rparr>) = (s', y))"
proof (cases "Method r = ''POST'' \<and> (\<exists>name content p w. upload = Inr (name, content) \<and> saveUpload E tmp name content (amWorld s) = (w, Inr p))")
  case True
  then obtain name content p w where up: "Method r = ''POST''" "upload = Inr (name, content)" "saveUpload E tmp name content (amWorld s) = (w, Inr p)" by blast
  obtain s1 y where y: "installHelmChart E p (s\<lparr>amWorld := w\<rparr>) = (s1, y)" by (cases "installHelmChart E p (s\<lparr>amWorld := w\<rparr>)")
  have "s1 = s'" using assms unfolding handleInstall_def by (cases y) (simp_all add: up y)
  with y show ?thesis by blast
next
  case False
  with assms show ?thesis unfolding handleInstall_def by (auto split: if_splits sum.splits prod.splits)
qed

lemma handleInstall_ok: "apps_ok (amApps s) \<Longrightarrow> handleInstall E r upload tmp s = (s', x) \<Longrightarrow> apps_ok (amApps s')"
proof (drule handleInstall_cases, elim disjE exE)
  fix p w y
  assume "apps_ok (amApps s)" "installHelmChart E p (s\<lparr>amWorld := w\<rparr>) = (s', y)"
  then show "apps_ok (amApps s')" using installHelmChart_ok[of "s\<lparr>amWorld := w\<rparr>" E p s' y] by simp
qed simp

lemma launchAction_apps: "launchAction E req s = (s', r) \<Longrightarrow> amApps s' = amApps s"
  by (rule keeps_appsD[OF keeps_launchAction])

lemma handleLaunchAction_apps: "amApps (fst (handleLaunchAction E body s)) = amApps s"
proof (cases "\<exists>doc req. body = Inr doc \<and> bindE doc (\<lambda>d. decode_actionReq d zero_actionReq) = Inr req")
  case True
  then obtain doc req where req: "body = Inr doc" "bindE doc (\<lambda>d. decode_actionReq d zero_actionReq) = Inr req" by blast
  obtain s' r where r: "launchAction E req s = (s', r)" by (cases "launchAction E req s")
  from launchAction_apps[OF this] show ?thesis unfolding handleLaunchAction_def by (cases r) (simp_all add: req r)
next
  case False
  then show ?thesis by (auto simp: handleLaunchAction_def split: sum.splits)
qed

lemma act_serve_ok: "apps_ok (amApps s) \<Longrightarrow> apps_ok (amApps (fst (act_serve E r s)))"
proof (cases r)
  case (InstallReq q upload tmp)
  moreover assume "apps_ok (amApps s)"
  moreover obtain s' x where h: "handleInstall E q upload tmp s = (s', x)" by (cases "handleInstall E q upload tmp s")
  ultimately show ?thesis using handleInstall_ok[OF _ h] by (cases x) auto
next
  case (LaunchReq body)
  moreover assume "apps_ok (amApps s)"
  ultimately show ?thesis by (simp add: handleLaunchAction_apps)
qed simp

interpretation act: service "act_serve E" "\<lambda>s. apps_ok (amApps s)" for E
  by unfold_locales (rule act_serve_ok)

section \<open>Properties\<close>

text \<open>An installed chart offers its actions. After any requests to a manager that started empty, and the
  successful installation of a chart, launching an action of the application renders the first template of
  that name in the chart and creates the pod in the namespace of the application; an action that the chart
  does not have is refused.
\<close>
theorem installed_actions_launch:
  assumes "amApps s0 = []" and "s = run_service (act_serve E) rs s0" and "installHelmChart E path s = (s', Val ())"
  shows "\<exists>h0 h s1 s2. HelmChartFromTar E path s = (s1, Val h0) \<and> chart_Render E [] h0 s1 = (s2, Val h)
    \<and> (\<forall>action args. launchAction E \<lparr>arApp = hcName h, arAction = action, arArgs = args\<rparr> s' =
        (case filter (\<lambda>x. acName x = action) (hcActions h) of
           [] \<Rightarrow> (s', Fail (''Action not found: '' @ hcName h @ '' '' @ action))
         | x # _ \<Rightarrow> Launch E (hcNamespace h) (acTemplate x) args s'))"
proof -
  have ok: "apps_ok (amApps s)" unfolding assms(2) by (rule act.run_inv) (simp add: assms(1) apps_ok_def)
  from assms(3) show ?thesis
  proof (cases rule: installHelmChart_apps)
    case (registered h0 h s1 s2)
    have ok': "apps_ok (amApps s')" by (rule installHelmChart_ok[OF ok assms(3)])
    have "map_of (amApps s') (hcName h) = Some (app_of h)" unfolding registered(3) by (rule map_of_apps_put)
    from find_action_ok[OF ok' this] have found: "find_action (amApps s') (hcName h) action = (case filter (\<lambda>x. acName x = action) (hcActions h) of
        [] \<Rightarrow> None | x # _ \<Rightarrow> Some (hcNamespace h, acTemplate x))" for action
      by (simp add: app_of_def split: list.split)
    have "\<forall>action args. launchAction E \<lparr>arApp = hcName h, arAction = action, arArgs = args\<rparr> s' =
        (case filter (\<lambda>x. acName x = action) (hcActions h) of
           [] \<Rightarrow> (s', Fail (''Action not found: '' @ hcName h @ '' '' @ action))
         | x # _ \<Rightarrow> Launch E (hcNamespace h) (acTemplate x) args s')"
      by (auto simp: launchAction_def found split: list.split)
    with registered(1,2) show ?thesis by blast
  qed simp
qed

section \<open>Witnesses\<close>

definition example_act_env :: "(string list, string) act_env" where
  "example_act_env = \<lparr>aeHelm = ''helm'', aeChdir = (\<lambda>_ w. (w, None)), aeRun = (\<lambda>_ w. (w, None)), aeMkdir = (\<lambda>_ w. (w, None)),
     aeOpen = (\<lambda>_ w. (w, None)), aeWrite = (\<lambda>_ _ w. (w, None)), aeRemoveAll = (\<lambda>_ w. (w, None)), aeRename = (\<lambda>_ _ w. (w, None)),
     aeRead = (\<lambda>p w. Inr p), aeChartYaml = (\<lambda>_. Inr (''a'', ''application'')), aeSchemaYaml = (\<lambda>_. Inr []),
     aeTriggersYaml = (\<lambda>_. Inr [\<lparr>tgName = ''t'', tgType = ''Image'', tgEvent = ''NEW'', tgAction = ''x''\<rparr>]),
     aeActionsYaml = (\<lambda>_. Inr [\<lparr>acName = ''x'', acTemplate = ''T''\<rparr>]), aeInitYaml = (\<lambda>_. Inr []),
     aePost = (\<lambda>_ w. (w, Inr (200, []))), aeNamespace = (\<lambda>_ w. (w, None)), aeStore = (\<lambda>_ w. (w, None)),
     aeRender = (\<lambda>tmpl _. Inr tmpl), aeCreatePod = (\<lambda>ns pod w. (pod # w, None))\<rparr>"

definition example_act_state :: "string list act_state" where
  "example_act_state = \<lparr>amApps = [], amWorld = []\<rparr>"

definition example_installed :: "string list act_state" where
  "example_installed = \<lparr>amApps = [(''a'', \<lparr>apName = ''a'', apNamespace = ''app-a'',
     apTriggers = [\<lparr>tgName = ''t'', tgType = ''Image'', tgEvent = ''NEW'', tgAction = ''x''\<rparr>],
     apActions = [\<lparr>acName = ''x'', acTemplate = ''T''\<rparr>]\<rparr>)], amWorld = []\<rparr>"

theorem installed_actions_launch_witness:
  "\<exists>h0 h s1 s2. HelmChartFromTar example_act_env ''/t/a.tar.gz'' example_act_state = (s1, Val h0)
    \<and> chart_Render example_act_env [] h0 s1 = (s2, Val h)
    \<and> (\<forall>action args. launchAction example_act_env \<lparr>arApp = hcName h, arAction = action, arArgs = args\<rparr> example_installed =
        (case filter (\<lambda>x. acName x = action) (hcActions h) of
           [] \<Rightarrow> (example_installed, Fail (''Action not found: '' @ hcName h @ '' '' @ action))
         | x # _ \<Rightarrow> Launch example_act_env (hcNamespace h) (acTemplate x) args example_installed))"
proof -
  have "installHelmChart example_act_env ''/t/a.tar.gz'' example_act_state = (example_installed, Val ())" by code_simp
  then show ?thesis
    by (intro installed_actions_launch[of example_act_state example_act_state _ "[]"]) (simp_all add: example_act_state_def)
qed

end
