(* ===== verification/Events.thy ===== *)
theory Events
  imports Actions
begin

text \<open>
  The event processor (\<open>src/core/events\<close>): every half minute it asks the GraphQL API for new events, takes the
  first one, asks the application manager which actions it triggers, launches them, and marks the event as
  done. The API is a parameter; the application manager is the one of \<open>Actions\<close>.
\<close>

section \<open>The store of events\<close>

record Event =
  evId :: string
  evState :: string
  evNodeId :: string

definition EventStateNew :: string where "EventStateNew = ''NEW''"

text \<open>The texts of the queries, line by line.\<close>

definition ev_lines :: "string list \<Rightarrow> string" where
  "ev_lines ls = join_with [CHR 0x0A] ls"

definition getAllNewImageEventsTmpl :: string where
  "getAllNewImageEventsTmpl = ev_lines [''{'', ''  queryImageEvent(filter: {'', ''    state: {'', ''      eq: NEW'', ''      le: NEW'',
     ''      lt: NEW'', ''      ge: NEW'', ''      gt: NEW'', ''    }'', ''  }) {'', ''    id'', ''    node {'', ''      id'', ''    }'', ''  }'', ''}'']"

definition markEventDoneTmpl :: "string \<Rightarrow> string" where
  "markEventDoneTmpl i = ev_lines [''mutation {'', ''  updateImageEvent(input: {'', ''    filter: {'',
     ''      id: ['' @ [CHR 0x22] @ i @ [CHR 0x22] @ '']'', ''    },'', ''    set: {'', ''      state: DONE'', ''    }'', ''  }) {'', ''    numUids'', ''  }'', ''}'']"

definition query_doc :: "string \<Rightarrow> json" where
  "query_doc q = JObj [(''query'', JStr q)]"

record gqlEvent =
  geId :: string
  geState :: string
  geNode :: string

definition decode_gqlEvent :: "gqlEvent decoder" where
  "decode_gqlEvent = decode_struct
     [''id'' \<mapsto> on_field geId geId_update decode_string,
      ''state'' \<mapsto> on_field geState geState_update decode_string,
      ''node'' \<mapsto> on_field geNode geNode_update (decode_struct [''id'' \<mapsto> decode_string])]"

definition zero_gqlEvent :: gqlEvent where
  "zero_gqlEvent = \<lparr>geId = [], geState = [], geNode = []\<rparr>"

definition decode_gqlData :: "gqlEvent list decoder" where
  "decode_gqlData = decode_struct [''queryimageevent'' \<mapsto> decode_list decode_gqlEvent zero_gqlEvent]"

text \<open>A request to the API: an error, or its answer, which may fail to be a document.\<close>

type_synonym 'd gql_post = "json \<Rightarrow> 'd \<Rightarrow> 'd \<times> (string, (string, json) result) result"

definition GetEventsInState :: "'d gql_post \<Rightarrow> 'd \<Rightarrow> 'd \<times> (string, Event list) result" where
  "GetEventsInState post d =
     (case post (query_doc getAllNewImageEventsTmpl) d of
        (d', r) \<Rightarrow>
          (d', bindE r (\<lambda>body. bindE body (\<lambda>doc. bindE (decode_gqlData doc []) (\<lambda>es.
             Inr (map (\<lambda>e. \<lparr>evId = geId e, evState = EventStateNew, evNodeId = geNode e\<rparr>) es))))))"

definition MarkEventDone :: "'d gql_post \<Rightarrow> Event \<Rightarrow> 'd \<Rightarrow> 'd \<times> string option" where
  "MarkEventDone post e d =
     (case post (query_doc (markEventDoneTmpl (evId e))) d of
        (d', Inl err) \<Rightarrow> (d', Some err)
      | (d', Inr _) \<Rightarrow> (d', None))"

section \<open>The client of the application manager\<close>

record 'm manager_env =
  mgGet :: "string \<Rightarrow> 'm \<Rightarrow> 'm \<times> (string, json) result"
  mgPost :: "string \<Rightarrow> json \<Rightarrow> 'm \<Rightarrow> 'm \<times> string option"
  mgAddr :: string

record ev_trigger =
  etApp :: string
  etAction :: string

definition decode_ev_trigger :: "ev_trigger decoder" where
  "decode_ev_trigger = decode_struct
     [''app'' \<mapsto> on_field etApp etApp_update decode_string, ''action'' \<mapsto> on_field etAction etAction_update decode_string]"

definition QueryTriggers :: "'m manager_env \<Rightarrow> string \<Rightarrow> string \<Rightarrow> 'm \<Rightarrow> 'm \<times> (string, ev_trigger list) result" where
  "QueryTriggers M typ ev m =
     (case mgGet M (mgAddr M @ ''/triggers?trigger_on_type='' @ typ @ ''&trigger_on_event='' @ ev) m of
        (m', r) \<Rightarrow> (m', bindE r (\<lambda>doc. decode_list decode_ev_trigger \<lparr>etApp = [], etAction = []\<rparr> doc [])))"

definition ev_LaunchAction :: "'m manager_env \<Rightarrow> string \<Rightarrow> string \<Rightarrow> json \<Rightarrow> 'm \<Rightarrow> 'm \<times> string option" where
  "ev_LaunchAction M app action args =
     mgPost M (mgAddr M @ ''/launch_action'') (JObj [(''app'', JStr app), (''action'', JStr action), (''args'', args)])"

section \<open>The processor\<close>

record processor =
  prPcloudApi :: string
  prObjectStoreApi :: string

definition args_doc :: "processor \<Rightarrow> string \<Rightarrow> json" where
  "args_doc P nodeId = JObj [(''Id'', JStr nodeId), (''PCloudApiAddr'', JStr (prPcloudApi P)), (''ObjectStoreAddr'', JStr (prObjectStoreApi P))]"

text \<open>One turn of the loop. Errors of launching and of marking are dropped.\<close>

definition processor_turn :: "'d gql_post \<Rightarrow> 'm manager_env \<Rightarrow> processor \<Rightarrow> 'd \<times> 'm \<Rightarrow> 'd \<times> 'm" where
  "processor_turn post M P w =
     (case w of (d, m) \<Rightarrow>
       (case GetEventsInState post d of
          (d1, Inl e) \<Rightarrow> (d1, m)
        | (d1, Inr []) \<Rightarrow> (d1, m)
        | (d1, Inr (event # _)) \<Rightarrow>
            (case QueryTriggers M ''Image'' EventStateNew m of
               (m1, Inl e) \<Rightarrow> (d1, m1)
             | (m1, Inr triggers) \<Rightarrow>
                 (fst (MarkEventDone post event d1),
                  fold (\<lambda>t m. fst (ev_LaunchAction M (etApp t) (etAction t) (args_doc P (evNodeId event)) m)) triggers m1))))"

definition processor_Start :: "'d gql_post \<Rightarrow> 'm manager_env \<Rightarrow> processor \<Rightarrow> nat \<Rightarrow> 'd \<times> 'm \<Rightarrow> 'd \<times> 'm" where
  "processor_Start post M P n = (processor_turn post M P ^^ n)"

section \<open>The processor and the application manager\<close>

text \<open>The form of an address, for values without escapes.\<close>

definition form_of :: "string \<Rightarrow> string \<rightharpoonup> string list" where
  "form_of q k =
     (let vs = map (\<lambda>kv. join_with ''='' (tl kv)) (filter (\<lambda>kv. hd kv = k) (map (split_on (CHR ''='')) (split_on (CHR ''&'') q))) in
      if vs = [] then None else Some vs)"

text \<open>The requests of the client reach the handlers of the manager at the same address; what is not a
  document can not be decoded by the client, and a dropped connection is an error.\<close>

definition served_get :: "string \<Rightarrow> string \<Rightarrow> 'c act_state \<Rightarrow> 'c act_state \<times> (string, json) result" where
  "served_get addr url s =
     (s, if has_prefix url (addr @ ''/triggers?'')
         then (case handleTriggers (empty_request\<lparr>Form := form_of (drop (length (addr @ ''/triggers?'')) url)\<rparr>) s of
                 Page doc \<Rightarrow> Inr doc
               | _ \<Rightarrow> Inl ''unexpected answer'')
         else Inl ''unexpected answer'')"

definition served_post :: "('c, 'p) act_env \<Rightarrow> string \<Rightarrow> string \<Rightarrow> json \<Rightarrow> 'c act_state \<Rightarrow> 'c act_state \<times> string option" where
  "served_post E addr url doc s =
     (if url = addr @ ''/launch_action''
      then (case handleLaunchAction E (Inr (Inr doc)) s of
              (s', Aborted) \<Rightarrow> (s', Some ''EOF'')
            | (s', _) \<Rightarrow> (s', None))
      else (s, Some ''unexpected answer''))"

definition served_manager :: "('c, 'p) act_env \<Rightarrow> string \<Rightarrow> 'c act_state manager_env" where
  "served_manager E addr = \<lparr>mgGet = served_get addr, mgPost = served_post E addr, mgAddr = addr\<rparr>"

text \<open>What the processing of an event is meant to do: every action that an application has a trigger for
  is launched with the node of the event.\<close>

definition launch_all :: "('c, 'p) act_env \<Rightarrow> processor \<Rightarrow> string \<Rightarrow> 'c act_state \<Rightarrow> 'c act_state" where
  "launch_all E P nodeId s =
     fold (\<lambda>(app, action) s. fst (launchAction E \<lparr>arApp = app, arAction = action, arArgs = args_doc P nodeId\<rparr> s))
       (matching_triggers (amApps s) ''Image'' ''NEW'') s"

text \<open>What the code relies on of the API: \<open>news\<close> are the new events, each with its identifier and its node.
  The query lists them, and marking one takes it out.\<close>

definition event_doc :: "string \<times> string \<Rightarrow> json" where
  "event_doc e = JObj [(''id'', JStr (fst e)), (''node'', JObj [(''id'', JStr (snd e))])]"

definition event_queue :: "'d gql_post \<Rightarrow> ('d \<Rightarrow> (string \<times> string) list) \<Rightarrow> bool" where
  "event_queue post news \<longleftrightarrow>
     (\<forall>d. post (query_doc getAllNewImageEventsTmpl) d = (d, Inr (Inr (JObj [(''queryImageEvent'', JArr (map event_doc (news d)))]))))
   \<and> (\<forall>d i. \<exists>d' body. post (query_doc (markEventDoneTmpl i)) d = (d', Inr body) \<and> news d' = filter (\<lambda>e. fst e \<noteq> i) (news d))"

section \<open>Correctness\<close>

lemma event_field_names: "to_lower ''queryImageEvent'' = ''queryimageevent''" "to_lower ''id'' = ''id''" "to_lower ''node'' = ''node''"
  "to_lower ''app'' = ''app''" "to_lower ''action'' = ''action''" "to_lower ''args'' = ''args''"
  by code_simp+

lemma decode_event_doc: "decode_gqlEvent (event_doc (i, n)) zero_gqlEvent = Inr \<lparr>geId = i, geState = [], geNode = n\<rparr>"
  by (simp add: decode_gqlEvent_def event_doc_def event_field_names on_field_def zero_gqlEvent_def)

lemma decode_event_docs:
  "decode_elems decode_gqlEvent zero_gqlEvent (map event_doc es) [] = Inr (map (\<lambda>(i, n). \<lparr>geId = i, geState = [], geNode = n\<rparr>) es)"
proof (induction es)
  case (Cons e es)
  then show ?case by (cases e) (simp add: decode_event_doc)
qed simp

lemma GetEvents_queue:
  assumes "event_queue post news"
  shows "GetEventsInState post d = (d, Inr (map (\<lambda>(i, n). \<lparr>evId = i, evState = EventStateNew, evNodeId = n\<rparr>) (news d)))"
proof -
  have "decode_gqlData (JObj [(''queryImageEvent'', JArr (map event_doc (news d)))]) [] =
      Inr (map (\<lambda>(i, n). \<lparr>geId = i, geState = [], geNode = n\<rparr>) (news d))"
    by (simp add: decode_gqlData_def event_field_names decode_event_docs)
  with assms show ?thesis by (simp add: GetEventsInState_def event_queue_def comp_def split_def)
qed

section \<open>What the processor expects of the manager\<close>

text \<open>
  The contract of the client: asking for triggers tells the triggered actions and changes nothing, and
  launching an action has its effect on the manager, whatever is answered. The processing of the queue is
  proved once for every such manager.
\<close>

locale action_manager =
  fixes M :: "'m manager_env"
    and triggered :: "'m \<Rightarrow> (string \<times> string) list"
    and launch :: "string \<Rightarrow> string \<Rightarrow> json \<Rightarrow> 'm \<Rightarrow> 'm"
  assumes query: "QueryTriggers M ''Image'' EventStateNew m = (m, Inr (map (\<lambda>(a, x). \<lparr>etApp = a, etAction = x\<rparr>) (triggered m)))"
    and launches: "fst (ev_LaunchAction M app action (args_doc P n) m) = launch app action (args_doc P n) m"
begin

definition handle_event :: "processor \<Rightarrow> string \<Rightarrow> 'm \<Rightarrow> 'm" where
  "handle_event P nodeId m = fold (\<lambda>(app, action). launch app action (args_doc P nodeId)) (triggered m) m"

lemma turn:
  assumes "event_queue post news" and "news d = (i, n) # es"
  shows "\<exists>d'. processor_turn post M P (d, m) = (d', handle_event P n m) \<and> news d' = filter (\<lambda>e. fst e \<noteq> i) (news d)"
proof -
  from assms(1) obtain d' body where d': "post (query_doc (markEventDoneTmpl i)) d = (d', Inr body)" "news d' = filter (\<lambda>e. fst e \<noteq> i) (news d)"
    unfolding event_queue_def by blast
  have "fold (\<lambda>t m. fst (ev_LaunchAction M (etApp t) (etAction t) (args_doc P n) m)) (map (\<lambda>(a, x). \<lparr>etApp = a, etAction = x\<rparr>) ts) m =
      fold (\<lambda>(app, action). launch app action (args_doc P n)) ts m" for ts m
    by (induction ts arbitrary: m) (auto simp: launches)
  then have "processor_turn post M P (d, m) = (d', handle_event P n m)"
    unfolding processor_turn_def prod.case GetEvents_queue[OF assms(1)] assms(2)
    by (simp add: query MarkEventDone_def d'(1) handle_event_def)
  with d'(2) show ?thesis by blast
qed

lemma idle: "event_queue post news \<Longrightarrow> news d = [] \<Longrightarrow> processor_turn post M P (d, m) = (d, m)"
  by (simp add: processor_turn_def GetEvents_queue)

lemma queue_is_processed:
  assumes "event_queue post news" and "distinct (map fst (news d))"
  shows "\<exists>d'. processor_Start post M P n (d, m) = (d', fold (\<lambda>e. handle_event P (snd e)) (take n (news d)) m) \<and> news d' = drop n (news d)"
  using assms(2)
proof (induction n arbitrary: d m)
  case (Suc n)
  have start: "processor_Start post M P (Suc n) w = processor_Start post M P n (processor_turn post M P w)" for w
    by (simp add: processor_Start_def funpow_swap1)
  show ?case
  proof (cases "news d")
    case Nil
    with Suc.IH[OF Suc.prems, of m] show ?thesis by (simp add: start idle[OF assms(1) Nil])
  next
    case (Cons e es)
    obtain i k where e: "e = (i, k)" by (cases e)
    from turn[OF assms(1) Cons[unfolded e]] obtain d1 where
      d1: "processor_turn post M P (d, m) = (d1, handle_event P k m)" "news d1 = filter (\<lambda>e. fst e \<noteq> i) (news d)" by blast
    from Suc.prems Cons e have "i \<notin> fst ` set es" "distinct (map fst es)" by auto
    then have "filter (\<lambda>e. fst e \<noteq> i) es = es" by (auto simp: filter_id_conv)
    with d1(2) Cons e have new: "news d1 = es" by simp
    with Suc.IH[of d1 "handle_event P k m"] \<open>distinct (map fst es)\<close> show ?thesis
      by (simp add: start d1(1) Cons e)
  qed
qed (simp add: processor_Start_def)

end

section \<open>The manager keeps the contract\<close>

lemma decode_triggers:
  "decode_list decode_ev_trigger \<lparr>etApp = [], etAction = []\<rparr> (encode_triggers ts) [] = Inr (map (\<lambda>(a, x). \<lparr>etApp = a, etAction = x\<rparr>) ts)"
proof (cases "ts = []")
  case False
  have "decode_elems decode_ev_trigger \<lparr>etApp = [], etAction = []\<rparr> (map (\<lambda>(app, action). JObj [(''app'', JStr app), (''action'', JStr action)]) ts) []
      = Inr (map (\<lambda>(a, x). \<lparr>etApp = a, etAction = x\<rparr>) ts)"
  proof (induction ts)
    case (Cons t ts)
    then show ?case by (cases t) (simp add: decode_ev_trigger_def event_field_names on_field_def)
  qed simp
  with False show ?thesis by (simp add: encode_triggers_def)
qed (simp add: encode_triggers_def)

lemma form_of_triggers:
  "form_of ''trigger_on_type=Image&trigger_on_event=NEW'' ''trigger_on_type'' = Some [''Image'']"
  "form_of ''trigger_on_type=Image&trigger_on_event=NEW'' ''trigger_on_event'' = Some [''NEW'']"
  by code_simp+

lemma served_triggers:
  "QueryTriggers (served_manager E addr) ''Image'' EventStateNew s =
    (s, Inr (map (\<lambda>(a, x). \<lparr>etApp = a, etAction = x\<rparr>) (matching_triggers (amApps s) ''Image'' ''NEW'')))"
proof -
  have url: "addr @ ''/triggers?trigger_on_type='' @ ''Image'' @ ''&trigger_on_event='' @ EventStateNew =
      (addr @ ''/triggers?'') @ ''trigger_on_type=Image&trigger_on_event=NEW''" by (simp add: EventStateNew_def)
  have "served_get addr ((addr @ ''/triggers?'') @ ''trigger_on_type=Image&trigger_on_event=NEW'') s =
      (s, Inr (encode_triggers (matching_triggers (amApps s) ''Image'' ''NEW'')))"
    unfolding served_get_def by (simp add: has_prefix_def handleTriggers_def empty_request_def form_of_triggers)
  then show ?thesis unfolding QueryTriggers_def served_manager_def manager_env.select_convs url by (simp add: decode_triggers)
qed

lemma served_launch:
  "fst (ev_LaunchAction (served_manager E addr) app action (args_doc P n) s) =
    fst (launchAction E \<lparr>arApp = app, arAction = action, arArgs = args_doc P n\<rparr> s)"
proof -
  have req: "decode_actionReq (JObj [(''app'', JStr app), (''action'', JStr action), (''args'', args_doc P n)]) zero_actionReq =
      Inr \<lparr>arApp = app, arAction = action, arArgs = args_doc P n\<rparr>"
    by (simp add: decode_actionReq_def zero_actionReq_def event_field_names on_field_def args_doc_def)
  obtain s' r where r: "launchAction E \<lparr>arApp = app, arAction = action, arArgs = args_doc P n\<rparr> s = (s', r)"
    by (cases "launchAction E \<lparr>arApp = app, arAction = action, arArgs = args_doc P n\<rparr> s")
  show ?thesis by (cases r) (simp_all add: ev_LaunchAction_def served_manager_def served_post_def handleLaunchAction_def req r)
qed

interpretation srv: action_manager "served_manager E addr" "\<lambda>s. matching_triggers (amApps s) ''Image'' ''NEW''"
    "\<lambda>app action args s. fst (launchAction E \<lparr>arApp = app, arAction = action, arArgs = args\<rparr> s)" for E addr
  by unfold_locales (rule served_triggers, rule served_launch)

section \<open>Properties\<close>

text \<open>
  C11: Every event is processed once and in order. With the application manager behind the processor, after
  \<open>n\<close> turns of the loop the first \<open>n\<close> new events are not new any more and the others still are, and the
  manager has launched, for these events in order and for each of them once, every action that an
  application has a trigger for, with the node of the event. An action that can not be launched is not
  tried again.
\<close>
theorem events_are_processed_once:
  assumes "event_queue post news" and "distinct (map fst (news d))"
  shows "\<exists>d'. processor_Start post (served_manager E addr) P n (d, s) = (d', fold (\<lambda>e. launch_all E P (snd e)) (take n (news d)) s)
    \<and> news d' = drop n (news d)"
  using srv.queue_is_processed[OF assms, of E addr P n s] unfolding srv.handle_event_def launch_all_def .

section \<open>Witnesses\<close>

definition example_event_post :: "(string \<times> string) list gql_post" where
  "example_event_post doc d =
     (if doc = query_doc getAllNewImageEventsTmpl then (d, Inr (Inr (JObj [(''queryImageEvent'', JArr (map event_doc d))])))
      else (filter (\<lambda>e. doc \<noteq> query_doc (markEventDoneTmpl (fst e))) d, Inr (Inr JNull)))"

lemma markEventDone_inj: "markEventDoneTmpl i = markEventDoneTmpl j \<longleftrightarrow> i = j" "markEventDoneTmpl i \<noteq> getAllNewImageEventsTmpl"
  by (simp_all add: markEventDoneTmpl_def getAllNewImageEventsTmpl_def ev_lines_def)

lemma example_event_queue: "event_queue example_event_post (\<lambda>d. d)"
  by (auto simp: event_queue_def example_event_post_def query_doc_def markEventDone_inj intro!: filter_cong)

theorem events_are_processed_once_witness:
  "\<exists>d'. processor_Start example_event_post (served_manager example_act_env ''m'') \<lparr>prPcloudApi = ''p'', prObjectStoreApi = ''o''\<rparr> 1
      ([(''1'', ''a''), (''2'', ''b'')], example_installed) =
      (d', launch_all example_act_env \<lparr>prPcloudApi = ''p'', prObjectStoreApi = ''o''\<rparr> ''a'' example_installed) \<and> d' = [(''2'', ''b'')]"
  using events_are_processed_once[OF example_event_queue, of "[(''1'', ''a''), (''2'', ''b'')]" example_act_env "''m''"
    "\<lparr>prPcloudApi = ''p'', prObjectStoreApi = ''o''\<rparr>" 1 example_installed] by simp

end
