(* ===== verification/Waitlist.thy ===== *)
theory Waitlist
  imports Json
begin

text \<open>
  The waiting list (\<open>src/apps/dodo/main.go\<close>): a form is checked field by field and becomes a row of a table,
  in a transaction of its own. The type of floating point numbers and their parser are parameters.
\<close>

section \<open>Forms\<close>

type_synonym form = "string \<rightharpoonup> string list"

record 'f waitlist_entry =
  weEmail :: string
  weInstallationType :: string
  weNumMembers :: int
  weApps :: "string list"
  wePayPerMonth :: 'f
  wePrepayFullYear :: bool
  weThoughts :: string

definition getFormValues :: "form \<Rightarrow> string \<Rightarrow> string list" where
  "getFormValues f name = (case f name of None \<Rightarrow> [] | Some vs \<Rightarrow> vs)"

definition wl_getFormValue :: "form \<Rightarrow> string \<Rightarrow> (string, string) result" where
  "wl_getFormValue f name =
     (case f name of
        None \<Rightarrow> Inl (name @ '' is required'')
      | Some [] \<Rightarrow> Inl (name @ '' is required'')
      | Some [v] \<Rightarrow> Inr v
      | Some _ \<Rightarrow> Inl (name @ '' too many values''))"

definition getFormValueInt :: "form \<Rightarrow> string \<Rightarrow> (string, int) result" where
  "getFormValueInt f name =
     bindE (wl_getFormValue f name) (\<lambda>v. case Atoi v of None \<Rightarrow> Inl (''strconv.Atoi: parsing '' @ v) | Some i \<Rightarrow> Inr i)"

definition ParseBool :: "string \<Rightarrow> (string, bool) result" where
  "ParseBool s =
     (if s \<in> set [''1'', ''t'', ''T'', ''true'', ''TRUE'', ''True''] then Inr True
      else if s \<in> set [''0'', ''f'', ''F'', ''false'', ''FALSE'', ''False''] then Inr False
      else Inl (''strconv.ParseBool: parsing '' @ s))"

definition getFormValueBool :: "form \<Rightarrow> string \<Rightarrow> (string, bool) result" where
  "getFormValueBool f name = bindE (wl_getFormValue f name) ParseBool"

definition getFormValueFloat64 :: "(string \<Rightarrow> (string, 'f) result) \<Rightarrow> form \<Rightarrow> string \<Rightarrow> (string, 'f) result" where
  "getFormValueFloat64 parseFloat f name = bindE (wl_getFormValue f name) parseFloat"

definition NewEntry :: "(string \<Rightarrow> (string, 'f) result) \<Rightarrow> form \<Rightarrow> (string, 'f waitlist_entry) result" where
  "NewEntry parseFloat f =
     bindE (wl_getFormValue f ''email'') (\<lambda>email.
     bindE (wl_getFormValue f ''installation_type'') (\<lambda>typ.
     bindE (getFormValueInt f ''num_members'') (\<lambda>members.
     bindE (getFormValueFloat64 parseFloat f ''pay_per_month'') (\<lambda>pay.
     bindE (getFormValueBool f ''pay_full_year'') (\<lambda>prepay.
     bindE (wl_getFormValue f ''thoughts'') (\<lambda>thoughts.
     Inr \<lparr>weEmail = email, weInstallationType = typ, weNumMembers = members, weApps = getFormValues f ''apps'',
       wePayPerMonth = pay, wePrepayFullYear = prepay, weThoughts = thoughts\<rparr>))))))"

section \<open>The table\<close>

text \<open>A row as it is inserted: the applications are one text.\<close>

type_synonym 'f waitlist_row = "string \<times> string \<times> int \<times> string \<times> 'f \<times> bool \<times> string"

definition row_of :: "'f waitlist_entry \<Rightarrow> 'f waitlist_row" where
  "row_of e = (weEmail e, weInstallationType e, weNumMembers e, join_with '','' (weApps e), wePayPerMonth e, wePrepayFullYear e, weThoughts e)"

text \<open>The committed rows, and the number of transactions that were begun and not ended.\<close>

record 'f waitlist_db =
  wdRows :: "'f waitlist_row list"
  wdOpen :: nat

text \<open>Each of the four calls may fail. A transaction ends with its commit, whether that succeeds or not.\<close>

datatype wl_step = WBegin | WPrepare | WExec | WCommit

definition addToWaitlist :: "(wl_step \<Rightarrow> string option) \<Rightarrow> 'f waitlist_entry \<Rightarrow> 'f waitlist_db \<Rightarrow> 'f waitlist_db \<times> string option" where
  "addToWaitlist F e db =
     (case F WBegin of
        Some err \<Rightarrow> (db, Some err)
      | None \<Rightarrow>
          (let db1 = db\<lparr>wdOpen := wdOpen db + 1\<rparr> in
           case F WPrepare of
             Some err \<Rightarrow> (db1, Some err)
           | None \<Rightarrow>
               (case F WExec of
                  Some err \<Rightarrow> (db1, Some err)
                | None \<Rightarrow>
                    (case F WCommit of
                       Some err \<Rightarrow> (db, Some err)
                     | None \<Rightarrow> (db\<lparr>wdRows := wdRows db @ [row_of e]\<rparr>, None)))))"

definition waitlist :: "(wl_step \<Rightarrow> string option) \<Rightarrow> (string \<Rightarrow> (string, 'f) result) \<Rightarrow> request \<Rightarrow> 'f waitlist_db \<Rightarrow> 'f waitlist_db \<times> string response" where
  "waitlist F parseFloat r db =
     (if Method r \<noteq> ''POST'' then (db, HttpError StatusBadRequest ''Invalid request'')
      else
        (case formErr r of
           Some e \<Rightarrow> (db, HttpError StatusBadRequest ''Invalid request'')
         | None \<Rightarrow>
             (case NewEntry parseFloat (PostForm r) of
                Inl e \<Rightarrow> (db, HttpError StatusBadRequest (''Invalid request: '' @ e))
              | Inr e \<Rightarrow>
                  (case addToWaitlist F e db of
                     (db', Some err) \<Rightarrow> (db', HttpError StatusInternalServerError err)
                   | (db', None) \<Rightarrow> (db', Page ''ok'')))))"

section \<open>Properties\<close>

text \<open>A row is added exactly when the page says so. Whatever the request and the faults of the database,
  either the answer is the page of success, the form was posted and is valid, and one row with its values
  is added after the others, or the answer is an error and the rows are the same; an error of preparing or
  executing the statement leaves its transaction open for good.
\<close>
theorem waitlist_row_iff_ok:
  "\<exists>db' resp. waitlist F parseFloat r db = (db', resp) \<and>
    (resp = Page ''ok'' \<and> wdOpen db' = wdOpen db \<and>
       (\<exists>e. Method r = ''POST'' \<and> NewEntry parseFloat (PostForm r) = Inr e \<and> wdRows db' = wdRows db @ [row_of e])
     \<or> (\<exists>status msg. resp = HttpError status msg) \<and> wdRows db' = wdRows db \<and>
       wdOpen db' = (if Method r = ''POST'' \<and> formErr r = None \<and> is_ok (NewEntry parseFloat (PostForm r)) \<and> F WBegin = None
         \<and> (F WPrepare \<noteq> None \<or> F WExec \<noteq> None) then wdOpen db + 1 else wdOpen db))"
proof (cases "Method r = ''POST'' \<and> formErr r = None \<and> is_ok (NewEntry parseFloat (PostForm r))")
  case True
  then obtain e where "NewEntry parseFloat (PostForm r) = Inr e" by (auto elim: is_okE)
  with True show ?thesis
    by (cases "F WBegin"; cases "F WPrepare"; cases "F WExec"; cases "F WCommit")
      (simp_all add: waitlist_def addToWaitlist_def)
next
  case False
  then show ?thesis by (cases "NewEntry parseFloat (PostForm r)") (auto simp: waitlist_def split: option.splits)
qed

end
