(* ===== verification/Spec2Isabelle.thy ===== *)
theory Spec2Isabelle
  imports
    MembershipsServer AuthProxy AuthUi Accounts
    DnsStore ChallengeSolver PortAllocator
    AppManager InfraManager AppRepository AppStore Launcher
    EnvServer EnvTasks EnvSetup Bootstrap Welcome UrlShortener
    Headscale Renderer Transport VpnLoop VpnStorage Flux DnsRecords Kg Maddy ChartServer
    Rewrite Graphql Importer Events Waitlist
begin

text \<open>
  \<^bold>\<open>The program.\<close>  The repository holds the Go services of a self-hosted cloud. A machine is
  bootstrapped with an infrastructure: a git server (soft-serve) whose repositories are the only
  durable state, a controller that applies what is committed there, a DNS service, and the
  environment manager. Every environment has a repository of its own, with the installed
  applications as directories of YAML files that kustomizations link together. The parts and how
  they meet:

  \<^item> the environment manager takes a request for an environment, picks a name and a free subnet,
    writes the configuration and starts a tree of tasks; the leaves of that tree create the
    repository of the environment, install its services and connect it to the DNS service;
  \<^item> the welcome service of a fresh environment creates the first account, makes it the admin of
    the membership store, and installs the applications every user has;
  \<^item> the application manager installs, updates and removes applications: it derives the full
    configuration from what was entered, has the application rendered, commits the result, and
    asks the port allocator for ports; its server is the page on which this is done, and the
    launcher lists what is installed;
  \<^item> the login service, the accounts API and the authenticating proxy stand in front of the
    applications: an identity comes from a session of Kratos, a group check from the membership
    store;
  \<^item> the bootstrapper prepares the infrastructure on an empty cluster and hands it over to the
    environment manager; the challenge solver publishes the records that prove a domain to a
    certificate authority, and the registrar learns the records of a zone;
  \<^item> controllers keep the cluster in step with declared resources: users of the VPN server
    (headscale), rendered templates, transports of single ports, and the Nebula certificate
    authorities and nodes, which the Nebula API serves to the VPN client of a device; each of them
    is run again and again until its resource reports that it is ready;
  \<^item> uploaded objects become nodes of a graph database through the GraphQL API, which gives every
    new node an event; the event processor works these off and has the first application manager
    launch the actions that applications registered for them;
  \<^item> the URL shortener, the mail helpers, the chart server, the waiting list and the store of users
    of the knowledge graph are applications with a state of their own.

  \<^bold>\<open>Theories and sources.\<close>  All paths are below \<open>src/\<close>. The definitions have the names of the
  functions and types they translate, with a prefix where two components use one name.

  \<^item> \<open>Prelude\<close>: the error monad for Go's pairs of a value and an error, strings, decimal numbers,
    the collections of simplification rules, and the locale \<open>service\<close> (a state machine over calls
    and an invariant), which every server below interprets. \<open>Json\<close>, \<open>Paths\<close>: the part of
    \<open>encoding/json\<close> and of \<open>path/filepath\<close> in use.
  \<^item> \<open>Memberships\<close>, \<open>MembershipsServer\<close>: \<open>core/auth/memberships/main.go\<close>. The state is the record
    \<open>db\<close> of the five tables. Statements may be refused and the driver may or may not enforce
    foreign keys; both are parameters. The locale \<open>store_operation\<close> is the contract of the
    operations and is interpreted on each of them.
  \<^item> \<open>AuthProxy\<close>: \<open>core/auth/proxy/main.go\<close>. The locale \<open>group_source\<close> is what the proxy expects of
    the membership API; it is interpreted on the handlers of \<open>MembershipsServer\<close>.
  \<^item> \<open>AuthUi\<close>, \<open>Accounts\<close>: \<open>core/auth/ui\<close>, the login service with its client of Hydra, and the
    accounts API.
  \<^item> \<open>FileSystem\<close>, \<open>RecordsFile\<close>, \<open>DnsStore\<close>: \<open>core/dns-api\<close>. The file system is a map of absolute
    paths, the records are the backing array of a slice with its length, the store reads and
    writes the zone file around each change.
  \<^item> \<open>Repo\<close>: \<open>core/installer/soft\<close> and \<open>core/installer/kustomization.go\<close>. A repository is a
    worktree, an index of what is committed and a remote; \<open>Do\<close> is a transaction.
  \<^item> \<open>PortAllocator\<close>: \<open>core/port-allocator/main.go\<close>.
  \<^item> \<open>Derive\<close>: \<open>schema.go\<close> and \<open>derived.go\<close> of \<open>core/installer\<close>. \<open>AppManager\<close>, \<open>InfraManager\<close>:
    \<open>app.go\<close> and \<open>app_manager.go\<close> there. \<open>AppRepository\<close>: \<open>app_repository.go\<close>. \<open>AppStore\<close>,
    \<open>Launcher\<close>: \<open>welcome/appmanager.go\<close> and \<open>welcome/launcher.go\<close>.
  \<^item> \<open>EnvNetwork\<close>, \<open>EnvServer\<close>: \<open>welcome/env.go\<close> with \<open>name.go\<close> and \<open>namespace.go\<close>.
  \<^item> \<open>Tasks\<close>, \<open>EnvTasks\<close>, \<open>EnvSetup\<close>: \<open>core/installer/tasks\<close>. \<open>Tasks\<close> is the engine as an inductive
    step relation on trees, \<open>EnvTasks\<close> the trees that the code builds, \<open>EnvSetup\<close> the bodies of their
    leaves. \<open>Welcome\<close>: \<open>welcome/welcome.go\<close>.
  \<^item> \<open>Program\<close>, \<open>Bootstrap\<close>: \<open>core/installer/bootstrapper.go\<close> and \<open>core/installer/cmd/bootstrap.go\<close>.
    \<open>Program\<close> has the combinators for programs on a world of outside services that may fail, panic
    or not return.
  \<^item> \<open>ChallengeSolver\<close>: \<open>core/dns-challenge-solver/main.go\<close>, over the handlers of \<open>DnsStore\<close>.
    \<open>DnsRecords\<close>: \<open>welcome/dns.go\<close> and the client of the registrar.
  \<^item> \<open>Kube\<close>: what the controllers share, a reconciler that is retried. Its locales are \<open>reconciler\<close>
    (a step that brings a resource closer to ready) and \<open>one_shot\<close> (a step that is refused once it
    happened). \<open>Headscale\<close>: \<open>core/headscale\<close>. \<open>Renderer\<close>: \<open>core/resource-renderer\<close>. \<open>Transport\<close>:
    \<open>core/tcp-udp-transport\<close>. \<open>Flux\<close>: \<open>core/fluxcd-reconciler/main.go\<close>.
  \<^item> \<open>Base64\<close>, \<open>NebulaCert\<close>, \<open>NebulaApi\<close>, \<open>NebulaController\<close>, \<open>NebulaIssue\<close>: \<open>core/nebula\<close>, with the
    encoding of stored keys, the certificates and their signatures, the API, the controllers, and
    the two together. \<open>VpnClient\<close>, \<open>VpnLoop\<close>: \<open>core/client/cmd/pcloud\<close>, the calls of the client, and
    its event loop with its goroutines and channels as an inductive step relation. \<open>VpnStorage\<close>: the
    configuration in the key chain of macOS.
  \<^item> \<open>Rewrite\<close>: \<open>core/installer/cmd/rewrite.go\<close>, on \<open>AppManager\<close> and \<open>AppRepository\<close>.
  \<^item> \<open>Importer\<close>: \<open>apps/minio/importer\<close>. \<open>Graphql\<close>: \<open>core/api\<close>; documents are trees with the pointers that
    may be nil, and a panic is an outcome. \<open>Actions\<close>: \<open>core/appmanager\<close>. \<open>Events\<close>: \<open>core/events\<close>;
    the locale \<open>action_manager\<close> is what the processor expects of the application manager, and is
    interpreted on the handlers of \<open>Actions\<close>.
  \<^item> \<open>UrlShortener\<close>: \<open>apps/url-shortener/main.go\<close>. \<open>Maddy\<close>: \<open>apps/maddy\<close>. \<open>ChartServer\<close>:
    \<open>apps/app-repository\<close>. \<open>Waitlist\<close>: \<open>apps/dodo/main.go\<close>. \<open>Kg\<close>: the users of \<open>core/kg\<close>, with the pointers that the memory store
    shares with its callers.

  Services outside the repository (Kratos, Hydra, Helm, the Kubernetes API, the git server's
  commands), the CUE evaluator, template engines and parsers of documents are functions in
  environment records that the definitions take as an argument. What the code relies on is a
  named predicate on that record (\<open>srv_env\<close>, \<open>alloc_env\<close> and the like), and each property that
  assumes one has a witness with a concrete environment. Random choices are the list of their
  draws, the clock is an argument, and a handler ends in a value that tells an answer from an
  error, a panic or a call that never returns.

  \<^bold>\<open>What is shown.\<close>

  \<^item> Memberships: well-formedness of the tables (keys, references, no cycle of groups) is kept by
    every request; only owners change a group; the transitive groups of a user are those reachable
    in the graph, although the search of the code walks and marks groups by name.
  \<^item> Proxy and login: a request is forwarded exactly when the user is in one of the groups, through
    the real membership handlers; the header and the subject that reach an application are the
    identity of the session. The header of the client survives next to it, which is recorded as
    a finding.
  \<^item> DNS: the handlers refine a set of records per name; a restart keeps the zone; serial numbers
    grow, with the wrap-around of 32 bits written out; deleting next to a duplicate panics.
  \<^item> Repositories: a transaction that succeeds is on the remote, kustomization lists behave as sets,
    and the chain of kustomizations links every application to the root.
  \<^item> Ports: an allocation adds one free port and is permanent.
  \<^item> Applications: an installed one is found with the values entered, a removed one is gone, the
    manager's page serves what was installed, the launcher lists in the order of its comparison;
    rejected values wipe the directory of the application (a finding).
  \<^item> Environments: subnets are unique along every history of requests, and disjoint; every outcome
    of a request is classified; a created environment is registered.
  \<^item> Tasks: every run of a started task ends, sequences run in order, and a failure is final;
    the provisioning leaves never dereference a nil pointer, connect the zone to the DNS gateway,
    and leave an environment whose first account becomes the admin.
  \<^item> Bootstrap: with services that answer, the bootstrapper ends with a registered configuration
    from which environments can be created, and its temporary key is removed.
  \<^item> DNS around the zone: a challenge that is presented is in the zone with its name and value, and
    printing a zone and parsing it again gives the registrar exactly its records.
  \<^item> Controllers: under failures that stop, retrying reaches ready, and a transport opens its port
    once; where a step can not be repeated, being interrupted between two steps is final. The names
    under which authorities are looked up make the controller of authorities never succeed on its
    own (a finding).
  \<^item> Nebula: a node that is approved gets a certificate that its authority signed and that is valid
    for its address; an approval does not check the signature it asks for (a finding). The client
    decrypts and installs what the API sends, and an invited device joins the network; its channels
    stay within their bounds, and two view events of a configured device can freeze its event loop
    for ever (a finding).
  \<^item> Events: the mutation of the importer names the uploaded object, the rewriting of a mutation adds
    exactly the events (taking them away gives back the query), the body of a request is read back as
    the query unless a quote in it is escaped (a finding), an installed chart offers its actions, and
    the processor with the application manager works through the queue of events, each once and in
    order.
  \<^item> Rewriting all applications makes one commit on the remote or none.
  \<^item> Applications: links of the shortener belong to the user that made them and keep working; a mail
    password is accepted exactly when a server accepts it; listed charts are served; a row is added
    to the waiting list exactly when its page says so; the knowledge graph never gets its first user
    (a finding).

  \<^bold>\<open>Bounds and loops.\<close>  The loops that poll the outside world, and the walk from an application to
  the root kustomization, are \<open>partial_function (option)\<close>, where \<open>None\<close> is a loop that does not
  return; the properties prove that they do return. The reading of invitations is one of them because it does not end on a
  malformed document. The sort of the launcher is written out for at most twelve elements, where
  \<open>sort.Slice\<close> is an insertion sort; beyond that it is a parameter with the contract of the locale
  \<open>slice_sort\<close>. No definition uses fuel. Addresses are integers with the width of the source
  written out, serial numbers and ports are words or bounded by the guard of the code.

  \<^bold>\<open>Abstractions.\<close>  The clones that the provisioning leaves make of one repository are one
  repository with its worktree, so that what a leaf leaves uncommitted is visible to the next;
  the code commits at the end of each leaf. Handlers run one at a time, and so do the operations on
  one store; the one interleaving that loses data (two additions to a zone) is proved separately in
  \<open>DnsStore\<close>.

  \<^bold>\<open>Not modelled.\<close>  Command-line entry points and flag parsing, apart from the bootstrap and the
  rewrite command, because they only wire the parts together; clients that only pass a request to
  Kubernetes, Helm or SSH; generated client sets and deep copies; the user interface of the desktop
  and Android clients, the key store of Android and the bindings to Java, which are calls of the
  platform;
  the start-up, logging and stubs of the knowledge graph; charts, shell scripts and templates of
  pages; the CUE sources of the applications, which are data of the evaluator; demonstrations of a
  few lines. Each is listed in the manifest with its reason.
\<close>

end
